(* ===== verification/Errors.thy ===== *)
theory Errors
  imports Main
begin

text \<open>
  The sentinel errors of the Go packages, one datatype per package, and their union
  \<open>gerr\<close>, the value of Go's \<open>error\<close> interface where it is not \<open>nil\<close>.
  \<open>errors.Is(err, domain.ErrX)\<close> is equality with the constructor.
  A constructor carries its package's name as a prefix where two packages declare the same
  identifier. \<open>SqlError\<close> is a PostgreSQL error that no adapter translates (the SQLSTATE
  code), \<open>ExtError\<close> an error of code outside the repository.
\<close>

section \<open>Sentinel errors\<close>

datatype todo_error =
    ErrInvalidTitle
  | ErrConflict
  | ErrTodoNotFound
  | ErrTodoDeleted
  | ErrAlreadyCompleted
  | ErrInvalidTimezone
  | ErrInvalidStatus
  | ErrInconsistentStatus
  | ErrMissingRestoreFields

datatype reminder_error =
    ErrMissingSchedule
  | ErrPlanAlreadyRevoked
  | ErrPlanExists
  | ErrPlanNotFound
  | ErrMissingDeliveryFields
  | ErrInvalidDeliveryChannel
  | ErrInvalidDeliveryAttemptCount
  | ErrInvalidSuppressionReason
  | ErrDeliveryNotSending
  | ErrDeliveryFinal
  | ErrReceiptNotApplicable
  | ErrDeliveryExists
  | ErrDeliveryNotFound

text \<open>The reminder ports' own sentinels; \<open>PermanentError\<close> carries the provider's code.\<close>

datatype reminder_port_error =
    ports_ErrTodoNotFound
  | ErrPermanent
  | PermanentError string

datatype identity_error =
    ErrInvalidPhone
  | ErrInvalidEmail
  | ErrInvalidCode
  | ErrChallengeNotFound
  | ErrChallengeExpired
  | ErrChallengeConsumed
  | ErrTooManyAttempts
  | ErrRateLimited
  | ErrUserNotFound
  | ErrSessionNotFound
  | ErrSessionInactive
  | ErrChannelNotFound
  | ErrChannelExists
  | ErrChannelAlreadyVerified
  | ErrInvalidChannelKind
  | ErrChannelCodeExpired
  | ErrRegistrationClosed
  | ErrIdentifierInvalid
  | ErrSmsUnavailable
  | ErrCodeDeliveryFailed

datatype investment_error =
    ErrInvalidInput
  | ErrOverflow
  | ErrNotFound
  | ErrDataNotConfigured
  | ErrDataStale
  | ErrInsufficientUniverse
  | ErrFactorUnavailable
  | ErrCorporateActionIncomplete
  | ErrInsufficientCash
  | ErrRiskLimit
  | ErrAutomationPaused
  | ErrVersionConflict
  | ErrIdempotencyConflict
  | ErrOrderNotCancellable

datatype conversation_error =
    ErrInvalidProposal
  | ErrConfirmationNotFound
  | ErrConfirmationConsumed
  | ErrConfirmationExpired
  | ErrUnsupportedConfirmationIntent
  | ErrConfirmationTodoVersionStale
  | conversation_ErrTodoNotFound
  | ErrTodoNotPending
  | ErrInvalidModelTurn
  | ErrInvalidSession
  | ErrSessionTitleInvalid
  | conversation_ErrSessionNotFound
  | ErrInvalidPage

datatype database_error =
    ErrAlreadyInTx
  | SqlError string

datatype river_error =
    ErrNoAmbientTransaction
  | ErrExecutorNotTransaction

datatype gerr =
    TodoErr todo_error
  | ReminderErr reminder_error
  | ReminderPortErr reminder_port_error
  | IdentityErr identity_error
  | InvestmentErr investment_error
  | ConversationErr conversation_error
  | DatabaseErr database_error
  | RiverErr river_error
  | ExtError string

text \<open>The adapter's untranslated SQL errors, by SQLSTATE.\<close>

abbreviation unique_violation :: gerr where
  "unique_violation \<equiv> DatabaseErr (SqlError ''23505'')"

abbreviation foreign_key_violation :: gerr where
  "foreign_key_violation \<equiv> DatabaseErr (SqlError ''23503'')"

abbreviation check_violation :: gerr where
  "check_violation \<equiv> DatabaseErr (SqlError ''23514'')"

end
