(* ===== verification/Prelude.thy ===== *)
theory Prelude
  imports Main "HOL-Library.Word" Errors
begin

text \<open>
  What the component theories share: the type of a Go function that returns
  \<open>(value, error)\<close> over a state, its combinators and a small Hoare logic for them,
  the few functions of Go's standard library the code uses (\<open>utf8.RuneCountInString\<close>,
  \<open>strconv.Itoa\<close>), instants, and lemmas on tables kept as lists of rows.
\<close>

named_theorems op_simps \<open>the combinators of operations unfolded\<close>
named_theorems valid_rules \<open>Hoare rules of the combinators\<close>

section \<open>Instants\<close>

text \<open>
  A \<open>time.Time\<close> is its instant: nanoseconds since the zero \<open>Time\<close>
  (January 1, year 1, UTC). Locations are not kept: the code compares instants only.
\<close>

type_synonym time = int

definition IsZero :: "time \<Rightarrow> bool" where
  "IsZero t \<longleftrightarrow> t = 0"

abbreviation Second :: int where "Second \<equiv> 1000000000"
abbreviation Minute :: int where "Minute \<equiv> 60 * Second"
abbreviation Hour :: int where "Hour \<equiv> 60 * Minute"

section \<open>Operations: a state, a value and an error\<close>

text \<open>
  A Go method with result \<open>(a, error)\<close> that reads and writes a state \<open>'s\<close>.
  \<open>Inl e\<close> is the return of a non-nil error, \<open>Inr a\<close> of a value with a nil error.
  The state after an error is kept: effects before an early return stay unless a
  transaction rolls them back.
\<close>

type_synonym ('s, 'a) op = "'s \<Rightarrow> (gerr + 'a) \<times> 's"

text \<open>A call that cannot fail (\<open>Now()\<close>, \<open>NewID()\<close>).\<close>

type_synonym ('s, 'a) act = "'s \<Rightarrow> 'a \<times> 's"

definition ok :: "'a \<Rightarrow> ('s, 'a) op" where
  "ok a = (\<lambda>s. (Inr a, s))"

definition fail :: "gerr \<Rightarrow> ('s, 'a) op" where
  "fail e = (\<lambda>s. (Inl e, s))"

definition ret :: "gerr + 'a \<Rightarrow> ('s, 'a) op" where
  "ret r = (\<lambda>s. (r, s))"

text \<open>\<open>tryE m f h\<close>: call \<open>m\<close>; \<open>f\<close> continues with the value, \<open>h\<close> with the error.\<close>

definition tryE :: "('s, 'a) op \<Rightarrow> ('a \<Rightarrow> ('s, 'b) op) \<Rightarrow> (gerr \<Rightarrow> ('s, 'b) op) \<Rightarrow> ('s, 'b) op" where
  "tryE m f h = (\<lambda>s. case m s of (Inl e, s') \<Rightarrow> h e s' | (Inr a, s') \<Rightarrow> f a s')"

text \<open>\<open>if err != nil { return err }\<close>.\<close>

definition bindE :: "('s, 'a) op \<Rightarrow> ('a \<Rightarrow> ('s, 'b) op) \<Rightarrow> ('s, 'b) op" where
  "bindE m f = tryE m f fail"

definition bindA :: "('s, 'a) act \<Rightarrow> ('a \<Rightarrow> ('s, 'b) op) \<Rightarrow> ('s, 'b) op" where
  "bindA m f = (\<lambda>s. case m s of (a, s') \<Rightarrow> f a s')"

text \<open>A loop \<open>for _, x := range xs\<close> whose body may return an error.\<close>

fun forE :: "'a list \<Rightarrow> ('a \<Rightarrow> ('s, unit) op) \<Rightarrow> ('s, unit) op" where
  "forE [] f = ok ()"
| "forE (x # xs) f = bindE (f x) (\<lambda>_. forE xs f)"

text \<open>The same with an accumulator the body updates.\<close>

fun foldE :: "'a list \<Rightarrow> 'b \<Rightarrow> ('a \<Rightarrow> 'b \<Rightarrow> ('s, 'b) op) \<Rightarrow> ('s, 'b) op" where
  "foldE [] b f = ok b"
| "foldE (x # xs) b f = bindE (f x b) (\<lambda>b'. foldE xs b' f)"

text \<open>An operation on a part of the state.\<close>

definition zoom :: "('s \<Rightarrow> 't) \<Rightarrow> ('t \<Rightarrow> 's \<Rightarrow> 's) \<Rightarrow> ('t, 'a) op \<Rightarrow> ('s, 'a) op" where
  "zoom get put m = (\<lambda>s. case m (get s) of (r, t) \<Rightarrow> (r, put t s))"

lemma ok_run [op_simps, simp]: "ok a s = (Inr a, s)"
  by (simp add: ok_def)

lemma fail_run [op_simps, simp]: "fail e s = (Inl e, s)"
  by (simp add: fail_def)

lemma ret_run [op_simps, simp]: "ret r s = (r, s)"
  by (simp add: ret_def)

lemma tryE_run [op_simps]:
  "tryE m f h s = (case m s of (Inl e, s') \<Rightarrow> h e s' | (Inr a, s') \<Rightarrow> f a s')"
  by (simp add: tryE_def)

lemma bindE_run [op_simps]:
  "bindE m f s = (case m s of (Inl e, s') \<Rightarrow> (Inl e, s') | (Inr a, s') \<Rightarrow> f a s')"
  by (simp add: bindE_def tryE_def split: prod.splits sum.splits)

lemma bindA_run [op_simps]: "bindA m f s = (case m s of (a, s') \<Rightarrow> f a s')"
  by (simp add: bindA_def)

lemma zoom_run [op_simps]:
  "zoom get put m s = (fst (m (get s)), put (snd (m (get s))) s)"
  by (simp add: zoom_def split: prod.splits)

lemma bindE_Inr_iff:
  "bindE m f s = (Inr b, s'') \<longleftrightarrow> (\<exists>a s'. m s = (Inr a, s') \<and> f a s' = (Inr b, s''))"
  by (auto simp: bindE_run split: prod.splits sum.splits)

lemma bindE_Inr_E:
  assumes "bindE m f s = (Inr b, s'')"
  obtains a s' where "m s = (Inr a, s')" and "f a s' = (Inr b, s'')"
  using assms by (auto simp: bindE_Inr_iff)

lemma bindA_iff: "bindA m f s = (r, s'') \<longleftrightarrow> (\<exists>a s'. m s = (a, s') \<and> f a s' = (r, s''))"
  by (auto simp: bindA_run split: prod.splits)

lemma bindE_of_Inr: "m s = (Inr a, s') \<Longrightarrow> bindE m f s = f a s'"
  by (simp add: bindE_run)

lemma bindE_of_Inl: "m s = (Inl e, s') \<Longrightarrow> bindE m f s = (Inl e, s')"
  by (simp add: bindE_run)

lemma tryE_of_Inr: "m s = (Inr a, s') \<Longrightarrow> tryE m f h s = f a s'"
  by (simp add: tryE_run)

lemma tryE_of_Inl: "m s = (Inl e, s') \<Longrightarrow> tryE m f h s = h e s'"
  by (simp add: tryE_run)

section \<open>A Hoare logic for operations\<close>

text \<open>
  \<open>valid P m Q E\<close>: from a state with \<open>P\<close>, a return of \<open>a\<close> establishes \<open>Q a\<close>
  and a return of the error \<open>e\<close> establishes \<open>E e\<close>.
\<close>

definition valid ::
    "('s \<Rightarrow> bool) \<Rightarrow> ('s, 'a) op \<Rightarrow> ('a \<Rightarrow> 's \<Rightarrow> bool) \<Rightarrow> (gerr \<Rightarrow> 's \<Rightarrow> bool) \<Rightarrow> bool" where
  "valid P m Q E \<longleftrightarrow>
     (\<forall>s. P s \<longrightarrow> (case m s of (Inl e, s') \<Rightarrow> E e s' | (Inr a, s') \<Rightarrow> Q a s'))"

lemma validI:
  assumes "\<And>s a s'. P s \<Longrightarrow> m s = (Inr a, s') \<Longrightarrow> Q a s'"
    and "\<And>s e s'. P s \<Longrightarrow> m s = (Inl e, s') \<Longrightarrow> E e s'"
  shows "valid P m Q E"
  using assms by (auto simp: valid_def split: prod.splits sum.splits)

lemma valid_InrD: "valid P m Q E \<Longrightarrow> P s \<Longrightarrow> m s = (Inr a, s') \<Longrightarrow> Q a s'"
  by (fastforce simp: valid_def)

lemma valid_InlD: "valid P m Q E \<Longrightarrow> P s \<Longrightarrow> m s = (Inl e, s') \<Longrightarrow> E e s'"
  by (fastforce simp: valid_def)

lemma valid_snd:
  "valid P m (\<lambda>_. Q) (\<lambda>_. Q) \<Longrightarrow> P s \<Longrightarrow> Q (snd (m s))"
  by (cases "m s"; cases "fst (m s)") (auto dest: valid_InrD valid_InlD)

lemma valid_weaken:
  assumes "valid P' m Q' E'" "\<And>s. P s \<Longrightarrow> P' s"
    and "\<And>a s. Q' a s \<Longrightarrow> Q a s" "\<And>e s. E' e s \<Longrightarrow> E e s"
  shows "valid P m Q E"
  using assms by (fastforce simp: valid_def split: prod.splits sum.splits)

lemma valid_pre: "valid P' m Q E \<Longrightarrow> (\<And>s. P s \<Longrightarrow> P' s) \<Longrightarrow> valid P m Q E"
  by (erule valid_weaken) auto

lemma valid_vacuous: "(\<And>s. \<not> P s) \<Longrightarrow> valid P m Q E"
  by (simp add: valid_def)

lemma valid_given: "(\<And>s. P s \<Longrightarrow> valid P m Q E) \<Longrightarrow> valid P m Q E"
  by (auto simp: valid_def)

lemma valid_ex: "(\<And>x. valid (P x) m Q E) \<Longrightarrow> valid (\<lambda>s. \<exists>x. P x s) m Q E"
  by (rule validI) (blast dest: valid_InrD valid_InlD)+

lemma valid_const: "(C \<Longrightarrow> valid P m Q E) \<Longrightarrow> valid (\<lambda>s. P s \<and> C) m Q E"
  by (auto simp: valid_def)

lemma valid_ok [valid_rules]: "valid (\<lambda>s. Q a s) (ok a) Q E"
  by (simp add: valid_def)

lemma valid_fail [valid_rules]: "valid (\<lambda>s. E e s) (fail e) Q E"
  by (simp add: valid_def)

lemma valid_ret [valid_rules]:
  "valid (\<lambda>s. case r of Inl e \<Rightarrow> E e s | Inr a \<Rightarrow> Q a s) (ret r) Q E"
  by (simp add: valid_def split: sum.splits)

lemma valid_tryE:
  assumes "valid P m R S" "\<And>a. valid (R a) (f a) Q E" "\<And>e. valid (S e) (h e) Q E"
  shows "valid P (tryE m f h) Q E"
  using assms by (fastforce simp: valid_def tryE_run split: prod.splits sum.splits)

lemma valid_bindE:
  assumes "valid P m R E" "\<And>a. valid (R a) (f a) Q E"
  shows "valid P (bindE m f) Q E"
  using assms by (fastforce simp: valid_def bindE_run split: prod.splits sum.splits)

lemma valid_bindA:
  assumes "\<And>s. P s \<Longrightarrow> R (fst (m s)) (snd (m s))" "\<And>a. valid (R a) (f a) Q E"
  shows "valid P (bindA m f) Q E"
  using assms by (fastforce simp: valid_def bindA_run split: prod.splits sum.splits)

lemma valid_forE:
  assumes "\<And>x. x \<in> set xs \<Longrightarrow> valid I (f x) (\<lambda>_. I) E"
  shows "valid I (forE xs f) (\<lambda>_. I) E"
  using assms by (induction xs) (auto intro: valid_bindE valid_ok)

lemma valid_if:
  "(b \<Longrightarrow> valid P m Q E) \<Longrightarrow> (\<not> b \<Longrightarrow> valid P m' Q E) \<Longrightarrow> valid P (if b then m else m') Q E"
  by simp

text \<open>An invariant that an operation keeps, whether it returns a value or an error.\<close>

definition keeps :: "('s \<Rightarrow> bool) \<Rightarrow> ('s, 'a) op \<Rightarrow> bool" where
  "keeps I m \<longleftrightarrow> valid I m (\<lambda>_. I) (\<lambda>_. I)"

named_theorems keeps_rules \<open>invariants through the combinators\<close>

lemma keepsD: "keeps I m \<Longrightarrow> I s \<Longrightarrow> m s = (r, s') \<Longrightarrow> I s'"
  by (cases r) (auto simp: keeps_def dest: valid_InrD valid_InlD)

lemma keepsI: "(\<And>s r s'. I s \<Longrightarrow> m s = (r, s') \<Longrightarrow> I s') \<Longrightarrow> keeps I m"
  unfolding keeps_def by (rule validI) blast+

lemma keeps_snd: "keeps I m \<Longrightarrow> I s \<Longrightarrow> I (snd (m s))"
  unfolding keeps_def by (rule valid_snd)

lemma keeps_ok [keeps_rules]: "keeps I (ok a)"
  by (rule keepsI) simp

lemma keeps_fail [keeps_rules]: "keeps I (fail e)"
  by (rule keepsI) simp

lemma keeps_ret [keeps_rules]: "keeps I (ret r)"
  by (rule keepsI) simp

lemma keeps_tryE [keeps_rules]:
  "keeps I m \<Longrightarrow> (\<And>a. keeps I (f a)) \<Longrightarrow> (\<And>e. keeps I (h e)) \<Longrightarrow> keeps I (tryE m f h)"
  unfolding keeps_def by (rule valid_tryE)

lemma keeps_bindE [keeps_rules]:
  "keeps I m \<Longrightarrow> (\<And>a. keeps I (f a)) \<Longrightarrow> keeps I (bindE m f)"
  unfolding keeps_def by (rule valid_bindE)

definition keepsA :: "('s \<Rightarrow> bool) \<Rightarrow> ('s, 'a) act \<Rightarrow> bool" where
  "keepsA I m \<longleftrightarrow> (\<forall>s. I s \<longrightarrow> I (snd (m s)))"

lemma keeps_bindA [keeps_rules]:
  "keepsA I m \<Longrightarrow> (\<And>a. keeps I (f a)) \<Longrightarrow> keeps I (bindA m f)"
  unfolding keeps_def keepsA_def by (rule valid_bindA [where R = "\<lambda>_. I"]) auto

lemma keeps_forE [keeps_rules]:
  "(\<And>x. x \<in> set xs \<Longrightarrow> keeps I (f x)) \<Longrightarrow> keeps I (forE xs f)"
  unfolding keeps_def by (rule valid_forE)

lemma keeps_foldE [keeps_rules]:
  "(\<And>x b. x \<in> set xs \<Longrightarrow> keeps I (f x b)) \<Longrightarrow> keeps I (foldE xs b f)"
  by (induction xs arbitrary: b) (auto intro!: keeps_rules)

lemma keeps_if [keeps_rules]:
  "(b \<Longrightarrow> keeps I m) \<Longrightarrow> (\<not> b \<Longrightarrow> keeps I m') \<Longrightarrow> keeps I (if b then m else m')"
  by simp

lemma keeps_case_sum [keeps_rules]:
  "(\<And>a. r = Inl a \<Longrightarrow> keeps I (f a)) \<Longrightarrow> (\<And>b. r = Inr b \<Longrightarrow> keeps I (g b)) \<Longrightarrow>
   keeps I (case r of Inl a \<Rightarrow> f a | Inr b \<Rightarrow> g b)"
  by (cases r) auto

lemma keeps_case_option [keeps_rules]:
  "(r = None \<Longrightarrow> keeps I m) \<Longrightarrow> (\<And>b. r = Some b \<Longrightarrow> keeps I (g b)) \<Longrightarrow>
   keeps I (case r of None \<Rightarrow> m | Some b \<Rightarrow> g b)"
  by (cases r) auto

lemma keeps_case_prod [keeps_rules]:
  "(\<And>a b. p = (a, b) \<Longrightarrow> keeps I (f a b)) \<Longrightarrow> keeps I (case p of (a, b) \<Rightarrow> f a b)"
  by (cases p) auto

lemma keeps_zoom:
  assumes "\<And>t r t' s. I s \<Longrightarrow> get s = t \<Longrightarrow> m t = (r, t') \<Longrightarrow> I (put t' s)"
  shows "keeps I (zoom get put m)"
proof (rule keepsI)
  fix s r s'
  assume "I s" and "zoom get put m s = (r, s')"
  then show "I s'"
    using assms [of s "get s" r "snd (m (get s))"] by (auto simp: zoom_run)
qed

text \<open>
  \<open>runs_on part m m'\<close>: \<open>m\<close> does to the part of the state what \<open>m'\<close> does, with the same
  result; it may do anything to the rest.
\<close>

definition runs_on :: "('s \<Rightarrow> 't) \<Rightarrow> ('s, 'a) op \<Rightarrow> ('t, 'a) op \<Rightarrow> bool" where
  "runs_on part m m' \<longleftrightarrow> (\<forall>s. (fst (m s), part (snd (m s))) = m' (part s))"

lemma runs_onD: "runs_on part m m' \<Longrightarrow> m s = (r, s') \<Longrightarrow> m' (part s) = (r, part s')"
  by (metis fst_conv runs_on_def snd_conv)

lemma runs_on_zoom: "(\<And>t s. get (put t s) = t) \<Longrightarrow> runs_on get (zoom get put m) m"
  by (simp add: runs_on_def zoom_run)

text \<open>An operation or a call that does not touch a part of the state.\<close>

definition leaves :: "('s \<Rightarrow> 't) \<Rightarrow> ('s \<Rightarrow> 'a \<times> 's) \<Rightarrow> bool" where
  "leaves part m \<longleftrightarrow> (\<forall>s. part (snd (m s)) = part s)"

lemma leavesD: "leaves part m \<Longrightarrow> m s = (r, s') \<Longrightarrow> part s' = part s"
  by (metis leaves_def snd_conv)

section \<open>Strings\<close>

text \<open>
  A Go string is a byte sequence, here a \<open>char list\<close>. \<open>utf8.RuneCountInString\<close>
  counts a well-formed UTF-8 sequence once and every byte that starts none once.
  \<open>rune_width\<close> is the width of the first rune: the first byte fixes the length and the
  range of the second byte, the others are continuation bytes.
\<close>

definition byte :: "char \<Rightarrow> nat" where
  "byte c = of_char c"

definition cont_byte :: "char \<Rightarrow> bool" where
  "cont_byte c \<longleftrightarrow> 128 \<le> byte c \<and> byte c \<le> 191"

definition second_range :: "nat \<Rightarrow> nat \<times> nat" where
  "second_range b =
     (if b = 224 then (160, 191) else if b = 237 then (128, 159)
      else if b = 240 then (144, 191) else if b = 244 then (128, 143) else (128, 191))"

definition rune_size :: "nat \<Rightarrow> nat" where
  "rune_size b =
     (if b < 128 then 1 else if 194 \<le> b \<and> b \<le> 223 then 2
      else if 224 \<le> b \<and> b \<le> 239 then 3 else if 240 \<le> b \<and> b \<le> 244 then 4 else 1)"

definition rune_width :: "char list \<Rightarrow> nat" where
  "rune_width s =
     (case s of [] \<Rightarrow> 0
      | c # cs \<Rightarrow>
          let n = rune_size (byte c); r = second_range (byte c) in
          if n = 1 then 1
          else if length cs + 1 < n then 1
          else if fst r \<le> byte (hd cs) \<and> byte (hd cs) \<le> snd r
                  \<and> list_all cont_byte (take (n - 2) (tl cs)) then n
          else 1)"

lemma rune_width_pos: "0 < rune_width (c # cs)"
  by (auto simp: rune_width_def rune_size_def Let_def)

lemma rune_width_le: "rune_width s \<le> length s"
  by (auto simp: rune_width_def Let_def split: list.splits)

function rune_count :: "string \<Rightarrow> nat" where
  "rune_count [] = 0"
| "rune_count (c # cs) = Suc (rune_count (drop (rune_width (c # cs)) (c # cs)))"
  by pat_completeness auto
termination
  by (relation "measure length") (auto simp: rune_width_pos)

lemma rune_count_eq_0 [simp]: "rune_count s = 0 \<longleftrightarrow> s = []"
  by (cases s) auto

lemma rune_count_pos [simp]: "Suc 0 \<le> rune_count s \<longleftrightarrow> s \<noteq> []"
  using rune_count_eq_0 [of s] by linarith

lemma rune_count_le_length: "rune_count s \<le> length s"
proof (induction s rule: rune_count.induct)
  case 1
  then show ?case by simp
next
  case (2 c cs)
  have "0 < rune_width (c # cs)" by (rule rune_width_pos)
  with 2 show ?case by (simp del: drop_Cons')
qed

lemma rune_count_ascii:
  "list_all (\<lambda>c. byte c < 128) s \<Longrightarrow> rune_count s = length s"
  by (induction s) (auto simp: rune_width_def rune_size_def)

text \<open>\<open>strconv.Itoa\<close>.\<close>

definition digit_char :: "nat \<Rightarrow> char" where
  "digit_char d = char_of (48 + d)"

fun nat_digits :: "nat \<Rightarrow> string" where
  "nat_digits n = (if n < 10 then [digit_char n] else nat_digits (n div 10) @ [digit_char (n mod 10)])"

declare nat_digits.simps [simp del]

definition Itoa :: "int \<Rightarrow> string" where
  "Itoa i = (if i < 0 then CHR ''-'' # nat_digits (nat (- i)) else nat_digits (nat i))"

text \<open>\<open>%0kd\<close> of a number that is not negative.\<close>

definition pad_digits :: "nat \<Rightarrow> nat \<Rightarrow> string" where
  "pad_digits k n = (let ds = nat_digits n in replicate (k - length ds) CHR ''0'' @ ds)"

definition digit_val :: "char \<Rightarrow> nat" where
  "digit_val c = of_char c - 48"

definition digits_val :: "string \<Rightarrow> nat" where
  "digits_val s = foldl (\<lambda>n c. 10 * n + digit_val c) 0 s"

lemma of_char_digit: "d < 10 \<Longrightarrow> of_char (digit_char d) = 48 + d"
  by (simp add: digit_char_def)

lemma digit_val_char [simp]: "d < 10 \<Longrightarrow> digit_val (digit_char d) = d"
  by (simp add: digit_val_def digit_char_def)

lemma digits_val_nat_digits [simp]: "digits_val (nat_digits n) = n"
proof (induction n rule: nat_digits.induct)
  case (1 n)
  show ?case
  proof (cases "n < 10")
    case True
    then show ?thesis by (subst nat_digits.simps) (simp add: digits_val_def)
  next
    case False
    with 1 have "digits_val (nat_digits (n div 10)) = n div 10" by simp
    with False show ?thesis by (subst nat_digits.simps) (simp add: digits_val_def)
  qed
qed

lemma nat_digits_nonempty [simp]: "nat_digits n \<noteq> []"
  by (subst nat_digits.simps) simp

lemma nat_digits_range: "c \<in> set (nat_digits n) \<Longrightarrow> \<exists>d < 10. c = digit_char d"
proof (induction n rule: nat_digits.induct)
  case (1 n)
  show ?case
  proof (cases "n < 10")
    case True
    with 1 show ?thesis by (subst (asm) (2) nat_digits.simps) auto
  next
    case False
    have "c \<in> set (nat_digits (n div 10)) \<or> c = digit_char (n mod 10)"
      using 1(2) False by (subst (asm) nat_digits.simps) auto
    then show ?thesis
    proof
      assume "c \<in> set (nat_digits (n div 10))"
      with 1(1) False show ?thesis by blast
    next
      assume "c = digit_char (n mod 10)"
      moreover have "n mod 10 < 10" by simp
      ultimately show ?thesis by blast
    qed
  qed
qed

lemma nat_digits_no:
  assumes "of_char ch < (48::nat) \<or> 57 < (of_char ch :: nat)"
  shows "ch \<notin> set (nat_digits n)"
proof
  assume "ch \<in> set (nat_digits n)"
  then obtain d where "d < 10" "ch = digit_char d" using nat_digits_range by blast
  with assms of_char_digit [of d] show False by auto
qed

lemma colon_notin_Itoa: "CHR '':'' \<notin> set (Itoa i)"
  by (auto simp: Itoa_def nat_digits_no)

lemma nat_digits_inj: "nat_digits m = nat_digits n \<Longrightarrow> m = n"
  by (metis digits_val_nat_digits)

lemma Itoa_inj: "Itoa i = Itoa j \<Longrightarrow> i = j"
proof -
  assume eq: "Itoa i = Itoa j"
  have minus: "CHR ''-'' \<notin> set (nat_digits n)" for n
    by (rule nat_digits_no) simp
  have neq: "nat_digits n \<noteq> CHR ''-'' # xs" for n xs
    using minus [of n] by auto
  have neq': "CHR ''-'' # xs \<noteq> nat_digits n" for n xs
    using neq [of n xs] by metis
  consider "i < 0" "j < 0" | "i \<ge> 0" "j \<ge> 0" | "i < 0" "j \<ge> 0" | "i \<ge> 0" "j < 0"
    by linarith
  then show "i = j"
    using eq neq neq' by cases (auto simp: Itoa_def dest!: nat_digits_inj)
qed

text \<open>ASCII digits, and decimal numerals padded with zeros.\<close>

definition is_digit :: "char \<Rightarrow> bool" where
  "is_digit c \<longleftrightarrow> 48 \<le> byte c \<and> byte c \<le> 57"

lemma digits_val_zeros [simp]: "digits_val (replicate n CHR ''0'' @ ds) = digits_val ds"
proof -
  have z: "foldl (\<lambda>n c. 10 * n + digit_val c) 0 (replicate n CHR ''0'') = 0"
    by (induction n) (simp_all add: digit_val_def)
  show ?thesis by (simp add: digits_val_def z)
qed

lemma nat_digits_length: "0 < k \<Longrightarrow> n < 10 ^ k \<Longrightarrow> length (nat_digits n) \<le> k"
proof (induction n arbitrary: k rule: nat_digits.induct)
  case (1 n)
  show ?case
  proof (cases "n < 10")
    case True
    then show ?thesis using 1(2) by (subst nat_digits.simps) simp
  next
    case False
    have "k \<noteq> 1" using 1(3) False by auto
    with 1(2) obtain j where j: "k = Suc j" "0 < j" by (cases k) auto
    then have "n div 10 < 10 ^ j" using 1(3) by (simp add: less_mult_imp_div_less mult.commute)
    with 1(1) [OF False j(2)] have "length (nat_digits (n div 10)) \<le> j" by simp
    with j False show ?thesis by (subst nat_digits.simps) simp
  qed
qed

lemma digit_char_is_digit: "d < 10 \<Longrightarrow> is_digit (digit_char d)"
  by (simp add: is_digit_def byte_def of_char_digit)

lemma nat_digits_are_digits: "list_all is_digit (nat_digits n)"
  unfolding list_all_iff using nat_digits_range digit_char_is_digit by blast

text \<open>Two strings joined by a separator that the first ones do not contain.\<close>

lemma append_sep_inj:
  "x \<notin> set as \<Longrightarrow> x \<notin> set bs \<Longrightarrow> as @ x # cs = bs @ x # ds \<longleftrightarrow> as = bs \<and> cs = ds"
proof (induction as arbitrary: bs)
  case Nil
  then show ?case by (cases bs) auto
next
  case (Cons a as)
  then show ?case by (cases bs) auto
qed

lemma map_sum_Inr [simp]: "map_sum f id r = Inr x \<longleftrightarrow> r = Inr x"
  by (cases r) auto

lemma option_ext: "(\<And>x. a = Some x \<longleftrightarrow> b = Some x) \<Longrightarrow> a = b"
  by (cases a; cases b) auto

section \<open>Tables as lists of rows\<close>

text \<open>\<open>update ... set ... where P\<close> on a table.\<close>

definition update_where :: "('r \<Rightarrow> bool) \<Rightarrow> ('r \<Rightarrow> 'r) \<Rightarrow> 'r list \<Rightarrow> 'r list" where
  "update_where P f rows = map (\<lambda>r. if P r then f r else r) rows"

definition count_where :: "('r \<Rightarrow> bool) \<Rightarrow> 'r list \<Rightarrow> int" where
  "count_where P rows = int (length (filter P rows))"

text \<open>\<open>limit l offset o\<close>; the code passes values that are not negative.\<close>

definition page :: "int \<Rightarrow> int \<Rightarrow> 'r list \<Rightarrow> 'r list" where
  "page offset limit rows = take (nat limit) (drop (nat offset) rows)"

text \<open>Comparisons with a column that may be null.\<close>

definition opt_le :: "time option \<Rightarrow> time option \<Rightarrow> bool" where
  "opt_le a b = (case (a, b) of (Some x, Some y) \<Rightarrow> x \<le> y | _ \<Rightarrow> False)"

definition opt_holds :: "(time \<Rightarrow> bool) \<Rightarrow> time option \<Rightarrow> bool" where
  "opt_holds P x = (case x of None \<Rightarrow> False | Some t \<Rightarrow> P t)"

text \<open>
  \<open>order by created_at, id\<close>: instants first, then the byte order of the identifiers
  (a PostgreSQL uuid compares as its hexadecimal text does).
\<close>

fun bytes_less :: "string \<Rightarrow> string \<Rightarrow> bool" where
  "bytes_less [] [] = False"
| "bytes_less [] (_ # _) = True"
| "bytes_less (_ # _) [] = False"
| "bytes_less (a # as) (b # bs) = (byte a < byte b \<or> (byte a = byte b \<and> bytes_less as bs))"

definition row_before :: "('r \<Rightarrow> time) \<Rightarrow> ('r \<Rightarrow> string) \<Rightarrow> 'r \<Rightarrow> 'r \<Rightarrow> bool" where
  "row_before at ident a b \<longleftrightarrow> at a < at b \<or> (at a = at b \<and> \<not> bytes_less (ident b) (ident a))"

fun insert_row :: "('r \<Rightarrow> 'r \<Rightarrow> bool) \<Rightarrow> 'r \<Rightarrow> 'r list \<Rightarrow> 'r list" where
  "insert_row le x [] = [x]"
| "insert_row le x (y # ys) = (if le x y then x # y # ys else y # insert_row le x ys)"

definition order_rows :: "('r \<Rightarrow> 'r \<Rightarrow> bool) \<Rightarrow> 'r list \<Rightarrow> 'r list" where
  "order_rows le xs = foldr (insert_row le) xs []"

lemma update_where_Nil [simp]: "update_where P f [] = []"
  by (simp add: update_where_def)

lemma update_where_Cons [simp]:
  "update_where P f (r # rows) = (if P r then f r else r) # update_where P f rows"
  by (simp add: update_where_def)

lemma length_update_where [simp]: "length (update_where P f rows) = length rows"
  by (simp add: update_where_def)

lemma in_update_where:
  "r \<in> set (update_where P f rows) \<longleftrightarrow>
     (\<exists>q \<in> set rows. (P q \<and> r = f q) \<or> (\<not> P q \<and> r = q))"
  by (auto simp: update_where_def)

lemma update_where_none: "(\<And>r. r \<in> set rows \<Longrightarrow> \<not> P r) \<Longrightarrow> update_where P f rows = rows"
  by (induction rows) auto

lemma map_update_where:
  "(\<And>r. r \<in> set rows \<Longrightarrow> P r \<Longrightarrow> g (f r) = g r) \<Longrightarrow> map g (update_where P f rows) = map g rows"
  by (induction rows) auto

lemma list_all2_update_where:
  "(\<And>r. r \<in> set rows \<Longrightarrow> R r (if P r then f r else r)) \<Longrightarrow> list_all2 R rows (update_where P f rows)"
  by (induction rows) auto

lemma find_SomeD: "find P rows = Some r \<Longrightarrow> r \<in> set rows \<and> P r"
  by (induction rows) (auto split: if_splits)

lemma find_NoneD: "find P rows = None \<Longrightarrow> r \<in> set rows \<Longrightarrow> \<not> P r"
  by (auto simp: find_None_iff)

lemma find_append_None: "find P xs = None \<Longrightarrow> find P (xs @ ys) = find P ys"
  by (induction xs) (auto split: if_splits)

lemma find_update_where:
  assumes "\<And>r. r \<in> set rows \<Longrightarrow> P r \<Longrightarrow> Q (f r) = Q r" and "find Q rows = Some r"
  shows "find Q (update_where P f rows) = Some (if P r then f r else r)"
  using assms by (induction rows) (auto split: if_splits)

lemma distinct_key_eq:
  "distinct (map k rows) \<Longrightarrow> r \<in> set rows \<Longrightarrow> q \<in> set rows \<Longrightarrow> k q = k r \<Longrightarrow> q = r"
  by (auto simp: distinct_map dest: inj_onD)

lemma find_unique:
  assumes "distinct (map k rows)" "r \<in> set rows" "P r"
    and "\<And>q. q \<in> set rows \<Longrightarrow> P q \<Longrightarrow> k q = k r"
  shows "find P rows = Some r"
proof (cases "find P rows")
  case None
  with assms(2,3) show ?thesis by (auto dest: find_NoneD)
next
  case (Some q)
  then have "q \<in> set rows" "P q" by (auto dest: find_SomeD)
  with assms have "q = r" by (blast intro: distinct_key_eq)
  with Some show ?thesis by simp
qed

lemma set_insert_row [simp]: "set (insert_row le x ys) = insert x (set ys)"
  by (induction ys) auto

lemma set_order_rows [simp]: "set (order_rows le xs) = set xs"
  by (induction xs) (auto simp: order_rows_def)

lemma length_insert_row [simp]: "length (insert_row le x ys) = Suc (length ys)"
  by (induction ys) auto

lemma length_order_rows [simp]: "length (order_rows le xs) = length xs"
  by (induction xs) (auto simp: order_rows_def)

lemma distinct_map_insert_row:
  "distinct (map k (insert_row le x ys)) \<longleftrightarrow> k x \<notin> k ` set ys \<and> distinct (map k ys)"
  by (induction ys) auto

lemma distinct_map_order_rows: "distinct (map k (order_rows le xs)) \<longleftrightarrow> distinct (map k xs)"
proof (induction xs)
  case (Cons x xs)
  have "distinct (map k (order_rows le (x # xs))) \<longleftrightarrow>
      k x \<notin> k ` set (order_rows le xs) \<and> distinct (map k (order_rows le xs))"
    by (simp add: order_rows_def distinct_map_insert_row)
  with Cons.IH show ?case by simp
qed (simp add: order_rows_def)

lemma count_where_nonneg [simp]: "0 \<le> count_where P rows"
  by (simp add: count_where_def)

lemma count_where_0: "count_where P rows = 0 \<longleftrightarrow> (\<forall>r \<in> set rows. \<not> P r)"
  by (auto simp: count_where_def filter_empty_conv)

lemma count_where_mono:
  "(\<And>r. r \<in> set rows \<Longrightarrow> P r \<Longrightarrow> Q r) \<Longrightarrow> count_where P rows \<le> count_where Q rows"
  by (induction rows) (auto simp: count_where_def)

lemma set_page: "set (page offset limit rows) \<subseteq> set rows"
  by (auto simp: page_def dest: in_set_takeD in_set_dropD)

lemma length_page: "0 \<le> limit \<Longrightarrow> int (length (page offset limit rows)) \<le> limit"
  by (auto simp: page_def min_def)

end
