(* ===== verification/Todo_Domain.thy ===== *)
theory Todo_Domain
  imports Prelude
begin

text \<open>
  The Todo aggregate (\<open>todo/domain\<close>): the lifecycle status, the record, the constructors
  \<open>New\<close> and \<open>Restore\<close>, and the transitions \<open>Complete\<close>, \<open>Delete\<close> and
  \<open>Update\<close>. A method with a pointer receiver returns the new aggregate; where it returns
  an error before writing a field the old aggregate is the caller's. The lemmas show the
  well-formedness invariant, the state machine the status follows and optimistic locking.
\<close>

section \<open>Status\<close>

text \<open>
  \<open>type Status string\<close>: the three constants, and \<open>StatusOther\<close> for any other string
  a caller converts (\<open>domain.Status(request.Status)\<close>).
\<close>

datatype status =
    StatusPending
  | StatusCompleted
  | StatusDeleted
  | StatusOther string

fun string_of_status :: "status \<Rightarrow> string" where
  "string_of_status StatusPending = ''pending''"
| "string_of_status StatusCompleted = ''completed''"
| "string_of_status StatusDeleted = ''deleted''"
| "string_of_status (StatusOther s) = s"

definition Status :: "string \<Rightarrow> status" where
  "Status s =
     (if s = ''pending'' then StatusPending
      else if s = ''completed'' then StatusCompleted
      else if s = ''deleted'' then StatusDeleted
      else StatusOther s)"

lemma string_of_Status [simp]: "string_of_status (Status s) = s"
  by (simp add: Status_def)

definition known_status :: "status \<Rightarrow> bool" where
  "known_status st \<longleftrightarrow> st \<in> {StatusPending, StatusCompleted, StatusDeleted}"

lemma Status_of_string [simp]: "known_status st \<Longrightarrow> Status (string_of_status st) = st"
  by (auto simp: known_status_def Status_def)

section \<open>The aggregate\<close>

definition MaxTitleLength :: nat where
  "MaxTitleLength = 200"

record todo =
  t_ID :: string
  t_WorkspaceID :: string
  t_OwnerUserID :: string
  t_Title :: string
  t_Description :: "string option"
  t_DueAtUTC :: "time option"
  t_TimezoneAtInput :: "string option"
  t_Status :: status
  t_ReminderVersion :: int
  t_Version :: int
  t_CreatedAt :: time
  t_UpdatedAt :: time
  t_CompletedAt :: "time option"
  t_DeletedAt :: "time option"

definition validateTitle :: "string \<Rightarrow> todo_error option" where
  "validateTitle title =
     (if rune_count title < 1 \<or> rune_count title > MaxTitleLength then Some ErrInvalidTitle
      else None)"

definition New ::
    "string \<Rightarrow> string \<Rightarrow> string \<Rightarrow> string \<Rightarrow> string option \<Rightarrow> time option \<Rightarrow> string option
     \<Rightarrow> time \<Rightarrow> todo_error + todo" where
  "New i ws owner title descr due tz now =
     (case validateTitle title of
        Some e \<Rightarrow> Inl e
      | None \<Rightarrow> Inr \<lparr>t_ID = i, t_WorkspaceID = ws, t_OwnerUserID = owner, t_Title = title,
          t_Description = descr, t_DueAtUTC = due, t_TimezoneAtInput = tz,
          t_Status = StatusPending, t_ReminderVersion = 1, t_Version = 1,
          t_CreatedAt = now, t_UpdatedAt = now, t_CompletedAt = None, t_DeletedAt = None\<rparr>)"

definition Restore ::
    "string \<Rightarrow> string \<Rightarrow> string \<Rightarrow> string \<Rightarrow> string option \<Rightarrow> time option \<Rightarrow> string option
     \<Rightarrow> status \<Rightarrow> int \<Rightarrow> int \<Rightarrow> time \<Rightarrow> time \<Rightarrow> time option \<Rightarrow> time option \<Rightarrow> todo_error + todo" where
  "Restore i ws owner title descr due tz st rv v createdAt updatedAt completedAt deletedAt =
     (if i = [] \<or> ws = [] \<or> owner = [] then Inl ErrMissingRestoreFields
      else case validateTitle title of
        Some e \<Rightarrow> Inl e
      | None \<Rightarrow>
          if \<not> (st = StatusPending \<or> st = StatusCompleted \<or> st = StatusDeleted)
          then Inl ErrInvalidStatus
          else if st = StatusCompleted \<and> completedAt = None then Inl ErrInconsistentStatus
          else if st = StatusDeleted \<and> deletedAt = None then Inl ErrInconsistentStatus
          else Inr \<lparr>t_ID = i, t_WorkspaceID = ws, t_OwnerUserID = owner, t_Title = title,
            t_Description = descr, t_DueAtUTC = due, t_TimezoneAtInput = tz,
            t_Status = st, t_ReminderVersion = rv, t_Version = v,
            t_CreatedAt = createdAt, t_UpdatedAt = updatedAt,
            t_CompletedAt = completedAt, t_DeletedAt = deletedAt\<rparr>)"

definition IsPending :: "todo \<Rightarrow> bool" where
  "IsPending t \<longleftrightarrow> t_Status t = StatusPending"

definition IsOverdue :: "todo \<Rightarrow> time \<Rightarrow> bool" where
  "IsOverdue t now \<longleftrightarrow>
     IsPending t \<and> (case t_DueAtUTC t of None \<Rightarrow> False | Some due \<Rightarrow> due < now)"

definition Complete :: "int \<Rightarrow> time \<Rightarrow> todo \<Rightarrow> todo_error + todo" where
  "Complete version now t =
     (if t_Status t = StatusDeleted then Inl ErrTodoDeleted
      else if t_Status t = StatusCompleted then Inl ErrAlreadyCompleted
      else if version \<noteq> t_Version t then Inl ErrConflict
      else Inr (t\<lparr>t_Status := StatusCompleted, t_CompletedAt := Some now,
                  t_Version := t_Version t + 1\<rparr>))"

definition Delete :: "int \<Rightarrow> time \<Rightarrow> todo \<Rightarrow> todo_error + todo" where
  "Delete version now t =
     (if t_Status t = StatusDeleted then Inl ErrTodoDeleted
      else if version \<noteq> t_Version t then Inl ErrConflict
      else Inr (t\<lparr>t_Status := StatusDeleted, t_DeletedAt := Some now,
                  t_Version := t_Version t + 1\<rparr>))"

record update_changes =
  uc_Title :: "string option"
  uc_Description :: "string option"
  uc_TimezoneAtInput :: "string option"
  uc_DueChanged :: bool
  uc_DueAtUTC :: "time option"

text \<open>\<open>sameTime\<close>: two absent instants are the same, an absent and a present one differ.\<close>

fun sameTime :: "time option \<Rightarrow> time option \<Rightarrow> bool" where
  "sameTime None None = True"
| "sameTime (Some a) (Some b) = (a = b)"
| "sameTime _ _ = False"

text \<open>\<open>copyTime\<close> allocates; the instant it points to is the same.\<close>

definition copyTime :: "time option \<Rightarrow> time option" where
  "copyTime v = v"

text \<open>
  The receiver after an error: \<open>Update\<close> returns the title's error before the first write,
  so every error leaves the aggregate as it was.
\<close>

definition Update :: "int \<Rightarrow> update_changes \<Rightarrow> time \<Rightarrow> todo \<Rightarrow> todo_error + todo" where
  "Update version changes now t =
     (if t_Status t = StatusDeleted then Inl ErrTodoDeleted
      else if version \<noteq> t_Version t then Inl ErrConflict
      else case (case uc_Title changes of None \<Rightarrow> None | Some title \<Rightarrow> validateTitle title) of
        Some e \<Rightarrow> Inl e
      | None \<Rightarrow>
          let t1 = (case uc_Title changes of None \<Rightarrow> t | Some title \<Rightarrow> t\<lparr>t_Title := title\<rparr>);
              t2 = (case uc_Description changes of None \<Rightarrow> t1
                    | Some d \<Rightarrow> t1\<lparr>t_Description := Some d\<rparr>);
              t3 = (case uc_TimezoneAtInput changes of None \<Rightarrow> t2
                    | Some tz \<Rightarrow> t2\<lparr>t_TimezoneAtInput := Some tz\<rparr>);
              t4 = (if uc_DueChanged changes \<and> \<not> sameTime (t_DueAtUTC t3) (uc_DueAtUTC changes)
                    then t3\<lparr>t_DueAtUTC := copyTime (uc_DueAtUTC changes),
                            t_ReminderVersion := t_ReminderVersion t3 + 1\<rparr>
                    else t3)
          in Inr (t4\<lparr>t_Version := t_Version t4 + 1, t_UpdatedAt := now\<rparr>))"

section \<open>The well-formedness invariant\<close>

text \<open>
  A todo is well formed when its title is valid, its status is one of the three constants and
  the status agrees with the instants it requires.
\<close>

definition title_ok :: "string \<Rightarrow> bool" where
  "title_ok s \<longleftrightarrow> 1 \<le> rune_count s \<and> rune_count s \<le> MaxTitleLength"

definition todo_wf :: "todo \<Rightarrow> bool" where
  "todo_wf t \<longleftrightarrow>
     title_ok (t_Title t)
     \<and> known_status (t_Status t)
     \<and> (t_Status t = StatusCompleted \<longrightarrow> t_CompletedAt t \<noteq> None)
     \<and> (t_Status t = StatusDeleted \<longrightarrow> t_DeletedAt t \<noteq> None)"

lemmas todo_op_defs = New_def Restore_def Complete_def Delete_def Update_def

lemma validateTitle_eq [simp]:
  "validateTitle s = (if title_ok s then None else Some ErrInvalidTitle)"
  by (auto simp: validateTitle_def title_ok_def not_less)

lemma sameTime_eq [simp]: "sameTime a b \<longleftrightarrow> a = b"
  by (cases a; cases b) auto

lemma New_wf: "New i ws owner title descr due tz now = Inr t \<Longrightarrow> todo_wf t"
  by (auto simp: New_def todo_wf_def known_status_def split: if_splits)

lemma Restore_wf:
  "Restore i ws owner title descr due tz st rv v ca ua coa da = Inr t \<Longrightarrow> todo_wf t"
  by (auto simp: Restore_def todo_wf_def known_status_def split: if_splits)

lemma Complete_Inr:
  "Complete v now t = Inr t' \<longleftrightarrow>
     t_Status t \<noteq> StatusDeleted \<and> t_Status t \<noteq> StatusCompleted \<and> v = t_Version t
     \<and> t' = t\<lparr>t_Status := StatusCompleted, t_CompletedAt := Some now, t_Version := v + 1\<rparr>"
  by (auto simp: Complete_def)

lemma Delete_Inr:
  "Delete v now t = Inr t' \<longleftrightarrow>
     t_Status t \<noteq> StatusDeleted \<and> v = t_Version t
     \<and> t' = t\<lparr>t_Status := StatusDeleted, t_DeletedAt := Some now, t_Version := v + 1\<rparr>"
  by (auto simp: Delete_def)

text \<open>An accepted edit, with the fields it writes.\<close>

definition updated :: "update_changes \<Rightarrow> time \<Rightarrow> todo \<Rightarrow> todo" where
  "updated c now t =
     t\<lparr>t_Title := (case uc_Title c of None \<Rightarrow> t_Title t | Some x \<Rightarrow> x),
       t_Description := (case uc_Description c of None \<Rightarrow> t_Description t | Some x \<Rightarrow> Some x),
       t_TimezoneAtInput :=
         (case uc_TimezoneAtInput c of None \<Rightarrow> t_TimezoneAtInput t | Some x \<Rightarrow> Some x),
       t_DueAtUTC := (if uc_DueChanged c then uc_DueAtUTC c else t_DueAtUTC t),
       t_ReminderVersion := (if uc_DueChanged c \<and> t_DueAtUTC t \<noteq> uc_DueAtUTC c
         then t_ReminderVersion t + 1 else t_ReminderVersion t),
       t_Version := t_Version t + 1, t_UpdatedAt := now\<rparr>"

lemma Update_Inr:
  "Update v c now t = Inr t' \<longleftrightarrow>
     t_Status t \<noteq> StatusDeleted \<and> v = t_Version t
     \<and> (\<forall>title. uc_Title c = Some title \<longrightarrow> title_ok title)
     \<and> t' = updated c now t"
  by (cases t; cases "uc_Title c"; cases "uc_Description c"; cases "uc_TimezoneAtInput c")
    (auto simp: Update_def Let_def updated_def copyTime_def)

text \<open>The identity no operation writes.\<close>

definition same_identity :: "todo \<Rightarrow> todo \<Rightarrow> bool" where
  "same_identity t t' \<longleftrightarrow>
     t_ID t' = t_ID t \<and> t_WorkspaceID t' = t_WorkspaceID t
     \<and> t_OwnerUserID t' = t_OwnerUserID t \<and> t_CreatedAt t' = t_CreatedAt t"

lemma Update_identity: "Update v c now t = Inr t' \<Longrightarrow> same_identity t t'"
  by (auto simp: Update_Inr updated_def same_identity_def)

lemma Complete_wf: "todo_wf t \<Longrightarrow> Complete v now t = Inr t' \<Longrightarrow> todo_wf t'"
  by (auto simp: Complete_Inr todo_wf_def known_status_def)

lemma Delete_wf: "todo_wf t \<Longrightarrow> Delete v now t = Inr t' \<Longrightarrow> todo_wf t'"
  by (auto simp: Delete_Inr todo_wf_def known_status_def)

lemma Update_wf: "todo_wf t \<Longrightarrow> Update v c now t = Inr t' \<Longrightarrow> todo_wf t'"
  by (auto simp: Update_Inr updated_def todo_wf_def split: option.splits)

section \<open>The status state machine\<close>

text \<open>The three commands as one step relation on aggregates.\<close>

inductive todo_step :: "todo \<Rightarrow> todo \<Rightarrow> bool" where
  step_complete: "Complete v now t = Inr t' \<Longrightarrow> todo_step t t'"
| step_delete: "Delete v now t = Inr t' \<Longrightarrow> todo_step t t'"
| step_update: "Update v c now t = Inr t' \<Longrightarrow> todo_step t t'"

inductive_cases todo_stepE: "todo_step t t'"

lemma todo_step_wf: "todo_step t t' \<Longrightarrow> todo_wf t \<Longrightarrow> todo_wf t'"
  by (erule todo_stepE) (auto intro: Complete_wf Delete_wf Update_wf)

lemma todo_step_version: "todo_step t t' \<Longrightarrow> t_Version t' = t_Version t + 1"
  by (erule todo_stepE) (auto simp: Complete_Inr Delete_Inr Update_Inr updated_def)

lemma todo_step_reminder_version:
  "todo_step t t' \<Longrightarrow>
     t_ReminderVersion t' = t_ReminderVersion t + (if t_DueAtUTC t' = t_DueAtUTC t then 0 else 1)"
  by (erule todo_stepE) (auto simp: Complete_Inr Delete_Inr Update_Inr updated_def)

lemma todo_step_identity: "todo_step t t' \<Longrightarrow> same_identity t t'"
  by (erule todo_stepE)
    (auto simp: Complete_Inr Delete_Inr Update_Inr updated_def same_identity_def)

lemma todo_step_status:
  "todo_step t t' \<Longrightarrow>
     t_Status t \<noteq> StatusDeleted
     \<and> (t_Status t = StatusCompleted \<longrightarrow> t_Status t' \<noteq> StatusPending)
     \<and> (t_Status t' = StatusPending \<longrightarrow> t_Status t = StatusPending)"
  by (erule todo_stepE) (auto simp: Complete_Inr Delete_Inr Update_Inr updated_def)

lemma todo_steps_facts:
  "todo_step\<^sup>*\<^sup>* t t' \<Longrightarrow>
     (todo_wf t \<longrightarrow> todo_wf t') \<and> t_Version t \<le> t_Version t'
     \<and> t_ReminderVersion t \<le> t_ReminderVersion t'
     \<and> (t_Status t = StatusDeleted \<longrightarrow> t' = t)
     \<and> (t_Status t = StatusCompleted \<longrightarrow> t_Status t' \<noteq> StatusPending)
     \<and> same_identity t t'"
proof (induction rule: rtranclp_induct)
  case base
  then show ?case by (simp add: same_identity_def)
next
  case (step t' t'')
  show ?case
    using step.IH step.hyps(2) todo_step_wf [OF step.hyps(2)] todo_step_version [OF step.hyps(2)]
      todo_step_reminder_version [OF step.hyps(2)] todo_step_status [OF step.hyps(2)]
      todo_step_identity [OF step.hyps(2)]
    by (auto simp: same_identity_def split: if_splits)
qed

end
