(* ===== verification/Database.thy ===== *)
theory Database
  imports Prelude
begin

text \<open>
  The transaction runner (\<open>platform/database/tx.go\<close>) and the joinable unit of work of
  \<open>cmd/api/wiring.go\<close>. The context's ambient executor is the flag \<open>inTx\<close>.
  PostgreSQL's begin, commit and rollback are parameters (\<open>tx_driver\<close>): rollback takes
  the state at begin and the current one, and restores the database part, not what happened
  outside it (clocks, identifiers, messages already sent).
  The locale \<open>transactional\<close> states what the code relies on; its lemmas show that a
  failed unit of work leaves the database as it was.
\<close>

record 's tx_driver =
  tx_Begin :: "('s, unit) op"
  tx_Commit :: "('s, unit) op"
  tx_Rollback :: "'s \<Rightarrow> 's \<Rightarrow> 's"

text \<open>
  A failed rollback wraps the work's error (\<open>%w\<close>), which \<open>errors.Is\<close> still finds:
  the result is the work's error either way. A failed commit returns its own error; the
  transaction is not applied.
\<close>

definition TxRunner_Run :: "'s tx_driver \<Rightarrow> bool \<Rightarrow> ('s, 'a) op \<Rightarrow> ('s, 'a) op" where
  "TxRunner_Run d inTx work =
     (if inTx then fail (DatabaseErr ErrAlreadyInTx)
      else (\<lambda>s. case tx_Begin d s of
          (Inl e, s0) \<Rightarrow> (Inl e, s0)
        | (Inr _, s0) \<Rightarrow>
            (case work s0 of
               (Inl e, s1) \<Rightarrow> (Inl e, tx_Rollback d s0 s1)
             | (Inr a, s1) \<Rightarrow>
                 (case tx_Commit d s1 of
                    (Inl e, s2) \<Rightarrow> (Inl e, tx_Rollback d s0 s2)
                  | (Inr _, s2) \<Rightarrow> (Inr a, s2)))))"

definition JoinableUoW_Run :: "'s tx_driver \<Rightarrow> bool \<Rightarrow> ('s, 'a) op \<Rightarrow> ('s, 'a) op" where
  "JoinableUoW_Run d inTx work = (if inTx then work else TxRunner_Run d inTx work)"

text \<open>
  Documented behaviour of the database: begin and commit do not change the data the
  transaction sees, and a rollback restores the data at begin.
\<close>

locale transactional =
  fixes driver :: "'s tx_driver"
    and data :: "'s \<Rightarrow> 'd"
  assumes begin_data: "tx_Begin driver s = (r, s') \<Longrightarrow> data s' = data s"
    and commit_data: "tx_Commit driver s = (r, s') \<Longrightarrow> data s' = data s"
    and rollback_data: "data (tx_Rollback driver s s') = data s"
begin

lemma run_error_data:
  "TxRunner_Run driver inTx work s = (Inl e, s') \<Longrightarrow> data s' = data s"
  by (auto simp: TxRunner_Run_def rollback_data dest!: begin_data
      split: prod.splits sum.splits if_splits)

lemma run_ok:
  assumes "TxRunner_Run driver inTx work s = (Inr a, s')"
  obtains s0 s1 where "data s0 = data s" "work s0 = (Inr a, s1)" "data s' = data s1"
  using assms
  by (auto simp: TxRunner_Run_def dest: begin_data commit_data
      split: prod.splits sum.splits if_splits)

lemma joinable_error_data:
  "JoinableUoW_Run driver False work s = (Inl e, s') \<Longrightarrow> data s' = data s"
  by (simp add: JoinableUoW_Run_def run_error_data)

lemma joinable_ok:
  assumes "JoinableUoW_Run driver False work s = (Inr a, s')"
  obtains s0 s1 where "data s0 = data s" "work s0 = (Inr a, s1)" "data s' = data s1"
  using assms by (auto simp: JoinableUoW_Run_def elim: run_ok)

lemma run_nested: "TxRunner_Run driver True work s = (Inl (DatabaseErr ErrAlreadyInTx), s)"
  by (simp add: TxRunner_Run_def)

lemma joinable_nested: "JoinableUoW_Run driver True work = work"
  by (simp add: JoinableUoW_Run_def)

lemma joinable_keeps:
  assumes I: "\<And>s. I s \<longleftrightarrow> J (data s)" and "keeps I work"
  shows "keeps I (JoinableUoW_Run driver inTx work)"
proof (rule keepsI)
  fix s r s'
  assume s: "I s" and run: "JoinableUoW_Run driver inTx work s = (r, s')"
  show "I s'"
  proof (cases inTx)
    case True
    with run s assms(2) show ?thesis by (auto simp: JoinableUoW_Run_def elim: keepsD)
  next
    case False
    show ?thesis
    proof (cases r)
      case (Inl e)
      with run False have "data s' = data s" by (auto intro: joinable_error_data)
      with s show ?thesis by (simp add: I)
    next
      case (Inr a)
      with run False obtain s0 s1
        where "data s0 = data s" "work s0 = (Inr a, s1)" "data s' = data s1"
        by (auto elim: joinable_ok)
      with s assms(2) show ?thesis by (metis I keepsD)
    qed
  qed
qed

end

end
