(* ===== verification/Todo_Store.thy ===== *)
theory Todo_Store
  imports Todo_Domain Database
begin

text \<open>
  The port \<open>TodoStore\<close> (\<open>todo/application/ports/store.go\<close>) and its PostgreSQL
  adapter (\<open>todo/adapters/outbound/postgres/store.go\<close>). The table \<open>todo.todos\<close> is
  the list of its rows in insertion order, with the constraints of migration 003: the primary
  key and the title and status checks. Each SQL statement of the adapter is a function on the
  table. PostgreSQL's \<open>ilike\<close> is the parameter \<open>ilike\<close> (pattern body, text).
  The locale \<open>todo_store\<close> states the port's promises; the last section interprets it on
  the adapter.
\<close>

section \<open>The port\<close>

definition MaxListLimit :: int where
  "MaxListLimit = 200"

definition MaxCandidateLimit :: int where
  "MaxCandidateLimit = 11"

record list_filters =
  lf_Keyword :: string
  lf_Status :: string
  lf_DueFrom :: "time option"
  lf_DueTo :: "time option"
  lf_NoDue :: bool
  lf_CompletedSince :: "time option"

record dashboard_summary =
  ds_PendingTotal :: int
  ds_DueToday :: int
  ds_Overdue :: int
  ds_NoDue :: int
  ds_CompletedLast7Days :: int
  ds_ReminderSucceeded :: int
  ds_ReminderRetrying :: int
  ds_ReminderFailed :: int
  ds_ReminderSuppressed :: int
  ds_CheckedAt :: time

record candidate =
  c_TodoID :: string
  c_Title :: string
  c_DueAtUTC :: "time option"
  c_Version :: int

record 's TodoStore =
  ts_Insert :: "todo \<Rightarrow> ('s, unit) op"
  ts_Get :: "string \<Rightarrow> string \<Rightarrow> string \<Rightarrow> ('s, todo) op"
  ts_Update :: "todo \<Rightarrow> int \<Rightarrow> ('s, unit) op"
  ts_List :: "string \<Rightarrow> string \<Rightarrow> list_filters \<Rightarrow> int \<Rightarrow> ('s, todo list) op"
  ts_Dashboard :: "string \<Rightarrow> string \<Rightarrow> time \<Rightarrow> time \<Rightarrow> time \<Rightarrow> ('s, dashboard_summary) op"
  ts_SearchCandidates :: "string \<Rightarrow> string \<Rightarrow> string \<Rightarrow> int \<Rightarrow> ('s, candidate list) op"
  ts_ListAll :: "string \<Rightarrow> string \<Rightarrow> int \<Rightarrow> int \<Rightarrow> ('s, todo list) op"

section \<open>The PostgreSQL adapter\<close>

type_synonym todo_table = "todo list"

definition todo_check :: "todo \<Rightarrow> bool" where
  "todo_check t \<longleftrightarrow>
     1 \<le> rune_count (t_Title t) \<and> rune_count (t_Title t) \<le> 200
     \<and> string_of_status (t_Status t) \<in> {''pending'', ''completed'', ''deleted''}"

definition owned :: "string \<Rightarrow> string \<Rightarrow> todo \<Rightarrow> bool" where
  "owned ws owner r \<longleftrightarrow> t_WorkspaceID r = ws \<and> t_OwnerUserID r = owner"

text \<open>\<open>scanTodo\<close>: the status column is a string that becomes a \<open>Status\<close> again.\<close>

definition scanTodo :: "todo \<Rightarrow> todo" where
  "scanTodo r = r\<lparr>t_Status := Status (string_of_status (t_Status r))\<rparr>"

definition pg_todo_Insert :: "todo \<Rightarrow> (todo_table, unit) op" where
  "pg_todo_Insert t rows =
     (if t_ID t \<in> t_ID ` set rows then (Inl (DatabaseErr (SqlError ''23505'')), rows)
      else if \<not> todo_check t then (Inl (DatabaseErr (SqlError ''23514'')), rows)
      else (Inr (), rows @ [t]))"

definition pg_todo_Get :: "string \<Rightarrow> string \<Rightarrow> string \<Rightarrow> (todo_table, todo) op" where
  "pg_todo_Get ws owner i rows =
     (case find (\<lambda>r. t_ID r = i \<and> owned ws owner r) rows of
        None \<Rightarrow> (Inl (TodoErr ErrTodoNotFound), rows)
      | Some r \<Rightarrow> (Inr (scanTodo r), rows))"

definition pg_todo_Update :: "todo \<Rightarrow> int \<Rightarrow> (todo_table, unit) op" where
  "pg_todo_Update t expectedVersion rows =
     (let hit = (\<lambda>r. t_ID r = t_ID t \<and> owned (t_WorkspaceID t) (t_OwnerUserID t) r
                     \<and> t_Version r = expectedVersion);
          set_cols = (\<lambda>r. r\<lparr>t_Title := t_Title t, t_Description := t_Description t,
             t_DueAtUTC := t_DueAtUTC t, t_TimezoneAtInput := t_TimezoneAtInput t,
             t_Status := t_Status t, t_ReminderVersion := t_ReminderVersion t,
             t_Version := t_Version t, t_UpdatedAt := t_UpdatedAt t,
             t_CompletedAt := t_CompletedAt t, t_DeletedAt := t_DeletedAt t\<rparr>)
      in if \<not> list_ex hit rows then (Inl (TodoErr ErrConflict), rows)
         else if \<not> todo_check t then (Inl (DatabaseErr (SqlError ''23514'')), rows)
         else (Inr (), update_where hit set_cols rows))"

definition list_match ::
    "(string \<Rightarrow> string \<Rightarrow> bool) \<Rightarrow> string \<Rightarrow> string \<Rightarrow> list_filters \<Rightarrow> todo \<Rightarrow> bool" where
  "list_match ilike ws owner f r \<longleftrightarrow>
     owned ws owner r \<and> string_of_status (t_Status r) \<noteq> ''deleted''
     \<and> (lf_Keyword f \<noteq> [] \<longrightarrow> ilike (lf_Keyword f) (t_Title r))
     \<and> (lf_Status f \<noteq> [] \<longrightarrow> string_of_status (t_Status r) = lf_Status f)
     \<and> (lf_CompletedSince f \<noteq> None \<longrightarrow> opt_le (lf_CompletedSince f) (t_CompletedAt r))
     \<and> (lf_DueFrom f \<noteq> None \<longrightarrow> opt_le (lf_DueFrom f) (t_DueAtUTC r))
     \<and> (lf_DueTo f \<noteq> None \<longrightarrow> opt_le (t_DueAtUTC r) (lf_DueTo f))
     \<and> (lf_NoDue f \<longrightarrow> t_DueAtUTC r = None)"

text \<open>
  \<open>order by created_at asc\<close>: rows of the same instant come in no particular order;
  the model keeps the order of insertion.
\<close>

definition pg_todo_List ::
    "(string \<Rightarrow> string \<Rightarrow> bool) \<Rightarrow> string \<Rightarrow> string \<Rightarrow> list_filters \<Rightarrow> int \<Rightarrow> (todo_table, todo list) op" where
  "pg_todo_List ilike ws owner f limit rows =
     (Inr (map scanTodo (page 0 limit
        (sort_key t_CreatedAt (filter (list_match ilike ws owner f) rows)))), rows)"

definition pg_todo_ListAll :: "string \<Rightarrow> string \<Rightarrow> int \<Rightarrow> int \<Rightarrow> (todo_table, todo list) op" where
  "pg_todo_ListAll ws owner offset limit rows =
     (Inr (map scanTodo (page offset limit
        (order_rows (row_before t_CreatedAt t_ID) (filter (owned ws owner) rows)))), rows)"

definition has_status :: "string \<Rightarrow> todo \<Rightarrow> bool" where
  "has_status s r \<longleftrightarrow> string_of_status (t_Status r) = s"

definition pg_todo_Dashboard ::
    "string \<Rightarrow> string \<Rightarrow> time \<Rightarrow> time \<Rightarrow> time \<Rightarrow> (todo_table, dashboard_summary) op" where
  "pg_todo_Dashboard ws owner now dayStart dayEnd rows =
     (let mine = filter (owned ws owner) rows in
      (Inr \<lparr>ds_PendingTotal = count_where (has_status ''pending'') mine,
            ds_DueToday = count_where (\<lambda>r. has_status ''pending'' r
               \<and> opt_holds (\<lambda>d. dayStart \<le> d \<and> d < dayEnd) (t_DueAtUTC r)) mine,
            ds_Overdue = count_where (\<lambda>r. has_status ''pending'' r
               \<and> opt_holds (\<lambda>d. d < now) (t_DueAtUTC r)) mine,
            ds_NoDue = count_where (\<lambda>r. has_status ''pending'' r \<and> t_DueAtUTC r = None) mine,
            ds_CompletedLast7Days = count_where (\<lambda>r. has_status ''completed'' r
               \<and> opt_holds (\<lambda>c. now + (- 7 * 24 * Hour) \<le> c \<and> c \<le> now) (t_CompletedAt r)) mine,
            ds_ReminderSucceeded = 0, ds_ReminderRetrying = 0, ds_ReminderFailed = 0,
            ds_ReminderSuppressed = 0, ds_CheckedAt = 0\<rparr>, rows))"

definition pg_todo_SearchCandidates ::
    "(string \<Rightarrow> string \<Rightarrow> bool) \<Rightarrow> string \<Rightarrow> string \<Rightarrow> string \<Rightarrow> int \<Rightarrow> (todo_table, candidate list) op" where
  "pg_todo_SearchCandidates ilike ws owner keyword limit rows =
     (Inr (map (\<lambda>r. \<lparr>c_TodoID = t_ID r, c_Title = t_Title r, c_DueAtUTC = t_DueAtUTC r,
                     c_Version = t_Version r\<rparr>)
        (page 0 limit (sort_key t_CreatedAt
           (filter (\<lambda>r. owned ws owner r \<and> has_status ''pending'' r \<and> ilike keyword (t_Title r))
              rows)))), rows)"

section \<open>The promises of the port\<close>

text \<open>
  \<open>lookup s ws owner i\<close> is the todo the caller may see, \<open>inv\<close> what the store keeps.
\<close>

locale todo_store =
  fixes store :: "'s TodoStore"
    and lookup :: "'s \<Rightarrow> string \<Rightarrow> string \<Rightarrow> string \<Rightarrow> todo option"
    and inv :: "'s \<Rightarrow> bool"
  assumes get_law:
      "inv s \<Longrightarrow> ts_Get store ws owner i s =
         (case lookup s ws owner i of None \<Rightarrow> (Inl (TodoErr ErrTodoNotFound), s) | Some t \<Rightarrow> (Inr t, s))"
    and lookup_scope:
      "inv s \<Longrightarrow> lookup s ws owner i = Some t \<Longrightarrow>
         t_ID t = i \<and> t_WorkspaceID t = ws \<and> t_OwnerUserID t = owner \<and> todo_wf t"
    and update_law:
      "inv s \<Longrightarrow> lookup s (t_WorkspaceID t) (t_OwnerUserID t) (t_ID t) = Some old \<Longrightarrow>
         t_Version old = v \<Longrightarrow> same_identity old t \<Longrightarrow> todo_wf t \<Longrightarrow>
         \<exists>s'. ts_Update store t v s = (Inr (), s') \<and> inv s'
            \<and> (\<forall>ws owner i. lookup s' ws owner i =
                 (if i = t_ID t \<and> ws = t_WorkspaceID t \<and> owner = t_OwnerUserID t then Some t
                  else lookup s ws owner i))"
    and update_stale_law:
      "inv s \<Longrightarrow> (\<And>old. lookup s (t_WorkspaceID t) (t_OwnerUserID t) (t_ID t) = Some old \<Longrightarrow>
           t_Version old \<noteq> v) \<Longrightarrow>
         ts_Update store t v s = (Inl (TodoErr ErrConflict), s)"
    and insert_law:
      "inv s \<Longrightarrow> todo_wf t \<Longrightarrow> ts_Insert store t s = (r, s') \<Longrightarrow>
         inv s' \<and> (\<forall>e. r = Inl e \<longrightarrow> s' = s)
         \<and> (r = Inr () \<longrightarrow> (\<forall>ws owner i. lookup s' ws owner i =
                 (if i = t_ID t \<and> ws = t_WorkspaceID t \<and> owner = t_OwnerUserID t then Some t
                  else lookup s ws owner i)))"
begin

text \<open>A stale expected version never writes: two writers of one version cannot both win.\<close>

lemma second_writer_conflicts:
  assumes inv: "inv s"
    and first: "lookup s (t_WorkspaceID t) (t_OwnerUserID t) (t_ID t) = Some old"
      "t_Version old = v" "same_identity old t" "todo_wf t" "t_Version t \<noteq> v"
    and upd: "ts_Update store t v s = (Inr (), s')"
    and other: "t_ID u = t_ID t" "t_WorkspaceID u = t_WorkspaceID t"
      "t_OwnerUserID u = t_OwnerUserID t"
  shows "ts_Update store u v s' = (Inl (TodoErr ErrConflict), s')"
proof -
  obtain s'' where "ts_Update store t v s = (Inr (), s'')" "inv s''"
    and look: "lookup s'' (t_WorkspaceID t) (t_OwnerUserID t) (t_ID t) = Some t"
    using update_law [OF inv first(1-4)] by auto
  with upd have "inv s'" and "lookup s' (t_WorkspaceID t) (t_OwnerUserID t) (t_ID t) = Some t"
    by simp_all
  then show ?thesis
    using first(5) other by (auto intro!: update_stale_law)
qed

end

section \<open>The adapter keeps the promises\<close>

definition pg_todo_store :: "(string \<Rightarrow> string \<Rightarrow> bool) \<Rightarrow> todo_table TodoStore" where
  "pg_todo_store ilike =
     \<lparr>ts_Insert = pg_todo_Insert, ts_Get = pg_todo_Get, ts_Update = pg_todo_Update,
      ts_List = pg_todo_List ilike, ts_Dashboard = pg_todo_Dashboard,
      ts_SearchCandidates = pg_todo_SearchCandidates ilike, ts_ListAll = pg_todo_ListAll\<rparr>"

definition todo_table_inv :: "todo_table \<Rightarrow> bool" where
  "todo_table_inv rows \<longleftrightarrow> distinct (map t_ID rows) \<and> list_all todo_wf rows"

definition todo_lookup :: "todo_table \<Rightarrow> string \<Rightarrow> string \<Rightarrow> string \<Rightarrow> todo option" where
  "todo_lookup rows ws owner i = find (\<lambda>r. t_ID r = i \<and> owned ws owner r) rows"

lemma scanTodo_id: "todo_wf t \<Longrightarrow> scanTodo t = t"
  by (simp add: scanTodo_def todo_wf_def)

lemma scanTodo_wf [simp]: "todo_wf t \<Longrightarrow> todo_wf (scanTodo t)"
  by (simp add: scanTodo_id)

lemma todo_check_wf: "todo_wf t \<Longrightarrow> todo_check t"
  by (auto simp: todo_wf_def todo_check_def title_ok_def known_status_def MaxTitleLength_def)

lemma todo_lookup_Some:
  "todo_table_inv rows \<Longrightarrow>
     todo_lookup rows ws owner i = Some t \<longleftrightarrow> t \<in> set rows \<and> t_ID t = i \<and> owned ws owner t"
  unfolding todo_table_inv_def todo_lookup_def
  by (auto dest: find_SomeD intro: find_unique [where k = t_ID])

lemma pg_todo_Get_eq:
  assumes "todo_table_inv rows"
  shows "pg_todo_Get ws owner i rows =
    (case todo_lookup rows ws owner i of None \<Rightarrow> (Inl (TodoErr ErrTodoNotFound), rows)
     | Some t \<Rightarrow> (Inr t, rows))"
  using assms
  by (auto simp: pg_todo_Get_def todo_lookup_def todo_table_inv_def list_all_iff scanTodo_id
      split: option.splits dest!: find_SomeD)

lemma pg_todo_Update_row:
  assumes inv: "todo_table_inv rows"
    and old: "todo_lookup rows (t_WorkspaceID t) (t_OwnerUserID t) (t_ID t) = Some old"
      "t_Version old = v" "same_identity old t" and wf: "todo_wf t"
  shows "pg_todo_Update t v rows =
    (Inr (), update_where (\<lambda>r. t_ID r = t_ID t) (\<lambda>_. t) rows)"
proof -
  let ?hit = "\<lambda>r. t_ID r = t_ID t \<and> owned (t_WorkspaceID t) (t_OwnerUserID t) r \<and> t_Version r = v"
  have o: "old \<in> set rows" "?hit old"
    using old inv by (auto simp: todo_lookup_Some)
  have uniq: "r \<in> set rows \<Longrightarrow> t_ID r = t_ID t \<Longrightarrow> r = old" for r
    using inv o distinct_key_eq [of t_ID rows old r] by (simp add: todo_table_inv_def)
  have "update_where ?hit (\<lambda>r. r\<lparr>t_Title := t_Title t, t_Description := t_Description t,
             t_DueAtUTC := t_DueAtUTC t, t_TimezoneAtInput := t_TimezoneAtInput t,
             t_Status := t_Status t, t_ReminderVersion := t_ReminderVersion t,
             t_Version := t_Version t, t_UpdatedAt := t_UpdatedAt t,
             t_CompletedAt := t_CompletedAt t, t_DeletedAt := t_DeletedAt t\<rparr>) rows
      = update_where (\<lambda>r. t_ID r = t_ID t) (\<lambda>_. t) rows"
    unfolding update_where_def
  proof (rule map_cong [OF refl])
    fix r assume "r \<in> set rows"
    then show "(if ?hit r then r\<lparr>t_Title := t_Title t, t_Description := t_Description t,
             t_DueAtUTC := t_DueAtUTC t, t_TimezoneAtInput := t_TimezoneAtInput t,
             t_Status := t_Status t, t_ReminderVersion := t_ReminderVersion t,
             t_Version := t_Version t, t_UpdatedAt := t_UpdatedAt t,
             t_CompletedAt := t_CompletedAt t, t_DeletedAt := t_DeletedAt t\<rparr> else r)
        = (if t_ID r = t_ID t then t else r)"
      using o(2) old(3) by (auto dest!: uniq simp: same_identity_def intro!: todo.equality)
  qed
  moreover have "list_ex ?hit rows" using o by (auto simp: list_ex_iff)
  ultimately show ?thesis
    using todo_check_wf [OF wf] by (simp add: pg_todo_Update_def Let_def)
qed

lemma update_row_inv:
  assumes "todo_table_inv rows" "todo_wf t"
  shows "todo_table_inv (update_where (\<lambda>r. t_ID r = t_ID t) (\<lambda>_. t) rows)"
proof -
  have "map t_ID (update_where (\<lambda>r. t_ID r = t_ID t) (\<lambda>_. t) rows) = map t_ID rows"
    by (rule map_update_where) simp
  then show ?thesis
    using assms unfolding todo_table_inv_def list_all_iff by (auto simp: in_update_where)
qed

lemma update_row_lookup:
  assumes inv: "todo_table_inv rows" and wf: "todo_wf t"
    and old: "todo_lookup rows (t_WorkspaceID t) (t_OwnerUserID t) (t_ID t) = Some old"
  shows "todo_lookup (update_where (\<lambda>r. t_ID r = t_ID t) (\<lambda>_. t) rows) ws owner i =
    (if i = t_ID t \<and> ws = t_WorkspaceID t \<and> owner = t_OwnerUserID t then Some t
     else todo_lookup rows ws owner i)"
proof -
  let ?new = "update_where (\<lambda>r. t_ID r = t_ID t) (\<lambda>_. t) rows"
  have inv': "todo_table_inv ?new" by (rule update_row_inv [OF inv wf])
  have o: "old \<in> set rows" "t_ID old = t_ID t" "owned (t_WorkspaceID t) (t_OwnerUserID t) old"
    using old inv by (auto simp: todo_lookup_Some)
  have mem: "r \<in> set ?new \<longleftrightarrow> r = t \<or> r \<in> set rows \<and> t_ID r \<noteq> t_ID t" for r
    using o by (auto simp: in_update_where)
  have uniq: "r \<in> set rows \<Longrightarrow> t_ID r = t_ID t \<Longrightarrow> r = old" for r
    using inv o distinct_key_eq [of t_ID rows old r] by (simp add: todo_table_inv_def)
  have "todo_lookup ?new ws owner i = Some r \<longleftrightarrow>
      (if i = t_ID t \<and> ws = t_WorkspaceID t \<and> owner = t_OwnerUserID t then Some t
       else todo_lookup rows ws owner i) = Some r" for r
    using o
    by (auto simp: todo_lookup_Some [OF inv] todo_lookup_Some [OF inv'] mem owned_def dest: uniq)
  then show ?thesis by (metis not_None_eq)
qed

lemma pg_todo_Update_stale:
  assumes inv: "todo_table_inv rows"
    and "\<And>old. todo_lookup rows (t_WorkspaceID t) (t_OwnerUserID t) (t_ID t) = Some old \<Longrightarrow>
           t_Version old \<noteq> v"
  shows "pg_todo_Update t v rows = (Inl (TodoErr ErrConflict), rows)"
  using assms(2)
  by (auto simp: pg_todo_Update_def Let_def list_ex_iff todo_lookup_Some [OF inv])

lemma pg_todo_Insert_eq:
  assumes inv: "todo_table_inv rows" and wf: "todo_wf t"
    and ins: "pg_todo_Insert t rows = (r, rows')"
  shows "todo_table_inv rows' \<and> (\<forall>e. r = Inl e \<longrightarrow> rows' = rows)
    \<and> (r = Inr () \<longrightarrow> (\<forall>ws owner i. todo_lookup rows' ws owner i =
         (if i = t_ID t \<and> ws = t_WorkspaceID t \<and> owner = t_OwnerUserID t then Some t
          else todo_lookup rows ws owner i)))"
proof (cases "t_ID t \<in> t_ID ` set rows")
  case True
  with inv ins show ?thesis by (auto simp: pg_todo_Insert_def)
next
  case False
  with ins todo_check_wf [OF wf] have rows': "rows' = rows @ [t]" "r = Inr ()"
    by (auto simp: pg_todo_Insert_def)
  have inv': "todo_table_inv rows'"
    using inv wf False by (auto simp: todo_table_inv_def rows')
  have fresh: "q \<in> set rows \<Longrightarrow> t_ID q \<noteq> t_ID t" for q
    using False by (metis imageI)
  have "todo_lookup rows' ws owner i = Some q \<longleftrightarrow>
      (if i = t_ID t \<and> ws = t_WorkspaceID t \<and> owner = t_OwnerUserID t then Some t
       else todo_lookup rows ws owner i) = Some q" for ws owner i q
    by (auto simp: todo_lookup_Some [OF inv] todo_lookup_Some [OF inv' [unfolded rows'(1)]] rows' owned_def
        dest: fresh)
  then have "todo_lookup rows' ws owner i =
      (if i = t_ID t \<and> ws = t_WorkspaceID t \<and> owner = t_OwnerUserID t then Some t
       else todo_lookup rows ws owner i)" for ws owner i
    by (metis not_None_eq)
  with inv' rows' show ?thesis by simp
qed

interpretation pg_todo: todo_store "pg_todo_store ilike" todo_lookup todo_table_inv
proof unfold_locales
  fix s ws owner i
  assume "todo_table_inv s"
  then show "ts_Get (pg_todo_store ilike) ws owner i s =
      (case todo_lookup s ws owner i of None \<Rightarrow> (Inl (TodoErr ErrTodoNotFound), s) | Some t \<Rightarrow> (Inr t, s))"
    by (simp add: pg_todo_store_def pg_todo_Get_eq)
next
  fix s ws owner i t
  assume "todo_table_inv s" "todo_lookup s ws owner i = Some t"
  then show "t_ID t = i \<and> t_WorkspaceID t = ws \<and> t_OwnerUserID t = owner \<and> todo_wf t"
    by (auto simp: todo_lookup_Some owned_def todo_table_inv_def list_all_iff)
next
  fix s and t old :: todo and v
  assume a: "todo_table_inv s" "todo_lookup s (t_WorkspaceID t) (t_OwnerUserID t) (t_ID t) = Some old"
    "t_Version old = v" "same_identity old t" "todo_wf t"
  show "\<exists>s'. ts_Update (pg_todo_store ilike) t v s = (Inr (), s') \<and> todo_table_inv s'
      \<and> (\<forall>ws owner i. todo_lookup s' ws owner i =
           (if i = t_ID t \<and> ws = t_WorkspaceID t \<and> owner = t_OwnerUserID t then Some t
            else todo_lookup s ws owner i))"
  proof (intro exI conjI allI)
    show "ts_Update (pg_todo_store ilike) t v s
        = (Inr (), update_where (\<lambda>r. t_ID r = t_ID t) (\<lambda>_. t) s)"
      using pg_todo_Update_row [OF a] by (simp add: pg_todo_store_def)
  qed (rule update_row_inv [OF a(1,5)] update_row_lookup [OF a(1,5,2)])+
next
  fix s and t :: todo and v
  assume inv: "todo_table_inv s"
    and stale: "\<And>old. todo_lookup s (t_WorkspaceID t) (t_OwnerUserID t) (t_ID t) = Some old \<Longrightarrow> t_Version old \<noteq> v"
  have "pg_todo_Update t v s = (Inl (TodoErr ErrConflict), s)"
  proof (rule pg_todo_Update_stale [OF inv])
    fix old
    assume "todo_lookup s (t_WorkspaceID t) (t_OwnerUserID t) (t_ID t) = Some old"
    then show "t_Version old \<noteq> v" by (rule stale)
  qed
  then show "ts_Update (pg_todo_store ilike) t v s = (Inl (TodoErr ErrConflict), s)"
    by (simp add: pg_todo_store_def)
next
  fix s and t :: todo and r s'
  assume a: "todo_table_inv s" "todo_wf t" "ts_Insert (pg_todo_store ilike) t s = (r, s')"
  from a(3) have "pg_todo_Insert t s = (r, s')" by (simp add: pg_todo_store_def)
  with a(1,2) show "todo_table_inv s' \<and> (\<forall>e. r = Inl e \<longrightarrow> s' = s)
      \<and> (r = Inr () \<longrightarrow> (\<forall>ws owner i. todo_lookup s' ws owner i =
           (if i = t_ID t \<and> ws = t_WorkspaceID t \<and> owner = t_OwnerUserID t then Some t
            else todo_lookup s ws owner i)))"
    by (rule pg_todo_Insert_eq)
qed

section \<open>Reads\<close>

lemma pg_todo_List_rows:
  assumes "todo_table_inv rows" "pg_todo_List ilike ws owner f limit rows = (Inr ts, rows')"
  shows "rows' = rows \<and> (\<forall>t \<in> set ts. t \<in> set rows \<and> list_match ilike ws owner f t)"
proof -
  have "t \<in> set rows \<and> list_match ilike ws owner f t" if "t \<in> set ts" for t
  proof -
    let ?xs = "sort_key t_CreatedAt (filter (list_match ilike ws owner f) rows)"
    from that assms(2) obtain r where "t = scanTodo r" "r \<in> set (page 0 limit ?xs)"
      by (auto simp: pg_todo_List_def)
    then have r: "t = scanTodo r" "r \<in> set rows" "list_match ilike ws owner f r"
      using set_page [of 0 limit ?xs] by auto
    with assms(1) have "scanTodo r = r" by (auto simp: todo_table_inv_def list_all_iff scanTodo_id)
    with r show ?thesis by simp
  qed
  with assms(2) show ?thesis by (simp add: pg_todo_List_def)
qed

lemma list_match_visible:
  "todo_wf t \<Longrightarrow> list_match ilike ws owner f t \<Longrightarrow> t_Status t \<noteq> StatusDeleted \<and> owned ws owner t"
  by (auto simp: list_match_def)

text \<open>The dashboard's counters nest as their names say.\<close>

lemma dashboard_bounds:
  assumes "pg_todo_Dashboard ws owner now ds de rows = (Inr d, rows')"
  shows "ds_DueToday d + ds_NoDue d \<le> ds_PendingTotal d"
    and "ds_Overdue d + ds_NoDue d \<le> ds_PendingTotal d"
proof -
  have split: "count_where (\<lambda>r. P r \<and> opt_holds Q (t_DueAtUTC r)) xs
      + count_where (\<lambda>r. P r \<and> t_DueAtUTC r = None) xs \<le> count_where P xs" for P Q xs
    by (induction xs) (auto simp: count_where_def opt_holds_def split: option.splits)
  show "ds_DueToday d + ds_NoDue d \<le> ds_PendingTotal d"
    and "ds_Overdue d + ds_NoDue d \<le> ds_PendingTotal d"
    using assms split by (auto simp: pg_todo_Dashboard_def Let_def)
qed

end
