(* ===== verification/Todo_Commands.thy ===== *)
theory Todo_Commands
  imports Todo_Store
begin

text \<open>
  The Todo commands and queries (\<open>todo/application/command\<close>, \<open>query\<close>, \<open>dto\<close>,
  \<open>ports\<close>). A handler is a function of the ports of its Go struct: the store, the unit of
  work, the planner, the channels provider (\<open>None\<close> for a nil function), \<open>NewID\<close> and
  \<open>Now\<close>. The unit of work is a function on operations, so that the theorems hold for
  every implementation and for every behaviour of the other ports, failures included.
\<close>

section \<open>Ports and transfer objects\<close>

record PlanReminderRequest =
  pr_WorkspaceID :: string
  pr_TodoID :: string
  pr_TodoReminderVersion :: int
  pr_ScheduledAtUTC :: time
  pr_Channels :: "string list"
  pr_Title :: string
  pr_OwnerUserID :: string

record RevokeReminderRequest =
  rr_WorkspaceID :: string
  rr_TodoID :: string
  rr_UpToReminderVersion :: int
  rr_Reason :: string

record 's ReminderPlanner =
  rp_Plan :: "PlanReminderRequest \<Rightarrow> ('s, unit) op"
  rp_Revoke :: "RevokeReminderRequest \<Rightarrow> ('s, unit) op"

type_synonym 's ChannelsProvider = "string \<Rightarrow> string \<Rightarrow> ('s, string list) op"

record ReminderCounts =
  rc_Succeeded :: int
  rc_Retrying :: int
  rc_Failed :: int
  rc_Suppressed :: int

record TodoView =
  v_ID :: string
  v_Title :: string
  v_Description :: "string option"
  v_DueAtUTC :: "time option"
  v_TimezoneAtInput :: "string option"
  v_Status :: string
  v_Overdue :: bool
  v_ReminderVersion :: int
  v_ReminderScheduled :: "bool option"
  v_ReminderChannels :: "string list option"
  v_Version :: int
  v_CreatedAt :: time
  v_UpdatedAt :: time
  v_CompletedAt :: "time option"
  v_DeletedAt :: "time option"

definition FromDomain :: "todo \<Rightarrow> time \<Rightarrow> TodoView" where
  "FromDomain t now =
     \<lparr>v_ID = t_ID t, v_Title = t_Title t, v_Description = t_Description t,
      v_DueAtUTC = t_DueAtUTC t, v_TimezoneAtInput = t_TimezoneAtInput t,
      v_Status = string_of_status (t_Status t), v_Overdue = IsOverdue t now,
      v_ReminderVersion = t_ReminderVersion t, v_ReminderScheduled = None,
      v_ReminderChannels = None, v_Version = t_Version t, v_CreatedAt = t_CreatedAt t,
      v_UpdatedAt = t_UpdatedAt t, v_CompletedAt = t_CompletedAt t,
      v_DeletedAt = t_DeletedAt t\<rparr>"

record CreateTodoRequest =
  cr_WorkspaceID :: string
  cr_UserID :: string
  cr_Title :: string
  cr_Description :: "string option"
  cr_DueAtUTC :: "time option"
  cr_TimezoneAtInput :: "string option"

text \<open>\<open>CompleteTodoRequest\<close> and \<open>DeleteTodoRequest\<close> have the same fields.\<close>

record VersionedRequest =
  vr_WorkspaceID :: string
  vr_UserID :: string
  vr_TodoID :: string
  vr_Version :: int

record UpdateTodoRequest =
  ur_WorkspaceID :: string
  ur_UserID :: string
  ur_TodoID :: string
  ur_Version :: int
  ur_Title :: "string option"
  ur_Description :: "string option"
  ur_TimezoneAtInput :: "string option"
  ur_DueChanged :: bool
  ur_DueAtUTC :: "time option"

record ImportTodoRequest =
  ir_WorkspaceID :: string
  ir_UserID :: string
  ir_Title :: string
  ir_Description :: "string option"
  ir_DueAtUTC :: "time option"
  ir_TimezoneAtInput :: "string option"
  ir_Status :: string
  ir_ReminderVersion :: int
  ir_Version :: int
  ir_CreatedAt :: time
  ir_UpdatedAt :: time
  ir_CompletedAt :: "time option"
  ir_DeletedAt :: "time option"

record TodoExportRecord =
  er_ID :: string
  er_Title :: string
  er_Description :: "string option"
  er_DueAtUTC :: "time option"
  er_TimezoneAtInput :: "string option"
  er_Status :: string
  er_ReminderVersion :: int
  er_CreatedAt :: time
  er_UpdatedAt :: time
  er_CompletedAt :: "time option"
  er_DeletedAt :: "time option"

text \<open>A domain result as an operation: its error becomes the handler's.\<close>

definition domain_result :: "todo_error + 'a \<Rightarrow> ('s, 'a) op" where
  "domain_result r = ret (map_sum TodoErr id r)"

section \<open>Commands\<close>

definition channelsSnapshot ::
    "'s ChannelsProvider option \<Rightarrow> string \<Rightarrow> string \<Rightarrow> ('s, string list) op" where
  "channelsSnapshot provider ws owner =
     (case provider of None \<Rightarrow> ok [] | Some p \<Rightarrow> p ws owner)"

text \<open>The functions the handlers run in their unit of work.\<close>

definition create_work ::
    "'s TodoStore \<Rightarrow> 's ReminderPlanner \<Rightarrow> 's ChannelsProvider option \<Rightarrow> todo \<Rightarrow> ('s, string list) op" where
  "create_work store planner channels todo =
     bindE (ts_Insert store todo) (\<lambda>_.
     case t_DueAtUTC todo of
       None \<Rightarrow> ok []
     | Some due \<Rightarrow>
         bindE (channelsSnapshot channels (t_WorkspaceID todo) (t_OwnerUserID todo)) (\<lambda>chans.
         bindE (rp_Plan planner
           \<lparr>pr_WorkspaceID = t_WorkspaceID todo, pr_TodoID = t_ID todo,
            pr_TodoReminderVersion = t_ReminderVersion todo, pr_ScheduledAtUTC = due,
            pr_Channels = chans, pr_Title = t_Title todo,
            pr_OwnerUserID = t_OwnerUserID todo\<rparr>) (\<lambda>_. ok chans)))"

definition complete_work ::
    "'s TodoStore \<Rightarrow> 's ReminderPlanner \<Rightarrow> time \<Rightarrow> VersionedRequest \<Rightarrow> ('s, todo) op" where
  "complete_work store planner now req =
     bindE (ts_Get store (vr_WorkspaceID req) (vr_UserID req) (vr_TodoID req)) (\<lambda>stored.
     bindE (domain_result (Complete (vr_Version req) now stored)) (\<lambda>loaded.
     bindE (ts_Update store loaded (vr_Version req)) (\<lambda>_.
     bindE (rp_Revoke planner
       \<lparr>rr_WorkspaceID = vr_WorkspaceID req, rr_TodoID = vr_TodoID req,
        rr_UpToReminderVersion = t_ReminderVersion loaded, rr_Reason = ''todo_completed''\<rparr>)
       (\<lambda>_. ok loaded))))"

definition delete_work ::
    "'s TodoStore \<Rightarrow> 's ReminderPlanner \<Rightarrow> time \<Rightarrow> VersionedRequest \<Rightarrow> ('s, todo) op" where
  "delete_work store planner now req =
     bindE (ts_Get store (vr_WorkspaceID req) (vr_UserID req) (vr_TodoID req)) (\<lambda>stored.
     bindE (domain_result (Delete (vr_Version req) now stored)) (\<lambda>loaded.
     bindE (ts_Update store loaded (vr_Version req)) (\<lambda>_.
     bindE (rp_Revoke planner
       \<lparr>rr_WorkspaceID = vr_WorkspaceID req, rr_TodoID = vr_TodoID req,
        rr_UpToReminderVersion = t_ReminderVersion loaded, rr_Reason = ''todo_deleted''\<rparr>)
       (\<lambda>_. ok loaded))))"

text \<open>It returns the variables the closure captures: the todo, \<open>schedulingKnown\<close>, the channels.\<close>

definition update_work ::
    "'s TodoStore \<Rightarrow> 's ReminderPlanner \<Rightarrow> 's ChannelsProvider option \<Rightarrow> time \<Rightarrow> UpdateTodoRequest
     \<Rightarrow> ('s, todo \<times> bool \<times> string list) op" where
  "update_work store planner channels now req =
     bindE (ts_Get store (ur_WorkspaceID req) (ur_UserID req) (ur_TodoID req)) (\<lambda>stored.
     bindE (domain_result (Update (ur_Version req)
       \<lparr>uc_Title = ur_Title req, uc_Description = ur_Description req,
        uc_TimezoneAtInput = ur_TimezoneAtInput req, uc_DueChanged = ur_DueChanged req,
        uc_DueAtUTC = ur_DueAtUTC req\<rparr> now stored)) (\<lambda>loaded.
     bindE (ts_Update store loaded (ur_Version req)) (\<lambda>_.
     if t_ReminderVersion loaded = t_ReminderVersion stored then ok (loaded, False, [])
     else bindE (rp_Revoke planner
       \<lparr>rr_WorkspaceID = ur_WorkspaceID req, rr_TodoID = ur_TodoID req,
        rr_UpToReminderVersion = t_ReminderVersion stored, rr_Reason = ''version_stale''\<rparr>) (\<lambda>_.
     case t_DueAtUTC loaded of
       None \<Rightarrow> ok (loaded, True, [])
     | Some due \<Rightarrow>
         bindE (channelsSnapshot channels (t_WorkspaceID loaded) (t_OwnerUserID loaded)) (\<lambda>chans.
         bindE (rp_Plan planner
           \<lparr>pr_WorkspaceID = t_WorkspaceID loaded, pr_TodoID = t_ID loaded,
            pr_TodoReminderVersion = t_ReminderVersion loaded, pr_ScheduledAtUTC = due,
            pr_Channels = chans, pr_Title = t_Title loaded,
            pr_OwnerUserID = t_OwnerUserID loaded\<rparr>) (\<lambda>_. ok (loaded, True, chans)))))))"

definition CreateTodo ::
    "'s TodoStore \<Rightarrow> (('s, string list) op \<Rightarrow> ('s, string list) op) \<Rightarrow> 's ReminderPlanner
     \<Rightarrow> 's ChannelsProvider option \<Rightarrow> ('s, string) act \<Rightarrow> ('s, time) act
     \<Rightarrow> CreateTodoRequest \<Rightarrow> ('s, TodoView) op" where
  "CreateTodo store uow planner channels NewID Now req =
     bindA Now (\<lambda>now. bindA NewID (\<lambda>i.
     bindE (domain_result (New i (cr_WorkspaceID req) (cr_UserID req) (cr_Title req)
        (cr_Description req) (cr_DueAtUTC req) (cr_TimezoneAtInput req) now)) (\<lambda>todo.
     bindE (uow (create_work store planner channels todo)) (\<lambda>chans.
     ok ((FromDomain todo now)
          \<lparr>v_ReminderScheduled := Some (t_DueAtUTC todo \<noteq> None \<and> chans \<noteq> []),
           v_ReminderChannels := Some chans\<rparr>)))))"

definition CompleteTodo ::
    "'s TodoStore \<Rightarrow> (('s, todo) op \<Rightarrow> ('s, todo) op) \<Rightarrow> 's ReminderPlanner
     \<Rightarrow> ('s, time) act \<Rightarrow> VersionedRequest \<Rightarrow> ('s, TodoView) op" where
  "CompleteTodo store uow planner Now req =
     bindA Now (\<lambda>now.
     bindE (uow (complete_work store planner now req)) (\<lambda>todo.
     ok (FromDomain todo now)))"

definition DeleteTodo ::
    "'s TodoStore \<Rightarrow> (('s, todo) op \<Rightarrow> ('s, todo) op) \<Rightarrow> 's ReminderPlanner
     \<Rightarrow> ('s, time) act \<Rightarrow> VersionedRequest \<Rightarrow> ('s, TodoView) op" where
  "DeleteTodo store uow planner Now req =
     bindA Now (\<lambda>now.
     bindE (uow (delete_work store planner now req)) (\<lambda>todo.
     ok (FromDomain todo now)))"

definition UpdateTodo ::
    "'s TodoStore \<Rightarrow> (('s, todo \<times> bool \<times> string list) op \<Rightarrow> ('s, todo \<times> bool \<times> string list) op)
     \<Rightarrow> 's ReminderPlanner \<Rightarrow> 's ChannelsProvider option \<Rightarrow> ('s, time) act
     \<Rightarrow> UpdateTodoRequest \<Rightarrow> ('s, TodoView) op" where
  "UpdateTodo store uow planner channels Now req =
     bindA Now (\<lambda>now.
     bindE (uow (update_work store planner channels now req)) (\<lambda>(todo, known, chans).
     ok (if known then (FromDomain todo now)
           \<lparr>v_ReminderScheduled := Some (t_DueAtUTC todo \<noteq> None \<and> chans \<noteq> []),
            v_ReminderChannels := Some chans\<rparr>
         else FromDomain todo now)))"

definition ImportTodo ::
    "'s TodoStore \<Rightarrow> ('s, string) act \<Rightarrow> ('s, time) act \<Rightarrow> ImportTodoRequest \<Rightarrow> ('s, TodoView) op" where
  "ImportTodo store NewID Now req =
     bindA NewID (\<lambda>i.
     bindE (domain_result (Restore i (ir_WorkspaceID req) (ir_UserID req) (ir_Title req)
        (ir_Description req) (ir_DueAtUTC req) (ir_TimezoneAtInput req) (Status (ir_Status req))
        (ir_ReminderVersion req) (ir_Version req) (ir_CreatedAt req) (ir_UpdatedAt req)
        (ir_CompletedAt req) (ir_DeletedAt req))) (\<lambda>todo.
     bindE (ts_Insert store todo) (\<lambda>_.
     bindA Now (\<lambda>now. ok (FromDomain todo now)))))"

section \<open>Queries\<close>

definition GetTodo ::
    "'s TodoStore \<Rightarrow> ('s, time) act \<Rightarrow> string \<Rightarrow> string \<Rightarrow> string \<Rightarrow> ('s, TodoView) op" where
  "GetTodo store Now ws owner i =
     bindE (ts_Get store ws owner i) (\<lambda>todo. bindA Now (\<lambda>now. ok (FromDomain todo now)))"

definition ListTodos ::
    "'s TodoStore \<Rightarrow> ('s, time) act \<Rightarrow> string \<Rightarrow> string \<Rightarrow> list_filters \<Rightarrow> ('s, TodoView list) op" where
  "ListTodos store Now ws owner f =
     bindE (ts_List store ws owner f MaxListLimit) (\<lambda>todos.
     bindA Now (\<lambda>now. ok (map (\<lambda>t. FromDomain t now) todos)))"

definition toExportRecord :: "todo \<Rightarrow> TodoExportRecord" where
  "toExportRecord t =
     \<lparr>er_ID = t_ID t, er_Title = t_Title t, er_Description = t_Description t,
      er_DueAtUTC = t_DueAtUTC t, er_TimezoneAtInput = t_TimezoneAtInput t,
      er_Status = string_of_status (t_Status t), er_ReminderVersion = t_ReminderVersion t,
      er_CreatedAt = t_CreatedAt t, er_UpdatedAt = t_UpdatedAt t,
      er_CompletedAt = t_CompletedAt t, er_DeletedAt = t_DeletedAt t\<rparr>"

definition ExportTodos ::
    "'s TodoStore \<Rightarrow> string \<Rightarrow> string \<Rightarrow> int \<Rightarrow> int \<Rightarrow> ('s, TodoExportRecord list) op" where
  "ExportTodos store ws owner offset limit =
     bindE (ts_ListAll store ws owner offset (if limit > MaxListLimit then MaxListLimit else limit))
       (\<lambda>todos. ok (map toExportRecord todos))"

definition SearchCandidates ::
    "'s TodoStore \<Rightarrow> string \<Rightarrow> string \<Rightarrow> string \<Rightarrow> ('s, candidate list) op" where
  "SearchCandidates store ws owner keyword = ts_SearchCandidates store ws owner keyword MaxCandidateLimit"

definition reminderCounts ::
    "(string \<Rightarrow> ('s, ReminderCounts) op) option \<Rightarrow> string \<Rightarrow> ('s, ReminderCounts) op" where
  "reminderCounts stats ws =
     (case stats of
        None \<Rightarrow> ok \<lparr>rc_Succeeded = 0, rc_Retrying = 0, rc_Failed = 0, rc_Suppressed = 0\<rparr>
      | Some f \<Rightarrow> f ws)"

text \<open>
  The zone database is the parameter \<open>LoadLocation\<close>: for a known name, the function
  from an instant to the start of its local day and of the next one (\<open>time.Date\<close>,
  \<open>AddDate\<close>).
\<close>

definition DashboardSummary ::
    "'s TodoStore \<Rightarrow> ('s, time) act \<Rightarrow> (string \<Rightarrow> ('s, ReminderCounts) op) option
     \<Rightarrow> (string \<Rightarrow> (time \<Rightarrow> time \<times> time) option) \<Rightarrow> string \<Rightarrow> string \<Rightarrow> string
     \<Rightarrow> ('s, dashboard_summary) op" where
  "DashboardSummary store Now stats LoadLocation ws owner timezone =
     (if timezone = [] then fail (TodoErr ErrInvalidTimezone)
      else case LoadLocation timezone of
        None \<Rightarrow> fail (TodoErr ErrInvalidTimezone)
      | Some day \<Rightarrow>
          bindA Now (\<lambda>now.
          bindE (ts_Dashboard store ws owner now (fst (day now)) (snd (day now))) (\<lambda>summary.
          bindE (reminderCounts stats ws) (\<lambda>counts.
          ok (summary\<lparr>ds_ReminderSucceeded := rc_Succeeded counts,
                      ds_ReminderRetrying := rc_Retrying counts,
                      ds_ReminderFailed := rc_Failed counts,
                      ds_ReminderSuppressed := rc_Suppressed counts,
                      ds_CheckedAt := now\<rparr>)))))"

lemmas todo_command_defs =
  CreateTodo_def CompleteTodo_def DeleteTodo_def UpdateTodo_def ImportTodo_def domain_result_def

section \<open>What the commands promise to their callers\<close>

text \<open>
  The todo commands use the planner as a component that does not touch todos, and a clock and
  an identifier source that do not either.
\<close>

locale todo_commands = todo_store store lookup inv + transactional driver data
  for store :: "'s TodoStore" and lookup inv and driver :: "'s tx_driver" and data :: "'s \<Rightarrow> 'd" +
  fixes planner :: "'s ReminderPlanner"
    and Now :: "('s, time) act"
  assumes inv_data: "data s = data s' \<Longrightarrow> inv s = inv s'"
    and lookup_data: "data s = data s' \<Longrightarrow> lookup s = lookup s'"
    and plan_frame: "inv s \<Longrightarrow> rp_Plan planner p s = (r, s') \<Longrightarrow> inv s' \<and> lookup s' = lookup s"
    and revoke_frame: "inv s \<Longrightarrow> rp_Revoke planner q s = (r, s') \<Longrightarrow> inv s' \<and> lookup s' = lookup s"
    and now_data: "data (snd (Now s)) = data s"
begin

abbreviation uow :: "('s, 'a) op \<Rightarrow> ('s, 'a) op" where
  "uow \<equiv> JoinableUoW_Run driver False"

lemma now_inv:
  assumes "inv s" "Now s = (n, s')"
  shows "inv s' \<and> lookup s' = lookup s"
proof -
  have "data s' = data s" using now_data [of s] assms(2) by simp
  with assms(1) show ?thesis by (metis inv_data lookup_data)
qed

text \<open>An error of any port, or of the domain, leaves the database as it was.\<close>

lemma complete_error_data:
  "CompleteTodo store uow planner Now req s = (Inl e, s') \<Longrightarrow> data s' = data s"
  using now_data [of s]
  by (auto simp: CompleteTodo_def bindA_run bindE_run split: prod.splits sum.splits
      dest!: joinable_error_data)

lemma delete_error_data:
  "DeleteTodo store uow planner Now req s = (Inl e, s') \<Longrightarrow> data s' = data s"
  using now_data [of s]
  by (auto simp: DeleteTodo_def bindA_run bindE_run split: prod.splits sum.splits
      dest!: joinable_error_data)

lemma update_error_data:
  "UpdateTodo store uow planner channels Now req s = (Inl e, s') \<Longrightarrow> data s' = data s"
  using now_data [of s]
  by (auto simp: UpdateTodo_def bindA_run bindE_run split: prod.splits sum.splits
      dest!: joinable_error_data)

lemma create_error_data:
  assumes ids: "\<And>s. data (snd (NewID s)) = data s"
    and run: "CreateTodo store uow planner channels NewID Now req s = (Inl e, s')"
  shows "data s' = data s"
proof -
  obtain n s0 i s1 where s: "Now s = (n, s0)" "NewID s0 = (i, s1)"
    by (metis surj_pair)
  then have d: "data s1 = data s" using now_data [of s] ids [of s0] by simp
  let ?new = "New i (cr_WorkspaceID req) (cr_UserID req) (cr_Title req)
        (cr_Description req) (cr_DueAtUTC req) (cr_TimezoneAtInput req) n"
  show ?thesis
  proof (cases ?new)
    case (Inl err)
    with run s d show ?thesis
      by (simp add: CreateTodo_def domain_result_def bindA_run bindE_run)
  next
    case (Inr todo)
    let ?u = "uow (create_work store planner channels todo) s1"
    from run s Inr have "fst ?u = Inl e \<and> snd ?u = s'"
      by (cases ?u; cases "fst ?u") (simp_all add: CreateTodo_def domain_result_def bindA_run bindE_run)
    then have "?u = (Inl e, s')" by (simp add: prod_eq_iff)
    with d show ?thesis using joinable_error_data by metis
  qed
qed

text \<open>The part the three versioned commands share: load, transition, save.\<close>

lemma load_save_ok:
  assumes inv: "inv s"
    and run: "bindE (ts_Get store ws owner i) (\<lambda>stored. bindE (domain_result (f stored)) (\<lambda>loaded.
        bindE (ts_Update store loaded v) (\<lambda>_. k stored loaded))) s = (Inr b, s'')"
    and f: "\<And>t t'. todo_wf t \<Longrightarrow> f t = Inr t' \<Longrightarrow> t_Version t = v \<and> same_identity t t' \<and> todo_wf t'"
  obtains t t' s' where "lookup s ws owner i = Some t" "f t = Inr t'" "todo_wf t" "inv s'"
    "lookup s' ws owner i = Some t'" "k t t' s' = (Inr b, s'')"
proof -
  obtain t t' s' where t: "lookup s ws owner i = Some t" "f t = Inr t'"
    and upd: "ts_Update store t' v s = (Inr (), s')" and k: "k t t' s' = (Inr b, s'')"
    using run
    by (auto simp: bindE_Inr_iff get_law [OF inv] domain_result_def map_sum_def
        split: option.splits sum.splits)
  have sc: "t_ID t = i" "t_WorkspaceID t = ws" "t_OwnerUserID t = owner" "todo_wf t"
    using lookup_scope [OF inv t(1)] by auto
  have ft: "t_Version t = v" "same_identity t t'" "todo_wf t'"
    using f [OF sc(4) t(2)] by auto
  have old: "lookup s (t_WorkspaceID t') (t_OwnerUserID t') (t_ID t') = Some t"
    using t(1) sc ft(2) by (simp add: same_identity_def)
  obtain s3 where s3: "ts_Update store t' v s = (Inr (), s3)" "inv s3"
    and look: "lookup s3 (t_WorkspaceID t') (t_OwnerUserID t') (t_ID t') = Some t'"
    using update_law [OF inv old ft] by auto
  have "s3 = s'" using s3(1) upd by simp
  then have "inv s'" "lookup s' ws owner i = Some t'"
    using s3(2) look sc ft(2) by (auto simp: same_identity_def)
  with that t sc k show ?thesis by blast
qed

lemma uow_ok:
  assumes inv: "inv s" and run: "uow m s = (Inr a, s')"
    and m: "\<And>s s'. inv s \<Longrightarrow> m s = (Inr a, s') \<Longrightarrow> inv s' \<and> Q (lookup s) (lookup s')"
  shows "inv s' \<and> Q (lookup s) (lookup s')"
proof -
  obtain s0 s1 where w: "data s0 = data s" "m s0 = (Inr a, s1)" "data s' = data s1"
    using run by (rule joinable_ok)
  then have "inv s0" using inv inv_data by blast
  then have "inv s1 \<and> Q (lookup s0) (lookup s1)" using w(2) by (rule m)
  with w(1,3) show ?thesis using inv_data lookup_data by metis
qed

lemma complete_work_ok:
  assumes inv: "inv s" and run: "complete_work store planner now req s = (Inr todo, s')"
  shows "inv s' \<and> lookup s' (vr_WorkspaceID req) (vr_UserID req) (vr_TodoID req) = Some todo
    \<and> (\<exists>t. lookup s (vr_WorkspaceID req) (vr_UserID req) (vr_TodoID req) = Some t
          \<and> Complete (vr_Version req) now t = Inr todo)"
proof -
  obtain t t' s1 where l: "lookup s (vr_WorkspaceID req) (vr_UserID req) (vr_TodoID req) = Some t"
    "Complete (vr_Version req) now t = Inr t'" and i1: "inv s1"
    and l1: "lookup s1 (vr_WorkspaceID req) (vr_UserID req) (vr_TodoID req) = Some t'"
    and k: "bindE (rp_Revoke planner
       \<lparr>rr_WorkspaceID = vr_WorkspaceID req, rr_TodoID = vr_TodoID req,
        rr_UpToReminderVersion = t_ReminderVersion t', rr_Reason = ''todo_completed''\<rparr>)
       (\<lambda>_. ok t') s1 = (Inr todo, s')"
    using run unfolding complete_work_def
    by (rule load_save_ok [OF inv])
      (auto simp: Complete_Inr same_identity_def intro: Complete_wf [unfolded Complete_Inr])
  from k obtain q r where rev: "rp_Revoke planner q s1 = (Inr r, s')" and "todo = t'"
    by (auto simp: bindE_Inr_iff)
  with revoke_frame [OF i1 rev] l l1 show ?thesis by auto
qed

lemma delete_work_ok:
  assumes inv: "inv s" and run: "delete_work store planner now req s = (Inr todo, s')"
  shows "inv s' \<and> lookup s' (vr_WorkspaceID req) (vr_UserID req) (vr_TodoID req) = Some todo
    \<and> (\<exists>t. lookup s (vr_WorkspaceID req) (vr_UserID req) (vr_TodoID req) = Some t
          \<and> Delete (vr_Version req) now t = Inr todo)"
proof -
  obtain t t' s1 where l: "lookup s (vr_WorkspaceID req) (vr_UserID req) (vr_TodoID req) = Some t"
    "Delete (vr_Version req) now t = Inr t'" and i1: "inv s1"
    and l1: "lookup s1 (vr_WorkspaceID req) (vr_UserID req) (vr_TodoID req) = Some t'"
    and k: "bindE (rp_Revoke planner
       \<lparr>rr_WorkspaceID = vr_WorkspaceID req, rr_TodoID = vr_TodoID req,
        rr_UpToReminderVersion = t_ReminderVersion t', rr_Reason = ''todo_deleted''\<rparr>)
       (\<lambda>_. ok t') s1 = (Inr todo, s')"
    using run unfolding delete_work_def
    by (rule load_save_ok [OF inv])
      (auto simp: Delete_Inr same_identity_def intro: Delete_wf [unfolded Delete_Inr])
  from k obtain q r where rev: "rp_Revoke planner q s1 = (Inr r, s')" and "todo = t'"
    by (auto simp: bindE_Inr_iff)
  with revoke_frame [OF i1 rev] l l1 show ?thesis by auto
qed

text \<open>A command that returns a view has saved the aggregate the view shows.\<close>

lemma complete_ok:
  assumes inv: "inv s" and run: "CompleteTodo store uow planner Now req s = (Inr view, s')"
  shows "inv s' \<and> (\<exists>t todo now.
      lookup s (vr_WorkspaceID req) (vr_UserID req) (vr_TodoID req) = Some t
      \<and> Complete (vr_Version req) now t = Inr todo \<and> view = FromDomain todo now
      \<and> lookup s' (vr_WorkspaceID req) (vr_UserID req) (vr_TodoID req) = Some todo)"
proof -
  obtain now s0 where n: "Now s = (now, s0)" by (cases "Now s")
  with inv have s0: "inv s0" "lookup s0 = lookup s" by (auto dest: now_inv)
  obtain todo where w: "uow (complete_work store planner now req) s0 = (Inr todo, s')"
    and view: "view = FromDomain todo now"
    using run n by (auto simp: CompleteTodo_def bindA_run bindE_Inr_iff)
  have "inv s' \<and> (\<lambda>l l'. l' (vr_WorkspaceID req) (vr_UserID req) (vr_TodoID req) = Some todo
    \<and> (\<exists>t. l (vr_WorkspaceID req) (vr_UserID req) (vr_TodoID req) = Some t
          \<and> Complete (vr_Version req) now t = Inr todo)) (lookup s0) (lookup s')"
    using s0(1) w by (rule uow_ok) (rule complete_work_ok)
  with view s0(2) show ?thesis by auto
qed

lemma delete_ok:
  assumes inv: "inv s" and run: "DeleteTodo store uow planner Now req s = (Inr view, s')"
  shows "inv s' \<and> (\<exists>t todo now.
      lookup s (vr_WorkspaceID req) (vr_UserID req) (vr_TodoID req) = Some t
      \<and> Delete (vr_Version req) now t = Inr todo \<and> view = FromDomain todo now
      \<and> lookup s' (vr_WorkspaceID req) (vr_UserID req) (vr_TodoID req) = Some todo)"
proof -
  obtain now s0 where n: "Now s = (now, s0)" by (cases "Now s")
  with inv have s0: "inv s0" "lookup s0 = lookup s" by (auto dest: now_inv)
  obtain todo where w: "uow (delete_work store planner now req) s0 = (Inr todo, s')"
    and view: "view = FromDomain todo now"
    using run n by (auto simp: DeleteTodo_def bindA_run bindE_Inr_iff)
  have "inv s' \<and> (\<lambda>l l'. l' (vr_WorkspaceID req) (vr_UserID req) (vr_TodoID req) = Some todo
    \<and> (\<exists>t. l (vr_WorkspaceID req) (vr_UserID req) (vr_TodoID req) = Some t
          \<and> Delete (vr_Version req) now t = Inr todo)) (lookup s0) (lookup s')"
    using s0(1) w by (rule uow_ok) (rule delete_work_ok)
  with view s0(2) show ?thesis by auto
qed

end

end
