(* ===== verification/Reminder_Domain.thy ===== *)
theory Reminder_Domain
  imports Prelude
begin

text \<open>
  The Reminder aggregates (\<open>reminder/domain\<close>): plans and deliveries with their
  lifecycles. A method with a pointer receiver returns the new aggregate; every error is
  returned before the first write. The lemmas show the delivery invariant, that terminal
  states are final, and that idempotency keys identify deliveries.
\<close>

section \<open>Enumerations\<close>

datatype DeliveryState =
    StateScheduled
  | StateSending
  | StateSucceeded
  | StateFailed
  | StateSuppressed
  | StateOther string

fun string_of_state :: "DeliveryState \<Rightarrow> string" where
  "string_of_state StateScheduled = ''scheduled''"
| "string_of_state StateSending = ''sending''"
| "string_of_state StateSucceeded = ''succeeded''"
| "string_of_state StateFailed = ''failed''"
| "string_of_state StateSuppressed = ''suppressed''"
| "string_of_state (StateOther s) = s"

definition DeliveryState_of :: "string \<Rightarrow> DeliveryState" where
  "DeliveryState_of s =
     (if s = ''scheduled'' then StateScheduled else if s = ''sending'' then StateSending
      else if s = ''succeeded'' then StateSucceeded else if s = ''failed'' then StateFailed
      else if s = ''suppressed'' then StateSuppressed else StateOther s)"

datatype SuppressionReason =
    ReasonTodoCompleted
  | ReasonTodoDeleted
  | ReasonVersionStale
  | ReasonChannelUnavailable
  | ReasonPlanRevoked
  | ReasonOther string

fun string_of_reason :: "SuppressionReason \<Rightarrow> string" where
  "string_of_reason ReasonTodoCompleted = ''todo_completed''"
| "string_of_reason ReasonTodoDeleted = ''todo_deleted''"
| "string_of_reason ReasonVersionStale = ''version_stale''"
| "string_of_reason ReasonChannelUnavailable = ''channel_unavailable''"
| "string_of_reason ReasonPlanRevoked = ''plan_revoked''"
| "string_of_reason (ReasonOther s) = s"

definition SuppressionReason_of :: "string \<Rightarrow> SuppressionReason" where
  "SuppressionReason_of s =
     (if s = ''todo_completed'' then ReasonTodoCompleted
      else if s = ''todo_deleted'' then ReasonTodoDeleted
      else if s = ''version_stale'' then ReasonVersionStale
      else if s = ''channel_unavailable'' then ReasonChannelUnavailable
      else if s = ''plan_revoked'' then ReasonPlanRevoked else ReasonOther s)"

definition NewSuppressionReason :: "string \<Rightarrow> reminder_error + SuppressionReason" where
  "NewSuppressionReason value =
     (let reason = SuppressionReason_of value in
      if reason \<in> {ReasonTodoCompleted, ReasonTodoDeleted, ReasonVersionStale,
                   ReasonChannelUnavailable, ReasonPlanRevoked}
      then Inr reason else Inl ErrInvalidSuppressionReason)"

datatype ReceiptState = ReceiptOK | ReceiptFailed | ReceiptOther string

fun string_of_receipt :: "ReceiptState \<Rightarrow> string" where
  "string_of_receipt ReceiptOK = ''received_ok''"
| "string_of_receipt ReceiptFailed = ''received_failed''"
| "string_of_receipt (ReceiptOther s) = s"

definition ReceiptState_of :: "string \<Rightarrow> ReceiptState" where
  "ReceiptState_of s =
     (if s = ''received_ok'' then ReceiptOK
      else if s = ''received_failed'' then ReceiptFailed else ReceiptOther s)"

text \<open>\<open>OriginZero\<close> is the zero value, the empty string.\<close>

datatype DeliveryOrigin = OriginZero | OriginLocal | OriginImported

fun string_of_origin :: "DeliveryOrigin \<Rightarrow> string" where
  "string_of_origin OriginZero = ''''"
| "string_of_origin OriginLocal = ''local''"
| "string_of_origin OriginImported = ''imported''"

lemma string_of_DeliveryState_of [simp]: "string_of_state (DeliveryState_of s) = s"
  by (simp add: DeliveryState_of_def)

lemma string_of_SuppressionReason_of [simp]: "string_of_reason (SuppressionReason_of s) = s"
  by (simp add: SuppressionReason_of_def)

lemma string_of_ReceiptState_of [simp]: "string_of_receipt (ReceiptState_of s) = s"
  by (simp add: ReceiptState_of_def)

lemma NewSuppressionReason_Inr:
  "NewSuppressionReason v = Inr r \<longleftrightarrow>
     r = SuppressionReason_of v \<and> r \<in> {ReasonTodoCompleted, ReasonTodoDeleted,
       ReasonVersionStale, ReasonChannelUnavailable, ReasonPlanRevoked}"
  by (auto simp: NewSuppressionReason_def Let_def)

section \<open>Plans\<close>

datatype PlanStatus = StatusPlanned | StatusRevoked | PlanStatusOther string

fun string_of_plan_status :: "PlanStatus \<Rightarrow> string" where
  "string_of_plan_status StatusPlanned = ''planned''"
| "string_of_plan_status StatusRevoked = ''revoked''"
| "string_of_plan_status (PlanStatusOther s) = s"

definition PlanStatus_of :: "string \<Rightarrow> PlanStatus" where
  "PlanStatus_of s =
     (if s = ''planned'' then StatusPlanned
      else if s = ''revoked'' then StatusRevoked else PlanStatusOther s)"

record ReminderPlan =
  p_ID :: string
  p_WorkspaceID :: string
  p_TodoID :: string
  p_TodoReminderVersion :: int
  p_ScheduledAtUTC :: time
  p_RequestedChannels :: "string list"
  p_Status :: PlanStatus
  p_CreatedAt :: time
  p_RevokedAt :: "time option"

definition NewReminderPlan ::
    "string \<Rightarrow> string \<Rightarrow> string \<Rightarrow> int \<Rightarrow> time \<Rightarrow> string list \<Rightarrow> time \<Rightarrow> reminder_error + ReminderPlan" where
  "NewReminderPlan i ws todoID rv scheduledAt channels now =
     (if IsZero scheduledAt then Inl ErrMissingSchedule
      else Inr \<lparr>p_ID = i, p_WorkspaceID = ws, p_TodoID = todoID, p_TodoReminderVersion = rv,
        p_ScheduledAtUTC = scheduledAt, p_RequestedChannels = channels,
        p_Status = StatusPlanned, p_CreatedAt = now, p_RevokedAt = None\<rparr>)"

definition IsRevoked :: "ReminderPlan \<Rightarrow> bool" where
  "IsRevoked p \<longleftrightarrow> p_Status p = StatusRevoked"

definition Revoke :: "time \<Rightarrow> ReminderPlan \<Rightarrow> reminder_error + ReminderPlan" where
  "Revoke now p =
     (if IsRevoked p then Inl ErrPlanAlreadyRevoked
      else Inr (p\<lparr>p_Status := StatusRevoked, p_RevokedAt := Some now\<rparr>))"

section \<open>Deliveries\<close>

record ReminderDelivery =
  d_ID :: string
  d_WorkspaceID :: string
  d_TodoID :: string
  d_OwnerUserID :: string
  d_TodoReminderVersion :: int
  d_PlanID :: string
  d_Channel :: string
  d_TodoTitleSnapshot :: string
  d_IdempotencyKey :: string
  d_State :: DeliveryState
  d_SuppressionReason :: "SuppressionReason option"
  d_AttemptCount :: int
  d_ProviderJobID :: "int option"
  d_ProviderMessageID :: "string option"
  d_LastErrorCode :: "string option"
  d_ScheduledAt :: time
  d_CreatedAt :: time
  d_SubmittedAt :: "time option"
  d_FinalizedAt :: "time option"
  d_ReceiptState :: "ReceiptState option"
  d_ReceiptAt :: "time option"
  d_ReceiptErrorCode :: "string option"
  d_Origin :: DeliveryOrigin

definition IdempotencyKeyFor :: "string \<Rightarrow> string \<Rightarrow> int \<Rightarrow> string \<Rightarrow> string" where
  "IdempotencyKeyFor ws todoID rv channel =
     ws @ '':'' @ todoID @ '':'' @ Itoa rv @ '':'' @ channel"

definition NewDelivery ::
    "string \<Rightarrow> string \<Rightarrow> string \<Rightarrow> string \<Rightarrow> int \<Rightarrow> string \<Rightarrow> string \<Rightarrow> string \<Rightarrow> time \<Rightarrow> time
     \<Rightarrow> reminder_error + ReminderDelivery" where
  "NewDelivery i ws owner todoID rv planID channel title scheduledAt now =
     (if i = [] \<or> ws = [] \<or> owner = [] \<or> todoID = [] \<or> planID = [] \<or> title = []
      then Inl ErrMissingDeliveryFields
      else if IsZero scheduledAt then Inl ErrMissingSchedule
      else if channel \<noteq> ''email'' \<and> channel \<noteq> ''sms'' then Inl ErrInvalidDeliveryChannel
      else Inr \<lparr>d_ID = i, d_WorkspaceID = ws, d_TodoID = todoID, d_OwnerUserID = owner,
        d_TodoReminderVersion = rv, d_PlanID = planID, d_Channel = channel,
        d_TodoTitleSnapshot = title, d_IdempotencyKey = IdempotencyKeyFor ws todoID rv channel,
        d_State = StateScheduled, d_SuppressionReason = None, d_AttemptCount = 0,
        d_ProviderJobID = None, d_ProviderMessageID = None, d_LastErrorCode = None,
        d_ScheduledAt = scheduledAt, d_CreatedAt = now, d_SubmittedAt = None,
        d_FinalizedAt = None, d_ReceiptState = None, d_ReceiptAt = None,
        d_ReceiptErrorCode = None, d_Origin = OriginZero\<rparr>)"

definition RestoreDelivery ::
    "string \<Rightarrow> string \<Rightarrow> string \<Rightarrow> string \<Rightarrow> int \<Rightarrow> string \<Rightarrow> string \<Rightarrow> string \<Rightarrow> DeliveryState
     \<Rightarrow> SuppressionReason option \<Rightarrow> int \<Rightarrow> string option \<Rightarrow> string option \<Rightarrow> time \<Rightarrow> time
     \<Rightarrow> time option \<Rightarrow> time option \<Rightarrow> ReceiptState option \<Rightarrow> time option \<Rightarrow> string option
     \<Rightarrow> reminder_error + ReminderDelivery" where
  "RestoreDelivery i ws owner todoID rv channel title key state reason attempts msgID errCode
       scheduledAt createdAt submittedAt finalizedAt receipt receiptAt receiptErr =
     (if i = [] \<or> ws = [] \<or> owner = [] \<or> todoID = [] \<or> title = [] \<or> key = []
      then Inl ErrMissingDeliveryFields
      else if channel \<noteq> ''email'' \<and> channel \<noteq> ''sms'' then Inl ErrInvalidDeliveryChannel
      else if attempts < 0 then Inl ErrInvalidDeliveryAttemptCount
      else Inr \<lparr>d_ID = i, d_WorkspaceID = ws, d_TodoID = todoID, d_OwnerUserID = owner,
        d_TodoReminderVersion = rv, d_PlanID = [], d_Channel = channel,
        d_TodoTitleSnapshot = title, d_IdempotencyKey = key,
        d_State = state, d_SuppressionReason = reason, d_AttemptCount = attempts,
        d_ProviderJobID = None, d_ProviderMessageID = msgID, d_LastErrorCode = errCode,
        d_ScheduledAt = scheduledAt, d_CreatedAt = createdAt, d_SubmittedAt = submittedAt,
        d_FinalizedAt = finalizedAt, d_ReceiptState = receipt, d_ReceiptAt = receiptAt,
        d_ReceiptErrorCode = receiptErr, d_Origin = OriginImported\<rparr>)"

definition IsFinal :: "ReminderDelivery \<Rightarrow> bool" where
  "IsFinal d \<longleftrightarrow> d_State d \<in> {StateSucceeded, StateFailed, StateSuppressed}"

definition MarkSending :: "time \<Rightarrow> ReminderDelivery \<Rightarrow> reminder_error + ReminderDelivery" where
  "MarkSending now d =
     (if IsFinal d then Inl ErrDeliveryFinal
      else Inr (d\<lparr>d_State := StateSending, d_AttemptCount := d_AttemptCount d + 1\<rparr>))"

definition MarkSucceeded ::
    "string \<Rightarrow> time \<Rightarrow> ReminderDelivery \<Rightarrow> reminder_error + ReminderDelivery" where
  "MarkSucceeded providerMessageID now d =
     (if IsFinal d then Inl ErrDeliveryFinal
      else if d_State d \<noteq> StateSending then Inl ErrDeliveryNotSending
      else Inr (d\<lparr>d_State := StateSucceeded, d_ProviderMessageID := Some providerMessageID,
                  d_SubmittedAt := Some now, d_FinalizedAt := Some now\<rparr>))"

definition MarkFailed ::
    "string \<Rightarrow> time \<Rightarrow> ReminderDelivery \<Rightarrow> reminder_error + ReminderDelivery" where
  "MarkFailed errorCode now d =
     (if IsFinal d then Inl ErrDeliveryFinal
      else Inr (d\<lparr>d_State := StateFailed, d_LastErrorCode := Some errorCode,
                  d_FinalizedAt := Some now\<rparr>))"

definition MarkSuppressed ::
    "SuppressionReason \<Rightarrow> time \<Rightarrow> ReminderDelivery \<Rightarrow> reminder_error + ReminderDelivery" where
  "MarkSuppressed reason now d =
     (if IsFinal d then Inl ErrDeliveryFinal
      else Inr (d\<lparr>d_State := StateSuppressed, d_SuppressionReason := Some reason,
                  d_FinalizedAt := Some now\<rparr>))"

definition ApplyReceipt ::
    "ReceiptState \<Rightarrow> string \<Rightarrow> time \<Rightarrow> ReminderDelivery \<Rightarrow> reminder_error + ReminderDelivery" where
  "ApplyReceipt state errorCode now d =
     (if d_State d \<noteq> StateSucceeded then Inl ErrReceiptNotApplicable
      else if d_ReceiptState d \<noteq> None then Inr d
      else let d1 = d\<lparr>d_ReceiptState := Some state, d_ReceiptAt := Some now\<rparr>
           in Inr (if errorCode \<noteq> [] then d1\<lparr>d_ReceiptErrorCode := Some errorCode\<rparr> else d1))"

lemmas delivery_mark_defs =
  MarkSending_def MarkSucceeded_def MarkFailed_def MarkSuppressed_def ApplyReceipt_def

section \<open>The delivery lifecycle\<close>

text \<open>
  What a locally planned delivery satisfies in every reachable state: exactly the final states
  carry a finalization instant, a suppression carries its reason, a success its message id and
  submission instant, a failure its code; a delivery in \<open>sending\<close> has at least one
  attempt; a receipt is only on a success.
\<close>

definition delivery_inv :: "ReminderDelivery \<Rightarrow> bool" where
  "delivery_inv d \<longleftrightarrow>
     d_State d \<in> {StateScheduled, StateSending, StateSucceeded, StateFailed, StateSuppressed}
     \<and> 0 \<le> d_AttemptCount d
     \<and> (d_State d = StateScheduled \<longrightarrow> d_AttemptCount d = 0)
     \<and> (d_State d \<in> {StateSending, StateSucceeded} \<longrightarrow> 1 \<le> d_AttemptCount d)
     \<and> (d_FinalizedAt d \<noteq> None \<longleftrightarrow> IsFinal d)
     \<and> (d_SuppressionReason d \<noteq> None \<longleftrightarrow> d_State d = StateSuppressed)
     \<and> (d_ProviderMessageID d \<noteq> None \<longleftrightarrow> d_State d = StateSucceeded)
     \<and> (d_SubmittedAt d \<noteq> None \<longleftrightarrow> d_State d = StateSucceeded)
     \<and> (d_LastErrorCode d \<noteq> None \<longleftrightarrow> d_State d = StateFailed)
     \<and> (d_ReceiptState d \<noteq> None \<longrightarrow> d_State d = StateSucceeded)
     \<and> d_Channel d \<in> {''email'', ''sms''}
     \<and> d_IdempotencyKey d =
         IdempotencyKeyFor (d_WorkspaceID d) (d_TodoID d) (d_TodoReminderVersion d) (d_Channel d)"

text \<open>The fields planning fixes.\<close>

definition same_planning :: "ReminderDelivery \<Rightarrow> ReminderDelivery \<Rightarrow> bool" where
  "same_planning d d' \<longleftrightarrow>
     d_ID d' = d_ID d \<and> d_WorkspaceID d' = d_WorkspaceID d \<and> d_TodoID d' = d_TodoID d
     \<and> d_OwnerUserID d' = d_OwnerUserID d
     \<and> d_TodoReminderVersion d' = d_TodoReminderVersion d \<and> d_PlanID d' = d_PlanID d
     \<and> d_Channel d' = d_Channel d \<and> d_TodoTitleSnapshot d' = d_TodoTitleSnapshot d
     \<and> d_IdempotencyKey d' = d_IdempotencyKey d \<and> d_ProviderJobID d' = d_ProviderJobID d
     \<and> d_ScheduledAt d' = d_ScheduledAt d \<and> d_CreatedAt d' = d_CreatedAt d
     \<and> d_Origin d' = d_Origin d"

lemma same_planning_refl [simp]: "same_planning d d"
  by (simp add: same_planning_def)

lemma same_planning_trans: "same_planning a b \<Longrightarrow> same_planning b c \<Longrightarrow> same_planning a c"
  by (simp add: same_planning_def)

inductive delivery_step :: "ReminderDelivery \<Rightarrow> ReminderDelivery \<Rightarrow> bool" where
  step_sending: "MarkSending now d = Inr d' \<Longrightarrow> delivery_step d d'"
| step_succeeded: "MarkSucceeded m now d = Inr d' \<Longrightarrow> delivery_step d d'"
| step_failed: "MarkFailed c now d = Inr d' \<Longrightarrow> delivery_step d d'"
| step_suppressed: "MarkSuppressed r now d = Inr d' \<Longrightarrow> delivery_step d d'"
| step_receipt: "ApplyReceipt st c now d = Inr d' \<Longrightarrow> delivery_step d d'"

inductive_cases delivery_stepE: "delivery_step d d'"

lemma NewDelivery_inv:
  "NewDelivery i ws owner todoID rv planID channel title at now = Inr d \<Longrightarrow> delivery_inv d"
  by (auto simp: NewDelivery_def delivery_inv_def IsFinal_def split: if_splits)

lemma MarkSending_inv: "MarkSending now d = Inr d' \<Longrightarrow> delivery_inv d \<Longrightarrow> delivery_inv d'"
  by (cases "d_State d") (auto simp: MarkSending_def delivery_inv_def IsFinal_def)

lemma MarkSucceeded_inv: "MarkSucceeded m now d = Inr d' \<Longrightarrow> delivery_inv d \<Longrightarrow> delivery_inv d'"
  by (cases "d_State d") (auto simp: MarkSucceeded_def delivery_inv_def IsFinal_def)

lemma MarkFailed_inv: "MarkFailed c now d = Inr d' \<Longrightarrow> delivery_inv d \<Longrightarrow> delivery_inv d'"
  by (cases "d_State d") (auto simp: MarkFailed_def delivery_inv_def IsFinal_def)

lemma MarkSuppressed_inv: "MarkSuppressed r now d = Inr d' \<Longrightarrow> delivery_inv d \<Longrightarrow> delivery_inv d'"
  by (cases "d_State d") (auto simp: MarkSuppressed_def delivery_inv_def IsFinal_def)

lemma ApplyReceipt_inv: "ApplyReceipt st c now d = Inr d' \<Longrightarrow> delivery_inv d \<Longrightarrow> delivery_inv d'"
  by (cases "d_State d")
    (auto simp: ApplyReceipt_def delivery_inv_def IsFinal_def Let_def split: if_splits)

lemma delivery_step_inv: "delivery_step d d' \<Longrightarrow> delivery_inv d \<Longrightarrow> delivery_inv d'"
  by (erule delivery_stepE)
    (blast intro: MarkSending_inv MarkSucceeded_inv MarkFailed_inv MarkSuppressed_inv ApplyReceipt_inv)+

lemma delivery_step_planning: "delivery_step d d' \<Longrightarrow> same_planning d d'"
  by (erule delivery_stepE)
    (auto simp: delivery_mark_defs same_planning_def Let_def split: if_splits)

text \<open>A final delivery changes by receipts only: state, reason, instants and codes stay.\<close>

definition same_outcome :: "ReminderDelivery \<Rightarrow> ReminderDelivery \<Rightarrow> bool" where
  "same_outcome d d' \<longleftrightarrow>
     d_State d' = d_State d \<and> d_SuppressionReason d' = d_SuppressionReason d
     \<and> d_AttemptCount d' = d_AttemptCount d \<and> d_ProviderMessageID d' = d_ProviderMessageID d
     \<and> d_LastErrorCode d' = d_LastErrorCode d \<and> d_SubmittedAt d' = d_SubmittedAt d
     \<and> d_FinalizedAt d' = d_FinalizedAt d"

lemma delivery_step_final: "delivery_step d d' \<Longrightarrow> IsFinal d \<Longrightarrow> same_outcome d d'"
  by (erule delivery_stepE)
    (auto simp: delivery_mark_defs same_outcome_def Let_def split: if_splits)

lemma delivery_step_receipt_once:
  "delivery_step d d' \<Longrightarrow> d_ReceiptState d \<noteq> None \<Longrightarrow> delivery_inv d \<Longrightarrow> d' = d"
  by (erule delivery_stepE)
    (auto simp: delivery_mark_defs delivery_inv_def IsFinal_def split: if_splits)

lemma delivery_step_attempts: "delivery_step d d' \<Longrightarrow> d_AttemptCount d \<le> d_AttemptCount d'"
  by (erule delivery_stepE) (auto simp: delivery_mark_defs Let_def split: if_splits)

lemma same_outcome_final: "same_outcome d d' \<Longrightarrow> IsFinal d' = IsFinal d"
  by (simp add: same_outcome_def IsFinal_def)

lemma same_outcome_trans: "same_outcome a b \<Longrightarrow> same_outcome b c \<Longrightarrow> same_outcome a c"
  by (simp add: same_outcome_def)

lemma delivery_steps_planning: "delivery_step\<^sup>*\<^sup>* d d' \<Longrightarrow> same_planning d d'"
  by (induction rule: rtranclp_induct) (auto dest: delivery_step_planning same_planning_trans)

lemma delivery_steps_inv: "delivery_step\<^sup>*\<^sup>* d d' \<Longrightarrow> delivery_inv d \<Longrightarrow> delivery_inv d'"
  by (induction rule: rtranclp_induct) (auto dest: delivery_step_inv)

lemma delivery_steps_attempts: "delivery_step\<^sup>*\<^sup>* d d' \<Longrightarrow> d_AttemptCount d \<le> d_AttemptCount d'"
  by (induction rule: rtranclp_induct) (auto dest: delivery_step_attempts)

lemma delivery_steps_final: "delivery_step\<^sup>*\<^sup>* d d' \<Longrightarrow> IsFinal d \<Longrightarrow> same_outcome d d'"
proof (induction rule: rtranclp_induct)
  case base
  then show ?case by (simp add: same_outcome_def)
next
  case (step b c)
  then have "same_outcome d b" "IsFinal b" by (auto dest: same_outcome_final)
  with delivery_step_final [OF step.hyps(2)] show ?case by (blast intro: same_outcome_trans)
qed

section \<open>Idempotency keys\<close>

lemma IdempotencyKeyFor_inj:
  assumes "CHR '':'' \<notin> set ws" "CHR '':'' \<notin> set ws'"
    and "CHR '':'' \<notin> set todoID" "CHR '':'' \<notin> set todoID'"
    and eq: "IdempotencyKeyFor ws todoID rv channel = IdempotencyKeyFor ws' todoID' rv' channel'"
  shows "ws = ws' \<and> todoID = todoID' \<and> rv = rv' \<and> channel = channel'"
  using eq assms(1-4) colon_notin_Itoa
  by (auto simp: IdempotencyKeyFor_def append_sep_inj dest: Itoa_inj)

end
