(* ===== verification/Reminder_Store.thy ===== *)
theory Reminder_Store
  imports Reminder_Domain Database
begin

text \<open>
  The reminder ports (\<open>reminder/application/ports\<close>) and their PostgreSQL adapters
  (\<open>reminder/adapters/outbound/postgres\<close>). The database part is the record of the two
  tables, with the constraints of migrations 004, 007 and 008: the unique plan per
  (todo, version), the unique idempotency key, the unique (todo, version, channel) of local rows,
  the checks and the foreign key of plans. The locale \<open>delivery_store\<close> states what the
  handlers rely on; it is interpreted on the adapter.
\<close>

section \<open>Ports\<close>

record DeliveryCounts =
  dc_Scheduled :: int
  dc_Sending :: int
  dc_Retrying :: int
  dc_Succeeded :: int
  dc_Failed :: int
  dc_Suppressed :: int

record DeliveryFilter =
  df_Status :: string
  df_Limit :: int
  df_Offset :: int

record 's DeliveryStore =
  ds_Save :: "ReminderDelivery \<Rightarrow> ('s, unit) op"
  ds_Update :: "ReminderDelivery \<Rightarrow> ('s, unit) op"
  ds_ByIdempotencyKey :: "string \<Rightarrow> string \<Rightarrow> ('s, ReminderDelivery) op"
  ds_ByProviderMessageID :: "string \<Rightarrow> ('s, ReminderDelivery) op"
  ds_SetProviderJobID :: "string \<Rightarrow> string \<Rightarrow> int \<Rightarrow> ('s, unit) op"
  ds_PlannedJobIDs :: "string \<Rightarrow> string \<Rightarrow> int \<Rightarrow> ('s, int list) op"
  ds_ScheduledForSuppression :: "string \<Rightarrow> string \<Rightarrow> int \<Rightarrow> ('s, ReminderDelivery list) op"
  ds_Stats :: "string \<Rightarrow> ('s, DeliveryCounts) op"
  ds_List :: "string \<Rightarrow> DeliveryFilter \<Rightarrow> ('s, ReminderDelivery list) op"
  ds_SaveImported :: "ReminderDelivery \<Rightarrow> ('s, unit) op"
  ds_Export :: "string \<Rightarrow> int \<Rightarrow> int \<Rightarrow> ('s, ReminderDelivery list) op"

record 's PlanStore =
  ps_Save :: "ReminderPlan \<Rightarrow> ('s, unit) op"
  ps_Get :: "string \<Rightarrow> string \<Rightarrow> ('s, ReminderPlan) op"
  ps_RevokePlanned :: "string \<Rightarrow> string \<Rightarrow> int \<Rightarrow> time \<Rightarrow> ('s, unit) op"

record ReminderJob =
  j_PlanID :: string
  j_WorkspaceID :: string
  j_TodoID :: string
  j_TodoReminderVersion :: int
  j_ScheduledAtUTC :: time
  j_Channels :: "string list"
  j_OwnerUserID :: string

text \<open>\<open>Schedule\<close> returns pairs of a channel and the provider's job id.\<close>

record 's JobScheduler =
  js_Schedule :: "ReminderJob \<Rightarrow> ('s, (string \<times> int) list) op"
  js_Cancel :: "int \<Rightarrow> ('s, unit) op"

section \<open>The PostgreSQL adapters\<close>

record reminder_db =
  rdb_plans :: "ReminderPlan list"
  rdb_deliveries :: "ReminderDelivery list"

definition plan_check :: "ReminderPlan \<Rightarrow> bool" where
  "plan_check p \<longleftrightarrow> string_of_plan_status (p_Status p) \<in> {''planned'', ''revoked''}"

text \<open>The insert writes eight columns; \<open>revoked_at\<close> stays null.\<close>

definition pg_plan_Save :: "ReminderPlan \<Rightarrow> (reminder_db, unit) op" where
  "pg_plan_Save p db =
     (if \<not> plan_check p then (Inl (DatabaseErr (SqlError ''23514'')), db)
      else if p_ID p \<in> p_ID ` set (rdb_plans db)
           \<or> list_ex (\<lambda>q. p_TodoID q = p_TodoID p
                \<and> p_TodoReminderVersion q = p_TodoReminderVersion p) (rdb_plans db)
      then (Inl (ReminderErr ErrPlanExists), db)
      else (Inr (), db\<lparr>rdb_plans := rdb_plans db @ [p\<lparr>p_RevokedAt := None\<rparr>]\<rparr>))"

definition scanPlan :: "ReminderPlan \<Rightarrow> ReminderPlan" where
  "scanPlan p = p\<lparr>p_Status := PlanStatus_of (string_of_plan_status (p_Status p))\<rparr>"

definition pg_plan_Get :: "string \<Rightarrow> string \<Rightarrow> (reminder_db, ReminderPlan) op" where
  "pg_plan_Get ws i db =
     (case find (\<lambda>p. p_WorkspaceID p = ws \<and> p_ID p = i) (rdb_plans db) of
        None \<Rightarrow> (Inl (ReminderErr ErrPlanNotFound), db)
      | Some p \<Rightarrow> (Inr (scanPlan p), db))"

definition pg_plan_RevokePlanned :: "string \<Rightarrow> string \<Rightarrow> int \<Rightarrow> time \<Rightarrow> (reminder_db, unit) op" where
  "pg_plan_RevokePlanned ws todoID upTo now db =
     (Inr (), db\<lparr>rdb_plans := update_where
        (\<lambda>p. p_WorkspaceID p = ws \<and> p_TodoID p = todoID \<and> p_TodoReminderVersion p \<le> upTo
             \<and> string_of_plan_status (p_Status p) = ''planned'')
        (\<lambda>p. p\<lparr>p_Status := StatusRevoked, p_RevokedAt := Some now\<rparr>) (rdb_plans db)\<rparr>)"

definition delivery_check :: "ReminderDelivery \<Rightarrow> bool" where
  "delivery_check d \<longleftrightarrow>
     d_Channel d \<in> {''email'', ''sms''}
     \<and> string_of_state (d_State d) \<in>
          {''scheduled'', ''sending'', ''succeeded'', ''failed'', ''suppressed''}
     \<and> (case d_SuppressionReason d of None \<Rightarrow> True | Some r \<Rightarrow> string_of_reason r \<in>
          {''todo_completed'', ''todo_deleted'', ''version_stale'', ''channel_unavailable'',
           ''plan_revoked''})
     \<and> (case d_ReceiptState d of None \<Rightarrow> True | Some r \<Rightarrow>
          string_of_receipt r \<in> {''received_ok'', ''received_failed''})"

definition key_taken :: "ReminderDelivery \<Rightarrow> ReminderDelivery list \<Rightarrow> bool" where
  "key_taken d rows \<longleftrightarrow>
     list_ex (\<lambda>r. d_ID r = d_ID d \<or> d_IdempotencyKey r = d_IdempotencyKey d) rows"

definition local_key_taken :: "ReminderDelivery \<Rightarrow> ReminderDelivery list \<Rightarrow> bool" where
  "local_key_taken d rows \<longleftrightarrow>
     list_ex (\<lambda>r. d_Origin r = OriginLocal \<and> d_TodoID r = d_TodoID d
        \<and> d_TodoReminderVersion r = d_TodoReminderVersion d \<and> d_Channel r = d_Channel d) rows"

text \<open>
  A null \<open>plan_id\<close> is the empty string. \<open>Save\<close> leaves \<open>origin\<close> to its default.
\<close>

definition pg_delivery_Save :: "ReminderDelivery \<Rightarrow> (reminder_db, unit) op" where
  "pg_delivery_Save d db =
     (if \<not> delivery_check d then (Inl (DatabaseErr (SqlError ''23514'')), db)
      else if key_taken d (rdb_deliveries db) \<or> local_key_taken d (rdb_deliveries db)
      then (Inl (ReminderErr ErrDeliveryExists), db)
      else if d_PlanID d \<notin> p_ID ` set (rdb_plans db)
      then (Inl (DatabaseErr (SqlError ''23503'')), db)
      else (Inr (), db\<lparr>rdb_deliveries := rdb_deliveries db @ [d\<lparr>d_Origin := OriginLocal\<rparr>]\<rparr>))"

definition pg_delivery_SaveImported :: "ReminderDelivery \<Rightarrow> (reminder_db, unit) op" where
  "pg_delivery_SaveImported d db =
     (if \<not> delivery_check d then (Inl (DatabaseErr (SqlError ''23514'')), db)
      else if key_taken d (rdb_deliveries db) then (Inl (ReminderErr ErrDeliveryExists), db)
      else (Inr (), db\<lparr>rdb_deliveries :=
              rdb_deliveries db @ [d\<lparr>d_PlanID := [], d_Origin := OriginImported\<rparr>]\<rparr>))"

text \<open>The columns \<open>update ... set\<close> writes.\<close>

definition set_columns :: "ReminderDelivery \<Rightarrow> ReminderDelivery \<Rightarrow> ReminderDelivery" where
  "set_columns d r =
     r\<lparr>d_State := d_State d, d_SuppressionReason := d_SuppressionReason d,
       d_AttemptCount := d_AttemptCount d, d_ProviderMessageID := d_ProviderMessageID d,
       d_LastErrorCode := d_LastErrorCode d, d_SubmittedAt := d_SubmittedAt d,
       d_FinalizedAt := d_FinalizedAt d, d_ReceiptState := d_ReceiptState d,
       d_ReceiptAt := d_ReceiptAt d, d_ReceiptErrorCode := d_ReceiptErrorCode d\<rparr>"

lemma set_columns_fields [simp]:
  "d_ID (set_columns d r) = d_ID r" "d_WorkspaceID (set_columns d r) = d_WorkspaceID r"
  "d_TodoID (set_columns d r) = d_TodoID r" "d_IdempotencyKey (set_columns d r) = d_IdempotencyKey r"
  "d_TodoReminderVersion (set_columns d r) = d_TodoReminderVersion r"
  "d_State (set_columns d r) = d_State d"
  by (simp_all add: set_columns_def)

definition pg_delivery_Update :: "ReminderDelivery \<Rightarrow> (reminder_db, unit) op" where
  "pg_delivery_Update d db =
     (let hit = (\<lambda>r. d_WorkspaceID r = d_WorkspaceID d \<and> d_ID r = d_ID d);
          set_cols = set_columns d
      in if \<not> list_ex hit (rdb_deliveries db) then (Inl (ReminderErr ErrDeliveryNotFound), db)
         else if \<not> list_all (\<lambda>r. hit r \<longrightarrow> delivery_check (set_cols r)) (rdb_deliveries db)
         then (Inl (DatabaseErr (SqlError ''23514'')), db)
         else (Inr (), db\<lparr>rdb_deliveries := update_where hit set_cols (rdb_deliveries db)\<rparr>))"

text \<open>
  \<open>scanDelivery\<close> reads the string columns back into the domain's constants and leaves the
  origin at its zero value; \<open>scanDeliveryWithOrigin\<close> reads the origin too.
\<close>

definition scanDeliveryWithOrigin :: "ReminderDelivery \<Rightarrow> ReminderDelivery" where
  "scanDeliveryWithOrigin r =
     r\<lparr>d_State := DeliveryState_of (string_of_state (d_State r)),
       d_SuppressionReason :=
         map_option (\<lambda>x. SuppressionReason_of (string_of_reason x)) (d_SuppressionReason r),
       d_ReceiptState :=
         map_option (\<lambda>x. ReceiptState_of (string_of_receipt x)) (d_ReceiptState r)\<rparr>"

definition scanDelivery :: "ReminderDelivery \<Rightarrow> ReminderDelivery" where
  "scanDelivery r = (scanDeliveryWithOrigin r)\<lparr>d_Origin := OriginZero\<rparr>"

definition pg_delivery_ByIdempotencyKey ::
    "string \<Rightarrow> string \<Rightarrow> (reminder_db, ReminderDelivery) op" where
  "pg_delivery_ByIdempotencyKey ws key db =
     (case find (\<lambda>r. d_WorkspaceID r = ws \<and> d_IdempotencyKey r = key) (rdb_deliveries db) of
        None \<Rightarrow> (Inl (ReminderErr ErrDeliveryNotFound), db)
      | Some r \<Rightarrow> (Inr (scanDelivery r), db))"

definition pg_delivery_ByProviderMessageID :: "string \<Rightarrow> (reminder_db, ReminderDelivery) op" where
  "pg_delivery_ByProviderMessageID m db =
     (case find (\<lambda>r. d_ProviderMessageID r = Some m) (rdb_deliveries db) of
        None \<Rightarrow> (Inl (ReminderErr ErrDeliveryNotFound), db)
      | Some r \<Rightarrow> (Inr (scanDelivery r), db))"

definition pg_delivery_SetProviderJobID ::
    "string \<Rightarrow> string \<Rightarrow> int \<Rightarrow> (reminder_db, unit) op" where
  "pg_delivery_SetProviderJobID ws i job db =
     (Inr (), db\<lparr>rdb_deliveries := update_where (\<lambda>r. d_WorkspaceID r = ws \<and> d_ID r = i)
        (\<lambda>r. r\<lparr>d_ProviderJobID := Some job\<rparr>) (rdb_deliveries db)\<rparr>)"

definition of_todo_upto :: "string \<Rightarrow> string \<Rightarrow> int \<Rightarrow> ReminderDelivery \<Rightarrow> bool" where
  "of_todo_upto ws todoID upTo r \<longleftrightarrow>
     d_WorkspaceID r = ws \<and> d_TodoID r = todoID \<and> d_TodoReminderVersion r \<le> upTo"

definition pg_delivery_PlannedJobIDs ::
    "string \<Rightarrow> string \<Rightarrow> int \<Rightarrow> (reminder_db, int list) op" where
  "pg_delivery_PlannedJobIDs ws todoID upTo db =
     (Inr (sort (map (the \<circ> d_ProviderJobID) (filter (\<lambda>r. of_todo_upto ws todoID upTo r
         \<and> d_ProviderJobID r \<noteq> None
         \<and> string_of_state (d_State r) \<in> {''scheduled'', ''sending''}) (rdb_deliveries db)))), db)"

definition pg_delivery_ScheduledForSuppression ::
    "string \<Rightarrow> string \<Rightarrow> int \<Rightarrow> (reminder_db, ReminderDelivery list) op" where
  "pg_delivery_ScheduledForSuppression ws todoID upTo db =
     (Inr (map scanDelivery (order_rows (\<lambda>a b. \<not> bytes_less (d_ID b) (d_ID a))
        (filter (\<lambda>r. of_todo_upto ws todoID upTo r \<and> string_of_state (d_State r) = ''scheduled'')
           (rdb_deliveries db)))), db)"

definition in_state :: "string \<Rightarrow> ReminderDelivery \<Rightarrow> bool" where
  "in_state s r \<longleftrightarrow> string_of_state (d_State r) = s"

definition counts_of :: "ReminderDelivery list \<Rightarrow> DeliveryCounts" where
  "counts_of rows =
     \<lparr>dc_Scheduled = count_where (in_state ''scheduled'') rows,
      dc_Sending = count_where (\<lambda>r. in_state ''sending'' r \<and> d_AttemptCount r = 0) rows,
      dc_Retrying = count_where (\<lambda>r. in_state ''sending'' r \<and> d_AttemptCount r > 0) rows,
      dc_Succeeded = count_where (in_state ''succeeded'') rows,
      dc_Failed = count_where (in_state ''failed'') rows,
      dc_Suppressed = count_where (in_state ''suppressed'') rows\<rparr>"

definition pg_delivery_Stats :: "string \<Rightarrow> (reminder_db, DeliveryCounts) op" where
  "pg_delivery_Stats ws db =
     (Inr (counts_of (filter (\<lambda>r. d_WorkspaceID r = ws) (rdb_deliveries db))), db)"

definition filter_match :: "string \<Rightarrow> ReminderDelivery \<Rightarrow> bool" where
  "filter_match st r \<longleftrightarrow> st = [] \<or> in_state st r
     \<or> (st = ''retrying'' \<and> in_state ''sending'' r \<and> d_AttemptCount r > 0)"

definition pg_delivery_List ::
    "string \<Rightarrow> DeliveryFilter \<Rightarrow> (reminder_db, ReminderDelivery list) op" where
  "pg_delivery_List ws f db =
     (Inr (map scanDelivery (page (df_Offset f) (df_Limit f)
        (order_rows (\<lambda>a b. row_before d_CreatedAt d_ID b a)
           (filter (\<lambda>r. d_WorkspaceID r = ws \<and> filter_match (df_Status f) r)
              (rdb_deliveries db))))), db)"

definition pg_delivery_Export ::
    "string \<Rightarrow> int \<Rightarrow> int \<Rightarrow> (reminder_db, ReminderDelivery list) op" where
  "pg_delivery_Export ws offset limit db =
     (Inr (map scanDeliveryWithOrigin (page offset limit
        (order_rows (row_before d_CreatedAt d_ID)
           (filter (\<lambda>r. d_WorkspaceID r = ws) (rdb_deliveries db))))), db)"

definition pg_delivery_store :: "reminder_db DeliveryStore" where
  "pg_delivery_store =
     \<lparr>ds_Save = pg_delivery_Save, ds_Update = pg_delivery_Update,
      ds_ByIdempotencyKey = pg_delivery_ByIdempotencyKey,
      ds_ByProviderMessageID = pg_delivery_ByProviderMessageID,
      ds_SetProviderJobID = pg_delivery_SetProviderJobID,
      ds_PlannedJobIDs = pg_delivery_PlannedJobIDs,
      ds_ScheduledForSuppression = pg_delivery_ScheduledForSuppression,
      ds_Stats = pg_delivery_Stats, ds_List = pg_delivery_List,
      ds_SaveImported = pg_delivery_SaveImported, ds_Export = pg_delivery_Export\<rparr>"

definition pg_plan_store :: "reminder_db PlanStore" where
  "pg_plan_store =
     \<lparr>ps_Save = pg_plan_Save, ps_Get = pg_plan_Get, ps_RevokePlanned = pg_plan_RevokePlanned\<rparr>"

section \<open>What the send command relies on\<close>

text \<open>
  \<open>row s ws key\<close> is the delivery of an idempotency key. An error leaves the state; the
  store may fail for reasons of its own at any call.
\<close>

locale delivery_store =
  fixes deliveries :: "'s DeliveryStore"
    and row :: "'s \<Rightarrow> string \<Rightarrow> string \<Rightarrow> ReminderDelivery option"
    and dinv :: "'s \<Rightarrow> bool"
  assumes bykey_found: "dinv s \<Longrightarrow> ds_ByIdempotencyKey deliveries ws key s = (Inr d, s') \<Longrightarrow>
        s' = s \<and> row s ws key = Some d"
    and bykey_missing: "dinv s \<Longrightarrow>
        ds_ByIdempotencyKey deliveries ws key s = (Inl (ReminderErr ErrDeliveryNotFound), s') \<Longrightarrow>
        row s ws key = None"
    and bykey_error: "dinv s \<Longrightarrow> ds_ByIdempotencyKey deliveries ws key s = (Inl e, s') \<Longrightarrow> s' = s"
    and row_key: "dinv s \<Longrightarrow> row s ws key = Some d \<Longrightarrow>
        d_WorkspaceID d = ws \<and> d_IdempotencyKey d = key \<and> scanDelivery d = d"
    and save_ok: "dinv s \<Longrightarrow> scanDelivery d = d \<Longrightarrow> ds_Save deliveries d s = (Inr (), s') \<Longrightarrow>
        dinv s' \<and> row s' = (\<lambda>ws key. if ws = d_WorkspaceID d \<and> key = d_IdempotencyKey d then Some d
                          else row s ws key)"
    and save_error: "dinv s \<Longrightarrow> ds_Save deliveries d s = (Inl e, s') \<Longrightarrow> s' = s"
    and update_ok: "dinv s \<Longrightarrow> row s (d_WorkspaceID d) (d_IdempotencyKey d) = Some old \<Longrightarrow>
        same_planning old d \<Longrightarrow> scanDelivery d = d \<Longrightarrow>
        ds_Update deliveries d s = (Inr (), s') \<Longrightarrow>
        dinv s' \<and> row s' = (\<lambda>ws key. if ws = d_WorkspaceID d \<and> key = d_IdempotencyKey d then Some d
                          else row s ws key)"
    and update_error: "dinv s \<Longrightarrow> ds_Update deliveries d s = (Inl e, s') \<Longrightarrow> s' = s"

section \<open>The adapter keeps the promises\<close>

definition delivery_table_inv :: "reminder_db \<Rightarrow> bool" where
  "delivery_table_inv db \<longleftrightarrow>
     distinct (map d_ID (rdb_deliveries db)) \<and> distinct (map d_IdempotencyKey (rdb_deliveries db))"

definition delivery_row :: "reminder_db \<Rightarrow> string \<Rightarrow> string \<Rightarrow> ReminderDelivery option" where
  "delivery_row db ws key = map_option scanDelivery
     (find (\<lambda>r. d_WorkspaceID r = ws \<and> d_IdempotencyKey r = key) (rdb_deliveries db))"

lemma scan_idem [simp]: "scanDelivery (scanDelivery d) = scanDelivery d"
  by (simp add: scanDelivery_def scanDeliveryWithOrigin_def option.map_comp comp_def)

lemma scan_fields [simp]:
  "d_ID (scanDelivery d) = d_ID d" "d_WorkspaceID (scanDelivery d) = d_WorkspaceID d"
  "d_IdempotencyKey (scanDelivery d) = d_IdempotencyKey d" "d_TodoID (scanDelivery d) = d_TodoID d"
  "d_TodoReminderVersion (scanDelivery d) = d_TodoReminderVersion d"
  "d_Channel (scanDelivery d) = d_Channel d" "d_AttemptCount (scanDelivery d) = d_AttemptCount d"
  by (simp_all add: scanDelivery_def scanDeliveryWithOrigin_def)

lemma scan_columns:
  "d_State (scanDelivery d) = DeliveryState_of (string_of_state (d_State d))"
  "d_SuppressionReason (scanDelivery d) =
     map_option (\<lambda>x. SuppressionReason_of (string_of_reason x)) (d_SuppressionReason d)"
  "d_ReceiptState (scanDelivery d) =
     map_option (\<lambda>x. ReceiptState_of (string_of_receipt x)) (d_ReceiptState d)"
  by (simp_all add: scanDelivery_def scanDeliveryWithOrigin_def)

lemma delivery_row_Some:
  "delivery_table_inv db \<Longrightarrow> delivery_row db ws key = Some d \<longleftrightarrow>
     (\<exists>r \<in> set (rdb_deliveries db). d_WorkspaceID r = ws \<and> d_IdempotencyKey r = key
        \<and> d = scanDelivery r)"
  unfolding delivery_table_inv_def delivery_row_def
  by (auto dest!: find_SomeD intro!: find_unique [where k = d_IdempotencyKey])

lemma delivery_row_None:
  "delivery_row db ws key = None \<longleftrightarrow>
     (\<forall>r \<in> set (rdb_deliveries db). \<not> (d_WorkspaceID r = ws \<and> d_IdempotencyKey r = key))"
  by (auto simp: delivery_row_def find_None_iff)

lemma pg_delivery_Save_row:
  assumes inv: "delivery_table_inv db" and scan: "scanDelivery d = d"
    and save: "pg_delivery_Save d db = (Inr (), db')"
  shows "delivery_table_inv db' \<and> delivery_row db' =
    (\<lambda>ws key. if ws = d_WorkspaceID d \<and> key = d_IdempotencyKey d then Some d
              else delivery_row db ws key)"
proof -
  let ?new = "d\<lparr>d_Origin := OriginLocal\<rparr>"
  have db': "rdb_deliveries db' = rdb_deliveries db @ [?new]"
    and fresh: "\<And>r. r \<in> set (rdb_deliveries db) \<Longrightarrow>
        d_ID r \<noteq> d_ID d \<and> d_IdempotencyKey r \<noteq> d_IdempotencyKey d"
    using save by (auto simp: pg_delivery_Save_def key_taken_def list_ex_iff split: if_splits)
  have "scanDelivery ?new = scanDelivery d"
    by (simp add: scanDelivery_def scanDeliveryWithOrigin_def)
  then have new: "scanDelivery ?new = d" using scan by simp
  have "d_ID d \<notin> d_ID ` set (rdb_deliveries db)"
    "d_IdempotencyKey d \<notin> d_IdempotencyKey ` set (rdb_deliveries db)"
    by (metis fresh imageE)+
  with inv have inv': "delivery_table_inv db'"
    by (simp add: delivery_table_inv_def db')
  have "delivery_row db' ws key =
      (if ws = d_WorkspaceID d \<and> key = d_IdempotencyKey d then Some d else delivery_row db ws key)"
    for ws key
  proof -
    have "\<And>r. r \<in> set (rdb_deliveries db') \<longleftrightarrow> r \<in> set (rdb_deliveries db) \<or> r = ?new"
      by (auto simp: db')
    note mem = this
    show ?thesis
    proof (cases "ws = d_WorkspaceID d \<and> key = d_IdempotencyKey d")
      case True
      have "?new \<in> set (rdb_deliveries db')" by (simp add: mem)
      moreover have "d_WorkspaceID ?new = ws" "d_IdempotencyKey ?new = key" using True by simp_all
      ultimately have "delivery_row db' ws key = Some d"
        unfolding delivery_row_Some [OF inv'] using new by metis
      with True show ?thesis by simp
    next
      case False
      have "delivery_row db' ws key = Some x \<longleftrightarrow> delivery_row db ws key = Some x" for x
      proof
        assume "delivery_row db' ws key = Some x"
        then obtain r where r: "r \<in> set (rdb_deliveries db')" "d_WorkspaceID r = ws"
          "d_IdempotencyKey r = key" "x = scanDelivery r"
          unfolding delivery_row_Some [OF inv'] by blast
        have "r \<noteq> ?new"
        proof
          assume "r = ?new"
          then have "d_WorkspaceID r = d_WorkspaceID d" "d_IdempotencyKey r = d_IdempotencyKey d" by simp_all
          with False r(2,3) show False by simp
        qed
        then have "r \<in> set (rdb_deliveries db)" using r(1) mem by blast
        with r(2-4) show "delivery_row db ws key = Some x"
          unfolding delivery_row_Some [OF inv] by (intro bexI conjI)
      next
        assume "delivery_row db ws key = Some x"
        then obtain r where r: "r \<in> set (rdb_deliveries db)" "d_WorkspaceID r = ws"
          "d_IdempotencyKey r = key" "x = scanDelivery r"
          unfolding delivery_row_Some [OF inv] by blast
        then have "r \<in> set (rdb_deliveries db')" using mem by blast
        with r(2-4) show "delivery_row db' ws key = Some x"
          unfolding delivery_row_Some [OF inv'] by (intro bexI conjI)
      qed
      then have "delivery_row db' ws key = delivery_row db ws key" by (rule option_ext)
      with False show ?thesis by presburger
    qed
  qed
  with inv' show ?thesis by auto
qed

lemma pg_delivery_Update_row:
  assumes inv: "delivery_table_inv db"
    and old: "delivery_row db (d_WorkspaceID d) (d_IdempotencyKey d) = Some old"
    and same: "same_planning old d" and scan: "scanDelivery d = d"
    and upd: "pg_delivery_Update d db = (Inr (), db')"
  shows "delivery_table_inv db' \<and> delivery_row db' =
    (\<lambda>ws key. if ws = d_WorkspaceID d \<and> key = d_IdempotencyKey d then Some d
              else delivery_row db ws key)"
proof -
  let ?hit = "\<lambda>r. d_WorkspaceID r = d_WorkspaceID d \<and> d_ID r = d_ID d"
  let ?set = "set_columns d"
  have db': "rdb_deliveries db' = update_where ?hit ?set (rdb_deliveries db)"
    using upd by (auto simp: pg_delivery_Update_def Let_def split: if_splits)
  obtain r0 where r0: "r0 \<in> set (rdb_deliveries db)" "old = scanDelivery r0"
      "d_WorkspaceID r0 = d_WorkspaceID d" "d_IdempotencyKey r0 = d_IdempotencyKey d"
    using old by (auto simp: delivery_row_Some [OF inv])
  have id0: "d_ID r0 = d_ID d" using same r0 by (simp add: same_planning_def)
  have hit_r0: "r \<in> set (rdb_deliveries db) \<Longrightarrow> ?hit r \<Longrightarrow> r = r0" for r
    using inv r0(1) id0 distinct_key_eq [of d_ID "rdb_deliveries db" r0 r]
    by (simp add: delivery_table_inv_def)
  have eqs: "d_State d = DeliveryState_of (string_of_state (d_State d))"
    "d_SuppressionReason d =
      map_option (\<lambda>x. SuppressionReason_of (string_of_reason x)) (d_SuppressionReason d)"
    "d_ReceiptState d = map_option (\<lambda>x. ReceiptState_of (string_of_receipt x)) (d_ReceiptState d)"
    using scan by (metis scan_columns)+
  have "scanDelivery (?set r0) = d"
    using same r0(2) eqs
    by (intro ReminderDelivery.equality)
      (simp_all add: same_planning_def scanDelivery_def scanDeliveryWithOrigin_def set_columns_def)
  then have set0: "scanDelivery (?set r0) = d" .
  have ids: "map d_ID (rdb_deliveries db') = map d_ID (rdb_deliveries db)"
    and keys: "map d_IdempotencyKey (rdb_deliveries db') = map d_IdempotencyKey (rdb_deliveries db)"
    unfolding db' by (rule map_update_where, simp)+
  then have inv': "delivery_table_inv db'"
    using inv unfolding delivery_table_inv_def by simp
  have mem: "r \<in> set (rdb_deliveries db') \<longleftrightarrow>
      r = ?set r0 \<or> (r \<in> set (rdb_deliveries db) \<and> \<not> ?hit r)" for r
  proof -
    have h0: "?hit r0" using r0(3) id0 by simp
    have "\<And>q. q \<in> set (rdb_deliveries db) \<Longrightarrow> ?hit q \<longleftrightarrow> q = r0"
      using hit_r0 h0 by blast
    then show ?thesis unfolding db' in_update_where using r0(1) h0 by blast
  qed
  have "delivery_row db' ws key =
      (if ws = d_WorkspaceID d \<and> key = d_IdempotencyKey d then Some d else delivery_row db ws key)"
    for ws key
  proof (cases "ws = d_WorkspaceID d \<and> key = d_IdempotencyKey d")
    case True
    have "?set r0 \<in> set (rdb_deliveries db')" by (simp add: mem)
    moreover have "d_WorkspaceID (?set r0) = ws" "d_IdempotencyKey (?set r0) = key"
      using True r0 by simp_all
    ultimately have "delivery_row db' ws key = Some d"
      unfolding delivery_row_Some [OF inv'] using set0 by metis
    with True show ?thesis by simp
  next
    case False
    have "delivery_row db' ws key = Some x \<longleftrightarrow> delivery_row db ws key = Some x" for x
    proof
      assume "delivery_row db' ws key = Some x"
      then obtain r where r: "r \<in> set (rdb_deliveries db')" "d_WorkspaceID r = ws"
        "d_IdempotencyKey r = key" "x = scanDelivery r"
        unfolding delivery_row_Some [OF inv'] by blast
      have "r \<noteq> ?set r0" using False r(2,3) r0(3,4) by fastforce
      then have "r \<in> set (rdb_deliveries db)" using r(1) mem by blast
      with r(2-4) show "delivery_row db ws key = Some x"
        unfolding delivery_row_Some [OF inv] by blast
    next
      assume "delivery_row db ws key = Some x"
      then obtain r where r: "r \<in> set (rdb_deliveries db)" "d_WorkspaceID r = ws"
        "d_IdempotencyKey r = key" "x = scanDelivery r"
        unfolding delivery_row_Some [OF inv] by blast
      have "\<not> ?hit r"
      proof
        assume "?hit r"
        then have "r = r0" using hit_r0 r(1) by blast
        with False r(2,3) r0(3,4) show False by simp
      qed
      then have "r \<in> set (rdb_deliveries db')" using r(1) mem by blast
      with r(2-4) show "delivery_row db' ws key = Some x"
        unfolding delivery_row_Some [OF inv'] by blast
    qed
    then have "delivery_row db' ws key = delivery_row db ws key" by (rule option_ext)
    with False show ?thesis by presburger
  qed
  with inv' show ?thesis by auto
qed

lemma pg_delivery_Save_error: "pg_delivery_Save d db = (Inl e, db') \<Longrightarrow> db' = db"
  by (auto simp: pg_delivery_Save_def split: if_splits)

lemma pg_delivery_Update_error: "pg_delivery_Update d db = (Inl e, db') \<Longrightarrow> db' = db"
  by (auto simp: pg_delivery_Update_def Let_def split: if_splits)

lemma pg_delivery_ByKey:
  "pg_delivery_ByIdempotencyKey ws key db =
     (case delivery_row db ws key of None \<Rightarrow> Inl (ReminderErr ErrDeliveryNotFound) | Some d \<Rightarrow> Inr d, db)"
  by (simp add: pg_delivery_ByIdempotencyKey_def delivery_row_def split: option.splits)

interpretation pg_delivery: delivery_store pg_delivery_store delivery_row delivery_table_inv
proof (unfold_locales, goal_cases)
  case (1 s ws key d s')
  then show ?case by (simp add: pg_delivery_store_def pg_delivery_ByKey split: option.splits)
next
  case (2 s ws key s')
  then show ?case by (simp add: pg_delivery_store_def pg_delivery_ByKey split: option.splits)
next
  case (3 s ws key e s')
  then show ?case by (simp add: pg_delivery_store_def pg_delivery_ByKey)
next
  case (4 s ws key d)
  then show ?case by (auto simp: delivery_row_Some)
next
  case (5 s d s')
  then show ?case by (intro pg_delivery_Save_row) (simp_all add: pg_delivery_store_def)
next
  case (6 s d e s')
  then show ?case by (intro pg_delivery_Save_error) (simp add: pg_delivery_store_def)
next
  case (7 s d old s')
  then have "pg_delivery_Update d s = (Inr (), s')" by (simp add: pg_delivery_store_def)
  with 7(1-4) show ?case by (rule pg_delivery_Update_row)
next
  case (8 s d e s')
  then show ?case by (intro pg_delivery_Update_error) (simp add: pg_delivery_store_def)
qed

end
