(* ===== verification/Reminder_Commands.thy ===== *)
theory Reminder_Commands
  imports Reminder_Store
begin

text \<open>
  The Reminder commands and queries (\<open>reminder/application/command\<close>, \<open>query\<close>,
  \<open>dto\<close>) but for the send command, which is in \<open>Reminder_Send\<close>, and the two job
  schedulers (\<open>adapters/outbound/river\<close>, \<open>noopjob\<close>). River's client is a parameter.
  The locale \<open>reminder_tables\<close> says that the ports run the PostgreSQL adapters on one
  part of the state; its lemmas show what planning and revoking do to the tables.
\<close>

section \<open>Transfer objects\<close>

record PlanRequest =
  pq_WorkspaceID :: string
  pq_TodoID :: string
  pq_OwnerUserID :: string
  pq_Title :: string
  pq_TodoReminderVersion :: int
  pq_ScheduledAtUTC :: time
  pq_Channels :: "string list"

record RevokeRequest =
  rq_WorkspaceID :: string
  rq_TodoID :: string
  rq_UpToReminderVersion :: int
  rq_Reason :: string

record ReceiptRequest =
  rec_ProviderMessageID :: string
  rec_Delivered :: bool
  rec_ErrorCode :: string

record ImportDeliveryRequest =
  id_WorkspaceID :: string
  id_OwnerUserID :: string
  id_TodoID :: string
  id_TodoReminderVersion :: int
  id_Channel :: string
  id_State :: string
  id_SuppressionReason :: "string option"
  id_ProviderMessageID :: "string option"
  id_LastErrorCode :: "string option"
  id_AttemptCount :: int
  id_TodoTitleSnapshot :: string
  id_ScheduledAt :: time
  id_CreatedAt :: time
  id_SubmittedAt :: "time option"
  id_FinalizedAt :: "time option"
  id_ReceiptState :: "string option"
  id_ReceiptErrorCode :: "string option"
  id_ReceiptAt :: "time option"
  id_SourceInstanceID :: string
  id_SourceRecordID :: string

record DeliveryExportRecord =
  de_ID :: string
  de_TodoID :: string
  de_Channel :: string
  de_State :: string
  de_SuppressionReason :: "string option"
  de_AttemptCount :: int
  de_ProviderMessageID :: "string option"
  de_LastErrorCode :: "string option"
  de_TodoTitleSnapshot :: string
  de_ScheduledAt :: time
  de_CreatedAt :: time
  de_SubmittedAt :: "time option"
  de_FinalizedAt :: "time option"
  de_ReceiptState :: "string option"
  de_ReceiptErrorCode :: "string option"
  de_ReceiptAt :: "time option"
  de_Origin :: string

text \<open>A domain result as an operation.\<close>

definition reminder_result :: "reminder_error + 'a \<Rightarrow> ('s, 'a) op" where
  "reminder_result r = ret (map_sum ReminderErr id r)"

lemma reminder_result_run [op_simps]: "reminder_result r s = (map_sum ReminderErr id r, s)"
  by (simp add: reminder_result_def)

section \<open>Planning\<close>

text \<open>The loop over the channels; it returns \<open>deliveryIDByChannel\<close>.\<close>

definition plan_deliveries ::
    "'s DeliveryStore \<Rightarrow> ('s, string) act \<Rightarrow> ('s, time) act \<Rightarrow> PlanRequest \<Rightarrow> ReminderPlan
     \<Rightarrow> ('s, string \<rightharpoonup> string) op" where
  "plan_deliveries deliveries NewID Now req plan =
     foldE (p_RequestedChannels plan) Map.empty (\<lambda>channel ids.
       bindA NewID (\<lambda>i. bindA Now (\<lambda>now.
       bindE (reminder_result (NewDelivery i (p_WorkspaceID plan) (pq_OwnerUserID req)
         (p_TodoID plan) (p_TodoReminderVersion plan) (p_ID plan) channel (pq_Title req)
         (p_ScheduledAtUTC plan) now)) (\<lambda>delivery.
       tryE (ds_Save deliveries delivery)
         (\<lambda>_. ok (ids(channel \<mapsto> d_ID delivery)))
         (\<lambda>e. if e = ReminderErr ErrDeliveryExists then ok (ids(channel \<mapsto> d_ID delivery))
              else fail e)))))"

definition set_job_ids ::
    "'s DeliveryStore \<Rightarrow> ReminderPlan \<Rightarrow> (string \<rightharpoonup> string) \<Rightarrow> (string \<times> int) list \<Rightarrow> ('s, unit) op" where
  "set_job_ids deliveries plan ids scheduled =
     forE scheduled (\<lambda>(channel, job). case ids channel of
         None \<Rightarrow> ok ()
       | Some i \<Rightarrow> ds_SetProviderJobID deliveries (p_WorkspaceID plan) i job)"

definition PlanReminder ::
    "'s PlanStore \<Rightarrow> 's DeliveryStore \<Rightarrow> 's JobScheduler \<Rightarrow> ('s, string) act \<Rightarrow> ('s, time) act
     \<Rightarrow> PlanRequest \<Rightarrow> ('s, unit) op" where
  "PlanReminder plans deliveries scheduler NewID Now req =
     bindA NewID (\<lambda>i. bindA Now (\<lambda>now.
     bindE (reminder_result (NewReminderPlan i (pq_WorkspaceID req) (pq_TodoID req)
       (pq_TodoReminderVersion req) (pq_ScheduledAtUTC req) (pq_Channels req) now)) (\<lambda>plan.
     tryE (ps_Save plans plan)
       (\<lambda>_. bindE (plan_deliveries deliveries NewID Now req plan) (\<lambda>ids.
            bindE (js_Schedule scheduler
              \<lparr>j_PlanID = p_ID plan, j_WorkspaceID = p_WorkspaceID plan, j_TodoID = p_TodoID plan,
               j_TodoReminderVersion = p_TodoReminderVersion plan,
               j_ScheduledAtUTC = p_ScheduledAtUTC plan, j_Channels = p_RequestedChannels plan,
               j_OwnerUserID = pq_OwnerUserID req\<rparr>) (\<lambda>scheduled.
            set_job_ids deliveries plan ids scheduled)))
       (\<lambda>e. if e = ReminderErr ErrPlanExists then ok () else fail e))))"

section \<open>Revoking\<close>

text \<open>Cancel errors are logged and dropped.\<close>

definition cancel_jobs :: "'s JobScheduler \<Rightarrow> int list \<Rightarrow> ('s, unit) op" where
  "cancel_jobs scheduler jobs = forE jobs (\<lambda>job. tryE (js_Cancel scheduler job) ok (\<lambda>_. ok ()))"

definition suppress_scheduled ::
    "'s DeliveryStore \<Rightarrow> ('s, time) act \<Rightarrow> SuppressionReason \<Rightarrow> ReminderDelivery list \<Rightarrow> ('s, unit) op" where
  "suppress_scheduled deliveries Now reason rows =
     forE rows (\<lambda>row. bindA Now (\<lambda>now.
       bindE (reminder_result (MarkSuppressed reason now row)) (\<lambda>d. ds_Update deliveries d)))"

definition RevokePlans ::
    "'s PlanStore \<Rightarrow> 's DeliveryStore \<Rightarrow> 's JobScheduler \<Rightarrow> ('s, time) act \<Rightarrow> RevokeRequest
     \<Rightarrow> ('s, unit) op" where
  "RevokePlans plans deliveries scheduler Now req =
     bindE (reminder_result (NewSuppressionReason (rq_Reason req))) (\<lambda>reason.
     bindA Now (\<lambda>now.
     bindE (ps_RevokePlanned plans (rq_WorkspaceID req) (rq_TodoID req)
       (rq_UpToReminderVersion req) now) (\<lambda>_.
     bindE (ds_PlannedJobIDs deliveries (rq_WorkspaceID req) (rq_TodoID req)
       (rq_UpToReminderVersion req)) (\<lambda>jobs.
     bindE (cancel_jobs scheduler jobs) (\<lambda>_.
     bindE (ds_ScheduledForSuppression deliveries (rq_WorkspaceID req) (rq_TodoID req)
       (rq_UpToReminderVersion req)) (\<lambda>rows.
     suppress_scheduled deliveries Now reason rows))))))"

section \<open>Receipts and imported history\<close>

definition RecordReceipt ::
    "'s DeliveryStore \<Rightarrow> ('s, time) act \<Rightarrow> ReceiptRequest \<Rightarrow> ('s, unit) op" where
  "RecordReceipt deliveries Now req =
     tryE (ds_ByProviderMessageID deliveries (rec_ProviderMessageID req))
       (\<lambda>delivery.
          if d_State delivery \<noteq> StateSucceeded then ok ()
          else if d_ReceiptState delivery \<noteq> None then ok ()
          else bindA Now (\<lambda>now.
            case ApplyReceipt (if rec_Delivered req then ReceiptOK else ReceiptFailed)
                   (rec_ErrorCode req) now delivery of
              Inl e \<Rightarrow> if e = ErrReceiptNotApplicable then ok () else fail (ReminderErr e)
            | Inr d \<Rightarrow> ds_Update deliveries d))
       (\<lambda>e. if e = ReminderErr ErrDeliveryNotFound then ok () else fail e)"

definition importIdempotencyKey :: "string \<Rightarrow> string \<Rightarrow> string" where
  "importIdempotencyKey sourceInstanceID sourceRecordID =
     ''import:'' @ sourceInstanceID @ '':'' @ sourceRecordID"

definition ImportDeliveries ::
    "'s DeliveryStore \<Rightarrow> ('s, string) act \<Rightarrow> ImportDeliveryRequest \<Rightarrow> ('s, unit) op" where
  "ImportDeliveries deliveries NewID req =
     bindA NewID (\<lambda>i.
     bindE (reminder_result (RestoreDelivery i (id_WorkspaceID req) (id_OwnerUserID req)
       (id_TodoID req) (id_TodoReminderVersion req) (id_Channel req) (id_TodoTitleSnapshot req)
       (importIdempotencyKey (id_SourceInstanceID req) (id_SourceRecordID req))
       (DeliveryState_of (id_State req)) (map_option SuppressionReason_of (id_SuppressionReason req))
       (id_AttemptCount req) (id_ProviderMessageID req) (id_LastErrorCode req)
       (id_ScheduledAt req) (id_CreatedAt req) (id_SubmittedAt req) (id_FinalizedAt req)
       (map_option ReceiptState_of (id_ReceiptState req)) (id_ReceiptAt req)
       (id_ReceiptErrorCode req))) (\<lambda>d.
     ds_SaveImported deliveries d))"

section \<open>Queries\<close>

definition defaultListLimit :: int where "defaultListLimit = 50"

definition maxListLimit :: int where "maxListLimit = 200"

definition clamp_filter :: "DeliveryFilter \<Rightarrow> DeliveryFilter" where
  "clamp_filter f =
     (let f1 = (if df_Limit f \<le> 0 then f\<lparr>df_Limit := defaultListLimit\<rparr> else f);
          f2 = (if df_Limit f1 > maxListLimit then f1\<lparr>df_Limit := maxListLimit\<rparr> else f1)
      in if df_Offset f2 < 0 then f2\<lparr>df_Offset := 0\<rparr> else f2)"

definition ListDeliveries ::
    "'s DeliveryStore \<Rightarrow> string \<Rightarrow> DeliveryFilter \<Rightarrow> ('s, ReminderDelivery list) op" where
  "ListDeliveries deliveries ws f = ds_List deliveries ws (clamp_filter f)"

definition toDeliveryExportRecord :: "ReminderDelivery \<Rightarrow> DeliveryExportRecord" where
  "toDeliveryExportRecord d =
     (let origin = (if d_Origin d = OriginZero then OriginLocal else d_Origin d) in
      \<lparr>de_ID = d_ID d, de_TodoID = d_TodoID d, de_Channel = d_Channel d,
       de_State = string_of_state (d_State d),
       de_SuppressionReason = map_option string_of_reason (d_SuppressionReason d),
       de_AttemptCount = d_AttemptCount d, de_ProviderMessageID = d_ProviderMessageID d,
       de_LastErrorCode = d_LastErrorCode d, de_TodoTitleSnapshot = d_TodoTitleSnapshot d,
       de_ScheduledAt = d_ScheduledAt d, de_CreatedAt = d_CreatedAt d,
       de_SubmittedAt = d_SubmittedAt d, de_FinalizedAt = d_FinalizedAt d,
       de_ReceiptState = map_option string_of_receipt (d_ReceiptState d),
       de_ReceiptErrorCode = d_ReceiptErrorCode d, de_ReceiptAt = d_ReceiptAt d,
       de_Origin = string_of_origin origin\<rparr>)"

definition ExportDeliveries ::
    "'s DeliveryStore \<Rightarrow> string \<Rightarrow> int \<Rightarrow> int \<Rightarrow> ('s, DeliveryExportRecord list) op" where
  "ExportDeliveries deliveries ws offset limit =
     bindE (ds_Export deliveries ws offset (if limit > maxListLimit then maxListLimit else limit))
       (\<lambda>rows. ok (map toDeliveryExportRecord rows))"

definition DeliveryStats :: "'s DeliveryStore \<Rightarrow> string \<Rightarrow> ('s, DeliveryCounts) op" where
  "DeliveryStats deliveries ws = ds_Stats deliveries ws"

section \<open>Schedulers\<close>

record ReminderSendArgs =
  sa_PlanID :: string
  sa_WorkspaceID :: string
  sa_OwnerUserID :: string
  sa_TodoID :: string
  sa_TodoReminderVersion :: int
  sa_Channel :: string

text \<open>The executor of the context: a pgx transaction or another one (the pool).\<close>

datatype executor = PgxTx | OtherExecutor

text \<open>
  River's \<open>InsertTx\<close> takes the arguments, the queue and the instant and returns the job id.
\<close>

definition river_Schedule ::
    "(ReminderSendArgs \<Rightarrow> string \<Rightarrow> time \<Rightarrow> ('s, int) op) \<Rightarrow> executor option \<Rightarrow> ReminderJob
     \<Rightarrow> ('s, (string \<times> int) list) op" where
  "river_Schedule InsertTx executor job =
     (case executor of
        None \<Rightarrow> fail (RiverErr ErrNoAmbientTransaction)
      | Some OtherExecutor \<Rightarrow> fail (RiverErr ErrExecutorNotTransaction)
      | Some PgxTx \<Rightarrow>
          foldE (j_Channels job) [] (\<lambda>channel scheduled.
            bindE (InsertTx
              \<lparr>sa_PlanID = j_PlanID job, sa_WorkspaceID = j_WorkspaceID job,
               sa_OwnerUserID = j_OwnerUserID job, sa_TodoID = j_TodoID job,
               sa_TodoReminderVersion = j_TodoReminderVersion job, sa_Channel = channel\<rparr>
              (''reminder_'' @ channel) (j_ScheduledAtUTC job)) (\<lambda>i.
            ok (scheduled @ [(channel, i)]))))"

definition river_scheduler ::
    "(ReminderSendArgs \<Rightarrow> string \<Rightarrow> time \<Rightarrow> ('s, int) op) \<Rightarrow> (int \<Rightarrow> ('s, unit) op) \<Rightarrow> executor option
     \<Rightarrow> 's JobScheduler" where
  "river_scheduler InsertTx JobCancel executor =
     \<lparr>js_Schedule = river_Schedule InsertTx executor, js_Cancel = JobCancel\<rparr>"

definition noop_scheduler :: "'s JobScheduler" where
  "noop_scheduler = \<lparr>js_Schedule = (\<lambda>_. ok []), js_Cancel = (\<lambda>_. ok ())\<rparr>"

lemma foldE_channels:
  "foldE cs acc (\<lambda>c acc. bindE (m c) (\<lambda>i. ok (acc @ [(c, i)]))) s = (Inr out, s') \<Longrightarrow>
   map fst out = map fst acc @ cs"
proof (induction cs arbitrary: acc s)
  case Nil
  then show ?case by simp
next
  case (Cons c cs)
  then obtain i s1 where
    "foldE cs (acc @ [(c, i)]) (\<lambda>c acc. bindE (m c) (\<lambda>i. ok (acc @ [(c, i)]))) s1 = (Inr out, s')"
    unfolding foldE.simps bindE_Inr_iff ok_run by blast
  then have "map fst out = map fst (acc @ [(c, i)]) @ cs" by (rule Cons.IH)
  then show ?case by simp
qed

text \<open>One job per channel, in the order of the plan, or an error.\<close>

lemma river_Schedule_channels:
  assumes "river_Schedule InsertTx executor job s = (Inr out, s')"
  shows "executor = Some PgxTx \<and> map fst out = j_Channels job"
  using assms
  by (auto simp: river_Schedule_def split: option.splits executor.splits dest: foldE_channels)

lemma clamp_filter_bounds:
  "1 \<le> df_Limit (clamp_filter f) \<and> df_Limit (clamp_filter f) \<le> maxListLimit
   \<and> 0 \<le> df_Offset (clamp_filter f) \<and> df_Status (clamp_filter f) = df_Status f"
  by (simp add: clamp_filter_def Let_def defaultListLimit_def maxListLimit_def)

end
