(* ===== verification/Reminder_Planning.thy ===== *)
theory Reminder_Planning
  imports Reminder_Commands
begin

text \<open>
  What planning and revoking do to the tables. The locale \<open>reminder_tables\<close> says that the
  ports run the PostgreSQL adapters on the part \<open>db\<close> of the state and that the scheduler,
  the clock and the identifier source do not touch it; \<open>issued\<close> are the identifiers given out
  so far, and a new identifier is not one of them.
  \<open>plan_ok\<close>: one plan and one scheduled delivery per channel. \<open>revoke_ok\<close>: no planned
  plan and no scheduled delivery is left at or below the cutoff, and nothing else changes.
\<close>

section \<open>Suppressed rows\<close>

definition suppressed_row :: "SuppressionReason \<Rightarrow> time \<Rightarrow> ReminderDelivery \<Rightarrow> ReminderDelivery" where
  "suppressed_row reason now r =
     r\<lparr>d_State := StateSuppressed, d_SuppressionReason := Some reason, d_FinalizedAt := Some now\<rparr>"

definition revoked_row :: "string \<Rightarrow> string \<Rightarrow> int \<Rightarrow> SuppressionReason \<Rightarrow> ReminderDelivery \<Rightarrow> ReminderDelivery \<Rightarrow> bool" where
  "revoked_row ws todoID upTo reason r r' \<longleftrightarrow>
     (if of_todo_upto ws todoID upTo r \<and> in_state ''scheduled'' r
      then \<exists>now. scanDeliveryWithOrigin r' = suppressed_row reason now (scanDeliveryWithOrigin r)
      else r' = r)"

definition planned_row :: "PlanRequest \<Rightarrow> ReminderPlan \<Rightarrow> string \<Rightarrow> ReminderDelivery \<Rightarrow> bool" where
  "planned_row req plan channel r \<longleftrightarrow>
     (\<exists>i now d. NewDelivery i (p_WorkspaceID plan) (pq_OwnerUserID req) (p_TodoID plan)
        (p_TodoReminderVersion plan) (p_ID plan) channel (pq_Title req)
        (p_ScheduledAtUTC plan) now = Inr d \<and> r = d\<lparr>d_Origin := OriginLocal\<rparr>)"

definition no_job :: "ReminderDelivery \<Rightarrow> ReminderDelivery" where
  "no_job r = r\<lparr>d_ProviderJobID := None\<rparr>"

locale reminder_tables =
  fixes plans :: "'s PlanStore"
    and deliveries :: "'s DeliveryStore"
    and scheduler :: "'s JobScheduler"
    and NewID :: "('s, string) act"
    and Now :: "('s, time) act"
    and db :: "'s \<Rightarrow> reminder_db"
    and issued :: "'s \<Rightarrow> string set"
  assumes plan_save: "runs_on db (ps_Save plans p) (pg_plan_Save p)"
    and plan_revoke: "runs_on db (ps_RevokePlanned plans ws t v n) (pg_plan_RevokePlanned ws t v n)"
    and save_runs: "runs_on db (ds_Save deliveries d) (pg_delivery_Save d)"
    and upd: "runs_on db (ds_Update deliveries d) (pg_delivery_Update d)"
    and set_job: "runs_on db (ds_SetProviderJobID deliveries ws i j)
        (pg_delivery_SetProviderJobID ws i j)"
    and planned_jobs: "runs_on db (ds_PlannedJobIDs deliveries ws t v)
        (pg_delivery_PlannedJobIDs ws t v)"
    and for_suppression: "runs_on db (ds_ScheduledForSuppression deliveries ws t v)
        (pg_delivery_ScheduledForSuppression ws t v)"
    and by_message: "runs_on db (ds_ByProviderMessageID deliveries m)
        (pg_delivery_ByProviderMessageID m)"
    and schedule_frame: "js_Schedule scheduler job s = (sch, s') \<Longrightarrow> db s' = db s"
    and cancel_frame: "js_Cancel scheduler k s = (can, s') \<Longrightarrow> db s' = db s"
    and now_frame: "Now s = (n, s') \<Longrightarrow> db s' = db s"
    and id_frame: "NewID s = (i, s') \<Longrightarrow> db s' = db s"
    and id_fresh: "NewID s = (i, s') \<Longrightarrow> i \<notin> issued s \<and> issued s' = insert i (issued s)"
    and now_issued: "leaves issued Now"
    and plan_issued: "leaves issued (ps_Save plans p)"
    and save_issued: "leaves issued (ds_Save deliveries d)"
begin

abbreviation ids_known :: "'s \<Rightarrow> bool" where
  "ids_known s \<equiv> d_ID ` set (rdb_deliveries (db s)) \<subseteq> issued s \<and> p_ID ` set (rdb_plans (db s)) \<subseteq> issued s"

section \<open>Revoking\<close>

lemma cancel_jobs_frame: "cancel_jobs scheduler jobs s = (r, s') \<Longrightarrow> r = Inr () \<and> db s' = db s"
proof (induction jobs arbitrary: s)
  case Nil
  then show ?case by (simp add: cancel_jobs_def)
next
  case (Cons j jobs)
  obtain c s1 where c: "js_Cancel scheduler j s = (c, s1)" by (cases "js_Cancel scheduler j s")
  have "cancel_jobs scheduler (j # jobs) s = cancel_jobs scheduler jobs s1"
    by (cases c) (simp_all add: cancel_jobs_def bindE_run tryE_run c)
  with Cons have "r = Inr () \<and> db s' = db s1" by simp
  with cancel_frame [OF c] show ?case by simp
qed

end

text \<open>Updating the row of a suppressed delivery changes that row only.\<close>

lemma update_suppressed_row:
  assumes dist: "distinct (map d_ID (rdb_deliveries db))"
    and r0: "r0 \<in> set (rdb_deliveries db)" "d = suppressed_row reason now (scanDelivery r0)"
    and reason: "SuppressionReason_of (string_of_reason reason) = reason"
    and upd: "pg_delivery_Update d db = (Inr (), db')"
  shows "rdb_plans db' = rdb_plans db
    \<and> list_all2 (\<lambda>r r'. if d_ID r = d_ID r0
          then scanDeliveryWithOrigin r' = suppressed_row reason now (scanDeliveryWithOrigin r)
          else r' = r) (rdb_deliveries db) (rdb_deliveries db')
    \<and> map d_ID (rdb_deliveries db') = map d_ID (rdb_deliveries db)"
proof -
  let ?hit = "\<lambda>r. d_WorkspaceID r = d_WorkspaceID d \<and> d_ID r = d_ID d"
  let ?set = "set_columns d"
  have db': "rdb_deliveries db' = update_where ?hit ?set (rdb_deliveries db)"
    "rdb_plans db' = rdb_plans db"
    using upd by (auto simp: pg_delivery_Update_def Let_def split: if_splits)
  have ids: "d_ID d = d_ID r0" "d_WorkspaceID d = d_WorkspaceID r0"
    by (simp_all add: r0(2) suppressed_row_def)
  have only: "d_ID r = d_ID r0 \<Longrightarrow> r \<in> set (rdb_deliveries db) \<Longrightarrow> r = r0" for r
    using distinct_key_eq [OF dist r0(1)] .
  have set0: "scanDeliveryWithOrigin (?set r0) = suppressed_row reason now (scanDeliveryWithOrigin r0)"
    using reason
    by (intro ReminderDelivery.equality)
      (simp_all add: r0(2) suppressed_row_def scanDelivery_def scanDeliveryWithOrigin_def
         set_columns_def option.map_comp comp_def DeliveryState_of_def)
  have "if d_ID r = d_ID r0
        then scanDeliveryWithOrigin (if ?hit r then ?set r else r)
             = suppressed_row reason now (scanDeliveryWithOrigin r)
        else (if ?hit r then ?set r else r) = r"
    if "r \<in> set (rdb_deliveries db)" for r
  proof (cases "d_ID r = d_ID r0")
    case True
    then have "r = r0" using only that by blast
    then have "(if ?hit r then ?set r else r) = ?set r0" using ids by simp
    with True set0 \<open>r = r0\<close> show ?thesis by simp
  next
    case False
    with ids show ?thesis by simp
  qed
  then have "list_all2 (\<lambda>r r'. if d_ID r = d_ID r0
          then scanDeliveryWithOrigin r' = suppressed_row reason now (scanDeliveryWithOrigin r)
          else r' = r) (rdb_deliveries db) (rdb_deliveries db')"
    unfolding db' by (rule list_all2_update_where)
  moreover have "map d_ID (rdb_deliveries db') = map d_ID (rdb_deliveries db)"
    unfolding db' by (rule map_update_where) simp
  ultimately show ?thesis using db' by blast
qed

text \<open>The rows of a set of identifiers suppressed, the others as they were.\<close>

definition suppressed_ids ::
    "SuppressionReason \<Rightarrow> string set \<Rightarrow> ReminderDelivery \<Rightarrow> ReminderDelivery \<Rightarrow> bool" where
  "suppressed_ids reason ids r r' \<longleftrightarrow>
     (if d_ID r \<in> ids
      then \<exists>now. scanDeliveryWithOrigin r' = suppressed_row reason now (scanDeliveryWithOrigin r)
      else r' = r)"

lemma map_ids_nth:
  "map d_ID rows = map d_ID rows' \<Longrightarrow> length rows = length rows' \<and>
     (\<forall>i < length rows. d_ID (rows ! i) = d_ID (rows' ! i))"
  by (metis length_map nth_map)

lemma suppressed_ids_insert:
  assumes one: "list_all2 (\<lambda>r r'. if d_ID r = i
          then scanDeliveryWithOrigin r' = suppressed_row reason now (scanDeliveryWithOrigin r)
          else r' = r) rows rows1"
    and same: "map d_ID rows1 = map d_ID rows"
    and rest: "list_all2 (suppressed_ids reason ids) rows1 rows2" and "i \<notin> ids"
  shows "list_all2 (suppressed_ids reason (insert i ids)) rows rows2"
  unfolding list_all2_conv_all_nth
proof (intro conjI allI impI)
  show "length rows = length rows2"
    using one rest by (simp add: list_all2_conv_all_nth)
  fix k
  assume k: "k < length rows"
  have len: "length rows1 = length rows" using one by (simp add: list_all2_conv_all_nth)
  have a: "if d_ID (rows ! k) = i
      then scanDeliveryWithOrigin (rows1 ! k) = suppressed_row reason now (scanDeliveryWithOrigin (rows ! k))
      else rows1 ! k = rows ! k"
    using one k by (simp add: list_all2_conv_all_nth)
  have b: "suppressed_ids reason ids (rows1 ! k) (rows2 ! k)"
    using rest k len by (simp add: list_all2_conv_all_nth)
  have c: "d_ID (rows1 ! k) = d_ID (rows ! k)" using map_ids_nth [OF same] k len by simp
  show "suppressed_ids reason (insert i ids) (rows ! k) (rows2 ! k)"
  proof (cases "d_ID (rows ! k) = i")
    case True
    with c assms(4) b have "rows2 ! k = rows1 ! k" by (simp add: suppressed_ids_def)
    with True a show ?thesis by (auto simp: suppressed_ids_def)
  next
    case False
    with a have "rows1 ! k = rows ! k" by simp
    with b False show ?thesis by (simp add: suppressed_ids_def)
  qed
qed

context reminder_tables
begin

lemma suppress_scheduled_ok:
  assumes "suppress_scheduled deliveries Now reason ds s = (Inr (), s')"
    and "distinct (map d_ID (rdb_deliveries (db s)))" and "distinct (map d_ID ds)"
    and "\<And>d. d \<in> set ds \<Longrightarrow>
        \<exists>r \<in> set (rdb_deliveries (db s)). d = scanDelivery r"
    and "SuppressionReason_of (string_of_reason reason) = reason"
  shows "rdb_plans (db s') = rdb_plans (db s)
    \<and> list_all2 (suppressed_ids reason (d_ID ` set ds)) (rdb_deliveries (db s)) (rdb_deliveries (db s'))"
  using assms
proof (induction ds arbitrary: s)
  case Nil
  then show ?case
    by (simp add: suppress_scheduled_def suppressed_ids_def list_all2_conv_all_nth)
next
  case (Cons d ds)
  obtain n s1 where n: "Now s = (n, s1)" by (cases "Now s")
  then have s1: "db s1 = db s" by (rule now_frame)
  obtain s2 where mark: "MarkSuppressed reason n d = Inr (suppressed_row reason n d)"
    and up: "ds_Update deliveries (suppressed_row reason n d) s1 = (Inr (), s2)"
    and rest: "suppress_scheduled deliveries Now reason ds s2 = (Inr (), s')"
    using Cons.prems(1) n
    by (auto simp: suppress_scheduled_def bindE_Inr_iff bindA_run reminder_result_run
        MarkSuppressed_def suppressed_row_def split: if_splits)
  obtain r0 where r0: "r0 \<in> set (rdb_deliveries (db s))" "d = scanDelivery r0"
    using Cons.prems(4) by force
  have i0: "d_ID d = d_ID r0" using r0 by simp
  have pg: "pg_delivery_Update (suppressed_row reason n d) (db s) = (Inr (), db s2)"
    using runs_onD [OF upd up] s1 by simp
  have one: "rdb_plans (db s2) = rdb_plans (db s)"
    and l2: "list_all2 (\<lambda>r r'. if d_ID r = d_ID d
          then scanDeliveryWithOrigin r' = suppressed_row reason n (scanDeliveryWithOrigin r)
          else r' = r) (rdb_deliveries (db s)) (rdb_deliveries (db s2))"
    and ids: "map d_ID (rdb_deliveries (db s2)) = map d_ID (rdb_deliveries (db s))"
    using update_suppressed_row [OF Cons.prems(2) r0(1) _ Cons.prems(5) pg] r0(2) i0 by auto
  have others: "\<exists>r \<in> set (rdb_deliveries (db s2)). e = scanDelivery r" if e: "e \<in> set ds" for e
  proof -
    obtain r where r: "r \<in> set (rdb_deliveries (db s))" "e = scanDelivery r"
      using Cons.prems(4) e by force
    have "d_ID d \<notin> d_ID ` set ds" using Cons.prems(3) by simp
    then have "d_ID e \<noteq> d_ID d" using e by (metis image_eqI)
    then have "d_ID r \<noteq> d_ID d" using r(2) by simp
    moreover obtain k where "k < length (rdb_deliveries (db s))" "rdb_deliveries (db s) ! k = r"
      using r(1) by (auto simp: in_set_conv_nth)
    ultimately have "rdb_deliveries (db s2) ! k = r" "k < length (rdb_deliveries (db s2))"
      using l2 by (auto simp: list_all2_conv_all_nth)
    then have "r \<in> set (rdb_deliveries (db s2))" by (auto simp: in_set_conv_nth)
    with r(2) show ?thesis by blast
  qed
  have "rdb_plans (db s') = rdb_plans (db s2)
    \<and> list_all2 (suppressed_ids reason (d_ID ` set ds)) (rdb_deliveries (db s2)) (rdb_deliveries (db s'))"
    using Cons.IH [OF rest _ _ others Cons.prems(5)] Cons.prems(2,3) ids by simp
  moreover have "d_ID d \<notin> d_ID ` set ds" using Cons.prems(3) by simp
  ultimately show ?case
    using suppressed_ids_insert [OF l2 ids] one by simp
qed

lemma revoke_ok:
  assumes run: "RevokePlans plans deliveries scheduler Now req s = (Inr (), s')"
    and inv: "delivery_table_inv (db s)"
  shows "\<exists>reason now. NewSuppressionReason (rq_Reason req) = Inr reason
    \<and> rdb_plans (db s') = rdb_plans
        (snd (pg_plan_RevokePlanned (rq_WorkspaceID req) (rq_TodoID req) (rq_UpToReminderVersion req) now (db s)))
    \<and> list_all2 (revoked_row (rq_WorkspaceID req) (rq_TodoID req) (rq_UpToReminderVersion req) reason)
        (rdb_deliveries (db s)) (rdb_deliveries (db s'))"
proof -
  let ?ws = "rq_WorkspaceID req" and ?t = "rq_TodoID req" and ?v = "rq_UpToReminderVersion req"
  let ?P = "\<lambda>r. of_todo_upto ?ws ?t ?v r \<and> in_state ''scheduled'' r"
  obtain n s1 where n: "Now s = (n, s1)" by (cases "Now s")
  obtain reason s2 jobs s3 s4 rows s5 where reason: "NewSuppressionReason (rq_Reason req) = Inr reason"
    and rv: "ps_RevokePlanned plans ?ws ?t ?v n s1 = (Inr (), s2)"
    and pj: "ds_PlannedJobIDs deliveries ?ws ?t ?v s2 = (Inr jobs, s3)"
    and cj: "cancel_jobs scheduler jobs s3 = (Inr (), s4)"
    and fs: "ds_ScheduledForSuppression deliveries ?ws ?t ?v s4 = (Inr rows, s5)"
    and sup: "suppress_scheduled deliveries Now reason rows s5 = (Inr (), s')"
    using run n
    by (auto simp: RevokePlans_def bindE_Inr_iff bindA_run reminder_result_run map_sum_def
        split: sum.splits)
  have r: "reason = SuppressionReason_of (string_of_reason reason)"
    using reason by (auto simp: NewSuppressionReason_Inr)
  have db1: "db s1 = db s" using n by (rule now_frame)
  have db2: "db s2 = snd (pg_plan_RevokePlanned ?ws ?t ?v n (db s))"
    using runs_onD [OF plan_revoke rv] db1 by simp
  have del2: "rdb_deliveries (db s2) = rdb_deliveries (db s)"
    unfolding db2 by (simp add: pg_plan_RevokePlanned_def)
  have db4: "db s4 = db s2"
    using runs_onD [OF planned_jobs pj] cancel_jobs_frame [OF cj]
    by (simp add: pg_delivery_PlannedJobIDs_def)
  let ?hits = "order_rows (\<lambda>a b. \<not> bytes_less (d_ID b) (d_ID a)) (filter ?P (rdb_deliveries (db s)))"
  have rows: "rows = map scanDelivery ?hits" and db5: "db s5 = db s2"
    using runs_onD [OF for_suppression fs] db4 del2
    by (auto simp: pg_delivery_ScheduledForSuppression_def in_state_def)
  have idrows: "map d_ID rows = map d_ID ?hits" by (simp add: rows comp_def)
  have dist: "distinct (map d_ID (rdb_deliveries (db s)))"
    using inv by (simp add: delivery_table_inv_def)
  then have "distinct (map d_ID (filter ?P (rdb_deliveries (db s))))"
    by (simp add: distinct_map_filter)
  then have drows: "distinct (map d_ID rows)"
    unfolding idrows distinct_map_order_rows .
  have set_ids: "d_ID ` set rows = d_ID ` {r \<in> set (rdb_deliveries (db s)). ?P r}"
    by (auto simp: rows image_image)
  have step: "rdb_plans (db s') = rdb_plans (db s5)
    \<and> list_all2 (suppressed_ids reason (d_ID ` set rows)) (rdb_deliveries (db s5)) (rdb_deliveries (db s'))"
    using sup
  proof (rule suppress_scheduled_ok)
    show "distinct (map d_ID (rdb_deliveries (db s5)))" using dist db5 del2 by simp
    show "\<exists>r\<in>set (rdb_deliveries (db s5)). d = scanDelivery r" if "d \<in> set rows" for d
      using that db5 del2 by (auto simp: rows)
  qed (use drows r in auto)
  have conv: "d_ID x \<in> d_ID ` set rows \<longleftrightarrow> ?P x" if "x \<in> set (rdb_deliveries (db s))" for x
    using distinct_key_eq [OF dist] that unfolding set_ids by blast
  have "list_all2 (revoked_row ?ws ?t ?v reason) (rdb_deliveries (db s)) (rdb_deliveries (db s'))"
    using step conv unfolding db5 del2 list_all2_conv_all_nth revoked_row_def suppressed_ids_def by simp
  with reason step db5 db2 show ?thesis by auto
qed

end

section \<open>Planning\<close>

text \<open>No row yet of the plan's channels.\<close>

definition no_rows :: "ReminderPlan \<Rightarrow> string list \<Rightarrow> ReminderDelivery list \<Rightarrow> bool" where
  "no_rows plan channels rows \<longleftrightarrow> (\<forall>r \<in> set rows. \<forall>c \<in> set channels.
     \<not> (d_TodoID r = p_TodoID plan \<and> d_TodoReminderVersion r = p_TodoReminderVersion plan
        \<and> d_Channel r = c)
     \<and> d_IdempotencyKey r \<noteq> IdempotencyKeyFor (p_WorkspaceID plan) (p_TodoID plan)
          (p_TodoReminderVersion plan) c)"

lemma planned_row_channel:
  assumes "planned_row req plan c r"
  shows "d_Channel r = c \<and> d_IdempotencyKey r = IdempotencyKeyFor (p_WorkspaceID plan) (p_TodoID plan)
     (p_TodoReminderVersion plan) c \<and> d_TodoID r = p_TodoID plan
     \<and> d_TodoReminderVersion r = p_TodoReminderVersion plan \<and> d_State r = StateScheduled
     \<and> d_AttemptCount r = 0 \<and> d_PlanID r = p_ID plan \<and> d_WorkspaceID r = p_WorkspaceID plan
     \<and> d_ScheduledAt r = p_ScheduledAtUTC plan \<and> d_OwnerUserID r = pq_OwnerUserID req
     \<and> d_TodoTitleSnapshot r = pq_Title req \<and> d_Origin r = OriginLocal
     \<and> d_ProviderJobID r = None \<and> c \<in> {''email'', ''sms''}"
  using assms by (auto simp: planned_row_def NewDelivery_def split: if_splits)

lemma no_rows_Cons:
  assumes "no_rows plan (c # cs) rows" "planned_row req plan c r" "c \<notin> set cs"
  shows "no_rows plan cs (rows @ [r])"
  using assms planned_row_channel [OF assms(2)] by (auto simp: no_rows_def IdempotencyKeyFor_def)

context reminder_tables
begin

lemma save_new_delivery:
  assumes i: "NewID s = (i, s1)" and n: "Now s1 = (n, s2)"
    and d: "NewDelivery i (p_WorkspaceID plan) (pq_OwnerUserID req) (p_TodoID plan)
        (p_TodoReminderVersion plan) (p_ID plan) c (pq_Title req) (p_ScheduledAtUTC plan) n = Inr d"
    and none: "no_rows plan [c] (rdb_deliveries (db s))" and known: "ids_known s"
    and save: "ds_Save deliveries d s2 = (r, s3)"
  shows "r \<noteq> Inl (ReminderErr ErrDeliveryExists)
    \<and> (r = Inr () \<longrightarrow> ids_known s3)
    \<and> (r = Inr () \<longrightarrow> rdb_plans (db s3) = rdb_plans (db s)
        \<and> rdb_deliveries (db s3) = rdb_deliveries (db s) @ [d\<lparr>d_Origin := OriginLocal\<rparr>]
        \<and> planned_row req plan c (d\<lparr>d_Origin := OriginLocal\<rparr>))"
proof -
  have db2: "db s2 = db s" using id_frame [OF i] now_frame [OF n] by simp
  have p: "planned_row req plan c (d\<lparr>d_Origin := OriginLocal\<rparr>)"
    using d by (auto simp: planned_row_def)
  note f = planned_row_channel [OF p, simplified]
  have "d_ID d = i" using d by (auto simp: NewDelivery_def split: if_splits)
  then have fresh: "\<forall>r \<in> set (rdb_deliveries (db s)). d_ID r \<noteq> d_ID d"
    using id_fresh [OF i] known by (metis image_eqI subset_iff)
  have other: "\<forall>r \<in> set (rdb_deliveries (db s)).
      \<not> (d_TodoID r = d_TodoID d \<and> d_TodoReminderVersion r = d_TodoReminderVersion d
         \<and> d_Channel r = d_Channel d)
      \<and> d_IdempotencyKey r \<noteq> d_IdempotencyKey d"
    using none f unfolding no_rows_def by simp
  from fresh other have free: "\<not> key_taken d (rdb_deliveries (db s))"
    unfolding key_taken_def list_ex_iff by metis
  from fresh other have lfree: "\<not> local_key_taken d (rdb_deliveries (db s))"
    unfolding local_key_taken_def list_ex_iff by metis
  from free lfree runs_onD [OF save_runs save]
  have "r \<noteq> Inl (ReminderErr ErrDeliveryExists)"
    "r = Inr () \<longrightarrow> db s3 = db s\<lparr>rdb_deliveries := rdb_deliveries (db s) @ [d\<lparr>d_Origin := OriginLocal\<rparr>]\<rparr>"
    unfolding db2 by (auto simp: pg_delivery_Save_def split: if_splits)
  moreover have "issued s3 = insert i (issued s)"
    using id_fresh [OF i] leavesD [OF now_issued n] leavesD [OF save_issued save] by simp
  ultimately show ?thesis using p known \<open>d_ID d = i\<close> by auto
qed

lemma plan_deliveries_ok:
  assumes "foldE channels ids (\<lambda>channel ids.
       bindA NewID (\<lambda>i. bindA Now (\<lambda>now.
       bindE (reminder_result (NewDelivery i (p_WorkspaceID plan) (pq_OwnerUserID req)
         (p_TodoID plan) (p_TodoReminderVersion plan) (p_ID plan) channel (pq_Title req)
         (p_ScheduledAtUTC plan) now)) (\<lambda>delivery.
       tryE (ds_Save deliveries delivery)
         (\<lambda>_. ok (ids(channel \<mapsto> d_ID delivery)))
         (\<lambda>e. if e = ReminderErr ErrDeliveryExists then ok (ids(channel \<mapsto> d_ID delivery))
              else fail e))))) s = (Inr ids', s')"
    and "distinct channels" and "no_rows plan channels (rdb_deliveries (db s))" and "ids_known s"
  shows "rdb_plans (db s') = rdb_plans (db s) \<and> (\<exists>news.
      rdb_deliveries (db s') = rdb_deliveries (db s) @ news
      \<and> list_all2 (planned_row req plan) channels news)"
  using assms
proof (induction channels arbitrary: ids s)
  case Nil
  then show ?case by simp
next
  case (Cons c cs)
  let ?step = "\<lambda>channel ids.
       bindA NewID (\<lambda>i. bindA Now (\<lambda>now.
       bindE (reminder_result (NewDelivery i (p_WorkspaceID plan) (pq_OwnerUserID req)
         (p_TodoID plan) (p_TodoReminderVersion plan) (p_ID plan) channel (pq_Title req)
         (p_ScheduledAtUTC plan) now)) (\<lambda>delivery.
       tryE (ds_Save deliveries delivery)
         (\<lambda>_. ok (ids(channel \<mapsto> d_ID delivery)))
         (\<lambda>e. if e = ReminderErr ErrDeliveryExists then ok (ids(channel \<mapsto> d_ID delivery))
              else fail e))))"
  obtain ids1 s3 where step: "?step c ids s = (Inr ids1, s3)"
    and rest: "foldE cs ids1 ?step s3 = (Inr ids', s')"
    using Cons.prems(1) unfolding foldE.simps bindE_Inr_iff by blast
  obtain i s1 n s2 where i: "NewID s = (i, s1)" and n: "Now s1 = (n, s2)" by (metis surj_pair)
  from step i n obtain d where d: "NewDelivery i (p_WorkspaceID plan) (pq_OwnerUserID req)
         (p_TodoID plan) (p_TodoReminderVersion plan) (p_ID plan) c (pq_Title req)
         (p_ScheduledAtUTC plan) n = Inr d"
    by (auto simp: bindA_run bindE_run reminder_result_run split: sum.splits)
  obtain r s4 where save: "ds_Save deliveries d s2 = (r, s4)" by (cases "ds_Save deliveries d s2")
  have none: "no_rows plan [c] (rdb_deliveries (db s))"
    using Cons.prems(3) by (simp add: no_rows_def)
  note sv = save_new_delivery [OF i n d none Cons.prems(4) save]
  have "r = Inr () \<and> s4 = s3"
    using step sv i n d save
    by (auto simp: bindA_run bindE_run tryE_run reminder_result_run split: sum.splits if_splits)
  with sv have row: "planned_row req plan c (d\<lparr>d_Origin := OriginLocal\<rparr>)"
    and db3: "rdb_plans (db s3) = rdb_plans (db s)"
      "rdb_deliveries (db s3) = rdb_deliveries (db s) @ [d\<lparr>d_Origin := OriginLocal\<rparr>]"
    and known3: "ids_known s3"
    by auto
  have "no_rows plan cs (rdb_deliveries (db s3))"
    unfolding db3 using no_rows_Cons [OF Cons.prems(3) row] Cons.prems(2) by simp
  then obtain news where "rdb_plans (db s') = rdb_plans (db s3)"
    "rdb_deliveries (db s') = rdb_deliveries (db s3) @ news"
    "list_all2 (planned_row req plan) cs news"
    using Cons.IH [OF rest _ _ known3] Cons.prems(2) by auto
  with row db3 show ?case by (intro conjI exI [of _ "d\<lparr>d_Origin := OriginLocal\<rparr> # news"]) simp_all
qed

lemma set_job_ids_frame:
  assumes "set_job_ids deliveries plan ids scheduled s = (Inr (), s')"
  shows "rdb_plans (db s') = rdb_plans (db s)
    \<and> map no_job (rdb_deliveries (db s')) = map no_job (rdb_deliveries (db s))"
  using assms
proof (induction scheduled arbitrary: s)
  case Nil
  then show ?case by (simp add: set_job_ids_def)
next
  case (Cons p ps)
  obtain c j where p: "p = (c, j)" by (cases p)
  obtain s1 where step: "(case ids c of None \<Rightarrow> ok ()
       | Some i \<Rightarrow> ds_SetProviderJobID deliveries (p_WorkspaceID plan) i j) s = (Inr (), s1)"
    and rest: "set_job_ids deliveries plan ids ps s1 = (Inr (), s')"
    using Cons.prems unfolding set_job_ids_def p forE.simps bindE_Inr_iff by auto
  have "rdb_plans (db s1) = rdb_plans (db s)
    \<and> map no_job (rdb_deliveries (db s1)) = map no_job (rdb_deliveries (db s))"
  proof (cases "ids c")
    case None
    with step show ?thesis by simp
  next
    case (Some i)
    with step have "ds_SetProviderJobID deliveries (p_WorkspaceID plan) i j s = (Inr (), s1)" by simp
    from runs_onD [OF set_job this]
    have db1: "db s1 = db s\<lparr>rdb_deliveries := update_where
        (\<lambda>r. d_WorkspaceID r = p_WorkspaceID plan \<and> d_ID r = i)
        (\<lambda>r. r\<lparr>d_ProviderJobID := Some j\<rparr>) (rdb_deliveries (db s))\<rparr>"
      by (simp add: pg_delivery_SetProviderJobID_def)
    have "map no_job (rdb_deliveries (db s1)) = map no_job (rdb_deliveries (db s))"
      unfolding db1 by (simp, rule map_update_where) (simp add: no_job_def)
    with db1 show ?thesis by simp
  qed
  with Cons.IH [OF rest] show ?case by simp
qed

lemma plan_ok:
  assumes run: "PlanReminder plans deliveries scheduler NewID Now req s = (Inr (), s')"
    and channels: "distinct (pq_Channels req)" and known: "ids_known s"
    and no_plan: "\<forall>p \<in> set (rdb_plans (db s)). \<not> (p_TodoID p = pq_TodoID req
        \<and> p_TodoReminderVersion p = pq_TodoReminderVersion req)"
    and none: "\<And>plan. p_WorkspaceID plan = pq_WorkspaceID req \<Longrightarrow> p_TodoID plan = pq_TodoID req \<Longrightarrow>
        p_TodoReminderVersion plan = pq_TodoReminderVersion req \<Longrightarrow>
        no_rows plan (pq_Channels req) (rdb_deliveries (db s))"
  shows "\<exists>i now plan news.
      NewReminderPlan i (pq_WorkspaceID req) (pq_TodoID req) (pq_TodoReminderVersion req)
        (pq_ScheduledAtUTC req) (pq_Channels req) now = Inr plan
      \<and> rdb_plans (db s') = rdb_plans (db s) @ [plan]
      \<and> map no_job (rdb_deliveries (db s')) = map no_job (rdb_deliveries (db s)) @ news
      \<and> list_all2 (planned_row req plan) (pq_Channels req) news"
proof -
  obtain i s1 n s2 where i: "NewID s = (i, s1)" and n: "Now s1 = (n, s2)" by (metis surj_pair)
  have db2: "db s2 = db s" using id_frame [OF i] now_frame [OF n] by simp
  let ?new = "NewReminderPlan i (pq_WorkspaceID req) (pq_TodoID req) (pq_TodoReminderVersion req)
        (pq_ScheduledAtUTC req) (pq_Channels req) n"
  obtain plan where plan: "?new = Inr plan"
    using run i n
    by (cases ?new) (auto simp: PlanReminder_def bindA_run bindE_run reminder_result_run)
  then have f: "p_ID plan = i" "p_WorkspaceID plan = pq_WorkspaceID req"
    "p_TodoID plan = pq_TodoID req" "p_TodoReminderVersion plan = pq_TodoReminderVersion req"
    "p_RequestedChannels plan = pq_Channels req" "p_RevokedAt plan = None"
    by (auto simp: NewReminderPlan_def split: if_splits)
  obtain r s3 where save: "ps_Save plans plan s2 = (r, s3)" by (cases "ps_Save plans plan s2")
  have "r \<noteq> Inl (ReminderErr ErrPlanExists)"
  proof -
    have "i \<notin> p_ID ` set (rdb_plans (db s))" using id_fresh [OF i] known by blast
    with runs_onD [OF plan_save save] no_plan f show ?thesis
      unfolding db2 by (auto simp: pg_plan_Save_def list_ex_iff split: if_splits)
  qed
  then have r: "r = Inr ()"
    using run i n plan save
    by (auto simp: PlanReminder_def bindA_run bindE_run tryE_run reminder_result_run split: sum.splits)
  have "db s3 = db s\<lparr>rdb_plans := rdb_plans (db s) @ [plan\<lparr>p_RevokedAt := None\<rparr>]\<rparr>"
    using runs_onD [OF plan_save save] r
    unfolding db2 by (auto simp: pg_plan_Save_def split: if_splits)
  moreover have "plan\<lparr>p_RevokedAt := None\<rparr> = plan" using f(6) by simp
  ultimately have db3: "rdb_plans (db s3) = rdb_plans (db s) @ [plan]"
    "rdb_deliveries (db s3) = rdb_deliveries (db s)"
    by simp_all
  have "issued s3 = insert i (issued s)"
    using id_fresh [OF i] leavesD [OF now_issued n] leavesD [OF plan_issued save] by simp
  then have known3: "ids_known s3" using known db3 f(1) by auto
  obtain ids s4 job scheduled s5 where
    ds: "plan_deliveries deliveries NewID Now req plan s3 = (Inr ids, s4)"
    and sch: "js_Schedule scheduler job s4 = (Inr scheduled, s5)"
    and jobs: "set_job_ids deliveries plan ids scheduled s5 = (Inr (), s')"
    using run i n plan save r
    by (auto simp: PlanReminder_def bindA_run tryE_run reminder_result_run bindE_Inr_iff)
  have "no_rows plan (pq_Channels req) (rdb_deliveries (db s3))"
    unfolding db3 using none f by blast
  then obtain news where news: "rdb_plans (db s4) = rdb_plans (db s3)"
    "rdb_deliveries (db s4) = rdb_deliveries (db s3) @ news"
    "list_all2 (planned_row req plan) (pq_Channels req) news"
    using plan_deliveries_ok [OF ds [unfolded plan_deliveries_def]] channels f known3 by auto
  have "map no_job news = news"
  proof (rule map_idI)
    fix x
    assume "x \<in> set news"
    then obtain c where "planned_row req plan c x"
      using news(3) by (auto simp: list_all2_conv_all_nth in_set_conv_nth)
    then have "d_ProviderJobID x = None" using planned_row_channel by blast
    then show "no_job x = x" by (simp add: no_job_def)
  qed
  moreover note set_job_ids_frame [OF jobs] schedule_frame [OF sch]
  ultimately have "rdb_plans (db s') = rdb_plans (db s) @ [plan]"
    "map no_job (rdb_deliveries (db s')) = map no_job (rdb_deliveries (db s)) @ news"
    using news db3 by simp_all
  with plan news(3) show ?thesis by blast
qed

end

end
