(* ===== verification/Reminder_Send.thy ===== *)
theory Reminder_Send
  imports Reminder_Commands
begin

text \<open>
  The send command (\<open>reminder/application/command/send.go\<close>) and the River worker that
  calls it (\<open>adapters/inbound/worker/worker.go\<close>). The readers, the notifiers and the stores
  are ports of the handler. The locale \<open>send_reminder\<close> extends \<open>delivery_store\<close> by what
  the other ports promise and shows, for every behaviour of the ports: what is sent and when,
  that a successful run leaves the row final, that a final row is never sent again, and that
  provider failures are not retried when they are permanent or on the last attempt.
\<close>

section \<open>Ports and transfer objects\<close>

record ReaderTodoView =
  tv_Title :: string
  tv_Status :: string
  tv_ReminderVersion :: int
  tv_OwnerUserID :: string

record ChannelEndpoint =
  ce_Address :: string
  ce_Usable :: bool

record ReminderMessage =
  m_To :: string
  m_TodoID :: string
  m_Title :: string
  m_ScheduledAtUTC :: time

record SendRequest =
  sr_WorkspaceID :: string
  sr_OwnerUserID :: string
  sr_PlanID :: string
  sr_Channel :: string
  sr_FinalAttempt :: bool

text \<open>The fields of \<open>SendReminderHandler\<close>; a notifier returns the provider's message id.\<close>

record 's SendPorts =
  sp_Plans :: "'s PlanStore"
  sp_Deliveries :: "'s DeliveryStore"
  sp_Todos :: "string \<Rightarrow> string \<Rightarrow> string \<Rightarrow> ('s, ReaderTodoView) op"
  sp_Channels :: "string \<Rightarrow> string \<Rightarrow> string \<Rightarrow> ('s, ChannelEndpoint) op"
  sp_Email :: "ReminderMessage \<Rightarrow> ('s, string) op"
  sp_Sms :: "ReminderMessage \<Rightarrow> ('s, string) op"
  sp_NewID :: "('s, string) act"
  sp_Now :: "('s, time) act"

text \<open>The five Chinese characters of the title for rows without a todo, in UTF-8.\<close>

definition fallbackTitle :: string where
  "fallbackTitle =
     [CHR 0xE6, CHR 0x9C, CHR 0xAA, CHR 0xE5, CHR 0x91, CHR 0xBD, CHR 0xE5, CHR 0x90, CHR 0x8D,
      CHR 0xE6, CHR 0x8F, CHR 0x90, CHR 0xE9, CHR 0x86, CHR 0x92]"

section \<open>The handler\<close>

definition loadOrCreateDelivery ::
    "'s SendPorts \<Rightarrow> ReminderPlan \<Rightarrow> string \<Rightarrow> SendRequest \<Rightarrow> string \<Rightarrow> ('s, ReminderDelivery \<times> bool) op" where
  "loadOrCreateDelivery h plan key req title =
     tryE (ds_ByIdempotencyKey (sp_Deliveries h) (p_WorkspaceID plan) key)
       (\<lambda>delivery. ok (delivery, False))
       (\<lambda>e. if e \<noteq> ReminderErr ErrDeliveryNotFound then fail e
            else bindA (sp_NewID h) (\<lambda>i. bindA (sp_Now h) (\<lambda>now.
              bindE (reminder_result (NewDelivery i (p_WorkspaceID plan) (sr_OwnerUserID req)
                (p_TodoID plan) (p_TodoReminderVersion plan) (p_ID plan) (sr_Channel req) title
                (p_ScheduledAtUTC plan) now)) (\<lambda>created. ok (created, True)))))"

definition suppress_row ::
    "'s SendPorts \<Rightarrow> SuppressionReason \<Rightarrow> ReminderDelivery \<Rightarrow> ('s, unit) op" where
  "suppress_row h reason delivery =
     bindA (sp_Now h) (\<lambda>now.
     bindE (reminder_result (MarkSuppressed reason now delivery)) (\<lambda>d.
     ds_Update (sp_Deliveries h) d))"

text \<open>\<open>suppress\<close> of a row that had to be created: a concurrent insert wins.\<close>

definition suppress_created ::
    "'s SendPorts \<Rightarrow> string \<Rightarrow> string \<Rightarrow> SuppressionReason \<Rightarrow> ReminderDelivery \<Rightarrow> ('s, unit) op" where
  "suppress_created h ws key reason delivery =
     bindA (sp_Now h) (\<lambda>now.
     bindE (reminder_result (MarkSuppressed reason now delivery)) (\<lambda>d.
     tryE (ds_Save (sp_Deliveries h) d) ok
       (\<lambda>e. if e \<noteq> ReminderErr ErrDeliveryExists then fail e
            else bindE (ds_ByIdempotencyKey (sp_Deliveries h) ws key) (\<lambda>other.
              if IsFinal other then ok () else suppress_row h reason other))))"

definition suppress ::
    "'s SendPorts \<Rightarrow> ReminderPlan \<Rightarrow> string \<Rightarrow> SendRequest \<Rightarrow> SuppressionReason \<Rightarrow> string \<Rightarrow> ('s, unit) op" where
  "suppress h plan key req reason title =
     bindE (loadOrCreateDelivery h plan key req title) (\<lambda>(delivery, created).
     if IsFinal delivery then ok ()
     else if created then suppress_created h (p_WorkspaceID plan) key reason delivery
     else suppress_row h reason delivery)"

definition notify :: "'s SendPorts \<Rightarrow> string \<Rightarrow> ReminderMessage \<Rightarrow> ('s, string) op" where
  "notify h channel message =
     (if channel = ''email'' then sp_Email h message
      else if channel = ''sms'' then sp_Sms h message
      else fail (ExtError (''reminder: unsupported channel '' @ channel)))"

definition deadLetter :: "'s SendPorts \<Rightarrow> ReminderDelivery \<Rightarrow> string \<Rightarrow> ('s, unit) op" where
  "deadLetter h delivery code =
     bindA (sp_Now h) (\<lambda>now.
     bindE (reminder_result (MarkFailed code now delivery)) (\<lambda>d.
     ds_Update (sp_Deliveries h) d))"

text \<open>
  \<open>errors.Is(err, ports.ErrPermanent)\<close>, and the code \<open>errors.As\<close> finds, unless empty.
\<close>

definition permanent_code :: "gerr \<Rightarrow> string option" where
  "permanent_code e =
     (case e of
        ReminderPortErr ErrPermanent \<Rightarrow> Some ''permanent_failure''
      | ReminderPortErr (PermanentError code) \<Rightarrow>
          Some (if code \<noteq> [] then code else ''permanent_failure'')
      | _ \<Rightarrow> None)"

text \<open>\<open>Handle\<close> from the classification of the provider's error on.\<close>

definition finish_send ::
    "'s SendPorts \<Rightarrow> SendRequest \<Rightarrow> ReminderDelivery \<Rightarrow> ReminderMessage \<Rightarrow> ('s, unit) op" where
  "finish_send h req delivery message =
     tryE (notify h (sr_Channel req) message)
       (\<lambda>messageID. bindA (sp_Now h) (\<lambda>now.
          bindE (reminder_result (MarkSucceeded messageID now delivery)) (\<lambda>d.
          ds_Update (sp_Deliveries h) d)))
       (\<lambda>e. case permanent_code e of
              Some code \<Rightarrow> deadLetter h delivery code
            | None \<Rightarrow> if sr_FinalAttempt req then deadLetter h delivery ''retry_exhausted''
                      else fail e)"

text \<open>\<open>Handle\<close> from the channel's endpoint on.\<close>

definition resolve_and_send ::
    "'s SendPorts \<Rightarrow> ReminderPlan \<Rightarrow> string \<Rightarrow> SendRequest \<Rightarrow> ReminderDelivery \<Rightarrow> ('s, unit) op" where
  "resolve_and_send h plan key req delivery =
     bindE (sp_Channels h (sr_WorkspaceID req) (sr_OwnerUserID req) (sr_Channel req)) (\<lambda>endpoint.
     if \<not> ce_Usable endpoint
     then suppress h plan key req ReasonChannelUnavailable (d_TodoTitleSnapshot delivery)
     else finish_send h req delivery
       \<lparr>m_To = ce_Address endpoint, m_TodoID = d_TodoID delivery,
        m_Title = d_TodoTitleSnapshot delivery, m_ScheduledAtUTC = d_ScheduledAt delivery\<rparr>)"

text \<open>\<open>Handle\<close> from \<open>MarkSending\<close> on.\<close>

definition send_row ::
    "'s SendPorts \<Rightarrow> ReminderPlan \<Rightarrow> string \<Rightarrow> SendRequest \<Rightarrow> ReminderDelivery \<Rightarrow> ('s, unit) op" where
  "send_row h plan key req delivery =
     bindA (sp_Now h) (\<lambda>now.
     bindE (reminder_result (MarkSending now delivery)) (\<lambda>sending.
     bindE (ds_Update (sp_Deliveries h) sending) (\<lambda>_.
     resolve_and_send h plan key req sending)))"

text \<open>\<open>Handle\<close> from \<open>loadOrCreateDelivery\<close> on.\<close>

definition send_created ::
    "'s SendPorts \<Rightarrow> ReminderPlan \<Rightarrow> string \<Rightarrow> SendRequest \<Rightarrow> ReminderDelivery \<Rightarrow> ('s, unit) op" where
  "send_created h plan key req delivery =
     tryE (ds_Save (sp_Deliveries h) delivery) (\<lambda>_. send_row h plan key req delivery)
       (\<lambda>e. if e \<noteq> ReminderErr ErrDeliveryExists then fail e
            else bindE (ds_ByIdempotencyKey (sp_Deliveries h) (p_WorkspaceID plan) key) (\<lambda>other.
              if IsFinal other then ok () else send_row h plan key req other))"

definition send_loaded ::
    "'s SendPorts \<Rightarrow> ReminderPlan \<Rightarrow> string \<Rightarrow> SendRequest \<Rightarrow> string \<Rightarrow> ('s, unit) op" where
  "send_loaded h plan key req title =
     bindE (loadOrCreateDelivery h plan key req title) (\<lambda>(delivery, created).
     if IsFinal delivery then ok ()
     else if created then send_created h plan key req delivery
     else send_row h plan key req delivery)"

definition send_plan ::
    "'s SendPorts \<Rightarrow> SendRequest \<Rightarrow> ReminderPlan \<Rightarrow> ('s, unit) op" where
  "send_plan h req plan =
     (let key = IdempotencyKeyFor (p_WorkspaceID plan) (p_TodoID plan) (p_TodoReminderVersion plan)
                  (sr_Channel req) in
      if IsRevoked plan then suppress h plan key req ReasonPlanRevoked fallbackTitle
      else tryE (sp_Todos h (sr_WorkspaceID req) (sr_OwnerUserID req) (p_TodoID plan))
        (\<lambda>todo.
           if tv_Status todo = ''deleted''
           then suppress h plan key req ReasonTodoDeleted (tv_Title todo)
           else if tv_Status todo = ''completed''
           then suppress h plan key req ReasonTodoCompleted (tv_Title todo)
           else if tv_ReminderVersion todo \<noteq> p_TodoReminderVersion plan
           then suppress h plan key req ReasonVersionStale (tv_Title todo)
           else send_loaded h plan key req (tv_Title todo))
        (\<lambda>e. if e = ReminderPortErr ports_ErrTodoNotFound
             then suppress h plan key req ReasonTodoDeleted fallbackTitle
             else fail e))"

definition SendReminder :: "'s SendPorts \<Rightarrow> SendRequest \<Rightarrow> ('s, unit) op" where
  "SendReminder h req =
     tryE (ps_Get (sp_Plans h) (sr_WorkspaceID req) (sr_PlanID req))
       (send_plan h req)
       (\<lambda>e. if e = ReminderErr ErrPlanNotFound then ok () else fail e)"

section \<open>The worker\<close>

definition SendWorker_Work ::
    "'s SendPorts \<Rightarrow> int \<Rightarrow> ReminderSendArgs \<Rightarrow> int \<Rightarrow> ('s, unit) op" where
  "SendWorker_Work h MaxAttempts args attempt =
     SendReminder h \<lparr>sr_WorkspaceID = sa_WorkspaceID args, sr_OwnerUserID = sa_OwnerUserID args,
       sr_PlanID = sa_PlanID args, sr_Channel = sa_Channel args,
       sr_FinalAttempt = (attempt \<ge> MaxAttempts)\<rparr>"

text \<open>A \<open>time.Duration\<close> is an \<open>int64\<close> of nanoseconds; its value is \<open>sint\<close>.\<close>

definition retryBaseDelay :: "64 word" where "retryBaseDelay = 500 * 1000000"

definition retryMaxDelay :: "64 word" where "retryMaxDelay = 60 * 1000000000"

definition NextRetryDelay :: "int \<Rightarrow> 64 word" where
  "NextRetryDelay attempt =
     (let a = (if attempt < 1 then 1 else attempt) in
      if a - 1 \<ge> 7 then retryMaxDelay else push_bit (nat (a - 1)) retryBaseDelay)"

definition NextRetry :: "time \<Rightarrow> int \<Rightarrow> time" where
  "NextRetry now attempt = now + sint (NextRetryDelay attempt)"

text \<open>The shift never loses a bit: the delay is the capped power of two.\<close>

lemma NextRetryDelay_value:
  "sint (NextRetryDelay attempt) = min (60 * Second) (500000000 * 2 ^ nat (max 1 attempt - 1))"
proof -
  consider "attempt \<le> 1" | "attempt = 2" | "attempt = 3" | "attempt = 4" | "attempt = 5"
    | "attempt = 6" | "attempt = 7" | "8 \<le> attempt"
    by linarith
  then show ?thesis
  proof cases
    case 8
    then have "7 \<le> nat (max 1 attempt - 1)" by linarith
    then have "(2::int) ^ 7 \<le> 2 ^ nat (max 1 attempt - 1)" by (rule power_increasing) simp
    then have "60 * Second \<le> 500000000 * 2 ^ nat (max 1 attempt - 1)" by simp
    moreover have "sint (NextRetryDelay attempt) = 60 * Second"
      using 8 by (simp add: NextRetryDelay_def retryMaxDelay_def)
    ultimately show ?thesis by simp
  qed (auto simp: NextRetryDelay_def Let_def retryBaseDelay_def push_bit_eq_mult)
qed

section \<open>What the handler promises\<close>

definition final_row :: "ReminderDelivery option \<Rightarrow> bool" where
  "final_row r = (case r of None \<Rightarrow> False | Some d \<Rightarrow> IsFinal d)"

text \<open>The transitions keep a row in the form the store reads back.\<close>

lemma scan_fixed:
  "scanDelivery d = d \<longleftrightarrow> DeliveryState_of (string_of_state (d_State d)) = d_State d
     \<and> map_option (\<lambda>x. SuppressionReason_of (string_of_reason x)) (d_SuppressionReason d)
         = d_SuppressionReason d
     \<and> map_option (\<lambda>x. ReceiptState_of (string_of_receipt x)) (d_ReceiptState d) = d_ReceiptState d
     \<and> d_Origin d = OriginZero"
  by (cases d) (auto simp: scanDelivery_def scanDeliveryWithOrigin_def)

lemma MarkSuppressed_row:
  assumes "\<not> IsFinal d" "scanDelivery d = d" "SuppressionReason_of (string_of_reason reason) = reason"
  shows "\<exists>d'. MarkSuppressed reason n d = Inr d' \<and> scanDelivery d' = d' \<and> same_planning d d'
     \<and> d_State d' = StateSuppressed \<and> d_SuppressionReason d' = Some reason"
  using assms
  by (simp add: MarkSuppressed_def scan_fixed same_planning_def DeliveryState_of_def)

lemma MarkSending_row:
  assumes "\<not> IsFinal d" "scanDelivery d = d"
  shows "\<exists>d'. MarkSending n d = Inr d' \<and> scanDelivery d' = d' \<and> same_planning d d'
     \<and> d_State d' = StateSending"
  using assms by (simp add: MarkSending_def scan_fixed same_planning_def DeliveryState_of_def)

lemma MarkSucceeded_row:
  assumes "d_State d = StateSending" "scanDelivery d = d"
  shows "\<exists>d'. MarkSucceeded m n d = Inr d' \<and> scanDelivery d' = d' \<and> same_planning d d'
     \<and> d_State d' = StateSucceeded"
  using assms
  by (simp add: MarkSucceeded_def IsFinal_def scan_fixed same_planning_def DeliveryState_of_def)

lemma MarkFailed_row:
  assumes "d_State d = StateSending" "scanDelivery d = d"
  shows "\<exists>d'. MarkFailed c n d = Inr d' \<and> scanDelivery d' = d' \<and> same_planning d d'
     \<and> d_State d' = StateFailed"
  using assms
  by (simp add: MarkFailed_def IsFinal_def scan_fixed same_planning_def DeliveryState_of_def)

lemma NewDelivery_row:
  assumes "NewDelivery i ws owner t v p ch title at n = Inr d"
  shows "scanDelivery d = d \<and> d_WorkspaceID d = ws \<and> d_IdempotencyKey d = IdempotencyKeyFor ws t v ch
     \<and> \<not> IsFinal d \<and> d_TodoID d = t \<and> d_TodoTitleSnapshot d = title \<and> d_ScheduledAt d = at"
  using assms
  by (auto simp: NewDelivery_def scan_fixed DeliveryState_of_def IsFinal_def split: if_splits)

text \<open>The log of messages handed to the providers grew by at most one.\<close>

definition one_message :: "ChannelEndpoint \<Rightarrow> string \<Rightarrow> ReminderDelivery \<Rightarrow> (string \<times> ReminderMessage) list \<Rightarrow> bool" where
  "one_message ep channel d l \<longleftrightarrow> l = [] \<or>
     (ce_Usable ep \<and> l = [(channel, \<lparr>m_To = ce_Address ep, m_TodoID = d_TodoID d,
        m_Title = d_TodoTitleSnapshot d, m_ScheduledAtUTC = d_ScheduledAt d\<rparr>)])"

text \<open>
  The decision as a function of what the handler reads: why it suppresses, if it does, and what
  a successful run leaves behind.
\<close>

definition send_reason :: "ReminderPlan \<Rightarrow> ReaderTodoView option \<Rightarrow> SuppressionReason option" where
  "send_reason plan todo =
     (if IsRevoked plan then Some ReasonPlanRevoked
      else case todo of
        None \<Rightarrow> Some ReasonTodoDeleted
      | Some t \<Rightarrow>
          if tv_Status t = ''deleted'' then Some ReasonTodoDeleted
          else if tv_Status t = ''completed'' then Some ReasonTodoCompleted
          else if tv_ReminderVersion t \<noteq> p_TodoReminderVersion plan then Some ReasonVersionStale
          else None)"

text \<open>The row the message is built from: the stored one, or one built from plan and todo.\<close>

definition base_row :: "ReminderPlan \<Rightarrow> string \<Rightarrow> ReminderDelivery option \<Rightarrow> ReminderDelivery \<Rightarrow> bool" where
  "base_row plan title r0 d \<longleftrightarrow>
     (case r0 of
        Some d0 \<Rightarrow> d = d0
      | None \<Rightarrow> d_TodoID d = p_TodoID plan \<and> d_TodoTitleSnapshot d = title
          \<and> d_ScheduledAt d = p_ScheduledAtUTC plan)"

definition send_outcome ::
    "ReminderPlan \<Rightarrow> ReaderTodoView option \<Rightarrow> ChannelEndpoint \<Rightarrow> string \<Rightarrow> ReminderDelivery option
     \<Rightarrow> ReminderDelivery \<Rightarrow> (string \<times> ReminderMessage) list \<Rightarrow> bool" where
  "send_outcome plan todo ep channel r0 d' l \<longleftrightarrow>
     (if final_row r0 then r0 = Some d' \<and> l = []
      else case send_reason plan todo of
        Some reason \<Rightarrow>
          l = [] \<and> d_State d' = StateSuppressed \<and> d_SuppressionReason d' = Some reason
      | None \<Rightarrow>
          if ce_Usable ep
          then (\<exists>d. base_row plan (tv_Title (the todo)) r0 d \<and> one_message ep channel d l)
               \<and> ((d_State d' = StateSucceeded \<and> l \<noteq> []) \<or> d_State d' = StateFailed)
          else l = [] \<and> d_State d' = StateSuppressed
               \<and> d_SuppressionReason d' = Some ReasonChannelUnavailable)"

text \<open>
  \<open>rest\<close> is what the handler reads and never writes: plans, todos, channels. \<open>log\<close> is what
  the providers received; a notifier that reports an error may have delivered the message or
  not. \<open>provider_error\<close> tells the notifiers' errors from those of the other ports.
\<close>

locale send_reminder = delivery_store "sp_Deliveries h" row dinv
  for h :: "'s SendPorts" and row and dinv :: "'s \<Rightarrow> bool" +
  fixes rest :: "'s \<Rightarrow> 'r"
    and log :: "'s \<Rightarrow> (string \<times> ReminderMessage) list"
    and planR :: "'r \<Rightarrow> string \<Rightarrow> string \<Rightarrow> ReminderPlan option"
    and todoR :: "'r \<Rightarrow> string \<Rightarrow> string \<Rightarrow> string \<Rightarrow> ReaderTodoView option"
    and endR :: "'r \<Rightarrow> string \<Rightarrow> string \<Rightarrow> string \<Rightarrow> ChannelEndpoint"
    and provider_error :: "gerr \<Rightarrow> bool"
  assumes save_frame: "ds_Save (sp_Deliveries h) d s = (u, s') \<Longrightarrow> rest s' = rest s \<and> log s' = log s"
    and update_frame: "ds_Update (sp_Deliveries h) d s = (u, s') \<Longrightarrow> rest s' = rest s \<and> log s' = log s"
    and now_frame: "sp_Now h s = (n, s') \<Longrightarrow>
        rest s' = rest s \<and> log s' = log s \<and> row s' = row s \<and> dinv s' = dinv s"
    and id_frame: "sp_NewID h s = (i, s') \<Longrightarrow>
        rest s' = rest s \<and> log s' = log s \<and> row s' = row s \<and> dinv s' = dinv s"
    and plan_frame: "ps_Get (sp_Plans h) ws pid s = (pr, s') \<Longrightarrow>
        rest s' = rest s \<and> log s' = log s \<and> row s' = row s \<and> dinv s' = dinv s"
    and todo_frame: "sp_Todos h ws owner t s = (tr, s') \<Longrightarrow>
        rest s' = rest s \<and> log s' = log s \<and> row s' = row s \<and> dinv s' = dinv s"
    and channel_frame: "sp_Channels h ws owner ch s = (cr, s') \<Longrightarrow>
        rest s' = rest s \<and> log s' = log s \<and> row s' = row s \<and> dinv s' = dinv s"
    and plan_found: "ps_Get (sp_Plans h) ws pid s = (Inr plan, s') \<Longrightarrow>
        planR (rest s) ws pid = Some plan \<and> p_WorkspaceID plan = ws"
    and plan_missing: "ps_Get (sp_Plans h) ws pid s = (Inl (ReminderErr ErrPlanNotFound), s') \<Longrightarrow>
        planR (rest s) ws pid = None"
    and todo_found: "sp_Todos h ws owner t s = (Inr todo, s') \<Longrightarrow> todoR (rest s) ws owner t = Some todo"
    and todo_missing: "sp_Todos h ws owner t s = (Inl (ReminderPortErr ports_ErrTodoNotFound), s') \<Longrightarrow>
        todoR (rest s) ws owner t = None"
    and channel_found: "sp_Channels h ws owner ch s = (Inr ep, s') \<Longrightarrow> endR (rest s) ws owner ch = ep"
    and email_sends: "sp_Email h m s = (er, s') \<Longrightarrow>
        rest s' = rest s \<and> row s' = row s \<and> dinv s' = dinv s
        \<and> (log s' = log s @ [(''email'', m)] \<or> (log s' = log s \<and> isl er))"
    and sms_sends: "sp_Sms h m s = (er, s') \<Longrightarrow>
        rest s' = rest s \<and> row s' = row s \<and> dinv s' = dinv s
        \<and> (log s' = log s @ [(''sms'', m)] \<or> (log s' = log s \<and> isl er))"
    and domain_errors: "\<not> provider_error (ReminderErr re)"
    and save_errors: "ds_Save (sp_Deliveries h) d s = (Inl e, s') \<Longrightarrow> \<not> provider_error e"
    and update_errors: "ds_Update (sp_Deliveries h) d s = (Inl e, s') \<Longrightarrow> \<not> provider_error e"
    and bykey_errors: "ds_ByIdempotencyKey (sp_Deliveries h) ws k s = (Inl e, s') \<Longrightarrow> \<not> provider_error e"
    and plan_errors: "ps_Get (sp_Plans h) ws pid s = (Inl e, s') \<Longrightarrow> \<not> provider_error e"
    and todo_errors: "sp_Todos h ws owner t s = (Inl e, s') \<Longrightarrow> \<not> provider_error e"
    and channel_errors: "sp_Channels h ws owner ch s = (Inl e, s') \<Longrightarrow> \<not> provider_error e"
begin

abbreviation at ::
    "string \<Rightarrow> string \<Rightarrow> 'r \<Rightarrow> (string \<times> ReminderMessage) list \<Rightarrow> ReminderDelivery option \<Rightarrow> 's \<Rightarrow> bool" where
  "at ws key R L r0 s \<equiv> dinv s \<and> rest s = R \<and> log s = L \<and> row s ws key = r0"

lemma now_at: "at ws key R L r0 s \<Longrightarrow> at ws key R L r0 (snd (sp_Now h s))"
  by (cases "sp_Now h s") (auto dest: now_frame)

lemma id_at: "at ws key R L r0 s \<Longrightarrow> at ws key R L r0 (snd (sp_NewID h s))"
  by (cases "sp_NewID h s") (auto dest: id_frame)

lemma bykey_at:
  "valid (at ws key R L r0) (ds_ByIdempotencyKey (sp_Deliveries h) ws key)
     (\<lambda>d s. at ws key R L r0 s \<and> r0 = Some d)
     (\<lambda>e s. at ws key R L r0 s \<and> \<not> provider_error e
        \<and> (e = ReminderErr ErrDeliveryNotFound \<longrightarrow> r0 = None))"
proof (rule validI)
  fix s d s'
  assume "at ws key R L r0 s" and "ds_ByIdempotencyKey (sp_Deliveries h) ws key s = (Inr d, s')"
  then show "at ws key R L r0 s' \<and> r0 = Some d" using bykey_found by metis
next
  fix s e s'
  assume at: "at ws key R L r0 s" and run: "ds_ByIdempotencyKey (sp_Deliveries h) ws key s = (Inl e, s')"
  then have "s' = s" using bykey_error by metis
  then show "at ws key R L r0 s' \<and> \<not> provider_error e \<and> (e = ReminderErr ErrDeliveryNotFound \<longrightarrow> r0 = None)"
    using at run bykey_missing bykey_errors by metis
qed

lemma save_at:
  assumes "d_WorkspaceID d = ws" "d_IdempotencyKey d = key" "scanDelivery d = d"
  shows "valid (at ws key R L r0) (ds_Save (sp_Deliveries h) d)
     (\<lambda>_. at ws key R L (Some d)) (\<lambda>e s. at ws key R L r0 s \<and> \<not> provider_error e)"
proof (rule validI)
  fix s u s'
  assume at: "at ws key R L r0 s" and run: "ds_Save (sp_Deliveries h) d s = (Inr u, s')"
  have "dinv s' \<and> row s' = (\<lambda>w k. if w = d_WorkspaceID d \<and> k = d_IdempotencyKey d then Some d else row s w k)"
    using save_ok [of s d s'] at run assms(3) by simp
  with save_frame [OF run] at assms(1,2) show "at ws key R L (Some d) s'" by simp
next
  fix s e s'
  assume at: "at ws key R L r0 s" and run: "ds_Save (sp_Deliveries h) d s = (Inl e, s')"
  then have "s' = s" using save_error by metis
  with at save_errors [OF run] show "at ws key R L r0 s' \<and> \<not> provider_error e" by simp
qed

lemma update_at:
  assumes "d_WorkspaceID d = ws" "d_IdempotencyKey d = key" "scanDelivery d = d" "same_planning old d"
  shows "valid (at ws key R L (Some old)) (ds_Update (sp_Deliveries h) d)
     (\<lambda>_. at ws key R L (Some d)) (\<lambda>e s. at ws key R L (Some old) s \<and> \<not> provider_error e)"
proof (rule validI)
  fix s u s'
  assume at: "at ws key R L (Some old) s" and run: "ds_Update (sp_Deliveries h) d s = (Inr u, s')"
  have "dinv s' \<and> row s' = (\<lambda>w k. if w = d_WorkspaceID d \<and> k = d_IdempotencyKey d then Some d else row s w k)"
    using update_ok [of s d old s'] at run assms by simp
  with update_frame [OF run] at assms(1,2) show "at ws key R L (Some d) s'" by simp
next
  fix s e s'
  assume at: "at ws key R L (Some old) s" and run: "ds_Update (sp_Deliveries h) d s = (Inl e, s')"
  then have "s' = s" using update_error by metis
  with at update_errors [OF run] show "at ws key R L (Some old) s' \<and> \<not> provider_error e" by simp
qed

text \<open>A row that was not final is suppressed with the reason; a final one is left.\<close>

abbreviation suppressed_post ::
    "SuppressionReason \<Rightarrow> ReminderDelivery option \<Rightarrow> ReminderDelivery \<Rightarrow> bool" where
  "suppressed_post reason r0 d \<equiv>
     (if final_row r0 then r0 = Some d
      else d_State d = StateSuppressed \<and> d_SuppressionReason d = Some reason)"

lemma suppress_row_at:
  assumes "\<not> IsFinal d" "SuppressionReason_of (string_of_reason reason) = reason"
  shows "valid (at ws key R L (Some d)) (suppress_row h reason d)
     (\<lambda>_ s. \<exists>d'. at ws key R L (Some d') s \<and> suppressed_post reason (Some d) d')
     (\<lambda>e s. at ws key R L (Some d) s \<and> \<not> provider_error e)"
  unfolding suppress_row_def
proof (rule valid_bindA [where R = "\<lambda>_. at ws key R L (Some d)"])
  show "at ws key R L (Some d) s \<Longrightarrow> at ws key R L (Some d) (snd (sp_Now h s))" for s
    by (rule now_at)
  fix n
  show "valid (at ws key R L (Some d))
     (bindE (reminder_result (MarkSuppressed reason n d)) (ds_Update (sp_Deliveries h)))
     (\<lambda>_ s. \<exists>d'. at ws key R L (Some d') s \<and> suppressed_post reason (Some d) d')
     (\<lambda>e s. at ws key R L (Some d) s \<and> \<not> provider_error e)"
  proof (cases "\<exists>s. at ws key R L (Some d) s")
    case True
    then have rk: "d_WorkspaceID d = ws" "d_IdempotencyKey d = key" "scanDelivery d = d"
      using row_key by blast+
    obtain d' where d': "MarkSuppressed reason n d = Inr d'" "scanDelivery d' = d'" "same_planning d d'"
      "d_State d' = StateSuppressed" "d_SuppressionReason d' = Some reason"
      using MarkSuppressed_row [OF assms(1) rk(3) assms(2)] by blast
    have "valid (at ws key R L (Some d)) (ds_Update (sp_Deliveries h) d')
     (\<lambda>_. at ws key R L (Some d')) (\<lambda>e s. at ws key R L (Some d) s \<and> \<not> provider_error e)"
      using rk d' by (intro update_at) (simp_all add: same_planning_def)
    then have "valid (at ws key R L (Some d)) (ds_Update (sp_Deliveries h) d')
     (\<lambda>_ s. \<exists>d'. at ws key R L (Some d') s \<and> suppressed_post reason (Some d) d')
     (\<lambda>e s. at ws key R L (Some d) s \<and> \<not> provider_error e)"
      by (rule valid_weaken) (use assms(1) d' in \<open>auto simp: final_row_def\<close>)
    then show ?thesis
      by (simp add: d'(1) reminder_result_def bindE_def tryE_def ret_def)
  next
    case False
    then show ?thesis by (intro valid_vacuous) blast
  qed
qed

lemma load_at:
  assumes "ws = p_WorkspaceID plan"
    and "key = IdempotencyKeyFor (p_WorkspaceID plan) (p_TodoID plan) (p_TodoReminderVersion plan) (sr_Channel req)"
  shows "valid (at ws key R L r0) (loadOrCreateDelivery h plan key req title)
     (\<lambda>(d, created) s. at ws key R L r0 s \<and>
        (if created then r0 = None \<and> scanDelivery d = d \<and> d_WorkspaceID d = ws \<and> d_IdempotencyKey d = key
            \<and> \<not> IsFinal d \<and> d_TodoID d = p_TodoID plan \<and> d_TodoTitleSnapshot d = title
            \<and> d_ScheduledAt d = p_ScheduledAtUTC plan
         else r0 = Some d))
     (\<lambda>e s. at ws key R L r0 s \<and> \<not> provider_error e)"
  unfolding loadOrCreateDelivery_def assms(1) [symmetric]
proof (rule valid_tryE [OF bykey_at], goal_cases)
  case (1 d)
  then show ?case by (rule valid_pre [OF valid_ok]) simp
next
  case (2 e)
  show ?case
  proof (rule valid_if, goal_cases)
    case 1
    show ?case by (rule valid_pre [OF valid_fail]) simp
  next
    case 2
    then have e: "e = ReminderErr ErrDeliveryNotFound" by simp
    show ?case
    proof (rule valid_bindA [where R = "\<lambda>_ s. at ws key R L r0 s \<and> r0 = None"], goal_cases)
      case (1 s)
      then show ?case using id_at e by blast
    next
      case (2 i)
      show ?case
      proof (rule valid_bindA [where R = "\<lambda>_ s. at ws key R L r0 s \<and> r0 = None"], goal_cases)
        case (1 s)
        then show ?case using now_at by blast
      next
        case (2 n)
        show ?case
        proof (cases "NewDelivery i ws (sr_OwnerUserID req) (p_TodoID plan) (p_TodoReminderVersion plan)
            (p_ID plan) (sr_Channel req) title (p_ScheduledAtUTC plan) n")
          case (Inl x)
          then show ?thesis
            using domain_errors by (simp add: valid_def bindE_run reminder_result_run)
        next
          case (Inr d)
          from NewDelivery_row [OF Inr] Inr assms show ?thesis
            by (simp add: valid_def bindE_run reminder_result_run)
        qed
      qed
    qed
  qed
qed

lemma suppress_created_at:
  assumes d: "scanDelivery d = d" "d_WorkspaceID d = ws" "d_IdempotencyKey d = key" "\<not> IsFinal d"
    and reason: "SuppressionReason_of (string_of_reason reason) = reason"
  shows "valid (at ws key R L None) (suppress_created h ws key reason d)
     (\<lambda>_ s. \<exists>d. at ws key R L (Some d) s \<and> suppressed_post reason None d)
     (\<lambda>e s. at ws key R L None s \<and> \<not> provider_error e)"
  unfolding suppress_created_def
proof (rule valid_bindA [where R = "\<lambda>_. at ws key R L None"])
  show "at ws key R L None s \<Longrightarrow> at ws key R L None (snd (sp_Now h s))" for s by (rule now_at)
  fix n
  obtain d' where d': "MarkSuppressed reason n d = Inr d'" "scanDelivery d' = d'"
    "same_planning d d'" "d_State d' = StateSuppressed" "d_SuppressionReason d' = Some reason"
    using MarkSuppressed_row [OF d(4,1) reason] by blast
  have key': "d_WorkspaceID d' = ws" "d_IdempotencyKey d' = key"
    using d'(3) d by (simp_all add: same_planning_def)
  show "valid (at ws key R L None) (bindE (reminder_result (MarkSuppressed reason n d)) (\<lambda>d.
     tryE (ds_Save (sp_Deliveries h) d) ok
       (\<lambda>e. if e \<noteq> ReminderErr ErrDeliveryExists then fail e
            else bindE (ds_ByIdempotencyKey (sp_Deliveries h) ws key) (\<lambda>other.
              if IsFinal other then ok () else suppress_row h reason other))))
     (\<lambda>_ s. \<exists>d. at ws key R L (Some d) s \<and> suppressed_post reason None d)
     (\<lambda>e s. at ws key R L None s \<and> \<not> provider_error e)"
    unfolding d'(1) reminder_result_def map_sum.simps id_apply
  proof (rule valid_bindE [where R = "\<lambda>x s. x = d' \<and> at ws key R L None s"], goal_cases)
    case 1
    show ?case by (rule valid_pre [OF valid_ret]) simp
  next
    case (2 x)
    show ?case
    proof (rule valid_given, goal_cases)
      case (1 s)
      then have x: "x = d'" by simp
      show ?case
        unfolding x simp_thms
      proof (rule valid_tryE [OF save_at [OF key' d'(2)]], goal_cases)
        case (1 u)
        show ?case using d' by (intro valid_pre [OF valid_ok]) (auto simp: final_row_def)
      next
        case (2 e)
        show ?case
        proof (rule valid_if, goal_cases)
          case 1
          show ?case by (rule valid_fail)
        next
          case 2
          show ?case
          proof (rule valid_bindE [where R = "\<lambda>_ _. False"], goal_cases)
            case 1
            show ?case by (rule valid_weaken [OF bykey_at]) auto
          next
            case (2 other)
            show ?case by (simp add: valid_vacuous)
          qed
        qed
      qed
    qed
  qed
qed

lemma suppress_at:
  assumes ws: "ws = p_WorkspaceID plan"
    and key: "key = IdempotencyKeyFor (p_WorkspaceID plan) (p_TodoID plan) (p_TodoReminderVersion plan) (sr_Channel req)"
    and reason: "SuppressionReason_of (string_of_reason reason) = reason"
  shows "valid (at ws key R L r0) (suppress h plan key req reason title)
     (\<lambda>_ s. \<exists>d. at ws key R L (Some d) s \<and> suppressed_post reason r0 d)
     (\<lambda>e s. at ws key R L r0 s \<and> \<not> provider_error e)"
  unfolding suppress_def ws [symmetric]
proof (rule valid_bindE [OF load_at [OF ws key]], goal_cases)
  case (1 p)
  obtain d created where p: "p = (d, created)" by (cases p)
  show ?case
    unfolding p prod.case
  proof (rule valid_given, goal_cases)
    case (1 s)
    consider "IsFinal d" "r0 = Some d" | "\<not> IsFinal d" "\<not> created" "r0 = Some d"
      | "\<not> IsFinal d" "created" "r0 = None" "scanDelivery d = d" "d_WorkspaceID d = ws" "d_IdempotencyKey d = key"
      using 1 by (auto split: if_splits)
    then show ?case
    proof cases
      case 1
      show ?thesis
        unfolding if_P [OF 1(1)] 1(2) using 1(1)
        by (intro valid_pre [OF valid_ok]) (auto simp: final_row_def)
    next
      case 2
      show ?thesis
        unfolding if_not_P [OF 2(1)] if_not_P [OF 2(2)] 2(3)
        by (rule valid_pre [OF suppress_row_at [OF 2(1) reason]]) simp
    next
      case 3
      show ?thesis
        unfolding if_not_P [OF 3(1)] if_P [OF 3(2)] 3(3)
        by (rule valid_pre [OF suppress_created_at [OF 3(4-6) 3(1) reason]]) simp
    qed
  qed
qed

lemma mark_update_at:
  assumes "\<And>n. d_WorkspaceID d = ws \<Longrightarrow> d_IdempotencyKey d = key \<Longrightarrow> scanDelivery d = d \<Longrightarrow>
      \<exists>d'. mark n d = Inr d' \<and> scanDelivery d' = d' \<and> same_planning d d' \<and> P d'"
  shows "valid (at ws key R L (Some d))
     (bindA (sp_Now h) (\<lambda>n. bindE (reminder_result (mark n d)) (\<lambda>d'. ds_Update (sp_Deliveries h) d')))
     (\<lambda>_ s. \<exists>d'. at ws key R L (Some d') s \<and> same_planning d d' \<and> P d')
     (\<lambda>e s. at ws key R L (Some d) s \<and> \<not> provider_error e)"
proof (rule valid_bindA [where R = "\<lambda>_. at ws key R L (Some d)"])
  show "at ws key R L (Some d) s \<Longrightarrow> at ws key R L (Some d) (snd (sp_Now h s))" for s by (rule now_at)
  fix n
  show "valid (at ws key R L (Some d))
     (bindE (reminder_result (mark n d)) (\<lambda>d'. ds_Update (sp_Deliveries h) d'))
     (\<lambda>_ s. \<exists>d'. at ws key R L (Some d') s \<and> same_planning d d' \<and> P d')
     (\<lambda>e s. at ws key R L (Some d) s \<and> \<not> provider_error e)"
  proof (rule valid_given)
    fix s0
    assume "at ws key R L (Some d) s0"
    then have rk: "d_WorkspaceID d = ws" "d_IdempotencyKey d = key" "scanDelivery d = d"
      using row_key by blast+
    then obtain d' where d': "mark n d = Inr d'" "scanDelivery d' = d'" "same_planning d d'" "P d'"
      using assms by blast
    have "valid (at ws key R L (Some d)) (ds_Update (sp_Deliveries h) d')
       (\<lambda>_. at ws key R L (Some d')) (\<lambda>e s. at ws key R L (Some d) s \<and> \<not> provider_error e)"
      using rk d' by (intro update_at) (simp_all add: same_planning_def)
    then show "valid (at ws key R L (Some d))
       (bindE (reminder_result (mark n d)) (\<lambda>d'. ds_Update (sp_Deliveries h) d'))
       (\<lambda>_ s. \<exists>d'. at ws key R L (Some d') s \<and> same_planning d d' \<and> P d')
       (\<lambda>e s. at ws key R L (Some d) s \<and> \<not> provider_error e)"
      unfolding d'(1) reminder_result_def map_sum.simps id_apply
      by (intro valid_bindE [where R = "\<lambda>x s. x = d' \<and> at ws key R L (Some d) s"]
          valid_pre [OF valid_ret])
        (auto simp: valid_def d' split: sum.splits)
  qed
qed

lemma deadLetter_at:
  assumes "d_State d = StateSending"
  shows "valid (at ws key R L (Some d)) (deadLetter h d code)
     (\<lambda>_ s. \<exists>d'. at ws key R L (Some d') s \<and> d_State d' = StateFailed)
     (\<lambda>e s. at ws key R L (Some d) s \<and> \<not> provider_error e)"
  unfolding deadLetter_def
  by (rule valid_weaken [OF mark_update_at [where P = "\<lambda>d. d_State d = StateFailed"]])
    (use MarkFailed_row [OF assms] in auto)

lemma notify_at:
  "valid (at ws key R L r0) (notify h ch m)
     (\<lambda>_. at ws key R (L @ [(ch, m)]) r0)
     (\<lambda>e s. \<exists>l. at ws key R (L @ l) r0 s \<and> (l = [] \<or> l = [(ch, m)]))"
proof (rule validI)
  fix s a s'
  assume at: "at ws key R L r0 s" and run: "notify h ch m s = (Inr a, s')"
  then show "at ws key R (L @ [(ch, m)]) r0 s'"
    using email_sends [of m s "Inr a" s'] sms_sends [of m s "Inr a" s']
    by (auto simp: notify_def split: if_splits)
next
  fix s e s'
  assume at: "at ws key R L r0 s" and run: "notify h ch m s = (Inl e, s')"
  then have "rest s' = R" "row s' ws key = r0" "dinv s'" "log s' = L \<or> log s' = L @ [(ch, m)]"
    using email_sends [of m s "Inl e" s'] sms_sends [of m s "Inl e" s']
    by (auto simp: notify_def split: if_splits)
  then show "\<exists>l. at ws key R (L @ l) r0 s' \<and> (l = [] \<or> l = [(ch, m)])" by auto
qed

abbreviation (input) sent_post where
  "sent_post ws key R L ch m s \<equiv> \<exists>d' l. at ws key R (L @ l) (Some d') s \<and> (l = [] \<or> l = [(ch, m)])
     \<and> ((d_State d' = StateSucceeded \<and> l \<noteq> []) \<or> d_State d' = StateFailed)"

abbreviation (input) sent_error where
  "sent_error ws key R L ch m d req e s \<equiv> \<exists>l. at ws key R (L @ l) (Some d) s
     \<and> (l = [] \<or> l = [(ch, m)])
     \<and> (provider_error e \<longrightarrow> \<not> sr_FinalAttempt req \<and> permanent_code e = None)"

lemma finish_send_at:
  assumes st: "d_State d = StateSending"
  shows "valid (at ws key R L (Some d)) (finish_send h req d m)
     (\<lambda>_. sent_post ws key R L (sr_Channel req) m)
     (sent_error ws key R L (sr_Channel req) m d req)"
  unfolding finish_send_def
proof (rule valid_tryE [OF notify_at], goal_cases)
  case (1 mid)
  show ?case
    by (rule valid_weaken [OF mark_update_at [where P = "\<lambda>d. d_State d = StateSucceeded"]])
      (use MarkSucceeded_row [OF st] in auto)
next
  case (2 e)
  have dead: "valid (\<lambda>s. \<exists>l. at ws key R (L @ l) (Some d) s \<and> (l = [] \<or> l = [(sr_Channel req, m)]))
      (deadLetter h d code) (\<lambda>_. sent_post ws key R L (sr_Channel req) m)
      (sent_error ws key R L (sr_Channel req) m d req)" for code
    by (intro valid_ex valid_const, rule valid_weaken [OF deadLetter_at [OF st]]) auto
  show ?case
  proof (cases "permanent_code e")
    case (Some code)
    show ?thesis unfolding Some option.case by (rule dead)
  next
    case None
    show ?thesis
      unfolding None option.case
    proof (rule valid_if)
      show "valid (\<lambda>s. \<exists>l. at ws key R (L @ l) (Some d) s \<and> (l = [] \<or> l = [(sr_Channel req, m)]))
        (deadLetter h d ''retry_exhausted'') (\<lambda>_. sent_post ws key R L (sr_Channel req) m)
        (sent_error ws key R L (sr_Channel req) m d req)" by (rule dead)
    next
      assume "\<not> sr_FinalAttempt req"
      with None show "valid (\<lambda>s. \<exists>l. at ws key R (L @ l) (Some d) s \<and> (l = [] \<or> l = [(sr_Channel req, m)]))
        (fail e) (\<lambda>_. sent_post ws key R L (sr_Channel req) m)
        (sent_error ws key R L (sr_Channel req) m d req)"
        by (intro valid_pre [OF valid_fail]) blast
    qed
  qed
qed

text \<open>From a row that is not final: sent at most once, and final after a successful return.\<close>

abbreviation (input) run_post where
  "run_post ws key R L ch ep d s \<equiv> \<exists>d' l. at ws key R (L @ l) (Some d') s \<and> one_message ep ch d l
     \<and> (if ce_Usable ep then (d_State d' = StateSucceeded \<and> l \<noteq> []) \<or> d_State d' = StateFailed
        else l = [] \<and> d_State d' = StateSuppressed
            \<and> d_SuppressionReason d' = Some ReasonChannelUnavailable)"

abbreviation (input) run_error where
  "run_error ws key R L ch ep d req e s \<equiv> \<exists>d' l. at ws key R (L @ l) (Some d') s \<and> one_message ep ch d l
     \<and> \<not> IsFinal d'
     \<and> (provider_error e \<longrightarrow> \<not> sr_FinalAttempt req \<and> permanent_code e = None)"

lemma run_error_idle:
  "at ws key R L (Some d') s \<and> \<not> provider_error e \<Longrightarrow> \<not> IsFinal d' \<Longrightarrow> run_error ws key R L ch ep d req e s"
  by (intro exI [of _ d'] exI [of _ "[]"]) (simp add: one_message_def)

lemma channels_at:
  assumes "ep = endR R ws' owner ch" "\<not> IsFinal d'"
  shows "valid (at ws key R L (Some d')) (sp_Channels h ws' owner ch)
     (\<lambda>x s. at ws key R L (Some d') s \<and> x = ep) (run_error ws key R L ch2 ep2 d req)"
proof (rule validI)
  fix s x s'
  assume at: "at ws key R L (Some d') s" and run: "sp_Channels h ws' owner ch s = (Inr x, s')"
  from channel_found [OF run] at assms have "x = ep" by simp
  with channel_frame [OF run] at show "at ws key R L (Some d') s' \<and> x = ep" by simp
next
  fix s e s'
  assume at: "at ws key R L (Some d') s" and run: "sp_Channels h ws' owner ch s = (Inl e, s')"
  show "run_error ws key R L ch2 ep2 d req e s'"
  proof (rule run_error_idle [OF _ assms(2)])
    show "at ws key R L (Some d') s' \<and> \<not> provider_error e"
      using channel_frame [OF run] channel_errors [OF run] at by simp
  qed
qed

lemma resolve_and_send_at:
  assumes ws: "ws = p_WorkspaceID plan"
    and key: "key = IdempotencyKeyFor (p_WorkspaceID plan) (p_TodoID plan) (p_TodoReminderVersion plan) (sr_Channel req)"
    and sd: "same_planning d sd" "d_State sd = StateSending"
    and ep: "ep = endR R (sr_WorkspaceID req) (sr_OwnerUserID req) (sr_Channel req)"
  shows "valid (at ws key R L (Some sd)) (resolve_and_send h plan key req sd)
     (\<lambda>_. run_post ws key R L (sr_Channel req) ep d)
     (run_error ws key R L (sr_Channel req) ep d req)"
proof -
  have nf: "\<not> IsFinal sd" using sd(2) by (simp add: IsFinal_def)
  have chan: "valid (at ws key R L (Some sd))
     (suppress h plan key req ReasonChannelUnavailable (d_TodoTitleSnapshot sd))
     (\<lambda>_. run_post ws key R L (sr_Channel req) ep d)
     (run_error ws key R L (sr_Channel req) ep d req)" if u: "\<not> ce_Usable ep"
  proof (rule valid_weaken [OF suppress_at [OF ws key]])
    show "SuppressionReason_of (string_of_reason ReasonChannelUnavailable) = ReasonChannelUnavailable"
      by (simp add: SuppressionReason_of_def)
  next
    fix a s
    assume "\<exists>d. at ws key R L (Some d) s \<and> suppressed_post ReasonChannelUnavailable (Some sd) d"
    then obtain d' where "at ws key R L (Some d') s" "d_State d' = StateSuppressed"
      "d_SuppressionReason d' = Some ReasonChannelUnavailable"
      using nf by (auto simp: final_row_def)
    with u show "run_post ws key R L (sr_Channel req) ep d s"
      by (intro exI [of _ d'] exI [of _ "[]"]) (simp add: one_message_def)
  next
    fix e s
    assume "at ws key R L (Some sd) s \<and> \<not> provider_error e"
    then show "run_error ws key R L (sr_Channel req) ep d req e s" using nf by (rule run_error_idle)
  qed
  let ?msg = "\<lparr>m_To = ce_Address ep, m_TodoID = d_TodoID sd,
        m_Title = d_TodoTitleSnapshot sd, m_ScheduledAtUTC = d_ScheduledAt sd\<rparr>"
  have one: "(l = [] \<or> l = [(sr_Channel req, ?msg)]) \<Longrightarrow> ce_Usable ep \<Longrightarrow>
      one_message ep (sr_Channel req) d l" for l
    using sd(1) by (auto simp: one_message_def same_planning_def)
  have send: "valid (at ws key R L (Some sd)) (finish_send h req sd ?msg)
     (\<lambda>_. run_post ws key R L (sr_Channel req) ep d)
     (run_error ws key R L (sr_Channel req) ep d req)" if u: "ce_Usable ep"
  proof (rule valid_weaken [OF finish_send_at [OF sd(2)]])
    fix a s
    assume "sent_post ws key R L (sr_Channel req) ?msg s"
    with one u show "run_post ws key R L (sr_Channel req) ep d s" by (simp only: if_True) blast
  next
    fix e s
    assume "sent_error ws key R L (sr_Channel req) ?msg sd req e s"
    with one u nf show "run_error ws key R L (sr_Channel req) ep d req e s" by blast
  qed
  show ?thesis
    unfolding resolve_and_send_def
  proof (rule valid_bindE [OF channels_at [OF ep nf]], rule valid_const)
    fix x
    assume x: "x = ep"
    show "valid (at ws key R L (Some sd)) (if \<not> ce_Usable x
       then suppress h plan key req ReasonChannelUnavailable (d_TodoTitleSnapshot sd)
       else finish_send h req sd \<lparr>m_To = ce_Address x, m_TodoID = d_TodoID sd,
        m_Title = d_TodoTitleSnapshot sd, m_ScheduledAtUTC = d_ScheduledAt sd\<rparr>)
     (\<lambda>_. run_post ws key R L (sr_Channel req) ep d)
     (run_error ws key R L (sr_Channel req) ep d req)"
      unfolding x using chan send by (cases "ce_Usable ep") simp_all
  qed
qed

lemma send_row_at:
  assumes ws: "ws = p_WorkspaceID plan"
    and key: "key = IdempotencyKeyFor (p_WorkspaceID plan) (p_TodoID plan) (p_TodoReminderVersion plan) (sr_Channel req)"
    and nf: "\<not> IsFinal d"
    and ep: "ep = endR R (sr_WorkspaceID req) (sr_OwnerUserID req) (sr_Channel req)"
  shows "valid (at ws key R L (Some d)) (send_row h plan key req d)
     (\<lambda>_. run_post ws key R L (sr_Channel req) ep d)
     (run_error ws key R L (sr_Channel req) ep d req)"
proof (rule valid_given)
  fix s0
  assume "at ws key R L (Some d) s0"
  then have rk: "scanDelivery d = d" "d_WorkspaceID d = ws" "d_IdempotencyKey d = key"
    using row_key by blast+
  show "valid (at ws key R L (Some d)) (send_row h plan key req d)
     (\<lambda>_. run_post ws key R L (sr_Channel req) ep d)
     (run_error ws key R L (sr_Channel req) ep d req)"
    unfolding send_row_def
  proof (rule valid_bindA [where R = "\<lambda>_. at ws key R L (Some d)"], rule now_at, assumption)
    fix n
    obtain sd where sd: "MarkSending n d = Inr sd" "scanDelivery sd = sd" "same_planning d sd"
      "d_State sd = StateSending"
      using MarkSending_row [OF nf rk(1)] by blast
    then have sk: "d_WorkspaceID sd = ws" "d_IdempotencyKey sd = key"
      using rk by (simp_all add: same_planning_def)
    have upd: "valid (at ws key R L (Some d)) (ds_Update (sp_Deliveries h) sd)
      (\<lambda>_. at ws key R L (Some sd)) (run_error ws key R L (sr_Channel req) ep d req)"
    proof (rule valid_weaken [OF update_at [OF sk sd(2,3)]])
      fix e s
      assume "at ws key R L (Some d) s \<and> \<not> provider_error e"
      then show "run_error ws key R L (sr_Channel req) ep d req e s" using nf by (rule run_error_idle)
    qed
    show "valid (at ws key R L (Some d)) (bindE (reminder_result (MarkSending n d)) (\<lambda>sending.
       bindE (ds_Update (sp_Deliveries h) sending) (\<lambda>_. resolve_and_send h plan key req sending)))
     (\<lambda>_. run_post ws key R L (sr_Channel req) ep d)
     (run_error ws key R L (sr_Channel req) ep d req)"
      unfolding sd(1) reminder_result_def map_sum.simps id_apply
    proof (rule valid_bindE [where R = "\<lambda>x s. at ws key R L (Some d) s \<and> x = sd"])
      show "valid (at ws key R L (Some d)) (ret (Inr sd)) (\<lambda>x s. at ws key R L (Some d) s \<and> x = sd)
        (run_error ws key R L (sr_Channel req) ep d req)"
        by (rule valid_pre [OF valid_ret]) simp
    qed (rule valid_const, simp only:,
         rule valid_bindE [OF upd resolve_and_send_at [OF ws key sd(3,4) ep]])
  qed
qed

abbreviation (input) loaded_post where
  "loaded_post ws key R L ch ep plan title r0 s \<equiv>
     (if final_row r0 then at ws key R L r0 s
      else \<exists>d. base_row plan title r0 d \<and> run_post ws key R L ch ep d s)"

abbreviation (input) loaded_error where
  "loaded_error ws key R L ch ep plan title r0 req e s \<equiv>
     (at ws key R L r0 s \<and> \<not> provider_error e)
     \<or> (\<not> final_row r0 \<and> (\<exists>d. base_row plan title r0 d \<and> run_error ws key R L ch ep d req e s))"

lemma send_created_at:
  assumes ws: "ws = p_WorkspaceID plan"
    and key: "key = IdempotencyKeyFor (p_WorkspaceID plan) (p_TodoID plan) (p_TodoReminderVersion plan) (sr_Channel req)"
    and ep: "ep = endR R (sr_WorkspaceID req) (sr_OwnerUserID req) (sr_Channel req)"
    and d: "scanDelivery d = d" "d_WorkspaceID d = ws" "d_IdempotencyKey d = key" "\<not> IsFinal d"
    and base: "base_row plan title None d"
  shows "valid (at ws key R L None) (send_created h plan key req d)
     (\<lambda>_. loaded_post ws key R L (sr_Channel req) ep plan title None)
     (loaded_error ws key R L (sr_Channel req) ep plan title None req)"
  unfolding send_created_def
proof (rule valid_tryE [OF save_at [OF d(2,3,1)]])
  show "valid (at ws key R L (Some d)) (send_row h plan key req d)
     (\<lambda>_. loaded_post ws key R L (sr_Channel req) ep plan title None)
     (loaded_error ws key R L (sr_Channel req) ep plan title None req)"
  proof (rule valid_weaken [OF send_row_at [OF ws key d(4) ep]])
    fix a s
    assume "run_post ws key R L (sr_Channel req) ep d s"
    with base show "loaded_post ws key R L (sr_Channel req) ep plan title None s"
      by (simp only: final_row_def option.case if_False) blast
  next
    fix e s
    assume "run_error ws key R L (sr_Channel req) ep d req e s"
    with base show "loaded_error ws key R L (sr_Channel req) ep plan title None req e s"
      by (simp only: final_row_def option.case) blast
  qed
next
  fix e
  show "valid (\<lambda>s. at ws key R L None s \<and> \<not> provider_error e)
     (if e \<noteq> ReminderErr ErrDeliveryExists then fail e
      else bindE (ds_ByIdempotencyKey (sp_Deliveries h) (p_WorkspaceID plan) key) (\<lambda>other.
        if IsFinal other then ok () else send_row h plan key req other))
     (\<lambda>_. loaded_post ws key R L (sr_Channel req) ep plan title None)
     (loaded_error ws key R L (sr_Channel req) ep plan title None req)"
  proof (rule valid_if)
    show "valid (\<lambda>s. at ws key R L None s \<and> \<not> provider_error e) (fail e)
       (\<lambda>_. loaded_post ws key R L (sr_Channel req) ep plan title None)
       (loaded_error ws key R L (sr_Channel req) ep plan title None req)"
      by (rule valid_pre [OF valid_fail]) (rule disjI1)
    show "valid (\<lambda>s. at ws key R L None s \<and> \<not> provider_error e)
       (bindE (ds_ByIdempotencyKey (sp_Deliveries h) (p_WorkspaceID plan) key) (\<lambda>other.
        if IsFinal other then ok () else send_row h plan key req other))
       (\<lambda>_. loaded_post ws key R L (sr_Channel req) ep plan title None)
       (loaded_error ws key R L (sr_Channel req) ep plan title None req)"
      unfolding ws [symmetric]
    proof (rule valid_bindE [where R = "\<lambda>_ _. False"])
      show "valid (\<lambda>s. at ws key R L None s \<and> \<not> provider_error e)
         (ds_ByIdempotencyKey (sp_Deliveries h) ws key) (\<lambda>_ _. False)
         (loaded_error ws key R L (sr_Channel req) ep plan title None req)"
        by (rule valid_weaken [OF bykey_at]) auto
    qed (simp add: valid_vacuous)
  qed
qed

lemma send_loaded_at:
  assumes ws: "ws = p_WorkspaceID plan"
    and key: "key = IdempotencyKeyFor (p_WorkspaceID plan) (p_TodoID plan) (p_TodoReminderVersion plan) (sr_Channel req)"
    and ep: "ep = endR R (sr_WorkspaceID req) (sr_OwnerUserID req) (sr_Channel req)"
  shows "valid (at ws key R L r0) (send_loaded h plan key req title)
     (\<lambda>_. loaded_post ws key R L (sr_Channel req) ep plan title r0)
     (loaded_error ws key R L (sr_Channel req) ep plan title r0 req)"
  unfolding send_loaded_def
proof (rule valid_bindE [OF valid_weaken [OF load_at [OF ws key]]], assumption, assumption, rule disjI1, assumption, goal_cases)
  case (1 p)
  obtain d created where p: "p = (d, created)" by (cases p)
  show ?case
    unfolding p prod.case
  proof (rule valid_given, goal_cases)
    case (1 s)
    consider "IsFinal d" "r0 = Some d" | "\<not> IsFinal d" "\<not> created" "r0 = Some d"
      | "\<not> IsFinal d" "created" "r0 = None" "scanDelivery d = d" "d_WorkspaceID d = ws"
        "d_IdempotencyKey d = key" "base_row plan title None d"
      using 1 by (auto simp: base_row_def split: if_splits)
    then show ?case
    proof cases
      case 1
      then have "final_row r0" by (simp add: final_row_def)
      then show ?thesis
        unfolding if_P [OF 1(1)] by (intro valid_pre [OF valid_ok]) simp
    next
      case 2
      then have nfr: "\<not> final_row r0" by (simp add: final_row_def)
      have base: "base_row plan title r0 d" using 2(3) by (simp add: base_row_def)
      show ?thesis
        unfolding if_not_P [OF 2(1)] if_not_P [OF 2(2)] if_not_P [OF nfr]
      proof (rule valid_weaken [OF send_row_at [OF ws key 2(1) ep]])
        fix a s
        assume "run_post ws key R L (sr_Channel req) ep d s"
        with base show "\<exists>d. base_row plan title r0 d \<and> run_post ws key R L (sr_Channel req) ep d s"
          by blast
      next
        fix e s
        assume "run_error ws key R L (sr_Channel req) ep d req e s"
        with base nfr show "loaded_error ws key R L (sr_Channel req) ep plan title r0 req e s" by blast
      qed (simp add: 2(3))
    next
      case 3
      show ?thesis
        unfolding if_not_P [OF 3(1)] if_P [OF 3(2)] 3(3)
        by (rule valid_pre [OF send_created_at [OF ws key ep 3(4-6) 3(1) 3(7)]]) simp
    qed
  qed
qed

abbreviation (input) plan_post where
  "plan_post ws key R L ch ep plan todo r0 s \<equiv>
     \<exists>d' l. at ws key R (L @ l) (Some d') s \<and> send_outcome plan todo ep ch r0 d' l"

abbreviation (input) plan_error where
  "plan_error ws key R L ch ep plan todo r0 req e s \<equiv>
     \<exists>r1 l. at ws key R (L @ l) r1 s \<and> (final_row r0 \<longrightarrow> r1 = r0 \<and> l = [])
       \<and> (l \<noteq> [] \<longrightarrow> send_reason plan todo = None
            \<and> (\<exists>d. base_row plan (tv_Title (the todo)) r0 d \<and> one_message ep ch d l))
       \<and> (provider_error e \<longrightarrow> \<not> sr_FinalAttempt req \<and> permanent_code e = None)"

lemma suppress_plan_at:
  assumes ws: "ws = p_WorkspaceID plan"
    and key: "key = IdempotencyKeyFor (p_WorkspaceID plan) (p_TodoID plan) (p_TodoReminderVersion plan) (sr_Channel req)"
    and reason: "send_reason plan todo = Some reason"
  shows "valid (at ws key R L r0) (suppress h plan key req reason title)
     (\<lambda>_. plan_post ws key R L (sr_Channel req) ep plan todo r0)
     (plan_error ws key R L (sr_Channel req) ep plan todo r0 req)"
proof (rule valid_weaken [OF suppress_at [OF ws key]])
  show "SuppressionReason_of (string_of_reason reason) = reason"
    using reason by (auto simp: send_reason_def SuppressionReason_of_def split: if_splits option.splits)
next
  fix a s
  assume "\<exists>d. at ws key R L (Some d) s \<and> suppressed_post reason r0 d"
  then obtain d where "at ws key R L (Some d) s" "suppressed_post reason r0 d" by blast
  with reason show "plan_post ws key R L (sr_Channel req) ep plan todo r0 s"
    by (intro exI [of _ d] exI [of _ "[]"]) (simp add: send_outcome_def split: if_splits)
next
  fix e s
  assume "at ws key R L r0 s \<and> \<not> provider_error e"
  then show "plan_error ws key R L (sr_Channel req) ep plan todo r0 req e s"
    by (intro exI [of _ r0] exI [of _ "[]"]) simp
qed

lemma loaded_plan_at:
  assumes ws: "ws = p_WorkspaceID plan"
    and key: "key = IdempotencyKeyFor (p_WorkspaceID plan) (p_TodoID plan) (p_TodoReminderVersion plan) (sr_Channel req)"
    and ep: "ep = endR R (sr_WorkspaceID req) (sr_OwnerUserID req) (sr_Channel req)"
    and none: "send_reason plan (Some todo) = None"
  shows "valid (at ws key R L r0) (send_loaded h plan key req (tv_Title todo))
     (\<lambda>_. plan_post ws key R L (sr_Channel req) ep plan (Some todo) r0)
     (plan_error ws key R L (sr_Channel req) ep plan (Some todo) r0 req)"
proof (rule valid_weaken [OF send_loaded_at [OF ws key ep]])
  fix a s
  assume post: "loaded_post ws key R L (sr_Channel req) ep plan (tv_Title todo) r0 s"
  show "plan_post ws key R L (sr_Channel req) ep plan (Some todo) r0 s"
  proof (cases "final_row r0")
    case True
    then obtain d where d: "r0 = Some d" by (auto simp: final_row_def split: option.splits)
    with True post show ?thesis
      by (intro exI [of _ d] exI [of _ "[]"]) (simp add: send_outcome_def)
  next
    case False
    with post obtain d d' l where b: "base_row plan (tv_Title todo) r0 d"
      "one_message ep (sr_Channel req) d l"
      and a: "at ws key R (L @ l) (Some d') s"
      and o: "if ce_Usable ep then (d_State d' = StateSucceeded \<and> l \<noteq> []) \<or> d_State d' = StateFailed
        else l = [] \<and> d_State d' = StateSuppressed
            \<and> d_SuppressionReason d' = Some ReasonChannelUnavailable"
      by auto
    then have "send_outcome plan (Some todo) ep (sr_Channel req) r0 d' l"
      using False none by (auto simp: send_outcome_def)
    with a show ?thesis by blast
  qed
next
  fix e s
  assume err: "loaded_error ws key R L (sr_Channel req) ep plan (tv_Title todo) r0 req e s"
  then show "plan_error ws key R L (sr_Channel req) ep plan (Some todo) r0 req e s"
  proof (elim disjE)
    assume "at ws key R L r0 s \<and> \<not> provider_error e"
    then show ?thesis by (intro exI [of _ r0] exI [of _ "[]"]) simp
  next
    assume "\<not> final_row r0 \<and> (\<exists>d. base_row plan (tv_Title todo) r0 d \<and>
      run_error ws key R L (sr_Channel req) ep d req e s)"
    then obtain d d' l where "\<not> final_row r0" "base_row plan (tv_Title todo) r0 d"
      "at ws key R (L @ l) (Some d') s" "one_message ep (sr_Channel req) d l"
      "provider_error e \<longrightarrow> \<not> sr_FinalAttempt req \<and> permanent_code e = None"
      by blast
    with none show ?thesis
      by (intro exI [of _ "Some d'"] exI [of _ l]) auto
  qed
qed

lemma send_plan_at:
  assumes ws: "ws = p_WorkspaceID plan"
    and key: "key = IdempotencyKeyFor (p_WorkspaceID plan) (p_TodoID plan) (p_TodoReminderVersion plan) (sr_Channel req)"
    and ep: "ep = endR R (sr_WorkspaceID req) (sr_OwnerUserID req) (sr_Channel req)"
    and todo: "todo = todoR R (sr_WorkspaceID req) (sr_OwnerUserID req) (p_TodoID plan)"
  shows "valid (at ws key R L r0) (send_plan h req plan)
     (\<lambda>_. plan_post ws key R L (sr_Channel req) ep plan todo r0)
     (plan_error ws key R L (sr_Channel req) ep plan todo r0 req)"
  unfolding send_plan_def Let_def key [symmetric]
proof (rule valid_if)
  assume "IsRevoked plan"
  then show "valid (at ws key R L r0) (suppress h plan key req ReasonPlanRevoked fallbackTitle)
     (\<lambda>_. plan_post ws key R L (sr_Channel req) ep plan todo r0)
     (plan_error ws key R L (sr_Channel req) ep plan todo r0 req)"
    by (intro suppress_plan_at [OF ws key]) (simp add: send_reason_def)
next
  assume live: "\<not> IsRevoked plan"
  let ?get = "sp_Todos h (sr_WorkspaceID req) (sr_OwnerUserID req) (p_TodoID plan)"
  have get: "valid (at ws key R L r0) ?get (\<lambda>t s. at ws key R L r0 s \<and> todo = Some t)
     (\<lambda>e s. (at ws key R L r0 s \<and> \<not> provider_error e)
        \<and> (e = ReminderPortErr ports_ErrTodoNotFound \<longrightarrow> todo = None))"
  proof (rule validI)
    fix s t s'
    assume "at ws key R L r0 s" and "?get s = (Inr t, s')"
    then show "at ws key R L r0 s' \<and> todo = Some t"
      using todo_frame todo_found todo by metis
  next
    fix s e s'
    assume a: "at ws key R L r0 s" and r: "?get s = (Inl e, s')"
    then have "at ws key R L r0 s'" using todo_frame by metis
    with a r show "(at ws key R L r0 s' \<and> \<not> provider_error e)
        \<and> (e = ReminderPortErr ports_ErrTodoNotFound \<longrightarrow> todo = None)"
      using todo_missing todo_errors todo by metis
  qed
  show "valid (at ws key R L r0) (tryE ?get
        (\<lambda>todo.
           if tv_Status todo = ''deleted''
           then suppress h plan key req ReasonTodoDeleted (tv_Title todo)
           else if tv_Status todo = ''completed''
           then suppress h plan key req ReasonTodoCompleted (tv_Title todo)
           else if tv_ReminderVersion todo \<noteq> p_TodoReminderVersion plan
           then suppress h plan key req ReasonVersionStale (tv_Title todo)
           else send_loaded h plan key req (tv_Title todo))
        (\<lambda>e. if e = ReminderPortErr ports_ErrTodoNotFound
             then suppress h plan key req ReasonTodoDeleted fallbackTitle
             else fail e))
     (\<lambda>_. plan_post ws key R L (sr_Channel req) ep plan todo r0)
     (plan_error ws key R L (sr_Channel req) ep plan todo r0 req)"
  proof (rule valid_tryE [OF get], rule valid_const, goal_cases)
    case (1 t)
    show ?case
    proof (intro valid_if)
      assume "tv_Status t = ''deleted''"
      then show "valid (at ws key R L r0) (suppress h plan key req ReasonTodoDeleted (tv_Title t))
        (\<lambda>_. plan_post ws key R L (sr_Channel req) ep plan todo r0)
        (plan_error ws key R L (sr_Channel req) ep plan todo r0 req)"
        using live 1 by (intro suppress_plan_at [OF ws key]) (simp add: send_reason_def)
    next
      assume "tv_Status t \<noteq> ''deleted''" "tv_Status t = ''completed''"
      then show "valid (at ws key R L r0) (suppress h plan key req ReasonTodoCompleted (tv_Title t))
        (\<lambda>_. plan_post ws key R L (sr_Channel req) ep plan todo r0)
        (plan_error ws key R L (sr_Channel req) ep plan todo r0 req)"
        using live 1 by (intro suppress_plan_at [OF ws key]) (simp add: send_reason_def)
    next
      assume "tv_Status t \<noteq> ''deleted''" "tv_Status t \<noteq> ''completed''"
        "tv_ReminderVersion t \<noteq> p_TodoReminderVersion plan"
      then show "valid (at ws key R L r0) (suppress h plan key req ReasonVersionStale (tv_Title t))
        (\<lambda>_. plan_post ws key R L (sr_Channel req) ep plan todo r0)
        (plan_error ws key R L (sr_Channel req) ep plan todo r0 req)"
        using live 1 by (intro suppress_plan_at [OF ws key]) (simp add: send_reason_def)
    next
      assume "tv_Status t \<noteq> ''deleted''" "tv_Status t \<noteq> ''completed''"
        "\<not> tv_ReminderVersion t \<noteq> p_TodoReminderVersion plan"
      then have "send_reason plan (Some t) = None" using live by (simp add: send_reason_def)
      then show "valid (at ws key R L r0) (send_loaded h plan key req (tv_Title t))
        (\<lambda>_. plan_post ws key R L (sr_Channel req) ep plan todo r0)
        (plan_error ws key R L (sr_Channel req) ep plan todo r0 req)"
        unfolding 1 by (rule loaded_plan_at [OF ws key ep])
    qed
  next
    case (2 e)
    show ?case
    proof (intro valid_if)
      assume e: "e = ReminderPortErr ports_ErrTodoNotFound"
      show "valid (\<lambda>s. (at ws key R L r0 s \<and> \<not> provider_error e)
        \<and> (e = ReminderPortErr ports_ErrTodoNotFound \<longrightarrow> todo = None))
        (suppress h plan key req ReasonTodoDeleted fallbackTitle)
        (\<lambda>_. plan_post ws key R L (sr_Channel req) ep plan todo r0)
        (plan_error ws key R L (sr_Channel req) ep plan todo r0 req)"
      proof (rule valid_const)
        assume "e = ReminderPortErr ports_ErrTodoNotFound \<longrightarrow> todo = None"
        then have "send_reason plan todo = Some ReasonTodoDeleted"
          using e live by (simp add: send_reason_def)
        then show "valid (\<lambda>s. at ws key R L r0 s \<and> \<not> provider_error e)
          (suppress h plan key req ReasonTodoDeleted fallbackTitle)
          (\<lambda>_. plan_post ws key R L (sr_Channel req) ep plan todo r0)
          (plan_error ws key R L (sr_Channel req) ep plan todo r0 req)"
          by (rule valid_pre [OF suppress_plan_at [OF ws key]]) simp
      qed
    next
      show "valid (\<lambda>s. (at ws key R L r0 s \<and> \<not> provider_error e)
        \<and> (e = ReminderPortErr ports_ErrTodoNotFound \<longrightarrow> todo = None)) (fail e)
        (\<lambda>_. plan_post ws key R L (sr_Channel req) ep plan todo r0)
        (plan_error ws key R L (sr_Channel req) ep plan todo r0 req)"
        by (rule valid_pre [OF valid_fail], intro exI [of _ r0] exI [of _ "[]"]) simp
    qed
  qed
qed

lemma send_via_plan:
  assumes inv: "dinv s" and run: "SendReminder h req s = (r, s')"
  shows "(\<exists>s1. ps_Get (sp_Plans h) (sr_WorkspaceID req) (sr_PlanID req) s
            = (Inl (ReminderErr ErrPlanNotFound), s1) \<and> r = Inr () \<and> s' = s1)
    \<or> (\<exists>e s1. ps_Get (sp_Plans h) (sr_WorkspaceID req) (sr_PlanID req) s = (Inl e, s1)
            \<and> r = Inl e \<and> s' = s1)
    \<or> (\<exists>plan s1. ps_Get (sp_Plans h) (sr_WorkspaceID req) (sr_PlanID req) s = (Inr plan, s1)
            \<and> send_plan h req plan s1 = (r, s'))"
  using run by (auto simp: SendReminder_def tryE_run split: prod.splits sum.splits if_splits)

text \<open>A successful return: no plan, or a final row with the outcome the decision prescribes.\<close>

lemma send_success:
  assumes inv: "dinv s" and run: "SendReminder h req s = (Inr (), s')"
  shows "dinv s' \<and> rest s' = rest s \<and>
    (case planR (rest s) (sr_WorkspaceID req) (sr_PlanID req) of
       None \<Rightarrow> log s' = log s \<and> row s' = row s
     | Some plan \<Rightarrow>
         \<exists>d' l. row s' (sr_WorkspaceID req) (IdempotencyKeyFor (sr_WorkspaceID req) (p_TodoID plan)
             (p_TodoReminderVersion plan) (sr_Channel req)) = Some d'
           \<and> log s' = log s @ l
           \<and> send_outcome plan (todoR (rest s) (sr_WorkspaceID req) (sr_OwnerUserID req) (p_TodoID plan))
               (endR (rest s) (sr_WorkspaceID req) (sr_OwnerUserID req) (sr_Channel req))
               (sr_Channel req)
               (row s (sr_WorkspaceID req) (IdempotencyKeyFor (sr_WorkspaceID req) (p_TodoID plan)
                  (p_TodoReminderVersion plan) (sr_Channel req))) d' l)"
  using send_via_plan [OF assms]
proof (elim disjE exE conjE)
  fix s1
  assume "ps_Get (sp_Plans h) (sr_WorkspaceID req) (sr_PlanID req) s
      = (Inl (ReminderErr ErrPlanNotFound), s1)" "s' = s1"
  with inv plan_frame plan_missing show ?thesis by auto
next
  fix plan :: ReminderPlan and s1
  let ?key = "IdempotencyKeyFor (p_WorkspaceID plan) (p_TodoID plan) (p_TodoReminderVersion plan) (sr_Channel req)"
  assume get: "ps_Get (sp_Plans h) (sr_WorkspaceID req) (sr_PlanID req) s = (Inr plan, s1)"
    and go: "send_plan h req plan s1 = (Inr (), s')"
  have p: "planR (rest s) (sr_WorkspaceID req) (sr_PlanID req) = Some plan"
    "p_WorkspaceID plan = sr_WorkspaceID req"
    using plan_found [OF get] by auto
  have "at (p_WorkspaceID plan) ?key (rest s) (log s) (row s (p_WorkspaceID plan) ?key) s1"
    using plan_frame [OF get] inv by simp
  from valid_InrD [OF send_plan_at [OF refl refl refl refl] this go]
  show ?thesis using p by auto
qed simp

text \<open>
  An error: nothing the handler reads has changed, and a provider's error comes back only when
  it is transient and not the last attempt.
\<close>

lemma send_failure:
  assumes inv: "dinv s" and run: "SendReminder h req s = (Inl e, s')"
  shows "dinv s' \<and> rest s' = rest s
    \<and> (provider_error e \<longrightarrow> \<not> sr_FinalAttempt req \<and> permanent_code e = None)
    \<and> (\<exists>l. log s' = log s @ l \<and> (l \<noteq> [] \<longrightarrow> (\<exists>plan todo d.
          planR (rest s) (sr_WorkspaceID req) (sr_PlanID req) = Some plan
          \<and> todo = todoR (rest s) (sr_WorkspaceID req) (sr_OwnerUserID req) (p_TodoID plan)
          \<and> send_reason plan todo = None
          \<and> \<not> final_row (row s (sr_WorkspaceID req) (IdempotencyKeyFor (sr_WorkspaceID req) (p_TodoID plan)
                (p_TodoReminderVersion plan) (sr_Channel req)))
          \<and> base_row plan (tv_Title (the todo)) (row s (sr_WorkspaceID req)
                (IdempotencyKeyFor (sr_WorkspaceID req) (p_TodoID plan)
                (p_TodoReminderVersion plan) (sr_Channel req))) d
          \<and> one_message (endR (rest s) (sr_WorkspaceID req) (sr_OwnerUserID req) (sr_Channel req))
                (sr_Channel req) d l)))"
  using send_via_plan [OF assms]
proof (elim disjE exE conjE)
  fix x s1
  assume get: "ps_Get (sp_Plans h) (sr_WorkspaceID req) (sr_PlanID req) s = (Inl x, s1)"
    and "Inl e = Inl x" "s' = s1"
  then show ?thesis using inv plan_frame [OF get] plan_errors [OF get] by auto
next
  fix plan :: ReminderPlan and s1
  let ?key = "IdempotencyKeyFor (p_WorkspaceID plan) (p_TodoID plan) (p_TodoReminderVersion plan) (sr_Channel req)"
  assume get: "ps_Get (sp_Plans h) (sr_WorkspaceID req) (sr_PlanID req) s = (Inr plan, s1)"
    and go: "send_plan h req plan s1 = (Inl e, s')"
  have p: "planR (rest s) (sr_WorkspaceID req) (sr_PlanID req) = Some plan"
    "p_WorkspaceID plan = sr_WorkspaceID req"
    using plan_found [OF get] by auto
  have "at (p_WorkspaceID plan) ?key (rest s) (log s) (row s (p_WorkspaceID plan) ?key) s1"
    using plan_frame [OF get] inv by simp
  from valid_InlD [OF send_plan_at [OF refl refl refl refl] this go]
  show ?thesis using p by auto
qed simp

text \<open>
  Whatever the call returns: a message is sent only when the decision is to send and the row is
  not final, it goes to the usable address, and there is at most one.
\<close>

lemma send_message:
  assumes inv: "dinv s" and run: "SendReminder h req s = (r, s')"
  shows "\<exists>l. log s' = log s @ l \<and> (l \<noteq> [] \<longrightarrow> (\<exists>plan todo d.
          planR (rest s) (sr_WorkspaceID req) (sr_PlanID req) = Some plan
          \<and> todo = todoR (rest s) (sr_WorkspaceID req) (sr_OwnerUserID req) (p_TodoID plan)
          \<and> send_reason plan todo = None
          \<and> \<not> final_row (row s (sr_WorkspaceID req) (IdempotencyKeyFor (sr_WorkspaceID req) (p_TodoID plan)
                (p_TodoReminderVersion plan) (sr_Channel req)))
          \<and> base_row plan (tv_Title (the todo)) (row s (sr_WorkspaceID req)
                (IdempotencyKeyFor (sr_WorkspaceID req) (p_TodoID plan)
                (p_TodoReminderVersion plan) (sr_Channel req))) d
          \<and> one_message (endR (rest s) (sr_WorkspaceID req) (sr_OwnerUserID req) (sr_Channel req))
                (sr_Channel req) d l))"
proof (cases r)
  case (Inl e)
  then have "SendReminder h req s = (Inl e, s')" using run by simp
  from send_failure [OF inv this] show ?thesis by blast
next
  case (Inr u)
  then have "SendReminder h req s = (Inr (), s')" using run by simp
  note ok = send_success [OF inv this]
  show ?thesis
  proof (cases "planR (rest s) (sr_WorkspaceID req) (sr_PlanID req)")
    case None
    with ok show ?thesis by (intro exI [of _ "[]"]) simp
  next
    case (Some plan)
    with ok show ?thesis
      by (auto simp: send_outcome_def split: if_splits option.splits)
  qed
qed

text \<open>A final row is never sent again, whatever the call returns.\<close>

lemma send_final_silent:
  assumes inv: "dinv s" and run: "SendReminder h req s = (r, s')"
    and plan: "planR (rest s) (sr_WorkspaceID req) (sr_PlanID req) = Some plan"
    and final: "row s (sr_WorkspaceID req) (IdempotencyKeyFor (sr_WorkspaceID req) (p_TodoID plan)
      (p_TodoReminderVersion plan) (sr_Channel req)) = Some d" "IsFinal d"
  shows "log s' = log s"
proof -
  have fr: "final_row (Some d)" using final(2) by (simp add: final_row_def)
  from send_message [OF inv run] plan final(1) fr show ?thesis by auto
qed

text \<open>After one successful run, a second run of the same job sends nothing.\<close>

lemma send_twice:
  assumes inv: "dinv s" and first: "SendReminder h req s = (Inr (), s1)"
    and second: "SendReminder h req s1 = (r, s2)"
  shows "log s2 = log s1"
proof (cases "planR (rest s) (sr_WorkspaceID req) (sr_PlanID req)")
  case None
  have s1: "dinv s1" "rest s1 = rest s" using send_success [OF inv first] by auto
  from send_via_plan [OF s1(1) second] show ?thesis
  proof (elim disjE exE conjE)
    fix plan :: ReminderPlan and s3
    assume "ps_Get (sp_Plans h) (sr_WorkspaceID req) (sr_PlanID req) s1 = (Inr plan, s3)"
    with None s1(2) show ?thesis using plan_found by fastforce
  qed (use plan_frame in fastforce)+
next
  case (Some plan)
  have s1: "dinv s1" "rest s1 = rest s" using send_success [OF inv first] by auto
  let ?key = "IdempotencyKeyFor (sr_WorkspaceID req) (p_TodoID plan) (p_TodoReminderVersion plan) (sr_Channel req)"
  obtain d' l where d': "row s1 (sr_WorkspaceID req) ?key = Some d'"
    and out: "send_outcome plan (todoR (rest s) (sr_WorkspaceID req) (sr_OwnerUserID req) (p_TodoID plan))
               (endR (rest s) (sr_WorkspaceID req) (sr_OwnerUserID req) (sr_Channel req))
               (sr_Channel req) (row s (sr_WorkspaceID req) ?key) d' l"
    using send_success [OF inv first] Some by auto
  have "IsFinal d'"
    using out
    by (auto simp: send_outcome_def final_row_def IsFinal_def split: if_splits option.splits)
  with s1 Some d' second show ?thesis
    using send_final_silent [of s1 req r s2 plan d'] by simp
qed

end

end
