(* ===== verification/Identity_Domain.thy ===== *)
theory Identity_Domain
  imports Prelude
begin

text \<open>
  The Identity aggregates and value objects (\<open>identity/domain\<close>): phone numbers, email
  addresses, codes, login identifiers, login challenges, sessions, contact channels. The
  regular expressions are written out as predicates on bytes (every byte of a multi-byte rune
  is outside the ASCII classes they name). \<open>strings.ToLower\<close>, which needs the Unicode tables,
  and SHA-256 are parameters.
\<close>

section \<open>Value objects\<close>

text \<open>The class \<open>\s\<close>: tab, newline, form feed, carriage return, space.\<close>

definition is_space :: "char \<Rightarrow> bool" where
  "is_space c \<longleftrightarrow> byte c \<in> {9, 10, 12, 13, 32}"

text \<open>\<open>^\+?[1-9][0-9]{6,14}$\<close>\<close>

definition phonePattern :: "string \<Rightarrow> bool" where
  "phonePattern s =
     (case (case s of c # cs \<Rightarrow> if c = CHR ''+'' then cs else s | [] \<Rightarrow> s) of
        [] \<Rightarrow> False
      | c # cs \<Rightarrow> is_digit c \<and> c \<noteq> CHR ''0'' \<and> 6 \<le> length cs \<and> length cs \<le> 14
                 \<and> list_all is_digit cs)"

text \<open>
  \<open>^[^@\s]+@[^@\s]+\.[^@\s]+$\<close>: one at sign, a non-empty local part, and a dot inside the domain.
\<close>

definition emailPattern :: "string \<Rightarrow> bool" where
  "emailPattern s =
     (list_all (\<lambda>c. \<not> is_space c) s \<and>
      (case dropWhile (\<lambda>c. c \<noteq> CHR ''@'') s of
         [] \<Rightarrow> False
       | _ # host \<Rightarrow>
           takeWhile (\<lambda>c. c \<noteq> CHR ''@'') s \<noteq> [] \<and> CHR ''@'' \<notin> set host
           \<and> CHR ''.'' \<in> set (butlast (tl host))))"

text \<open>\<open>^[0-9]{6}$\<close>\<close>

definition codePattern :: "string \<Rightarrow> bool" where
  "codePattern s \<longleftrightarrow> length s = 6 \<and> list_all is_digit s"

definition NewPhone :: "string \<Rightarrow> identity_error + string" where
  "NewPhone value = (if phonePattern value then Inr value else Inl ErrInvalidPhone)"

definition NewEmail :: "(string \<Rightarrow> string) \<Rightarrow> string \<Rightarrow> identity_error + string" where
  "NewEmail ToLower value =
     (if emailPattern value then Inr (ToLower value) else Inl ErrInvalidEmail)"

definition NewCode :: "string \<Rightarrow> identity_error + string" where
  "NewCode value = (if codePattern value then Inr value else Inl ErrInvalidCode)"

record LoginIdentifier =
  li_Phone :: string
  li_Email :: string

definition NewLoginIdentifier ::
    "(string \<Rightarrow> string) \<Rightarrow> string \<Rightarrow> string \<Rightarrow> identity_error + LoginIdentifier" where
  "NewLoginIdentifier ToLower phone email =
     (if (phone \<noteq> []) = (email \<noteq> []) then Inl ErrIdentifierInvalid
      else if phone \<noteq> [] then
        (case NewPhone phone of Inl e \<Rightarrow> Inl e | Inr p \<Rightarrow> Inr \<lparr>li_Phone = p, li_Email = []\<rparr>)
      else (case NewEmail ToLower email of Inl e \<Rightarrow> Inl e
            | Inr m \<Rightarrow> Inr \<lparr>li_Phone = [], li_Email = m\<rparr>))"

definition li_Value :: "LoginIdentifier \<Rightarrow> string" where
  "li_Value i = (if li_Phone i \<noteq> [] then li_Phone i else li_Email i)"

definition li_Channel :: "LoginIdentifier \<Rightarrow> string" where
  "li_Channel i = (if li_Phone i \<noteq> [] then ''sms'' else ''email'')"

lemma NewLoginIdentifier_Inr:
  "NewLoginIdentifier ToLower phone email = Inr i \<Longrightarrow>
     (phone \<noteq> [] \<and> email = [] \<and> phonePattern phone \<and> i = \<lparr>li_Phone = phone, li_Email = []\<rparr>)
     \<or> (phone = [] \<and> emailPattern email \<and> i = \<lparr>li_Phone = [], li_Email = ToLower email\<rparr>)"
  by (auto simp: NewLoginIdentifier_def NewPhone_def NewEmail_def split: if_splits)

text \<open>A second validation of a validated phone changes nothing.\<close>

lemma phonePattern_nonempty: "phonePattern s \<Longrightarrow> s \<noteq> []"
  by (auto simp: phonePattern_def)

section \<open>Login challenges\<close>

definition MaxVerifyAttempts :: int where "MaxVerifyAttempts = 5"

record LoginChallenge =
  lc_ID :: string
  lc_Phone :: string
  lc_Email :: string
  lc_CodeHash :: string
  lc_CreatedAt :: time
  lc_ExpiresAt :: time
  lc_ConsumedAt :: "time option"
  lc_Attempts :: int

definition lc_IsExpired :: "LoginChallenge \<Rightarrow> time \<Rightarrow> bool" where
  "lc_IsExpired c now \<longleftrightarrow> \<not> now < lc_ExpiresAt c"

definition lc_IsConsumed :: "LoginChallenge \<Rightarrow> bool" where
  "lc_IsConsumed c \<longleftrightarrow> lc_ConsumedAt c \<noteq> None"

definition lc_Consume :: "time \<Rightarrow> LoginChallenge \<Rightarrow> identity_error + LoginChallenge" where
  "lc_Consume now c =
     (if lc_IsConsumed c then Inl ErrChallengeConsumed else Inr (c\<lparr>lc_ConsumedAt := Some now\<rparr>))"

definition lc_Matches :: "LoginChallenge \<Rightarrow> string \<Rightarrow> bool" where
  "lc_Matches c codeHash \<longleftrightarrow> lc_CodeHash c = codeHash"

text \<open>The counter, and whether the challenge is now exhausted.\<close>

definition lc_RegisterFailedAttempt :: "LoginChallenge \<Rightarrow> bool \<times> LoginChallenge" where
  "lc_RegisterFailedAttempt c =
     (let c' = c\<lparr>lc_Attempts := lc_Attempts c + 1\<rparr> in (lc_Attempts c' \<ge> MaxVerifyAttempts, c'))"

section \<open>Sessions, users and workspaces\<close>

record Session =
  se_ID :: string
  se_UserID :: string
  se_WorkspaceID :: string
  se_TokenHash :: string
  se_CreatedAt :: time
  se_ExpiresAt :: time
  se_RevokedAt :: "time option"

definition se_IsExpired :: "Session \<Rightarrow> time \<Rightarrow> bool" where
  "se_IsExpired s now \<longleftrightarrow> \<not> now < se_ExpiresAt s"

definition se_IsRevoked :: "Session \<Rightarrow> bool" where
  "se_IsRevoked s \<longleftrightarrow> se_RevokedAt s \<noteq> None"

definition se_IsActive :: "Session \<Rightarrow> time \<Rightarrow> bool" where
  "se_IsActive s now \<longleftrightarrow> \<not> se_IsRevoked s \<and> \<not> se_IsExpired s now"

definition se_Revoke :: "time \<Rightarrow> Session \<Rightarrow> Session" where
  "se_Revoke now s = (if se_RevokedAt s = None then s\<lparr>se_RevokedAt := Some now\<rparr> else s)"

record User =
  u_ID :: string
  u_WorkspaceID :: string
  u_Phone :: string
  u_Email :: string
  u_CreatedAt :: time

record PersonalWorkspace =
  w_ID :: string
  w_CreatedAt :: time

section \<open>Contact channels\<close>

datatype ChannelKind = ChannelKindEmail | ChannelKindSMS | ChannelKindOther string

fun string_of_kind :: "ChannelKind \<Rightarrow> string" where
  "string_of_kind ChannelKindEmail = ''email''"
| "string_of_kind ChannelKindSMS = ''sms''"
| "string_of_kind (ChannelKindOther s) = s"

definition ChannelKind_of :: "string \<Rightarrow> ChannelKind" where
  "ChannelKind_of s =
     (if s = ''email'' then ChannelKindEmail else if s = ''sms'' then ChannelKindSMS
      else ChannelKindOther s)"

definition NewChannelKind :: "string \<Rightarrow> identity_error + ChannelKind" where
  "NewChannelKind value =
     (let k = ChannelKind_of value in
      if k \<in> {ChannelKindEmail, ChannelKindSMS} then Inr k else Inl ErrInvalidChannelKind)"

record ContactChannel =
  cc_ID :: string
  cc_UserID :: string
  cc_WorkspaceID :: string
  cc_Kind :: ChannelKind
  cc_Address :: string
  cc_Verified :: bool
  cc_Enabled :: bool
  cc_CodeHash :: string
  cc_CodeExpiresAt :: "time option"
  cc_CreatedAt :: time

definition cc_Verify :: "string \<Rightarrow> time \<Rightarrow> ContactChannel \<Rightarrow> identity_error + ContactChannel" where
  "cc_Verify codeHash now c =
     (case cc_CodeExpiresAt c of
        None \<Rightarrow> Inl ErrChannelCodeExpired
      | Some expires \<Rightarrow>
          if \<not> now < expires then Inl ErrChannelCodeExpired
          else if cc_CodeHash c \<noteq> codeHash then Inl ErrInvalidCode
          else Inr (c\<lparr>cc_Verified := True\<rparr>))"

definition cc_SetEnabled :: "bool \<Rightarrow> ContactChannel \<Rightarrow> ContactChannel" where
  "cc_SetEnabled enabled c = c\<lparr>cc_Enabled := enabled\<rparr>"

definition Usable :: "ContactChannel \<Rightarrow> bool" where
  "Usable c \<longleftrightarrow> cc_Verified c \<and> cc_Enabled c"

lemma string_of_ChannelKind_of [simp]: "string_of_kind (ChannelKind_of s) = s"
  by (simp add: ChannelKind_of_def)

lemma cc_Verify_Inr:
  "cc_Verify h now c = Inr c' \<longleftrightarrow>
     (\<exists>e. cc_CodeExpiresAt c = Some e \<and> now < e) \<and> cc_CodeHash c = h \<and> c' = c\<lparr>cc_Verified := True\<rparr>"
  by (auto simp: cc_Verify_def split: option.splits if_splits)

lemma se_Revoke_inactive: "\<not> se_IsActive (se_Revoke now s) t"
  by (simp add: se_Revoke_def se_IsActive_def se_IsRevoked_def)

end
