(* ===== verification/Identity_Store.thy ===== *)
theory Identity_Store
  imports Identity_Domain Database
begin

text \<open>
  The identity ports (\<open>identity/application/ports\<close>) and their PostgreSQL adapters
  (\<open>identity/adapters/outbound/postgres\<close>). The database part is the record of the five
  tables with the constraints of migrations 002 and 009: primary keys, the unique phone, the
  unique lower-cased email, the unique token hash, the unique (user, kind, address), the checks
  and the foreign keys. A null text column is the empty string (\<open>nullIfEmpty\<close>,
  \<open>stringValue\<close>).
\<close>

section \<open>Ports\<close>

record 's UserStore =
  us_Save :: "User \<Rightarrow> ('s, unit) op"
  us_Update :: "User \<Rightarrow> ('s, unit) op"
  us_ByPhone :: "string \<Rightarrow> ('s, User) op"
  us_ByEmail :: "string \<Rightarrow> ('s, User) op"

type_synonym 's WorkspaceStore = "PersonalWorkspace \<Rightarrow> ('s, unit) op"

record 's ChallengeStore =
  cs_Save :: "LoginChallenge \<Rightarrow> ('s, unit) op"
  cs_Update :: "LoginChallenge \<Rightarrow> ('s, unit) op"
  cs_ActiveByPhone :: "string \<Rightarrow> ('s, LoginChallenge) op"
  cs_ActiveByEmail :: "string \<Rightarrow> ('s, LoginChallenge) op"
  cs_CountByPhoneSince :: "string \<Rightarrow> time \<Rightarrow> ('s, int) op"
  cs_CountByEmailSince :: "string \<Rightarrow> time \<Rightarrow> ('s, int) op"

record 's SessionStore =
  ss_Save :: "Session \<Rightarrow> ('s, unit) op"
  ss_Update :: "Session \<Rightarrow> ('s, unit) op"
  ss_ByID :: "string \<Rightarrow> ('s, Session) op"
  ss_ByTokenHash :: "string \<Rightarrow> ('s, Session) op"

text \<open>
  The last two fields are the optional interfaces \<open>ChannelVerificationStore\<close> and
  \<open>ChannelEnabledStore\<close> that the handlers probe with a type assertion.
\<close>

record 's ChannelStore =
  chs_Save :: "ContactChannel \<Rightarrow> ('s, unit) op"
  chs_Update :: "ContactChannel \<Rightarrow> ('s, unit) op"
  chs_ByID :: "string \<Rightarrow> string \<Rightarrow> string \<Rightarrow> ('s, ContactChannel) op"
  chs_ListByUser :: "string \<Rightarrow> string \<Rightarrow> ('s, ContactChannel list) op"
  chs_ByIDForUpdate :: "(string \<Rightarrow> string \<Rightarrow> string \<Rightarrow> ('s, ContactChannel) op) option"
  chs_SetEnabled :: "(string \<Rightarrow> string \<Rightarrow> string \<Rightarrow> bool \<Rightarrow> ('s, ContactChannel) op) option"

record OutboxMessage =
  om_Address :: string
  om_Channel :: string
  om_Purpose :: string
  om_Code :: string

type_synonym 's MessageOutbox = "OutboxMessage \<Rightarrow> ('s, unit) op"

section \<open>The PostgreSQL adapters\<close>

record identity_db =
  idb_users :: "User list"
  idb_workspaces :: "PersonalWorkspace list"
  idb_challenges :: "LoginChallenge list"
  idb_sessions :: "Session list"
  idb_channels :: "ContactChannel list"

text \<open>
  PostgreSQL's \<open>lower\<close> in the unique index is the parameter \<open>lower\<close>; two rows clash on phone
  or email only where the column is not null.
\<close>

definition user_clash :: "(string \<Rightarrow> string) \<Rightarrow> User \<Rightarrow> User \<Rightarrow> bool" where
  "user_clash lower u r \<longleftrightarrow>
     (u_Phone u \<noteq> [] \<and> u_Phone r = u_Phone u)
     \<or> (u_Email u \<noteq> [] \<and> u_Email r \<noteq> [] \<and> lower (u_Email r) = lower (u_Email u))"

definition pg_user_Save :: "(string \<Rightarrow> string) \<Rightarrow> User \<Rightarrow> (identity_db, unit) op" where
  "pg_user_Save lower u db =
     (if u_Phone u = [] \<and> u_Email u = [] then (Inl check_violation, db)
      else if list_ex (\<lambda>r. u_ID r = u_ID u \<or> user_clash lower u r) (idb_users db)
      then (Inl unique_violation, db)
      else if u_WorkspaceID u \<notin> w_ID ` set (idb_workspaces db)
      then (Inl foreign_key_violation, db)
      else (Inr (), db\<lparr>idb_users := idb_users db @ [u]\<rparr>))"

definition pg_user_Update :: "(string \<Rightarrow> string) \<Rightarrow> User \<Rightarrow> (identity_db, unit) op" where
  "pg_user_Update lower u db =
     (if \<not> list_ex (\<lambda>r. u_ID r = u_ID u) (idb_users db) then (Inr (), db)
      else if u_Phone u = [] \<and> u_Email u = [] then (Inl check_violation, db)
      else if list_ex (\<lambda>r. u_ID r \<noteq> u_ID u \<and> user_clash lower u r) (idb_users db)
      then (Inl unique_violation, db)
      else (Inr (), db\<lparr>idb_users := update_where (\<lambda>r. u_ID r = u_ID u)
              (\<lambda>r. r\<lparr>u_Phone := u_Phone u, u_Email := u_Email u\<rparr>) (idb_users db)\<rparr>))"

text \<open>\<open>where phone = $1\<close>: a null column matches no value.\<close>

definition pg_user_ByPhone :: "string \<Rightarrow> (identity_db, User) op" where
  "pg_user_ByPhone phone db =
     (case find (\<lambda>r. u_Phone r \<noteq> [] \<and> u_Phone r = phone) (idb_users db) of
        None \<Rightarrow> (Inl (IdentityErr ErrUserNotFound), db)
      | Some u \<Rightarrow> (Inr u, db))"

definition pg_user_ByEmail :: "string \<Rightarrow> (identity_db, User) op" where
  "pg_user_ByEmail email db =
     (case find (\<lambda>r. u_Email r \<noteq> [] \<and> u_Email r = email) (idb_users db) of
        None \<Rightarrow> (Inl (IdentityErr ErrUserNotFound), db)
      | Some u \<Rightarrow> (Inr u, db))"

definition pg_workspace_Save :: "PersonalWorkspace \<Rightarrow> (identity_db, unit) op" where
  "pg_workspace_Save w db =
     (if w_ID w \<in> w_ID ` set (idb_workspaces db) then (Inl unique_violation, db)
      else (Inr (), db\<lparr>idb_workspaces := idb_workspaces db @ [w]\<rparr>))"

definition pg_challenge_Save :: "LoginChallenge \<Rightarrow> (identity_db, unit) op" where
  "pg_challenge_Save c db =
     (if (lc_Phone c \<noteq> []) = (lc_Email c \<noteq> []) then (Inl check_violation, db)
      else if lc_ID c \<in> lc_ID ` set (idb_challenges db) then (Inl unique_violation, db)
      else (Inr (), db\<lparr>idb_challenges := idb_challenges db @ [c]\<rparr>))"

definition pg_challenge_Update :: "LoginChallenge \<Rightarrow> (identity_db, unit) op" where
  "pg_challenge_Update c db =
     (Inr (), db\<lparr>idb_challenges := update_where (\<lambda>r. lc_ID r = lc_ID c)
        (\<lambda>r. r\<lparr>lc_CodeHash := lc_CodeHash c, lc_ExpiresAt := lc_ExpiresAt c,
               lc_ConsumedAt := lc_ConsumedAt c, lc_Attempts := lc_Attempts c\<rparr>)
        (idb_challenges db)\<rparr>)"

text \<open>\<open>order by (consumed_at is null) desc, created_at desc\<close>.\<close>

definition challenge_before :: "LoginChallenge \<Rightarrow> LoginChallenge \<Rightarrow> bool" where
  "challenge_before a b \<longleftrightarrow>
     (lc_ConsumedAt a = None \<and> lc_ConsumedAt b \<noteq> None)
     \<or> ((lc_ConsumedAt a = None) = (lc_ConsumedAt b = None) \<and> lc_CreatedAt a \<ge> lc_CreatedAt b)"

definition activeByIdentifier :: "(LoginChallenge \<Rightarrow> bool) \<Rightarrow> (identity_db, LoginChallenge) op" where
  "activeByIdentifier matches db =
     (case order_rows challenge_before (filter matches (idb_challenges db)) of
        [] \<Rightarrow> (Inl (IdentityErr ErrChallengeNotFound), db)
      | c # _ \<Rightarrow> (Inr c, db))"

definition pg_challenge_ActiveByPhone :: "string \<Rightarrow> (identity_db, LoginChallenge) op" where
  "pg_challenge_ActiveByPhone phone = activeByIdentifier (\<lambda>c. lc_Phone c \<noteq> [] \<and> lc_Phone c = phone)"

definition pg_challenge_ActiveByEmail :: "string \<Rightarrow> (identity_db, LoginChallenge) op" where
  "pg_challenge_ActiveByEmail email = activeByIdentifier (\<lambda>c. lc_Email c \<noteq> [] \<and> lc_Email c = email)"

definition pg_challenge_CountByPhoneSince :: "string \<Rightarrow> time \<Rightarrow> (identity_db, int) op" where
  "pg_challenge_CountByPhoneSince phone since db =
     (Inr (count_where (\<lambda>c. lc_Phone c \<noteq> [] \<and> lc_Phone c = phone \<and> lc_CreatedAt c \<ge> since)
        (idb_challenges db)), db)"

definition pg_challenge_CountByEmailSince :: "string \<Rightarrow> time \<Rightarrow> (identity_db, int) op" where
  "pg_challenge_CountByEmailSince email since db =
     (Inr (count_where (\<lambda>c. lc_Email c \<noteq> [] \<and> lc_Email c = email \<and> lc_CreatedAt c \<ge> since)
        (idb_challenges db)), db)"

definition pg_session_Save :: "Session \<Rightarrow> (identity_db, unit) op" where
  "pg_session_Save s db =
     (if list_ex (\<lambda>r. se_ID r = se_ID s \<or> se_TokenHash r = se_TokenHash s) (idb_sessions db)
      then (Inl unique_violation, db)
      else if se_UserID s \<notin> u_ID ` set (idb_users db) then (Inl foreign_key_violation, db)
      else (Inr (), db\<lparr>idb_sessions := idb_sessions db @ [s]\<rparr>))"

definition pg_session_Update :: "Session \<Rightarrow> (identity_db, unit) op" where
  "pg_session_Update s db =
     (Inr (), db\<lparr>idb_sessions := update_where (\<lambda>r. se_ID r = se_ID s)
        (\<lambda>r. r\<lparr>se_ExpiresAt := se_ExpiresAt s, se_RevokedAt := se_RevokedAt s\<rparr>)
        (idb_sessions db)\<rparr>)"

definition pg_session_query :: "(Session \<Rightarrow> bool) \<Rightarrow> (identity_db, Session) op" where
  "pg_session_query matches db =
     (case find matches (idb_sessions db) of
        None \<Rightarrow> (Inl (IdentityErr ErrSessionNotFound), db)
      | Some s \<Rightarrow> (Inr s, db))"

definition pg_session_ByID :: "string \<Rightarrow> (identity_db, Session) op" where
  "pg_session_ByID i = pg_session_query (\<lambda>s. se_ID s = i)"

definition pg_session_ByTokenHash :: "string \<Rightarrow> (identity_db, Session) op" where
  "pg_session_ByTokenHash h = pg_session_query (\<lambda>s. se_TokenHash s = h)"

definition pg_channel_Save :: "ContactChannel \<Rightarrow> (identity_db, unit) op" where
  "pg_channel_Save c db =
     (if string_of_kind (cc_Kind c) \<notin> {''email'', ''sms''} then (Inl check_violation, db)
      else if list_ex (\<lambda>r. cc_ID r = cc_ID c \<or> (cc_UserID r = cc_UserID c
             \<and> string_of_kind (cc_Kind r) = string_of_kind (cc_Kind c)
             \<and> cc_Address r = cc_Address c)) (idb_channels db)
      then (Inl (IdentityErr ErrChannelExists), db)
      else if cc_UserID c \<notin> u_ID ` set (idb_users db) then (Inl foreign_key_violation, db)
      else (Inr (), db\<lparr>idb_channels := idb_channels db @ [c]\<rparr>))"

definition pg_channel_Update :: "ContactChannel \<Rightarrow> (identity_db, unit) op" where
  "pg_channel_Update c db =
     (Inr (), db\<lparr>idb_channels := update_where (\<lambda>r. cc_ID r = cc_ID c)
        (\<lambda>r. r\<lparr>cc_Verified := cc_Verified c, cc_Enabled := cc_Enabled c,
               cc_CodeHash := cc_CodeHash c, cc_CodeExpiresAt := cc_CodeExpiresAt c\<rparr>)
        (idb_channels db)\<rparr>)"

definition scanChannel :: "ContactChannel \<Rightarrow> ContactChannel" where
  "scanChannel c = c\<lparr>cc_Kind := ChannelKind_of (string_of_kind (cc_Kind c))\<rparr>"

definition channel_scope :: "string \<Rightarrow> string \<Rightarrow> string \<Rightarrow> ContactChannel \<Rightarrow> bool" where
  "channel_scope ws user i r \<longleftrightarrow> cc_ID r = i \<and> cc_UserID r = user \<and> cc_WorkspaceID r = ws"

text \<open>\<open>ByID\<close> and \<open>ByIDForUpdate\<close>, which also locks the row.\<close>

definition pg_channel_ByID :: "string \<Rightarrow> string \<Rightarrow> string \<Rightarrow> (identity_db, ContactChannel) op" where
  "pg_channel_ByID ws user i db =
     (case find (channel_scope ws user i) (idb_channels db) of
        None \<Rightarrow> (Inl (IdentityErr ErrChannelNotFound), db)
      | Some c \<Rightarrow> (Inr (scanChannel c), db))"

definition pg_channel_ListByUser :: "string \<Rightarrow> string \<Rightarrow> (identity_db, ContactChannel list) op" where
  "pg_channel_ListByUser ws user db =
     (Inr (map scanChannel (order_rows (\<lambda>a b. cc_CreatedAt a \<le> cc_CreatedAt b)
        (filter (\<lambda>r. cc_UserID r = user \<and> cc_WorkspaceID r = ws) (idb_channels db)))), db)"

definition pg_channel_SetEnabled ::
    "string \<Rightarrow> string \<Rightarrow> string \<Rightarrow> bool \<Rightarrow> (identity_db, ContactChannel) op" where
  "pg_channel_SetEnabled ws user i enabled db =
     (case find (channel_scope ws user i) (idb_channels db) of
        None \<Rightarrow> (Inl (IdentityErr ErrChannelNotFound), db)
      | Some c \<Rightarrow>
          (Inr (scanChannel (c\<lparr>cc_Enabled := enabled\<rparr>)),
           db\<lparr>idb_channels := update_where (channel_scope ws user i)
             (\<lambda>r. r\<lparr>cc_Enabled := enabled\<rparr>) (idb_channels db)\<rparr>))"

definition pg_user_store :: "(string \<Rightarrow> string) \<Rightarrow> identity_db UserStore" where
  "pg_user_store lower =
     \<lparr>us_Save = pg_user_Save lower, us_Update = pg_user_Update lower,
      us_ByPhone = pg_user_ByPhone, us_ByEmail = pg_user_ByEmail\<rparr>"

definition pg_challenge_store :: "identity_db ChallengeStore" where
  "pg_challenge_store =
     \<lparr>cs_Save = pg_challenge_Save, cs_Update = pg_challenge_Update,
      cs_ActiveByPhone = pg_challenge_ActiveByPhone, cs_ActiveByEmail = pg_challenge_ActiveByEmail,
      cs_CountByPhoneSince = pg_challenge_CountByPhoneSince,
      cs_CountByEmailSince = pg_challenge_CountByEmailSince\<rparr>"

definition pg_session_store :: "identity_db SessionStore" where
  "pg_session_store =
     \<lparr>ss_Save = pg_session_Save, ss_Update = pg_session_Update,
      ss_ByID = pg_session_ByID, ss_ByTokenHash = pg_session_ByTokenHash\<rparr>"

definition pg_channel_store :: "identity_db ChannelStore" where
  "pg_channel_store =
     \<lparr>chs_Save = pg_channel_Save, chs_Update = pg_channel_Update, chs_ByID = pg_channel_ByID,
      chs_ListByUser = pg_channel_ListByUser, chs_ByIDForUpdate = Some pg_channel_ByID,
      chs_SetEnabled = Some pg_channel_SetEnabled\<rparr>"

text \<open>The row of \<open>activeByIdentifier\<close>: an unconsumed one if there is one.\<close>

lemma active_member:
  assumes "activeByIdentifier matches db = (Inr c, db')"
  shows "db' = db \<and> c \<in> set (idb_challenges db) \<and> matches c"
proof -
  from assms obtain cs where o: "order_rows challenge_before (filter matches (idb_challenges db)) = c # cs"
    and "db' = db"
    by (auto simp: activeByIdentifier_def split: list.splits)
  have "c \<in> set (order_rows challenge_before (filter matches (idb_challenges db)))"
    by (simp add: o)
  with \<open>db' = db\<close> show ?thesis by simp
qed

end
