(* ===== verification/Identity_Commands.thy ===== *)
theory Identity_Commands
  imports Identity_Store
begin

text \<open>
  The Identity commands and queries (\<open>identity/application/command\<close>, \<open>query\<close>, \<open>dto\<close>).
  \<open>strings.ToLower\<close> and \<open>domain.HashCode\<close> (SHA-256) are the parameters \<open>ToLower\<close> and
  \<open>HashCode\<close>. The login handlers run without a unit of work, as wired: an error leaves the
  writes before it.
\<close>

section \<open>Transfer objects\<close>

record Principal =
  pc_UserID :: string
  pc_WorkspaceID :: string
  pc_SessionID :: string

record VerifyLoginChallengeResult =
  vl_Token :: string
  vl_Principal :: Principal
  vl_ExpiresAt :: time

record ContactChannelView =
  cv_ID :: string
  cv_Kind :: string
  cv_Address :: string
  cv_Verified :: bool
  cv_Enabled :: bool
  cv_CreatedAt :: time

record ChannelPreference =
  cp_ID :: string
  cp_Kind :: string
  cp_Address :: string
  cp_Enabled :: bool

definition ToChannelView :: "ContactChannel \<Rightarrow> ContactChannelView" where
  "ToChannelView c =
     \<lparr>cv_ID = cc_ID c, cv_Kind = string_of_kind (cc_Kind c), cv_Address = cc_Address c,
      cv_Verified = cc_Verified c, cv_Enabled = cc_Enabled c, cv_CreatedAt = cc_CreatedAt c\<rparr>"

definition identity_result :: "identity_error + 'a \<Rightarrow> ('s, 'a) op" where
  "identity_result r = ret (map_sum IdentityErr id r)"

lemma identity_result_run [op_simps]: "identity_result r s = (map_sum IdentityErr id r, s)"
  by (simp add: identity_result_def)

section \<open>Login\<close>

definition MaxChallengesPerPhonePerHour :: int where "MaxChallengesPerPhonePerHour = 5"

definition validateIdentifier ::
    "(string \<Rightarrow> string) \<Rightarrow> LoginIdentifier \<Rightarrow> identity_error + LoginIdentifier" where
  "validateIdentifier ToLower i = NewLoginIdentifier ToLower (li_Phone i) (li_Email i)"

definition privateBlocked :: "string \<Rightarrow> string \<Rightarrow> LoginIdentifier \<Rightarrow> bool" where
  "privateBlocked adminPhone adminEmail i =
     (if adminPhone = [] \<and> adminEmail = [] then False
      else if li_Phone i \<noteq> [] \<and> li_Phone i = adminPhone then False
      else if li_Email i \<noteq> [] \<and> li_Email i = adminEmail then False
      else True)"

definition countRecent :: "'s ChallengeStore \<Rightarrow> LoginIdentifier \<Rightarrow> time \<Rightarrow> ('s, int) op" where
  "countRecent challenges i now =
     (if li_Phone i \<noteq> [] then cs_CountByPhoneSince challenges (li_Phone i) (now - Hour)
      else cs_CountByEmailSince challenges (li_Email i) (now - Hour))"

record 's RequestLoginPorts =
  rl_Challenges :: "'s ChallengeStore"
  rl_Outbox :: "'s MessageOutbox"
  rl_NewCode :: "('s, string) op"
  rl_NewID :: "('s, string) act"
  rl_Now :: "('s, time) act"
  rl_ChallengeTTL :: int
  rl_AdminPhone :: string
  rl_AdminEmail :: string

definition RequestLoginChallenge ::
    "(string \<Rightarrow> string) \<Rightarrow> (string \<Rightarrow> string) \<Rightarrow> 's RequestLoginPorts \<Rightarrow> LoginIdentifier \<Rightarrow> ('s, unit) op" where
  "RequestLoginChallenge ToLower HashCode h identifier0 =
     bindE (identity_result (validateIdentifier ToLower identifier0)) (\<lambda>identifier.
     if privateBlocked (rl_AdminPhone h) (rl_AdminEmail h) identifier
     then fail (IdentityErr ErrRegistrationClosed)
     else bindA (rl_Now h) (\<lambda>now.
       bindE (countRecent (rl_Challenges h) identifier now) (\<lambda>count.
       if count \<ge> MaxChallengesPerPhonePerHour then fail (IdentityErr ErrRateLimited)
       else bindE (rl_NewCode h) (\<lambda>code.
         bindA (rl_NewID h) (\<lambda>i.
         bindE (cs_Save (rl_Challenges h)
           \<lparr>lc_ID = i, lc_Phone = li_Phone identifier, lc_Email = li_Email identifier,
            lc_CodeHash = HashCode code, lc_CreatedAt = now,
            lc_ExpiresAt = now + rl_ChallengeTTL h, lc_ConsumedAt = None, lc_Attempts = 0\<rparr>) (\<lambda>_.
         rl_Outbox h
           \<lparr>om_Address = li_Value identifier, om_Channel = li_Channel identifier,
            om_Purpose = ''login'', om_Code = code\<rparr>))))))"

record 's VerifyLoginPorts =
  vp_Challenges :: "'s ChallengeStore"
  vp_Users :: "'s UserStore"
  vp_Workspaces :: "'s WorkspaceStore"
  vp_Sessions :: "'s SessionStore"
  vp_NewID :: "('s, string) act"
  vp_NewToken :: "('s, string) op"
  vp_Now :: "('s, time) act"
  vp_SessionTTL :: int
  vp_AdminPhone :: string
  vp_AdminEmail :: string

definition activeChallenge :: "'s ChallengeStore \<Rightarrow> LoginIdentifier \<Rightarrow> ('s, LoginChallenge) op" where
  "activeChallenge challenges i =
     (if li_Phone i \<noteq> [] then cs_ActiveByPhone challenges (li_Phone i)
      else cs_ActiveByEmail challenges (li_Email i))"

definition existingUser :: "'s UserStore \<Rightarrow> LoginIdentifier \<Rightarrow> ('s, User) op" where
  "existingUser users i =
     (if li_Phone i \<noteq> [] then us_ByPhone users (li_Phone i) else us_ByEmail users (li_Email i))"

text \<open>The checks of \<open>Handle\<close> up to the consumption of the challenge.\<close>

definition check_challenge ::
    "(string \<Rightarrow> string) \<Rightarrow> 's ChallengeStore \<Rightarrow> time \<Rightarrow> string \<Rightarrow> LoginChallenge \<Rightarrow> ('s, unit) op" where
  "check_challenge HashCode challenges now code challenge =
     (if lc_IsExpired challenge now then fail (IdentityErr ErrChallengeExpired)
      else if lc_IsConsumed challenge then fail (IdentityErr ErrChallengeConsumed)
      else if lc_Attempts challenge \<ge> MaxVerifyAttempts then fail (IdentityErr ErrTooManyAttempts)
      else if \<not> lc_Matches challenge (HashCode code) then
        (case lc_RegisterFailedAttempt challenge of (exhausted, challenge') \<Rightarrow>
           bindE (cs_Update challenges challenge') (\<lambda>_.
           if exhausted then fail (IdentityErr ErrTooManyAttempts)
           else fail (IdentityErr ErrInvalidCode)))
      else bindE (identity_result (lc_Consume now challenge)) (\<lambda>consumed.
        cs_Update challenges consumed))"

text \<open>The user of the identifier, registered with a workspace on the first login.\<close>

definition user_for_login ::
    "'s VerifyLoginPorts \<Rightarrow> time \<Rightarrow> LoginIdentifier \<Rightarrow> ('s, User) op" where
  "user_for_login h now identifier =
     tryE (existingUser (vp_Users h) identifier) ok
       (\<lambda>e. if e = IdentityErr ErrUserNotFound then
              bindA (vp_NewID h) (\<lambda>wid.
              bindE (vp_Workspaces h \<lparr>w_ID = wid, w_CreatedAt = now\<rparr>) (\<lambda>_.
              bindA (vp_NewID h) (\<lambda>uid.
              let user = \<lparr>u_ID = uid, u_WorkspaceID = wid, u_Phone = li_Phone identifier,
                          u_Email = li_Email identifier, u_CreatedAt = now\<rparr> in
              bindE (us_Save (vp_Users h) user) (\<lambda>_. ok user))))
            else fail e)"

definition open_session ::
    "(string \<Rightarrow> string) \<Rightarrow> 's VerifyLoginPorts \<Rightarrow> time \<Rightarrow> User \<Rightarrow> ('s, VerifyLoginChallengeResult) op" where
  "open_session HashCode h now user =
     bindE (vp_NewToken h) (\<lambda>token.
     bindA (vp_NewID h) (\<lambda>sid.
     bindE (ss_Save (vp_Sessions h)
       \<lparr>se_ID = sid, se_UserID = u_ID user, se_WorkspaceID = u_WorkspaceID user,
        se_TokenHash = HashCode token, se_CreatedAt = now,
        se_ExpiresAt = now + vp_SessionTTL h, se_RevokedAt = None\<rparr>) (\<lambda>_.
     ok \<lparr>vl_Token = token,
         vl_Principal = \<lparr>pc_UserID = u_ID user, pc_WorkspaceID = u_WorkspaceID user, pc_SessionID = sid\<rparr>,
         vl_ExpiresAt = now + vp_SessionTTL h\<rparr>)))"

definition VerifyLoginChallenge ::
    "(string \<Rightarrow> string) \<Rightarrow> (string \<Rightarrow> string) \<Rightarrow> 's VerifyLoginPorts \<Rightarrow> LoginIdentifier \<Rightarrow> string
     \<Rightarrow> ('s, VerifyLoginChallengeResult) op" where
  "VerifyLoginChallenge ToLower HashCode h identifier0 code =
     bindE (identity_result (validateIdentifier ToLower identifier0)) (\<lambda>identifier.
     if privateBlocked (vp_AdminPhone h) (vp_AdminEmail h) identifier
     then fail (IdentityErr ErrRegistrationClosed)
     else bindE (identity_result (NewCode code)) (\<lambda>_.
       tryE (activeChallenge (vp_Challenges h) identifier)
         (\<lambda>challenge. bindA (vp_Now h) (\<lambda>now.
            bindE (check_challenge HashCode (vp_Challenges h) now code challenge) (\<lambda>_.
            bindE (user_for_login h now identifier) (open_session HashCode h now))))
         (\<lambda>_. fail (IdentityErr ErrChallengeNotFound))))"

definition Logout :: "'s SessionStore \<Rightarrow> ('s, time) act \<Rightarrow> string \<Rightarrow> ('s, unit) op" where
  "Logout sessions Now sessionID =
     tryE (ss_ByID sessions sessionID)
       (\<lambda>session. bindA Now (\<lambda>now. ss_Update sessions (se_Revoke now session)))
       (\<lambda>_. fail (IdentityErr ErrSessionNotFound))"

definition Authenticate ::
    "(string \<Rightarrow> string) \<Rightarrow> 's SessionStore \<Rightarrow> ('s, time) act \<Rightarrow> string \<Rightarrow> ('s, Principal) op" where
  "Authenticate HashCode sessions Now token =
     bindE (ss_ByTokenHash sessions (HashCode token)) (\<lambda>session.
     bindA Now (\<lambda>now.
     if \<not> se_IsActive session now then fail (IdentityErr ErrSessionInactive)
     else ok \<lparr>pc_UserID = se_UserID session, pc_WorkspaceID = se_WorkspaceID session,
              pc_SessionID = se_ID session\<rparr>))"

section \<open>The private admin\<close>

definition findExisting :: "'s UserStore \<Rightarrow> string \<Rightarrow> string \<Rightarrow> ('s, User option) op" where
  "findExisting users phone email =
     (let by_email =
        (if email \<noteq> [] then
           tryE (us_ByEmail users email) (\<lambda>u. ok (Some u))
             (\<lambda>e. if e = IdentityErr ErrUserNotFound then ok None else fail e)
         else ok None)
      in if phone \<noteq> [] then
           tryE (us_ByPhone users phone) (\<lambda>u. ok (Some u))
             (\<lambda>e. if e = IdentityErr ErrUserNotFound then by_email else fail e)
         else by_email)"

text \<open>\<open>Handle\<close> after \<open>findExisting\<close>.\<close>

definition provision_found ::
    "'s UserStore \<Rightarrow> 's WorkspaceStore \<Rightarrow> ('s, string) act \<Rightarrow> ('s, time) act \<Rightarrow> string \<Rightarrow> string
     \<Rightarrow> User option \<Rightarrow> ('s, unit) op" where
  "provision_found users workspaces NewID Now phone email found =
     (case found of
        Some existing \<Rightarrow>
          let e1 = (if phone \<noteq> [] \<and> u_Phone existing = [] then existing\<lparr>u_Phone := phone\<rparr> else existing);
              e2 = (if email \<noteq> [] \<and> u_Email existing = [] then e1\<lparr>u_Email := email\<rparr> else e1);
              changed = ((phone \<noteq> [] \<and> u_Phone existing = []) \<or> (email \<noteq> [] \<and> u_Email existing = []))
          in if \<not> changed then ok () else us_Update users e2
      | None \<Rightarrow>
          bindA Now (\<lambda>now. bindA NewID (\<lambda>wid.
          bindE (workspaces \<lparr>w_ID = wid, w_CreatedAt = now\<rparr>) (\<lambda>_.
          bindA NewID (\<lambda>uid.
          us_Save users \<lparr>u_ID = uid, u_WorkspaceID = wid, u_Phone = phone, u_Email = email,
                         u_CreatedAt = now\<rparr>)))))"

definition ProvisionAdmin ::
    "(string \<Rightarrow> string) \<Rightarrow> 's UserStore \<Rightarrow> 's WorkspaceStore \<Rightarrow> ('s, string) act \<Rightarrow> ('s, time) act
     \<Rightarrow> string \<Rightarrow> string \<Rightarrow> ('s, unit) op" where
  "ProvisionAdmin ToLower users workspaces NewID Now phone email =
     (if phone = [] \<and> email = [] then fail (IdentityErr ErrIdentifierInvalid)
      else bindE (if phone \<noteq> [] then identity_result (NewPhone phone) else ok []) (\<lambda>_.
        bindE (if email \<noteq> [] then identity_result (NewEmail ToLower email) else ok []) (\<lambda>_.
        bindE (findExisting users phone email)
          (provision_found users workspaces NewID Now phone email))))"

section \<open>Contact channels\<close>

definition check_address :: "(string \<Rightarrow> string) \<Rightarrow> ChannelKind \<Rightarrow> string \<Rightarrow> ('s, unit) op" where
  "check_address ToLower k address =
     (case k of
        ChannelKindEmail \<Rightarrow> bindE (identity_result (NewEmail ToLower address)) (\<lambda>_. ok ())
      | ChannelKindSMS \<Rightarrow> bindE (identity_result (NewPhone address)) (\<lambda>_. ok ())
      | ChannelKindOther _ \<Rightarrow> ok ())"

record 's AddChannelPorts =
  ac_Channels :: "'s ChannelStore"
  ac_Outbox :: "'s MessageOutbox"
  ac_NewCode :: "('s, string) op"
  ac_NewID :: "('s, string) act"
  ac_Now :: "('s, time) act"
  ac_CodeTTL :: int

definition AddChannel ::
    "(string \<Rightarrow> string) \<Rightarrow> (string \<Rightarrow> string) \<Rightarrow> 's AddChannelPorts \<Rightarrow> Principal \<Rightarrow> string \<Rightarrow> string
     \<Rightarrow> ('s, ContactChannelView) op" where
  "AddChannel ToLower HashCode h who kind address =
     bindE (identity_result (NewChannelKind kind)) (\<lambda>k.
     bindE (check_address ToLower k address) (\<lambda>_.
     bindE (chs_ListByUser (ac_Channels h) (pc_WorkspaceID who) (pc_UserID who)) (\<lambda>existing.
     if list_ex (\<lambda>c. cc_Kind c = k \<and> cc_Address c = address) existing
     then fail (IdentityErr ErrChannelExists)
     else bindE (ac_NewCode h) (\<lambda>code.
       bindA (ac_Now h) (\<lambda>now. bindA (ac_NewID h) (\<lambda>i.
       let channel = \<lparr>cc_ID = i, cc_UserID = pc_UserID who,
             cc_WorkspaceID = pc_WorkspaceID who, cc_Kind = k, cc_Address = address,
             cc_Verified = False, cc_Enabled = True, cc_CodeHash = HashCode code,
             cc_CodeExpiresAt = Some (now + ac_CodeTTL h), cc_CreatedAt = now\<rparr> in
       bindE (ac_Outbox h
         \<lparr>om_Address = address, om_Channel = (if k = ChannelKindSMS then ''sms'' else ''email''),
          om_Purpose = ''channel_verification'', om_Code = code\<rparr>) (\<lambda>_.
       bindE (chs_Save (ac_Channels h) channel) (\<lambda>_.
       ok (ToChannelView channel)))))))))"

text \<open>\<open>None\<close> for a nil unit of work.\<close>

definition verify_channel ::
    "(string \<Rightarrow> string) \<Rightarrow> 's ChannelStore \<Rightarrow> ('s, time) act \<Rightarrow> Principal \<Rightarrow> string \<Rightarrow> string \<Rightarrow> bool
     \<Rightarrow> ('s, unit) op" where
  "verify_channel HashCode channels Now who channelID code lock =
     tryE (case (lock, chs_ByIDForUpdate channels) of
             (True, Some locked) \<Rightarrow> locked (pc_WorkspaceID who) (pc_UserID who) channelID
           | _ \<Rightarrow> chs_ByID channels (pc_WorkspaceID who) (pc_UserID who) channelID)
       (\<lambda>channel.
          bindE (identity_result (NewCode code)) (\<lambda>_.
          bindA Now (\<lambda>now.
          bindE (identity_result (cc_Verify (HashCode code) now channel)) (\<lambda>verified.
          chs_Update channels verified))))
       (\<lambda>_. fail (IdentityErr ErrChannelNotFound))"

definition VerifyChannel ::
    "(string \<Rightarrow> string) \<Rightarrow> 's ChannelStore \<Rightarrow> ('s, time) act \<Rightarrow> (('s, unit) op \<Rightarrow> ('s, unit) op) option
     \<Rightarrow> Principal \<Rightarrow> string \<Rightarrow> string \<Rightarrow> ('s, unit) op" where
  "VerifyChannel HashCode channels Now uow who channelID code =
     (case uow of
        Some run \<Rightarrow> run (verify_channel HashCode channels Now who channelID code True)
      | None \<Rightarrow> verify_channel HashCode channels Now who channelID code False)"

definition SetChannelEnabled ::
    "'s ChannelStore \<Rightarrow> Principal \<Rightarrow> string \<Rightarrow> bool \<Rightarrow> ('s, ContactChannelView) op" where
  "SetChannelEnabled channels who channelID enabled =
     (case chs_SetEnabled channels of
        Some targeted \<Rightarrow>
          bindE (targeted (pc_WorkspaceID who) (pc_UserID who) channelID enabled)
            (\<lambda>c. ok (ToChannelView c))
      | None \<Rightarrow>
          tryE (chs_ByID channels (pc_WorkspaceID who) (pc_UserID who) channelID)
            (\<lambda>c. let c' = cc_SetEnabled enabled c in
               bindE (chs_Update channels c') (\<lambda>_. ok (ToChannelView c')))
            (\<lambda>_. fail (IdentityErr ErrChannelNotFound)))"

definition ChannelResendCooldown :: int where "ChannelResendCooldown = Minute"

record 's ResendPorts =
  rs_Channels :: "'s ChannelStore"
  rs_Outbox :: "'s MessageOutbox"
  rs_NewCode :: "('s, string) op"
  rs_Now :: "('s, time) act"
  rs_CodeTTL :: int

definition resend_work ::
    "(string \<Rightarrow> string) \<Rightarrow> 's ResendPorts \<Rightarrow> Principal \<Rightarrow> string \<Rightarrow> ('s, unit) op" where
  "resend_work HashCode h who channelID =
     bindE (case chs_ByIDForUpdate (rs_Channels h) of
              Some locked \<Rightarrow> locked (pc_WorkspaceID who) (pc_UserID who) channelID
            | None \<Rightarrow> chs_ByID (rs_Channels h) (pc_WorkspaceID who) (pc_UserID who) channelID)
     (\<lambda>channel.
     if cc_Verified channel then fail (IdentityErr ErrChannelAlreadyVerified)
     else bindA (rs_Now h) (\<lambda>now.
       if opt_holds (\<lambda>e. now < e - rs_CodeTTL h + ChannelResendCooldown) (cc_CodeExpiresAt channel)
       then fail (IdentityErr ErrRateLimited)
       else bindE (rs_NewCode h) (\<lambda>code.
         bindE (identity_result (NewCode code)) (\<lambda>_.
         bindE (rs_Outbox h
           \<lparr>om_Address = cc_Address channel, om_Channel = string_of_kind (cc_Kind channel),
            om_Purpose = ''channel_verification'', om_Code = code\<rparr>) (\<lambda>_.
         chs_Update (rs_Channels h)
           (channel\<lparr>cc_CodeHash := HashCode code, cc_CodeExpiresAt := Some (now + rs_CodeTTL h)\<rparr>))))))"

definition ResendChannel ::
    "(string \<Rightarrow> string) \<Rightarrow> 's ResendPorts \<Rightarrow> (('s, unit) op \<Rightarrow> ('s, unit) op) \<Rightarrow> Principal \<Rightarrow> string
     \<Rightarrow> ('s, unit) op" where
  "ResendChannel HashCode h uow who channelID = uow (resend_work HashCode h who channelID)"

definition ImportChannel ::
    "(string \<Rightarrow> string) \<Rightarrow> 's ChannelStore \<Rightarrow> ('s, string) act \<Rightarrow> ('s, time) act \<Rightarrow> Principal \<Rightarrow> string
     \<Rightarrow> string \<Rightarrow> bool \<Rightarrow> ('s, ContactChannelView) op" where
  "ImportChannel ToLower channels NewID Now who kind address enabled =
     bindE (identity_result (NewChannelKind kind)) (\<lambda>k.
     bindE (check_address ToLower k address) (\<lambda>_.
     bindA NewID (\<lambda>i. bindA Now (\<lambda>now.
     let channel = \<lparr>cc_ID = i, cc_UserID = pc_UserID who,
           cc_WorkspaceID = pc_WorkspaceID who, cc_Kind = k, cc_Address = address,
           cc_Verified = False, cc_Enabled = enabled, cc_CodeHash = [],
           cc_CodeExpiresAt = None, cc_CreatedAt = now\<rparr> in
     bindE (chs_Save channels channel) (\<lambda>_. ok (ToChannelView channel))))))"

section \<open>Queries\<close>

definition GetContactChannels ::
    "'s ChannelStore \<Rightarrow> Principal \<Rightarrow> ('s, ContactChannelView list) op" where
  "GetContactChannels channels who =
     bindE (chs_ListByUser channels (pc_WorkspaceID who) (pc_UserID who))
       (\<lambda>cs. ok (map ToChannelView cs))"

definition GetChannelPreferences ::
    "'s ChannelStore \<Rightarrow> Principal \<Rightarrow> ('s, ChannelPreference list) op" where
  "GetChannelPreferences channels who =
     bindE (chs_ListByUser channels (pc_WorkspaceID who) (pc_UserID who))
       (\<lambda>cs. ok (map (\<lambda>c. \<lparr>cp_ID = cc_ID c, cp_Kind = string_of_kind (cc_Kind c),
                         cp_Address = cc_Address c, cp_Enabled = cc_Enabled c\<rparr>) cs))"

end
