(* ===== verification/Identity_Login.thy ===== *)
theory Identity_Login
  imports Identity_Commands
begin

text \<open>
  What login promises. The locales \<open>request_login\<close>, \<open>verify_login\<close> and \<open>session_tables\<close> say
  that the stores run the PostgreSQL adapters on the part \<open>idb\<close> of the state and that clocks,
  identifiers, codes, tokens and the outbox do not touch it. The lemmas show the rate limit, the
  private mode, the bound on wrong codes, the single use of a challenge, and that a revoked
  session does not authenticate.
\<close>

section \<open>The active challenge\<close>

definition challenges_inv :: "identity_db \<Rightarrow> bool" where
  "challenges_inv db \<longleftrightarrow> distinct (map lc_ID (idb_challenges db))"

text \<open>The challenges of an identifier.\<close>

definition of_identifier :: "LoginIdentifier \<Rightarrow> LoginChallenge \<Rightarrow> bool" where
  "of_identifier i c \<longleftrightarrow>
     (if li_Phone i \<noteq> [] then lc_Phone c \<noteq> [] \<and> lc_Phone c = li_Phone i
      else lc_Email c \<noteq> [] \<and> lc_Email c = li_Email i)"

definition recent_challenges :: "LoginIdentifier \<Rightarrow> time \<Rightarrow> identity_db \<Rightarrow> int" where
  "recent_challenges i since db =
     count_where (\<lambda>c. of_identifier i c \<and> lc_CreatedAt c \<ge> since) (idb_challenges db)"

definition active_challenge :: "LoginIdentifier \<Rightarrow> identity_db \<Rightarrow> LoginChallenge option" where
  "active_challenge i db =
     (case order_rows challenge_before (filter (of_identifier i) (idb_challenges db)) of
        [] \<Rightarrow> None | c # _ \<Rightarrow> Some c)"

lemma insert_row_map:
  "(\<And>a b. le (f a) (f b) = le a b) \<Longrightarrow> insert_row le (f x) (map f ys) = map f (insert_row le x ys)"
  by (induction ys) auto

lemma order_rows_map:
  assumes "\<And>a b. le (f a) (f b) = le a b"
  shows "order_rows le (map f xs) = map f (order_rows le xs)"
proof (induction xs)
  case (Cons x xs)
  have "order_rows le (map f (x # xs)) = insert_row le (f x) (order_rows le (map f xs))"
    by (simp add: order_rows_def)
  also have "\<dots> = map f (insert_row le x (order_rows le xs))"
    by (simp add: Cons.IH insert_row_map assms)
  finally show ?case by (simp add: order_rows_def)
qed (simp add: order_rows_def)

lemma active_challenge_member:
  assumes "active_challenge i db = Some c"
  shows "c \<in> set (idb_challenges db) \<and> of_identifier i c"
proof -
  obtain cs where "order_rows challenge_before (filter (of_identifier i) (idb_challenges db)) = c # cs"
    using assms by (auto simp: active_challenge_def split: list.splits)
  then have "c \<in> set (order_rows challenge_before (filter (of_identifier i) (idb_challenges db)))" by simp
  then show ?thesis by simp
qed

text \<open>A failed attempt keeps the challenge the active one, with the counter raised.\<close>

lemma active_after_attempt:
  assumes inv: "challenges_inv db" and act: "active_challenge i db = Some c"
    and c': "c' = c\<lparr>lc_Attempts := n\<rparr>"
  shows "active_challenge i (snd (pg_challenge_Update c' db)) = Some c'
    \<and> challenges_inv (snd (pg_challenge_Update c' db))"
proof -
  let ?f = "\<lambda>r. if lc_ID r = lc_ID c then c' else r"
  have c: "c \<in> set (idb_challenges db)" using active_challenge_member [OF act] by simp
  have only: "r = c" if "r \<in> set (idb_challenges db)" "lc_ID r = lc_ID c" for r
    using distinct_key_eq [of lc_ID] inv c that by (simp add: challenges_inv_def)
  have db': "idb_challenges (snd (pg_challenge_Update c' db)) = map (\<lambda>r. if r = c then c' else r) (idb_challenges db)"
    unfolding pg_challenge_Update_def update_where_def
    by (auto simp: c' dest: only intro!: map_cong)
  let ?g = "\<lambda>r. if r = c then c' else r"
  have key: "lc_ConsumedAt (?g r) = lc_ConsumedAt r \<and> lc_CreatedAt (?g r) = lc_CreatedAt r
      \<and> of_identifier i (?g r) = of_identifier i r \<and> lc_ID (?g r) = lc_ID r" for r
    by (simp add: c' of_identifier_def)
  have "filter (of_identifier i) (map ?g (idb_challenges db))
      = map ?g (filter (of_identifier i) (idb_challenges db))"
    using key by (simp add: filter_map comp_def)
  moreover have "order_rows challenge_before (map ?g xs) = map ?g (order_rows challenge_before xs)" for xs
    by (rule order_rows_map) (simp add: challenge_before_def key)
  ultimately have "active_challenge i (snd (pg_challenge_Update c' db)) = Some (?g c)"
    using act by (auto simp: active_challenge_def db' split: list.splits)
  moreover have "map lc_ID (idb_challenges (snd (pg_challenge_Update c' db))) = map lc_ID (idb_challenges db)"
    unfolding db' using key by simp
  ultimately show ?thesis using inv by (simp add: challenges_inv_def)
qed

section \<open>Requesting a code\<close>

locale request_login =
  fixes ToLower HashCode :: "string \<Rightarrow> string"
    and h :: "'s RequestLoginPorts"
    and idb :: "'s \<Rightarrow> identity_db"
    and sent :: "'s \<Rightarrow> OutboxMessage list"
  assumes save_runs: "runs_on idb (cs_Save (rl_Challenges h) c) (pg_challenge_Save c)"
    and count_phone: "runs_on idb (cs_CountByPhoneSince (rl_Challenges h) p t) (pg_challenge_CountByPhoneSince p t)"
    and count_email: "runs_on idb (cs_CountByEmailSince (rl_Challenges h) p t) (pg_challenge_CountByEmailSince p t)"
    and save_sent: "cs_Save (rl_Challenges h) c s = (sv, s') \<Longrightarrow> sent s' = sent s"
    and count_phone_sent: "cs_CountByPhoneSince (rl_Challenges h) p t s = (cp, s') \<Longrightarrow> sent s' = sent s"
    and count_email_sent: "cs_CountByEmailSince (rl_Challenges h) p t s = (cp, s') \<Longrightarrow> sent s' = sent s"
    and code_frame: "rl_NewCode h s = (nc, s') \<Longrightarrow> idb s' = idb s \<and> sent s' = sent s"
    and id_frame: "rl_NewID h s = (i, s') \<Longrightarrow> idb s' = idb s \<and> sent s' = sent s"
    and now_frame: "rl_Now h s = (n, s') \<Longrightarrow> idb s' = idb s \<and> sent s' = sent s"
    and outbox_frame: "rl_Outbox h m s = (ob, s') \<Longrightarrow> idb s' = idb s
        \<and> (sent s' = sent s @ [m] \<or> (isl ob \<and> sent s' = sent s))"
begin

lemma countRecent_run:
  assumes "countRecent (rl_Challenges h) i now s = (r, s')"
  shows "idb s' = idb s \<and> sent s' = sent s \<and> r = Inr (recent_challenges i (now - Hour) (idb s))"
proof (cases "li_Phone i = []")
  case True
  then have run: "cs_CountByEmailSince (rl_Challenges h) (li_Email i) (now - Hour) s = (r, s')"
    using assms by (simp add: countRecent_def)
  from runs_onD [OF count_email run] count_email_sent [OF run] True show ?thesis
    by (auto simp: pg_challenge_CountByEmailSince_def recent_challenges_def of_identifier_def conj_ac)
next
  case False
  then have run: "cs_CountByPhoneSince (rl_Challenges h) (li_Phone i) (now - Hour) s = (r, s')"
    using assms by (simp add: countRecent_def)
  from runs_onD [OF count_phone run] count_phone_sent [OF run] False show ?thesis
    by (auto simp: pg_challenge_CountByPhoneSince_def recent_challenges_def of_identifier_def conj_ac)
qed

text \<open>A blocked identifier leaves everything as it was.\<close>

lemma request_blocked:
  assumes "validateIdentifier ToLower i0 = Inr i" "privateBlocked (rl_AdminPhone h) (rl_AdminEmail h) i"
  shows "RequestLoginChallenge ToLower HashCode h i0 s = (Inl (IdentityErr ErrRegistrationClosed), s)"
  using assms by (simp add: RequestLoginChallenge_def bindE_run identity_result_run)

text \<open>At the limit no code is made and none is sent.\<close>

lemma request_limited:
  assumes "validateIdentifier ToLower i0 = Inr i"
    and "\<not> privateBlocked (rl_AdminPhone h) (rl_AdminEmail h) i"
    and now: "rl_Now h s = (now, s1)"
    and full: "recent_challenges i (now - Hour) (idb s) \<ge> MaxChallengesPerPhonePerHour"
    and run: "RequestLoginChallenge ToLower HashCode h i0 s = (r, s')"
  shows "r = Inl (IdentityErr ErrRateLimited) \<and> idb s' = idb s \<and> sent s' = sent s"
proof -
  have s1: "idb s1 = idb s" "sent s1 = sent s" using now_frame [OF now] by auto
  obtain c s2 where count: "countRecent (rl_Challenges h) i now s1 = (c, s2)"
    by (cases "countRecent (rl_Challenges h) i now s1")
  with countRecent_run [OF count] assms s1 show ?thesis
    by (auto simp: RequestLoginChallenge_def bindE_run bindA_run identity_result_run)
qed

text \<open>
  A code that is sent is the code of the challenge that is stored; afterwards at most five
  challenges of the identifier are in the window.
\<close>

lemma request_ok:
  assumes run: "RequestLoginChallenge ToLower HashCode h i0 s = (Inr (), s')"
  shows "\<exists>i c m now. validateIdentifier ToLower i0 = Inr i
    \<and> \<not> privateBlocked (rl_AdminPhone h) (rl_AdminEmail h) i
    \<and> idb s' = (idb s)\<lparr>idb_challenges := idb_challenges (idb s) @ [c]\<rparr>
    \<and> lc_Phone c = li_Phone i \<and> lc_Email c = li_Email i
    \<and> lc_ConsumedAt c = None \<and> lc_Attempts c = 0
    \<and> lc_CreatedAt c = now \<and> lc_ExpiresAt c = now + rl_ChallengeTTL h
    \<and> sent s' = sent s @ [m] \<and> om_Address m = li_Value i \<and> om_Channel m = li_Channel i
    \<and> lc_CodeHash c = HashCode (om_Code m)
    \<and> recent_challenges i (now - Hour) (idb s') \<le> MaxChallengesPerPhonePerHour"
proof -
  obtain i where i: "validateIdentifier ToLower i0 = Inr i"
    using run by (auto simp: RequestLoginChallenge_def bindE_Inr_iff identity_result_run)
  have nb: "\<not> privateBlocked (rl_AdminPhone h) (rl_AdminEmail h) i"
    using run i request_blocked by force
  obtain now s1 where now: "rl_Now h s = (now, s1)" by (cases "rl_Now h s")
  obtain n s2 code s3 cid s4 s5 where count: "countRecent (rl_Challenges h) i now s1 = (Inr n, s2)"
    and few: "n < MaxChallengesPerPhonePerHour"
    and code: "rl_NewCode h s2 = (Inr code, s3)" and cid: "rl_NewID h s3 = (cid, s4)"
    and save: "cs_Save (rl_Challenges h)
           \<lparr>lc_ID = cid, lc_Phone = li_Phone i, lc_Email = li_Email i,
            lc_CodeHash = HashCode code, lc_CreatedAt = now,
            lc_ExpiresAt = now + rl_ChallengeTTL h, lc_ConsumedAt = None, lc_Attempts = 0\<rparr> s4 = (Inr (), s5)"
    and out: "rl_Outbox h
           \<lparr>om_Address = li_Value i, om_Channel = li_Channel i,
            om_Purpose = ''login'', om_Code = code\<rparr> s5 = (Inr (), s')"
    using run i nb now
    by (auto simp: RequestLoginChallenge_def bindE_Inr_iff bindA_iff identity_result_run
        split: if_splits)
  let ?c = "\<lparr>lc_ID = cid, lc_Phone = li_Phone i, lc_Email = li_Email i,
            lc_CodeHash = HashCode code, lc_CreatedAt = now,
            lc_ExpiresAt = now + rl_ChallengeTTL h, lc_ConsumedAt = None, lc_Attempts = 0\<rparr>"
  let ?m = "\<lparr>om_Address = li_Value i, om_Channel = li_Channel i, om_Purpose = ''login'', om_Code = code\<rparr>"
  have s4: "idb s4 = idb s" "sent s4 = sent s" and n: "n = recent_challenges i (now - Hour) (idb s)"
    using now_frame [OF now] countRecent_run [OF count] code_frame [OF code] id_frame [OF cid] by auto
  have s5: "idb s5 = (idb s)\<lparr>idb_challenges := idb_challenges (idb s) @ [?c]\<rparr>" "sent s5 = sent s"
    using runs_onD [OF save_runs save] save_sent [OF save] s4
    by (auto simp: pg_challenge_Save_def split: if_splits)
  have s': "idb s' = idb s5" "sent s' = sent s @ [?m]"
    using outbox_frame [OF out] s5 by auto
  have "recent_challenges i (now - Hour) (idb s') \<le> n + 1"
    unfolding s' s5 n recent_challenges_def by (simp add: count_where_def)
  with few have "recent_challenges i (now - Hour) (idb s') \<le> MaxChallengesPerPhonePerHour" by simp
  with i nb s' s5 show ?thesis
    by (intro exI [of _ i] exI [of _ ?c] exI [of _ ?m] exI [of _ now]) simp
qed

end

section \<open>Verifying a code\<close>

locale verify_login =
  fixes ToLower HashCode lower :: "string \<Rightarrow> string"
    and h :: "'s VerifyLoginPorts"
    and idb :: "'s \<Rightarrow> identity_db"
  assumes upd: "runs_on idb (cs_Update (vp_Challenges h) c) (pg_challenge_Update c)"
    and act_phone: "runs_on idb (cs_ActiveByPhone (vp_Challenges h) p) (pg_challenge_ActiveByPhone p)"
    and act_email: "runs_on idb (cs_ActiveByEmail (vp_Challenges h) p) (pg_challenge_ActiveByEmail p)"
    and by_phone: "runs_on idb (us_ByPhone (vp_Users h) p) (pg_user_ByPhone p)"
    and by_email: "runs_on idb (us_ByEmail (vp_Users h) p) (pg_user_ByEmail p)"
    and user_save: "runs_on idb (us_Save (vp_Users h) u) (pg_user_Save lower u)"
    and ws_save: "runs_on idb (vp_Workspaces h w) (pg_workspace_Save w)"
    and session_save: "runs_on idb (ss_Save (vp_Sessions h) se) (pg_session_Save se)"
    and id_frame: "vp_NewID h s = (i, s') \<Longrightarrow> idb s' = idb s"
    and token_frame: "vp_NewToken h s = (tk, s') \<Longrightarrow> idb s' = idb s"
    and now_frame: "vp_Now h s = (n, s') \<Longrightarrow> idb s' = idb s"
begin

lemma activeChallenge_run:
  assumes "activeChallenge (vp_Challenges h) i s = (r, s')"
  shows "idb s' = idb s \<and> r = (case active_challenge i (idb s) of
      None \<Rightarrow> Inl (IdentityErr ErrChallengeNotFound) | Some c \<Rightarrow> Inr c)"
proof -
  have "activeByIdentifier (of_identifier i) (idb s) = (r, idb s')"
  proof (cases "li_Phone i = []")
    case True
    then have "cs_ActiveByEmail (vp_Challenges h) (li_Email i) s = (r, s')"
      using assms by (simp add: activeChallenge_def)
    from runs_onD [OF act_email this] True show ?thesis
      by (simp add: pg_challenge_ActiveByEmail_def of_identifier_def [abs_def])
  next
    case False
    then have "cs_ActiveByPhone (vp_Challenges h) (li_Phone i) s = (r, s')"
      using assms by (simp add: activeChallenge_def)
    from runs_onD [OF act_phone this] False show ?thesis
      by (simp add: pg_challenge_ActiveByPhone_def of_identifier_def [abs_def])
  qed
  then show ?thesis
    by (auto simp: activeByIdentifier_def active_challenge_def split: list.splits)
qed

text \<open>What the checks do: refuse, count a wrong code, or consume.\<close>

lemma check_challenge_run:
  assumes "check_challenge HashCode (vp_Challenges h) now code c s = (r, s')"
  shows "(if lc_IsExpired c now then r = Inl (IdentityErr ErrChallengeExpired) \<and> idb s' = idb s
     else if lc_IsConsumed c then r = Inl (IdentityErr ErrChallengeConsumed) \<and> idb s' = idb s
     else if lc_Attempts c \<ge> MaxVerifyAttempts
       then r = Inl (IdentityErr ErrTooManyAttempts) \<and> idb s' = idb s
     else if lc_CodeHash c \<noteq> HashCode code
       then idb s' = snd (pg_challenge_Update (c\<lparr>lc_Attempts := lc_Attempts c + 1\<rparr>) (idb s))
         \<and> r = Inl (IdentityErr (if lc_Attempts c + 1 \<ge> MaxVerifyAttempts then ErrTooManyAttempts else ErrInvalidCode))
     else idb s' = snd (pg_challenge_Update (c\<lparr>lc_ConsumedAt := Some now\<rparr>) (idb s)) \<and> r = Inr ())"
proof -
  have up: "fst (cs_Update (vp_Challenges h) c' s) = Inr ()
      \<and> idb (snd (cs_Update (vp_Challenges h) c' s)) = snd (pg_challenge_Update c' (idb s))" for c'
  proof -
    obtain x s1 where "cs_Update (vp_Challenges h) c' s = (x, s1)" by (cases "cs_Update (vp_Challenges h) c' s")
    with runs_onD [OF upd this] show ?thesis by (auto simp: pg_challenge_Update_def)
  qed
  show ?thesis
    using assms up [of "c\<lparr>lc_Attempts := lc_Attempts c + 1\<rparr>"] up [of "c\<lparr>lc_ConsumedAt := Some now\<rparr>"]
    by (auto simp: check_challenge_def lc_Matches_def lc_RegisterFailedAttempt_def lc_Consume_def Let_def
        bindE_run identity_result_run split: prod.splits sum.splits if_splits)
qed

lemma verify_blocked:
  assumes "validateIdentifier ToLower i0 = Inr i" "privateBlocked (vp_AdminPhone h) (vp_AdminEmail h) i"
  shows "VerifyLoginChallenge ToLower HashCode h i0 code s = (Inl (IdentityErr ErrRegistrationClosed), s)"
  using assms by (simp add: VerifyLoginChallenge_def bindE_run identity_result_run)

text \<open>A wrong code for the active challenge: counted, refused, and the challenge stays active.\<close>

lemma verify_wrong:
  assumes i: "validateIdentifier ToLower i0 = Inr i"
    and inv: "challenges_inv (idb s)" and act: "active_challenge i (idb s) = Some c"
    and wrong: "lc_CodeHash c \<noteq> HashCode code" "codePattern code" and open': "lc_ConsumedAt c = None"
    and run: "VerifyLoginChallenge ToLower HashCode h i0 code s = (r, s')"
  shows "challenges_inv (idb s') \<and> isl r
    \<and> ((active_challenge i (idb s') = Some c \<and> r \<noteq> Inl (IdentityErr ErrInvalidCode))
       \<or> (lc_Attempts c < MaxVerifyAttempts
          \<and> active_challenge i (idb s') = Some (c\<lparr>lc_Attempts := lc_Attempts c + 1\<rparr>)
          \<and> (r = Inl (IdentityErr ErrInvalidCode) \<longrightarrow> lc_Attempts c + 1 < MaxVerifyAttempts)))"
proof (cases "privateBlocked (vp_AdminPhone h) (vp_AdminEmail h) i")
  case True
  with run verify_blocked [OF i] inv act show ?thesis by auto
next
  case False
  obtain a s1 where a: "activeChallenge (vp_Challenges h) i s = (a, s1)"
    by (cases "activeChallenge (vp_Challenges h) i s")
  then have s1: "idb s1 = idb s" "a = Inr c" using activeChallenge_run [OF a] act by auto
  obtain now s2 where n: "vp_Now h s1 = (now, s2)" by (cases "vp_Now h s1")
  have s2: "idb s2 = idb s" using now_frame [OF n] s1 by simp
  obtain x s3 where ch: "check_challenge HashCode (vp_Challenges h) now code c s2 = (x, s3)"
    by (cases "check_challenge HashCode (vp_Challenges h) now code c s2")
  note cc = check_challenge_run [OF ch]
  have "isl x" using cc wrong by (auto split: if_splits)
  then have "r = map_sum id (\<lambda>_. undefined) x \<and> s' = s3"
    using run i False a s1 n ch wrong(2)
    by (auto simp: VerifyLoginChallenge_def bindE_run bindA_run tryE_run identity_result_run NewCode_def
        split: sum.splits)
  then have r: "isl r" "projl r = projl x" "s' = s3" using \<open>isl x\<close> by (auto simp: isl_def)
  show ?thesis
  proof (cases "lc_IsExpired c now \<or> lc_Attempts c \<ge> MaxVerifyAttempts")
    case True
    then have "idb s' = idb s" "r \<noteq> Inl (IdentityErr ErrInvalidCode)"
      using cc r s2 open' by (auto simp: lc_IsConsumed_def isl_def split: if_splits)
    with inv act r(1) show ?thesis by simp
  next
    case False
    then have "idb s' = snd (pg_challenge_Update (c\<lparr>lc_Attempts := lc_Attempts c + 1\<rparr>) (idb s))"
      and "r = Inl (IdentityErr ErrInvalidCode) \<longrightarrow> lc_Attempts c + 1 < MaxVerifyAttempts"
      using cc r s2 wrong open' by (auto simp: lc_IsConsumed_def isl_def split: if_splits)
    with active_after_attempt [OF inv act refl, of "lc_Attempts c + 1"] False r(1) show ?thesis by auto
  qed
qed

lemma check_challenge_ok:
  assumes "check_challenge HashCode (vp_Challenges h) now code c s = (Inr u, s')"
  shows "now < lc_ExpiresAt c \<and> lc_ConsumedAt c = None \<and> lc_Attempts c < MaxVerifyAttempts
    \<and> lc_CodeHash c = HashCode code
    \<and> idb s' = snd (pg_challenge_Update (c\<lparr>lc_ConsumedAt := Some now\<rparr>) (idb s))"
  using check_challenge_run [OF assms]
  by (auto simp: lc_IsExpired_def lc_IsConsumed_def split: if_splits)

end

text \<open>\<open>n\<close> calls with the codes of a list: their results and the last state.\<close>

primrec guess ::
    "(string \<Rightarrow> string) \<Rightarrow> (string \<Rightarrow> string) \<Rightarrow> 's VerifyLoginPorts \<Rightarrow> LoginIdentifier \<Rightarrow> string list
     \<Rightarrow> 's \<Rightarrow> (gerr + VerifyLoginChallengeResult) list \<times> 's" where
  "guess ToLower HashCode h i [] s = ([], s)"
| "guess ToLower HashCode h i (code # codes) s =
     (case VerifyLoginChallenge ToLower HashCode h i code s of (r, s1) \<Rightarrow>
      case guess ToLower HashCode h i codes s1 of (rs, s2) \<Rightarrow> (r # rs, s2))"

definition has_identifier :: "LoginIdentifier \<Rightarrow> User \<Rightarrow> bool" where
  "has_identifier i u \<longleftrightarrow>
     (if li_Phone i \<noteq> [] then u_Phone u \<noteq> [] \<and> u_Phone u = li_Phone i
      else u_Email u \<noteq> [] \<and> u_Email u = li_Email i)"

context verify_login
begin

text \<open>
  However many wrong codes are tried, at most four are answered with "code does not match"
  (fewer if attempts were counted before), and none logs in.
\<close>

lemma guess_bound:
  assumes i: "validateIdentifier ToLower i0 = Inr i"
    and "challenges_inv (idb s)" and "active_challenge i (idb s) = Some c"
    and "lc_ConsumedAt c = None" and "lc_Attempts c \<le> MaxVerifyAttempts"
    and "\<And>code. code \<in> set codes \<Longrightarrow> codePattern code \<and> lc_CodeHash c \<noteq> HashCode code"
    and "guess ToLower HashCode h i0 codes s = (rs, s')"
  shows "list_all isl rs
    \<and> int (length (filter (\<lambda>r. r = Inl (IdentityErr ErrInvalidCode)) rs))
        \<le> max 0 (MaxVerifyAttempts - 1 - lc_Attempts c)"
  using assms(2-7)
proof (induction codes arbitrary: s c rs)
  case Nil
  then show ?case by simp
next
  case (Cons code codes)
  obtain r s1 where v: "VerifyLoginChallenge ToLower HashCode h i0 code s = (r, s1)"
    by (cases "VerifyLoginChallenge ToLower HashCode h i0 code s")
  obtain rs' where g: "guess ToLower HashCode h i0 codes s1 = (rs', s')" and rs: "rs = r # rs'"
    using Cons.prems(6) v by (auto split: prod.splits)
  have w: "lc_CodeHash c \<noteq> HashCode code" "codePattern code" using Cons.prems(5) by auto
  note vw = verify_wrong [OF i Cons.prems(1,2) w Cons.prems(3) v]
  then consider "active_challenge i (idb s1) = Some c" "r \<noteq> Inl (IdentityErr ErrInvalidCode)"
    | "lc_Attempts c < MaxVerifyAttempts"
      "active_challenge i (idb s1) = Some (c\<lparr>lc_Attempts := lc_Attempts c + 1\<rparr>)"
      "r = Inl (IdentityErr ErrInvalidCode) \<longrightarrow> lc_Attempts c + 1 < MaxVerifyAttempts"
    by blast
  then show ?case
  proof cases
    case 1
    have "list_all isl rs'
      \<and> int (length (filter (\<lambda>r. r = Inl (IdentityErr ErrInvalidCode)) rs'))
        \<le> max 0 (MaxVerifyAttempts - 1 - lc_Attempts c)"
      using Cons.IH [of s1 c rs'] vw 1 Cons.prems g by simp
    with 1 vw rs show ?thesis by simp
  next
    case 2
    let ?c = "c\<lparr>lc_Attempts := lc_Attempts c + 1\<rparr>"
    have "list_all isl rs'
      \<and> int (length (filter (\<lambda>r. r = Inl (IdentityErr ErrInvalidCode)) rs'))
        \<le> max 0 (MaxVerifyAttempts - 1 - lc_Attempts ?c)"
      using Cons.IH [of s1 ?c rs'] vw 2 Cons.prems g by simp
    with 2 vw rs show ?thesis by auto
  qed
qed

lemma existingUser_run:
  assumes "existingUser (vp_Users h) i s = (r, s')"
  shows "idb s' = idb s \<and> (case r of
      Inr u \<Rightarrow> u \<in> set (idb_users (idb s)) \<and> has_identifier i u
    | Inl e \<Rightarrow> e = IdentityErr ErrUserNotFound \<and> (\<forall>u \<in> set (idb_users (idb s)). \<not> has_identifier i u))"
proof (cases "li_Phone i = []")
  case True
  then have "us_ByEmail (vp_Users h) (li_Email i) s = (r, s')"
    using assms by (simp add: existingUser_def)
  from runs_onD [OF by_email this] True show ?thesis
    by (auto simp: pg_user_ByEmail_def has_identifier_def dest: find_SomeD find_NoneD split: option.splits)
next
  case False
  then have "us_ByPhone (vp_Users h) (li_Phone i) s = (r, s')"
    using assms by (simp add: existingUser_def)
  from runs_onD [OF by_phone this] False show ?thesis
    by (auto simp: pg_user_ByPhone_def has_identifier_def dest: find_SomeD find_NoneD split: option.splits)
qed

lemma user_for_login_ok:
  assumes run: "user_for_login h now i s = (Inr user, s')"
  shows "has_identifier i user \<and> user \<in> set (idb_users (idb s'))
    \<and> idb_challenges (idb s') = idb_challenges (idb s) \<and> idb_sessions (idb s') = idb_sessions (idb s)
    \<and> (idb_users (idb s') = idb_users (idb s)
       \<or> (idb_users (idb s') = idb_users (idb s) @ [user]
          \<and> (\<forall>u \<in> set (idb_users (idb s)). \<not> has_identifier i u)))"
proof -
  obtain r s1 where e: "existingUser (vp_Users h) i s = (r, s1)" by (cases "existingUser (vp_Users h) i s")
  note ex = existingUser_run [OF e]
  show ?thesis
  proof (cases r)
    case (Inr u)
    with run e ex show ?thesis by (auto simp: user_for_login_def tryE_run)
  next
    case (Inl er)
    with ex have none: "er = IdentityErr ErrUserNotFound"
      "\<forall>u \<in> set (idb_users (idb s)). \<not> has_identifier i u" and s1: "idb s1 = idb s" by auto
    obtain wid s2 uid s3 s4 s5 where w: "vp_NewID h s1 = (wid, s2)"
      and ws: "vp_Workspaces h \<lparr>w_ID = wid, w_CreatedAt = now\<rparr> s2 = (Inr (), s3)"
      and u: "vp_NewID h s3 = (uid, s4)"
      and us: "us_Save (vp_Users h) \<lparr>u_ID = uid, u_WorkspaceID = wid, u_Phone = li_Phone i,
            u_Email = li_Email i, u_CreatedAt = now\<rparr> s4 = (Inr (), s5)"
      and out: "s' = s5" "user = \<lparr>u_ID = uid, u_WorkspaceID = wid, u_Phone = li_Phone i,
            u_Email = li_Email i, u_CreatedAt = now\<rparr>"
      using run e Inl none
      by (auto simp: user_for_login_def tryE_run bindA_iff bindE_Inr_iff Let_def)
    have s3: "idb s3 = (idb s)\<lparr>idb_workspaces := idb_workspaces (idb s) @ [\<lparr>w_ID = wid, w_CreatedAt = now\<rparr>]\<rparr>"
      using runs_onD [OF ws_save ws] id_frame [OF w] s1
      by (auto simp: pg_workspace_Save_def split: if_splits)
    have s4: "idb s4 = idb s3" using id_frame [OF u] .
    have "idb s5 = (idb s3)\<lparr>idb_users := idb_users (idb s3) @ [user]\<rparr>"
      and ne: "\<not> (li_Phone i = [] \<and> li_Email i = [])"
      using runs_onD [OF user_save us] s4 out by (auto simp: pg_user_Save_def split: if_splits)
    with s3 out none show ?thesis by (auto simp: has_identifier_def)
  qed
qed

lemma open_session_ok:
  assumes run: "open_session HashCode h now user s = (Inr res, s')"
  shows "idb_users (idb s') = idb_users (idb s) \<and> idb_challenges (idb s') = idb_challenges (idb s)
    \<and> (\<exists>se. idb_sessions (idb s') = idb_sessions (idb s) @ [se]
        \<and> se_TokenHash se = HashCode (vl_Token res) \<and> se_RevokedAt se = None
        \<and> se_ID se = pc_SessionID (vl_Principal res)
        \<and> se_UserID se = u_ID user \<and> pc_UserID (vl_Principal res) = u_ID user
        \<and> se_WorkspaceID se = u_WorkspaceID user \<and> pc_WorkspaceID (vl_Principal res) = u_WorkspaceID user
        \<and> se_ExpiresAt se = now + vp_SessionTTL h \<and> vl_ExpiresAt res = now + vp_SessionTTL h)"
proof -
  obtain tok s1 sid s2 where t: "vp_NewToken h s = (Inr tok, s1)" and i: "vp_NewID h s1 = (sid, s2)"
    and sv: "ss_Save (vp_Sessions h)
       \<lparr>se_ID = sid, se_UserID = u_ID user, se_WorkspaceID = u_WorkspaceID user,
        se_TokenHash = HashCode tok, se_CreatedAt = now,
        se_ExpiresAt = now + vp_SessionTTL h, se_RevokedAt = None\<rparr> s2 = (Inr (), s')"
    and res: "res = \<lparr>vl_Token = tok,
         vl_Principal = \<lparr>pc_UserID = u_ID user, pc_WorkspaceID = u_WorkspaceID user, pc_SessionID = sid\<rparr>,
         vl_ExpiresAt = now + vp_SessionTTL h\<rparr>"
    using run by (auto simp: open_session_def bindE_Inr_iff bindA_iff)
  have s2: "idb s2 = idb s" using token_frame [OF t] id_frame [OF i] by simp
  have "idb s' = (idb s)\<lparr>idb_sessions := idb_sessions (idb s) @
       [\<lparr>se_ID = sid, se_UserID = u_ID user, se_WorkspaceID = u_WorkspaceID user,
        se_TokenHash = HashCode tok, se_CreatedAt = now,
        se_ExpiresAt = now + vp_SessionTTL h, se_RevokedAt = None\<rparr>]\<rparr>"
    using runs_onD [OF session_save sv] s2 by (auto simp: pg_session_Save_def split: if_splits)
  with res show ?thesis by simp
qed

text \<open>A login succeeds only with the code of a live challenge, which it uses up.\<close>

lemma verify_ok:
  assumes run: "VerifyLoginChallenge ToLower HashCode h i0 code s = (Inr res, s')"
  shows "\<exists>i c now user. validateIdentifier ToLower i0 = Inr i
    \<and> \<not> privateBlocked (vp_AdminPhone h) (vp_AdminEmail h) i
    \<and> active_challenge i (idb s) = Some c \<and> lc_CodeHash c = HashCode code
    \<and> now < lc_ExpiresAt c \<and> lc_ConsumedAt c = None \<and> lc_Attempts c < MaxVerifyAttempts
    \<and> idb_challenges (idb s') = idb_challenges (snd (pg_challenge_Update (c\<lparr>lc_ConsumedAt := Some now\<rparr>) (idb s)))
    \<and> has_identifier i user \<and> user \<in> set (idb_users (idb s'))
    \<and> pc_UserID (vl_Principal res) = u_ID user \<and> pc_WorkspaceID (vl_Principal res) = u_WorkspaceID user
    \<and> (idb_users (idb s') = idb_users (idb s)
       \<or> (idb_users (idb s') = idb_users (idb s) @ [user]
          \<and> (\<forall>u \<in> set (idb_users (idb s)). \<not> has_identifier i u)))
    \<and> (\<exists>se. idb_sessions (idb s') = idb_sessions (idb s) @ [se]
        \<and> se_TokenHash se = HashCode (vl_Token res) \<and> se_RevokedAt se = None
        \<and> se_ID se = pc_SessionID (vl_Principal res) \<and> se_UserID se = u_ID user
        \<and> se_ExpiresAt se = now + vp_SessionTTL h)"
proof -
  obtain i where i: "validateIdentifier ToLower i0 = Inr i"
    using run by (auto simp: VerifyLoginChallenge_def bindE_Inr_iff identity_result_run)
  have nb: "\<not> privateBlocked (vp_AdminPhone h) (vp_AdminEmail h) i"
    using run verify_blocked [OF i] by force
  obtain a s1 where a: "activeChallenge (vp_Challenges h) i s = (a, s1)"
    by (cases "activeChallenge (vp_Challenges h) i s")
  obtain c now s2 s3 user s4 where c: "a = Inr c" and n: "vp_Now h s1 = (now, s2)"
    and ch: "check_challenge HashCode (vp_Challenges h) now code c s2 = (Inr (), s3)"
    and u: "user_for_login h now i s3 = (Inr user, s4)"
    and o: "open_session HashCode h now user s4 = (Inr res, s')"
    using run i nb a
    by (auto simp: VerifyLoginChallenge_def bindE_Inr_iff identity_result_run tryE_run bindA_iff
        split: sum.splits)
  have s1: "idb s1 = idb s" "active_challenge i (idb s) = Some c"
    using activeChallenge_run [OF a] c by (auto split: option.splits)
  have s2: "idb s2 = idb s" using now_frame [OF n] s1 by simp
  have ids3: "idb_users (idb s3) = idb_users (idb s)" "idb_sessions (idb s3) = idb_sessions (idb s)"
    using check_challenge_ok [OF ch] s2 by (simp_all add: pg_challenge_Update_def)
  show ?thesis
    using i nb s1(2) s2 ids3 check_challenge_ok [OF ch] user_for_login_ok [OF u] open_session_ok [OF o]
    by (intro exI [of _ i] exI [of _ c] exI [of _ now] exI [of _ user]) auto
qed

end

section \<open>Sessions\<close>

locale session_tables =
  fixes HashCode :: "string \<Rightarrow> string"
    and sessions :: "'s SessionStore"
    and Now :: "('s, time) act"
    and idb :: "'s \<Rightarrow> identity_db"
  assumes by_token: "runs_on idb (ss_ByTokenHash sessions t) (pg_session_ByTokenHash t)"
    and by_id: "runs_on idb (ss_ByID sessions i) (pg_session_ByID i)"
    and upd: "runs_on idb (ss_Update sessions se) (pg_session_Update se)"
    and now_frame: "Now s = (n, s') \<Longrightarrow> idb s' = idb s"
begin

text \<open>A token authenticates exactly while its session is active.\<close>

lemma authenticate_run:
  assumes "Authenticate HashCode sessions Now token s = (r, s')"
  shows "idb s' = idb s \<and> (case r of
      Inr p \<Rightarrow> \<exists>se now s1. se \<in> set (idb_sessions (idb s)) \<and> se_TokenHash se = HashCode token
        \<and> Now s1 = (now, s') \<and> se_IsActive se now \<and> p = \<lparr>pc_UserID = se_UserID se, pc_WorkspaceID = se_WorkspaceID se,
            pc_SessionID = se_ID se\<rparr>
    | Inl e \<Rightarrow> e \<in> {IdentityErr ErrSessionNotFound, IdentityErr ErrSessionInactive})"
proof -
  obtain x s1 where b: "ss_ByTokenHash sessions (HashCode token) s = (x, s1)"
    by (cases "ss_ByTokenHash sessions (HashCode token) s")
  have x: "idb s1 = idb s" "case x of Inl e \<Rightarrow> e = IdentityErr ErrSessionNotFound
      | Inr se \<Rightarrow> se \<in> set (idb_sessions (idb s)) \<and> se_TokenHash se = HashCode token"
    using runs_onD [OF by_token b]
    by (auto simp: pg_session_ByTokenHash_def pg_session_query_def dest: find_SomeD split: option.splits)
  show ?thesis
  proof (cases x)
    case (Inl e)
    with assms b x show ?thesis by (auto simp: Authenticate_def bindE_run)
  next
    case (Inr se)
    obtain n s2 where n: "Now s1 = (n, s2)" by (cases "Now s1")
    have "idb s2 = idb s" using now_frame [OF n] x by simp
    show ?thesis
    proof (cases "se_IsActive se n")
      case True
      then have "r = Inr \<lparr>pc_UserID = se_UserID se, pc_WorkspaceID = se_WorkspaceID se,
          pc_SessionID = se_ID se\<rparr> \<and> s' = s2"
        using Inr assms b n by (simp add: Authenticate_def bindE_run bindA_run)
      with True Inr x n \<open>idb s2 = idb s\<close> show ?thesis
        by (simp, intro exI [of _ se]) auto
    next
      case False
      then show ?thesis
        using Inr assms b n \<open>idb s2 = idb s\<close> by (auto simp: Authenticate_def bindE_run bindA_run)
    qed
  qed
qed

text \<open>After a logout no token of the session authenticates.\<close>

lemma logout_ends_session:
  assumes out: "Logout sessions Now sid s = (Inr (), s1)"
    and auth: "Authenticate HashCode sessions Now token s1 = (Inr p, s2)"
  shows "pc_SessionID p \<noteq> sid"
proof
  assume sid: "pc_SessionID p = sid"
  obtain se s3 n s4 where b: "ss_ByID sessions sid s = (Inr se, s3)" and n: "Now s3 = (n, s4)"
    and u: "ss_Update sessions (se_Revoke n se) s4 = (Inr (), s1)"
    using out by (auto simp: Logout_def tryE_run bindA_iff split: prod.splits sum.splits)
  have se: "se \<in> set (idb_sessions (idb s))" "se_ID se = sid" "idb s4 = idb s"
    using runs_onD [OF by_id b] now_frame [OF n]
    by (auto simp: pg_session_ByID_def pg_session_query_def dest: find_SomeD split: option.splits)
  have rid: "se_ID (se_Revoke n se) = sid" using se by (simp add: se_Revoke_def)
  have "idb s1 = (idb s)\<lparr>idb_sessions := update_where (\<lambda>r. se_ID r = sid)
      (\<lambda>r. r\<lparr>se_ExpiresAt := se_ExpiresAt (se_Revoke n se), se_RevokedAt := se_RevokedAt (se_Revoke n se)\<rparr>)
      (idb_sessions (idb s))\<rparr>"
    using runs_onD [OF upd u] se(3) rid by (simp add: pg_session_Update_def)
  then have db1: "idb_sessions (idb s1) = update_where (\<lambda>r. se_ID r = sid)
      (\<lambda>r. r\<lparr>se_ExpiresAt := se_ExpiresAt (se_Revoke n se), se_RevokedAt := se_RevokedAt (se_Revoke n se)\<rparr>)
      (idb_sessions (idb s))"
    by simp
  obtain x now where x: "x \<in> set (idb_sessions (idb s1))" "se_IsActive x now" "se_ID x = sid"
    using authenticate_run [OF auth] sid by fastforce
  from x(1) obtain q where "(se_ID q = sid \<and> x = q\<lparr>se_ExpiresAt := se_ExpiresAt (se_Revoke n se),
      se_RevokedAt := se_RevokedAt (se_Revoke n se)\<rparr>) \<or> (se_ID q \<noteq> sid \<and> x = q)"
    unfolding db1 in_update_where by blast
  then have "se_RevokedAt x = se_RevokedAt (se_Revoke n se)"
  proof (elim disjE conjE)
    assume "se_ID q \<noteq> sid" "x = q"
    with x(3) show ?thesis by simp
  qed simp
  then have "se_RevokedAt x \<noteq> None" by (simp add: se_Revoke_def)
  with x(2) show False by (simp add: se_IsActive_def se_IsRevoked_def)
qed

end

end
