(* ===== verification/Identity_Provision.thy ===== *)
theory Identity_Provision
  imports Identity_Commands
begin

text \<open>
  The provisioning of the private admin (\<open>identity/application/command/provision.go\<close>) runs at
  every start of the API. \<open>provision_twice\<close>: a run after a successful one changes nothing.
\<close>

definition existing_admin :: "string \<Rightarrow> string \<Rightarrow> identity_db \<Rightarrow> User option" where
  "existing_admin phone email db =
     (let by_email = (if email \<noteq> [] then find (\<lambda>r. u_Email r \<noteq> [] \<and> u_Email r = email) (idb_users db) else None)
      in if phone \<noteq> [] then
           (case find (\<lambda>r. u_Phone r \<noteq> [] \<and> u_Phone r = phone) (idb_users db) of
              Some u \<Rightarrow> Some u | None \<Rightarrow> by_email)
         else by_email)"

text \<open>The admin is there with every configured identifier filled in.\<close>

definition admin_settled :: "string \<Rightarrow> string \<Rightarrow> identity_db \<Rightarrow> bool" where
  "admin_settled phone email db \<longleftrightarrow>
     (case existing_admin phone email db of
        None \<Rightarrow> False
      | Some u \<Rightarrow> (phone \<noteq> [] \<longrightarrow> u_Phone u \<noteq> []) \<and> (email \<noteq> [] \<longrightarrow> u_Email u \<noteq> []))"

definition users_inv :: "identity_db \<Rightarrow> bool" where
  "users_inv db \<longleftrightarrow> distinct (map u_ID (idb_users db))"

lemma existing_admin_member: "existing_admin phone email db = Some u \<Longrightarrow> u \<in> set (idb_users db)"
  by (auto simp: existing_admin_def Let_def dest: find_SomeD split: if_splits option.splits)

text \<open>Attaching the missing identifier to the admin that was found settles it.\<close>

lemma attach_settles:
  assumes inv: "users_inv db" and ex: "existing_admin phone email db = Some u"
    and missing: "(phone \<noteq> [] \<and> u_Phone u = []) \<or> (email \<noteq> [] \<and> u_Email u = [])"
    and e2: "u_ID e2 = u_ID u" "u_Phone e2 = (if phone \<noteq> [] \<and> u_Phone u = [] then phone else u_Phone u)"
      "u_Email e2 = (if email \<noteq> [] \<and> u_Email u = [] then email else u_Email u)"
    and upd: "pg_user_Update lower e2 db = (Inr (), db')"
  shows "admin_settled phone email db'"
proof -
  let ?f = "\<lambda>r. r\<lparr>u_Phone := u_Phone e2, u_Email := u_Email e2\<rparr>"
  have mem: "u \<in> set (idb_users db)" by (rule existing_admin_member [OF ex])
  have only: "q = u" if "q \<in> set (idb_users db)" "u_ID q = u_ID e2" for q
    using distinct_key_eq [of u_ID] inv mem that e2(1) by (simp add: users_inv_def)
  have rows: "idb_users db' = update_where (\<lambda>r. u_ID r = u_ID e2) ?f (idb_users db)"
    using upd mem e2(1) by (auto simp: pg_user_Update_def list_ex_iff split: if_splits)
  show ?thesis
  proof (cases "phone = []")
    case True
    then have "u_Email u \<noteq> []"
      using ex by (auto simp: existing_admin_def dest: find_SomeD split: if_splits)
    with missing True show ?thesis by simp
  next
    case False
    let ?P = "\<lambda>r. u_Phone r \<noteq> [] \<and> u_Phone r = phone"
    have filled: "u_Phone (?f u) = phone \<and> (email \<noteq> [] \<longrightarrow> u_Email (?f u) \<noteq> [])"
    proof (cases "find ?P (idb_users db)")
      case None
      then have "u_Email u \<noteq> []"
        using ex False by (auto simp: existing_admin_def Let_def dest: find_SomeD split: if_splits)
      with missing e2 show ?thesis by auto
    next
      case (Some v)
      then have "v = u" "u_Phone u = phone"
        using ex False by (auto simp: existing_admin_def Let_def dest: find_SomeD)
      with False e2 show ?thesis by auto
    qed
    have "find ?P (idb_users db') \<noteq> None"
      unfolding find_None_iff rows using mem filled False e2(1) by (auto simp: in_update_where)
    then obtain w where w: "find ?P (idb_users db') = Some w" by blast
    have "w \<in> set (idb_users db')" "u_Phone w = phone" using find_SomeD [OF w] by auto
    then obtain q where q: "q \<in> set (idb_users db)"
      "(u_ID q = u_ID e2 \<and> w = ?f q) \<or> (u_ID q \<noteq> u_ID e2 \<and> w = q)"
      unfolding rows in_update_where by blast
    have "email \<noteq> [] \<longrightarrow> u_Email w \<noteq> []"
    proof (cases "u_ID q = u_ID e2")
      case True
      with q have "q = u" "w = ?f q" using only by auto
      with filled show ?thesis by simp
    next
      case other: False
      with q(2) \<open>u_Phone w = phone\<close> have wq: "w = q" "u_Phone q = phone" by auto
      have "find ?P (idb_users db) \<noteq> None"
        unfolding find_None_iff using q(1) wq(2) False by auto
      then obtain v where v: "find ?P (idb_users db) = Some v" by blast
      then have "v = u" using ex False by (simp add: existing_admin_def Let_def)
      have Q: "?P (?f r) = ?P r" if "r \<in> set (idb_users db)" "u_ID r = u_ID e2" for r
      proof -
        have "r = u" using only that by blast
        moreover have "u_Phone u = phone" using find_SomeD [OF v] \<open>v = u\<close> by simp
        ultimately show ?thesis using filled by simp
      qed
      have "find ?P (idb_users db') = Some (?f u)"
        using find_update_where [OF Q v] \<open>v = u\<close> e2(1) unfolding rows by simp
      with w filled show ?thesis by simp
    qed
    with w False \<open>u_Phone w = phone\<close> show ?thesis
      by (simp add: admin_settled_def existing_admin_def)
  qed
qed

locale user_tables =
  fixes ToLower lower :: "string \<Rightarrow> string"
    and users :: "'s UserStore"
    and workspaces :: "'s WorkspaceStore"
    and NewID :: "('s, string) act"
    and Now :: "('s, time) act"
    and idb :: "'s \<Rightarrow> identity_db"
  assumes by_phone: "runs_on idb (us_ByPhone users p) (pg_user_ByPhone p)"
    and by_email: "runs_on idb (us_ByEmail users p) (pg_user_ByEmail p)"
    and user_save: "runs_on idb (us_Save users u) (pg_user_Save lower u)"
    and user_upd: "runs_on idb (us_Update users u) (pg_user_Update lower u)"
    and ws_save: "runs_on idb (workspaces w) (pg_workspace_Save w)"
    and id_frame: "leaves idb NewID"
    and now_frame: "leaves idb Now"
begin

lemma by_email_run:
  assumes "(if email \<noteq> [] then tryE (us_ByEmail users email) (\<lambda>u. ok (Some u))
             (\<lambda>e. if e = IdentityErr ErrUserNotFound then ok None else fail e)
         else ok None) s = (r, s')"
  shows "idb s' = idb s \<and> r = Inr (if email \<noteq> []
      then find (\<lambda>r. u_Email r \<noteq> [] \<and> u_Email r = email) (idb_users (idb s)) else None)"
proof (cases "email = []")
  case False
  obtain x s1 where b: "us_ByEmail users email s = (x, s1)" by (cases "us_ByEmail users email s")
  from runs_onD [OF by_email b] b False assms show ?thesis
    by (auto simp: pg_user_ByEmail_def tryE_run split: option.splits)
qed (use assms in simp)

lemma findExisting_run:
  assumes "findExisting users phone email s = (r, s')"
  shows "idb s' = idb s \<and> r = Inr (existing_admin phone email (idb s))"
proof (cases "phone = []")
  case True
  then show ?thesis
    using assms by_email_run [of email s r s'] by (simp add: findExisting_def existing_admin_def)
next
  case False
  let ?by_email = "if email \<noteq> [] then tryE (us_ByEmail users email) (\<lambda>u. ok (Some u))
             (\<lambda>e. if e = IdentityErr ErrUserNotFound then ok None else fail e) else ok None"
  obtain x s1 where b: "us_ByPhone users phone s = (x, s1)" by (cases "us_ByPhone users phone s")
  have s1: "idb s1 = idb s" and x: "x = (case find (\<lambda>r. u_Phone r \<noteq> [] \<and> u_Phone r = phone) (idb_users (idb s)) of
      None \<Rightarrow> Inl (IdentityErr ErrUserNotFound) | Some u \<Rightarrow> Inr u)"
    using runs_onD [OF by_phone b] by (auto simp: pg_user_ByPhone_def split: option.splits)
  show ?thesis
  proof (cases "find (\<lambda>r. u_Phone r \<noteq> [] \<and> u_Phone r = phone) (idb_users (idb s))")
    case None
    with False b x assms have "?by_email s1 = (r, s')"
      by (simp add: findExisting_def tryE_of_Inl)
    from by_email_run [OF this] None False s1 show ?thesis by (simp add: existing_admin_def)
  next
    case (Some u)
    with False b x assms s1 show ?thesis
      by (simp add: findExisting_def tryE_run existing_admin_def)
  qed
qed

lemma provision_settles:
  assumes inv: "users_inv (idb s)"
    and run: "ProvisionAdmin ToLower users workspaces NewID Now phone email s = (Inr (), s')"
  shows "admin_settled phone email (idb s')"
proof -
  obtain p s0 m s1 found s2 where some: "\<not> (phone = [] \<and> email = [])"
    and p: "(if phone \<noteq> [] then identity_result (NewPhone phone) else ok []) s = (Inr p, s0)"
    and m: "(if email \<noteq> [] then identity_result (NewEmail ToLower email) else ok []) s0 = (Inr m, s1)"
    and f: "findExisting users phone email s1 = (Inr found, s2)"
    and go: "provision_found users workspaces NewID Now phone email found s2 = (Inr (), s')"
    using run unfolding ProvisionAdmin_def by (auto simp: bindE_Inr_iff simp del: ok_run split: if_splits)
  have s2: "idb s2 = idb s" and found: "found = existing_admin phone email (idb s)"
    using p m findExisting_run [OF f] by (auto simp: identity_result_run split: if_splits)
  show ?thesis
  proof (cases found)
    case (Some u)
    define e1 where "e1 = (if phone \<noteq> [] \<and> u_Phone u = [] then u\<lparr>u_Phone := phone\<rparr> else u)"
    define e2 where "e2 = (if email \<noteq> [] \<and> u_Email u = [] then e1\<lparr>u_Email := email\<rparr> else e1)"
    show ?thesis
    proof (cases "(phone \<noteq> [] \<and> u_Phone u = []) \<or> (email \<noteq> [] \<and> u_Email u = [])")
      case True
      then have "us_Update users e2 s2 = (Inr (), s')"
        using go Some unfolding e1_def e2_def by (simp add: provision_found_def Let_def)
      from runs_onD [OF user_upd this] s2 have "pg_user_Update lower e2 (idb s) = (Inr (), idb s')"
        by simp
      then show ?thesis
        using True Some found inv
        by (intro attach_settles [OF inv, of phone email u e2 lower])
          (auto simp: e1_def e2_def)
    next
      case False
      then have "idb s' = idb s" using go Some s2 by (auto simp: provision_found_def Let_def)
      with False Some found show ?thesis by (auto simp: admin_settled_def)
    qed
  next
    case None
    obtain now s3 wid s4 s5 uid s6 where n: "Now s2 = (now, s3)" and w: "NewID s3 = (wid, s4)"
      and ws: "workspaces \<lparr>w_ID = wid, w_CreatedAt = now\<rparr> s4 = (Inr (), s5)"
      and u: "NewID s5 = (uid, s6)"
      and us: "us_Save users \<lparr>u_ID = uid, u_WorkspaceID = wid, u_Phone = phone, u_Email = email,
                           u_CreatedAt = now\<rparr> s6 = (Inr (), s')"
      using go None by (auto simp: provision_found_def bindA_iff bindE_Inr_iff)
    let ?new = "\<lparr>u_ID = uid, u_WorkspaceID = wid, u_Phone = phone, u_Email = email, u_CreatedAt = now\<rparr>"
    have "idb s5 = (idb s)\<lparr>idb_workspaces := idb_workspaces (idb s) @ [\<lparr>w_ID = wid, w_CreatedAt = now\<rparr>]\<rparr>"
      using runs_onD [OF ws_save ws] leavesD [OF now_frame n] leavesD [OF id_frame w] s2
      by (auto simp: pg_workspace_Save_def split: if_splits)
    then have "idb_users (idb s6) = idb_users (idb s)"
      using leavesD [OF id_frame u] by simp
    moreover have "idb s' = (idb s6)\<lparr>idb_users := idb_users (idb s6) @ [?new]\<rparr>"
      using runs_onD [OF user_save us] by (auto simp: pg_user_Save_def split: if_splits)
    ultimately have rows: "idb_users (idb s') = idb_users (idb s) @ [?new]" by simp
    have no: "existing_admin phone email (idb s) = None" using None found by simp
    show ?thesis
    proof (cases "phone = []")
      case True
      with no some have "find (\<lambda>r. u_Email r \<noteq> [] \<and> u_Email r = email) (idb_users (idb s)) = None"
        by (simp add: existing_admin_def)
      then have "find (\<lambda>r. u_Email r \<noteq> [] \<and> u_Email r = email) (idb_users (idb s')) = Some ?new"
        unfolding rows using True some by (simp add: find_append_None)
      with True some show ?thesis by (simp add: admin_settled_def existing_admin_def)
    next
      case False
      with no have "find (\<lambda>r. u_Phone r \<noteq> [] \<and> u_Phone r = phone) (idb_users (idb s)) = None"
        by (auto simp: existing_admin_def Let_def split: option.splits)
      then have "find (\<lambda>r. u_Phone r \<noteq> [] \<and> u_Phone r = phone) (idb_users (idb s')) = Some ?new"
        unfolding rows using False by (simp add: find_append_None)
      with False show ?thesis by (simp add: admin_settled_def existing_admin_def)
    qed
  qed
qed

lemma provision_twice:
  assumes inv: "users_inv (idb s)"
    and one: "ProvisionAdmin ToLower users workspaces NewID Now phone email s = (Inr (), s1)"
    and two: "ProvisionAdmin ToLower users workspaces NewID Now phone email s1 = (r, s2)"
  shows "r = Inr () \<and> idb s2 = idb s1"
proof -
  have set: "admin_settled phone email (idb s1)" by (rule provision_settles [OF inv one])
  have some: "\<not> (phone = [] \<and> email = [])" "phone \<noteq> [] \<longrightarrow> phonePattern phone" "email \<noteq> [] \<longrightarrow> emailPattern email"
    using one
    by (auto simp: ProvisionAdmin_def bindE_run identity_result_run NewPhone_def NewEmail_def
        split: if_splits)
  obtain found s3 where f: "findExisting users phone email s1 = (found, s3)"
    by (cases "findExisting users phone email s1")
  obtain u where u: "existing_admin phone email (idb s1) = Some u"
    "phone \<noteq> [] \<longrightarrow> u_Phone u \<noteq> []" "email \<noteq> [] \<longrightarrow> u_Email u \<noteq> []"
    using set by (auto simp: admin_settled_def split: option.splits)
  have "r = Inr () \<and> s2 = s3"
    using two some f findExisting_run [OF f] u
    by (auto simp: ProvisionAdmin_def provision_found_def bindE_run identity_result_run NewPhone_def
        NewEmail_def Let_def split: if_splits)
  with findExisting_run [OF f] show ?thesis by simp
qed

end

end
