(* ===== verification/Composition.thy ===== *)
theory Composition
  imports Todo_Commands Reminder_Planning Reminder_Send Identity_Login Identity_Channels
    Identity_Provision
begin

text \<open>
  The composition roots \<open>cmd/api/wiring.go\<close> and \<open>cmd/worker/main.go\<close>: one state for the
  whole program (\<open>world\<close>), the adapters between the modules (the shims), and the handlers
  as they are wired. What the program does not compute is the record \<open>env\<close>: the clock, the
  random source, River, the mail and SMS providers, PostgreSQL's begin and commit and its text
  functions, \<open>strings.ToLower\<close>, SHA-256 and the configuration. An answer of the environment
  may depend on how many were given before (\<open>wd_tick\<close>).
\<close>

section \<open>Stores on a part of the state\<close>

definition todo_store_on :: "('s \<Rightarrow> 't) \<Rightarrow> ('t \<Rightarrow> 's \<Rightarrow> 's) \<Rightarrow> 't TodoStore \<Rightarrow> 's TodoStore" where
  "todo_store_on get put st =
     \<lparr>ts_Insert = (\<lambda>t. zoom get put (ts_Insert st t)),
      ts_Get = (\<lambda>ws owner i. zoom get put (ts_Get st ws owner i)),
      ts_Update = (\<lambda>t v. zoom get put (ts_Update st t v)),
      ts_List = (\<lambda>ws owner f l. zoom get put (ts_List st ws owner f l)),
      ts_Dashboard = (\<lambda>ws owner n a b. zoom get put (ts_Dashboard st ws owner n a b)),
      ts_SearchCandidates = (\<lambda>ws owner k l. zoom get put (ts_SearchCandidates st ws owner k l)),
      ts_ListAll = (\<lambda>ws owner k l. zoom get put (ts_ListAll st ws owner k l))\<rparr>"

definition delivery_store_on ::
    "('s \<Rightarrow> 't) \<Rightarrow> ('t \<Rightarrow> 's \<Rightarrow> 's) \<Rightarrow> 't DeliveryStore \<Rightarrow> 's DeliveryStore" where
  "delivery_store_on get put st =
     \<lparr>ds_Save = (\<lambda>d. zoom get put (ds_Save st d)),
      ds_Update = (\<lambda>d. zoom get put (ds_Update st d)),
      ds_ByIdempotencyKey = (\<lambda>ws k. zoom get put (ds_ByIdempotencyKey st ws k)),
      ds_ByProviderMessageID = (\<lambda>m. zoom get put (ds_ByProviderMessageID st m)),
      ds_SetProviderJobID = (\<lambda>ws i j. zoom get put (ds_SetProviderJobID st ws i j)),
      ds_PlannedJobIDs = (\<lambda>ws t v. zoom get put (ds_PlannedJobIDs st ws t v)),
      ds_ScheduledForSuppression = (\<lambda>ws t v. zoom get put (ds_ScheduledForSuppression st ws t v)),
      ds_Stats = (\<lambda>ws. zoom get put (ds_Stats st ws)),
      ds_List = (\<lambda>ws f. zoom get put (ds_List st ws f)),
      ds_SaveImported = (\<lambda>d. zoom get put (ds_SaveImported st d)),
      ds_Export = (\<lambda>ws k l. zoom get put (ds_Export st ws k l))\<rparr>"

definition plan_store_on :: "('s \<Rightarrow> 't) \<Rightarrow> ('t \<Rightarrow> 's \<Rightarrow> 's) \<Rightarrow> 't PlanStore \<Rightarrow> 's PlanStore" where
  "plan_store_on get put st =
     \<lparr>ps_Save = (\<lambda>p. zoom get put (ps_Save st p)),
      ps_Get = (\<lambda>ws i. zoom get put (ps_Get st ws i)),
      ps_RevokePlanned = (\<lambda>ws t v n. zoom get put (ps_RevokePlanned st ws t v n))\<rparr>"

definition user_store_on :: "('s \<Rightarrow> 't) \<Rightarrow> ('t \<Rightarrow> 's \<Rightarrow> 's) \<Rightarrow> 't UserStore \<Rightarrow> 's UserStore" where
  "user_store_on get put st =
     \<lparr>us_Save = (\<lambda>u. zoom get put (us_Save st u)),
      us_Update = (\<lambda>u. zoom get put (us_Update st u)),
      us_ByPhone = (\<lambda>p. zoom get put (us_ByPhone st p)),
      us_ByEmail = (\<lambda>p. zoom get put (us_ByEmail st p))\<rparr>"

definition challenge_store_on ::
    "('s \<Rightarrow> 't) \<Rightarrow> ('t \<Rightarrow> 's \<Rightarrow> 's) \<Rightarrow> 't ChallengeStore \<Rightarrow> 's ChallengeStore" where
  "challenge_store_on get put st =
     \<lparr>cs_Save = (\<lambda>c. zoom get put (cs_Save st c)),
      cs_Update = (\<lambda>c. zoom get put (cs_Update st c)),
      cs_ActiveByPhone = (\<lambda>p. zoom get put (cs_ActiveByPhone st p)),
      cs_ActiveByEmail = (\<lambda>p. zoom get put (cs_ActiveByEmail st p)),
      cs_CountByPhoneSince = (\<lambda>p t. zoom get put (cs_CountByPhoneSince st p t)),
      cs_CountByEmailSince = (\<lambda>p t. zoom get put (cs_CountByEmailSince st p t))\<rparr>"

definition session_store_on :: "('s \<Rightarrow> 't) \<Rightarrow> ('t \<Rightarrow> 's \<Rightarrow> 's) \<Rightarrow> 't SessionStore \<Rightarrow> 's SessionStore" where
  "session_store_on get put st =
     \<lparr>ss_Save = (\<lambda>x. zoom get put (ss_Save st x)),
      ss_Update = (\<lambda>x. zoom get put (ss_Update st x)),
      ss_ByID = (\<lambda>i. zoom get put (ss_ByID st i)),
      ss_ByTokenHash = (\<lambda>h. zoom get put (ss_ByTokenHash st h))\<rparr>"

definition channel_store_on :: "('s \<Rightarrow> 't) \<Rightarrow> ('t \<Rightarrow> 's \<Rightarrow> 's) \<Rightarrow> 't ChannelStore \<Rightarrow> 's ChannelStore" where
  "channel_store_on get put st =
     \<lparr>chs_Save = (\<lambda>c. zoom get put (chs_Save st c)),
      chs_Update = (\<lambda>c. zoom get put (chs_Update st c)),
      chs_ByID = (\<lambda>ws u i. zoom get put (chs_ByID st ws u i)),
      chs_ListByUser = (\<lambda>ws u. zoom get put (chs_ListByUser st ws u)),
      chs_ByIDForUpdate = map_option (\<lambda>f ws u i. zoom get put (f ws u i)) (chs_ByIDForUpdate st),
      chs_SetEnabled = map_option (\<lambda>f ws u i b. zoom get put (f ws u i b)) (chs_SetEnabled st)\<rparr>"

text \<open>The laws of a store carry over from the part to the whole.\<close>

lemma zoom_eq: "m (get s) = (r, t) \<Longrightarrow> zoom get put m s = (r, put t s)"
  by (simp add: zoom_run)

lemma zoom_split: "zoom get put m s = (r, s') \<longleftrightarrow> (\<exists>t. m (get s) = (r, t) \<and> s' = put t s)"
  by (auto simp: zoom_def split: prod.splits)

lemma todo_store_on_law:
  assumes st: "todo_store st lk I"
    and get_put: "\<And>t s. get (put t s) = t" and put_get: "\<And>s. put (get s) s = s"
  shows "todo_store (todo_store_on get put st) (\<lambda>s. lk (get s)) (\<lambda>s. I (get s))"
proof (unfold_locales, goal_cases)
  case (1 s ws owner i)
  then show ?case
    using todo_store.get_law [OF st, of "get s" ws owner i]
    by (auto simp: todo_store_on_def zoom_run put_get split: option.splits)
next
  case (2 s ws owner i t)
  then show ?case by (rule todo_store.lookup_scope [OF st])
next
  case (3 s t old v)
  obtain t' where "ts_Update st t v (get s) = (Inr (), t')" "I t'"
    "\<forall>ws owner i. lk t' ws owner i =
       (if i = t_ID t \<and> ws = t_WorkspaceID t \<and> owner = t_OwnerUserID t then Some t
        else lk (get s) ws owner i)"
    using todo_store.update_law [OF st 3] by blast
  then show ?case by (intro exI [of _ "put t' s"]) (simp add: todo_store_on_def zoom_run get_put)
next
  case (4 s t v)
  have "ts_Update st t v (get s) = (Inl (TodoErr ErrConflict), get s)"
    using 4 by (intro todo_store.update_stale_law [OF st]) blast+
  then show ?case by (simp add: todo_store_on_def zoom_run put_get)
next
  case (5 s t r s')
  then obtain t' where run: "ts_Insert st t (get s) = (r, t')" and s': "s' = put t' s"
    by (auto simp: todo_store_on_def zoom_split)
  show ?case
    using todo_store.insert_law [OF st 5(1,2) run] by (auto simp: s' get_put put_get)
qed

lemma delivery_store_on_law:
  assumes st: "delivery_store st rw I"
    and get_put: "\<And>t s. get (put t s) = t" and put_get: "\<And>s. put (get s) s = s"
  shows "delivery_store (delivery_store_on get put st) (\<lambda>s. rw (get s)) (\<lambda>s. I (get s))"
proof (unfold_locales, goal_cases)
  case (1 s ws key d s')
  then obtain t' where run: "ds_ByIdempotencyKey st ws key (get s) = (Inr d, t')" and s': "s' = put t' s"
    by (auto simp: delivery_store_on_def zoom_split)
  show ?case using delivery_store.bykey_found [OF st 1(1) run] by (simp add: s' put_get)
next
  case (2 s ws key s')
  then obtain t' where "ds_ByIdempotencyKey st ws key (get s) = (Inl (ReminderErr ErrDeliveryNotFound), t')"
    by (auto simp: delivery_store_on_def zoom_split)
  with 2(1) show ?case by (rule delivery_store.bykey_missing [OF st])
next
  case (3 s ws key e s')
  then obtain t' where run: "ds_ByIdempotencyKey st ws key (get s) = (Inl e, t')" and s': "s' = put t' s"
    by (auto simp: delivery_store_on_def zoom_split)
  show ?case using delivery_store.bykey_error [OF st 3(1) run] by (simp add: s' put_get)
next
  case (4 s ws key d)
  then show ?case by (rule delivery_store.row_key [OF st])
next
  case (5 s d s')
  then obtain t' where run: "ds_Save st d (get s) = (Inr (), t')" and s': "s' = put t' s"
    by (auto simp: delivery_store_on_def zoom_split)
  show ?case using delivery_store.save_ok [OF st 5(1,2) run] by (simp add: s' get_put)
next
  case (6 s d e s')
  then obtain t' where run: "ds_Save st d (get s) = (Inl e, t')" and s': "s' = put t' s"
    by (auto simp: delivery_store_on_def zoom_split)
  show ?case using delivery_store.save_error [OF st 6(1) run] by (simp add: s' put_get)
next
  case (7 s d old s')
  then obtain t' where run: "ds_Update st d (get s) = (Inr (), t')" and s': "s' = put t' s"
    by (auto simp: delivery_store_on_def zoom_split)
  show ?case using delivery_store.update_ok [OF st 7(1-4) run] by (simp add: s' get_put)
next
  case (8 s d e s')
  then obtain t' where run: "ds_Update st d (get s) = (Inl e, t')" and s': "s' = put t' s"
    by (auto simp: delivery_store_on_def zoom_split)
  show ?case using delivery_store.update_error [OF st 8(1) run] by (simp add: s' put_get)
qed

section \<open>The environment and the state\<close>

text \<open>
  The identifiers \<open>newID\<close> hands out: a sequence of pairwise distinct, non-empty strings
  without a colon. Two version 4 UUIDs may collide; the model assumes that they do not.
\<close>

typedef uuid_source =
  "{f :: nat \<Rightarrow> string. inj f \<and> (\<forall>n. f n \<noteq> [] \<and> CHR '':'' \<notin> set (f n))}"
proof
  show "(\<lambda>n. nat_digits n) \<in>
      {f :: nat \<Rightarrow> string. inj f \<and> (\<forall>n. f n \<noteq> [] \<and> CHR '':'' \<notin> set (f n))}"
    by (auto intro: injI nat_digits_inj simp: nat_digits_no)
qed

setup_lifting type_definition_uuid_source

lift_definition uuid_at :: "uuid_source \<Rightarrow> nat \<Rightarrow> string" is "\<lambda>f. f" .

lift_definition decimal_ids :: uuid_source is nat_digits
  by (auto intro: injI nat_digits_inj simp: nat_digits_no)

lemma uuid_at_eq [simp]: "uuid_at u m = uuid_at u n \<longleftrightarrow> m = n"
  by transfer (auto dest: injD)

lemma uuid_at_colon: "CHR '':'' \<notin> set (uuid_at u n)" and uuid_at_nonempty: "uuid_at u n \<noteq> []"
  by (transfer, simp)+

lemma uuid_at_decimal [simp]: "uuid_at decimal_ids n = nat_digits n"
  by transfer simp

text \<open>
  A provider answers a message with a message id or an error and tells, for the log only,
  whether a message it reported an error for was delivered all the same.
\<close>

type_synonym 'm provider = "nat \<Rightarrow> 'm \<Rightarrow> (gerr + string) \<times> bool"

record env =
  e_Clock :: "nat \<Rightarrow> time"
  e_UUIDs :: uuid_source
  e_RandInt :: "nat \<Rightarrow> gerr + int"
  e_RandBytes :: "nat \<Rightarrow> gerr + 8 word list"
  e_Begin :: "nat \<Rightarrow> gerr + unit"
  e_Commit :: "nat \<Rightarrow> gerr + unit"
  e_InsertTx :: "nat \<Rightarrow> ReminderSendArgs \<Rightarrow> gerr + int"
  e_JobCancel :: "nat \<Rightarrow> int \<Rightarrow> gerr + unit"
  e_EmailNotifier :: "ReminderMessage provider"
  e_SmsNotifier :: "ReminderMessage provider"
  e_CodeMail :: "OutboxMessage provider"
  e_ilike :: "string \<Rightarrow> string \<Rightarrow> bool"
  e_lower :: "string \<Rightarrow> string"
  e_ToLower :: "string \<Rightarrow> string"
  e_HashCode :: "string \<Rightarrow> string"
  e_LoadLocation :: "string \<Rightarrow> (time \<Rightarrow> time \<times> time) option"
  e_SmsDisabled :: bool
  e_LoginChallengeTTL :: int
  e_SessionTTL :: int
  e_ChannelCodeTTL :: int
  e_PrivateAdminPhone :: string
  e_PrivateAdminEmail :: string
  e_ReminderJobMaxAttempts :: int

text \<open>
  The first four fields are the database, River's job table included; the last four are not
  rolled back: how many answers the environment gave, how many identifiers, and the messages
  that left the program.
\<close>

record world =
  wd_todo :: todo_table
  wd_reminder :: reminder_db
  wd_identity :: identity_db
  wd_jobs :: "(ReminderSendArgs \<times> string \<times> time) list"
  wd_tick :: nat
  wd_ids :: nat
  wd_sent :: "(string \<times> ReminderMessage) list"
  wd_mail :: "OutboxMessage list"

definition wd_data :: "world \<Rightarrow> todo_table \<times> reminder_db \<times> identity_db \<times> (ReminderSendArgs \<times> string \<times> time) list" where
  "wd_data w = (wd_todo w, wd_reminder w, wd_identity w, wd_jobs w)"

text \<open>The environment's next answer.\<close>

definition ask :: "(nat \<Rightarrow> 'a) \<Rightarrow> (world, 'a) act" where
  "ask f = (\<lambda>w. (f (wd_tick w), w\<lparr>wd_tick := Suc (wd_tick w)\<rparr>))"

definition world_Now :: "env \<Rightarrow> (world, time) act" where
  "world_Now env = ask (e_Clock env)"

definition world_newID :: "env \<Rightarrow> (world, string) act" where
  "world_newID env = (\<lambda>w. (uuid_at (e_UUIDs env) (wd_ids w), w\<lparr>wd_ids := Suc (wd_ids w)\<rparr>))"

definition issued_ids :: "env \<Rightarrow> world \<Rightarrow> string set" where
  "issued_ids env w = uuid_at (e_UUIDs env) ` {..< wd_ids w}"

section \<open>Random values\<close>

text \<open>\<open>%06d\<close> of an integer below a million, and \<open>%x\<close> of bytes.\<close>

definition six_digits :: "nat \<Rightarrow> string" where
  "six_digits n = (let ds = nat_digits n in replicate (6 - length ds) CHR ''0'' @ ds)"

definition hex_digit :: "nat \<Rightarrow> char" where
  "hex_digit n = (if n < 10 then char_of (48 + n) else char_of (87 + n))"

definition hex_byte :: "8 word \<Rightarrow> string" where
  "hex_byte b = [hex_digit (unat b div 16), hex_digit (unat b mod 16)]"

definition EncodeToString :: "8 word list \<Rightarrow> string" where
  "EncodeToString bs = concat (map hex_byte bs)"

text \<open>\<open>newID\<close> of the sixteen random bytes: version 4, variant 1.\<close>

definition newID_of :: "8 word list \<Rightarrow> string" where
  "newID_of bytes =
     (let b = bytes[6 := or (and (bytes ! 6) 0x0f) 0x40];
          c = b[8 := or (and (b ! 8) 0x3f) 0x80] in
      EncodeToString (take 4 c) @ ''-'' @ EncodeToString (take 2 (drop 4 c)) @ ''-''
        @ EncodeToString (take 2 (drop 6 c)) @ ''-'' @ EncodeToString (take 2 (drop 8 c)) @ ''-''
        @ EncodeToString (drop 10 c))"

definition newSixDigitCode :: "env \<Rightarrow> (world, string) op" where
  "newSixDigitCode env =
     bindA (ask (e_RandInt env)) (\<lambda>r. case r of
         Inl e \<Rightarrow> fail e
       | Inr n \<Rightarrow> ok (six_digits (nat (n mod 1000000))))"

definition newSessionToken :: "env \<Rightarrow> (world, string) op" where
  "newSessionToken env =
     bindA (ask (e_RandBytes env)) (\<lambda>r. case r of
         Inl e \<Rightarrow> fail e
       | Inr bytes \<Rightarrow> ok (EncodeToString bytes))"

section \<open>The database\<close>

definition world_driver :: "env \<Rightarrow> world tx_driver" where
  "world_driver env =
     \<lparr>tx_Begin = ask (e_Begin env), tx_Commit = ask (e_Commit env),
      tx_Rollback = (\<lambda>w w'. w'\<lparr>wd_todo := wd_todo w, wd_reminder := wd_reminder w,
        wd_identity := wd_identity w, wd_jobs := wd_jobs w\<rparr>)\<rparr>"

definition uow :: "env \<Rightarrow> (world, 'a) op \<Rightarrow> (world, 'a) op" where
  "uow env = JoinableUoW_Run (world_driver env) False"

definition todos :: "env \<Rightarrow> world TodoStore" where
  "todos env = todo_store_on wd_todo (\<lambda>t w. w\<lparr>wd_todo := t\<rparr>) (pg_todo_store (e_ilike env))"

definition deliveries :: "world DeliveryStore" where
  "deliveries = delivery_store_on wd_reminder (\<lambda>t w. w\<lparr>wd_reminder := t\<rparr>) pg_delivery_store"

definition plans :: "world PlanStore" where
  "plans = plan_store_on wd_reminder (\<lambda>t w. w\<lparr>wd_reminder := t\<rparr>) pg_plan_store"

definition users :: "env \<Rightarrow> world UserStore" where
  "users env = user_store_on wd_identity (\<lambda>t w. w\<lparr>wd_identity := t\<rparr>) (pg_user_store (e_lower env))"

definition workspaces :: "world WorkspaceStore" where
  "workspaces = (\<lambda>x. zoom wd_identity (\<lambda>t w. w\<lparr>wd_identity := t\<rparr>) (pg_workspace_Save x))"

definition challenges :: "world ChallengeStore" where
  "challenges = challenge_store_on wd_identity (\<lambda>t w. w\<lparr>wd_identity := t\<rparr>) pg_challenge_store"

definition sessions :: "world SessionStore" where
  "sessions = session_store_on wd_identity (\<lambda>t w. w\<lparr>wd_identity := t\<rparr>) pg_session_store"

definition channel_rows :: "world ChannelStore" where
  "channel_rows = channel_store_on wd_identity (\<lambda>t w. w\<lparr>wd_identity := t\<rparr>) pg_channel_store"

section \<open>Jobs and messages\<close>

text \<open>River's insert is in the transaction's database; its cancellation is not modelled further.\<close>

definition insert_tx :: "env \<Rightarrow> ReminderSendArgs \<Rightarrow> string \<Rightarrow> time \<Rightarrow> (world, int) op" where
  "insert_tx env args queue at =
     bindA (ask (\<lambda>k. e_InsertTx env k args)) (\<lambda>r. case r of
         Inl e \<Rightarrow> fail e
       | Inr i \<Rightarrow> (\<lambda>w. (Inr i, w\<lparr>wd_jobs := wd_jobs w @ [(args, queue, at)]\<rparr>)))"

definition scheduler :: "env \<Rightarrow> world JobScheduler" where
  "scheduler env = river_scheduler (insert_tx env)
     (\<lambda>job. bindA (ask (\<lambda>k. e_JobCancel env k job)) ret) (Some PgxTx)"

definition provide ::
    "'m provider \<Rightarrow> ('m \<Rightarrow> world \<Rightarrow> world) \<Rightarrow> 'm \<Rightarrow> (world, string) op" where
  "provide p log_message m w =
     (case p (wd_tick w) m of (r, reached) \<Rightarrow>
        (r, (if reached \<or> \<not> isl r then log_message m else (\<lambda>w. w)) (w\<lparr>wd_tick := Suc (wd_tick w)\<rparr>)))"

definition log_sent :: "string \<Rightarrow> ReminderMessage \<Rightarrow> world \<Rightarrow> world" where
  "log_sent channel m w = w\<lparr>wd_sent := wd_sent w @ [(channel, m)]\<rparr>"

definition log_mail :: "OutboxMessage \<Rightarrow> world \<Rightarrow> world" where
  "log_mail m w = w\<lparr>wd_mail := wd_mail w @ [m]\<rparr>"

definition email_notifier :: "env \<Rightarrow> ReminderMessage \<Rightarrow> (world, string) op" where
  "email_notifier env = provide (e_EmailNotifier env) (log_sent ''email'')"

definition disabledSmsNotifier :: "ReminderMessage \<Rightarrow> (world, string) op" where
  "disabledSmsNotifier m = fail (ExtError ''reminder: sms adapter is disabled'')"

definition selectSmsNotifier :: "env \<Rightarrow> ReminderMessage \<Rightarrow> (world, string) op" where
  "selectSmsNotifier env =
     (if e_SmsDisabled env then disabledSmsNotifier
      else provide (e_SmsNotifier env) (log_sent ''sms''))"

text \<open>The production outbox of verification codes.\<close>

definition productionCodeOutbox :: "(OutboxMessage \<Rightarrow> ('s, unit) op) \<Rightarrow> OutboxMessage \<Rightarrow> ('s, unit) op" where
  "productionCodeOutbox email m =
     (if om_Channel m = ''email'' then email m else fail (IdentityErr ErrSmsUnavailable))"

definition outbox :: "env \<Rightarrow> world MessageOutbox" where
  "outbox env = productionCodeOutbox
     (\<lambda>m. bindE (provide (e_CodeMail env) log_mail m) (\<lambda>_. ok ()))"

section \<open>The shims\<close>

definition planner_shim ::
    "(PlanRequest \<Rightarrow> ('s, unit) op) \<Rightarrow> (RevokeRequest \<Rightarrow> ('s, unit) op) \<Rightarrow> 's ReminderPlanner" where
  "planner_shim plan revoke =
     \<lparr>rp_Plan = (\<lambda>r. plan
        \<lparr>pq_WorkspaceID = pr_WorkspaceID r, pq_TodoID = pr_TodoID r,
         pq_OwnerUserID = pr_OwnerUserID r, pq_Title = pr_Title r,
         pq_TodoReminderVersion = pr_TodoReminderVersion r,
         pq_ScheduledAtUTC = pr_ScheduledAtUTC r, pq_Channels = pr_Channels r\<rparr>),
      rp_Revoke = (\<lambda>r. revoke
        \<lparr>rq_WorkspaceID = rr_WorkspaceID r, rq_TodoID = rr_TodoID r,
         rq_UpToReminderVersion = rr_UpToReminderVersion r, rq_Reason = rr_Reason r\<rparr>)\<rparr>"

text \<open>The kinds of the usable channels: a Go map's keys, sorted.\<close>

definition channelsProvider :: "bool \<Rightarrow> 's ChannelStore \<Rightarrow> 's ChannelsProvider" where
  "channelsProvider smsDisabled channels ws owner =
     bindE (chs_ListByUser channels ws owner) (\<lambda>rows.
       ok (order_rows (\<lambda>a b. \<not> bytes_less b a)
         (filter (\<lambda>k. \<not> (k = ''sms'' \<and> smsDisabled))
           (remdups (map (\<lambda>c. string_of_kind (cc_Kind c)) (filter Usable rows))))))"

definition reminderStats :: "'s DeliveryStore \<Rightarrow> string \<Rightarrow> ('s, ReminderCounts) op" where
  "reminderStats store ws =
     bindE (ds_Stats store ws) (\<lambda>counts.
       ok \<lparr>rc_Succeeded = dc_Succeeded counts, rc_Retrying = dc_Retrying counts,
           rc_Failed = dc_Failed counts, rc_Suppressed = dc_Suppressed counts\<rparr>)"

definition todoReaderShim ::
    "'s TodoStore \<Rightarrow> string \<Rightarrow> string \<Rightarrow> string \<Rightarrow> ('s, ReaderTodoView) op" where
  "todoReaderShim store ws owner i =
     tryE (ts_Get store ws owner i)
       (\<lambda>todo. ok \<lparr>tv_Title = t_Title todo, tv_Status = string_of_status (t_Status todo),
          tv_ReminderVersion = t_ReminderVersion todo, tv_OwnerUserID = t_OwnerUserID todo\<rparr>)
       (\<lambda>e. if e = TodoErr ErrTodoNotFound then fail (ReminderPortErr ports_ErrTodoNotFound)
            else fail e)"

definition resolve_endpoint :: "string \<Rightarrow> ContactChannel list \<Rightarrow> ChannelEndpoint" where
  "resolve_endpoint channel rows =
     (case find (\<lambda>r. string_of_kind (cc_Kind r) = channel) rows of
        Some r \<Rightarrow> \<lparr>ce_Address = cc_Address r, ce_Usable = Usable r\<rparr>
      | None \<Rightarrow> \<lparr>ce_Address = [], ce_Usable = False\<rparr>)"

definition channelResolverShim ::
    "'s ChannelStore \<Rightarrow> string \<Rightarrow> string \<Rightarrow> string \<Rightarrow> ('s, ChannelEndpoint) op" where
  "channelResolverShim channels ws user channel =
     bindE (chs_ListByUser channels ws user) (\<lambda>rows. ok (resolve_endpoint channel rows))"

text \<open>The queues a worker serves, with their concurrency.\<close>

definition reminderQueues :: "bool \<Rightarrow> int \<Rightarrow> int \<Rightarrow> string \<rightharpoonup> int" where
  "reminderQueues smsDisabled emailConcurrency smsConcurrency =
     (if smsDisabled then [''reminder_email'' \<mapsto> emailConcurrency]
      else [''reminder_email'' \<mapsto> emailConcurrency, ''reminder_sms'' \<mapsto> smsConcurrency])"

section \<open>The handlers as wired\<close>

definition planner :: "env \<Rightarrow> world ReminderPlanner" where
  "planner env = planner_shim
     (PlanReminder plans deliveries (scheduler env) (world_newID env) (world_Now env))
     (RevokePlans plans deliveries (scheduler env) (world_Now env))"

definition provider :: "env \<Rightarrow> world ChannelsProvider option" where
  "provider env = Some (channelsProvider (e_SmsDisabled env) channel_rows)"

definition api_CreateTodo :: "env \<Rightarrow> CreateTodoRequest \<Rightarrow> (world, TodoView) op" where
  "api_CreateTodo env = CreateTodo (todos env) (uow env) (planner env) (provider env)
     (world_newID env) (world_Now env)"

definition api_CompleteTodo :: "env \<Rightarrow> VersionedRequest \<Rightarrow> (world, TodoView) op" where
  "api_CompleteTodo env = CompleteTodo (todos env) (uow env) (planner env) (world_Now env)"

definition api_DeleteTodo :: "env \<Rightarrow> VersionedRequest \<Rightarrow> (world, TodoView) op" where
  "api_DeleteTodo env = DeleteTodo (todos env) (uow env) (planner env) (world_Now env)"

definition api_UpdateTodo :: "env \<Rightarrow> UpdateTodoRequest \<Rightarrow> (world, TodoView) op" where
  "api_UpdateTodo env = UpdateTodo (todos env) (uow env) (planner env) (provider env)
     (world_Now env)"

definition api_ListTodos :: "env \<Rightarrow> string \<Rightarrow> string \<Rightarrow> list_filters \<Rightarrow> (world, TodoView list) op" where
  "api_ListTodos env = ListTodos (todos env) (world_Now env)"

definition api_GetTodo :: "env \<Rightarrow> string \<Rightarrow> string \<Rightarrow> string \<Rightarrow> (world, TodoView) op" where
  "api_GetTodo env = GetTodo (todos env) (world_Now env)"

definition api_Dashboard :: "env \<Rightarrow> string \<Rightarrow> string \<Rightarrow> string \<Rightarrow> (world, dashboard_summary) op" where
  "api_Dashboard env = DashboardSummary (todos env) (world_Now env)
     (Some (reminderStats deliveries)) (e_LoadLocation env)"

definition request_ports :: "env \<Rightarrow> world RequestLoginPorts" where
  "request_ports env =
     \<lparr>rl_Challenges = challenges, rl_Outbox = outbox env, rl_NewCode = newSixDigitCode env,
      rl_NewID = world_newID env, rl_Now = world_Now env,
      rl_ChallengeTTL = e_LoginChallengeTTL env, rl_AdminPhone = e_PrivateAdminPhone env,
      rl_AdminEmail = e_PrivateAdminEmail env\<rparr>"

definition verify_ports :: "env \<Rightarrow> world VerifyLoginPorts" where
  "verify_ports env =
     \<lparr>vp_Challenges = challenges, vp_Users = users env, vp_Workspaces = workspaces,
      vp_Sessions = sessions, vp_NewID = world_newID env, vp_NewToken = newSessionToken env,
      vp_Now = world_Now env, vp_SessionTTL = e_SessionTTL env,
      vp_AdminPhone = e_PrivateAdminPhone env, vp_AdminEmail = e_PrivateAdminEmail env\<rparr>"

definition api_RequestLogin :: "env \<Rightarrow> LoginIdentifier \<Rightarrow> (world, unit) op" where
  "api_RequestLogin env = RequestLoginChallenge (e_ToLower env) (e_HashCode env) (request_ports env)"

definition api_VerifyLogin ::
    "env \<Rightarrow> LoginIdentifier \<Rightarrow> string \<Rightarrow> (world, VerifyLoginChallengeResult) op" where
  "api_VerifyLogin env = VerifyLoginChallenge (e_ToLower env) (e_HashCode env) (verify_ports env)"

definition api_Logout :: "env \<Rightarrow> string \<Rightarrow> (world, unit) op" where
  "api_Logout env = Logout sessions (world_Now env)"

definition api_Authenticate :: "env \<Rightarrow> string \<Rightarrow> (world, Principal) op" where
  "api_Authenticate env = Authenticate (e_HashCode env) sessions (world_Now env)"

definition api_AddChannel ::
    "env \<Rightarrow> Principal \<Rightarrow> string \<Rightarrow> string \<Rightarrow> (world, ContactChannelView) op" where
  "api_AddChannel env = AddChannel (e_ToLower env) (e_HashCode env)
     \<lparr>ac_Channels = channel_rows, ac_Outbox = outbox env, ac_NewCode = newSixDigitCode env,
      ac_NewID = world_newID env, ac_Now = world_Now env, ac_CodeTTL = e_ChannelCodeTTL env\<rparr>"

definition resend_ports :: "env \<Rightarrow> world ResendPorts" where
  "resend_ports env =
     \<lparr>rs_Channels = channel_rows, rs_Outbox = outbox env, rs_NewCode = newSixDigitCode env,
      rs_Now = world_Now env, rs_CodeTTL = e_ChannelCodeTTL env\<rparr>"

definition api_ResendChannel :: "env \<Rightarrow> Principal \<Rightarrow> string \<Rightarrow> (world, unit) op" where
  "api_ResendChannel env = ResendChannel (e_HashCode env) (resend_ports env) (uow env)"

definition api_VerifyChannel :: "env \<Rightarrow> Principal \<Rightarrow> string \<Rightarrow> string \<Rightarrow> (world, unit) op" where
  "api_VerifyChannel env = VerifyChannel (e_HashCode env) channel_rows (world_Now env) (Some (uow env))"

definition api_SetChannelEnabled ::
    "Principal \<Rightarrow> string \<Rightarrow> bool \<Rightarrow> (world, ContactChannelView) op" where
  "api_SetChannelEnabled = SetChannelEnabled channel_rows"

definition api_ProvisionAdmin :: "env \<Rightarrow> string \<Rightarrow> string \<Rightarrow> (world, unit) op" where
  "api_ProvisionAdmin env = ProvisionAdmin (e_ToLower env) (users env) workspaces
     (world_newID env) (world_Now env)"

definition api_RecordReceipt :: "env \<Rightarrow> ReceiptRequest \<Rightarrow> (world, unit) op" where
  "api_RecordReceipt env = RecordReceipt deliveries (world_Now env)"

definition api_ListDeliveries :: "string \<Rightarrow> DeliveryFilter \<Rightarrow> (world, ReminderDelivery list) op" where
  "api_ListDeliveries = ListDeliveries deliveries"

definition send_ports :: "env \<Rightarrow> world SendPorts" where
  "send_ports env =
     \<lparr>sp_Plans = plans, sp_Deliveries = deliveries, sp_Todos = todoReaderShim (todos env),
      sp_Channels = channelResolverShim channel_rows, sp_Email = email_notifier env,
      sp_Sms = selectSmsNotifier env, sp_NewID = world_newID env, sp_Now = world_Now env\<rparr>"

definition worker_Work :: "env \<Rightarrow> ReminderSendArgs \<Rightarrow> int \<Rightarrow> (world, unit) op" where
  "worker_Work env = SendWorker_Work (send_ports env) (e_ReminderJobMaxAttempts env)"

end
