(* ===== verification/Composition_Laws.thy ===== *)
theory Composition_Laws
  imports Composition
begin

text \<open>
  The interfaces the component theories state as locales, discharged by the program's own
  stores, schedulers, clocks and shims on the state \<open>world\<close>. After this theory the lemmas of
  the locales hold of the wired handlers.
\<close>

named_theorems wiring \<open>the wired ports\<close>

lemmas [wiring] = todos_def deliveries_def plans_def users_def workspaces_def challenges_def
  sessions_def channel_rows_def todo_store_on_def delivery_store_on_def plan_store_on_def
  user_store_on_def challenge_store_on_def session_store_on_def channel_store_on_def
  pg_todo_store_def pg_delivery_store_def pg_plan_store_def pg_user_store_def
  pg_challenge_store_def pg_session_store_def pg_channel_store_def

section \<open>Frames\<close>

lemma ask_run [simp]: "ask f w = (f (wd_tick w), w\<lparr>wd_tick := Suc (wd_tick w)\<rparr>)"
  by (simp add: ask_def)

lemma Now_run [simp]:
  "world_Now env w = (e_Clock env (wd_tick w), w\<lparr>wd_tick := Suc (wd_tick w)\<rparr>)"
  by (simp add: world_Now_def)

lemma newID_run [simp]:
  "world_newID env w = (uuid_at (e_UUIDs env) (wd_ids w), w\<lparr>wd_ids := Suc (wd_ids w)\<rparr>)"
  by (simp add: world_newID_def)

lemma newSixDigitCode_run:
  "newSixDigitCode env w = (case e_RandInt env (wd_tick w) of
       Inl e \<Rightarrow> (Inl e, w\<lparr>wd_tick := Suc (wd_tick w)\<rparr>)
     | Inr n \<Rightarrow> (Inr (six_digits (nat (n mod 1000000))), w\<lparr>wd_tick := Suc (wd_tick w)\<rparr>))"
  by (simp add: newSixDigitCode_def bindA_run split: sum.splits)

lemma newSessionToken_run:
  "newSessionToken env w = (case e_RandBytes env (wd_tick w) of
       Inl e \<Rightarrow> (Inl e, w\<lparr>wd_tick := Suc (wd_tick w)\<rparr>)
     | Inr bs \<Rightarrow> (Inr (EncodeToString bs), w\<lparr>wd_tick := Suc (wd_tick w)\<rparr>))"
  by (simp add: newSessionToken_def bindA_run split: sum.splits)

lemma provide_split:
  "provide p lg m w = (r, w') \<Longrightarrow>
     w' = lg m (w\<lparr>wd_tick := Suc (wd_tick w)\<rparr>) \<or> (isl r \<and> w' = w\<lparr>wd_tick := Suc (wd_tick w)\<rparr>)"
  by (auto simp: provide_def split: prod.splits if_splits)

lemma outbox_split:
  assumes "outbox env m w = (r, w')"
  shows "w' = log_mail m (w\<lparr>wd_tick := Suc (wd_tick w)\<rparr>)
    \<or> (isl r \<and> (w' = w \<or> w' = w\<lparr>wd_tick := Suc (wd_tick w)\<rparr>))"
proof (cases "om_Channel m = ''email''")
  case True
  obtain q w1 where p: "provide (e_CodeMail env) log_mail m w = (q, w1)"
    by (cases "provide (e_CodeMail env) log_mail m w")
  with assms True have "w' = w1 \<and> isl r = isl q"
    by (cases q) (auto simp: outbox_def productionCodeOutbox_def bindE_run)
  with provide_split [OF p] show ?thesis by auto
qed (use assms in \<open>auto simp: outbox_def productionCodeOutbox_def\<close>)

text \<open>A statement on one part of the database leaves the other parts.\<close>

lemma zoom_part: "zoom get put m w = (r, w') \<Longrightarrow> w' = put (snd (m (get w))) w"
  by (auto simp: zoom_run)

lemma insert_tx_part:
  "insert_tx env args queue at w = (r, w') \<Longrightarrow>
   wd_todo w' = wd_todo w \<and> wd_reminder w' = wd_reminder w \<and> wd_identity w' = wd_identity w
   \<and> wd_ids w' = wd_ids w \<and> wd_sent w' = wd_sent w \<and> wd_mail w' = wd_mail w"
  by (auto simp: insert_tx_def bindA_run split: sum.splits)

section \<open>The transaction\<close>

interpretation tx: transactional "world_driver env" wd_data for env
  by unfold_locales (auto simp: world_driver_def wd_data_def)

section \<open>The tables\<close>

interpretation todo_rows: todo_store "todos env" "\<lambda>w. todo_lookup (wd_todo w)"
    "\<lambda>w. todo_table_inv (wd_todo w)" for env
  unfolding todos_def by (rule todo_store_on_law [OF pg_todo.todo_store_axioms]) simp_all

interpretation delivery_rows: delivery_store deliveries "\<lambda>w. delivery_row (wd_reminder w)"
    "\<lambda>w. delivery_table_inv (wd_reminder w)"
  unfolding deliveries_def
  by (rule delivery_store_on_law [OF pg_delivery.delivery_store_axioms]) simp_all

section \<open>The reminder module\<close>

lemma schedule_keeps:
  assumes "\<And>args q at. keeps I (insert_tx env args q at)"
  shows "keeps I (js_Schedule (scheduler env) job)"
  unfolding scheduler_def river_scheduler_def river_Schedule_def
  by (auto intro!: keeps_rules assms split: option.splits executor.splits)

lemma schedule_part:
  assumes "js_Schedule (scheduler env) job w = (r, w')"
  shows "wd_todo w' = wd_todo w \<and> wd_reminder w' = wd_reminder w \<and> wd_identity w' = wd_identity w"
proof -
  let ?I = "\<lambda>v. wd_todo v = wd_todo w \<and> wd_reminder v = wd_reminder w \<and> wd_identity v = wd_identity w"
  have "keeps ?I (insert_tx env args q at)" for args q at
    by (rule keepsI) (auto dest: insert_tx_part)
  then have "keeps ?I (js_Schedule (scheduler env) job)" by (rule schedule_keeps)
  from keepsD [OF this _ assms] show ?thesis by simp
qed

lemma cancel_part:
  "js_Cancel (scheduler env) job w = (r, w') \<Longrightarrow>
   wd_todo w' = wd_todo w \<and> wd_reminder w' = wd_reminder w \<and> wd_identity w' = wd_identity w"
  by (auto simp: scheduler_def river_scheduler_def bindA_run)

interpretation reminder: reminder_tables plans deliveries "scheduler env" "world_newID env"
    "world_Now env" wd_reminder "issued_ids env" for env
proof (unfold_locales, goal_cases)
  case (13 w i w')
  then show ?case by (auto simp: issued_ids_def lessThan_Suc)
next
  case (9 job w sch w')
  then show ?case by (auto dest: schedule_part)
next
  case (10 k w can w')
  then show ?case by (auto dest: cancel_part)
qed (auto simp: wiring runs_on_zoom leaves_def zoom_run issued_ids_def)

section \<open>The todo module\<close>

text \<open>The planner works on the reminder tables and the jobs: todos and identity stay.\<close>

definition outside_reminder :: "world \<Rightarrow> world \<Rightarrow> bool" where
  "outside_reminder w v \<longleftrightarrow> wd_todo v = wd_todo w \<and> wd_identity v = wd_identity w"

lemma reminder_keeps: "keeps (outside_reminder w) (zoom wd_reminder (\<lambda>t w. w\<lparr>wd_reminder := t\<rparr>) m)"
  by (rule keeps_zoom) (simp add: outside_reminder_def)

lemma clock_keeps: "keepsA (outside_reminder w) (world_Now env)" "keepsA (outside_reminder w) (world_newID env)"
  by (simp_all add: keepsA_def outside_reminder_def)

lemma jobs_keep:
  "keeps (outside_reminder w) (js_Schedule (scheduler env) job)"
  "keeps (outside_reminder w) (js_Cancel (scheduler env) k)"
  by (auto intro!: keepsI simp: outside_reminder_def dest: schedule_part cancel_part)

lemmas planner_keeps = reminder_keeps clock_keeps jobs_keep

lemma plan_keeps: "keeps (outside_reminder w) (rp_Plan (planner env) r)"
  unfolding planner_def planner_shim_def PlanReminder_def plan_deliveries_def set_job_ids_def
    reminder_result_def
  by (auto simp: wiring intro!: keeps_rules planner_keeps)

lemma revoke_keeps: "keeps (outside_reminder w) (rp_Revoke (planner env) r)"
  unfolding planner_def planner_shim_def RevokePlans_def cancel_jobs_def suppress_scheduled_def
    reminder_result_def
  by (auto simp: wiring intro!: keeps_rules planner_keeps)

lemma planner_frame:
  assumes "rp_Plan (planner env) p w = (r, w') \<or> rp_Revoke (planner env) q w = (r, w')"
  shows "wd_todo w' = wd_todo w \<and> wd_identity w' = wd_identity w"
proof -
  have "outside_reminder w w" by (simp add: outside_reminder_def)
  with assms have "outside_reminder w w'" by (auto dest: keepsD [OF plan_keeps] keepsD [OF revoke_keeps])
  then show ?thesis by (simp add: outside_reminder_def)
qed

interpretation todo: todo_commands "todos env" "\<lambda>w. todo_lookup (wd_todo w)"
    "\<lambda>w. todo_table_inv (wd_todo w)" "world_driver env" wd_data "planner env" "world_Now env" for env
proof (unfold_locales, goal_cases)
  case (3 w p r w')
  then show ?case using planner_frame [of env p w r w'] by simp
next
  case (4 w q r w')
  then show ?case using planner_frame [of env _ w r w' q] by simp
qed (simp_all add: wd_data_def)

section \<open>The identity module\<close>

interpretation request: request_login "e_ToLower env" "e_HashCode env" "request_ports env"
    wd_identity wd_mail for env
proof (unfold_locales, goal_cases)
  case (10 m w ob w')
  then show ?case
    using outbox_split [of env m w ob w'] by (auto simp: request_ports_def log_mail_def)
qed (auto simp: request_ports_def wiring runs_on_zoom zoom_run newSixDigitCode_run split: sum.splits)

interpretation verify: verify_login "e_ToLower env" "e_HashCode env" "e_lower env"
    "verify_ports env" wd_identity for env
  by unfold_locales
    (auto simp: verify_ports_def wiring runs_on_zoom newSessionToken_run split: sum.splits)

interpretation session: session_tables "e_HashCode env" sessions "world_Now env" wd_identity for env
  by unfold_locales (auto simp: wiring runs_on_zoom)

interpretation channel: channel_tables "e_ToLower env" "e_HashCode env" channel_rows "outbox env"
    "newSixDigitCode env" "world_newID env" "world_Now env" wd_identity wd_mail
    "\<lambda>ws u i. zoom wd_identity (\<lambda>t w. w\<lparr>wd_identity := t\<rparr>) (pg_channel_ByID ws u i)"
    "\<lambda>ws u i b. zoom wd_identity (\<lambda>t w. w\<lparr>wd_identity := t\<rparr>) (pg_channel_SetEnabled ws u i b)" for env
proof (unfold_locales, goal_cases)
  case (18 m)
  show ?case
  proof (unfold leaves_def, rule allI)
    fix w
    obtain r w' where run: "outbox env m w = (r, w')" by (cases "outbox env m w")
    then show "wd_identity (snd (outbox env m w)) = wd_identity w"
      using outbox_split [OF run] by (auto simp: log_mail_def)
  qed
next
  case (19 m w ob w')
  then show ?case using outbox_split [of env m w ob w'] by (auto simp: log_mail_def)
qed (auto simp: wiring runs_on_zoom leaves_def zoom_run newSixDigitCode_run split: sum.splits)

interpretation user: user_tables "e_ToLower env" "e_lower env" "users env" workspaces
    "world_newID env" "world_Now env" wd_identity for env
  by unfold_locales (auto simp: wiring runs_on_zoom leaves_def)

section \<open>The send command\<close>

text \<open>What a worker reads and never writes: todos, plans and channels.\<close>

type_synonym readable = "todo_table \<times> ReminderPlan list \<times> identity_db"

definition readable :: "world \<Rightarrow> readable" where
  "readable w = (wd_todo w, rdb_plans (wd_reminder w), wd_identity w)"

definition read_plan :: "readable \<Rightarrow> string \<Rightarrow> string \<Rightarrow> ReminderPlan option" where
  "read_plan v ws i = (case v of (_, ps, _) \<Rightarrow>
     map_option scanPlan (find (\<lambda>p. p_WorkspaceID p = ws \<and> p_ID p = i) ps))"

definition reader_view :: "todo \<Rightarrow> ReaderTodoView" where
  "reader_view t = \<lparr>tv_Title = t_Title t, tv_Status = string_of_status (t_Status t),
     tv_ReminderVersion = t_ReminderVersion t, tv_OwnerUserID = t_OwnerUserID t\<rparr>"

definition read_todo :: "readable \<Rightarrow> string \<Rightarrow> string \<Rightarrow> string \<Rightarrow> ReaderTodoView option" where
  "read_todo v ws owner i = (case v of (rows, _, _) \<Rightarrow>
     map_option (\<lambda>r. reader_view (scanTodo r)) (todo_lookup rows ws owner i))"

definition channel_list :: "identity_db \<Rightarrow> string \<Rightarrow> string \<Rightarrow> ContactChannel list" where
  "channel_list db ws user = map scanChannel (order_rows (\<lambda>a b. cc_CreatedAt a \<le> cc_CreatedAt b)
     (filter (\<lambda>r. cc_UserID r = user \<and> cc_WorkspaceID r = ws) (idb_channels db)))"

definition read_endpoint :: "readable \<Rightarrow> string \<Rightarrow> string \<Rightarrow> string \<Rightarrow> ChannelEndpoint" where
  "read_endpoint v ws user channel = (case v of (_, _, db) \<Rightarrow>
     resolve_endpoint channel (channel_list db ws user))"

text \<open>The errors of the notifiers that no store returns.\<close>

definition notifier_error :: "gerr \<Rightarrow> bool" where
  "notifier_error e = (case e of
       ExtError _ \<Rightarrow> True
     | ReminderPortErr p \<Rightarrow> p \<noteq> ports_ErrTodoNotFound
     | _ \<Rightarrow> False)"

lemma deliveries_part:
  "ds_Save deliveries d w = (r, w') \<or> ds_Update deliveries d w = (r, w') \<Longrightarrow>
     readable w' = readable w \<and> wd_sent w' = wd_sent w \<and> (isl r \<longrightarrow> \<not> notifier_error (projl r))"
  by (auto simp: wiring zoom_run readable_def pg_delivery_Save_def pg_delivery_Update_def
      notifier_error_def Let_def split: if_splits)

lemma deliveries_ByKey: "ds_ByIdempotencyKey deliveries ws key w =
    (case delivery_row (wd_reminder w) ws key of
       None \<Rightarrow> (Inl (ReminderErr ErrDeliveryNotFound), w) | Some d \<Rightarrow> (Inr d, w))"
  by (simp add: wiring zoom_run pg_delivery_ByKey split: option.splits)

lemma plans_Get: "ps_Get plans ws i w =
    (case read_plan (readable w) ws i of
       None \<Rightarrow> (Inl (ReminderErr ErrPlanNotFound), w) | Some p \<Rightarrow> (Inr p, w))"
  by (auto simp: wiring zoom_run read_plan_def readable_def pg_plan_Get_def split: option.splits)

lemma todos_Get: "todoReaderShim (todos env) ws owner i w =
    (case read_todo (readable w) ws owner i of
       None \<Rightarrow> (Inl (ReminderPortErr ports_ErrTodoNotFound), w) | Some t \<Rightarrow> (Inr t, w))"
  by (auto simp: wiring zoom_run todoReaderShim_def read_todo_def readable_def pg_todo_Get_def
      todo_lookup_def reader_view_def tryE_run split: option.splits)

lemma channels_Resolve:
  "channelResolverShim channel_rows ws user ch w = (Inr (read_endpoint (readable w) ws user ch), w)"
  by (simp add: wiring zoom_run channelResolverShim_def read_endpoint_def readable_def
      pg_channel_ListByUser_def channel_list_def bindE_run)

lemma provide_log:
  assumes "provide p (log_sent ch) m w = (r, w')"
  shows "readable w' = readable w \<and> wd_reminder w' = wd_reminder w
    \<and> (wd_sent w' = wd_sent w @ [(ch, m)] \<or> (wd_sent w' = wd_sent w \<and> isl r))"
  using provide_split [OF assms] by (auto simp: log_sent_def readable_def)

lemma sms_log:
  assumes "selectSmsNotifier env m w = (r, w')"
  shows "readable w' = readable w \<and> wd_reminder w' = wd_reminder w
    \<and> (wd_sent w' = wd_sent w @ [(''sms'', m)] \<or> (wd_sent w' = wd_sent w \<and> isl r))"
  using assms provide_log
  by (cases "e_SmsDisabled env") (auto simp: selectSmsNotifier_def disabledSmsNotifier_def)

lemma read_plan_workspace: "read_plan v ws i = Some p \<Longrightarrow> p_WorkspaceID p = ws"
  by (auto simp: read_plan_def scanPlan_def dest: find_SomeD split: prod.splits)

interpretation send: send_reminder "send_ports env" "\<lambda>w. delivery_row (wd_reminder w)"
    "\<lambda>w. delivery_table_inv (wd_reminder w)" readable wd_sent read_plan read_todo read_endpoint
    notifier_error for env
proof -
  have d: "sp_Deliveries (send_ports env) = deliveries" for env by (simp add: send_ports_def)
  show "send_reminder (send_ports env) (\<lambda>w. delivery_row (wd_reminder w))
    (\<lambda>w. delivery_table_inv (wd_reminder w)) readable wd_sent read_plan read_todo read_endpoint
    notifier_error" for env
  proof (intro send_reminder.intro send_reminder_axioms.intro, unfold d, goal_cases)
    case 1
    show ?case by (rule delivery_rows.delivery_store_axioms)
  next
    case (2 d w u w')
    then show ?case using deliveries_part [of d w u w'] by simp
  next
    case (3 d w u w')
    then show ?case using deliveries_part [of d w u w'] by simp
  next
    case (14 m w r w')
    then show ?case using provide_log [of "e_EmailNotifier env" "''email''" m w r w']
      by (simp add: send_ports_def email_notifier_def)
  next
    case (15 m w r w')
    then show ?case using sms_log [of env m w r w'] by (simp add: send_ports_def)
  next
    case (17 d w e w')
    then show ?case using deliveries_part [of d w "Inl e" w'] by simp
  next
    case (18 d w e w')
    then show ?case using deliveries_part [of d w "Inl e" w'] by simp
  qed (auto simp: send_ports_def plans_Get todos_Get channels_Resolve readable_def read_plan_workspace
      notifier_error_def deliveries_ByKey split: option.splits dest: read_plan_workspace)
qed

end
