(* ===== verification/Program.thy ===== *)
theory Program
  imports Composition_Laws
begin

text \<open>
  The program as a state machine: a step is one run of a wired handler, whatever it returns and
  whatever the environment answers. \<open>world_inv\<close> holds in every reachable state: the tables'
  keys are unique, todos are well formed, deliveries are in their lifecycle, every identifier
  was handed out, and every plan and delivery belongs to a todo whose reminder version is not
  below theirs.
\<close>

section \<open>The invariant\<close>

definition todo_at :: "todo_table \<Rightarrow> string \<Rightarrow> string \<Rightarrow> int \<Rightarrow> bool" where
  "todo_at rows ws i v \<longleftrightarrow>
     (\<exists>t \<in> set rows. t_ID t = i \<and> t_WorkspaceID t = ws \<and> v \<le> t_ReminderVersion t)"

definition todos_inv :: "env \<Rightarrow> world \<Rightarrow> bool" where
  "todos_inv env w \<longleftrightarrow> todo_table_inv (wd_todo w)
     \<and> (\<forall>t \<in> set (wd_todo w). t_ID t \<in> issued_ids env w \<and> CHR '':'' \<notin> set (t_WorkspaceID t))"

definition plans_inv :: "env \<Rightarrow> world \<Rightarrow> bool" where
  "plans_inv env w \<longleftrightarrow> distinct (map p_ID (rdb_plans (wd_reminder w)))
     \<and> distinct (map (\<lambda>p. (p_TodoID p, p_TodoReminderVersion p)) (rdb_plans (wd_reminder w)))
     \<and> (\<forall>p \<in> set (rdb_plans (wd_reminder w)). p_ID p \<in> issued_ids env w
          \<and> todo_at (wd_todo w) (p_WorkspaceID p) (p_TodoID p) (p_TodoReminderVersion p))"

definition deliveries_inv :: "env \<Rightarrow> world \<Rightarrow> bool" where
  "deliveries_inv env w \<longleftrightarrow> delivery_table_inv (wd_reminder w)
     \<and> (\<forall>d \<in> set (rdb_deliveries (wd_reminder w)). d_ID d \<in> issued_ids env w \<and> delivery_inv d
          \<and> todo_at (wd_todo w) (d_WorkspaceID d) (d_TodoID d) (d_TodoReminderVersion d))"

definition identity_inv :: "identity_db \<Rightarrow> bool" where
  "identity_inv db \<longleftrightarrow> users_inv db \<and> challenges_inv db \<and> channels_inv db
     \<and> distinct (map se_ID (idb_sessions db)) \<and> distinct (map se_TokenHash (idb_sessions db))"

definition world_inv :: "env \<Rightarrow> world \<Rightarrow> bool" where
  "world_inv env w \<longleftrightarrow> todos_inv env w \<and> plans_inv env w \<and> deliveries_inv env w
     \<and> identity_inv (wd_identity w)"

lemmas world_inv_defs = world_inv_def todos_inv_def plans_inv_def deliveries_inv_def

lemma issued_mono: "wd_ids w \<le> wd_ids w' \<Longrightarrow> i \<in> issued_ids env w \<Longrightarrow> i \<in> issued_ids env w'"
  by (auto simp: issued_ids_def)

lemma world_inv_cong:
  assumes "wd_data w' = wd_data w" "wd_ids w \<le> wd_ids w'" "world_inv env w"
  shows "world_inv env w'"
  using assms issued_mono [OF assms(2)]
  by (simp add: wd_data_def world_inv_defs)

section \<open>Safe operations\<close>

text \<open>What a run from a state with the invariant may do.\<close>

definition todos_evolve :: "todo_table \<Rightarrow> todo_table \<Rightarrow> bool" where
  "todos_evolve rows rows' \<longleftrightarrow> (\<forall>t \<in> set rows. \<exists>t' \<in> set rows'. todo_step\<^sup>*\<^sup>* t t')"

definition row_evolves :: "ReminderDelivery \<Rightarrow> ReminderDelivery \<Rightarrow> bool" where
  "row_evolves d d' \<longleftrightarrow> d_ID d' = d_ID d \<and> d_WorkspaceID d' = d_WorkspaceID d
     \<and> d_IdempotencyKey d' = d_IdempotencyKey d \<and> (IsFinal d \<longrightarrow> same_outcome d d')"

definition deliveries_evolve :: "ReminderDelivery list \<Rightarrow> ReminderDelivery list \<Rightarrow> bool" where
  "deliveries_evolve rows rows' \<longleftrightarrow> (\<forall>d \<in> set rows. \<exists>d' \<in> set rows'. row_evolves d d')"

definition plan_evolves :: "ReminderPlan \<Rightarrow> ReminderPlan \<Rightarrow> bool" where
  "plan_evolves p p' \<longleftrightarrow> p_ID p' = p_ID p \<and> p_WorkspaceID p' = p_WorkspaceID p
     \<and> p_TodoID p' = p_TodoID p \<and> p_TodoReminderVersion p' = p_TodoReminderVersion p
     \<and> p_ScheduledAtUTC p' = p_ScheduledAtUTC p \<and> (IsRevoked p \<longrightarrow> IsRevoked p')"

definition plans_evolve :: "ReminderPlan list \<Rightarrow> ReminderPlan list \<Rightarrow> bool" where
  "plans_evolve rows rows' \<longleftrightarrow> (\<forall>p \<in> set rows. \<exists>p' \<in> set rows'. plan_evolves p p')"

definition evolves :: "env \<Rightarrow> world \<Rightarrow> world \<Rightarrow> bool" where
  "evolves env w w' \<longleftrightarrow> world_inv env w' \<and> wd_ids w \<le> wd_ids w'
     \<and> todos_evolve (wd_todo w) (wd_todo w')
     \<and> plans_evolve (rdb_plans (wd_reminder w)) (rdb_plans (wd_reminder w'))
     \<and> deliveries_evolve (rdb_deliveries (wd_reminder w)) (rdb_deliveries (wd_reminder w'))"

definition safe_at :: "env \<Rightarrow> world \<Rightarrow> (world \<Rightarrow> 'a \<times> world) \<Rightarrow> bool" where
  "safe_at env w m \<longleftrightarrow> (world_inv env w \<longrightarrow> evolves env w (snd (m w)))"

named_theorems safe_rules \<open>safe runs through the combinators\<close>

lemma todos_evolve_refl [simp]: "todos_evolve rows rows"
  by (auto simp: todos_evolve_def)

lemma todos_evolve_trans: "todos_evolve a b \<Longrightarrow> todos_evolve b c \<Longrightarrow> todos_evolve a c"
  unfolding todos_evolve_def by (meson rtranclp_trans)

lemma todos_evolve_map:
  "(\<And>r. r \<in> set rows \<Longrightarrow> todo_step\<^sup>*\<^sup>* r (g r)) \<Longrightarrow> todos_evolve rows (map g rows)"
  unfolding todos_evolve_def set_map by blast

lemma row_evolves_refl [simp]: "row_evolves d d"
  by (simp add: row_evolves_def same_outcome_def)

lemma row_evolves_trans: "row_evolves a b \<Longrightarrow> row_evolves b c \<Longrightarrow> row_evolves a c"
  by (auto simp: row_evolves_def same_outcome_final intro: same_outcome_trans)

lemma deliveries_evolve_refl [simp]: "deliveries_evolve rows rows"
  unfolding deliveries_evolve_def using row_evolves_refl by blast

lemma deliveries_evolve_trans: "deliveries_evolve a b \<Longrightarrow> deliveries_evolve b c \<Longrightarrow> deliveries_evolve a c"
  unfolding deliveries_evolve_def by (meson row_evolves_trans)

lemma plans_evolve_refl [simp]: "plans_evolve rows rows"
  unfolding plans_evolve_def plan_evolves_def by blast

lemma plans_evolve_trans: "plans_evolve a b \<Longrightarrow> plans_evolve b c \<Longrightarrow> plans_evolve a c"
  unfolding plans_evolve_def plan_evolves_def by (metis (no_types, lifting))

lemma plans_evolve_append [simp]: "plans_evolve rows (rows @ ps)"
  unfolding plans_evolve_def plan_evolves_def by auto

lemma evolves_refl: "world_inv env w \<Longrightarrow> evolves env w w"
  by (simp add: evolves_def)

lemma evolves_trans: "evolves env a b \<Longrightarrow> evolves env b c \<Longrightarrow> evolves env a c"
  by (auto simp: evolves_def intro: todos_evolve_trans plans_evolve_trans deliveries_evolve_trans)

lemma evolves_inv: "evolves env w w' \<Longrightarrow> world_inv env w'"
  by (simp add: evolves_def)

lemma evolves_issued: "evolves env w w' \<Longrightarrow> i \<in> issued_ids env w \<Longrightarrow> i \<in> issued_ids env w'"
  by (auto simp: evolves_def intro: issued_mono)

lemma todos_evolve_at:
  assumes "todos_evolve rows rows'" "todo_at rows ws i v"
  shows "todo_at rows' ws i v"
proof -
  obtain t where t: "t \<in> set rows" "t_ID t = i" "t_WorkspaceID t = ws" "v \<le> t_ReminderVersion t"
    using assms(2) by (auto simp: todo_at_def)
  then obtain t' where t': "t' \<in> set rows'" "todo_step\<^sup>*\<^sup>* t t'"
    using assms(1) by (auto simp: todos_evolve_def)
  have "same_identity t t'" "t_ReminderVersion t \<le> t_ReminderVersion t'"
    using todo_steps_facts [OF t'(2)] by blast+
  with t t'(1) show ?thesis unfolding todo_at_def same_identity_def by (intro bexI [of _ t']) simp_all
qed

lemma evolves_at: "evolves env w w' \<Longrightarrow> todo_at (wd_todo w) ws i v \<Longrightarrow> todo_at (wd_todo w') ws i v"
  by (auto simp: evolves_def intro: todos_evolve_at)

lemma safe_atI: "(world_inv env w \<Longrightarrow> evolves env w (snd (m w))) \<Longrightarrow> safe_at env w m"
  by (simp add: safe_at_def)

lemma safe_atD: "safe_at env w m \<Longrightarrow> world_inv env w \<Longrightarrow> m w = (r, w') \<Longrightarrow> evolves env w w'"
  by (auto simp: safe_at_def)

lemma safe_given: "(world_inv env w \<Longrightarrow> safe_at env w m) \<Longrightarrow> safe_at env w m"
  by (auto simp: safe_at_def)

lemma safe_ok [safe_rules]: "safe_at env w (ok a)"
  by (rule safe_atI) (simp add: evolves_refl)

lemma safe_fail [safe_rules]: "safe_at env w (fail e)"
  by (rule safe_atI) (simp add: evolves_refl)

lemma safe_ret [safe_rules]: "safe_at env w (ret r)"
  by (rule safe_atI) (simp add: evolves_refl)

lemma safe_tryE:
  assumes m: "safe_at env w m"
    and f: "\<And>a w'. m w = (Inr a, w') \<Longrightarrow> evolves env w w' \<Longrightarrow> safe_at env w' (f a)"
    and h: "\<And>e w'. m w = (Inl e, w') \<Longrightarrow> evolves env w w' \<Longrightarrow> safe_at env w' (h e)"
  shows "safe_at env w (tryE m f h)"
proof (rule safe_atI)
  assume inv: "world_inv env w"
  obtain r w' where run: "m w = (r, w')" by (cases "m w")
  from safe_atD [OF m inv run] have e: "evolves env w w'" .
  show "evolves env w (snd (tryE m f h w))"
  proof (cases r)
    case (Inl x)
    with run h [of x w'] e have "evolves env w' (snd (h x w'))"
      by (simp add: safe_at_def evolves_inv)
    with e show ?thesis using run Inl by (simp add: tryE_run) (rule evolves_trans)
  next
    case (Inr a)
    with run f [of a w'] e have "evolves env w' (snd (f a w'))"
      by (simp add: safe_at_def evolves_inv)
    with e show ?thesis using run Inr by (simp add: tryE_run) (rule evolves_trans)
  qed
qed

lemma safe_bindE:
  assumes "safe_at env w m"
    and "\<And>a w'. m w = (Inr a, w') \<Longrightarrow> evolves env w w' \<Longrightarrow> safe_at env w' (f a)"
  shows "safe_at env w (bindE m f)"
  unfolding bindE_def by (rule safe_tryE [OF assms(1)]) (auto intro: assms(2) safe_fail)

lemma safe_bindA:
  assumes "safe_at env w m"
    and "\<And>a w'. m w = (a, w') \<Longrightarrow> evolves env w w' \<Longrightarrow> safe_at env w' (f a)"
  shows "safe_at env w (bindA m f)"
proof (rule safe_atI)
  assume inv: "world_inv env w"
  obtain a w' where run: "m w = (a, w')" by (cases "m w")
  from safe_atD [OF assms(1) inv run] have e: "evolves env w w'" .
  with run assms(2) [of a w'] have "evolves env w' (snd (f a w'))"
    by (simp add: safe_at_def evolves_inv)
  with e show "evolves env w (snd (bindA m f w))" using run by (simp add: bindA_run) (rule evolves_trans)
qed

text \<open>Loops: what the body relies on is stable.\<close>

lemma safe_foldE:
  assumes body: "\<And>x b w. x \<in> set xs \<Longrightarrow> R w \<Longrightarrow> safe_at env w (f x b)"
    and stable: "\<And>w w'. R w \<Longrightarrow> evolves env w w' \<Longrightarrow> R w'" and "R w"
  shows "safe_at env w (foldE xs b f)"
  using body \<open>R w\<close>
proof (induction xs arbitrary: b w)
  case Nil
  show ?case unfolding foldE.simps forE.simps by (rule safe_ok)
next
  case (Cons x xs)
  have "safe_at env w' (foldE xs c f)" if "evolves env w w'" for c w'
    using Cons.prems stable [OF _ that] by (intro Cons.IH) auto
  then show ?case using Cons.prems by (auto intro!: safe_bindE)
qed

lemma safe_forE:
  assumes body: "\<And>x w. x \<in> set xs \<Longrightarrow> R w \<Longrightarrow> safe_at env w (f x)"
    and stable: "\<And>w w'. R w \<Longrightarrow> evolves env w w' \<Longrightarrow> R w'" and "R w"
  shows "safe_at env w (forE xs f)"
  using body \<open>R w\<close>
proof (induction xs arbitrary: w)
  case Nil
  show ?case unfolding foldE.simps forE.simps by (rule safe_ok)
next
  case (Cons x xs)
  have "safe_at env w' (forE xs f)" if "evolves env w w'" for w'
    using Cons.prems stable [OF _ that] by (intro Cons.IH) auto
  then show ?case using Cons.prems by (auto intro!: safe_bindE)
qed

text \<open>A call that leaves the database and only hands out identifiers.\<close>

lemma safe_outside:
  assumes "\<And>r w'. m w = (r, w') \<Longrightarrow> wd_data w' = wd_data w \<and> wd_ids w \<le> wd_ids w'"
  shows "safe_at env w m"
proof (rule safe_atI)
  assume inv: "world_inv env w"
  have "wd_data (snd (m w)) = wd_data w" "wd_ids w \<le> wd_ids (snd (m w))"
    using assms [of "fst (m w)" "snd (m w)"] by auto
  with inv show "evolves env w (snd (m w))"
    unfolding evolves_def by (auto intro: world_inv_cong simp: wd_data_def)
qed

lemma safe_unit_of_work:
  assumes work: "\<And>w'. wd_data w' = wd_data w \<Longrightarrow> wd_ids w' = wd_ids w \<Longrightarrow> safe_at env w' m"
  shows "safe_at env w (uow env m)"
proof (rule safe_atI)
  assume inv: "world_inv env w"
  let ?w0 = "w\<lparr>wd_tick := Suc (wd_tick w)\<rparr>"
  have d0: "wd_data ?w0 = wd_data w" by (simp add: wd_data_def)
  have inv0: "world_inv env ?w0" by (rule world_inv_cong [OF d0 _ inv]) simp
  have e0: "evolves env w ?w0" using inv0 by (simp add: evolves_def)
  obtain r w1 where run: "m ?w0 = (r, w1)" by (cases "m ?w0")
  have "safe_at env ?w0 m" using work [OF d0] by simp
  from safe_atD [OF this inv0 run] have e1: "evolves env ?w0 w1" .
  have rolled: "evolves env w (tx_Rollback (world_driver env) ?w0 v)" if "wd_ids w1 \<le> wd_ids v" for v
  proof -
    have "wd_data (tx_Rollback (world_driver env) ?w0 v) = wd_data w"
      by (simp add: world_driver_def wd_data_def)
    moreover have "wd_ids w \<le> wd_ids (tx_Rollback (world_driver env) ?w0 v)"
      using that e1 by (simp add: world_driver_def evolves_def)
    ultimately show ?thesis
      unfolding evolves_def using inv by (auto intro: world_inv_cong simp: wd_data_def)
  qed
  have tick: "evolves env w (w1\<lparr>wd_tick := n\<rparr>)" for n
  proof -
    have "world_inv env (w1\<lparr>wd_tick := n\<rparr>)"
      by (rule world_inv_cong [of _ w1]) (simp_all add: wd_data_def evolves_inv [OF e1])
    with evolves_trans [OF e0 e1] show ?thesis by (simp add: evolves_def)
  qed
  show "evolves env w (snd (uow env m w))"
    using e0 run rolled [of w1] rolled [of "w1\<lparr>wd_tick := Suc (wd_tick w1)\<rparr>"] tick
    by (simp add: uow_def JoinableUoW_Run_def TxRunner_Run_def world_driver_def split: sum.splits)
qed

end
