(* ===== verification/Program_Safe.thy ===== *)
theory Program_Safe
  imports Program
begin

text \<open>
  Every statement of the todo and reminder adapters, run on the state of the program, is safe:
  from a state with \<open>world_inv\<close> it leads to one with \<open>world_inv\<close>, and no todo's reminder
  version goes down. A write has the preconditions its caller establishes.
\<close>

section \<open>Statements\<close>

lemma update_where_E:
  assumes "r' \<in> set (update_where P f rows)"
  obtains r where "r \<in> set rows" "r' = (if P r then f r else r)"
  using assms by (auto simp: update_where_def)

lemma safe_same: "(\<And>r w'. m w = (r, w') \<Longrightarrow> w' = w) \<Longrightarrow> safe_at env w m"
  by (rule safe_outside) (auto simp: wd_data_def)

lemma safe_Now [safe_rules]: "safe_at env w (world_Now env')"
  by (rule safe_outside) (auto simp: wd_data_def)

lemma safe_newID [safe_rules]: "safe_at env w (world_newID env')"
  by (rule safe_outside) (auto simp: wd_data_def)

lemma newID_issued: "world_newID env w = (i, w') \<Longrightarrow> i \<in> issued_ids env w' \<and> i \<notin> issued_ids env w"
  by (auto simp: issued_ids_def)

lemma issued_plain: "i \<in> issued_ids env w \<Longrightarrow> i \<noteq> [] \<and> CHR '':'' \<notin> set i"
  by (auto simp: issued_ids_def uuid_at_colon uuid_at_nonempty)

subsection \<open>Todos\<close>

lemma world_inv_todos:
  assumes inv: "world_inv env w"
    and mono: "todos_evolve (wd_todo w) rows"
    and rows: "todo_table_inv rows"
      "\<forall>t \<in> set rows. t_ID t \<in> issued_ids env w \<and> CHR '':'' \<notin> set (t_WorkspaceID t)"
  shows "evolves env w (w\<lparr>wd_todo := rows\<rparr>)"
  using inv rows mono todos_evolve_at [OF mono]
  by (auto simp: evolves_def world_inv_defs issued_ids_def)

lemma safe_Insert:
  assumes "todo_wf t" "t_ID t \<in> issued_ids env w" "CHR '':'' \<notin> set (t_WorkspaceID t)"
  shows "safe_at env w (ts_Insert (todos env') t)"
proof (rule safe_atI)
  assume inv: "world_inv env w"
  show "evolves env w (snd (ts_Insert (todos env') t w))"
  proof (cases "fst (pg_todo_Insert t (wd_todo w))")
    case (Inl e)
    then have "snd (ts_Insert (todos env') t w) = w"
      by (auto simp: wiring zoom_run pg_todo_Insert_def split: if_splits)
    with inv show ?thesis by (simp add: evolves_refl)
  next
    case (Inr u)
    then have new: "t_ID t \<notin> t_ID ` set (wd_todo w)"
      and w': "snd (ts_Insert (todos env') t w) = w\<lparr>wd_todo := wd_todo w @ [t]\<rparr>"
      by (auto simp: wiring zoom_run pg_todo_Insert_def split: if_splits)
    show ?thesis unfolding w'
      using inv assms new
      by (intro world_inv_todos) (auto simp: world_inv_defs todo_table_inv_def todos_evolve_def)
  qed
qed

lemma world_inv_todo_map:
  assumes inv: "world_inv env w"
    and step: "\<And>r. r \<in> set (wd_todo w) \<Longrightarrow> todo_step\<^sup>*\<^sup>* r (g r)"
  shows "evolves env w (w\<lparr>wd_todo := map g (wd_todo w)\<rparr>)"
proof (rule world_inv_todos [OF inv])
  have I: "todo_table_inv (wd_todo w)"
    "\<And>r. r \<in> set (wd_todo w) \<Longrightarrow> t_ID r \<in> issued_ids env w \<and> CHR '':'' \<notin> set (t_WorkspaceID r)"
    using inv by (auto simp: world_inv_def todos_inv_def)
  have keep: "t_ID (g r) = t_ID r \<and> t_WorkspaceID (g r) = t_WorkspaceID r \<and> todo_wf (g r)"
    if r: "r \<in> set (wd_todo w)" for r
  proof -
    have "todo_wf r" using I(1) r by (simp add: todo_table_inv_def list_all_iff)
    with todo_steps_facts [OF step [OF r]] show ?thesis by (simp add: same_identity_def)
  qed
  then have "map t_ID (map g (wd_todo w)) = map t_ID (wd_todo w)" by simp
  moreover have "distinct (map t_ID (wd_todo w))" using I(1) by (simp add: todo_table_inv_def)
  ultimately have "distinct (map t_ID (map g (wd_todo w)))" by (simp only:)
  with keep show "todo_table_inv (map g (wd_todo w))"
    by (simp add: todo_table_inv_def list_all_iff)
  show "\<forall>t \<in> set (map g (wd_todo w)). t_ID t \<in> issued_ids env w \<and> CHR '':'' \<notin> set (t_WorkspaceID t)"
    using keep I(2) by simp
qed (rule todos_evolve_map [OF step])

lemma safe_todo_Update:
  assumes up: "\<And>r. r \<in> set (wd_todo w) \<Longrightarrow> t_ID r = t_ID t \<Longrightarrow> todo_step r t"
  shows "safe_at env w (ts_Update (todos env') t v)"
proof (rule safe_atI)
  assume inv: "world_inv env w"
  let ?P = "\<lambda>r. t_ID r = t_ID t \<and> owned (t_WorkspaceID t) (t_OwnerUserID t) r \<and> t_Version r = v"
  let ?f = "\<lambda>r. r\<lparr>t_Title := t_Title t, t_Description := t_Description t,
             t_DueAtUTC := t_DueAtUTC t, t_TimezoneAtInput := t_TimezoneAtInput t,
             t_Status := t_Status t, t_ReminderVersion := t_ReminderVersion t,
             t_Version := t_Version t, t_UpdatedAt := t_UpdatedAt t,
             t_CompletedAt := t_CompletedAt t, t_DeletedAt := t_DeletedAt t\<rparr>"
  let ?g = "\<lambda>r. if ?P r then t else r"
  have hit: "(if ?P r then ?f r else r) = ?g r \<and> todo_step\<^sup>*\<^sup>* r (?g r)"
    if r: "r \<in> set (wd_todo w)" for r
  proof (cases "?P r")
    case True
    then have "todo_step r t" using up [OF r] by simp
    moreover from this have "same_identity r t" by (rule todo_step_identity)
    then have "?f r = t" by (simp add: same_identity_def)
    ultimately show ?thesis using True by simp
  next
    case False
    show ?thesis unfolding if_not_P [OF False] by simp
  qed
  then have rows: "update_where ?P ?f (wd_todo w) = map ?g (wd_todo w)"
    by (auto simp: update_where_def)
  have "snd (ts_Update (todos env') t v w) = w
      \<or> snd (ts_Update (todos env') t v w) = w\<lparr>wd_todo := map ?g (wd_todo w)\<rparr>"
    unfolding rows [symmetric] by (auto simp: wiring zoom_run pg_todo_Update_def Let_def)
  moreover have "evolves env w (w\<lparr>wd_todo := map ?g (wd_todo w)\<rparr>)"
    by (rule world_inv_todo_map [OF inv]) (use hit in blast)
  ultimately show "evolves env w (snd (ts_Update (todos env') t v w))"
    using inv by (auto simp: evolves_refl)
qed

lemma todos_reads:
  "ts_Get (todos env') ws owner i w = (r, w') \<Longrightarrow> w' = w"
  "ts_List (todos env') ws owner f l w = (r2, w') \<Longrightarrow> w' = w"
  "ts_Dashboard (todos env') ws owner n a b w = (r3, w') \<Longrightarrow> w' = w"
  by (auto simp: wiring zoom_run pg_todo_Get_def pg_todo_List_def pg_todo_Dashboard_def Let_def
      split: option.splits)

lemma stored_todo:
  assumes "world_inv env w" "ts_Get (todos env') ws owner i w = (Inr t, w')"
  shows "t \<in> set (wd_todo w) \<and> t_ID t = i \<and> t_WorkspaceID t = ws \<and> t_OwnerUserID t = owner \<and> todo_wf t"
proof -
  have inv: "todo_table_inv (wd_todo w)" using assms(1) by (simp add: world_inv_defs)
  obtain r where r: "todo_lookup (wd_todo w) ws owner i = Some r" "t = r"
    using assms(2) todo_rows.get_law [OF inv, of env' ws owner i] by (auto split: option.splits)
  then have "r \<in> set (wd_todo w)" by (auto simp: todo_lookup_def dest: find_SomeD)
  with r todo_rows.lookup_scope [OF inv r(1)] show ?thesis by simp
qed

subsection \<open>Plans and deliveries\<close>

lemma world_inv_plans:
  assumes inv: "world_inv env w" and rows: "rdb_deliveries db = rdb_deliveries (wd_reminder w)"
    and plans: "plans_inv env (w\<lparr>wd_reminder := db\<rparr>)"
      "plans_evolve (rdb_plans (wd_reminder w)) (rdb_plans db)"
  shows "evolves env w (w\<lparr>wd_reminder := db\<rparr>)"
  using assms by (simp add: evolves_def world_inv_defs issued_ids_def delivery_table_inv_def)

lemma safe_plan_Save:
  assumes "p_ID p \<in> issued_ids env w"
    and "todo_at (wd_todo w) (p_WorkspaceID p) (p_TodoID p) (p_TodoReminderVersion p)"
  shows "safe_at env w (ps_Save plans p)"
proof (rule safe_atI)
  assume inv: "world_inv env w"
  let ?db = "wd_reminder w\<lparr>rdb_plans := rdb_plans (wd_reminder w) @ [p\<lparr>p_RevokedAt := None\<rparr>]\<rparr>"
  show "evolves env w (snd (ps_Save plans p w))"
  proof (cases "fst (pg_plan_Save p (wd_reminder w))")
    case (Inl e)
    then have "snd (ps_Save plans p w) = w"
      by (auto simp: wiring zoom_run pg_plan_Save_def split: if_splits)
    with inv show ?thesis by (simp add: evolves_refl)
  next
    case (Inr u)
    then have w': "snd (ps_Save plans p w) = w\<lparr>wd_reminder := ?db\<rparr>"
      and new: "p_ID p \<notin> p_ID ` set (rdb_plans (wd_reminder w))"
        "(p_TodoID p, p_TodoReminderVersion p) \<notin>
           (\<lambda>q. (p_TodoID q, p_TodoReminderVersion q)) ` set (rdb_plans (wd_reminder w))"
      by (auto simp: wiring zoom_run pg_plan_Save_def list_ex_iff split: if_splits)
    show ?thesis unfolding w'
      using inv assms new
      by (intro world_inv_plans) (auto simp: world_inv_defs issued_ids_def)
  qed
qed

lemma safe_RevokePlanned: "safe_at env w (ps_RevokePlanned plans ws t v n)"
proof (rule safe_atI)
  assume inv: "world_inv env w"
  let ?f = "\<lambda>p. p\<lparr>p_Status := StatusRevoked, p_RevokedAt := Some n\<rparr>"
  let ?db = "snd (pg_plan_RevokePlanned ws t v n (wd_reminder w))"
  have keys: "map p_ID (rdb_plans ?db) = map p_ID (rdb_plans (wd_reminder w))"
    "map (\<lambda>p. (p_TodoID p, p_TodoReminderVersion p)) (rdb_plans ?db)
       = map (\<lambda>p. (p_TodoID p, p_TodoReminderVersion p)) (rdb_plans (wd_reminder w))"
    by (auto simp: pg_plan_RevokePlanned_def intro!: map_update_where)
  have "p_ID p \<in> issued_ids env w
      \<and> todo_at (wd_todo w) (p_WorkspaceID p) (p_TodoID p) (p_TodoReminderVersion p)"
    if p: "p \<in> set (rdb_plans ?db)" for p
  proof -
    from p obtain q where q: "q \<in> set (rdb_plans (wd_reminder w))" "p = q \<or> p = ?f q"
      unfolding pg_plan_RevokePlanned_def by (auto elim!: update_where_E split: if_splits)
    from q(2) have "p_ID p = p_ID q" "p_WorkspaceID p = p_WorkspaceID q" "p_TodoID p = p_TodoID q"
      "p_TodoReminderVersion p = p_TodoReminderVersion q" by auto
    with q(1) inv show ?thesis by (simp add: world_inv_def plans_inv_def)
  qed
  then have "plans_inv env (w\<lparr>wd_reminder := ?db\<rparr>)"
    using inv keys by (simp add: world_inv_def plans_inv_def issued_ids_def)
  moreover have "plans_evolve (rdb_plans (wd_reminder w)) (rdb_plans ?db)"
    unfolding plans_evolve_def
  proof
    fix p
    assume "p \<in> set (rdb_plans (wd_reminder w))"
    then have "p \<in> set (rdb_plans ?db) \<or> ?f p \<in> set (rdb_plans ?db)"
      by (auto simp: pg_plan_RevokePlanned_def update_where_def)
    moreover have "plan_evolves p p" "plan_evolves p (?f p)"
      by (simp_all add: plan_evolves_def IsRevoked_def)
    ultimately show "\<exists>p' \<in> set (rdb_plans ?db). plan_evolves p p'" by blast
  qed
  ultimately have "evolves env w (w\<lparr>wd_reminder := ?db\<rparr>)"
    using inv by (intro world_inv_plans) (simp_all add: pg_plan_RevokePlanned_def)
  then show "evolves env w (snd (ps_RevokePlanned plans ws t v n w))"
    by (simp add: wiring zoom_run)
qed

lemma world_inv_deliveries:
  assumes inv: "world_inv env w" and plans: "rdb_plans db = rdb_plans (wd_reminder w)"
    and rows: "deliveries_inv env (w\<lparr>wd_reminder := db\<rparr>)"
      "deliveries_evolve (rdb_deliveries (wd_reminder w)) (rdb_deliveries db)"
  shows "evolves env w (w\<lparr>wd_reminder := db\<rparr>)"
  using assms by (simp add: evolves_def world_inv_defs issued_ids_def)

lemma delivery_inv_origin [simp]: "delivery_inv (d\<lparr>d_Origin := x\<rparr>) = delivery_inv d"
  by (simp add: delivery_inv_def IsFinal_def)

lemma delivery_inv_job [simp]: "delivery_inv (d\<lparr>d_ProviderJobID := x\<rparr>) = delivery_inv d"
  by (simp add: delivery_inv_def IsFinal_def)

lemma scan_state:
  assumes "delivery_inv d"
  shows "DeliveryState_of (string_of_state (d_State d)) = d_State d"
proof -
  have "d_State d \<in> {StateScheduled, StateSending, StateSucceeded, StateFailed, StateSuppressed}"
    using assms unfolding delivery_inv_def by (rule conjunct1)
  then show ?thesis by (auto simp: DeliveryState_of_def)
qed

lemma delivery_inv_cong:
  assumes "d_State d' = d_State d" "d_AttemptCount d' = d_AttemptCount d"
    "d_FinalizedAt d' = d_FinalizedAt d" "d_SuppressionReason d' = None \<longleftrightarrow> d_SuppressionReason d = None"
    "d_ProviderMessageID d' = d_ProviderMessageID d" "d_SubmittedAt d' = d_SubmittedAt d"
    "d_LastErrorCode d' = d_LastErrorCode d" "d_ReceiptState d' = None \<longleftrightarrow> d_ReceiptState d = None"
    "d_Channel d' = d_Channel d" "d_IdempotencyKey d' = d_IdempotencyKey d"
    "d_WorkspaceID d' = d_WorkspaceID d" "d_TodoID d' = d_TodoID d"
    "d_TodoReminderVersion d' = d_TodoReminderVersion d"
  shows "delivery_inv d' \<longleftrightarrow> delivery_inv d"
  unfolding delivery_inv_def IsFinal_def assms ..

lemma delivery_inv_scan:
  assumes "delivery_inv d"
  shows "delivery_inv (scanDelivery d)"
proof -
  have "delivery_inv (scanDelivery d) \<longleftrightarrow> delivery_inv d"
    by (rule delivery_inv_cong)
      (simp_all add: scanDelivery_def scanDeliveryWithOrigin_def scan_state [OF assms])
  with assms show ?thesis by simp
qed

lemma delivery_inv_set: "delivery_inv d \<Longrightarrow> delivery_inv r \<Longrightarrow> delivery_inv (set_columns d r)"
  by (simp add: delivery_inv_def IsFinal_def set_columns_def)

lemma safe_delivery_Save:
  assumes "delivery_inv d" "d_ID d \<in> issued_ids env w"
    and "todo_at (wd_todo w) (d_WorkspaceID d) (d_TodoID d) (d_TodoReminderVersion d)"
  shows "safe_at env w (ds_Save deliveries d)"
proof (rule safe_atI)
  assume inv: "world_inv env w"
  let ?db = "wd_reminder w\<lparr>rdb_deliveries := rdb_deliveries (wd_reminder w) @ [d\<lparr>d_Origin := OriginLocal\<rparr>]\<rparr>"
  show "evolves env w (snd (ds_Save deliveries d w))"
  proof (cases "fst (pg_delivery_Save d (wd_reminder w))")
    case (Inl e)
    then have "snd (ds_Save deliveries d w) = w"
      by (auto simp: wiring zoom_run pg_delivery_Save_def split: if_splits)
    with inv show ?thesis by (simp add: evolves_refl)
  next
    case (Inr u)
    then have w': "snd (ds_Save deliveries d w) = w\<lparr>wd_reminder := ?db\<rparr>"
      and new: "d_ID d \<notin> d_ID ` set (rdb_deliveries (wd_reminder w))"
        "d_IdempotencyKey d \<notin> d_IdempotencyKey ` set (rdb_deliveries (wd_reminder w))"
      by (auto simp: wiring zoom_run pg_delivery_Save_def key_taken_def list_ex_iff split: if_splits)
    show ?thesis unfolding w'
      using inv assms new
      by (intro world_inv_deliveries)
        (auto simp: world_inv_defs issued_ids_def delivery_table_inv_def deliveries_evolve_def
          intro: row_evolves_refl)
  qed
qed

lemma safe_rows:
  assumes keep: "\<And>r. r \<in> set (rdb_deliveries (wd_reminder w)) \<Longrightarrow> d_ID (f r) = d_ID r
      \<and> d_IdempotencyKey (f r) = d_IdempotencyKey r \<and> d_WorkspaceID (f r) = d_WorkspaceID r
      \<and> d_TodoID (f r) = d_TodoID r \<and> d_TodoReminderVersion (f r) = d_TodoReminderVersion r
      \<and> (delivery_inv r \<longrightarrow> delivery_inv (f r)) \<and> (P r \<longrightarrow> IsFinal r \<longrightarrow> same_outcome r (f r))"
    and run: "\<And>r w'. m w = (r, w') \<Longrightarrow> w' = w
      \<or> w' = w\<lparr>wd_reminder := wd_reminder w\<lparr>rdb_deliveries := update_where P f (rdb_deliveries (wd_reminder w))\<rparr>\<rparr>"
  shows "safe_at env w m"
proof (rule safe_atI)
  assume inv: "world_inv env w"
  let ?rows = "update_where P f (rdb_deliveries (wd_reminder w))"
  have "map d_ID ?rows = map d_ID (rdb_deliveries (wd_reminder w))"
    "map d_IdempotencyKey ?rows = map d_IdempotencyKey (rdb_deliveries (wd_reminder w))"
    using keep by (auto intro!: map_update_where)
  moreover have "d_ID d \<in> issued_ids env w \<and> delivery_inv d
      \<and> todo_at (wd_todo w) (d_WorkspaceID d) (d_TodoID d) (d_TodoReminderVersion d)"
    if d: "d \<in> set ?rows" for d
  proof -
    from d obtain r where r: "r \<in> set (rdb_deliveries (wd_reminder w))" "d = (if P r then f r else r)"
      by (rule update_where_E)
    have "delivery_inv r" using r(1) inv by (simp add: world_inv_def deliveries_inv_def)
    with r(2) keep [OF r(1)] have "d_ID d = d_ID r" "d_WorkspaceID d = d_WorkspaceID r"
      "d_TodoID d = d_TodoID r" "d_TodoReminderVersion d = d_TodoReminderVersion r" "delivery_inv d"
      by auto
    with r(1) inv show ?thesis by (simp add: world_inv_def deliveries_inv_def)
  qed
  ultimately have "deliveries_inv env (w\<lparr>wd_reminder := wd_reminder w\<lparr>rdb_deliveries := ?rows\<rparr>\<rparr>)"
    using inv by (simp add: world_inv_def deliveries_inv_def delivery_table_inv_def issued_ids_def)
  moreover have "deliveries_evolve (rdb_deliveries (wd_reminder w)) ?rows"
    unfolding deliveries_evolve_def
  proof
    fix r
    assume r: "r \<in> set (rdb_deliveries (wd_reminder w))"
    then have "(if P r then f r else r) \<in> set ?rows" by (simp add: update_where_def)
    moreover have "row_evolves r (if P r then f r else r)"
      using keep [OF r] by (simp add: row_evolves_def same_outcome_def)
    ultimately show "\<exists>d' \<in> set ?rows. row_evolves r d'" by blast
  qed
  ultimately have "evolves env w (w\<lparr>wd_reminder := wd_reminder w\<lparr>rdb_deliveries := ?rows\<rparr>\<rparr>)"
    using inv by (intro world_inv_deliveries) simp_all
  with run [of "fst (m w)" "snd (m w)"] inv show "evolves env w (snd (m w))"
    by (auto simp: evolves_refl)
qed

text \<open>An update may finalise a row that is open, and leaves the outcome of a final one.\<close>

definition open_row :: "world \<Rightarrow> ReminderDelivery \<Rightarrow> bool" where
  "open_row w d \<longleftrightarrow> (\<forall>r \<in> set (rdb_deliveries (wd_reminder w)). d_ID r = d_ID d \<longrightarrow> \<not> IsFinal r)"

definition may_set :: "world \<Rightarrow> ReminderDelivery \<Rightarrow> bool" where
  "may_set w d \<longleftrightarrow> (\<forall>r \<in> set (rdb_deliveries (wd_reminder w)). d_ID r = d_ID d \<longrightarrow> IsFinal r \<longrightarrow>
     same_outcome r (set_columns d r))"

lemma open_may_set: "open_row w d \<Longrightarrow> d_ID d' = d_ID d \<Longrightarrow> may_set w d'"
  by (auto simp: open_row_def may_set_def)

lemma safe_delivery_Update:
  assumes "delivery_inv d" "may_set w d"
  shows "safe_at env w (ds_Update deliveries d)"
proof (rule safe_rows [where f = "set_columns d"
      and P = "\<lambda>r. d_WorkspaceID r = d_WorkspaceID d \<and> d_ID r = d_ID d"])
  show "d_ID (set_columns d r) = d_ID r
      \<and> d_IdempotencyKey (set_columns d r) = d_IdempotencyKey r
      \<and> d_WorkspaceID (set_columns d r) = d_WorkspaceID r
      \<and> d_TodoID (set_columns d r) = d_TodoID r
      \<and> d_TodoReminderVersion (set_columns d r) = d_TodoReminderVersion r
      \<and> (delivery_inv r \<longrightarrow> delivery_inv (set_columns d r))
      \<and> (d_WorkspaceID r = d_WorkspaceID d \<and> d_ID r = d_ID d \<longrightarrow> IsFinal r \<longrightarrow>
           same_outcome r (set_columns d r))"
    if "r \<in> set (rdb_deliveries (wd_reminder w))" for r
    using delivery_inv_set [OF assms(1)] assms(2) that by (simp add: may_set_def)
qed (auto simp: wiring zoom_run pg_delivery_Update_def Let_def)

text \<open>The other rows stay as they are.\<close>

lemma update_open:
  assumes "ds_Update deliveries d w = (r, w')"
  shows "open_row w e \<Longrightarrow> \<not> IsFinal d \<or> d_ID e \<noteq> d_ID d \<Longrightarrow> open_row w' e"
  using assms
  by (auto simp: wiring zoom_run pg_delivery_Update_def Let_def open_row_def in_update_where
      set_columns_def IsFinal_def split: if_splits)

lemma safe_SetProviderJobID: "safe_at env w (ds_SetProviderJobID deliveries ws i j)"
  by (rule safe_rows [where f = "\<lambda>r. r\<lparr>d_ProviderJobID := Some j\<rparr>"])
    (auto simp: wiring zoom_run pg_delivery_SetProviderJobID_def same_outcome_def)

lemma reminder_reads:
  "ps_Get plans ws i w = (r1, w') \<Longrightarrow> w' = w"
  "ds_ByIdempotencyKey deliveries ws k w = (r2, w') \<Longrightarrow> w' = w"
  "ds_ByProviderMessageID deliveries k w = (r2, w') \<Longrightarrow> w' = w"
  "ds_PlannedJobIDs deliveries ws k v w = (r3, w') \<Longrightarrow> w' = w"
  "ds_ScheduledForSuppression deliveries ws k v w = (r4, w') \<Longrightarrow> w' = w"
  "ds_Stats deliveries ws w = (r5, w') \<Longrightarrow> w' = w"
  "ds_List deliveries ws f w = (r4, w') \<Longrightarrow> w' = w"
  by (auto simp: wiring zoom_run pg_plan_Get_def pg_delivery_ByIdempotencyKey_def
      pg_delivery_ByProviderMessageID_def pg_delivery_PlannedJobIDs_def
      pg_delivery_ScheduledForSuppression_def pg_delivery_Stats_def pg_delivery_List_def
      split: option.splits)

lemma read_deliveries:
  assumes "world_inv env w"
  shows "ds_ByIdempotencyKey deliveries ws k w = (Inr d, w') \<Longrightarrow> delivery_inv d"
    "ds_ByProviderMessageID deliveries k w = (Inr d, w') \<Longrightarrow> delivery_inv d"
    "ds_ScheduledForSuppression deliveries ws k v w = (Inr ds, w') \<Longrightarrow> \<forall>d \<in> set ds. delivery_inv d"
  using assms
  by (auto simp: wiring zoom_run pg_delivery_ByIdempotencyKey_def
      pg_delivery_ByProviderMessageID_def pg_delivery_ScheduledForSuppression_def
      world_inv_defs split: option.splits dest!: find_SomeD intro!: delivery_inv_scan)

end
