(* ===== verification/Program_Run.thy ===== *)
theory Program_Run
  imports Program_Safe
begin

text \<open>
  Every wired handler is safe, the program's step relation, and its invariant.
\<close>

section \<open>Calls outside the database\<close>

lemma safe_quiet:
  assumes "\<And>r w'. m w = (r, w') \<Longrightarrow> wd_todo w' = wd_todo w \<and> wd_reminder w' = wd_reminder w
      \<and> wd_identity w' = wd_identity w \<and> wd_ids w \<le> wd_ids w'"
  shows "safe_at env w m"
proof (rule safe_atI)
  assume inv: "world_inv env w"
  have q: "wd_todo (snd (m w)) = wd_todo w" "wd_reminder (snd (m w)) = wd_reminder w"
    "wd_identity (snd (m w)) = wd_identity w" "wd_ids w \<le> wd_ids (snd (m w))"
    using assms [of "fst (m w)" "snd (m w)"] by auto
  with inv issued_mono [OF q(4)] show "evolves env w (snd (m w))"
    by (simp add: evolves_def world_inv_defs)
qed

lemma safe_result [safe_rules]:
  "safe_at env w (reminder_result r)" "safe_at env w (domain_result r2)" "safe_at env w (identity_result r3)"
  unfolding reminder_result_def domain_result_def identity_result_def by (rule safe_ret)+

lemma safe_Schedule: "safe_at env w (js_Schedule (scheduler env') job)"
proof (rule safe_quiet)
  fix r w'
  assume run: "js_Schedule (scheduler env') job w = (r, w')"
  let ?I = "\<lambda>v. wd_ids v = wd_ids w"
  have "keeps ?I (insert_tx env' args q at)" for args q at
    by (rule keepsI) (auto dest: insert_tx_part)
  then have "keeps ?I (js_Schedule (scheduler env') job)" by (rule schedule_keeps)
  from keepsD [OF this _ run] schedule_part [OF run]
  show "wd_todo w' = wd_todo w \<and> wd_reminder w' = wd_reminder w
      \<and> wd_identity w' = wd_identity w \<and> wd_ids w \<le> wd_ids w'" by simp
qed

lemma safe_Cancel: "safe_at env w (js_Cancel (scheduler env') job)"
  by (rule safe_quiet) (auto simp: scheduler_def river_scheduler_def bindA_run)

lemma safe_read: "(\<And>r w'. m w = (r, w') \<Longrightarrow> w' = w) \<Longrightarrow> safe_at env w m"
  by (rule safe_quiet) simp

lemma safe_if [safe_rules]:
  "(b \<Longrightarrow> safe_at env w m) \<Longrightarrow> (\<not> b \<Longrightarrow> safe_at env w m') \<Longrightarrow> safe_at env w (if b then m else m')"
  by simp

section \<open>The reminder module\<close>

lemma safe_plan_deliveries:
  assumes at: "todo_at (wd_todo w) (p_WorkspaceID plan) (p_TodoID plan) (p_TodoReminderVersion plan)"
  shows "safe_at env w (plan_deliveries deliveries (world_newID env) (world_Now env) req plan)"
  unfolding plan_deliveries_def
proof (rule safe_foldE [where R = "\<lambda>v. todo_at (wd_todo v) (p_WorkspaceID plan) (p_TodoID plan)
    (p_TodoReminderVersion plan)"], goal_cases)
  case (1 channel ids v)
  show ?case
  proof (rule safe_bindA [OF safe_newID], rule safe_bindA [OF safe_Now],
      rule safe_bindE [OF safe_result(1)], goal_cases)
    case (1 i v1 now v2 d v3)
    have e: "evolves env v1 v3" using 1(4,6) by (rule evolves_trans)
    have i: "i \<in> issued_ids env v3"
      using newID_issued [OF 1(1)] e by (auto intro: evolves_issued)
    have at3: "todo_at (wd_todo v3) (p_WorkspaceID plan) (p_TodoID plan) (p_TodoReminderVersion plan)"
      using \<open>todo_at (wd_todo v) _ _ _\<close> 1(2) e by (blast intro: evolves_at)
    have new: "NewDelivery i (p_WorkspaceID plan) (pq_OwnerUserID req)
         (p_TodoID plan) (p_TodoReminderVersion plan) (p_ID plan) channel (pq_Title req)
         (p_ScheduledAtUTC plan) now = Inr d"
      using 1(5) by (simp add: reminder_result_run)
    have d: "delivery_inv d" using new by (rule NewDelivery_inv)
    have f: "d_ID d = i" "d_WorkspaceID d = p_WorkspaceID plan" "d_TodoID d = p_TodoID plan"
      "d_TodoReminderVersion d = p_TodoReminderVersion plan"
      using new by (auto simp: NewDelivery_def split: if_splits)
    have "safe_at env v3 (ds_Save deliveries d)"
      by (rule safe_delivery_Save [OF d]) (use i at3 f in simp_all)
    then show ?case by (rule safe_tryE) (auto intro: safe_rules)
  qed
qed (use at evolves_at in blast)+

lemma safe_set_job_ids: "safe_at env w (set_job_ids deliveries plan ids scheduled)"
  unfolding set_job_ids_def
  by (rule safe_forE [where R = "\<lambda>_. True"])
    (auto intro: safe_SetProviderJobID safe_rules split: option.splits)

lemma safe_PlanReminder:
  assumes at: "todo_at (wd_todo w) (pq_WorkspaceID req) (pq_TodoID req) (pq_TodoReminderVersion req)"
  shows "safe_at env w (PlanReminder plans deliveries (scheduler env') (world_newID env) (world_Now env) req)"
  unfolding PlanReminder_def
proof (rule safe_bindA [OF safe_newID], rule safe_bindA [OF safe_Now],
    rule safe_bindE [OF safe_result(1)], goal_cases)
  case (1 i v1 now v2 plan v3)
  have e: "evolves env v1 v3" using 1(4,6) by (rule evolves_trans)
  have i: "i \<in> issued_ids env v3"
    using newID_issued [OF 1(1)] e by (auto intro: evolves_issued)
  have new: "NewReminderPlan i (pq_WorkspaceID req) (pq_TodoID req)
       (pq_TodoReminderVersion req) (pq_ScheduledAtUTC req) (pq_Channels req) now = Inr plan"
    using 1(5) by (simp add: reminder_result_run)
  then have f: "p_ID plan = i" "p_WorkspaceID plan = pq_WorkspaceID req" "p_TodoID plan = pq_TodoID req"
    "p_TodoReminderVersion plan = pq_TodoReminderVersion req"
    by (auto simp: NewReminderPlan_def split: if_splits)
  have at3: "todo_at (wd_todo v3) (p_WorkspaceID plan) (p_TodoID plan) (p_TodoReminderVersion plan)"
    unfolding f using evolves_at [OF e evolves_at [OF 1(2) at]] .
  have save: "safe_at env v3 (ps_Save plans plan)"
    by (rule safe_plan_Save [OF _ at3]) (use i f in simp)
  show ?case
  proof (rule safe_tryE [OF save], goal_cases)
    case (1 u v4)
    have "todo_at (wd_todo v4) (p_WorkspaceID plan) (p_TodoID plan) (p_TodoReminderVersion plan)"
      using evolves_at [OF 1(2) at3] .
    then show ?case
      by (intro safe_bindE safe_plan_deliveries safe_Schedule safe_set_job_ids)
  qed (auto intro: safe_rules)
qed

lemma safe_cancel_jobs: "safe_at env w (cancel_jobs (scheduler env') jobs)"
  unfolding cancel_jobs_def
  by (rule safe_forE [where R = "\<lambda>_. True"]) (auto intro!: safe_tryE safe_Cancel safe_rules)

lemma safe_suppress_scheduled:
  assumes "\<forall>d \<in> set rows. delivery_inv d \<and> open_row w d" and "distinct (map d_ID rows)"
  shows "safe_at env w (suppress_scheduled deliveries (world_Now env') reason rows)"
  using assms
proof (induction rows arbitrary: w)
  case Nil
  show ?case unfolding suppress_scheduled_def forE.simps by (rule safe_ok)
next
  case (Cons row rows)
  show ?case
    unfolding suppress_scheduled_def forE.simps
  proof (rule safe_bindE, rule safe_bindA [OF safe_Now], rule safe_bindE [OF safe_result(1)], goal_cases)
    case (1 now v1 d v2)
    then have m: "MarkSuppressed reason now row = Inr d" by (simp add: reminder_result_run)
    have "d_ID d = d_ID row" using delivery_step_planning [OF step_suppressed [OF m]]
      by (simp add: same_planning_def)
    moreover have "wd_reminder v2 = wd_reminder w" using 1 by (auto simp: reminder_result_run)
    ultimately have "may_set v2 d" using Cons.prems(1) by (simp add: may_set_def open_row_def)
    moreover have "delivery_inv d" using MarkSuppressed_inv [OF m] Cons.prems(1) by simp
    ultimately show ?case by (rule safe_delivery_Update [rotated])
  next
    case (2 u v)
    then obtain now v1 d v2 where n: "world_Now env' w = (now, v1)"
      and m: "MarkSuppressed reason now row = Inr d"
      and up: "ds_Update deliveries d v2 = (Inr (), v)" and v2: "v2 = v1"
      by (auto simp: bindA_run bindE_Inr_iff reminder_result_run map_sum_def split: sum.splits)
    have d: "d_ID d = d_ID row" using delivery_step_planning [OF step_suppressed [OF m]]
      by (simp add: same_planning_def)
    have "open_row v e" if "e \<in> set rows" for e
    proof (rule update_open [OF up])
      have "wd_reminder v2 = wd_reminder w" using n v2 by auto
      then show "open_row v2 e" using that Cons.prems(1) by (simp add: open_row_def)
      have "d_ID row \<notin> d_ID ` set rows" using Cons.prems(2) by simp
      moreover have "d_ID e \<in> d_ID ` set rows" using that by simp
      ultimately show "\<not> IsFinal d \<or> d_ID e \<noteq> d_ID d" using d by metis
    qed
    with Cons.prems show ?case
      unfolding suppress_scheduled_def [symmetric] by (intro Cons.IH) simp_all
  qed
qed

text \<open>A delivery read from the table is open unless it is final.\<close>

lemma read_open:
  assumes inv: "world_inv env w"
  shows "ds_ByIdempotencyKey deliveries ws k w = (Inr d, w') \<Longrightarrow> \<not> IsFinal d \<Longrightarrow> open_row w' d"
    and "ds_ByProviderMessageID deliveries k w = (Inr d, w') \<Longrightarrow>
      \<exists>r \<in> set (rdb_deliveries (wd_reminder w')). d = scanDelivery r"
    and "ds_ScheduledForSuppression deliveries ws k v w = (Inr ds, w') \<Longrightarrow>
      distinct (map d_ID ds) \<and> (\<forall>d \<in> set ds. open_row w' d)"
proof -
  have uniq: "open_row w (scanDelivery r)"
    if r: "r \<in> set (rdb_deliveries (wd_reminder w))" "\<not> IsFinal r" for r
  proof -
    have "distinct (map d_ID (rdb_deliveries (wd_reminder w)))"
      using inv by (simp add: world_inv_def deliveries_inv_def delivery_table_inv_def)
    with r show ?thesis unfolding open_row_def by (auto dest: distinct_key_eq)
  qed
  have final: "IsFinal (scanDelivery r) = IsFinal r" if "r \<in> set (rdb_deliveries (wd_reminder w))" for r
  proof -
    have "delivery_inv r" using inv that by (simp add: world_inv_def deliveries_inv_def)
    then show ?thesis
      by (simp add: IsFinal_def scanDelivery_def scanDeliveryWithOrigin_def scan_state)
  qed
  show "ds_ByIdempotencyKey deliveries ws k w = (Inr d, w') \<Longrightarrow> \<not> IsFinal d \<Longrightarrow> open_row w' d"
    using final uniq
    by (auto simp: wiring zoom_run pg_delivery_ByIdempotencyKey_def split: option.splits dest!: find_SomeD)
  show "ds_ByProviderMessageID deliveries k w = (Inr d, w') \<Longrightarrow>
      \<exists>r \<in> set (rdb_deliveries (wd_reminder w')). d = scanDelivery r"
    by (auto simp: wiring zoom_run pg_delivery_ByProviderMessageID_def split: option.splits dest!: find_SomeD)
  assume run: "ds_ScheduledForSuppression deliveries ws k v w = (Inr ds, w')"
  let ?hits = "filter (\<lambda>r. of_todo_upto ws k v r \<and> string_of_state (d_State r) = ''scheduled'')
      (rdb_deliveries (wd_reminder w))"
  have ds: "ds = map scanDelivery (order_rows (\<lambda>a b. \<not> bytes_less (d_ID b) (d_ID a)) ?hits)" and w': "w' = w"
    using run by (auto simp: wiring zoom_run pg_delivery_ScheduledForSuppression_def)
  have "distinct (map d_ID (rdb_deliveries (wd_reminder w)))"
    using inv by (simp add: world_inv_def deliveries_inv_def delivery_table_inv_def)
  then have "distinct (map d_ID ?hits)" by (simp add: distinct_map_filter)
  then have "distinct (map d_ID ds)" by (simp add: ds comp_def distinct_map_order_rows)
  moreover have "open_row w' d" if "d \<in> set ds" for d
    using that unfolding ds w' by (auto intro!: uniq simp: IsFinal_def)
  ultimately show "distinct (map d_ID ds) \<and> (\<forall>d \<in> set ds. open_row w' d)" by blast
qed

lemma safe_reads [safe_rules]:
  "safe_at env w (ps_Get plans ws i)"
  "safe_at env w (ds_ByIdempotencyKey deliveries ws k)"
  "safe_at env w (ds_ByProviderMessageID deliveries k)"
  "safe_at env w (ds_PlannedJobIDs deliveries ws k v)"
  "safe_at env w (ds_ScheduledForSuppression deliveries ws k v)"
  by (auto intro!: safe_read dest: reminder_reads)

lemma safe_RevokePlans: "safe_at env w (RevokePlans plans deliveries (scheduler env') (world_Now env'') req)"
  unfolding RevokePlans_def
proof (rule safe_bindE [OF safe_result(1)], rule safe_bindA [OF safe_Now],
    rule safe_bindE [OF safe_RevokePlanned], rule safe_bindE [OF safe_reads(4)],
    rule safe_bindE [OF safe_cancel_jobs], rule safe_given, rule safe_bindE [OF safe_reads(5)], goal_cases)
  case (1 reason v1 now v2 u v3 jobs v4 u2 v5 rows v6)
  have "\<forall>d \<in> set rows. delivery_inv d" by (rule read_deliveries(3) [OF 1(11,12)])
  with read_open(3) [OF 1(11,12)] show ?case by (intro safe_suppress_scheduled) auto
qed

lemma receipt_may_set:
  assumes inv: "world_inv env w" and r: "r \<in> set (rdb_deliveries (wd_reminder w))"
    and ap: "ApplyReceipt st c now (scanDelivery r) = Inr d"
  shows "may_set w d"
proof -
  have ri: "delivery_inv r" using inv r by (simp add: world_inv_def deliveries_inv_def)
  have s: "d_State (scanDelivery r) = StateSucceeded" using ap by (auto simp: ApplyReceipt_def split: if_splits)
  then have rs: "d_State r = StateSucceeded"
    by (simp add: scanDelivery_def scanDeliveryWithOrigin_def scan_state [OF ri])
  have "IsFinal (scanDelivery r)" using s by (simp add: IsFinal_def)
  with delivery_step_final [OF step_receipt [OF ap]] have so: "same_outcome (scanDelivery r) d" .
  have id: "d_ID d = d_ID r" using delivery_step_planning [OF step_receipt [OF ap]]
    by (simp add: same_planning_def)
  have none: "d_SuppressionReason r = None" using ri rs by (auto simp: delivery_inv_def)
  have "distinct (map d_ID (rdb_deliveries (wd_reminder w)))"
    using inv by (simp add: world_inv_def deliveries_inv_def delivery_table_inv_def)
  then have "q = r" if "q \<in> set (rdb_deliveries (wd_reminder w))" "d_ID q = d_ID d" for q
    using r that id by (metis distinct_key_eq)
  moreover have "same_outcome r (set_columns d r)"
    using so rs s none
    by (simp add: same_outcome_def set_columns_def scanDelivery_def scanDeliveryWithOrigin_def)
  ultimately show ?thesis unfolding may_set_def by blast
qed

lemma safe_RecordReceipt: "safe_at env w (RecordReceipt deliveries (world_Now env') req)"
  unfolding RecordReceipt_def
proof (rule safe_given, rule safe_tryE [OF safe_reads(3)], goal_cases)
  case (1 delivery v)
  have d: "delivery_inv delivery" using read_deliveries(2) [OF 1(1,2)] .
  obtain r where r: "r \<in> set (rdb_deliveries (wd_reminder v))" "delivery = scanDelivery r"
    using read_open(2) [OF 1(1,2)] by blast
  have "safe_at env v' (case ApplyReceipt st (rec_ErrorCode req) now delivery of
      Inl e \<Rightarrow> if e = ErrReceiptNotApplicable then ok () else fail (ReminderErr e)
    | Inr d \<Rightarrow> ds_Update deliveries d)"
    if v': "wd_reminder v' = wd_reminder v" "world_inv env v'" for st now v'
  proof (cases "ApplyReceipt st (rec_ErrorCode req) now delivery")
    case (Inr d')
    have "may_set v' d'" using receipt_may_set [OF v'(2)] r Inr v'(1) by simp
    with Inr ApplyReceipt_inv [OF Inr d] show ?thesis by (simp add: safe_delivery_Update)
  qed (auto intro: safe_rules)
  then show ?case by (auto intro!: safe_rules safe_bindA [OF safe_Now] simp: evolves_inv)
qed (auto intro: safe_rules)

subsection \<open>The send command\<close>

lemma send_ports_fields [simp]:
  "sp_Plans (send_ports env) = plans" "sp_Deliveries (send_ports env) = deliveries"
  "sp_Todos (send_ports env) = todoReaderShim (todos env)"
  "sp_Channels (send_ports env) = channelResolverShim channel_rows"
  "sp_Email (send_ports env) = email_notifier env" "sp_Sms (send_ports env) = selectSmsNotifier env"
  "sp_NewID (send_ports env) = world_newID env" "sp_Now (send_ports env) = world_Now env"
  by (simp_all add: send_ports_def)

lemma safe_provide: "safe_at env w (provide p (log_sent ch) m)"
  by (rule safe_quiet) (auto simp: provide_def log_sent_def split: prod.splits if_splits)

lemma safe_notify [safe_rules]: "safe_at env w (notify (send_ports env') ch m)"
  unfolding notify_def email_notifier_def selectSmsNotifier_def disabledSmsNotifier_def send_ports_fields
  by (auto intro: safe_rules safe_provide)

text \<open>What the handler relies on about the delivery it works on: it is open.\<close>

lemma safe_mark:
  assumes mark: "\<And>now d'. mark now d = Inr d' \<Longrightarrow> delivery_inv d' \<and> d_ID d' = d_ID d"
    and "open_row w d"
  shows "safe_at env w (bindA (world_Now env') (\<lambda>now. bindE (reminder_result (mark now d))
     (\<lambda>d. ds_Update deliveries d)))"
proof (rule safe_bindA [OF safe_Now], rule safe_bindE [OF safe_result(1)], goal_cases)
  case (1 now v1 d' v2)
  from 1(3) have "mark now d = Inr d'" by (simp add: reminder_result_run)
  then have d': "delivery_inv d'" "d_ID d' = d_ID d" using mark by blast+
  have "open_row v2 d" using 1 assms(2) by (auto simp: open_row_def reminder_result_run)
  then show ?case by (rule safe_delivery_Update [OF d'(1) open_may_set [OF _ d'(2)]])
qed

lemma mark_facts:
  assumes "delivery_step d d'" "delivery_inv d"
  shows "delivery_inv d' \<and> d_ID d' = d_ID d"
  using delivery_step_inv [OF assms] delivery_step_planning [OF assms(1)] by (simp add: same_planning_def)

lemma safe_suppress_row:
  "delivery_inv d \<Longrightarrow> open_row w d \<Longrightarrow> safe_at env w (suppress_row (send_ports env') reason d)"
  unfolding suppress_row_def send_ports_fields
  by (rule safe_mark) (rule mark_facts [OF step_suppressed])

lemma safe_deadLetter:
  "delivery_inv d \<Longrightarrow> open_row w d \<Longrightarrow> safe_at env w (deadLetter (send_ports env') d code)"
  unfolding deadLetter_def send_ports_fields
  by (rule safe_mark) (rule mark_facts [OF step_failed])

lemma safe_suppress_created:
  assumes d: "delivery_inv d" "d_ID d \<in> issued_ids env w"
    "todo_at (wd_todo w) (d_WorkspaceID d) (d_TodoID d) (d_TodoReminderVersion d)"
  shows "safe_at env w (suppress_created (send_ports env') ws key reason d)"
  unfolding suppress_created_def send_ports_fields
proof (rule safe_bindA [OF safe_Now], rule safe_bindE [OF safe_result(1)], goal_cases)
  case (1 now v1 d' v2)
  have e: "evolves env w v2" using 1(2,4) by (rule evolves_trans)
  have m: "MarkSuppressed reason now d = Inr d'" using 1(3) by (simp add: reminder_result_run)
  have same: "same_planning d d'" using delivery_step_planning [OF step_suppressed [OF m]] .
  have save: "safe_at env v2 (ds_Save deliveries d')"
  proof (rule safe_delivery_Save)
    show "delivery_inv d'" using MarkSuppressed_inv [OF m d(1)] .
    show "d_ID d' \<in> issued_ids env v2"
      using evolves_issued [OF e d(2)] same by (simp add: same_planning_def)
    show "todo_at (wd_todo v2) (d_WorkspaceID d') (d_TodoID d') (d_TodoReminderVersion d')"
      using evolves_at [OF e d(3)] same by (simp add: same_planning_def)
  qed
  show ?case
  proof (rule safe_tryE [OF save], goal_cases)
    case (2 err v3)
    have "safe_at env v3 (bindE (ds_ByIdempotencyKey deliveries ws key) (\<lambda>other.
        if IsFinal other then ok () else suppress_row (send_ports env') reason other))"
    proof (rule safe_given, rule safe_bindE [OF safe_reads(2)], goal_cases)
      case (1 other v4)
      have "delivery_inv other" using read_deliveries(1) [OF 1(1,2)] .
      then show ?case using read_open(1) [OF 1(1,2)] by (auto intro: safe_rules safe_suppress_row)
    qed
    then show ?case by (auto intro: safe_rules)
  qed (auto intro: safe_rules)
qed

lemma safe_loadOrCreate:
  assumes "todo_at (wd_todo w) (p_WorkspaceID plan) (p_TodoID plan) (p_TodoReminderVersion plan)"
    and cont: "\<And>d created v. evolves env w v \<Longrightarrow> delivery_inv d \<Longrightarrow>
        (\<not> created \<Longrightarrow> \<not> IsFinal d \<Longrightarrow> open_row v d) \<Longrightarrow> (created \<Longrightarrow> d_ID d \<in> issued_ids env v
        \<and> todo_at (wd_todo v) (d_WorkspaceID d) (d_TodoID d) (d_TodoReminderVersion d)) \<Longrightarrow>
        safe_at env v (k (d, created))"
  shows "safe_at env w (bindE (loadOrCreateDelivery (send_ports env) plan key req title) k)"
proof (rule safe_given, rule safe_bindE, goal_cases)
  case 1
  show ?case
    unfolding loadOrCreateDelivery_def send_ports_fields
    by (auto intro!: safe_tryE safe_reads safe_rules safe_bindA safe_bindE safe_newID safe_Now)
next
  case (2 a v)
  obtain d created where a: "a = (d, created)" by (cases a)
  show ?case
  proof (unfold a, rule cont [OF 2(3)])
    from 2(2) show "delivery_inv d"
      unfolding a loadOrCreateDelivery_def send_ports_fields
      by (auto simp: tryE_run bindA_run bindE_Inr_iff reminder_result_run map_sum_def
          split: prod.splits sum.splits if_splits
          dest: read_deliveries(1) [OF 2(1)] NewDelivery_inv)
    show "open_row v d" if "\<not> created" "\<not> IsFinal d"
      using that 2(2) read_open(1) [OF 2(1)]
      unfolding a loadOrCreateDelivery_def send_ports_fields
      by (auto simp: tryE_run bindA_run bindE_Inr_iff reminder_result_run map_sum_def
          split: prod.splits sum.splits if_splits)
    assume created
    with 2(2) obtain i v0 v1 now where i: "world_newID env v0 = (i, v1)"
      and new: "NewDelivery i (p_WorkspaceID plan) (sr_OwnerUserID req)
                (p_TodoID plan) (p_TodoReminderVersion plan) (p_ID plan) (sr_Channel req) title
                (p_ScheduledAtUTC plan) now = Inr d" and v: "wd_ids v1 \<le> wd_ids v"
      unfolding a loadOrCreateDelivery_def send_ports_fields
      by (auto simp: tryE_run bindA_run bindE_Inr_iff reminder_result_run map_sum_def
          split: prod.splits sum.splits if_splits)
    show "d_ID d \<in> issued_ids env v
        \<and> todo_at (wd_todo v) (d_WorkspaceID d) (d_TodoID d) (d_TodoReminderVersion d)"
      using new newID_issued [OF i] issued_mono [OF v] evolves_at [OF 2(3) assms(1)]
      by (auto simp: NewDelivery_def split: if_splits)
  qed
qed

lemma safe_suppress:
  assumes "todo_at (wd_todo w) (p_WorkspaceID plan) (p_TodoID plan) (p_TodoReminderVersion plan)"
  shows "safe_at env w (suppress (send_ports env) plan key req reason title)"
  unfolding suppress_def
  by (rule safe_loadOrCreate [OF assms]) (auto intro: safe_rules safe_suppress_created safe_suppress_row)

lemma notify_rows:
  assumes "notify (send_ports env') ch m w = (r, w')"
  shows "wd_reminder w' = wd_reminder w"
  using assms sms_log [of env' m w r w'] provide_log [of "e_EmailNotifier env'" "''email''" m w r w']
  by (auto simp: notify_def email_notifier_def split: if_splits)

lemma safe_finish_send:
  assumes "delivery_inv d" "open_row w d"
  shows "safe_at env w (finish_send (send_ports env') req d m)"
  unfolding finish_send_def
proof (rule safe_tryE [OF safe_notify], goal_cases)
  case (1 msg v)
  then have "open_row v d" using assms(2) notify_rows [OF 1(1)] by (simp add: open_row_def)
  then show ?case unfolding send_ports_fields
    by (rule safe_mark [rotated]) (rule mark_facts [OF step_succeeded assms(1)])
next
  case (2 e v)
  then have "open_row v d" using assms(2) notify_rows [OF 2(1)] by (simp add: open_row_def)
  then show ?case
    by (auto intro: safe_rules safe_deadLetter [OF assms(1)] split: option.splits)
qed

lemma safe_Resolve [safe_rules]: "safe_at env w (channelResolverShim channel_rows ws user ch)"
  by (rule safe_read) (simp add: channels_Resolve)

lemma safe_Todo [safe_rules]: "safe_at env w (todoReaderShim (todos env') ws owner i)"
  by (rule safe_read) (auto simp: todos_Get split: option.splits)

lemma safe_send_row:
  assumes at: "todo_at (wd_todo w) (p_WorkspaceID plan) (p_TodoID plan) (p_TodoReminderVersion plan)"
    and d: "delivery_inv d" "open_row w d"
  shows "safe_at env w (send_row (send_ports env) plan key req d)"
  unfolding send_row_def send_ports_fields
proof (rule safe_bindA [OF safe_Now], rule safe_bindE [OF safe_result(1)], goal_cases)
  case (1 now v1 sending v2)
  from 1(3) have "MarkSending now d = Inr sending" by (simp add: reminder_result_run)
  note m = this
  have s: "delivery_inv sending" using MarkSending_inv [OF m d(1)] .
  have sid: "d_ID sending = d_ID d" "\<not> IsFinal sending"
    using m by (auto simp: MarkSending_def IsFinal_def split: if_splits)
  have op: "open_row v2 sending" using 1 d(2) sid(1) by (auto simp: open_row_def reminder_result_run)
  have may: "may_set v2 sending" by (rule open_may_set [OF op refl])
  have at2: "todo_at (wd_todo v2) (p_WorkspaceID plan) (p_TodoID plan) (p_TodoReminderVersion plan)"
    using evolves_at [OF evolves_trans [OF 1(2,4)] at] .
  show ?case
    unfolding resolve_and_send_def send_ports_fields
  proof (rule safe_bindE [OF safe_delivery_Update [OF s may]], rule safe_bindE [OF safe_Resolve], goal_cases)
    case (1 u v3 endpoint v4)
    have "open_row v3 sending" using update_open [OF 1(1) op] sid(2) by simp
    then have "open_row v4 sending" using 1(3) by (simp add: channels_Resolve)
    moreover
    have "todo_at (wd_todo v4) (p_WorkspaceID plan) (p_TodoID plan) (p_TodoReminderVersion plan)"
      using evolves_at [OF evolves_trans [OF 1(2,4)] at2] .
    ultimately show ?case by (auto intro: safe_suppress safe_finish_send [OF s])
  qed
qed

lemma safe_send_created:
  assumes at: "todo_at (wd_todo w) (p_WorkspaceID plan) (p_TodoID plan) (p_TodoReminderVersion plan)"
    and d: "delivery_inv d" "d_ID d \<in> issued_ids env w"
      "todo_at (wd_todo w) (d_WorkspaceID d) (d_TodoID d) (d_TodoReminderVersion d)"
    and nf: "\<not> IsFinal d"
  shows "safe_at env w (send_created (send_ports env) plan key req d)"
  unfolding send_created_def send_ports_fields
proof (rule safe_tryE [OF safe_delivery_Save [OF d]], goal_cases)
  case (1 u v)
  have "open_row v d" using 1(1) nf
    by (auto simp: wiring zoom_run pg_delivery_Save_def key_taken_def open_row_def list_ex_iff IsFinal_def
        split: if_splits)
  then show ?case using evolves_at [OF 1(2) at] d(1) by (intro safe_send_row)
next
  case (2 e v)
  have "safe_at env v (bindE (ds_ByIdempotencyKey deliveries (p_WorkspaceID plan) key) (\<lambda>other.
      if IsFinal other then ok () else send_row (send_ports env) plan key req other))"
  proof (rule safe_given, rule safe_bindE [OF safe_reads(2)], goal_cases)
    case (1 other v2)
    have "delivery_inv other" using read_deliveries(1) [OF 1(1,2)] .
    then show ?case
      using evolves_at [OF evolves_trans [OF 2(2) 1(3)] at] read_open(1) [OF 1(1,2)] by (auto intro: safe_rules safe_send_row)
  qed
  then show ?case by (auto intro: safe_rules)
qed

lemma safe_send_loaded:
  assumes at: "todo_at (wd_todo w) (p_WorkspaceID plan) (p_TodoID plan) (p_TodoReminderVersion plan)"
  shows "safe_at env w (send_loaded (send_ports env) plan key req title)"
  unfolding send_loaded_def
proof (rule safe_loadOrCreate [OF at], goal_cases)
  case (1 d created v)
  then show ?case
    using evolves_at [OF 1(1) at] by (auto intro: safe_rules safe_send_created safe_send_row)
qed

lemma stored_plan:
  assumes inv: "world_inv env w" and run: "ps_Get plans ws i w = (Inr p, w')"
  shows "todo_at (wd_todo w) (p_WorkspaceID p) (p_TodoID p) (p_TodoReminderVersion p)"
proof -
  obtain r where "r \<in> set (rdb_plans (wd_reminder w))" "p = scanPlan r"
    using run by (auto simp: plans_Get read_plan_def readable_def dest: find_SomeD
        split: option.splits prod.splits)
  with inv show ?thesis by (simp add: world_inv_def plans_inv_def scanPlan_def)
qed

lemma safe_SendReminder: "safe_at env w (SendReminder (send_ports env) req)"
  unfolding SendReminder_def send_ports_fields
proof (rule safe_given, rule safe_tryE [OF safe_reads(1)], goal_cases)
  case (1 plan v)
  note at = evolves_at [OF 1(3) stored_plan [OF 1(1,2)]]
  have later: "safe_at env v' (suppress (send_ports env) plan key req reason title)"
    "safe_at env v' (send_loaded (send_ports env) plan key req title)"
    if "evolves env v v'" for v' key reason title
    using evolves_at [OF that at] by (auto intro: safe_suppress safe_send_loaded)
  show ?case
    unfolding send_plan_def Let_def send_ports_fields
    by (intro safe_if safe_tryE [OF safe_Todo] later safe_fail safe_suppress [OF at])
qed (auto intro: safe_rules)

lemma safe_Work: "safe_at env w (worker_Work env args attempt)"
  unfolding worker_Work_def SendWorker_Work_def by (rule safe_SendReminder)

section \<open>The todo module\<close>

lemma safe_channelsSnapshot: "safe_at env w (channelsSnapshot (provider env') ws owner)"
  by (rule safe_read)
    (auto simp: channelsSnapshot_def provider_def channelsProvider_def wiring zoom_run
      pg_channel_ListByUser_def bindE_run)

lemma safe_Plan:
  "todo_at (wd_todo w) (pr_WorkspaceID r) (pr_TodoID r) (pr_TodoReminderVersion r) \<Longrightarrow>
   safe_at env w (rp_Plan (planner env) r)"
  unfolding planner_def planner_shim_def by (auto intro: safe_PlanReminder)

lemma safe_Revoke: "safe_at env w (rp_Revoke (planner env) r)"
  unfolding planner_def planner_shim_def by (auto intro: safe_RevokePlans)

lemma stored_at: "t \<in> set rows \<Longrightarrow> todo_at rows (t_WorkspaceID t) (t_ID t) (t_ReminderVersion t)"
  by (auto simp: todo_at_def)

lemma safe_plan_of:
  assumes "todo_at (wd_todo w) (t_WorkspaceID t) (t_ID t) (t_ReminderVersion t)"
  shows "safe_at env w (bindE (channelsSnapshot (provider env') (t_WorkspaceID t) (t_OwnerUserID t)) (\<lambda>chans.
         bindE (rp_Plan (planner env)
           \<lparr>pr_WorkspaceID = t_WorkspaceID t, pr_TodoID = t_ID t,
            pr_TodoReminderVersion = t_ReminderVersion t, pr_ScheduledAtUTC = due,
            pr_Channels = chans, pr_Title = t_Title t,
            pr_OwnerUserID = t_OwnerUserID t\<rparr>) (\<lambda>_. ok (f chans))))"
proof (rule safe_bindE [OF safe_channelsSnapshot], rule safe_bindE, goal_cases)
  case (1 a v)
  then show ?case using evolves_at [OF 1(2) assms] by (intro safe_Plan) simp
qed (rule safe_ok)

lemma safe_create_work:
  assumes "todo_wf t" "t_ID t \<in> issued_ids env w" "CHR '':'' \<notin> set (t_WorkspaceID t)"
  shows "safe_at env w (create_work (todos env') (planner env) (provider env'') t)"
  unfolding create_work_def
proof (rule safe_bindE [OF safe_Insert [OF assms]], goal_cases)
  case (1 u v)
  then have "t \<in> set (wd_todo v)"
    by (auto simp: wiring zoom_run pg_todo_Insert_def split: if_splits)
  then show ?case
    by (auto intro: safe_rules safe_plan_of stored_at split: option.splits)
qed

text \<open>The part the versioned commands share.\<close>

lemma safe_load_save:
  assumes f: "\<And>t t'. f t = Inr t' \<Longrightarrow> todo_step t t' \<and> t_Version t = n"
    and k: "\<And>t t' v. todo_at (wd_todo v) (t_WorkspaceID t') (t_ID t') (t_ReminderVersion t') \<Longrightarrow>
      safe_at env v (k t t')"
  shows "safe_at env w (bindE (ts_Get (todos env') ws owner i) (\<lambda>stored.
     bindE (domain_result (f stored)) (\<lambda>loaded.
     bindE (ts_Update (todos env') loaded n) (\<lambda>_. k stored loaded))))"
proof (rule safe_given, rule safe_bindE, goal_cases)
  case 1
  show ?case by (rule safe_read) (auto dest: todos_reads)
next
  case (2 t v)
  have "v = w" using todos_reads(1) [OF 2(2)] .
  note t = stored_todo [OF 2(1,2)]
  show ?case
  proof (rule safe_bindE [OF safe_result(2)], goal_cases)
    case (1 t' v1)
    then have ft: "f t = Inr t'" and v1: "v1 = w"
      using \<open>v = w\<close> by (auto simp: domain_result_def map_sum_def split: sum.splits)
    have st: "todo_step t t'" "t_Version t = n" using f [OF ft] by auto
    note g = todo_step_identity [OF st(1)] todo_step_wf [OF st(1)]
    have up: "safe_at env v1 (ts_Update (todos env') t' n)"
      unfolding v1
    proof (rule safe_todo_Update)
      fix r
      assume r: "r \<in> set (wd_todo w)" "t_ID r = t_ID t'"
      have "distinct (map t_ID (wd_todo w))"
        using 2(1) by (simp add: world_inv_def todos_inv_def todo_table_inv_def)
      moreover have "t_ID r = t_ID t" using r(2) g by (simp add: same_identity_def)
      ultimately have "r = t" using r(1) t by (metis distinct_key_eq)
      with st show "todo_step r t'" by simp
    qed
    show ?case
    proof (rule safe_bindE [OF up], rule k, goal_cases)
      case (1 u v2)
      have old: "todo_lookup (wd_todo w) (t_WorkspaceID t') (t_OwnerUserID t') (t_ID t') = Some t"
        using todo_rows.get_law [of w env' ws owner i] 2 t g \<open>v = w\<close>
        by (auto simp: same_identity_def world_inv_def todos_inv_def split: option.splits)
      have "todo_lookup (wd_todo v2) (t_WorkspaceID t') (t_OwnerUserID t') (t_ID t') = Some t'"
        using todo_rows.update_law [OF _ old, of n env'] 1(1) v1 g st(2) t 2(1)
        by (auto simp: world_inv_def todos_inv_def)
      then show ?case by (auto simp: todo_lookup_def todo_at_def owned_def dest: find_SomeD)
    qed
  qed
qed

lemma safe_complete_work: "safe_at env w (complete_work (todos env') (planner env) now req)"
  unfolding complete_work_def
  by (rule safe_load_save)
    (auto intro: step_complete safe_bindE safe_Revoke safe_ok simp: Complete_Inr)

lemma safe_delete_work: "safe_at env w (delete_work (todos env') (planner env) now req)"
  unfolding delete_work_def
  by (rule safe_load_save)
    (auto intro: step_delete safe_bindE safe_Revoke safe_ok simp: Delete_Inr)

lemma safe_update_work: "safe_at env w (update_work (todos env') (planner env) (provider env'') now req)"
  unfolding update_work_def
proof (rule safe_load_save, goal_cases)
  case (1 t t')
  then show ?case using step_update [OF 1] by (simp add: Update_Inr)
next
  case (2 t t' v)
  show ?case
  proof (rule safe_if [OF safe_ok], rule safe_bindE [OF safe_Revoke], goal_cases)
    case (1 u v2)
    then show ?case
      using evolves_at [OF 1(3) 2] by (auto intro: safe_rules safe_plan_of split: option.splits)
  qed
qed

lemma safe_Complete: "safe_at env w (api_CompleteTodo env req)"
  unfolding api_CompleteTodo_def CompleteTodo_def
  by (intro safe_bindA [OF safe_Now] safe_bindE safe_unit_of_work safe_complete_work safe_ok)

lemma safe_Delete: "safe_at env w (api_DeleteTodo env req)"
  unfolding api_DeleteTodo_def DeleteTodo_def
  by (intro safe_bindA [OF safe_Now] safe_bindE safe_unit_of_work safe_delete_work safe_ok)

lemma safe_Update: "safe_at env w (api_UpdateTodo env req)"
  unfolding api_UpdateTodo_def UpdateTodo_def
  by (intro safe_bindA [OF safe_Now] safe_bindE safe_unit_of_work safe_update_work)
    (auto intro: safe_ok)

text \<open>The workspace of a principal is a UUID: it has no colon.\<close>

lemma safe_Create:
  assumes ws: "CHR '':'' \<notin> set (cr_WorkspaceID req)"
  shows "safe_at env w (api_CreateTodo env req)"
  unfolding api_CreateTodo_def CreateTodo_def
proof (rule safe_bindA [OF safe_Now], rule safe_bindA [OF safe_newID],
    rule safe_bindE [OF safe_result(2)], goal_cases)
  case (1 now v1 i v2 t v3)
  have new: "New i (cr_WorkspaceID req) (cr_UserID req) (cr_Title req)
        (cr_Description req) (cr_DueAtUTC req) (cr_TimezoneAtInput req) now = Inr t"
    using 1(5) by (auto simp: domain_result_def map_sum_def split: sum.splits)
  then have t: "todo_wf t" "t_ID t = i" "t_WorkspaceID t = cr_WorkspaceID req"
    by (auto intro: New_wf simp: New_def split: if_splits option.splits)
  have i: "i \<in> issued_ids env v3" using newID_issued [OF 1(3)] evolves_issued [OF 1(6)] by blast
  show ?case
  proof (rule safe_bindE [OF safe_unit_of_work], goal_cases)
    case (1 v)
    then show ?case using t i ws by (intro safe_create_work) (auto simp: issued_ids_def)
  qed (rule safe_ok)
qed

section \<open>The identity module\<close>

text \<open>Every statement keeps the tables' keys unique, so every handler does.\<close>

definition safe :: "env \<Rightarrow> (world, 'a) op \<Rightarrow> bool" where
  "safe env m \<longleftrightarrow> (\<forall>w0. keeps (evolves env w0) m)"

lemma safe_of_at: "(\<And>w. safe_at env w m) \<Longrightarrow> safe env m"
  unfolding safe_def
  by (intro allI keepsI) (metis evolves_inv evolves_trans safe_atD)

lemma at_of_safe: "safe env m \<Longrightarrow> safe_at env w m"
  by (intro safe_atI) (auto simp: safe_def intro: keeps_snd evolves_refl)

lemma identity_keeps:
  "keeps identity_inv (pg_user_Save lower u)" "keeps identity_inv (pg_user_Update lower u)"
  "keeps identity_inv (pg_workspace_Save x)"
  "keeps identity_inv (pg_challenge_Save c)" "keeps identity_inv (pg_challenge_Update c)"
  "keeps identity_inv (pg_session_Save se)" "keeps identity_inv (pg_session_Update se)"
  "keeps identity_inv (pg_channel_Save ch)" "keeps identity_inv (pg_channel_Update ch)"
  by (rule keepsI;
      auto simp: identity_inv_def users_inv_def challenges_inv_def channels_inv_def
        pg_user_Save_def pg_user_Update_def pg_workspace_Save_def pg_challenge_Save_def
        pg_challenge_Update_def pg_session_Save_def pg_session_Update_def pg_channel_Save_def
        pg_channel_Update_def list_ex_iff map_update_where Let_def split: if_splits)+

lemma identity_keeps_more:
  "keeps identity_inv (pg_user_ByPhone p)" "keeps identity_inv (pg_user_ByEmail p)"
  "keeps identity_inv (activeByIdentifier m)"
  "keeps identity_inv (pg_challenge_CountByPhoneSince p t)"
  "keeps identity_inv (pg_challenge_CountByEmailSince p t)"
  "keeps identity_inv (pg_session_query q)"
  "keeps identity_inv (pg_channel_ByID ws u i)" "keeps identity_inv (pg_channel_ListByUser ws u)"
  "keeps identity_inv (pg_channel_SetEnabled ws u i b)"
  by (rule keepsI;
      auto simp: identity_inv_def channels_inv_def pg_user_ByPhone_def pg_user_ByEmail_def activeByIdentifier_def
        pg_challenge_CountByPhoneSince_def pg_challenge_CountByEmailSince_def pg_session_query_def
        pg_channel_ByID_def pg_channel_ListByUser_def pg_channel_SetEnabled_def map_update_where
        users_inv_def challenges_inv_def
        split: option.splits list.splits)+

lemma safe_identity:
  assumes "keeps identity_inv m"
  shows "safe env (zoom wd_identity (\<lambda>t w. w\<lparr>wd_identity := t\<rparr>) m)"
proof (rule safe_of_at, rule safe_atI)
  fix w
  assume inv: "world_inv env w"
  then have "identity_inv (snd (m (wd_identity w)))"
    using keeps_snd [OF assms] by (simp add: world_inv_def)
  with inv show "evolves env w (snd (zoom wd_identity (\<lambda>t w. w\<lparr>wd_identity := t\<rparr>) m w))"
    by (simp add: zoom_run evolves_def world_inv_defs issued_ids_def)
qed

lemma safe_keeps: "safe env m \<Longrightarrow> keeps (evolves env w0) m"
  by (simp add: safe_def)

lemma safe_uow: "keeps (evolves env w0) (uow env m)" if "\<And>w0. keeps (evolves env w0) m"
proof -
  have "safe env m" using that by (simp add: safe_def)
  then have "safe_at env w m" for w by (rule at_of_safe)
  then have "safe_at env w (uow env m)" for w by (rule safe_unit_of_work)
  then show ?thesis by (rule safe_keeps [OF safe_of_at])
qed

lemma clock_evolves:
  "keepsA (evolves env w0) (world_Now env')" "keepsA (evolves env w0) (world_newID env)"
  unfolding keepsA_def
  by (metis evolves_inv evolves_trans prod.collapse safe_Now safe_newID safe_atD)+

lemma codes_evolve:
  "keeps (evolves env w0) (newSixDigitCode env')" "keeps (evolves env w0) (newSessionToken env')"
  "keeps (evolves env w0) (outbox env' m)"
proof -
  show "keeps (evolves env w0) (newSixDigitCode env')" "keeps (evolves env w0) (newSessionToken env')"
    by (rule safe_keeps, rule safe_of_at, rule safe_quiet,
        auto simp: newSixDigitCode_run newSessionToken_run split: sum.splits)+
  have "safe_at env w (outbox env' m)" for w
    by (rule safe_quiet) (auto dest!: outbox_split simp: log_mail_def)
  then show "keeps (evolves env w0) (outbox env' m)" by (intro safe_keeps safe_of_at)
qed

lemmas identity_evolves = safe_keeps [OF safe_identity] identity_keeps identity_keeps_more
  clock_evolves codes_evolve safe_uow

lemmas identity_ports = wiring request_ports_def verify_ports_def resend_ports_def
  pg_challenge_ActiveByPhone_def pg_challenge_ActiveByEmail_def pg_session_ByID_def
  pg_session_ByTokenHash_def

lemma safe_RequestLogin: "safe env (api_RequestLogin env i)"
  unfolding safe_def api_RequestLogin_def RequestLoginChallenge_def countRecent_def identity_result_def
  by (auto simp: identity_ports intro!: keeps_rules identity_evolves)

lemma safe_VerifyLogin: "safe env (api_VerifyLogin env i code)"
  unfolding safe_def api_VerifyLogin_def VerifyLoginChallenge_def activeChallenge_def
    check_challenge_def user_for_login_def existingUser_def open_session_def identity_result_def
  by (auto simp: identity_ports Let_def intro!: keeps_rules identity_evolves)

lemma safe_Logout: "safe env (api_Logout env i)"
  unfolding safe_def api_Logout_def Logout_def
  by (auto simp: identity_ports intro!: keeps_rules identity_evolves)

lemma safe_Authenticate: "safe env (api_Authenticate env token)"
  unfolding safe_def api_Authenticate_def Authenticate_def
  by (auto simp: identity_ports intro!: keeps_rules identity_evolves)

lemma check_address_evolves: "keeps (evolves env w0) (check_address ToLower k address)"
  unfolding check_address_def identity_result_def
  by (cases k) (auto intro!: keeps_rules)

lemma safe_AddChannel: "safe env (api_AddChannel env who kind address)"
  unfolding safe_def api_AddChannel_def AddChannel_def identity_result_def
  by (auto simp: identity_ports Let_def intro!: keeps_rules identity_evolves check_address_evolves)

lemma safe_ResendChannel: "safe env (api_ResendChannel env who i)"
  unfolding safe_def api_ResendChannel_def ResendChannel_def resend_work_def identity_result_def
  by (auto simp: identity_ports intro!: keeps_rules identity_evolves)

lemma safe_VerifyChannel: "safe env (api_VerifyChannel env who i code)"
  unfolding safe_def api_VerifyChannel_def VerifyChannel_def verify_channel_def identity_result_def
  by (auto simp: identity_ports intro!: keeps_rules identity_evolves)

lemma safe_SetChannelEnabled: "safe env (api_SetChannelEnabled who i b)"
  unfolding safe_def api_SetChannelEnabled_def SetChannelEnabled_def
  by (auto simp: identity_ports intro!: keeps_rules identity_evolves)

lemma safe_ProvisionAdmin: "safe env (api_ProvisionAdmin env phone email)"
  unfolding safe_def api_ProvisionAdmin_def ProvisionAdmin_def findExisting_def provision_found_def
    identity_result_def
  by (auto simp: identity_ports Let_def intro!: keeps_rules identity_evolves)

section \<open>The queries\<close>

lemma safe_queries:
  "safe_at env w (api_ListTodos env' ws owner f)" "safe_at env w (api_GetTodo env' ws owner i)"
  "safe_at env w (api_Dashboard env' ws owner tz)" "safe_at env w (api_ListDeliveries ws g)"
proof -
  show "safe_at env w (api_ListTodos env' ws owner f)"
    unfolding api_ListTodos_def ListTodos_def
    by (intro safe_bindE safe_read safe_bindA safe_Now safe_ok) (auto dest: todos_reads)
  show "safe_at env w (api_GetTodo env' ws owner i)"
    unfolding api_GetTodo_def GetTodo_def
    by (intro safe_bindE safe_read safe_bindA safe_Now safe_ok) (auto dest: todos_reads)
  show "safe_at env w (api_ListDeliveries ws g)"
    unfolding api_ListDeliveries_def ListDeliveries_def by (rule safe_read) (rule reminder_reads)
  have "safe_at env v (reminderStats deliveries ws)" for v
    unfolding reminderStats_def
    by (intro safe_bindE safe_read safe_ok) (auto dest: reminder_reads)
  moreover have "safe_at env v (ts_Dashboard (todos env') ws owner n a b)" for v n a b
    by (rule safe_read) (rule todos_reads)
  ultimately show "safe_at env w (api_Dashboard env' ws owner tz)"
    unfolding api_Dashboard_def DashboardSummary_def reminderCounts_def
    by (auto intro!: safe_rules safe_bindA safe_bindE safe_Now split: option.splits)
qed

section \<open>The program\<close>

text \<open>
  A call the program serves. \<open>EventWork\<close> is one attempt of a River job with any arguments,
  \<open>EventPrune\<close> the environment removing finished jobs from River's table.
\<close>

datatype event =
    EventCreateTodo CreateTodoRequest
  | EventCompleteTodo VersionedRequest
  | EventDeleteTodo VersionedRequest
  | EventUpdateTodo UpdateTodoRequest
  | EventListTodos string string list_filters
  | EventGetTodo string string string
  | EventDashboard string string string
  | EventRequestLogin LoginIdentifier
  | EventVerifyLogin LoginIdentifier string
  | EventLogout string
  | EventAuthenticate string
  | EventAddChannel Principal string string
  | EventResendChannel Principal string
  | EventVerifyChannel Principal string string
  | EventSetChannelEnabled Principal string bool
  | EventProvisionAdmin string string
  | EventRecordReceipt ReceiptRequest
  | EventListDeliveries string DeliveryFilter
  | EventWork ReminderSendArgs int
  | EventPrune "(ReminderSendArgs \<times> string \<times> time) list"

fun serve :: "env \<Rightarrow> event \<Rightarrow> world \<Rightarrow> world" where
  "serve env (EventCreateTodo req) w = snd (api_CreateTodo env req w)"
| "serve env (EventCompleteTodo req) w = snd (api_CompleteTodo env req w)"
| "serve env (EventDeleteTodo req) w = snd (api_DeleteTodo env req w)"
| "serve env (EventUpdateTodo req) w = snd (api_UpdateTodo env req w)"
| "serve env (EventListTodos ws owner f) w = snd (api_ListTodos env ws owner f w)"
| "serve env (EventGetTodo ws owner i) w = snd (api_GetTodo env ws owner i w)"
| "serve env (EventDashboard ws owner tz) w = snd (api_Dashboard env ws owner tz w)"
| "serve env (EventRequestLogin i) w = snd (api_RequestLogin env i w)"
| "serve env (EventVerifyLogin i code) w = snd (api_VerifyLogin env i code w)"
| "serve env (EventLogout i) w = snd (api_Logout env i w)"
| "serve env (EventAuthenticate token) w = snd (api_Authenticate env token w)"
| "serve env (EventAddChannel who kind address) w = snd (api_AddChannel env who kind address w)"
| "serve env (EventResendChannel who i) w = snd (api_ResendChannel env who i w)"
| "serve env (EventVerifyChannel who i code) w = snd (api_VerifyChannel env who i code w)"
| "serve env (EventSetChannelEnabled who i b) w = snd (api_SetChannelEnabled who i b w)"
| "serve env (EventProvisionAdmin phone email) w = snd (api_ProvisionAdmin env phone email w)"
| "serve env (EventRecordReceipt req) w = snd (api_RecordReceipt env req w)"
| "serve env (EventListDeliveries ws f) w = snd (api_ListDeliveries ws f w)"
| "serve env (EventWork args attempt) w = snd (worker_Work env args attempt w)"
| "serve env (EventPrune jobs) w = w\<lparr>wd_jobs := jobs\<rparr>"

text \<open>The workspace of an authenticated principal is a UUID column: it holds no colon.\<close>

fun well_scoped :: "event \<Rightarrow> bool" where
  "well_scoped (EventCreateTodo req) = (CHR '':'' \<notin> set (cr_WorkspaceID req))"
| "well_scoped _ = True"

definition empty_world :: world where
  "empty_world = \<lparr>wd_todo = [], wd_reminder = \<lparr>rdb_plans = [], rdb_deliveries = []\<rparr>,
     wd_identity = \<lparr>idb_users = [], idb_workspaces = [], idb_challenges = [], idb_sessions = [],
       idb_channels = []\<rparr>,
     wd_jobs = [], wd_tick = 0, wd_ids = 0, wd_sent = [], wd_mail = []\<rparr>"

inductive program_step :: "env \<Rightarrow> world \<Rightarrow> world \<Rightarrow> bool" for env where
  served: "well_scoped e \<Longrightarrow> program_step env w (serve env e w)"

inductive reachable :: "env \<Rightarrow> world \<Rightarrow> bool" for env where
  start: "reachable env empty_world"
| step: "reachable env w \<Longrightarrow> program_step env w w' \<Longrightarrow> reachable env w'"

inductive_cases program_stepE: "program_step env w w'"

lemma serve_evolves:
  assumes inv: "world_inv env w" and e: "well_scoped e"
  shows "evolves env w (serve env e w)"
proof -
  have run: "evolves env w (snd (m w))" if "safe_at env w m" for m :: "world \<Rightarrow> 'b \<times> world"
    using that inv by (simp add: safe_at_def)
  note leaf = safe_Create safe_Complete safe_Delete safe_Update safe_queries
    at_of_safe [OF safe_RequestLogin] at_of_safe [OF safe_VerifyLogin] at_of_safe [OF safe_Logout]
    at_of_safe [OF safe_Authenticate] at_of_safe [OF safe_AddChannel]
    at_of_safe [OF safe_ResendChannel] at_of_safe [OF safe_VerifyChannel]
    at_of_safe [OF safe_SetChannelEnabled] at_of_safe [OF safe_ProvisionAdmin] safe_Work
  have receipt: "safe_at env w (api_RecordReceipt env req)" for req
    unfolding api_RecordReceipt_def by (rule safe_RecordReceipt)
  show ?thesis
  proof (cases e)
    case (EventPrune jobs)
    with inv show ?thesis by (simp add: evolves_def world_inv_defs issued_ids_def)
  qed (use e leaf receipt inv in \<open>simp_all add: safe_at_def\<close>)
qed

lemma program_step_evolves: "program_step env w w' \<Longrightarrow> world_inv env w \<Longrightarrow> evolves env w w'"
  by (erule program_stepE) (auto intro: serve_evolves)

lemma empty_world_inv: "world_inv env empty_world"
  by (simp add: empty_world_def world_inv_defs todo_table_inv_def delivery_table_inv_def
      identity_inv_def users_inv_def challenges_inv_def channels_inv_def)

lemma reachable_inv: "reachable env w \<Longrightarrow> world_inv env w"
  by (induction rule: reachable.induct) (auto intro: empty_world_inv program_step_evolves evolves_inv)

end
