(* ===== verification/Program_Facts.thy ===== *)
theory Program_Facts
  imports Program_Run
begin

text \<open>
  What the invariant and the step relation give across components: only the worker hands
  messages to the providers, each of its messages is for the current version of a pending todo,
  a todo that is completed or deleted is never reminded again, and a final delivery keeps its
  outcome.
\<close>

section \<open>Only the worker sends\<close>

definition log_is :: "(string \<times> ReminderMessage) list \<Rightarrow> world \<Rightarrow> bool" where
  "log_is L w \<longleftrightarrow> wd_sent w = L"

lemma log_zoom:
  "keeps (log_is L) (zoom wd_reminder (\<lambda>t w. w\<lparr>wd_reminder := t\<rparr>) m1)"
  "keeps (log_is L) (zoom wd_todo (\<lambda>t w. w\<lparr>wd_todo := t\<rparr>) m2)"
  "keeps (log_is L) (zoom wd_identity (\<lambda>t w. w\<lparr>wd_identity := t\<rparr>) m3)"
  by (rule keeps_zoom, simp add: log_is_def)+

lemma log_clock: "keepsA (log_is L) (world_Now env)" "keepsA (log_is L) (world_newID env)"
  by (simp_all add: keepsA_def log_is_def)

lemma log_outside:
  "keeps (log_is L) (newSixDigitCode env)" "keeps (log_is L) (newSessionToken env)"
  "keeps (log_is L) (outbox env m)" "keeps (log_is L) (js_Cancel (scheduler env) job)"
proof -
  show "keeps (log_is L) (newSixDigitCode env)" "keeps (log_is L) (newSessionToken env)"
    by (auto intro!: keepsI simp: log_is_def newSixDigitCode_run newSessionToken_run split: sum.splits)
  show "keeps (log_is L) (outbox env m)"
    by (rule keepsI) (auto dest!: outbox_split simp: log_is_def log_mail_def)
  show "keeps (log_is L) (js_Cancel (scheduler env) job)"
    by (rule keepsI) (auto simp: scheduler_def river_scheduler_def bindA_run log_is_def)
qed

lemma log_schedule: "keeps (log_is L) (js_Schedule (scheduler env) job)"
  by (rule schedule_keeps) (auto intro!: keepsI simp: log_is_def dest: insert_tx_part)

lemma log_uow:
  assumes "keeps (log_is L) m"
  shows "keeps (log_is L) (uow env m)"
proof -
  have all: "log_is L (snd (uow env m w))" if L: "log_is L w" for w
  proof -
    let ?w0 = "w\<lparr>wd_tick := Suc (wd_tick w)\<rparr>"
    obtain q w1 where run: "m ?w0 = (q, w1)" by (cases "m ?w0")
    have "log_is L (snd (m ?w0))" 
      by (rule keeps_snd [OF assms]) (use L in \<open>simp add: log_is_def\<close>)
    with L run show ?thesis
      by (simp add: uow_def JoinableUoW_Run_def TxRunner_Run_def world_driver_def log_is_def
          split: sum.splits)
  qed
  show ?thesis
  proof (rule keepsI)
    fix w r w'
    assume "log_is L w" and "uow env m w = (r, w')"
    with all [of w] show "log_is L w'" by simp
  qed
qed

lemmas log_rules = keeps_rules log_zoom log_clock log_outside log_schedule log_uow

lemma log_planner: "keeps (log_is L) (rp_Plan (planner env) p)" "keeps (log_is L) (rp_Revoke (planner env) q)"
  unfolding planner_def planner_shim_def PlanReminder_def plan_deliveries_def set_job_ids_def
    RevokePlans_def cancel_jobs_def suppress_scheduled_def reminder_result_def
  by (auto simp: wiring intro!: log_rules)

lemma log_todos:
  "keeps (log_is L) (ts_Insert (todos env) t)" "keeps (log_is L) (ts_Update (todos env) t v)"
  "keeps (log_is L) (ts_Get (todos env) ws owner i)" "keeps (log_is L) (ts_List (todos env) ws owner f l)"
  "keeps (log_is L) (ts_Dashboard (todos env) ws owner n a b)"
  "keeps (log_is L) (channelsSnapshot (provider env) ws owner)"
  by (auto simp: wiring channelsSnapshot_def provider_def channelsProvider_def intro!: log_rules)

lemma log_todo_handlers:
  "keeps (log_is L) (api_CreateTodo env a)" "keeps (log_is L) (api_CompleteTodo env b)"
  "keeps (log_is L) (api_DeleteTodo env c)" "keeps (log_is L) (api_UpdateTodo env d)"
  unfolding api_CreateTodo_def api_CompleteTodo_def api_DeleteTodo_def api_UpdateTodo_def
    todo_command_defs create_work_def complete_work_def delete_work_def update_work_def
  by (auto intro!: log_rules log_planner log_todos)

lemma log_identity_handlers:
  "keeps (log_is L) (api_RequestLogin env i)" "keeps (log_is L) (api_VerifyLogin env i code)"
  "keeps (log_is L) (api_Logout env k)" "keeps (log_is L) (api_Authenticate env token)"
  "keeps (log_is L) (api_ProvisionAdmin env phone email)"
  unfolding api_RequestLogin_def RequestLoginChallenge_def countRecent_def
    api_VerifyLogin_def VerifyLoginChallenge_def activeChallenge_def check_challenge_def
    user_for_login_def existingUser_def open_session_def api_Logout_def Logout_def
    api_Authenticate_def Authenticate_def api_ProvisionAdmin_def ProvisionAdmin_def
    findExisting_def provision_found_def identity_result_def
  by (auto simp: identity_ports Let_def intro!: log_rules)

lemma log_channel_handlers:
  "keeps (log_is L) (api_AddChannel env who kind address)" "keeps (log_is L) (api_ResendChannel env who i)"
  "keeps (log_is L) (api_VerifyChannel env who i code)" "keeps (log_is L) (api_SetChannelEnabled who i b)"
  unfolding api_AddChannel_def AddChannel_def api_ResendChannel_def ResendChannel_def resend_work_def
    api_VerifyChannel_def VerifyChannel_def verify_channel_def api_SetChannelEnabled_def
    SetChannelEnabled_def check_address_def identity_result_def
  by (auto simp: identity_ports Let_def intro!: log_rules split: ChannelKind.splits)

lemma log_other_handlers:
  "keeps (log_is L) (api_ListTodos env ws owner f)" "keeps (log_is L) (api_GetTodo env ws owner i)"
  "keeps (log_is L) (api_Dashboard env ws owner tz)" "keeps (log_is L) (api_ListDeliveries ws g)"
  "keeps (log_is L) (api_RecordReceipt env req)"
  unfolding api_ListTodos_def ListTodos_def api_GetTodo_def GetTodo_def api_Dashboard_def
    DashboardSummary_def reminderCounts_def reminderStats_def api_ListDeliveries_def
    ListDeliveries_def api_RecordReceipt_def RecordReceipt_def
  by (auto simp: wiring intro!: log_rules)

lemma serve_log:
  assumes "\<And>args n. e \<noteq> EventWork args n"
  shows "wd_sent (serve env e w) = wd_sent w"
proof -
  have run: "wd_sent (snd (m w)) = wd_sent w" if "\<And>L. keeps (log_is L) m" for m :: "(world, 'b) op"
    using keeps_snd [OF that, of "wd_sent w" w] by (simp add: log_is_def)
  show ?thesis
    using assms
    by (cases e) (auto simp: run log_todo_handlers log_identity_handlers log_channel_handlers
        log_other_handlers)
qed

section \<open>What the worker sends\<close>

text \<open>What justifies a message: a pending todo and a live plan of its current version.\<close>

definition justified :: "world \<Rightarrow> ReminderSendArgs \<Rightarrow> ReminderMessage \<Rightarrow> bool" where
  "justified w args m \<longleftrightarrow> (\<exists>t \<in> set (wd_todo w). \<exists>p \<in> set (rdb_plans (wd_reminder w)).
     IsPending t \<and> t_WorkspaceID t = sa_WorkspaceID args \<and> t_OwnerUserID t = sa_OwnerUserID args
     \<and> p_ID p = sa_PlanID args \<and> p_WorkspaceID p = sa_WorkspaceID args \<and> \<not> IsRevoked p
     \<and> p_TodoID p = t_ID t \<and> p_TodoReminderVersion p = t_ReminderVersion t
     \<and> m_TodoID m = t_ID t
     \<and> (\<exists>c \<in> set (idb_channels (wd_identity w)). cc_UserID c = sa_OwnerUserID args
          \<and> cc_WorkspaceID c = sa_WorkspaceID args \<and> string_of_kind (cc_Kind c) = sa_Channel args
          \<and> Usable c \<and> cc_Address c = m_To m))"

lemma stored_key:
  assumes inv: "world_inv env w" and row: "delivery_row (wd_reminder w) ws key = Some d"
    and at: "todo_at (wd_todo w) ws i v" and key: "key = IdempotencyKeyFor ws i v ch"
  shows "d_TodoID d = i \<and> d_TodoReminderVersion d = v \<and> d_Channel d = ch"
proof -
  obtain r where r: "r \<in> set (rdb_deliveries (wd_reminder w))" "d = scanDelivery r"
    "d_WorkspaceID r = ws" "d_IdempotencyKey r = key"
    using row by (auto simp: delivery_row_def dest: find_SomeD)
  have I: "delivery_inv r" "todo_at (wd_todo w) (d_WorkspaceID r) (d_TodoID r) (d_TodoReminderVersion r)"
    using inv r(1) by (auto simp: world_inv_def deliveries_inv_def)
  have plain: "CHR '':'' \<notin> set a \<and> CHR '':'' \<notin> set b" if "todo_at (wd_todo w) a b c" for a b c
    using that inv issued_plain by (auto simp: todo_at_def world_inv_def todos_inv_def)
  have "IdempotencyKeyFor (d_WorkspaceID r) (d_TodoID r) (d_TodoReminderVersion r) (d_Channel r)
      = IdempotencyKeyFor ws i v ch"
    using I(1) r(4) key by (simp add: delivery_inv_def)
  from IdempotencyKeyFor_inj [OF _ _ _ _ this] plain [OF I(2)] plain [OF at] r(2)
  show ?thesis by simp
qed

lemma worker_message:
  assumes inv: "world_inv env w" and run: "worker_Work env args n w = (r, w')"
  shows "\<exists>l. wd_sent w' = wd_sent w @ l
    \<and> (l = [] \<or> (\<exists>m. l = [(sa_Channel args, m)] \<and> justified w args m))"
proof -
  let ?R = "readable w" and ?ws = "sa_WorkspaceID args" and ?ow = "sa_OwnerUserID args"
    and ?ch = "sa_Channel args"
  have dinv: "delivery_table_inv (wd_reminder w)"
    using inv by (simp add: world_inv_def deliveries_inv_def)
  obtain l where l: "wd_sent w' = wd_sent w @ l" and why: "l \<noteq> [] \<longrightarrow> (\<exists>plan todo d.
          read_plan ?R ?ws (sa_PlanID args) = Some plan
          \<and> todo = read_todo ?R ?ws ?ow (p_TodoID plan)
          \<and> send_reason plan todo = None
          \<and> \<not> final_row (delivery_row (wd_reminder w) ?ws (IdempotencyKeyFor ?ws (p_TodoID plan)
                (p_TodoReminderVersion plan) ?ch))
          \<and> base_row plan (tv_Title (the todo)) (delivery_row (wd_reminder w) ?ws
                (IdempotencyKeyFor ?ws (p_TodoID plan) (p_TodoReminderVersion plan) ?ch)) d
          \<and> one_message (read_endpoint ?R ?ws ?ow ?ch) ?ch d l)"
    using send.send_message [OF dinv run [unfolded worker_Work_def SendWorker_Work_def]] by auto
  show ?thesis
  proof (cases "l = []")
    case True
    with l show ?thesis by blast
  next
    case False
    with why obtain plan tv d where plan: "read_plan ?R ?ws (sa_PlanID args) = Some plan"
      and tv: "read_todo ?R ?ws ?ow (p_TodoID plan) = Some tv"
      and live: "send_reason plan (Some tv) = None"
      and base: "base_row plan (tv_Title tv) (delivery_row (wd_reminder w) ?ws
                (IdempotencyKeyFor ?ws (p_TodoID plan) (p_TodoReminderVersion plan) ?ch)) d"
      and one: "one_message (read_endpoint ?R ?ws ?ow ?ch) ?ch d l"
      by (auto simp: send_reason_def split: if_splits option.splits)
    obtain p where p: "p \<in> set (rdb_plans (wd_reminder w))" "plan = scanPlan p" "p_WorkspaceID p = ?ws"
      "p_ID p = sa_PlanID args"
      using plan by (auto simp: read_plan_def readable_def dest: find_SomeD)
    have pf: "p_TodoID plan = p_TodoID p" "p_TodoReminderVersion plan = p_TodoReminderVersion p"
      "IsRevoked p \<Longrightarrow> IsRevoked plan"
      using p(2) by (auto simp: scanPlan_def IsRevoked_def PlanStatus_of_def)
    obtain t where t: "todo_lookup (wd_todo w) ?ws ?ow (p_TodoID p) = Some t" and tvt: "tv = reader_view (scanTodo t)"
      using tv pf by (auto simp: read_todo_def readable_def)
    have tinv: "todo_table_inv (wd_todo w)" using inv by (simp add: world_inv_def todos_inv_def)
    note sc = todo_rows.lookup_scope [OF tinv t]
    have tm: "t \<in> set (wd_todo w)" using t by (auto simp: todo_lookup_def dest: find_SomeD)
    have tv': "tv = reader_view t" using tvt sc by (simp add: scanTodo_id)
    have pend: "IsPending t" and ver: "p_TodoReminderVersion p = t_ReminderVersion t"
      and nr: "\<not> IsRevoked p"
      using live sc pf tv'
      by (auto simp: send_reason_def reader_view_def IsPending_def todo_wf_def known_status_def
          split: if_splits)
    have at: "todo_at (wd_todo w) ?ws (p_TodoID p) (p_TodoReminderVersion p)"
      using tm sc ver by (auto simp: todo_at_def)
    have did: "d_TodoID d = t_ID t"
    proof (cases "delivery_row (wd_reminder w) ?ws (IdempotencyKeyFor ?ws (p_TodoID plan)
        (p_TodoReminderVersion plan) ?ch)")
      case None
      with base sc pf show ?thesis by (simp add: base_row_def)
    next
      case (Some d0)
      with base have "d = d0" by (simp add: base_row_def)
      with stored_key [OF inv Some at] pf sc show ?thesis by simp
    qed
    obtain m where lm: "l = [(?ch, m)]" and m: "m_TodoID m = d_TodoID d"
      "ce_Usable (read_endpoint ?R ?ws ?ow ?ch)" "m_To m = ce_Address (read_endpoint ?R ?ws ?ow ?ch)"
      using one False by (auto simp: one_message_def)
    obtain c where "c \<in> set (channel_list (wd_identity w) ?ws ?ow)" "string_of_kind (cc_Kind c) = ?ch"
      "Usable c" "cc_Address c = m_To m"
      using m(2,3)
      by (auto simp: read_endpoint_def readable_def resolve_endpoint_def dest!: find_SomeD
          split: option.splits)
    then have "\<exists>c \<in> set (idb_channels (wd_identity w)). cc_UserID c = ?ow \<and> cc_WorkspaceID c = ?ws
        \<and> string_of_kind (cc_Kind c) = ?ch \<and> Usable c \<and> cc_Address c = m_To m"
      by (auto simp: channel_list_def Usable_def)
    then have "justified w args m"
      unfolding justified_def using p(1,3,4) tm pend nr ver sc m(1) did
      by (intro bexI [of _ t] bexI [of _ p]) simp_all
    with l lm show ?thesis by blast
  qed
qed

section \<open>Across any run of the program\<close>

lemma events_evolve:
  "world_inv env w \<Longrightarrow> list_all well_scoped es \<Longrightarrow> evolves env w (fold (serve env) es w)"
proof (induction es arbitrary: w)
  case Nil
  then show ?case by (simp add: evolves_refl)
next
  case (Cons e es)
  then have e: "evolves env w (serve env e w)" by (simp add: serve_evolves)
  with Cons show ?case using evolves_trans [OF e] by (simp add: evolves_inv)
qed

lemma reachable_events:
  assumes "reachable env w" "list_all well_scoped es"
  shows "reachable env (fold (serve env) es w)"
  using assms
proof (induction es arbitrary: w)
  case (Cons e es)
  then have "reachable env (serve env e w)" by (auto intro: reachable.step served)
  with Cons show ?case by simp
qed simp

text \<open>The messages of one event.\<close>

lemma event_messages:
  assumes inv: "world_inv env w" and t: "t \<in> set (wd_todo w)" "\<not> IsPending t"
  shows "\<exists>l. wd_sent (serve env e w) = wd_sent w @ l \<and> (\<forall>(ch, m) \<in> set l. m_TodoID m \<noteq> t_ID t)"
proof (cases "\<exists>args n. e = EventWork args n")
  case False
  then have "wd_sent (serve env e w) = wd_sent w" by (intro serve_log) blast
  then show ?thesis by simp
next
  case True
  then obtain args n where e: "e = EventWork args n" by blast
  obtain r w' where run: "worker_Work env args n w = (r, w')" by (cases "worker_Work env args n w")
  obtain l where l: "wd_sent w' = wd_sent w @ l" "l = [] \<or> (\<exists>m. l = [(sa_Channel args, m)] \<and> justified w args m)"
    using worker_message [OF inv run] by blast
  have "m_TodoID m \<noteq> t_ID t" if "justified w args m" for m
  proof
    assume m: "m_TodoID m = t_ID t"
    obtain u where u: "u \<in> set (wd_todo w)" "IsPending u" "t_ID u = m_TodoID m"
      using \<open>justified w args m\<close> by (auto simp: justified_def)
    have "distinct (map t_ID (wd_todo w))"
      using inv by (simp add: world_inv_def todos_inv_def todo_table_inv_def)
    then have "u = t" using u t m by (auto intro: distinct_key_eq)
    with u t show False by simp
  qed
  with l run e show ?thesis by auto
qed

lemma settled_todo_silent:
  assumes "world_inv env w" "list_all well_scoped es" "t \<in> set (wd_todo w)" "\<not> IsPending t"
  shows "\<exists>l. wd_sent (fold (serve env) es w) = wd_sent w @ l
    \<and> (\<forall>(ch, m) \<in> set l. m_TodoID m \<noteq> t_ID t)"
  using assms
proof (induction es arbitrary: w t)
  case Nil
  then show ?case by simp
next
  case (Cons e es)
  have e: "evolves env w (serve env e w)" using Cons.prems by (simp add: serve_evolves)
  then obtain t' where t': "t' \<in> set (wd_todo (serve env e w))" "todo_step\<^sup>*\<^sup>* t t'"
    using Cons.prems(3) by (auto simp: evolves_def todos_evolve_def)
  have wf: "todo_wf t"
    using Cons.prems(1,3) by (simp add: world_inv_def todos_inv_def todo_table_inv_def list_all_iff)
  have same: "t_ID t' = t_ID t" "\<not> IsPending t'"
    using todo_steps_facts [OF t'(2)] Cons.prems(4) wf
    by (auto simp: same_identity_def IsPending_def todo_wf_def known_status_def)
  obtain l where l: "wd_sent (serve env e w) = wd_sent w @ l" "\<forall>(ch, m) \<in> set l. m_TodoID m \<noteq> t_ID t"
    using event_messages [OF Cons.prems(1,3,4)] by blast
  obtain l' where "wd_sent (fold (serve env) es (serve env e w)) = wd_sent (serve env e w) @ l'"
    "\<forall>(ch, m) \<in> set l'. m_TodoID m \<noteq> t_ID t'"
    using Cons.IH [OF evolves_inv [OF e] _ t'(1) same(2)] Cons.prems(2) by auto
  with l same show ?case by (intro exI [of _ "l @ l'"]) auto
qed

lemma final_row_kept:
  assumes "world_inv env w" "list_all well_scoped es"
    and "d \<in> set (rdb_deliveries (wd_reminder w))" "IsFinal d"
  shows "\<exists>d' \<in> set (rdb_deliveries (wd_reminder (fold (serve env) es w))).
      d_ID d' = d_ID d \<and> d_IdempotencyKey d' = d_IdempotencyKey d \<and> same_outcome d d'"
  using events_evolve [OF assms(1,2)] assms(3,4)
  by (fastforce simp: evolves_def deliveries_evolve_def row_evolves_def)

text \<open>The row a plan's job works on, found again in any later state.\<close>

lemma final_scan: "delivery_inv d \<Longrightarrow> IsFinal (scanDelivery d) = IsFinal d"
  by (simp add: IsFinal_def scan_columns scan_state)

lemma plan_persists:
  assumes inv: "world_inv env w'" and e: "evolves env w w'"
    and p: "read_plan (readable w) ws i = Some p"
  shows "\<exists>p'. read_plan (readable w') ws i = Some p' \<and> p_TodoID p' = p_TodoID p
    \<and> p_TodoReminderVersion p' = p_TodoReminderVersion p"
proof -
  obtain q where q: "q \<in> set (rdb_plans (wd_reminder w))" "p_WorkspaceID q = ws" "p_ID q = i" "p = scanPlan q"
    using p by (auto simp: read_plan_def readable_def dest: find_SomeD)
  obtain q' where q': "q' \<in> set (rdb_plans (wd_reminder w'))" "plan_evolves q q'"
    using e q(1) by (auto simp: evolves_def plans_evolve_def)
  let ?P = "\<lambda>p. p_WorkspaceID p = ws \<and> p_ID p = i"
  have "?P q'" using q' q by (simp add: plan_evolves_def)
  with q'(1) have "find ?P (rdb_plans (wd_reminder w')) \<noteq> None" by (auto simp: find_None_iff)
  then obtain r where r: "find ?P (rdb_plans (wd_reminder w')) = Some r" by blast
  have "distinct (map p_ID (rdb_plans (wd_reminder w')))"
    using inv by (simp add: world_inv_def plans_inv_def)
  moreover have "r \<in> set (rdb_plans (wd_reminder w'))" "p_ID r = i" using find_SomeD [OF r] by auto
  ultimately have "r = q'" using q'(1) \<open>?P q'\<close> by (auto intro: distinct_key_eq)
  with r q' q(4) show ?thesis
    by (simp add: read_plan_def readable_def plan_evolves_def scanPlan_def)
qed

lemma final_row_persists:
  assumes inv: "world_inv env w" "world_inv env w'" and e: "evolves env w w'"
    and d: "delivery_row (wd_reminder w) ws key = Some d" "IsFinal d"
  shows "\<exists>d'. delivery_row (wd_reminder w') ws key = Some d' \<and> IsFinal d'"
proof -
  have ti: "delivery_table_inv (wd_reminder w)" "delivery_table_inv (wd_reminder w')"
    using inv by (simp_all add: world_inv_def deliveries_inv_def)
  obtain r where r: "r \<in> set (rdb_deliveries (wd_reminder w))" "d_WorkspaceID r = ws"
    "d_IdempotencyKey r = key" "d = scanDelivery r"
    using d(1) unfolding delivery_row_Some [OF ti(1)] by blast
  have "delivery_inv r" using inv(1) r(1) by (simp add: world_inv_def deliveries_inv_def)
  then have fr: "IsFinal r" using d(2) r(4) by (simp add: final_scan)
  obtain r' where r': "r' \<in> set (rdb_deliveries (wd_reminder w'))" "row_evolves r r'"
    using e r(1) by (auto simp: evolves_def deliveries_evolve_def)
  have ir': "delivery_inv r'" using inv(2) r'(1) by (simp add: world_inv_def deliveries_inv_def)
  have "IsFinal r'" using r'(2) fr same_outcome_final [of r r'] by (simp add: row_evolves_def)
  then have "IsFinal (scanDelivery r')" using ir' by (simp add: final_scan)
  moreover have "delivery_row (wd_reminder w') ws key = Some (scanDelivery r')"
    unfolding delivery_row_Some [OF ti(2)] using r' r by (auto simp: row_evolves_def)
  ultimately show ?thesis by blast
qed

text \<open>A job that reported success once is never sent again, whatever happened in between.\<close>

lemma job_done_silent:
  assumes inv: "world_inv env w" and run: "worker_Work env args n w = (Inr (), w1)"
    and plan: "read_plan (readable w) (sa_WorkspaceID args) (sa_PlanID args) = Some p"
    and es: "list_all well_scoped es"
  shows "wd_sent (serve env (EventWork args k) (fold (serve env) es w1)) = wd_sent (fold (serve env) es w1)"
proof -
  let ?ws = "sa_WorkspaceID args" and ?w2 = "fold (serve env) es w1"
  let ?key = "IdempotencyKeyFor ?ws (p_TodoID p) (p_TodoReminderVersion p) (sa_Channel args)"
  have dinv: "delivery_table_inv (wd_reminder w)"
    using inv by (simp add: world_inv_def deliveries_inv_def)
  have e1: "evolves env w w1" using serve_evolves [OF inv, of "EventWork args n"] run by simp
  note inv1 = evolves_inv [OF e1]
  note e2 = events_evolve [OF inv1 es]
  note inv2 = evolves_inv [OF e2]
  obtain d l where d: "delivery_row (wd_reminder w1) ?ws ?key = Some d"
    and out: "send_outcome p (read_todo (readable w) ?ws (sa_OwnerUserID args) (p_TodoID p))
        (read_endpoint (readable w) ?ws (sa_OwnerUserID args) (sa_Channel args)) (sa_Channel args)
        (delivery_row (wd_reminder w) ?ws ?key) d l"
    and same: "readable w1 = readable w"
    using send.send_success [OF dinv run [unfolded worker_Work_def SendWorker_Work_def]] plan by auto
  have "IsFinal d"
    using out
    by (auto simp: send_outcome_def final_row_def IsFinal_def split: if_splits option.splits)
  from final_row_persists [OF inv1 inv2 e2 d this] obtain d' where
    d': "delivery_row (wd_reminder ?w2) ?ws ?key = Some d'" "IsFinal d'" by blast
  obtain p' where p': "read_plan (readable ?w2) ?ws (sa_PlanID args) = Some p'" "p_TodoID p' = p_TodoID p"
    "p_TodoReminderVersion p' = p_TodoReminderVersion p"
    using plan_persists [OF inv2 e2 plan [folded same]] by blast
  have dinv2: "delivery_table_inv (wd_reminder ?w2)"
    using inv2 by (simp add: world_inv_def deliveries_inv_def)
  obtain r w3 where run3: "worker_Work env args k ?w2 = (r, w3)" by (cases "worker_Work env args k ?w2")
  from send.send_final_silent [OF dinv2 run3 [unfolded worker_Work_def SendWorker_Work_def]] p' d'
  have "wd_sent w3 = wd_sent ?w2" by simp
  with run3 show ?thesis by simp
qed

end
