(* ===== verification/Program_Todos.thy ===== *)
theory Program_Todos
  imports Program_Facts
begin

text \<open>
  The todo commands that end reminders: what \<open>CompleteTodo\<close> and \<open>DeleteTodo\<close> leave in the todo,
  plan and delivery tables when they return a view, and what \<open>Revoke\<close> clears.
\<close>

section \<open>Nothing is left to send\<close>

text \<open>Up to a version, no plan of a todo is planned and no delivery of it is scheduled.\<close>

definition cleared :: "reminder_db \<Rightarrow> string \<Rightarrow> string \<Rightarrow> int \<Rightarrow> bool" where
  "cleared db ws i v \<longleftrightarrow>
     (\<forall>p \<in> set (rdb_plans db). p_WorkspaceID p = ws \<and> p_TodoID p = i \<and> p_TodoReminderVersion p \<le> v \<longrightarrow>
        p_Status p \<noteq> StatusPlanned)
     \<and> (\<forall>d \<in> set (rdb_deliveries db). d_WorkspaceID d = ws \<and> d_TodoID d = i
          \<and> d_TodoReminderVersion d \<le> v \<longrightarrow> d_State d \<noteq> StateScheduled)"

lemma list_all2_right: "list_all2 P xs ys \<Longrightarrow> y \<in> set ys \<Longrightarrow> \<exists>x \<in> set xs. P x y"
  by (induction rule: list_all2_induct) auto

lemma revoke_clears:
  assumes inv: "world_inv env w" and run: "rp_Revoke (planner env) q w = (Inr (), w')"
  shows "cleared (wd_reminder w') (rr_WorkspaceID q) (rr_TodoID q) (rr_UpToReminderVersion q)"
proof -
  let ?ws = "rr_WorkspaceID q" and ?i = "rr_TodoID q" and ?v = "rr_UpToReminderVersion q"
  have dinv: "delivery_table_inv (wd_reminder w)" using inv by (simp add: world_inv_def deliveries_inv_def)
  obtain reason now where
    plans: "rdb_plans (wd_reminder w') = rdb_plans (snd (pg_plan_RevokePlanned ?ws ?i ?v now (wd_reminder w)))"
    and rows: "list_all2 (revoked_row ?ws ?i ?v reason) (rdb_deliveries (wd_reminder w)) (rdb_deliveries (wd_reminder w'))"
    using reminder.revoke_ok [OF run [unfolded planner_def planner_shim_def ReminderPlanner.simps] dinv]
    by auto
  have "p_Status p \<noteq> StatusPlanned"
    if "p \<in> set (rdb_plans (wd_reminder w'))" "p_WorkspaceID p = ?ws" "p_TodoID p = ?i"
      "p_TodoReminderVersion p \<le> ?v" for p
    using that plans by (auto simp: pg_plan_RevokePlanned_def in_update_where)
  moreover have "d_State d \<noteq> StateScheduled"
    if d: "d \<in> set (rdb_deliveries (wd_reminder w'))" "d_WorkspaceID d = ?ws" "d_TodoID d = ?i"
      "d_TodoReminderVersion d \<le> ?v" for d
  proof -
    obtain r where rr: "revoked_row ?ws ?i ?v reason r d"
      using rows d(1) by (auto simp: list_all2_conv_all_nth in_set_conv_nth)
    show ?thesis
    proof (cases "of_todo_upto ?ws ?i ?v r \<and> in_state ''scheduled'' r")
      case True
      with rr obtain n where "scanDeliveryWithOrigin d = suppressed_row reason n (scanDeliveryWithOrigin r)"
        by (auto simp: revoked_row_def)
      then have "d_State (scanDeliveryWithOrigin d) = StateSuppressed" by (simp add: suppressed_row_def)
      then show ?thesis by (auto simp: scanDeliveryWithOrigin_def DeliveryState_of_def)
    next
      case False
      then have "d = r" using rr by (simp add: revoked_row_def)
      with False d show ?thesis by (auto simp: of_todo_upto_def in_state_def)
    qed
  qed
  ultimately show ?thesis unfolding cleared_def by blast
qed

text \<open>The invariant bounds the versions, so that clearing up to the current one clears all.\<close>

definition no_reminders :: "reminder_db \<Rightarrow> string \<Rightarrow> string \<Rightarrow> bool" where
  "no_reminders db ws i \<longleftrightarrow>
     (\<forall>p \<in> set (rdb_plans db). p_WorkspaceID p = ws \<and> p_TodoID p = i \<longrightarrow> p_Status p \<noteq> StatusPlanned)
     \<and> (\<forall>d \<in> set (rdb_deliveries db). d_WorkspaceID d = ws \<and> d_TodoID d = i \<longrightarrow> d_State d \<noteq> StateScheduled)"

lemma cleared_all:
  assumes inv: "world_inv env w" and t: "t \<in> set (wd_todo w)"
    and c: "cleared (wd_reminder w) ws (t_ID t) (t_ReminderVersion t)"
  shows "no_reminders (wd_reminder w) ws (t_ID t)"
proof -
  have dist: "distinct (map t_ID (wd_todo w))"
    using inv by (simp add: world_inv_def todos_inv_def todo_table_inv_def)
  have below: "v \<le> t_ReminderVersion t" if at: "todo_at (wd_todo w) ws' (t_ID t) v" for ws' v
  proof -
    obtain u where "u \<in> set (wd_todo w)" "t_ID u = t_ID t" "v \<le> t_ReminderVersion u"
      using at by (auto simp: todo_at_def)
    with distinct_key_eq [OF dist t] show ?thesis by blast
  qed
  have "p_TodoReminderVersion p \<le> t_ReminderVersion t"
    if "p \<in> set (rdb_plans (wd_reminder w))" "p_TodoID p = t_ID t" for p
  proof -
    have "todo_at (wd_todo w) (p_WorkspaceID p) (p_TodoID p) (p_TodoReminderVersion p)"
      using inv that(1) by (simp add: world_inv_def plans_inv_def)
    with that(2) below show ?thesis by simp
  qed
  moreover have "d_TodoReminderVersion d \<le> t_ReminderVersion t"
    if "d \<in> set (rdb_deliveries (wd_reminder w))" "d_TodoID d = t_ID t" for d
  proof -
    have "todo_at (wd_todo w) (d_WorkspaceID d) (d_TodoID d) (d_TodoReminderVersion d)"
      using inv that(1) by (simp add: world_inv_def deliveries_inv_def)
    with that(2) below show ?thesis by simp
  qed
  ultimately show ?thesis using c unfolding cleared_def no_reminders_def by blast
qed

text \<open>Load, transition, save, revoke: the run of a versioned command that returns.\<close>

lemma run_at:
  assumes "safe_at env w m" "world_inv env w" "m w = (r, w')"
  shows "world_inv env w'"
  using evolves_inv [OF safe_atD [OF assms]] .

lemma domain_result_Inr: "domain_result r s = (Inr a, s') \<longleftrightarrow> r = Inr a \<and> s' = s"
  by (cases r) (auto simp: domain_result_def)

lemma pg_todo_Update_rows:
  assumes dist: "distinct (map t_ID rows)" and t: "t \<in> set rows" and same: "same_identity t t'"
    and v: "t_Version t = n" and run: "pg_todo_Update t' n rows = (Inr (), rows')"
  shows "rows' = map (\<lambda>r. if t_ID r = t_ID t then t' else r) rows"
proof -
  let ?P = "\<lambda>r. t_ID r = t_ID t' \<and> owned (t_WorkspaceID t') (t_OwnerUserID t') r \<and> t_Version r = n"
  let ?f = "\<lambda>r. r\<lparr>t_Title := t_Title t', t_Description := t_Description t',
             t_DueAtUTC := t_DueAtUTC t', t_TimezoneAtInput := t_TimezoneAtInput t',
             t_Status := t_Status t', t_ReminderVersion := t_ReminderVersion t',
             t_Version := t_Version t', t_UpdatedAt := t_UpdatedAt t',
             t_CompletedAt := t_CompletedAt t', t_DeletedAt := t_DeletedAt t'\<rparr>"
  have rows': "rows' = update_where ?P ?f rows"
    using run by (simp add: pg_todo_Update_def Let_def split: if_splits)
  have id: "t_ID t' = t_ID t" using same by (simp add: same_identity_def)
  have "(if ?P r then ?f r else r) = (if t_ID r = t_ID t then t' else r)" if r: "r \<in> set rows" for r
  proof (cases "t_ID r = t_ID t")
    case True
    then have "r = t" using distinct_key_eq [OF dist t r] by simp
    moreover have "?P t" using same v by (simp add: owned_def same_identity_def)
    moreover have "?f t = t'" using same by (simp add: same_identity_def)
    ultimately show ?thesis by simp
  next
    case False
    then have "\<not> ?P r" using id by simp
    then show ?thesis unfolding if_not_P [OF False] by (rule if_not_P)
  qed
  then show ?thesis unfolding rows' update_where_def by (rule map_cong [OF refl])
qed

lemma load_save_revoke:
  assumes inv: "world_inv env w"
    and run: "bindE (ts_Get (todos env) ws owner i) (\<lambda>stored.
     bindE (domain_result (f stored)) (\<lambda>loaded.
     bindE (ts_Update (todos env) loaded n) (\<lambda>_.
     bindE (rp_Revoke (planner env) \<lparr>rr_WorkspaceID = ws, rr_TodoID = i,
        rr_UpToReminderVersion = t_ReminderVersion loaded, rr_Reason = reason\<rparr>)
       (\<lambda>_. ok loaded)))) w = (Inr t', w')"
    and f: "\<And>t t'. f t = Inr t' \<Longrightarrow> todo_step t t' \<and> t_Version t = n"
  shows "\<exists>t \<in> set (wd_todo w). t_ID t = i \<and> t_WorkspaceID t = ws \<and> t_OwnerUserID t = owner
     \<and> f t = Inr t' \<and> wd_todo w' = map (\<lambda>r. if t_ID r = i then t' else r) (wd_todo w)
     \<and> cleared (wd_reminder w') ws i (t_ReminderVersion t')"
proof -
  obtain t w1 w2 w3 where get: "ts_Get (todos env) ws owner i w = (Inr t, w1)"
    and ft: "f t = Inr t'" and up: "ts_Update (todos env) t' n w1 = (Inr (), w2)"
    and rev: "rp_Revoke (planner env) \<lparr>rr_WorkspaceID = ws, rr_TodoID = i,
        rr_UpToReminderVersion = t_ReminderVersion t', rr_Reason = reason\<rparr> w2 = (Inr (), w')"
    using run
    by (auto simp: bindE_Inr_iff domain_result_Inr)
  have w1: "w1 = w" using todos_reads(1) [OF get] .
  note t = stored_todo [OF inv get]
  have st: "todo_step t t'" "t_Version t = n" using f [OF ft] by auto
  have dist: "distinct (map t_ID (wd_todo w))"
    using inv by (simp add: world_inv_def todos_inv_def todo_table_inv_def)
  have only: "r = t" if "r \<in> set (wd_todo w)" "t_ID r = i" for r
    using distinct_key_eq [OF dist] t that by blast
  have same: "same_identity t t'" using todo_step_identity [OF st(1)] .
  have rows: "wd_todo w2 = map (\<lambda>r. if t_ID r = i then t' else r) (wd_todo w)"
  proof -
    have "pg_todo_Update t' n (wd_todo w) = (Inr (), wd_todo w2)"
      using up unfolding w1 by (auto simp: wiring zoom_run prod_eq_iff)
    from pg_todo_Update_rows [OF dist conjunct1 [OF t] same st(2) this] t show ?thesis by simp
  qed
  have "safe_at env w (ts_Update (todos env) t' n)"
    by (rule safe_todo_Update) (use only same st t in \<open>auto simp: same_identity_def\<close>)
  from run_at [OF this inv up [unfolded w1]] have inv2: "world_inv env w2" .
  have "wd_todo w' = wd_todo w2" using planner_frame [of env _ w2 _ w'] rev by blast
  with revoke_clears [OF inv2 rev] rows t ft show ?thesis by (intro bexI [of _ t]) simp_all
qed


text \<open>The unit of work around it: the transaction's data is the state after it.\<close>

lemma uow_run:
  assumes inv: "world_inv env w" and run: "uow env m w = (Inr a, w')"
  obtains v v' where "wd_data v = wd_data w" "world_inv env v" "m v = (Inr a, v')" "wd_data w' = wd_data v'"
    "wd_ids v = wd_ids w"
proof -
  let ?v = "w\<lparr>wd_tick := Suc (wd_tick w)\<rparr>"
  have d: "wd_data ?v = wd_data w" by (simp add: wd_data_def)
  have i: "world_inv env ?v" by (rule world_inv_cong [OF d _ inv]) simp
  obtain r v' where m: "m ?v = (r, v')" by (cases "m ?v")
  have "r = Inr a \<and> wd_data w' = wd_data v'"
    using run m
    by (auto simp: uow_def JoinableUoW_Run_def TxRunner_Run_def world_driver_def wd_data_def
        split: sum.splits)
  with d i m show thesis by (intro that [of ?v v']) simp_all
qed

lemma wd_dataD:
  "wd_data w = wd_data v \<Longrightarrow> wd_todo w = wd_todo v \<and> wd_reminder w = wd_reminder v
     \<and> wd_identity w = wd_identity v \<and> wd_jobs w = wd_jobs v"
  by (simp add: wd_data_def)

lemma Now_inv: "world_inv env w \<Longrightarrow> world_Now env w = (n, w') \<Longrightarrow> world_inv env w' \<and> wd_data w' = wd_data w"
  using run_at [OF safe_Now] by (auto simp: wd_data_def)

text \<open>What a completion or a deletion leaves behind.\<close>

definition settled :: "world \<Rightarrow> world \<Rightarrow> VersionedRequest \<Rightarrow> todo \<Rightarrow> todo \<Rightarrow> bool" where
  "settled w w' req t t' \<longleftrightarrow>
     t \<in> set (wd_todo w) \<and> t_ID t = vr_TodoID req \<and> t_WorkspaceID t = vr_WorkspaceID req
     \<and> t_OwnerUserID t = vr_UserID req \<and> t_Version t = vr_Version req
     \<and> wd_todo w' = map (\<lambda>r. if t_ID r = vr_TodoID req then t' else r) (wd_todo w)
     \<and> no_reminders (wd_reminder w') (vr_WorkspaceID req) (vr_TodoID req)"

lemma settle_work:
  assumes inv: "world_inv env v" and inv': "world_inv env w'"
    and work: "bindE (ts_Get (todos env) (vr_WorkspaceID req) (vr_UserID req) (vr_TodoID req)) (\<lambda>stored.
     bindE (domain_result (f stored)) (\<lambda>loaded.
     bindE (ts_Update (todos env) loaded (vr_Version req)) (\<lambda>_.
     bindE (rp_Revoke (planner env) \<lparr>rr_WorkspaceID = vr_WorkspaceID req, rr_TodoID = vr_TodoID req,
        rr_UpToReminderVersion = t_ReminderVersion loaded, rr_Reason = reason\<rparr>)
       (\<lambda>_. ok loaded)))) v = (Inr t', v')"
    and e: "wd_todo v = wd_todo w" "wd_todo w' = wd_todo v'" "wd_reminder w' = wd_reminder v'"
    and f: "\<And>t t'. f t = Inr t' \<Longrightarrow> todo_step t t' \<and> t_Version t = vr_Version req"
  shows "\<exists>t. f t = Inr t' \<and> settled w w' req t t'"
proof -
  obtain t where t: "t \<in> set (wd_todo v)" "t_ID t = vr_TodoID req" "t_WorkspaceID t = vr_WorkspaceID req"
      "t_OwnerUserID t = vr_UserID req" "f t = Inr t'"
    and rows: "wd_todo v' = map (\<lambda>r. if t_ID r = vr_TodoID req then t' else r) (wd_todo v)"
    and c: "cleared (wd_reminder v') (vr_WorkspaceID req) (vr_TodoID req) (t_ReminderVersion t')"
    using load_save_revoke [OF inv work] f by blast
  note ft = f [OF t(5)]
  have id: "t_ID t' = vr_TodoID req"
    using todo_step_identity [of t t'] ft t by (simp add: same_identity_def)
  have "t' \<in> set (wd_todo w')"
    using t(1,2) unfolding e(2) rows by (auto intro: image_eqI [of _ _ t])
  from cleared_all [OF inv' this] c have "no_reminders (wd_reminder w') (vr_WorkspaceID req) (vr_TodoID req)"
    unfolding id e(3) by blast
  with t ft e rows show ?thesis unfolding settled_def by auto
qed

lemma settle_ok:
  assumes inv: "world_inv env w"
    and run: "bindA (world_Now env) (\<lambda>now.
      bindE (uow env (bindE (ts_Get (todos env) (vr_WorkspaceID req) (vr_UserID req) (vr_TodoID req)) (\<lambda>stored.
     bindE (domain_result (f now stored)) (\<lambda>loaded.
     bindE (ts_Update (todos env) loaded (vr_Version req)) (\<lambda>_.
     bindE (rp_Revoke (planner env) \<lparr>rr_WorkspaceID = vr_WorkspaceID req, rr_TodoID = vr_TodoID req,
        rr_UpToReminderVersion = t_ReminderVersion loaded, rr_Reason = reason\<rparr>)
       (\<lambda>_. ok loaded)))))) (\<lambda>todo. ok (FromDomain todo now))) w = (Inr view, w')"
    and inv': "world_inv env w'"
    and f: "\<And>now t t'. f now t = Inr t' \<Longrightarrow> todo_step t t' \<and> t_Version t = vr_Version req"
  shows "\<exists>now t t'. f now t = Inr t' \<and> view = FromDomain t' now \<and> settled w w' req t t'"
proof -
  obtain now w1 t' where n: "world_Now env w = (now, w1)" and view: "view = FromDomain t' now"
    and u: "uow env (bindE (ts_Get (todos env) (vr_WorkspaceID req) (vr_UserID req) (vr_TodoID req)) (\<lambda>stored.
     bindE (domain_result (f now stored)) (\<lambda>loaded.
     bindE (ts_Update (todos env) loaded (vr_Version req)) (\<lambda>_.
     bindE (rp_Revoke (planner env) \<lparr>rr_WorkspaceID = vr_WorkspaceID req, rr_TodoID = vr_TodoID req,
        rr_UpToReminderVersion = t_ReminderVersion loaded, rr_Reason = reason\<rparr>)
       (\<lambda>_. ok loaded))))) w1 = (Inr t', w')"
    using run by (cases "world_Now env w") (auto simp: bindA_run bindE_Inr_iff)
  have w1: "world_inv env w1" "wd_data w1 = wd_data w" using Now_inv [OF inv n] by auto
  obtain v v' where v: "wd_data v = wd_data w1" "world_inv env v" "wd_data w' = wd_data v'"
    and work: "bindE (ts_Get (todos env) (vr_WorkspaceID req) (vr_UserID req) (vr_TodoID req)) (\<lambda>stored.
     bindE (domain_result (f now stored)) (\<lambda>loaded.
     bindE (ts_Update (todos env) loaded (vr_Version req)) (\<lambda>_.
     bindE (rp_Revoke (planner env) \<lparr>rr_WorkspaceID = vr_WorkspaceID req, rr_TodoID = vr_TodoID req,
        rr_UpToReminderVersion = t_ReminderVersion loaded, rr_Reason = reason\<rparr>)
       (\<lambda>_. ok loaded)))) v = (Inr t', v')"
    by (rule uow_run [OF w1(1) u])
  have e: "wd_todo v = wd_todo w" "wd_todo w' = wd_todo v'" "wd_reminder w' = wd_reminder v'"
    using wd_dataD [OF v(1)] wd_dataD [OF w1(2)] wd_dataD [OF v(3)] by auto
  from settle_work [OF v(2) inv' work e f [of now]] view show ?thesis by blast
qed

lemma complete_settles:
  assumes inv: "world_inv env w" and run: "api_CompleteTodo env req w = (Inr view, w')"
  shows "\<exists>now t t'. Complete (vr_Version req) now t = Inr t' \<and> view = FromDomain t' now
    \<and> settled w w' req t t'"
  by (rule settle_ok [OF inv run [unfolded api_CompleteTodo_def CompleteTodo_def complete_work_def]
        run_at [OF safe_Complete inv run]])
    (auto intro: step_complete simp: Complete_Inr)

lemma delete_settles:
  assumes inv: "world_inv env w" and run: "api_DeleteTodo env req w = (Inr view, w')"
  shows "\<exists>now t t'. Delete (vr_Version req) now t = Inr t' \<and> view = FromDomain t' now
    \<and> settled w w' req t t'"
  by (rule settle_ok [OF inv run [unfolded api_DeleteTodo_def DeleteTodo_def delete_work_def]
        run_at [OF safe_Delete inv run]])
    (auto intro: step_delete simp: Delete_Inr)

end
