(* ===== verification/Program_Plans.thy ===== *)
theory Program_Plans
  imports Program_Todos
begin

text \<open>
  What \<open>CreateTodo\<close> and \<open>UpdateTodo\<close> plan: one plan of the todo's current version, one scheduled
  delivery and one River job per usable channel, and no planned plan of an older version.
\<close>

section \<open>Planning a version\<close>

text \<open>The job River gets for a channel of a plan.\<close>

definition job_of :: "ReminderPlan \<Rightarrow> string \<Rightarrow> string \<Rightarrow> ReminderSendArgs \<times> string \<times> time" where
  "job_of plan owner channel =
     (\<lparr>sa_PlanID = p_ID plan, sa_WorkspaceID = p_WorkspaceID plan, sa_OwnerUserID = owner,
       sa_TodoID = p_TodoID plan, sa_TodoReminderVersion = p_TodoReminderVersion plan,
       sa_Channel = channel\<rparr>, ''reminder_'' @ channel, p_ScheduledAtUTC plan)"

definition jobs_are :: "(ReminderSendArgs \<times> string \<times> time) list \<Rightarrow> world \<Rightarrow> bool" where
  "jobs_are J w \<longleftrightarrow> wd_jobs w = J"

lemma jobs_zoom:
  "keeps (jobs_are J) (zoom wd_reminder (\<lambda>t w. w\<lparr>wd_reminder := t\<rparr>) m1)"
  "keepsA (jobs_are J) (world_Now env)" "keepsA (jobs_are J) (world_newID env)"
  by (rule keeps_zoom, simp add: jobs_are_def) (simp_all add: keepsA_def jobs_are_def)

lemma schedule_jobs:
  assumes "js_Schedule (scheduler env) job w = (Inr out, w')"
  shows "wd_jobs w' = wd_jobs w @ map (\<lambda>c. (\<lparr>sa_PlanID = j_PlanID job, sa_WorkspaceID = j_WorkspaceID job,
       sa_OwnerUserID = j_OwnerUserID job, sa_TodoID = j_TodoID job,
       sa_TodoReminderVersion = j_TodoReminderVersion job, sa_Channel = c\<rparr>, ''reminder_'' @ c,
       j_ScheduledAtUTC job)) (j_Channels job)"
proof -
  have "foldE cs acc (\<lambda>channel scheduled.
            bindE (insert_tx env (a channel) (''reminder_'' @ channel) at) (\<lambda>i.
            ok (scheduled @ [(channel, i)]))) v = (Inr out, v') \<Longrightarrow>
      wd_jobs v' = wd_jobs v @ map (\<lambda>c. (a c, ''reminder_'' @ c, at)) cs"
    for cs acc a at v v' and out :: "(string \<times> int) list"
  proof (induction cs arbitrary: acc v)
    case (Cons c cs)
    then obtain i v1 where ins: "insert_tx env (a c) (''reminder_'' @ c) at v = (Inr i, v1)"
      and rest: "foldE cs (acc @ [(c, i)]) (\<lambda>channel scheduled.
            bindE (insert_tx env (a channel) (''reminder_'' @ channel) at) (\<lambda>i.
            ok (scheduled @ [(channel, i)]))) v1 = (Inr out, v')"
      unfolding foldE.simps bindE_Inr_iff ok_run by blast
    have "wd_jobs v1 = wd_jobs v @ [(a c, ''reminder_'' @ c, at)]"
      using ins by (auto simp: insert_tx_def bindA_run split: sum.splits)
    with Cons.IH [OF rest] show ?case by simp
  qed simp
  from this [OF assms [unfolded scheduler_def river_scheduler_def river_Schedule_def
        JobScheduler.simps option.case executor.case]]
  show ?thesis .
qed

lemma plan_jobs:
  assumes run: "PlanReminder plans deliveries (scheduler env) (world_newID env) (world_Now env) req w = (Inr (), w')"
    and plan: "rdb_plans (wd_reminder w') = rdb_plans (wd_reminder w) @ [plan]"
  shows "wd_jobs w' = wd_jobs w @ map (job_of plan (pq_OwnerUserID req)) (p_RequestedChannels plan)"
proof -
  obtain i w1 n w2 where i: "world_newID env w = (i, w1)" and n: "world_Now env w1 = (n, w2)" by (metis surj_pair)
  have j2: "wd_jobs w2 = wd_jobs w" "wd_reminder w2 = wd_reminder w" using i n by auto
  obtain p where p: "NewReminderPlan i (pq_WorkspaceID req) (pq_TodoID req)
       (pq_TodoReminderVersion req) (pq_ScheduledAtUTC req) (pq_Channels req) n = Inr p"
    using run i n
    by (cases "NewReminderPlan i (pq_WorkspaceID req) (pq_TodoID req)
       (pq_TodoReminderVersion req) (pq_ScheduledAtUTC req) (pq_Channels req) n")
      (auto simp: PlanReminder_def bindA_run bindE_run reminder_result_run)
  obtain r w3 where save: "ps_Save plans p w2 = (r, w3)" by (cases "ps_Save plans p w2")
  have ok: "r = Inr ()"
  proof (rule ccontr)
    assume "r \<noteq> Inr ()"
    then obtain e where "r = Inl e" by (cases r) auto
    then have "w3 = w2" and "w' = w3"
      using save run i n p
      by (auto simp: wiring zoom_run pg_plan_Save_def PlanReminder_def bindA_run bindE_run tryE_run
          reminder_result_run split: if_splits)
    with plan j2 show False by simp
  qed
  obtain ids w4 scheduled w5 where
    ds: "plan_deliveries deliveries (world_newID env) (world_Now env) req p w3 = (Inr ids, w4)"
    and sch: "js_Schedule (scheduler env)
              \<lparr>j_PlanID = p_ID p, j_WorkspaceID = p_WorkspaceID p, j_TodoID = p_TodoID p,
               j_TodoReminderVersion = p_TodoReminderVersion p,
               j_ScheduledAtUTC = p_ScheduledAtUTC p, j_Channels = p_RequestedChannels p,
               j_OwnerUserID = pq_OwnerUserID req\<rparr> w4 = (Inr scheduled, w5)"
    and jobs: "set_job_ids deliveries p ids scheduled w5 = (Inr (), w')"
    using run i n p save ok
    by (auto simp: PlanReminder_def bindA_run tryE_run reminder_result_run bindE_Inr_iff)
  have "keeps (jobs_are J) (plan_deliveries deliveries (world_newID env) (world_Now env) req p)" for J
    unfolding plan_deliveries_def reminder_result_def
    by (auto simp: wiring intro!: keeps_rules jobs_zoom)
  from keepsD [OF this _ ds] have j4: "wd_jobs w4 = wd_jobs w3" by (simp add: jobs_are_def)
  have "keeps (jobs_are J) (set_job_ids deliveries p ids scheduled)" for J
    unfolding set_job_ids_def by (auto simp: wiring intro!: keeps_rules jobs_zoom)
  from keepsD [OF this _ jobs] have j': "wd_jobs w' = wd_jobs w5" by (simp add: jobs_are_def)
  have j3: "wd_jobs w3 = wd_jobs w2" using save by (auto simp: wiring zoom_run)
  have "p = plan"
  proof -
    have rel: "keeps (\<lambda>v. rdb_plans (wd_reminder v) = P) (ds_Save deliveries d)"
      "keeps (\<lambda>v. rdb_plans (wd_reminder v) = P) (ds_SetProviderJobID deliveries a b c)" for P d a b c
      by (auto intro!: keepsI simp: wiring zoom_run pg_delivery_Save_def pg_delivery_SetProviderJobID_def
          split: if_splits)
    have clock: "keepsA (\<lambda>v. rdb_plans (wd_reminder v) = P) (world_Now env)"
      "keepsA (\<lambda>v. rdb_plans (wd_reminder v) = P) (world_newID env)" for P
      by (simp_all add: keepsA_def)
    have "keeps (\<lambda>v. rdb_plans (wd_reminder v) = P)
        (plan_deliveries deliveries (world_newID env) (world_Now env) req p)" for P
      unfolding plan_deliveries_def reminder_result_def by (auto intro!: keeps_rules rel clock)
    from keepsD [OF this _ ds] have "rdb_plans (wd_reminder w4) = rdb_plans (wd_reminder w3)" by simp
    moreover have "keeps (\<lambda>v. rdb_plans (wd_reminder v) = P) (set_job_ids deliveries p ids scheduled)" for P
      unfolding set_job_ids_def by (auto intro!: keeps_rules rel)
    from keepsD [OF this _ jobs] have "rdb_plans (wd_reminder w') = rdb_plans (wd_reminder w5)" by simp
    moreover have "wd_reminder w5 = wd_reminder w4" using schedule_part [OF sch] by simp
    moreover have "rdb_plans (wd_reminder w3) = rdb_plans (wd_reminder w) @ [p\<lparr>p_RevokedAt := None\<rparr>]"
      using save ok j2 by (auto simp: wiring zoom_run pg_plan_Save_def split: if_splits)
    ultimately have "plan = p\<lparr>p_RevokedAt := None\<rparr>" using plan by simp
    also have "\<dots> = p" using p by (auto simp: NewReminderPlan_def split: if_splits)
    finally show ?thesis by simp
  qed
  with j' j4 j3 j2 schedule_jobs [OF sch] show ?thesis by (simp add: job_of_def)
qed


text \<open>The channels a plan asks for: the kinds of the owner's usable channels, sorted.\<close>

definition active_kinds :: "env \<Rightarrow> identity_db \<Rightarrow> string \<Rightarrow> string \<Rightarrow> string list" where
  "active_kinds env db ws owner = order_rows (\<lambda>a b. \<not> bytes_less b a)
     (filter (\<lambda>k. \<not> (k = ''sms'' \<and> e_SmsDisabled env))
       (remdups (map (\<lambda>c. string_of_kind (cc_Kind c)) (filter Usable (channel_list db ws owner)))))"

lemma snapshot_run:
  "channelsSnapshot (provider env) ws owner w = (Inr (active_kinds env (wd_identity w) ws owner), w)"
  by (simp add: channelsSnapshot_def provider_def channelsProvider_def active_kinds_def channel_list_def
      wiring zoom_run pg_channel_ListByUser_def bindE_run)

lemma active_kinds_distinct: "distinct (active_kinds env db ws owner)"
proof -
  have "distinct (map (\<lambda>x. x) (active_kinds env db ws owner))"
    unfolding active_kinds_def distinct_map_order_rows by simp
  then show ?thesis by simp
qed

definition plan_request :: "todo \<Rightarrow> time \<Rightarrow> string list \<Rightarrow> PlanRequest" where
  "plan_request t due chans = \<lparr>pq_WorkspaceID = t_WorkspaceID t, pq_TodoID = t_ID t,
     pq_OwnerUserID = t_OwnerUserID t, pq_Title = t_Title t,
     pq_TodoReminderVersion = t_ReminderVersion t, pq_ScheduledAtUTC = due, pq_Channels = chans\<rparr>"

text \<open>One plan, one scheduled delivery and one job per channel, and nothing else.\<close>

definition planned :: "world \<Rightarrow> world \<Rightarrow> todo \<Rightarrow> time \<Rightarrow> string list \<Rightarrow> bool" where
  "planned w w' t due chans \<longleftrightarrow> (\<exists>plan news.
     p_WorkspaceID plan = t_WorkspaceID t \<and> p_TodoID plan = t_ID t
     \<and> p_TodoReminderVersion plan = t_ReminderVersion t \<and> p_ScheduledAtUTC plan = due
     \<and> p_RequestedChannels plan = chans \<and> p_Status plan = StatusPlanned
     \<and> rdb_plans (wd_reminder w') = rdb_plans (wd_reminder w) @ [plan]
     \<and> map no_job (rdb_deliveries (wd_reminder w')) = map no_job (rdb_deliveries (wd_reminder w)) @ news
     \<and> list_all2 (planned_row (plan_request t due chans) plan) chans news
     \<and> wd_jobs w' = wd_jobs w @ map (job_of plan (t_OwnerUserID t)) chans)"

text \<open>No row of the todo's current version yet.\<close>

definition unplanned :: "reminder_db \<Rightarrow> todo \<Rightarrow> bool" where
  "unplanned db t \<longleftrightarrow>
     (\<forall>p \<in> set (rdb_plans db). \<not> (p_TodoID p = t_ID t \<and> p_TodoReminderVersion p = t_ReminderVersion t))
     \<and> (\<forall>d \<in> set (rdb_deliveries db).
          \<not> (d_TodoID d = t_ID t \<and> d_TodoReminderVersion d = t_ReminderVersion t))"

lemma plan_todo_ok:
  assumes inv: "world_inv env w" and t: "t \<in> set (wd_todo w)" and new: "unplanned (wd_reminder w) t"
    and chans: "distinct chans"
    and run: "rp_Plan (planner env)
           \<lparr>pr_WorkspaceID = t_WorkspaceID t, pr_TodoID = t_ID t,
            pr_TodoReminderVersion = t_ReminderVersion t, pr_ScheduledAtUTC = due,
            pr_Channels = chans, pr_Title = t_Title t, pr_OwnerUserID = t_OwnerUserID t\<rparr> w = (Inr (), w')"
  shows "planned w w' t due chans"
proof -
  let ?q = "plan_request t due chans"
  have go: "PlanReminder plans deliveries (scheduler env) (world_newID env) (world_Now env) ?q w = (Inr (), w')"
    using run by (simp add: planner_def planner_shim_def plan_request_def)
  have plain: "CHR '':'' \<notin> set a \<and> CHR '':'' \<notin> set b" if "todo_at (wd_todo w) a b c" for a b c
    using that inv issued_plain by (auto simp: todo_at_def world_inv_def todos_inv_def)
  have at: "todo_at (wd_todo w) (t_WorkspaceID t) (t_ID t) (t_ReminderVersion t)" using t by (rule stored_at)
  have none: "no_rows plan (pq_Channels ?q) (rdb_deliveries (wd_reminder w))"
    if p: "p_WorkspaceID plan = pq_WorkspaceID ?q" "p_TodoID plan = pq_TodoID ?q"
      "p_TodoReminderVersion plan = pq_TodoReminderVersion ?q" for plan
    unfolding no_rows_def
  proof (intro ballI conjI)
    fix r c
    assume r: "r \<in> set (rdb_deliveries (wd_reminder w))"
    have free: "\<not> (d_TodoID r = t_ID t \<and> d_TodoReminderVersion r = t_ReminderVersion t)"
      using new r by (simp add: unplanned_def)
    then show "\<not> (d_TodoID r = p_TodoID plan \<and> d_TodoReminderVersion r = p_TodoReminderVersion plan
        \<and> d_Channel r = c)"
      using p by (auto simp: plan_request_def)
    have I: "delivery_inv r" "todo_at (wd_todo w) (d_WorkspaceID r) (d_TodoID r) (d_TodoReminderVersion r)"
      using inv r by (auto simp: world_inv_def deliveries_inv_def)
    show "d_IdempotencyKey r \<noteq> IdempotencyKeyFor (p_WorkspaceID plan) (p_TodoID plan)
          (p_TodoReminderVersion plan) c"
    proof
      assume "d_IdempotencyKey r = IdempotencyKeyFor (p_WorkspaceID plan) (p_TodoID plan)
          (p_TodoReminderVersion plan) c"
      then have "IdempotencyKeyFor (d_WorkspaceID r) (d_TodoID r) (d_TodoReminderVersion r) (d_Channel r)
          = IdempotencyKeyFor (t_WorkspaceID t) (t_ID t) (t_ReminderVersion t) c"
        using I(1) p by (simp add: delivery_inv_def plan_request_def)
      from IdempotencyKeyFor_inj [OF _ _ _ _ this] plain [OF I(2)] plain [OF at] free show False by simp
    qed
  qed
  have known: "d_ID ` set (rdb_deliveries (wd_reminder w)) \<subseteq> issued_ids env w
      \<and> p_ID ` set (rdb_plans (wd_reminder w)) \<subseteq> issued_ids env w"
    using inv by (auto simp: world_inv_def plans_inv_def deliveries_inv_def)
  obtain i now plan news where
    plan: "NewReminderPlan i (t_WorkspaceID t) (t_ID t) (t_ReminderVersion t) due chans now = Inr plan"
    and rows: "rdb_plans (wd_reminder w') = rdb_plans (wd_reminder w) @ [plan]"
      "map no_job (rdb_deliveries (wd_reminder w')) = map no_job (rdb_deliveries (wd_reminder w)) @ news"
      "list_all2 (planned_row ?q plan) chans news"
    using reminder.plan_ok [OF go _ known _ none] chans new
    by (auto simp: plan_request_def unplanned_def)
  have f: "p_WorkspaceID plan = t_WorkspaceID t" "p_TodoID plan = t_ID t"
    "p_TodoReminderVersion plan = t_ReminderVersion t" "p_ScheduledAtUTC plan = due"
    "p_RequestedChannels plan = chans" "p_Status plan = StatusPlanned"
    using plan by (auto simp: NewReminderPlan_def split: if_splits)
  have "wd_jobs w' = wd_jobs w @ map (job_of plan (t_OwnerUserID t)) chans"
    using plan_jobs [OF go rows(1)] f by (simp add: plan_request_def)
  with f rows show ?thesis unfolding planned_def by blast
qed

section \<open>Creating\<close>

lemma create_work_plans:
  assumes inv: "world_inv env w"
    and t: "todo_wf t" "t_ID t \<in> issued_ids env w" "t_ID t \<notin> t_ID ` set (wd_todo w)"
      "CHR '':'' \<notin> set (t_WorkspaceID t)"
    and run: "create_work (todos env) (planner env) (provider env) t w = (Inr chans, w')"
  shows "wd_todo w' = wd_todo w @ [t] \<and>
    (case t_DueAtUTC t of
       None \<Rightarrow> chans = [] \<and> wd_reminder w' = wd_reminder w \<and> wd_jobs w' = wd_jobs w
     | Some due \<Rightarrow> chans = active_kinds env (wd_identity w) (t_WorkspaceID t) (t_OwnerUserID t)
         \<and> planned w w' t due chans)"
proof -
  obtain w1 where ins: "ts_Insert (todos env) t w = (Inr (), w1)"
    and go: "(case t_DueAtUTC t of
       None \<Rightarrow> ok []
     | Some due \<Rightarrow>
         bindE (channelsSnapshot (provider env) (t_WorkspaceID t) (t_OwnerUserID t)) (\<lambda>chans.
         bindE (rp_Plan (planner env)
           \<lparr>pr_WorkspaceID = t_WorkspaceID t, pr_TodoID = t_ID t,
            pr_TodoReminderVersion = t_ReminderVersion t, pr_ScheduledAtUTC = due,
            pr_Channels = chans, pr_Title = t_Title t,
            pr_OwnerUserID = t_OwnerUserID t\<rparr>) (\<lambda>_. ok chans))) w1 = (Inr chans, w')"
    using run by (auto simp: create_work_def bindE_Inr_iff)
  have w1: "w1 = w\<lparr>wd_todo := wd_todo w @ [t]\<rparr>"
    using ins by (auto simp: wiring zoom_run pg_todo_Insert_def split: if_splits)
  have inv1: "world_inv env w1" by (rule run_at [OF safe_Insert [OF t(1,2,4)] inv ins])
  show ?thesis
  proof (cases "t_DueAtUTC t")
    case None
    with go w1 show ?thesis by auto
  next
    case (Some due)
    let ?k = "active_kinds env (wd_identity w) (t_WorkspaceID t) (t_OwnerUserID t)"
    have k: "channelsSnapshot (provider env) (t_WorkspaceID t) (t_OwnerUserID t) w1 = (Inr ?k, w1)"
      unfolding snapshot_run w1 by simp
    with go Some have chans: "chans = ?k" and plan: "rp_Plan (planner env)
           \<lparr>pr_WorkspaceID = t_WorkspaceID t, pr_TodoID = t_ID t,
            pr_TodoReminderVersion = t_ReminderVersion t, pr_ScheduledAtUTC = due,
            pr_Channels = ?k, pr_Title = t_Title t, pr_OwnerUserID = t_OwnerUserID t\<rparr> w1 = (Inr (), w')"
      by (auto simp: bindE_Inr_iff)
    have old: "b \<noteq> t_ID t" if "todo_at (wd_todo w) a b c" for a b c
    proof -
      have "b \<in> t_ID ` set (wd_todo w)" using that by (auto simp: todo_at_def)
      with t(3) show ?thesis by metis
    qed
    have "unplanned (wd_reminder w1) t"
      using inv old unfolding unplanned_def w1
      by (auto simp: world_inv_def plans_inv_def deliveries_inv_def)
    moreover have "t \<in> set (wd_todo w1)" by (simp add: w1)
    ultimately have "planned w1 w' t due ?k"
      using plan_todo_ok [OF inv1 _ _ active_kinds_distinct plan] by blast
    then have "planned w w' t due ?k" by (simp add: planned_def w1)
    moreover have "wd_todo w' = wd_todo w @ [t]" using planner_frame [of env _ w1 _ w'] plan w1 by auto
    ultimately show ?thesis using Some chans by simp
  qed
qed

lemma create_plans:
  assumes inv: "world_inv env w" and ws: "CHR '':'' \<notin> set (cr_WorkspaceID req)"
    and run: "api_CreateTodo env req w = (Inr view, w')"
  shows "\<exists>now i t chans. New i (cr_WorkspaceID req) (cr_UserID req) (cr_Title req)
        (cr_Description req) (cr_DueAtUTC req) (cr_TimezoneAtInput req) now = Inr t
    \<and> i \<notin> issued_ids env w \<and> wd_todo w' = wd_todo w @ [t]
    \<and> view = (FromDomain t now)\<lparr>v_ReminderScheduled := Some (t_DueAtUTC t \<noteq> None \<and> chans \<noteq> []),
           v_ReminderChannels := Some chans\<rparr>
    \<and> (case cr_DueAtUTC req of
         None \<Rightarrow> chans = [] \<and> wd_reminder w' = wd_reminder w \<and> wd_jobs w' = wd_jobs w
       | Some due \<Rightarrow> chans = active_kinds env (wd_identity w) (cr_WorkspaceID req) (cr_UserID req)
           \<and> planned w w' t due chans)"
proof -
  obtain now w1 i w2 where n: "world_Now env w = (now, w1)" and i: "world_newID env w1 = (i, w2)"
    by (metis surj_pair)
  obtain t chans where new: "New i (cr_WorkspaceID req) (cr_UserID req) (cr_Title req)
        (cr_Description req) (cr_DueAtUTC req) (cr_TimezoneAtInput req) now = Inr t"
    and u: "uow env (create_work (todos env) (planner env) (provider env) t) w2 = (Inr chans, w')"
    and view: "view = (FromDomain t now)\<lparr>v_ReminderScheduled := Some (t_DueAtUTC t \<noteq> None \<and> chans \<noteq> []),
           v_ReminderChannels := Some chans\<rparr>"
    using run n i
    by (auto simp: api_CreateTodo_def CreateTodo_def bindA_run bindE_Inr_iff domain_result_Inr)
  have f: "todo_wf t" "t_ID t = i" "t_WorkspaceID t = cr_WorkspaceID req" "t_OwnerUserID t = cr_UserID req"
    "t_DueAtUTC t = cr_DueAtUTC req"
    using new New_wf [OF new] by (auto simp: New_def split: if_splits option.splits)
  have w2: "wd_data w2 = wd_data w" using n i by (auto simp: wd_data_def)
  have inv2: "world_inv env w2"
    by (rule world_inv_cong [OF w2 _ inv]) (use n i in auto)
  have fresh: "i \<in> issued_ids env w2" "i \<notin> issued_ids env w"
    using newID_issued [OF i] n by (auto simp: issued_ids_def)
  obtain v v' where v: "wd_data v = wd_data w2" "world_inv env v" "wd_data w' = wd_data v'" "wd_ids v = wd_ids w2"
    and work: "create_work (todos env) (planner env) (provider env) t v = (Inr chans, v')"
    by (rule uow_run [OF inv2 u])
  note d = wd_dataD [OF v(1)] wd_dataD [OF w2] wd_dataD [OF v(3)]
  have iv: "t_ID t \<in> issued_ids env v" using fresh f v(4) by (simp add: issued_ids_def)
  have notin: "t_ID t \<notin> t_ID ` set (wd_todo v)"
    using fresh(2) f d inv by (auto simp: world_inv_def todos_inv_def)
  have "wd_todo v' = wd_todo v @ [t] \<and>
    (case t_DueAtUTC t of
       None \<Rightarrow> chans = [] \<and> wd_reminder v' = wd_reminder v \<and> wd_jobs v' = wd_jobs v
     | Some due \<Rightarrow> chans = active_kinds env (wd_identity v) (t_WorkspaceID t) (t_OwnerUserID t)
         \<and> planned v v' t due chans)"
    by (rule create_work_plans [OF v(2) f(1) iv notin _ work]) (use ws f in simp)
  with new view fresh(2) d f show ?thesis
    by (intro exI [of _ now] exI [of _ i] exI [of _ t] exI [of _ chans])
      (auto simp: planned_def split: option.splits)
qed


section \<open>Updating\<close>

lemma revoke_jobs: "rp_Revoke (planner env) q w = (r, w') \<Longrightarrow> wd_jobs w' = wd_jobs w"
proof -
  assume run: "rp_Revoke (planner env) q w = (r, w')"
  have cancel: "keeps (jobs_are J) (js_Cancel (scheduler env) k)" for J k
    by (rule keepsI) (auto simp: scheduler_def river_scheduler_def bindA_run jobs_are_def)
  have "keeps (jobs_are J) (rp_Revoke (planner env) q)" for J
    unfolding planner_def planner_shim_def RevokePlans_def cancel_jobs_def suppress_scheduled_def
      reminder_result_def
    by (auto simp: wiring intro!: keeps_rules jobs_zoom cancel)
  from keepsD [OF this _ run] show ?thesis by (simp add: jobs_are_def)
qed

text \<open>Revoking keeps which todo and version the rows are for.\<close>

lemma revoke_unplanned:
  assumes inv: "world_inv env w" and run: "rp_Revoke (planner env) q w = (Inr (), w')"
    and new: "unplanned (wd_reminder w) t"
  shows "unplanned (wd_reminder w') t"
proof -
  let ?ws = "rr_WorkspaceID q" and ?i = "rr_TodoID q" and ?v = "rr_UpToReminderVersion q"
  have dinv: "delivery_table_inv (wd_reminder w)" using inv by (simp add: world_inv_def deliveries_inv_def)
  obtain reason now where
    plans: "rdb_plans (wd_reminder w') = rdb_plans (snd (pg_plan_RevokePlanned ?ws ?i ?v now (wd_reminder w)))"
    and rows: "list_all2 (revoked_row ?ws ?i ?v reason) (rdb_deliveries (wd_reminder w)) (rdb_deliveries (wd_reminder w'))"
    using reminder.revoke_ok [OF run [unfolded planner_def planner_shim_def ReminderPlanner.simps] dinv]
    by auto
  have same: "d_TodoID d = d_TodoID r \<and> d_TodoReminderVersion d = d_TodoReminderVersion r"
    if "revoked_row ?ws ?i ?v reason r d" for r d
  proof (cases "of_todo_upto ?ws ?i ?v r \<and> in_state ''scheduled'' r")
    case True
    with that obtain n where e: "scanDeliveryWithOrigin d = suppressed_row reason n (scanDeliveryWithOrigin r)"
      by (auto simp: revoked_row_def)
    have "d_TodoID (scanDeliveryWithOrigin d) = d_TodoID r"
      "d_TodoReminderVersion (scanDeliveryWithOrigin d) = d_TodoReminderVersion r"
      unfolding e by (simp_all add: suppressed_row_def scanDeliveryWithOrigin_def)
    then show ?thesis by (simp add: scanDeliveryWithOrigin_def)
  next
    case False
    with that show ?thesis by (simp add: revoked_row_def)
  qed
  have "\<not> (d_TodoID d = t_ID t \<and> d_TodoReminderVersion d = t_ReminderVersion t)"
    if d: "d \<in> set (rdb_deliveries (wd_reminder w'))" for d
  proof -
    obtain r where "r \<in> set (rdb_deliveries (wd_reminder w))" "revoked_row ?ws ?i ?v reason r d"
      using list_all2_right [OF rows d] by blast
    with same [of r d] new show ?thesis by (simp add: unplanned_def)
  qed
  moreover have "\<not> (p_TodoID p = t_ID t \<and> p_TodoReminderVersion p = t_ReminderVersion t)"
    if p: "p \<in> set (rdb_plans (wd_reminder w'))" for p
  proof -
    obtain o' where "o' \<in> set (rdb_plans (wd_reminder w))" "p_TodoID p = p_TodoID o'"
      "p_TodoReminderVersion p = p_TodoReminderVersion o'"
      using p plans by (fastforce simp: pg_plan_RevokePlanned_def in_update_where)
    with new show ?thesis by (simp add: unplanned_def)
  qed
  ultimately show ?thesis unfolding unplanned_def by blast
qed

lemma planned_cleared:
  assumes p: "planned w w' t due chans" and c: "cleared (wd_reminder w) ws i v"
    and new: "v < t_ReminderVersion t"
  shows "cleared (wd_reminder w') ws i v"
proof -
  obtain plan news where plan: "p_TodoReminderVersion plan = t_ReminderVersion t"
    and plans: "rdb_plans (wd_reminder w') = rdb_plans (wd_reminder w) @ [plan]"
    and rows: "map no_job (rdb_deliveries (wd_reminder w')) = map no_job (rdb_deliveries (wd_reminder w)) @ news"
    and all: "list_all2 (planned_row (plan_request t due chans) plan) chans news"
    using p by (auto simp: planned_def)
  have "d_State d \<noteq> StateScheduled"
    if d: "d \<in> set (rdb_deliveries (wd_reminder w'))" "d_WorkspaceID d = ws" "d_TodoID d = i"
      "d_TodoReminderVersion d \<le> v" for d
  proof -
    have "no_job d \<in> set (map no_job (rdb_deliveries (wd_reminder w'))) " using d(1) by simp
    then consider r where "r \<in> set (rdb_deliveries (wd_reminder w))" "no_job d = no_job r"
      | "no_job d \<in> set news"
      unfolding rows by auto
    then show ?thesis
    proof cases
      case 1
      have "d_WorkspaceID (no_job d) = d_WorkspaceID (no_job r)" "d_TodoID (no_job d) = d_TodoID (no_job r)"
        "d_TodoReminderVersion (no_job d) = d_TodoReminderVersion (no_job r)"
        "d_State (no_job d) = d_State (no_job r)"
        unfolding 1(2) by simp_all
      then have "d_WorkspaceID r = ws" "d_TodoID r = i" "d_TodoReminderVersion r \<le> v" "d_State d = d_State r"
        using d by (simp_all add: no_job_def)
      with c 1(1) show ?thesis by (simp add: cleared_def)
    next
      case 2
      then obtain ch where row: "planned_row (plan_request t due chans) plan ch (no_job d)"
        using list_all2_right [OF all] by blast
      have "d_TodoReminderVersion (no_job d) = t_ReminderVersion t"
        using planned_row_channel [OF row] plan by simp
      with new d(4) show ?thesis by (simp add: no_job_def)
    qed
  qed
  then show ?thesis using c plans plan new by (auto simp: cleared_def)
qed

definition changes_of :: "UpdateTodoRequest \<Rightarrow> update_changes" where
  "changes_of req = \<lparr>uc_Title = ur_Title req, uc_Description = ur_Description req,
     uc_TimezoneAtInput = ur_TimezoneAtInput req, uc_DueChanged = ur_DueChanged req,
     uc_DueAtUTC = ur_DueAtUTC req\<rparr>"

text \<open>What an update leaves: the reminders follow the due instant.\<close>

definition replanned :: "env \<Rightarrow> world \<Rightarrow> world \<Rightarrow> todo \<Rightarrow> todo \<Rightarrow> bool \<Rightarrow> string list \<Rightarrow> bool" where
  "replanned env w w' t t' known chans \<longleftrightarrow>
     (if t_DueAtUTC t' = t_DueAtUTC t
      then \<not> known \<and> wd_reminder w' = wd_reminder w \<and> wd_jobs w' = wd_jobs w
      else known \<and> cleared (wd_reminder w') (t_WorkspaceID t) (t_ID t) (t_ReminderVersion t)
        \<and> (case t_DueAtUTC t' of
             None \<Rightarrow> chans = [] \<and> wd_jobs w' = wd_jobs w
           | Some due \<Rightarrow> chans = active_kinds env (wd_identity w) (t_WorkspaceID t) (t_OwnerUserID t)
               \<and> (\<exists>v. wd_jobs v = wd_jobs w \<and> planned v w' t' due chans)))"

lemma update_work_ok:
  assumes inv: "world_inv env w"
    and run: "update_work (todos env) (planner env) (provider env) now req w = (Inr (t', known, chans), w')"
  shows "\<exists>t \<in> set (wd_todo w). t_ID t = ur_TodoID req \<and> t_WorkspaceID t = ur_WorkspaceID req
     \<and> t_OwnerUserID t = ur_UserID req \<and> Update (ur_Version req) (changes_of req) now t = Inr t'
     \<and> wd_todo w' = map (\<lambda>r. if t_ID r = ur_TodoID req then t' else r) (wd_todo w)
     \<and> replanned env w w' t t' known chans"
proof -
  let ?k = "\<lambda>t t'. if t_ReminderVersion t' = t_ReminderVersion t then ok (t', False, [])
     else bindE (rp_Revoke (planner env)
       \<lparr>rr_WorkspaceID = ur_WorkspaceID req, rr_TodoID = ur_TodoID req,
        rr_UpToReminderVersion = t_ReminderVersion t, rr_Reason = ''version_stale''\<rparr>) (\<lambda>_.
     case t_DueAtUTC t' of
       None \<Rightarrow> ok (t', True, [])
     | Some due \<Rightarrow>
         bindE (channelsSnapshot (provider env) (t_WorkspaceID t') (t_OwnerUserID t')) (\<lambda>chans.
         bindE (rp_Plan (planner env)
           \<lparr>pr_WorkspaceID = t_WorkspaceID t', pr_TodoID = t_ID t',
            pr_TodoReminderVersion = t_ReminderVersion t', pr_ScheduledAtUTC = due,
            pr_Channels = chans, pr_Title = t_Title t',
            pr_OwnerUserID = t_OwnerUserID t'\<rparr>) (\<lambda>_. ok (t', True, chans))))"
  obtain t u x w1 w2 where get: "ts_Get (todos env) (ur_WorkspaceID req) (ur_UserID req) (ur_TodoID req) w = (Inr t, w1)"
    and ft: "Update (ur_Version req) (changes_of req) now t = Inr u"
    and up': "ts_Update (todos env) u (ur_Version req) w1 = (Inr x, w2)"
    and go: "?k t u w2 = (Inr (t', known, chans), w')"
    using run unfolding update_work_def changes_of_def [symmetric]
    unfolding bindE_Inr_iff domain_result_Inr by blast
  have up: "ts_Update (todos env) u (ur_Version req) w1 = (Inr (), w2)" using up' by simp
  have w1: "w1 = w" using todos_reads(1) [OF get] .
  note t = stored_todo [OF inv get]
  have st: "todo_step t u" "t_Version t = ur_Version req" using step_update [OF ft] ft by (auto simp: Update_Inr)
  have dist: "distinct (map t_ID (wd_todo w))"
    using inv by (simp add: world_inv_def todos_inv_def todo_table_inv_def)
  have only: "r = t" if "r \<in> set (wd_todo w)" "t_ID r = ur_TodoID req" for r
    using distinct_key_eq [OF dist, of t r] t that by simp
  have same: "same_identity t u" using todo_step_identity [OF st(1)] .
  have rows: "wd_todo w2 = map (\<lambda>r. if t_ID r = ur_TodoID req then u else r) (wd_todo w)"
    and w2: "wd_reminder w2 = wd_reminder w" "wd_jobs w2 = wd_jobs w" "wd_identity w2 = wd_identity w"
  proof -
    have "pg_todo_Update u (ur_Version req) (wd_todo w) = (Inr (), wd_todo w2)"
      using up unfolding w1 by (auto simp: wiring zoom_run prod_eq_iff)
    from pg_todo_Update_rows [OF dist conjunct1 [OF t] same st(2) this] t
    show "wd_todo w2 = map (\<lambda>r. if t_ID r = ur_TodoID req then u else r) (wd_todo w)" by simp
    show "wd_reminder w2 = wd_reminder w" "wd_jobs w2 = wd_jobs w" "wd_identity w2 = wd_identity w"
      using up unfolding w1 by (auto simp: wiring zoom_run)
  qed
  have "safe_at env w (ts_Update (todos env) u (ur_Version req))"
    by (rule safe_todo_Update) (use only same st t in \<open>auto simp: same_identity_def\<close>)
  from run_at [OF this inv up [unfolded w1]] have inv2: "world_inv env w2" .
  note ver = todo_step_reminder_version [OF st(1)]
  have u2: "u \<in> set (wd_todo w2)" unfolding rows using t by (auto intro: image_eqI [of _ _ t])
  show ?thesis
  proof (cases "t_ReminderVersion u = t_ReminderVersion t")
    case True
    then have "t' = u" "\<not> known" "w' = w2" using go by auto
    with True ver ft rows w2 t show ?thesis
      by (intro bexI [of _ t]) (auto simp: replanned_def split: if_splits)
  next
    case False
    then have v: "t_ReminderVersion t < t_ReminderVersion u" "t_DueAtUTC u \<noteq> t_DueAtUTC t"
      using ver by (auto split: if_splits)
    obtain w3 where rev: "rp_Revoke (planner env)
       \<lparr>rr_WorkspaceID = ur_WorkspaceID req, rr_TodoID = ur_TodoID req,
        rr_UpToReminderVersion = t_ReminderVersion t, rr_Reason = ''version_stale''\<rparr> w2 = (Inr (), w3)"
      and rest: "(case t_DueAtUTC u of
       None \<Rightarrow> ok (u, True, [])
     | Some due \<Rightarrow>
         bindE (channelsSnapshot (provider env) (t_WorkspaceID u) (t_OwnerUserID u)) (\<lambda>chans.
         bindE (rp_Plan (planner env)
           \<lparr>pr_WorkspaceID = t_WorkspaceID u, pr_TodoID = t_ID u,
            pr_TodoReminderVersion = t_ReminderVersion u, pr_ScheduledAtUTC = due,
            pr_Channels = chans, pr_Title = t_Title u,
            pr_OwnerUserID = t_OwnerUserID u\<rparr>) (\<lambda>_. ok (u, True, chans)))) w3 = (Inr (t', known, chans), w')"
      using go unfolding if_not_P [OF False] bindE_Inr_iff by auto
    have inv3: "world_inv env w3" by (rule run_at [OF safe_Revoke inv2 rev])
    have w3: "wd_todo w3 = wd_todo w2" "wd_identity w3 = wd_identity w" "wd_jobs w3 = wd_jobs w"
      using planner_frame [of env _ w2 _ w3] rev revoke_jobs [OF rev] w2 by auto
    have c3: "cleared (wd_reminder w3) (t_WorkspaceID t) (t_ID t) (t_ReminderVersion t)"
      using revoke_clears [OF inv2 rev] t by simp
    have old: "n \<le> t_ReminderVersion t" if at: "todo_at (wd_todo w) a (t_ID t) n" for a n
      using at only t by (auto simp: todo_at_def)
    have below: "p_TodoReminderVersion p \<le> t_ReminderVersion t"
      if "p \<in> set (rdb_plans (wd_reminder w))" "p_TodoID p = t_ID t" for p
    proof -
      have "todo_at (wd_todo w) (p_WorkspaceID p) (p_TodoID p) (p_TodoReminderVersion p)"
        using inv that(1) by (simp add: world_inv_def plans_inv_def)
      with that(2) old show ?thesis by simp
    qed
    have below': "d_TodoReminderVersion d \<le> t_ReminderVersion t"
      if "d \<in> set (rdb_deliveries (wd_reminder w))" "d_TodoID d = t_ID t" for d
    proof -
      have "todo_at (wd_todo w) (d_WorkspaceID d) (d_TodoID d) (d_TodoReminderVersion d)"
        using inv that(1) by (simp add: world_inv_def deliveries_inv_def)
      with that(2) old show ?thesis by simp
    qed
    have "unplanned (wd_reminder w2) u"
      using same v(1) below below' unfolding unplanned_def w2 same_identity_def by fastforce
    from revoke_unplanned [OF inv2 rev this] have un: "unplanned (wd_reminder w3) u" .
    have u3: "u \<in> set (wd_todo w3)" using u2 w3(1) by simp
    have own: "t_WorkspaceID u = t_WorkspaceID t" "t_OwnerUserID u = t_OwnerUserID t"
      using same by (auto simp: same_identity_def)
    have fin: "t' = u \<and> known \<and> wd_todo w' = wd_todo w3 \<and> replanned env w w' t u known chans"
    proof (cases "t_DueAtUTC u")
      case None
      with rest v(2) c3 w3 show ?thesis by (auto simp: replanned_def)
    next
      case (Some due)
      let ?k = "active_kinds env (wd_identity w) (t_WorkspaceID u) (t_OwnerUserID u)"
      have "channelsSnapshot (provider env) (t_WorkspaceID u) (t_OwnerUserID u) w3 = (Inr ?k, w3)"
        unfolding snapshot_run w3 ..
      with rest Some have r: "t' = u" "known" "chans = ?k" and plan: "rp_Plan (planner env)
           \<lparr>pr_WorkspaceID = t_WorkspaceID u, pr_TodoID = t_ID u,
            pr_TodoReminderVersion = t_ReminderVersion u, pr_ScheduledAtUTC = due,
            pr_Channels = ?k, pr_Title = t_Title u, pr_OwnerUserID = t_OwnerUserID u\<rparr> w3 = (Inr (), w')"
        by (auto simp: bindE_Inr_iff)
      have pl: "planned w3 w' u due ?k" by (rule plan_todo_ok [OF inv3 u3 un active_kinds_distinct plan])
      have "wd_todo w' = wd_todo w3" using planner_frame [of env _ w3 _ w'] plan by blast
      moreover have "cleared (wd_reminder w') (t_WorkspaceID t) (t_ID t) (t_ReminderVersion t)"
        by (rule planned_cleared [OF pl c3 v(1)])
      ultimately show ?thesis using r pl w3(3) v(2) Some own by (auto simp: replanned_def)
    qed
    then have "t' = u" "known" "wd_todo w' = wd_todo w3" "replanned env w w' t t' known chans" by auto
    with ft rows w3(1) t show ?thesis by (intro bexI [of _ t] conjI) simp_all
  qed
qed

lemma update_replans:
  assumes inv: "world_inv env w" and run: "api_UpdateTodo env req w = (Inr view, w')"
  shows "\<exists>now t t' known chans. t \<in> set (wd_todo w) \<and> t_ID t = ur_TodoID req
     \<and> t_WorkspaceID t = ur_WorkspaceID req \<and> t_OwnerUserID t = ur_UserID req
     \<and> Update (ur_Version req) (changes_of req) now t = Inr t'
     \<and> wd_todo w' = map (\<lambda>r. if t_ID r = ur_TodoID req then t' else r) (wd_todo w)
     \<and> replanned env w w' t t' known chans
     \<and> view = (if known then (FromDomain t' now)
           \<lparr>v_ReminderScheduled := Some (t_DueAtUTC t' \<noteq> None \<and> chans \<noteq> []),
            v_ReminderChannels := Some chans\<rparr>
         else FromDomain t' now)"
proof -
  obtain now w1 t' known chans where n: "world_Now env w = (now, w1)"
    and u: "uow env (update_work (todos env) (planner env) (provider env) now req) w1 = (Inr (t', known, chans), w')"
    and view: "view = (if known then (FromDomain t' now)
           \<lparr>v_ReminderScheduled := Some (t_DueAtUTC t' \<noteq> None \<and> chans \<noteq> []),
            v_ReminderChannels := Some chans\<rparr>
         else FromDomain t' now)"
    using run by (cases "world_Now env w") (auto simp: api_UpdateTodo_def UpdateTodo_def bindA_run bindE_Inr_iff)
  have w1: "world_inv env w1" "wd_data w1 = wd_data w" using Now_inv [OF inv n] by auto
  obtain v v' where v: "wd_data v = wd_data w1" "world_inv env v" "wd_data w' = wd_data v'"
    and work: "update_work (todos env) (planner env) (provider env) now req v = (Inr (t', known, chans), v')"
    by (rule uow_run [OF w1(1) u])
  note d = wd_dataD [OF v(1)] wd_dataD [OF w1(2)] wd_dataD [OF v(3)]
  have "planned x w' a b c = planned x v' a b c" for x a b c using d by (simp add: planned_def)
  then have eq: "replanned env w w' t t' known chans = replanned env v v' t t' known chans" for t
    using d unfolding replanned_def by (simp cong: option.case_cong)
  obtain t where t: "t \<in> set (wd_todo v)" "t_ID t = ur_TodoID req" "t_WorkspaceID t = ur_WorkspaceID req"
    "t_OwnerUserID t = ur_UserID req" "Update (ur_Version req) (changes_of req) now t = Inr t'"
    "wd_todo v' = map (\<lambda>r. if t_ID r = ur_TodoID req then t' else r) (wd_todo v)"
    "replanned env v v' t t' known chans"
    using update_work_ok [OF v(2) work] by blast
  have tw: "t \<in> set (wd_todo w)" and rows: "wd_todo w' = map (\<lambda>r. if t_ID r = ur_TodoID req then t' else r) (wd_todo w)"
    using t(1,6) d by simp_all
  show ?thesis
    using tw t(2-5) rows t(7) [folded eq] view by blast
qed

end
