(* ===== verification/Program_Receipts.thy ===== *)
theory Program_Receipts
  imports Program_Facts
begin

text \<open>
  Delivery receipts and the reminder counts of the dashboard, on the states of the program. A
  receipt marks at most the one succeeded row that carries its provider message id, and never
  fails; the bucket of deliveries in their first attempt is always empty.
\<close>

definition with_receipt :: "ReceiptRequest \<Rightarrow> time \<Rightarrow> ReminderDelivery \<Rightarrow> ReminderDelivery" where
  "with_receipt req now d =
     d\<lparr>d_ReceiptState := Some (if rec_Delivered req then ReceiptOK else ReceiptFailed),
       d_ReceiptAt := Some now,
       d_ReceiptErrorCode :=
         (if rec_ErrorCode req \<noteq> [] then Some (rec_ErrorCode req) else d_ReceiptErrorCode d)\<rparr>"

lemma ApplyReceipt_scan:
  assumes "delivery_inv d" "d_State d = StateSucceeded" "d_ReceiptState d = None"
  shows "\<exists>d'. ApplyReceipt (if rec_Delivered req then ReceiptOK else ReceiptFailed) (rec_ErrorCode req)
      now (scanDelivery d) = Inr d' \<and> set_columns d' d = with_receipt req now d
    \<and> d_ID d' = d_ID d \<and> d_WorkspaceID d' = d_WorkspaceID d"
proof -
  have "d_SuppressionReason d = None"
    using assms by (simp add: delivery_inv_def)
  with assms scan_state [OF assms(1)] show ?thesis
    by (simp add: ApplyReceipt_def scan_columns set_columns_def with_receipt_def scanDelivery_def
        scanDeliveryWithOrigin_def)
qed

lemma receipt_check:
  assumes "delivery_inv d" "d_State d = StateSucceeded"
  shows "delivery_check (with_receipt req now d)"
proof -
  have "d_SuppressionReason d = None" "d_Channel d \<in> {''email'', ''sms''}"
    using assms by (simp_all add: delivery_inv_def)
  with assms(2) show ?thesis by (simp add: delivery_check_def with_receipt_def)
qed

text \<open>The one update of a receipt, on a row with the invariant.\<close>

lemma receipt_update:
  assumes inv: "world_inv env w" and d: "d \<in> set (rdb_deliveries (wd_reminder w))"
    "d_State d = StateSucceeded"
    and d': "set_columns d' d = with_receipt req now d" "d_ID d' = d_ID d" "d_WorkspaceID d' = d_WorkspaceID d"
  shows "ds_Update deliveries d' w = (Inr (), w\<lparr>wd_reminder := wd_reminder w\<lparr>rdb_deliveries :=
      map (\<lambda>r. if d_ID r = d_ID d then with_receipt req now d else r) (rdb_deliveries (wd_reminder w))\<rparr>\<rparr>)"
proof -
  let ?rows = "rdb_deliveries (wd_reminder w)"
  have dist: "distinct (map d_ID ?rows)" and di: "delivery_inv d"
    using inv d(1) by (simp_all add: world_inv_def deliveries_inv_def delivery_table_inv_def)
  have only: "r = d" if "r \<in> set ?rows" "d_ID r = d_ID d" for r
    using distinct_key_eq [OF dist d(1) that(1)] that(2) by simp
  have up: "update_where (\<lambda>r. d_WorkspaceID r = d_WorkspaceID d' \<and> d_ID r = d_ID d') (set_columns d') ?rows
      = map (\<lambda>r. if d_ID r = d_ID d then with_receipt req now d else r) ?rows"
    unfolding update_where_def using only d' by (intro map_cong) auto
  have chk: "list_all (\<lambda>r. d_WorkspaceID r = d_WorkspaceID d' \<and> d_ID r = d_ID d' \<longrightarrow>
      delivery_check (set_columns d' r)) ?rows"
    unfolding list_all_iff
  proof (intro ballI impI)
    fix r
    assume "r \<in> set ?rows" "d_WorkspaceID r = d_WorkspaceID d' \<and> d_ID r = d_ID d'"
    then have "r = d" using only d'(2) by simp
    then show "delivery_check (set_columns d' r)" using d'(1) receipt_check [OF di d(2)] by simp
  qed
  have hit: "list_ex (\<lambda>r. d_WorkspaceID r = d_WorkspaceID d' \<and> d_ID r = d_ID d') ?rows"
    unfolding list_ex_iff using d(1) d' by auto
  show ?thesis using up chk hit by (simp add: wiring zoom_run pg_delivery_Update_def)
qed

lemma receipt_recorded:
  assumes inv: "world_inv env w" and run: "api_RecordReceipt env req w = (r, w')"
  shows "r = Inr () \<and> wd_todo w' = wd_todo w \<and> wd_identity w' = wd_identity w \<and> wd_jobs w' = wd_jobs w
    \<and> rdb_plans (wd_reminder w') = rdb_plans (wd_reminder w)
    \<and> (case find (\<lambda>d. d_ProviderMessageID d = Some (rec_ProviderMessageID req))
          (rdb_deliveries (wd_reminder w)) of
         None \<Rightarrow> wd_reminder w' = wd_reminder w
       | Some d \<Rightarrow>
           if d_State d = StateSucceeded \<and> d_ReceiptState d = None
           then \<exists>now. rdb_deliveries (wd_reminder w') =
             map (\<lambda>r. if d_ID r = d_ID d then with_receipt req now d else r) (rdb_deliveries (wd_reminder w))
           else wd_reminder w' = wd_reminder w)"
proof (cases "find (\<lambda>d. d_ProviderMessageID d = Some (rec_ProviderMessageID req))
          (rdb_deliveries (wd_reminder w))")
  case None
  then have "ds_ByProviderMessageID deliveries (rec_ProviderMessageID req) w
      = (Inl (ReminderErr ErrDeliveryNotFound), w)"
    by (simp add: wiring zoom_run pg_delivery_ByProviderMessageID_def)
  then have "api_RecordReceipt env req w = (Inr (), w)"
    by (simp add: api_RecordReceipt_def RecordReceipt_def tryE_run)
  with run None show ?thesis by simp
next
  case (Some d)
  then have d: "d \<in> set (rdb_deliveries (wd_reminder w))" by (auto dest: find_SomeD)
  have di: "delivery_inv d" using inv d by (simp add: world_inv_def deliveries_inv_def)
  have get: "ds_ByProviderMessageID deliveries (rec_ProviderMessageID req) w = (Inr (scanDelivery d), w)"
    using Some by (simp add: wiring zoom_run pg_delivery_ByProviderMessageID_def)
  have st: "d_State (scanDelivery d) = d_State d" "d_ReceiptState (scanDelivery d) = None \<longleftrightarrow> d_ReceiptState d = None"
    using scan_state [OF di] by (simp_all add: scan_columns)
  show ?thesis
  proof (cases "d_State d = StateSucceeded \<and> d_ReceiptState d = None")
    case False
    then have "api_RecordReceipt env req w = (Inr (), w)"
      using get st by (cases "d_State d = StateSucceeded")
        (simp_all add: api_RecordReceipt_def RecordReceipt_def tryE_run ok_def)
    with run have w': "r = Inr ()" "w' = w" by simp_all
    show ?thesis unfolding Some option.case if_not_P [OF False] w' by simp
  next
    case True
    obtain now w1 where n: "world_Now env w = (now, w1)" by (cases "world_Now env w")
    note w1 = Now_run [of env w]
    have inv1: "world_inv env w1" using inv n by (auto intro: world_inv_cong simp: wd_data_def)
    obtain d' where d': "ApplyReceipt (if rec_Delivered req then ReceiptOK else ReceiptFailed)
        (rec_ErrorCode req) now (scanDelivery d) = Inr d'" "set_columns d' d = with_receipt req now d"
      "d_ID d' = d_ID d" "d_WorkspaceID d' = d_WorkspaceID d"
      using ApplyReceipt_scan [OF di] True by blast
    have d1: "d \<in> set (rdb_deliveries (wd_reminder w1))" using d n by auto
    have "api_RecordReceipt env req w = ds_Update deliveries d' w1"
      using get st True n d'(1) by (simp add: api_RecordReceipt_def RecordReceipt_def tryE_run bindA_run)
    with run receipt_update [OF inv1 d1 _ d'(2-4)] True n
    have w': "r = Inr ()" "w' = w1\<lparr>wd_reminder := wd_reminder w1\<lparr>rdb_deliveries :=
      map (\<lambda>r. if d_ID r = d_ID d then with_receipt req now d else r)
        (rdb_deliveries (wd_reminder w1))\<rparr>\<rparr>" by simp_all
    have "w1 = w\<lparr>wd_tick := Suc (wd_tick w)\<rparr>" using n by simp
    with w' True Some show ?thesis by auto
  qed
qed

text \<open>No delivery is being sent with an attempt count of zero.\<close>

lemma no_first_attempt:
  assumes "world_inv env w" "ds_Stats deliveries ws w = (Inr c, w')"
  shows "dc_Sending c = 0"
proof -
  have "\<not> (in_state ''sending'' d \<and> d_AttemptCount d = 0)" if "d \<in> set (rdb_deliveries (wd_reminder w))" for d
  proof -
    have "delivery_inv d" using assms(1) that by (simp add: world_inv_def deliveries_inv_def)
    then have "d_State d \<in> {StateScheduled, StateSending, StateSucceeded, StateFailed, StateSuppressed}"
      "d_State d \<in> {StateSending, StateSucceeded} \<longrightarrow> 1 \<le> d_AttemptCount d"
      by (simp_all add: delivery_inv_def)
    then show ?thesis by (auto simp: in_state_def)
  qed
  with assms(2) show ?thesis
    by (auto simp: wiring zoom_run pg_delivery_Stats_def counts_of_def count_where_def filter_empty_conv)
qed

section \<open>Listing todos\<close>

lemma page_length: "int (length (page offset limit xs)) \<le> max 0 limit"
  by (simp add: page_def)

lemma listed_todos:
  assumes inv: "world_inv env w" and run: "api_ListTodos env ws owner f w = (Inr views, w')"
  shows "wd_data w' = wd_data w \<and> int (length views) \<le> MaxListLimit
    \<and> (\<exists>now. \<forall>v \<in> set views. \<exists>t \<in> set (wd_todo w). v = FromDomain t now
        \<and> t_WorkspaceID t = ws \<and> t_OwnerUserID t = owner \<and> t_Status t \<noteq> StatusDeleted
        \<and> list_match (e_ilike env) ws owner f t)"
proof -
  have ti: "todo_table_inv (wd_todo w)" using inv by (simp add: world_inv_defs)
  obtain ts where l: "pg_todo_List (e_ilike env) ws owner f MaxListLimit (wd_todo w) = (Inr ts, wd_todo w)"
    by (simp add: pg_todo_List_def)
  then have "ts_List (todos env) ws owner f MaxListLimit w = (Inr ts, w)"
    by (simp add: wiring zoom_run)
  with run have v: "views = map (\<lambda>t. FromDomain t (e_Clock env (wd_tick w))) ts"
    and w': "wd_data w' = wd_data w"
    by (auto simp: api_ListTodos_def ListTodos_def bindE_run bindA_run wd_data_def)
  have "length ts = length (page 0 MaxListLimit (sort_key t_CreatedAt
      (filter (list_match (e_ilike env) ws owner f) (wd_todo w))))"
    using l by (auto simp: pg_todo_List_def)
  then have len: "int (length views) \<le> MaxListLimit"
    using page_length [of 0 MaxListLimit] v by (simp add: MaxListLimit_def)
  have rows: "t \<in> set (wd_todo w) \<and> list_match (e_ilike env) ws owner f t" if "t \<in> set ts" for t
    using pg_todo_List_rows [OF ti l] that by blast
  have own: "t_WorkspaceID t = ws \<and> t_OwnerUserID t = owner \<and> t_Status t \<noteq> StatusDeleted" if "t \<in> set ts" for t
  proof -
    have "todo_wf t" using rows [OF that] ti by (simp add: todo_table_inv_def list_all_iff)
    with list_match_visible [OF this] rows [OF that] show ?thesis by (auto simp: owned_def)
  qed
  show ?thesis using w' len rows own v by auto
qed

end
