(* ===== verification/Random_Values.thy ===== *)
theory Random_Values
  imports Composition_Laws
begin

text \<open>
  The values the random source is turned into: verification codes are six digits and keep the
  number, tokens keep the bytes, identifiers have the shape of a version 4 UUID.
\<close>

section \<open>Codes\<close>

lemma six_digits_code: "n < 1000000 \<Longrightarrow> codePattern (six_digits n)"
proof -
  assume n: "n < 1000000"
  have "length (nat_digits n) \<le> 6" using nat_digits_length [of 6 n] n by simp
  moreover have "list_all is_digit (nat_digits n)"
    unfolding list_all_iff using nat_digits_range digit_char_is_digit by blast
  ultimately show ?thesis
    by (simp add: codePattern_def six_digits_def Let_def is_digit_def byte_def list_all_iff Ball_def)
qed

lemma six_digits_val: "digits_val (six_digits n) = n"
  by (simp add: six_digits_def Let_def)

section \<open>Bytes in hexadecimal\<close>

lemma nibble_cases: "n < 16 \<Longrightarrow> n \<in> set [0..<16]"
  by simp

lemma hex_digit_inj:
  assumes "a < 16" "b < 16" "hex_digit a = hex_digit b"
  shows "a = b"
proof -
  have "inj_on hex_digit (set [0..<16])"
    unfolding inj_on_def by (simp add: upt_rec hex_digit_def)
  with assms show ?thesis by (auto dest: inj_onD)
qed

lemma hex_digit_no_colon: "n < 16 \<Longrightarrow> hex_digit n \<noteq> CHR '':''"
proof -
  have "list_all (\<lambda>n. hex_digit n \<noteq> CHR '':'') [0..<16]" by code_simp
  then show "n < 16 \<Longrightarrow> hex_digit n \<noteq> CHR '':''" by (simp add: list_all_iff)
qed

lemma byte_nibbles: "unat (b :: 8 word) div 16 < 16" "unat b mod 16 < 16"
proof -
  have "unat b < 256" using unsigned_less [of b, where ?'a = nat] by simp
  then show "unat b div 16 < 16" by (simp add: less_mult_imp_div_less)
qed simp

lemma hex_byte_inj: "hex_byte a = hex_byte b \<Longrightarrow> a = b"
proof -
  assume "hex_byte a = hex_byte b"
  then have "unat a div 16 = unat b div 16" "unat a mod 16 = unat b mod 16"
    using byte_nibbles by (auto simp: hex_byte_def intro: hex_digit_inj)
  then have "unat a = unat b" by (metis div_mod_decomp)
  then show "a = b" by (rule unsigned_word_eqI)
qed

lemma EncodeToString_Cons: "EncodeToString (b # bs) = hex_byte b @ EncodeToString bs"
  by (simp add: EncodeToString_def)

lemma EncodeToString_Nil [simp]: "EncodeToString [] = []"
  by (simp add: EncodeToString_def)

lemma EncodeToString_length [simp]: "length (EncodeToString bs) = 2 * length bs"
  by (induction bs) (simp_all add: EncodeToString_Cons hex_byte_def)

lemma EncodeToString_eq: "EncodeToString as = EncodeToString bs \<Longrightarrow> as = bs"
proof (induction as arbitrary: bs)
  case Nil
  then have "length (EncodeToString bs) = 0" by simp
  then show ?case by simp
next
  case (Cons a as)
  have "length bs = Suc (length as)"
    using arg_cong [OF Cons.prems, of length] by simp
  then obtain b cs where bs: "bs = b # cs" by (cases bs) auto
  from Cons.prems have "hex_byte a = hex_byte b \<and> EncodeToString as = EncodeToString cs"
    unfolding bs EncodeToString_Cons by (simp add: hex_byte_def)
  with Cons.IH [of cs] show ?case by (simp add: bs hex_byte_inj)
qed

lemma EncodeToString_no_colon: "CHR '':'' \<notin> set (EncodeToString bs)"
proof (induction bs)
  case (Cons b bs)
  with hex_digit_no_colon [OF byte_nibbles(1), of b] hex_digit_no_colon [OF byte_nibbles(2), of b]
  show ?case unfolding EncodeToString_Cons hex_byte_def by auto
qed simp

section \<open>Identifiers\<close>

text \<open>The version nibble of byte six and the variant bits of byte eight.\<close>

lemma high_nibble: "unat (b :: 8 word) div 16 = unat (drop_bit 4 b)"
proof -
  have "drop_bit 4 (unat b) = unat b div 16" by (simp add: drop_bit_eq_div)
  then show ?thesis using unat_drop_bit_eq [of 4 b] by (simp only:)
qed

lemma version_byte: "hex_byte (or (and b 0x0f) 0x40) ! 0 = CHR ''4''"
proof -
  have "drop_bit 4 (or (and b 0x0f) 0x40) = (4 :: 8 word)" by simp
  moreover have "hex_digit 4 = CHR ''4''" by code_simp
  ultimately show ?thesis by (simp add: hex_byte_def high_nibble)
qed

lemma variant_byte: "hex_byte (or (and b 0x3f) 0x80) ! 0 \<in> set ''89ab''"
proof -
  let ?y = "and (drop_bit 4 b) 3 :: 8 word"
  have d: "drop_bit 4 (or (and b 0x3f) 0x80) = or ?y 8" by simp
  have "?y = take_bit 2 (drop_bit 4 b)" by (simp add: take_bit_eq_mask mask_eq_exp_minus_1)
  then have "unat ?y = take_bit 2 (unat (drop_bit 4 b))" by (simp add: unsigned_take_bit_eq)
  then have "unat ?y < 4" using take_bit_nat_less_exp [of 2 "unat (drop_bit 4 b)"] by simp
  then have "unat ?y \<in> {0, 1, 2, 3}" by auto
  then obtain n where n: "unat ?y = n" "n \<in> {0, 1, 2, 3}" by blast
  have "word_of_nat (unat ?y) = ?y" by simp
  then have "?y = word_of_nat n" unfolding n(1) ..
  with n(2) have "?y \<in> {0, 1, 2, 3}" by auto
  moreover have "hex_digit 8 = CHR ''8''" "hex_digit 9 = CHR ''9''" "hex_digit 10 = CHR ''a''"
    "hex_digit 11 = CHR ''b''" by code_simp+
  ultimately show ?thesis by (elim insertE emptyE) (simp_all add: hex_byte_def high_nibble d)
qed

lemma newID_shape:
  assumes "length bytes = 16"
  shows "length (newID_of bytes) = 36 \<and> newID_of bytes ! 14 = CHR ''4''
    \<and> newID_of bytes ! 19 \<in> set ''89ab''
    \<and> (\<forall>i \<in> {8, 13, 18, 23}. newID_of bytes ! i = CHR ''-'') \<and> CHR '':'' \<notin> set (newID_of bytes)"
proof -
  obtain b0 b1 b2 b3 b4 b5 b6 b7 b8 b9 b10 b11 b12 b13 b14 b15 where
    b: "bytes = [b0, b1, b2, b3, b4, b5, b6, b7, b8, b9, b10, b11, b12, b13, b14, b15]"
    using assms by (auto simp: numeral_eq_Suc length_Suc_conv)
  show ?thesis
    using version_byte [of b6] variant_byte [of b8]
    by (simp add: b newID_of_def EncodeToString_no_colon)
      (simp add: EncodeToString_def hex_byte_def)
qed

end
