(* ===== verification/Program_Access.thy ===== *)
theory Program_Access
  imports Program_Todos Random_Values
begin

text \<open>
  Sign-in and contact channels on the states of the program: what the laws of the identity
  module say of the wired handlers, with the parameters the program passes them.
\<close>

lemma identity_tables:
  "world_inv env w \<Longrightarrow> challenges_inv (wd_identity w) \<and> channels_inv (wd_identity w)
     \<and> users_inv (wd_identity w)"
  by (simp add: world_inv_def identity_inv_def)

section \<open>Codes\<close>

lemma newSixDigitCode_pattern: "newSixDigitCode env w = (Inr code, w') \<Longrightarrow> codePattern code"
  by (auto simp: newSixDigitCode_run six_digits_code nat_less_iff split: sum.splits)

section \<open>Resending a channel code\<close>

text \<open>A run of the handler is a run of its body with the same rows.\<close>

lemma resend_body:
  assumes inv: "world_inv env w" and run: "api_ResendChannel env who i w = (Inr (), w')"
  shows "\<exists>c now. channel_row (wd_identity w) (pc_WorkspaceID who) (pc_UserID who) i = Some c
    \<and> \<not> cc_Verified c
    \<and> (\<forall>e. cc_CodeExpiresAt c = Some e \<longrightarrow> e - e_ChannelCodeTTL env + ChannelResendCooldown \<le> now)
    \<and> (\<exists>k. now = e_Clock env k)
    \<and> (\<exists>code. channel_row (wd_identity w') (pc_WorkspaceID who) (pc_UserID who) i
         = Some (c\<lparr>cc_CodeHash := e_HashCode env code, cc_CodeExpiresAt := Some (now + e_ChannelCodeTTL env)\<rparr>)
       \<and> codePattern code)"
proof -
  have work: "uow env (resend_work (e_HashCode env) (resend_ports env) who i) w = (Inr (), w')"
    using run by (simp add: api_ResendChannel_def ResendChannel_def)
  obtain v v' where v: "wd_data v = wd_data w" "world_inv env v" "wd_data w' = wd_data v'"
    and body: "resend_work (e_HashCode env) (resend_ports env) who i v = (Inr (), v')"
    by (rule uow_run [OF inv work])
  have ids: "wd_identity v = wd_identity w" "wd_identity w' = wd_identity v'"
    using v by (auto dest: wd_dataD)
  obtain c code now s1 s2 where c: "channel_row (wd_identity v) (pc_WorkspaceID who) (pc_UserID who) i = Some c"
    "\<not> cc_Verified c" "world_Now env s1 = (now, s2)"
    "\<forall>e. cc_CodeExpiresAt c = Some e \<longrightarrow> e - e_ChannelCodeTTL env + ChannelResendCooldown \<le> now"
    "codePattern code"
    "wd_identity v' = snd (pg_channel_Update (c\<lparr>cc_CodeHash := e_HashCode env code,
        cc_CodeExpiresAt := Some (now + e_ChannelCodeTTL env)\<rparr>) (wd_identity v))"
    using channel.resend_ok [OF body [unfolded resend_ports_def]] by blast
  have "channel_row (wd_identity v') (pc_WorkspaceID who) (pc_UserID who) i
      = Some (c\<lparr>cc_CodeHash := e_HashCode env code, cc_CodeExpiresAt := Some (now + e_ChannelCodeTTL env)\<rparr>)"
    using channel_row_update [OF _ c(1), of "c\<lparr>cc_CodeHash := e_HashCode env code,
        cc_CodeExpiresAt := Some (now + e_ChannelCodeTTL env)\<rparr>" _ "wd_identity v'"]
      identity_tables [OF v(2)] c(6) by (auto simp: prod_eq_iff)
  with c ids show ?thesis by auto
qed

section \<open>Verifying a channel\<close>

lemma verify_channel_row:
  assumes inv: "world_inv env w" and run: "api_VerifyChannel env who i code w = (Inr (), w')"
  shows "\<exists>c now. channel_row (wd_identity w) (pc_WorkspaceID who) (pc_UserID who) i = Some c
    \<and> codePattern code \<and> cc_CodeHash c = e_HashCode env code
    \<and> (\<exists>k. now = e_Clock env k) \<and> (\<exists>e. cc_CodeExpiresAt c = Some e \<and> now < e)
    \<and> channel_row (wd_identity w') (pc_WorkspaceID who) (pc_UserID who) i = Some (c\<lparr>cc_Verified := True\<rparr>)"
proof -
  have work: "uow env (verify_channel (e_HashCode env) channel_rows (world_Now env) who i code True) w = (Inr (), w')"
    using run by (simp add: api_VerifyChannel_def VerifyChannel_def)
  obtain v v' where v: "wd_data v = wd_data w" "world_inv env v" "wd_data w' = wd_data v'"
    and body: "verify_channel (e_HashCode env) channel_rows (world_Now env) who i code True v = (Inr (), v')"
    by (rule uow_run [OF inv work])
  have ids: "wd_identity v = wd_identity w" "wd_identity w' = wd_identity v'"
    using v by (auto dest: wd_dataD)
  obtain c now s1 s2 where c: "channel_row (wd_identity v) (pc_WorkspaceID who) (pc_UserID who) i = Some c"
    "codePattern code" "cc_CodeHash c = e_HashCode env code" "world_Now env s1 = (now, s2)"
    "\<exists>e. cc_CodeExpiresAt c = Some e \<and> now < e"
    "wd_identity v' = snd (pg_channel_Update (c\<lparr>cc_Verified := True\<rparr>) (wd_identity v))"
    using channel.verify_channel_ok [OF body] by blast
  have "channel_row (wd_identity v') (pc_WorkspaceID who) (pc_UserID who) i = Some (c\<lparr>cc_Verified := True\<rparr>)"
    using channel_row_update [OF _ c(1), of "c\<lparr>cc_Verified := True\<rparr>" _ "wd_identity v'"]
      identity_tables [OF v(2)] c(6) by (auto simp: prod_eq_iff)
  with c ids show ?thesis by auto
qed

section \<open>Two readings of a user's channels\<close>

text \<open>Planning asks whether any channel of a kind is usable, sending looks at the first one.\<close>

lemma endpoint_first:
  "ce_Usable (resolve_endpoint k rows) \<Longrightarrow> \<exists>c \<in> set rows. string_of_kind (cc_Kind c) = k \<and> Usable c"
  by (auto simp: resolve_endpoint_def dest!: find_SomeD split: option.splits)

lemma endpoint_only:
  assumes "c \<in> set rows" "string_of_kind (cc_Kind c) = k" "Usable c"
    and "\<And>r. r \<in> set rows \<Longrightarrow> string_of_kind (cc_Kind r) = k \<Longrightarrow> r = c"
  shows "resolve_endpoint k rows = \<lparr>ce_Address = cc_Address c, ce_Usable = True\<rparr>"
proof -
  let ?P = "\<lambda>r. string_of_kind (cc_Kind r) = k"
  have "find ?P rows \<noteq> None" using assms(1,2) by (auto simp: find_None_iff)
  then obtain r where r: "find ?P rows = Some r" by blast
  with assms(4) have "r = c" by (auto dest: find_SomeD)
  with r assms(3) show ?thesis by (simp add: resolve_endpoint_def)
qed

end
