(* ===== verification/Sample.thy ===== *)
theory Sample
  imports Program_Plans Program_Receipts Program_Access
begin

text \<open>
  One concrete environment and one run of the program in it, on which the witnesses of the
  properties rest: every call of the environment succeeds, the clock counts, identifiers are
  decimal. The run is a login, a contact channel added and verified, and a todo with a due
  instant; \<open>sample_world\<close> is the state it reaches.
\<close>

definition sample_env :: env where
  "sample_env = \<lparr>e_Clock = (\<lambda>k. int k + 100), e_UUIDs = decimal_ids,
     e_RandInt = (\<lambda>k. Inr (int k + 7)), e_RandBytes = (\<lambda>k. Inr (replicate 32 0)),
     e_Begin = (\<lambda>_. Inr ()), e_Commit = (\<lambda>_. Inr ()),
     e_InsertTx = (\<lambda>k _. Inr (int k)), e_JobCancel = (\<lambda>_ _. Inr ()),
     e_EmailNotifier = (\<lambda>_ _. (Inr ''m'', True)), e_SmsNotifier = (\<lambda>_ _. (Inr ''s'', True)),
     e_CodeMail = (\<lambda>_ _. (Inr ''c'', True)),
     e_ilike = (\<lambda>p s. p = s), e_lower = id, e_ToLower = id, e_HashCode = (\<lambda>s. CHR ''#'' # s),
     e_LoadLocation = (\<lambda>z. if z = ''UTC'' then Some (\<lambda>n. (n, n + 24 * Hour)) else None),
     e_SmsDisabled = False, e_LoginChallengeTTL = 1000, e_SessionTTL = 1000,
     e_ChannelCodeTTL = 1000, e_PrivateAdminPhone = [], e_PrivateAdminEmail = [],
     e_ReminderJobMaxAttempts = 5\<rparr>"

definition sample_login :: LoginIdentifier where
  "sample_login = \<lparr>li_Phone = [], li_Email = ''a@b.c''\<rparr>"

definition sample_principal :: Principal where
  "sample_principal = \<lparr>pc_UserID = ''2'', pc_WorkspaceID = ''1'', pc_SessionID = ''3''\<rparr>"

definition sample_create :: CreateTodoRequest where
  "sample_create = \<lparr>cr_WorkspaceID = ''1'', cr_UserID = ''2'', cr_Title = ''call'',
     cr_Description = None, cr_DueAtUTC = Some 5000, cr_TimezoneAtInput = None\<rparr>"

definition sample_run :: "event list" where
  "sample_run = [EventRequestLogin sample_login, EventVerifyLogin sample_login ''000008'',
     EventAddChannel sample_principal ''email'' ''a@b.c'',
     EventVerifyChannel sample_principal ''4'' ''000012'', EventCreateTodo sample_create]"

text \<open>The states on the way.\<close>

definition sample_requested :: world where
  "sample_requested =
   \<lparr>wd_todo = [], wd_reminder = \<lparr>rdb_plans = [], rdb_deliveries = []\<rparr>,
    wd_identity =
      \<lparr>idb_users = [], idb_workspaces = [],
         idb_challenges =
           [\<lparr>lc_ID = ''0'', lc_Phone = [], lc_Email = ''a@b.c'',
               lc_CodeHash = ''#000008'', lc_CreatedAt = 100,
               lc_ExpiresAt = 1100, lc_ConsumedAt = None, lc_Attempts = 0\<rparr>],
         idb_sessions = [], idb_channels = []\<rparr>,
    wd_jobs = [], wd_tick = 3, wd_ids = 1, wd_sent = [],
    wd_mail =
      [\<lparr>om_Address = ''a@b.c'', om_Channel = ''email'',
          om_Purpose = ''login'', om_Code = ''000008''\<rparr>]\<rparr>"

definition sample_logged_in :: world where
  "sample_logged_in =
   \<lparr>wd_todo = [], wd_reminder = \<lparr>rdb_plans = [], rdb_deliveries = []\<rparr>,
    wd_identity =
      \<lparr>idb_users =
         [\<lparr>u_ID = ''2'', u_WorkspaceID = ''1'', u_Phone = [],
             u_Email = ''a@b.c'', u_CreatedAt = 103\<rparr>],
         idb_workspaces = [\<lparr>w_ID = ''1'', w_CreatedAt = 103\<rparr>],
         idb_challenges =
           [\<lparr>lc_ID = ''0'', lc_Phone = [], lc_Email = ''a@b.c'',
               lc_CodeHash = ''#000008'', lc_CreatedAt = 100,
               lc_ExpiresAt = 1100, lc_ConsumedAt = Some 103,
               lc_Attempts = 0\<rparr>],
         idb_sessions =
           [\<lparr>se_ID = ''3'', se_UserID = ''2'', se_WorkspaceID = ''1'',
               se_TokenHash =
                 ''#0000000000000000000000000000000000000000000000000000000000000000'',
               se_CreatedAt = 103, se_ExpiresAt = 1103,
               se_RevokedAt = None\<rparr>],
         idb_channels = []\<rparr>,
    wd_jobs = [], wd_tick = 5, wd_ids = 4, wd_sent = [],
    wd_mail =
      [\<lparr>om_Address = ''a@b.c'', om_Channel = ''email'',
          om_Purpose = ''login'', om_Code = ''000008''\<rparr>]\<rparr>"

definition sample_added :: world where
  "sample_added =
   \<lparr>wd_todo = [], wd_reminder = \<lparr>rdb_plans = [], rdb_deliveries = []\<rparr>,
    wd_identity =
      \<lparr>idb_users =
         [\<lparr>u_ID = ''2'', u_WorkspaceID = ''1'', u_Phone = [],
             u_Email = ''a@b.c'', u_CreatedAt = 103\<rparr>],
         idb_workspaces = [\<lparr>w_ID = ''1'', w_CreatedAt = 103\<rparr>],
         idb_challenges =
           [\<lparr>lc_ID = ''0'', lc_Phone = [], lc_Email = ''a@b.c'',
               lc_CodeHash = ''#000008'', lc_CreatedAt = 100,
               lc_ExpiresAt = 1100, lc_ConsumedAt = Some 103,
               lc_Attempts = 0\<rparr>],
         idb_sessions =
           [\<lparr>se_ID = ''3'', se_UserID = ''2'', se_WorkspaceID = ''1'',
               se_TokenHash =
                 ''#0000000000000000000000000000000000000000000000000000000000000000'',
               se_CreatedAt = 103, se_ExpiresAt = 1103,
               se_RevokedAt = None\<rparr>],
         idb_channels =
           [\<lparr>cc_ID = ''4'', cc_UserID = ''2'', cc_WorkspaceID = ''1'',
               cc_Kind = ChannelKindEmail, cc_Address = ''a@b.c'',
               cc_Verified = False, cc_Enabled = True,
               cc_CodeHash = ''#000012'', cc_CodeExpiresAt = Some 1106,
               cc_CreatedAt = 106\<rparr>]\<rparr>,
    wd_jobs = [], wd_tick = 8, wd_ids = 5, wd_sent = [],
    wd_mail =
      [\<lparr>om_Address = ''a@b.c'', om_Channel = ''email'',
          om_Purpose = ''login'', om_Code = ''000008''\<rparr>,
       \<lparr>om_Address = ''a@b.c'', om_Channel = ''email'',
          om_Purpose = ''channel_verification'', om_Code = ''000012''\<rparr>]\<rparr>"

definition sample_verified :: world where
  "sample_verified =
   \<lparr>wd_todo = [], wd_reminder = \<lparr>rdb_plans = [], rdb_deliveries = []\<rparr>,
    wd_identity =
      \<lparr>idb_users =
         [\<lparr>u_ID = ''2'', u_WorkspaceID = ''1'', u_Phone = [],
             u_Email = ''a@b.c'', u_CreatedAt = 103\<rparr>],
         idb_workspaces = [\<lparr>w_ID = ''1'', w_CreatedAt = 103\<rparr>],
         idb_challenges =
           [\<lparr>lc_ID = ''0'', lc_Phone = [], lc_Email = ''a@b.c'',
               lc_CodeHash = ''#000008'', lc_CreatedAt = 100,
               lc_ExpiresAt = 1100, lc_ConsumedAt = Some 103,
               lc_Attempts = 0\<rparr>],
         idb_sessions =
           [\<lparr>se_ID = ''3'', se_UserID = ''2'', se_WorkspaceID = ''1'',
               se_TokenHash =
                 ''#0000000000000000000000000000000000000000000000000000000000000000'',
               se_CreatedAt = 103, se_ExpiresAt = 1103,
               se_RevokedAt = None\<rparr>],
         idb_channels =
           [\<lparr>cc_ID = ''4'', cc_UserID = ''2'', cc_WorkspaceID = ''1'',
               cc_Kind = ChannelKindEmail, cc_Address = ''a@b.c'',
               cc_Verified = True, cc_Enabled = True,
               cc_CodeHash = ''#000012'', cc_CodeExpiresAt = Some 1106,
               cc_CreatedAt = 106\<rparr>]\<rparr>,
    wd_jobs = [], wd_tick = 11, wd_ids = 5, wd_sent = [],
    wd_mail =
      [\<lparr>om_Address = ''a@b.c'', om_Channel = ''email'',
          om_Purpose = ''login'', om_Code = ''000008''\<rparr>,
       \<lparr>om_Address = ''a@b.c'', om_Channel = ''email'',
          om_Purpose = ''channel_verification'', om_Code = ''000012''\<rparr>]\<rparr>"

definition sample_world :: world where
  "sample_world =
   \<lparr>wd_todo =
    [\<lparr>t_ID = ''5'', t_WorkspaceID = ''1'', t_OwnerUserID = ''2'',
        t_Title = ''call'', t_Description = None, t_DueAtUTC = Some 5000,
        t_TimezoneAtInput = None, t_Status = StatusPending,
        t_ReminderVersion = 1, t_Version = 1, t_CreatedAt = 111,
        t_UpdatedAt = 111, t_CompletedAt = None, t_DeletedAt = None\<rparr>],
    wd_reminder =
      \<lparr>rdb_plans =
         [\<lparr>p_ID = ''6'', p_WorkspaceID = ''1'', p_TodoID = ''5'',
             p_TodoReminderVersion = 1, p_ScheduledAtUTC = 5000,
             p_RequestedChannels = [''email''], p_Status = StatusPlanned,
             p_CreatedAt = 113, p_RevokedAt = None\<rparr>],
         rdb_deliveries =
           [\<lparr>d_ID = ''7'', d_WorkspaceID = ''1'', d_TodoID = ''5'',
               d_OwnerUserID = ''2'', d_TodoReminderVersion = 1,
               d_PlanID = ''6'', d_Channel = ''email'',
               d_TodoTitleSnapshot = ''call'',
               d_IdempotencyKey = ''1:5:1:email'', d_State = StateScheduled,
               d_SuppressionReason = None, d_AttemptCount = 0,
               d_ProviderJobID = Some 15, d_ProviderMessageID = None,
               d_LastErrorCode = None, d_ScheduledAt = 5000,
               d_CreatedAt = 114, d_SubmittedAt = None,
               d_FinalizedAt = None, d_ReceiptState = None,
               d_ReceiptAt = None, d_ReceiptErrorCode = None,
               d_Origin = OriginLocal\<rparr>]\<rparr>,
    wd_identity =
      \<lparr>idb_users =
         [\<lparr>u_ID = ''2'', u_WorkspaceID = ''1'', u_Phone = [],
             u_Email = ''a@b.c'', u_CreatedAt = 103\<rparr>],
         idb_workspaces = [\<lparr>w_ID = ''1'', w_CreatedAt = 103\<rparr>],
         idb_challenges =
           [\<lparr>lc_ID = ''0'', lc_Phone = [], lc_Email = ''a@b.c'',
               lc_CodeHash = ''#000008'', lc_CreatedAt = 100,
               lc_ExpiresAt = 1100, lc_ConsumedAt = Some 103,
               lc_Attempts = 0\<rparr>],
         idb_sessions =
           [\<lparr>se_ID = ''3'', se_UserID = ''2'', se_WorkspaceID = ''1'',
               se_TokenHash =
                 ''#0000000000000000000000000000000000000000000000000000000000000000'',
               se_CreatedAt = 103, se_ExpiresAt = 1103,
               se_RevokedAt = None\<rparr>],
         idb_channels =
           [\<lparr>cc_ID = ''4'', cc_UserID = ''2'', cc_WorkspaceID = ''1'',
               cc_Kind = ChannelKindEmail, cc_Address = ''a@b.c'',
               cc_Verified = True, cc_Enabled = True,
               cc_CodeHash = ''#000012'', cc_CodeExpiresAt = Some 1106,
               cc_CreatedAt = 106\<rparr>]\<rparr>,
    wd_jobs =
      [(\<lparr>sa_PlanID = ''6'', sa_WorkspaceID = ''1'', sa_OwnerUserID = ''2'',
           sa_TodoID = ''5'', sa_TodoReminderVersion = 1,
           sa_Channel = ''email''\<rparr>,
        ''reminder_email'', 5000)],
    wd_tick = 17, wd_ids = 8, wd_sent = [],
    wd_mail =
      [\<lparr>om_Address = ''a@b.c'', om_Channel = ''email'',
          om_Purpose = ''login'', om_Code = ''000008''\<rparr>,
       \<lparr>om_Address = ''a@b.c'', om_Channel = ''email'',
          om_Purpose = ''channel_verification'', om_Code = ''000012''\<rparr>]\<rparr>"

definition sample_req :: VersionedRequest where
  "sample_req = \<lparr>vr_WorkspaceID = ''1'', vr_UserID = ''2'', vr_TodoID = ''5'', vr_Version = 1\<rparr>"

definition sample_job :: ReminderSendArgs where
  "sample_job = \<lparr>sa_PlanID = ''6'', sa_WorkspaceID = ''1'', sa_OwnerUserID = ''2'',
     sa_TodoID = ''5'', sa_TodoReminderVersion = 1, sa_Channel = ''email''\<rparr>"

lemma sample_requested_step: "serve sample_env (EventRequestLogin sample_login) empty_world = sample_requested"
  by code_simp

lemma sample_logged_in_step: "serve sample_env (EventVerifyLogin sample_login ''000008'') sample_requested = sample_logged_in"
  by code_simp

lemma sample_added_step: "serve sample_env (EventAddChannel sample_principal ''email'' ''a@b.c'') sample_logged_in = sample_added"
  by code_simp

lemma sample_verified_step: "serve sample_env (EventVerifyChannel sample_principal ''4'' ''000012'') sample_added = sample_verified"
  by code_simp

lemma sample_world_step: "serve sample_env (EventCreateTodo sample_create) sample_verified = sample_world"
  by code_simp

lemma sample_run_world: "fold (serve sample_env) sample_run empty_world = sample_world"
  by (simp only: sample_run_def fold.simps comp_apply id_apply sample_requested_step
      sample_logged_in_step sample_added_step sample_verified_step sample_world_step)

lemma sample_reachable: "reachable sample_env sample_world"
proof -
  have "list_all well_scoped sample_run" by code_simp
  from reachable_events [OF reachable.start this, of sample_env] show ?thesis
    by (simp only: sample_run_world)
qed

lemma sample_inv: "world_inv sample_env sample_world"
  by (rule reachable_inv [OF sample_reachable])

section \<open>What follows the run\<close>

definition sample_delivery :: ReminderDelivery where
  "sample_delivery = \<lparr>d_ID = ''7'', d_WorkspaceID = ''1'', d_TodoID = ''5'',
     d_OwnerUserID = ''2'', d_TodoReminderVersion = 1, d_PlanID = ''6'', d_Channel = ''email'',
     d_TodoTitleSnapshot = ''call'', d_IdempotencyKey = ''1:5:1:email'',
     d_State = StateSucceeded, d_SuppressionReason = None, d_AttemptCount = 1,
     d_ProviderJobID = Some 15, d_ProviderMessageID = Some ''m'', d_LastErrorCode = None,
     d_ScheduledAt = 5000, d_CreatedAt = 114, d_SubmittedAt = Some 119,
     d_FinalizedAt = Some 119, d_ReceiptState = None, d_ReceiptAt = None,
     d_ReceiptErrorCode = None, d_Origin = OriginLocal\<rparr>"

text \<open>After the worker sent the reminder, and after the todo was completed instead.\<close>

definition sample_sent :: world where
  "sample_sent = sample_world
     \<lparr>wd_reminder := \<lparr>rdb_plans = rdb_plans (wd_reminder sample_world),
        rdb_deliveries = [sample_delivery]\<rparr>,
      wd_tick := 20,
      wd_sent := [(''email'', \<lparr>m_To = ''a@b.c'', m_TodoID = ''5'', m_Title = ''call'',
        m_ScheduledAtUTC = 5000\<rparr>)]\<rparr>"

definition sample_done :: todo where
  "sample_done = \<lparr>t_ID = ''5'', t_WorkspaceID = ''1'', t_OwnerUserID = ''2'',
     t_Title = ''call'', t_Description = None, t_DueAtUTC = Some 5000, t_TimezoneAtInput = None,
     t_Status = StatusCompleted, t_ReminderVersion = 1, t_Version = 2, t_CreatedAt = 111,
     t_UpdatedAt = 111, t_CompletedAt = Some 117, t_DeletedAt = None\<rparr>"

definition sample_completed :: world where
  "sample_completed = sample_world
     \<lparr>wd_todo := [sample_done],
      wd_reminder := \<lparr>rdb_plans = [\<lparr>p_ID = ''6'', p_WorkspaceID = ''1'', p_TodoID = ''5'',
          p_TodoReminderVersion = 1, p_ScheduledAtUTC = 5000, p_RequestedChannels = [''email''],
          p_Status = StatusRevoked, p_CreatedAt = 113, p_RevokedAt = Some 119\<rparr>],
        rdb_deliveries = [sample_delivery\<lparr>d_State := StateSuppressed,
          d_SuppressionReason := Some ReasonTodoCompleted, d_AttemptCount := 0,
          d_ProviderMessageID := None, d_SubmittedAt := None, d_FinalizedAt := Some 121\<rparr>]\<rparr>,
      wd_tick := 23\<rparr>"

lemma sample_sent_run: "worker_Work sample_env sample_job 1 sample_world = (Inr (), sample_sent)"
  by code_simp

lemma sample_completed_step:
  "serve sample_env (EventCompleteTodo sample_req) sample_world = sample_completed"
  by code_simp

lemma reachable_served: "reachable env w \<Longrightarrow> well_scoped e \<Longrightarrow> reachable env (serve env e w)"
  by (rule reachable.step) (auto intro: served)

lemma sample_sent_reachable: "reachable sample_env sample_sent"
  using reachable_served [OF sample_reachable, of "EventWork sample_job 1"]
  by (simp add: sample_sent_run)

lemma sample_completed_reachable: "reachable sample_env sample_completed"
  using reachable_served [OF sample_reachable, of "EventCompleteTodo sample_req"]
  by (simp only: sample_completed_step) simp

text \<open>A run that succeeds has a result and a final state.\<close>

lemma runs_ok: "\<not> isl (fst x) \<Longrightarrow> \<exists>a s. x = (Inr a, s)"
  by (cases x; cases "fst x") auto

lemma runs_error: "isl (fst x) \<Longrightarrow> \<exists>e s. x = (Inl e, s)"
  by (cases x) (auto simp: isl_def)

lemma reachable_to: "serve env e w = w' \<Longrightarrow> well_scoped e \<Longrightarrow> reachable env w \<Longrightarrow> reachable env w'"
  using reachable_served by blast

lemma sample_added_reachable: "reachable sample_env sample_added"
proof -
  note r = reachable.start
  note r = reachable_to [OF sample_requested_step _ r]
  note r = reachable_to [OF sample_logged_in_step _ r]
  note r = reachable_to [OF sample_added_step _ r]
  show ?thesis by (rule r) simp_all
qed

lemma sample_added_inv: "world_inv sample_env sample_added"
  by (rule reachable_inv [OF sample_added_reachable])

lemma sample_verified_inv: "world_inv sample_env sample_verified"
  using reachable_inv [OF reachable_to [OF sample_verified_step _ sample_added_reachable]] by simp

lemma sample_create_run:
  "\<exists>view. api_CreateTodo sample_env sample_create sample_verified = (Inr view, sample_world)"
proof -
  have "\<not> isl (fst (api_CreateTodo sample_env sample_create sample_verified))" by code_simp
  moreover have "snd (api_CreateTodo sample_env sample_create sample_verified) = sample_world"
    using sample_world_step by simp
  ultimately show ?thesis using runs_ok by (metis prod.sel(2))
qed

text \<open>The same environment with a mail service that is down.\<close>

definition sample_env_down :: env where
  "sample_env_down = sample_env\<lparr>e_EmailNotifier := (\<lambda>_ _. (Inl (ExtError ''down''), False))\<rparr>"

lemma sample_down_inv: "world_inv sample_env_down sample_world"
  using sample_inv by (simp add: world_inv_defs issued_ids_def sample_env_down_def)

lemma sample_down_run:
  "fst (worker_Work sample_env_down sample_job 1 sample_world) = Inl (ExtError ''down'')"
  by code_simp

text \<open>Further requests.\<close>

definition sample_update :: UpdateTodoRequest where
  "sample_update = \<lparr>ur_WorkspaceID = ''1'', ur_UserID = ''2'', ur_TodoID = ''5'', ur_Version = 1,
     ur_Title = None, ur_Description = None, ur_TimezoneAtInput = None, ur_DueChanged = True,
     ur_DueAtUTC = Some 9000\<rparr>"

definition sample_receipt :: ReceiptRequest where
  "sample_receipt = \<lparr>rec_ProviderMessageID = ''m'', rec_Delivered = True, rec_ErrorCode = []\<rparr>"

text \<open>A clock that moves on by a minute between two readings.\<close>

definition sample_env_slow :: env where
  "sample_env_slow = sample_env\<lparr>e_Clock := (\<lambda>k. 1106 + int k * (60 * Second))\<rparr>"

definition sample_filters :: list_filters where
  "sample_filters = \<lparr>lf_Keyword = [], lf_Status = [], lf_DueFrom = None, lf_DueTo = None,
     lf_NoDue = False, lf_CompletedSince = None\<rparr>"

end
