(* ===== verification/Investment_Money.thy ===== *)
theory Investment_Money
  imports Complex_Main "HOL-Library.Signed_Division" Prelude
begin

text \<open>
  The fixed-point amounts of the investment module (\<open>investment/domain/money.go\<close> and the cost
  functions of \<open>risk.go\<close>, \<open>rebalance.go\<close>, \<open>corporate_actions.go\<close>). \<open>Money\<close> is in cents,
  \<open>Price\<close> in millionths, \<open>Quantity\<close> in shares, each an \<open>int64\<close>: an integer here, with
  \<open>wrap64\<close> where the code uses the machine operators and a range check where it uses
  \<open>math/big\<close>. A Go function that returns a value and an error is a function into a sum; what
  it returns beside an error is never used by its callers and is left out.
\<close>

type_synonym 'a inv_result = "investment_error + 'a"
type_synonym Money = int
type_synonym Price = int
type_synonym Quantity = int

section \<open>Results\<close>

definition bindR :: "'e + 'a \<Rightarrow> ('a \<Rightarrow> 'e + 'b) \<Rightarrow> 'e + 'b" where
  "bindR r f = (case r of Inl e \<Rightarrow> Inl e | Inr a \<Rightarrow> f a)"

text \<open>A \<open>for range\<close> loop whose body may return an error.\<close>

fun foldR :: "'a list \<Rightarrow> 'b \<Rightarrow> ('a \<Rightarrow> 'b \<Rightarrow> 'e + 'b) \<Rightarrow> 'e + 'b" where
  "foldR [] b f = Inr b"
| "foldR (x # xs) b f = bindR (f x b) (\<lambda>b'. foldR xs b' f)"

lemma bindR_simps [simp]: "bindR (Inl e) f = Inl e" "bindR (Inr a) f = f a"
  by (simp_all add: bindR_def)

lemma bindR_Inr: "bindR r f = Inr b \<longleftrightarrow> (\<exists>a. r = Inr a \<and> f a = Inr b)"
  by (cases r) simp_all

lemma bindR_cong [fundef_cong]:
  "r = r' \<Longrightarrow> (\<And>a. r' = Inr a \<Longrightarrow> f a = g a) \<Longrightarrow> bindR r f = bindR r' g"
  by (cases r') simp_all

lemma foldR_inv:
  assumes "foldR xs b f = Inr b'" "P b"
    and "\<And>x b b'. x \<in> set xs \<Longrightarrow> P b \<Longrightarrow> f x b = Inr b' \<Longrightarrow> P b'"
  shows "P b'"
  using assms
proof (induction xs arbitrary: b)
  case (Cons x xs)
  then obtain c where c: "f x b = Inr c" "foldR xs c f = Inr b'" by (auto simp: bindR_Inr)
  show ?case using Cons.prems(2,3) by (intro Cons.IH [OF c(2)]) (auto intro: Cons.prems(3) [OF _ _ c(1)])
qed simp

section \<open>Machine integers\<close>

definition IsInt64 :: "int \<Rightarrow> bool" where
  "IsInt64 n \<longleftrightarrow> - (2 ^ 63) \<le> n \<and> n < 2 ^ 63"

definition wrap64 :: "int \<Rightarrow> int" where
  "wrap64 n = signed_take_bit 63 n"

lemma wrap64_id: "IsInt64 n \<Longrightarrow> wrap64 n = n"
  by (simp add: wrap64_def IsInt64_def signed_take_bit_int_eq_self)

lemma wrap64_range: "IsInt64 (wrap64 n)"
  using signed_take_bit_int_greater_eq_minus_exp [of 63 n] signed_take_bit_int_less_exp [of 63 n]
  by (simp add: wrap64_def IsInt64_def)

lemma IsInt64_between: "IsInt64 a \<Longrightarrow> IsInt64 b \<Longrightarrow> a \<le> n \<Longrightarrow> n \<le> b \<Longrightarrow> IsInt64 n"
  by (auto simp: IsInt64_def)

definition checked :: "int \<Rightarrow> int inv_result" where
  "checked n = (if IsInt64 n then Inr n else Inl ErrOverflow)"

lemma checked_Inr [simp]: "checked n = Inr m \<longleftrightarrow> m = n \<and> IsInt64 n"
  by (auto simp: checked_def)

section \<open>Parsing and printing\<close>

text \<open>\<open>^[0-9]+(?:\.[0-9]+)?$\<close>: the digits before the point, and those after it.\<close>

definition decimal_parts :: "string \<Rightarrow> (string \<times> string) option" where
  "decimal_parts s =
     (let whole = takeWhile is_digit s; rest = dropWhile is_digit s in
      if whole = [] then None
      else case rest of
        [] \<Rightarrow> Some (whole, [])
      | c # fraction \<Rightarrow>
          if c = CHR ''.'' \<and> fraction \<noteq> [] \<and> list_all is_digit fraction
          then Some (whole, fraction) else None)"

definition parseScaled :: "string \<Rightarrow> nat \<Rightarrow> int inv_result" where
  "parseScaled s places =
     (case decimal_parts s of
        None \<Rightarrow> Inl ErrInvalidInput
      | Some (whole, fraction) \<Rightarrow>
          if length fraction > places then Inl ErrInvalidInput
          else checked (int (digits_val
                 (whole @ fraction @ replicate (places - length fraction) CHR ''0''))))"

definition ParseMoney :: "string \<Rightarrow> Money inv_result" where
  "ParseMoney s = parseScaled s 2"

definition ParsePrice :: "string \<Rightarrow> Price inv_result" where
  "ParsePrice s = bindR (parseScaled s 6) (\<lambda>v.
     if v \<le> 0 \<or> v > 1000000000000 then Inl ErrInvalidInput else Inr v)"

definition ParseQuantity :: "string \<Rightarrow> Quantity inv_result" where
  "ParseQuantity s = bindR (parseScaled s 0) (\<lambda>v.
     if v \<le> 0 \<or> v > 1000000000 then Inl ErrInvalidInput else Inr v)"

definition Money_String :: "Money \<Rightarrow> string" where
  "Money_String m =
     (if m < 0 then ''-'' else []) @ nat_digits (nat \<bar>m\<bar> div 100) @ ''.''
       @ pad_digits 2 (nat \<bar>m\<bar> mod 100)"

text \<open>Prices are positive wherever the code prints one.\<close>

definition Price_String :: "Price \<Rightarrow> string" where
  "Price_String p = Itoa (p sdiv 1000000) @ ''.'' @ pad_digits 6 (nat (p smod 1000000))"

definition Quantity_String :: "Quantity \<Rightarrow> string" where
  "Quantity_String q = Itoa q"

section \<open>Arithmetic\<close>

definition GrossValue :: "Price \<Rightarrow> Quantity \<Rightarrow> Money inv_result" where
  "GrossValue p q =
     (if p \<le> 0 \<or> q \<le> 0 then Inl ErrInvalidInput
      else checked ((p * q + 5000) sdiv 10000))"

definition addMoney :: "Money \<Rightarrow> Money \<Rightarrow> Money inv_result" where
  "addMoney a b = checked (a + b)"

definition scalePrice :: "Price \<Rightarrow> int \<Rightarrow> int \<Rightarrow> Price inv_result" where
  "scalePrice p numerator denominator =
     (if p \<le> 0 \<or> numerator \<le> 0 \<or> denominator \<le> 0 then Inl ErrInvalidInput
      else let n = (p * numerator + denominator sdiv 2) sdiv denominator in
        if \<not> IsInt64 n \<or> n \<le> 0 then Inl ErrOverflow else Inr n)"

definition TradeFee :: "Money \<Rightarrow> Money inv_result" where
  "TradeFee gross =
     (if gross < 0 then Inl ErrInvalidInput
      else let fee = gross sdiv 10000;
               fee = (if gross smod 10000 \<noteq> 0 then fee + 1 else fee)
           in Inr (if fee < 1 then 1 else fee))"

definition purchaseCost :: "Price \<Rightarrow> Quantity \<Rightarrow> Money inv_result" where
  "purchaseCost price qty =
     bindR (GrossValue price qty) (\<lambda>gross. bindR (TradeFee gross) (\<lambda>fee. addMoney gross fee))"

definition proportionalCost :: "Money \<Rightarrow> Quantity \<Rightarrow> Quantity \<Rightarrow> Money inv_result" where
  "proportionalCost cost qty whole =
     (if cost < 0 \<or> qty < 0 \<or> whole \<le> 0 \<or> qty > whole then Inl ErrInvalidInput
      else let q = (cost * qty) sdiv whole; r = (cost * qty) smod whole in
        checked (if r * 2 \<ge> whole then q + 1 else q))"

text \<open>A \<open>big.Rat\<close> is a rational; \<open>Num\<close> and \<open>Denom\<close> are its reduced quotient.\<close>

definition roundedRatMoney :: "rat \<Rightarrow> Money inv_result" where
  "roundedRatMoney r =
     (if r < 0 then Inl ErrInvalidInput
      else case quotient_of r of (num, denom) \<Rightarrow>
        (let q = num sdiv denom; r2 = num smod denom in
         checked (if r2 * 2 \<ge> denom then q + 1 else q)))"

text \<open>The largest quantity up to the limit that fits, by bisection.\<close>

function bisect :: "(Quantity \<Rightarrow> bool) \<Rightarrow> Quantity \<Rightarrow> Quantity \<Rightarrow> Quantity" where
  "bisect fits low high =
     (if low < high
      then let mid = low + (high - low + 1) div 2 in
        if fits mid then bisect fits mid high else bisect fits low (mid - 1)
      else low)"
  by pat_completeness auto
termination
  by (relation "measure (\<lambda>(fits, low, high). nat (high - low))") auto

declare bisect.simps [simp del]

definition maxWholeQuantity :: "Quantity \<Rightarrow> (Quantity \<Rightarrow> bool) \<Rightarrow> Quantity" where
  "maxWholeQuantity limit fits = bisect fits 0 limit"


section \<open>Laws of parsing and printing\<close>

lemma takeWhile_all_app: "list_all P xs \<Longrightarrow> takeWhile P (xs @ ys) = xs @ takeWhile P ys"
  by (induction xs) simp_all

lemma while_all:
  assumes "list_all P xs"
  shows "takeWhile P xs = xs" "dropWhile P xs = []"
  using assms by (simp_all add: list_all_iff)

lemma dropWhile_all_app: "list_all P xs \<Longrightarrow> dropWhile P (xs @ ys) = dropWhile P ys"
  by (induction xs) simp_all

lemma decimal_parts_whole:
  "list_all is_digit ws \<Longrightarrow> ws \<noteq> [] \<Longrightarrow> decimal_parts ws = Some (ws, [])"
  by (simp add: decimal_parts_def while_all)

lemma decimal_parts_point:
  assumes "list_all is_digit ws" "ws \<noteq> []" "list_all is_digit fs" "fs \<noteq> []"
  shows "decimal_parts (ws @ ''.'' @ fs) = Some (ws, fs)"
proof -
  have "\<not> is_digit CHR ''.''" by (simp add: is_digit_def byte_def)
  then show ?thesis
    using assms by (simp add: decimal_parts_def takeWhile_all_app dropWhile_all_app)
qed

lemma digits_val_append: "digits_val (xs @ ys) = digits_val xs * 10 ^ length ys + digits_val ys"
proof (induction ys rule: rev_induct)
  case (snoc y ys)
  then show ?case unfolding append_assoc [symmetric] digits_val_def by (simp add: algebra_simps)
qed (simp add: digits_val_def)

lemma digits_val_pad [simp]: "digits_val (pad_digits k n) = n"
  by (simp add: pad_digits_def Let_def)

lemma length_pad: "0 < k \<Longrightarrow> n < 10 ^ k \<Longrightarrow> length (pad_digits k n) = k"
  using nat_digits_length [of k n] by (simp add: pad_digits_def Let_def)

lemma pad_are_digits: "list_all is_digit (pad_digits k n)"
  using nat_digits_are_digits [of n]
  by (auto simp: pad_digits_def Let_def list_all_iff is_digit_def byte_def)

lemma parseScaled_print:
  assumes "0 < k" "f < 10 ^ k" "int (w * 10 ^ k + f) < 2 ^ 63"
  shows "parseScaled (nat_digits w @ ''.'' @ pad_digits k f) k = Inr (int (w * 10 ^ k + f))"
proof -
  have l: "length (pad_digits k f) = k" by (rule length_pad) fact+
  then have "decimal_parts (nat_digits w @ ''.'' @ pad_digits k f) = Some (nat_digits w, pad_digits k f)"
    using \<open>0 < k\<close> by (intro decimal_parts_point nat_digits_are_digits pad_are_digits) auto
  then show ?thesis
    unfolding parseScaled_def using assms(3) l
    by (simp add: digits_val_append checked_def IsInt64_def add_nonneg_nonneg order_trans [of _ 0])
qed

lemma int_div_mod_nat: "0 \<le> (m::int) \<Longrightarrow> int (nat m div k * k + nat m mod k) = m"
  by simp

lemma money_print_parse:
  assumes "0 \<le> m" "IsInt64 m"
  shows "ParseMoney (Money_String m) = Inr m"
proof -
  have eq: "int (nat m div 100 * 10 ^ 2 + nat m mod 100) = m"
    using int_div_mod_nat [OF assms(1), of 100] by simp
  have "\<not> m < 0" "\<bar>m\<bar> = m" using assms(1) by simp_all
  then have "Money_String m = nat_digits (nat m div 100) @ ''.'' @ pad_digits 2 (nat m mod 100)"
    unfolding Money_String_def by simp
  then show ?thesis
    using parseScaled_print [of 2 "nat m mod 100" "nat m div 100"] assms(2)
    unfolding ParseMoney_def eq by (simp add: IsInt64_def)
qed

lemma money_negative_no_parse: "m < 0 \<Longrightarrow> ParseMoney (Money_String m) = Inl ErrInvalidInput"
  by (simp add: ParseMoney_def Money_String_def parseScaled_def decimal_parts_def is_digit_def byte_def)

lemma price_print_parse:
  assumes "0 < p" "p \<le> 1000000000000"
  shows "ParsePrice (Price_String p) = Inr p"
proof -
  have eq: "int (nat p div 1000000 * 10 ^ 6 + nat p mod 1000000) = p"
    using int_div_mod_nat [of p 1000000] assms by simp
  have s: "Price_String p = nat_digits (nat p div 1000000) @ ''.'' @ pad_digits 6 (nat p mod 1000000)"
    using assms by (simp add: Price_String_def Itoa_def signed_divide_int_def signed_modulo_int_def
      nat_div_distrib nat_mod_distrib)
  have "parseScaled (Price_String p) 6 = Inr p"
    using parseScaled_print [of 6 "nat p mod 1000000" "nat p div 1000000"] assms eq
    unfolding s by (simp only: eq) simp
  then show ?thesis using assms by (simp add: ParsePrice_def)
qed

lemma quantity_print_parse:
  assumes "0 < q" "q \<le> 1000000000"
  shows "ParseQuantity (Quantity_String q) = Inr q"
proof -
  have "Quantity_String q = nat_digits (nat q)" using assms by (simp add: Quantity_String_def Itoa_def)
  then have "parseScaled (Quantity_String q) 0 = Inr q"
    using assms by (simp add: parseScaled_def decimal_parts_whole nat_digits_are_digits checked_def IsInt64_def)
  then show ?thesis using assms by (simp add: ParseQuantity_def)
qed

lemma ParsePrice_range: "ParsePrice s = Inr p \<Longrightarrow> 0 < p \<and> p \<le> 1000000000000"
  by (auto simp: ParsePrice_def bindR_Inr split: if_splits)

lemma ParseQuantity_range: "ParseQuantity s = Inr q \<Longrightarrow> 0 < q \<and> q \<le> 1000000000"
  by (auto simp: ParseQuantity_def bindR_Inr split: if_splits)

lemma ParseMoney_range: "ParseMoney s = Inr m \<Longrightarrow> 0 \<le> m \<and> IsInt64 m"
  by (auto simp: ParseMoney_def parseScaled_def split: option.splits prod.splits if_splits)

section \<open>Laws of the arithmetic\<close>

lemma sdiv_nonneg: "0 \<le> a \<Longrightarrow> 0 < b \<Longrightarrow> a sdiv b = a div (b::int)"
  by (cases "a = 0") (simp_all add: signed_divide_int_def)

lemma smod_nonneg: "0 \<le> a \<Longrightarrow> 0 < b \<Longrightarrow> a smod b = a mod (b::int)"
  by (cases "a = 0") (simp_all add: signed_modulo_int_def)

lemma GrossValue_Inr:
  "GrossValue p q = Inr g \<longleftrightarrow>
     0 < p \<and> 0 < q \<and> g = (p * q + 5000) div 10000 \<and> (p * q + 5000) div 10000 < 2 ^ 63"
proof (cases "0 < p \<and> 0 < q")
  case True
  then have "0 < p * q" by simp
  then have "0 \<le> (p * q + 5000) div 10000" "(p * q + 5000) sdiv 10000 = (p * q + 5000) div 10000"
    by (simp_all add: pos_imp_zdiv_nonneg_iff sdiv_nonneg)
  with True show ?thesis by (auto simp: GrossValue_def IsInt64_def)
qed (auto simp: GrossValue_def)

text \<open>The value in cents is the exact one, rounded to the nearest cent.\<close>

lemma GrossValue_half_up:
  assumes "GrossValue p q = Inr g"
  shows "10000 * g - 5000 \<le> p * q" "p * q < 10000 * g + 5000" "0 \<le> g"
  using assms by (auto simp: GrossValue_Inr pos_imp_zdiv_nonneg_iff)

lemma GrossValue_mono:
  assumes "GrossValue p q = Inr g" "0 < q'" "q' \<le> q"
  shows "\<exists>g'. GrossValue p q' = Inr g' \<and> g' \<le> g"
proof -
  have "p * q' \<le> p * q" using assms by (simp add: GrossValue_Inr)
  then have "(p * q' + 5000) div 10000 \<le> (p * q + 5000) div 10000" by (simp add: zdiv_mono1)
  then show ?thesis using assms by (auto simp: GrossValue_Inr)
qed

lemma ceiling_div: "(if g mod 10000 \<noteq> 0 then g div 10000 + 1 else g div 10000) = (g + 9999) div (10000::int)"
proof (cases "g mod 10000 = 0")
  case True
  have "(g + 9999) div 10000 = g div 10000"
    using True mult_div_mod_eq [of 10000 g]
    by (intro int_div_pos_eq [of "g + 9999" 10000 "g div 10000" 9999]) simp_all
  with True show ?thesis by simp
next
  case False
  then have "0 < g mod 10000" using pos_mod_sign [of 10000 g] by simp
  then show ?thesis
    using False int_div_pos_eq [of "g + 9999" 10000 "g div 10000 + 1" "g mod 10000 - 1"]
      pos_mod_bound [of 10000 g] by simp
qed

lemma TradeFee_Inr: "TradeFee g = Inr f \<longleftrightarrow> 0 \<le> g \<and> f = max 1 ((g + 9999) div 10000)"
proof (cases "0 \<le> g")
  case True
  have "(if g mod 10000 \<noteq> 0 then g div 10000 + 1 else g div 10000) = (g + 9999) div 10000"
    by (rule ceiling_div)
  with True show ?thesis by (auto simp: TradeFee_def Let_def sdiv_nonneg smod_nonneg max_def)
qed (auto simp: TradeFee_def)

text \<open>One basis point, rounded up to a cent, and at least one cent.\<close>

lemma TradeFee_bounds:
  assumes "TradeFee g = Inr f"
  shows "1 \<le> f" "g \<le> 10000 * f" "f = 1 \<or> 10000 * (f - 1) < g"
  using assms by (auto simp: TradeFee_Inr max_def)

lemma TradeFee_mono: "TradeFee g = Inr f \<Longrightarrow> 0 \<le> g' \<Longrightarrow> g' \<le> g \<Longrightarrow> \<exists>f'. TradeFee g' = Inr f' \<and> f' \<le> f"
  by (auto simp: TradeFee_Inr intro!: max.mono zdiv_mono1)

lemma addMoney_Inr [simp]: "addMoney a b = Inr c \<longleftrightarrow> c = a + b \<and> IsInt64 (a + b)"
  by (auto simp: addMoney_def)

lemma purchaseCost_Inr:
  "purchaseCost p q = Inr c \<longleftrightarrow>
     (\<exists>g f. GrossValue p q = Inr g \<and> TradeFee g = Inr f \<and> c = g + f \<and> IsInt64 c)"
  by (auto simp: purchaseCost_def bindR_Inr)

lemma purchaseCost_mono:
  assumes "purchaseCost p q = Inr c" "0 < q'" "q' \<le> q"
  shows "\<exists>c'. purchaseCost p q' = Inr c' \<and> c' \<le> c"
proof -
  obtain g f where c: "GrossValue p q = Inr g" "TradeFee g = Inr f" "c = g + f" "IsInt64 c"
    using assms(1) by (auto simp: purchaseCost_Inr)
  obtain g' where g': "GrossValue p q' = Inr g'" "g' \<le> g" using GrossValue_mono [OF c(1) assms(2,3)] by auto
  note g0 = GrossValue_half_up(3) [OF g'(1)]
  obtain f' where f': "TradeFee g' = Inr f'" "f' \<le> f" using TradeFee_mono [OF c(2) g0 g'(2)] by auto
  have "0 \<le> g' + f'" "g' + f' \<le> c" using g0 TradeFee_bounds(1) [OF f'(1)] g'(2) f'(2) c(3) by auto
  then show ?thesis using g'(1) f'(1) c(4) by (auto simp: purchaseCost_Inr IsInt64_def)
qed

lemma purchaseCost_range:
  assumes "purchaseCost p q = Inr c"
  shows "0 < c" "IsInt64 c"
proof -
  obtain g f where "GrossValue p q = Inr g" "TradeFee g = Inr f" "c = g + f" "IsInt64 c"
    using assms by (auto simp: purchaseCost_Inr)
  then show "0 < c" "IsInt64 c" using GrossValue_half_up(3) TradeFee_bounds(1) by fastforce+
qed

lemma round_half_up_le:
  assumes "(0::int) \<le> n" "0 < d" "n \<le> d * k"
  shows "(if n mod d * 2 \<ge> d then n div d + 1 else n div d) \<le> k"
proof -
  have "n div d \<le> k" using zdiv_mono1 [OF assms(3,2)] assms(2) by simp
  moreover have "n div d = k \<Longrightarrow> n mod d = 0"
    using assms(2,3) minus_mult_div_eq_mod [of n d] pos_mod_sign [of d n] by (intro antisym) simp_all
  ultimately show ?thesis using assms(2) by (cases "n div d = k") auto
qed

lemma proportionalCost_range:
  assumes "proportionalCost cost q n = Inr c"
  shows "0 \<le> c" "c \<le> cost"
proof -
  have h: "0 \<le> cost" "0 \<le> q" "0 < n" "q \<le> n" using assms by (auto simp: proportionalCost_def split: if_splits)
  then have nn: "0 \<le> cost * q" "cost * q \<le> n * cost" by (simp_all add: mult.commute [of n] mult_left_mono)
  have "c = (if (cost * q) mod n * 2 \<ge> n then (cost * q) div n + 1 else (cost * q) div n)"
    using assms h nn by (simp add: proportionalCost_def Let_def sdiv_nonneg smod_nonneg)
  then show "0 \<le> c" "c \<le> cost" using round_half_up_le [OF nn(1) h(3) nn(2)] h nn
    by (auto simp: pos_imp_zdiv_nonneg_iff)
qed

lemma proportionalCost_full:
  "0 \<le> cost \<Longrightarrow> IsInt64 cost \<Longrightarrow> 0 < n \<Longrightarrow> proportionalCost cost n n = Inr cost"
  by (simp add: proportionalCost_def Let_def sdiv_nonneg smod_nonneg checked_def)

lemma proportionalCost_returns:
  assumes "0 \<le> cost" "IsInt64 cost" "0 \<le> q" "q \<le> n" "0 < n"
  shows "\<exists>c. proportionalCost cost q n = Inr c"
proof -
  define c where "c = (if (cost * q) mod n * 2 \<ge> n then (cost * q) div n + 1 else (cost * q) div n)"
  have nn: "0 \<le> cost * q" "cost * q \<le> n * cost" using assms by (simp_all add: mult.commute [of n] mult_left_mono)
  then have "0 \<le> c" "c \<le> cost" using round_half_up_le [OF nn(1) assms(5) nn(2)] assms
    by (auto simp: c_def pos_imp_zdiv_nonneg_iff)
  then have "IsInt64 c" using assms(2) by (auto simp: IsInt64_def)
  moreover have "proportionalCost cost q n = checked c"
    using assms nn by (simp add: proportionalCost_def Let_def sdiv_nonneg smod_nonneg c_def)
  ultimately show ?thesis by (simp add: checked_def)
qed

section \<open>Bisection\<close>

lemma bisect_done: "\<not> low < high \<Longrightarrow> bisect fits low high = low"
  by (subst bisect.simps) simp

lemma bisect_range: "low \<le> high \<Longrightarrow> low \<le> bisect fits low high \<and> bisect fits low high \<le> high"
proof (induction fits low high rule: bisect.induct)
  case (1 fits low high)
  show ?case
  proof (cases "low < high")
    case True
    define mid where "mid = low + (high - low + 1) div 2"
    have "low < mid" "mid \<le> high" using True by (auto simp: mid_def)
    with 1 True show ?thesis
      by (subst (1 2) bisect.simps) (auto simp: mid_def [symmetric] Let_def)
  qed (use 1 in \<open>simp add: bisect_done\<close>)
qed

lemma bisect_fits:
  "low \<le> high \<Longrightarrow> low < bisect fits low high \<Longrightarrow> fits (bisect fits low high)"
proof (induction fits low high rule: bisect.induct)
  case (1 fits low high)
  show ?case
  proof (cases "low < high")
    case True
    define mid where "mid = low + (high - low + 1) div 2"
    have m: "low < mid" "mid \<le> high" using True by (auto simp: mid_def)
    show ?thesis
    proof (cases "fits mid")
      case f: True
      have e: "bisect fits low high = bisect fits mid high"
        using True f by (subst bisect.simps) (simp add: mid_def Let_def)
      show ?thesis
      proof (cases "mid < bisect fits mid high")
        case True
        then show ?thesis using 1(1) [OF \<open>low < high\<close> mid_def f m(2)] e by simp
      next
        case False
        then show ?thesis using bisect_range [OF m(2), of fits] f e by simp
      qed
    next
      case f: False
      have e: "bisect fits low high = bisect fits low (mid - 1)"
        using True f by (subst bisect.simps) (simp add: mid_def Let_def)
      show ?thesis using 1(2) [OF True mid_def f] 1(4) m e by simp
    qed
  qed (use 1 in \<open>simp add: bisect_done\<close>)
qed

text \<open>For a predicate that is closed downwards the bisection misses nothing.\<close>

lemma bisect_greatest:
  assumes "low \<le> high"
    and "\<And>q q'. low < q' \<Longrightarrow> q' \<le> q \<Longrightarrow> q \<le> high \<Longrightarrow> fits q \<Longrightarrow> fits q'"
    and "bisect fits low high < q" "q \<le> high"
  shows "\<not> fits q"
  using assms
proof (induction fits low high rule: bisect.induct)
  case (1 fits low high)
  show ?case
  proof (cases "low < high")
    case True
    define mid where "mid = low + (high - low + 1) div 2"
    have m: "low < mid" "mid \<le> high" using True by (auto simp: mid_def)
    show ?thesis
    proof (cases "fits mid")
      case f: True
      have e: "bisect fits low high = bisect fits mid high"
        using True f by (subst bisect.simps) (simp add: mid_def Let_def)
      have dc: "fits q'" if "mid < q'" "q' \<le> q" "q \<le> high" "fits q" for q q'
        using that m by (intro 1(4) [of q' q]) simp_all
      show ?thesis by (rule 1(1) [OF True mid_def f m(2) dc]) (use 1(5,6) e in simp_all)
    next
      case f: False
      have e: "bisect fits low high = bisect fits low (mid - 1)"
        using True f by (subst bisect.simps) (simp add: mid_def Let_def)
      show ?thesis
      proof (cases "q \<le> mid - 1")
        case q: True
        have dc: "fits q'" if "low < q'" "q' \<le> q" "q \<le> mid - 1" "fits q" for q q'
          using that m by (intro 1(4) [of q' q]) simp_all
        have lm: "low \<le> mid - 1" using m by simp
        show ?thesis by (rule 1(2) [OF True mid_def f lm dc]) (use 1(5) q e in simp_all)
      next
        case False
        then show ?thesis using 1(4) [of mid q] 1(6) m f by auto
      qed
    qed
  next
    case False
    then show ?thesis using 1 by (simp add: bisect_done)
  qed
qed

lemma maxWholeQuantity_range: "0 \<le> limit \<Longrightarrow> 0 \<le> maxWholeQuantity limit fits \<and> maxWholeQuantity limit fits \<le> limit"
  unfolding maxWholeQuantity_def by (rule bisect_range)

lemma maxWholeQuantity_fits:
  "0 \<le> limit \<Longrightarrow> 0 < maxWholeQuantity limit fits \<Longrightarrow> fits (maxWholeQuantity limit fits)"
  unfolding maxWholeQuantity_def by (rule bisect_fits)

lemma maxWholeQuantity_neg: "limit \<le> 0 \<Longrightarrow> maxWholeQuantity limit fits = 0"
  by (simp add: maxWholeQuantity_def bisect.simps)

lemma maxWholeQuantity_greatest:
  assumes "\<And>q q'. 0 < q' \<Longrightarrow> q' \<le> q \<Longrightarrow> q \<le> limit \<Longrightarrow> fits q \<Longrightarrow> fits q'"
    and "0 < q" "q \<le> limit" "fits q"
  shows "q \<le> maxWholeQuantity limit fits"
  using bisect_greatest [of 0 limit fits q] assms unfolding maxWholeQuantity_def by fastforce

end
