(* ===== verification/Go_Float.thy ===== *)
theory Go_Float
  imports Complex_Main Prelude
begin

text \<open>
  Go's \<open>float64\<close>: IEEE 754 binary64 with rounding to the nearest value, ties to even. A
  finite value is the rational it denotes (the sign of a zero is not kept: no code modelled
  divides by a float that may be a negative zero). Every operation is the exact one followed by
  \<open>round64\<close>. \<open>shortest_decimal\<close> is the number that
  \<open>strconv.FormatFloat(v, 'f', -1, 64)\<close> writes.
\<close>

datatype float64 = NaN | Inf bool | Finite rat

text \<open>\<open>10 ^ k\<close> and \<open>2 ^ k\<close> for an integer exponent.\<close>

definition pow_int :: "int \<Rightarrow> int \<Rightarrow> rat" where
  "pow_int b k = (if 0 \<le> k then of_int (b ^ nat k) else 1 / of_int (b ^ nat (- k)))"

text \<open>The number of digits of \<open>n\<close> in base \<open>b\<close>.\<close>

function digit_count :: "int \<Rightarrow> int \<Rightarrow> int" where
  "digit_count b n = (if n \<le> 0 \<or> b < 2 then 0 else 1 + digit_count b (n div b))"
  by pat_completeness auto
termination
  by (relation "measure (\<lambda>(b, n). nat n)")
    (auto intro!: int_div_less_self)

declare digit_count.simps [simp del]

text \<open>The greatest \<open>k\<close> with \<open>b ^ k \<le> r\<close>, for a positive rational.\<close>

definition magnitude :: "int \<Rightarrow> rat \<Rightarrow> int" where
  "magnitude b r =
     (case quotient_of r of (p, q) \<Rightarrow>
        let k = digit_count b p - digit_count b q in
        if pow_int b k \<le> r then k else k - 1)"

text \<open>The nearest integer, a tie to the even one.\<close>

definition round_even :: "rat \<Rightarrow> int" where
  "round_even r =
     (let n = \<lfloor>r\<rfloor>; d = r - of_int n in
      if d < 1 / 2 then n else if d > 1 / 2 then n + 1 else if even n then n else n + 1)"

definition max_float :: rat where
  "max_float = of_int ((2 ^ 53 - 1) * 2 ^ 971)"

definition round64 :: "rat \<Rightarrow> float64" where
  "round64 r =
     (if r = 0 then Finite 0
      else let unit = pow_int 2 (max (magnitude 2 \<bar>r\<bar>) (-1022) - 52);
               v = of_int (round_even (\<bar>r\<bar> / unit)) * unit
           in if v > max_float then Inf (r < 0)
              else Finite (if r < 0 then - v else v))"

definition IsNaN :: "float64 \<Rightarrow> bool" where
  "IsNaN x \<longleftrightarrow> x = NaN"

definition IsInf :: "float64 \<Rightarrow> bool" where
  "IsInf x = (case x of Inf _ \<Rightarrow> True | _ \<Rightarrow> False)"

definition float_of_int :: "int \<Rightarrow> float64" where
  "float_of_int n = round64 (of_int n)"

text \<open>Comparisons: one with a \<open>NaN\<close> is false.\<close>

fun fless :: "float64 \<Rightarrow> float64 \<Rightarrow> bool" where
  "fless (Finite a) (Finite b) \<longleftrightarrow> a < b"
| "fless (Finite a) (Inf s) \<longleftrightarrow> \<not> s"
| "fless (Inf s) (Finite b) \<longleftrightarrow> s"
| "fless (Inf s) (Inf t) \<longleftrightarrow> s \<and> \<not> t"
| "fless _ _ \<longleftrightarrow> False"

definition feq :: "float64 \<Rightarrow> float64 \<Rightarrow> bool" where
  "feq x y \<longleftrightarrow> x \<noteq> NaN \<and> x = y"

definition fle :: "float64 \<Rightarrow> float64 \<Rightarrow> bool" where
  "fle x y \<longleftrightarrow> fless x y \<or> feq x y"

fun fneg :: "float64 \<Rightarrow> float64" where
  "fneg (Finite a) = Finite (- a)"
| "fneg (Inf s) = Inf (\<not> s)"
| "fneg NaN = NaN"

fun fadd :: "float64 \<Rightarrow> float64 \<Rightarrow> float64" where
  "fadd (Finite a) (Finite b) = round64 (a + b)"
| "fadd (Inf s) (Inf t) = (if s = t then Inf s else NaN)"
| "fadd (Inf s) (Finite _) = Inf s"
| "fadd (Finite _) (Inf s) = Inf s"
| "fadd _ _ = NaN"

definition fsub :: "float64 \<Rightarrow> float64 \<Rightarrow> float64" where
  "fsub x y = fadd x (fneg y)"

definition fsign :: "float64 \<Rightarrow> bool" where
  "fsign x = fless x (Finite 0)"

fun fmul :: "float64 \<Rightarrow> float64 \<Rightarrow> float64" where
  "fmul (Finite a) (Finite b) = round64 (a * b)"
| "fmul (Inf s) (Inf t) = Inf (s \<noteq> t)"
| "fmul (Inf s) (Finite a) = (if a = 0 then NaN else Inf (s \<noteq> (a < 0)))"
| "fmul (Finite a) (Inf s) = (if a = 0 then NaN else Inf (s \<noteq> (a < 0)))"
| "fmul _ _ = NaN"

fun fdiv :: "float64 \<Rightarrow> float64 \<Rightarrow> float64" where
  "fdiv (Finite a) (Finite b) =
     (if b = 0 then if a = 0 then NaN else Inf (a < 0) else round64 (a / b))"
| "fdiv (Inf s) (Inf t) = NaN"
| "fdiv (Inf s) (Finite a) = Inf (s \<noteq> (a < 0))"
| "fdiv (Finite a) (Inf s) = Finite 0"
| "fdiv _ _ = NaN"

definition fabs :: "float64 \<Rightarrow> float64" where
  "fabs x = (if fsign x then fneg x else x)"

definition fmax :: "float64 \<Rightarrow> float64 \<Rightarrow> float64" where
  "fmax x y = (if x = Inf False \<or> y = Inf False then Inf False
     else if x = NaN \<or> y = NaN then NaN else if fless y x then x else y)"

text \<open>\<open>math.Round\<close>: to the nearest integer, a tie away from zero.\<close>

fun fround :: "float64 \<Rightarrow> float64" where
  "fround (Finite a) = Finite (of_int ((if a < 0 then -1 else 1) * \<lfloor>\<bar>a\<bar> + 1 / 2\<rfloor>))"
| "fround x = x"

text \<open>
  \<open>math.Sqrt\<close>, correctly rounded: the integer square root of the argument scaled to at least
  56 significant bits, with a last odd bit when it is not exact, rounds like the root.
\<close>

function isqrt_upto :: "int \<Rightarrow> int \<Rightarrow> int \<Rightarrow> int" where
  "isqrt_upto n low high =
     (if low < high
      then let mid = low + (high - low + 1) div 2 in
        if mid * mid \<le> n then isqrt_upto n mid high else isqrt_upto n low (mid - 1)
      else low)"
  by pat_completeness auto
termination
  by (relation "measure (\<lambda>(n, low, high). nat (high - low))") auto

declare isqrt_upto.simps [simp del]

definition isqrt :: "int \<Rightarrow> int" where
  "isqrt n = isqrt_upto n 0 (2 ^ nat ((digit_count 2 n + 1) div 2))"

fun fsqrt :: "float64 \<Rightarrow> float64" where
  "fsqrt (Finite a) =
     (if a < 0 then NaN
      else if a = 0 then Finite 0
      else let k = 56 - magnitude 2 a div 2; x = a * pow_int 2 (2 * k); s = isqrt \<lfloor>x\<rfloor> in
        if of_int (s * s) = x then round64 (of_int s * pow_int 2 (- k))
        else round64 ((of_int s + 1 / 2) * pow_int 2 (- k)))"
| "fsqrt (Inf s) = (if s then NaN else Inf False)"
| "fsqrt NaN = NaN"

text \<open>
  The decimal with the fewest significant digits that reads back as the value, the nearest of
  them; 17 digits always suffice.
\<close>

definition decimals_at :: "rat \<Rightarrow> int \<Rightarrow> rat list" where
  "decimals_at v n =
     (let unit = pow_int 10 (magnitude 10 v + 1 - n); m = \<lfloor>v / unit\<rfloor>;
          lo = of_int m * unit; hi = of_int (m + 1) * unit
      in List.filter (\<lambda>d. round64 d = Finite v) (if v - lo \<le> hi - v then [lo, hi] else [hi, lo]))"

function shortest_from :: "rat \<Rightarrow> int \<Rightarrow> rat" where
  "shortest_from v n =
     (if 17 < n then v
      else case decimals_at v n of [] \<Rightarrow> shortest_from v (n + 1) | d # _ \<Rightarrow> d)"
  by pat_completeness auto
termination
  by (relation "measure (\<lambda>(v, n). nat (18 - n))") auto

declare shortest_from.simps [simp del]

definition shortest_decimal :: "float64 \<Rightarrow> rat" where
  "shortest_decimal x =
     (case x of
        Finite v \<Rightarrow>
          if v = 0 then 0 else if v < 0 then - shortest_from (- v) 1 else shortest_from v 1
      | _ \<Rightarrow> 0)"


section \<open>Rounding is monotone\<close>

lemma digit_count_pos: "0 < n \<Longrightarrow> 2 \<le> b \<Longrightarrow> 1 \<le> digit_count b n"
proof (induction b n rule: digit_count.induct)
  case (1 b n)
  have "0 \<le> digit_count b (n div b)"
  proof (cases "0 < n div b")
    case True
    then show ?thesis using 1 by simp
  next
    case False
    then show ?thesis by (subst digit_count.simps) simp
  qed
  then show ?case using 1 by (subst digit_count.simps) simp
qed

lemma digit_count_bounds:
  "0 < n \<Longrightarrow> 2 \<le> b \<Longrightarrow> b ^ nat (digit_count b n - 1) \<le> n \<and> n < b ^ nat (digit_count b n)"
proof (induction b n rule: digit_count.induct)
  case (1 b n)
  have dc: "digit_count b n = 1 + digit_count b (n div b)" using 1 by (subst digit_count.simps) simp
  show ?case
  proof (cases "0 < n div b")
    case True
    define k where "k = digit_count b (n div b)"
    have k: "1 \<le> k" using digit_count_pos [OF True 1(3)] by (simp add: k_def)
    have ih: "b ^ nat (k - 1) \<le> n div b" "n div b < b ^ nat k"
      using 1 True by (auto simp: k_def)
    have "b ^ nat (k - 1) * b \<le> n div b * b" using ih(1) 1(3) by (intro mult_right_mono) simp_all
    also have "n div b * b \<le> n"
      using div_mult_mod_eq [of n b] pos_mod_sign [of b n] 1(3) by linarith
    finally have l: "b ^ nat (k - 1) * b \<le> n" .
    have "n < (n div b + 1) * b" 
      using div_mult_mod_eq [of n b] pos_mod_bound [of b n] 1(3) unfolding distrib_right by linarith
    also have "\<dots> \<le> b ^ nat k * b" using ih(2) 1(3) by (intro mult_right_mono) simp_all
    finally have u: "n < b ^ nat k * b" .
    have e: "nat (digit_count b n - 1) = Suc (nat (k - 1))" "nat (digit_count b n) = Suc (nat k)"
      using k unfolding dc k_def [symmetric] by linarith+
    show ?thesis using l u unfolding e power_Suc by (simp only: mult.commute [of b])
  next
    case False
    moreover have "0 \<le> n div b" using 1(2,3) by (simp add: pos_imp_zdiv_nonneg_iff)
    ultimately have z: "n div b = 0" by simp
    have "n < b" using z div_mult_mod_eq [of n b] pos_mod_bound [of b n] 1(3) by simp
    moreover have "digit_count b 0 = 0" by (subst digit_count.simps) simp
    ultimately show ?thesis using 1 z dc by simp
  qed
qed

lemma pow_int_pos [simp]: "0 < b \<Longrightarrow> 0 < pow_int b k"
  by (simp add: pow_int_def)

lemma pow_int_powi: "0 < b \<Longrightarrow> pow_int b k = (of_int b) powi k"
  by (simp add: pow_int_def power_int_def divide_inverse power_inverse)

lemma pow_int_add: "0 < b \<Longrightarrow> pow_int b (i + j) = pow_int b i * pow_int b j"
  by (simp add: pow_int_powi power_int_add)

lemma pow_int_mono: "2 \<le> b \<Longrightarrow> i \<le> j \<Longrightarrow> pow_int b i \<le> pow_int b j"
  by (simp add: pow_int_powi power_int_increasing)

lemma pow_int_Suc: "0 < b \<Longrightarrow> pow_int b (k + 1) = pow_int b k * of_int b"
  by (simp add: pow_int_add) (simp add: pow_int_def)

lemma magnitude_bounds:
  assumes "0 < r" "2 \<le> b"
  shows "pow_int b (magnitude b r) \<le> r" "r < pow_int b (magnitude b r + 1)"
proof -
  obtain p q where pq: "quotient_of r = (p, q)" by force
  have q: "0 < q" and r: "r = of_int p / of_int q"
    using pq by (simp_all add: quotient_of_denom_pos quotient_of_div)
  have p: "0 < p" using assms(1) q unfolding r by (simp add: zero_less_divide_iff)
  define i where "i = digit_count b p"
  define j where "j = digit_count b q"
  have ij: "1 \<le> i" "1 \<le> j" using digit_count_pos p q assms(2) by (auto simp: i_def j_def)
  have b0: "0 < b" using assms(2) by simp
  have P: "pow_int b (i - 1) \<le> of_int p" "of_int p < pow_int b i"
    using digit_count_bounds [OF p assms(2)] ij by (simp_all add: pow_int_def i_def [symmetric] del: of_int_power flip: of_int_le_iff of_int_less_iff)
  have Q: "pow_int b (j - 1) \<le> of_int q" "of_int q < pow_int b j"
    using digit_count_bounds [OF q assms(2)] ij by (simp_all add: pow_int_def j_def [symmetric] del: of_int_power flip: of_int_le_iff of_int_less_iff)
  have qr: "(0::rat) < of_int q" using q by simp
  have up: "r < pow_int b (i - j + 1)"
  proof -
    have "pow_int b (i - j + 1) * pow_int b (j - 1) = pow_int b i" by (simp add: b0 flip: pow_int_add)
    moreover have "pow_int b (i - j + 1) * pow_int b (j - 1) \<le> pow_int b (i - j + 1) * of_int q"
      using Q(1) b0 by (intro mult_left_mono) (simp_all add: less_imp_le)
    ultimately have "of_int p < pow_int b (i - j + 1) * of_int q" using P(2) by simp
    then show ?thesis unfolding r using qr by (simp add: divide_less_eq)
  qed
  have low: "pow_int b (i - j - 1) \<le> r"
  proof -
    have "pow_int b (i - j - 1) * pow_int b j = pow_int b (i - 1)" by (simp add: b0 flip: pow_int_add)
    moreover have "pow_int b (i - j - 1) * of_int q \<le> pow_int b (i - j - 1) * pow_int b j"
      using Q(2) b0 by (intro mult_left_mono) (simp_all add: less_imp_le)
    ultimately have "pow_int b (i - j - 1) * of_int q \<le> of_int p" using P(1) by simp
    then show ?thesis unfolding r using qr by (simp add: le_divide_eq)
  qed
  have m: "magnitude b r = (if pow_int b (i - j) \<le> r then i - j else i - j - 1)"
    by (simp add: magnitude_def pq Let_def i_def j_def)
  show "pow_int b (magnitude b r) \<le> r" "r < pow_int b (magnitude b r + 1)"
    using up low unfolding m by auto
qed

lemma round_even_bounds: "of_int (round_even r) - 1 / 2 \<le> r" "r \<le> of_int (round_even r) + 1 / 2"
proof -
  define n where "n = \<lfloor>r\<rfloor>"
  have "of_int n \<le> r" "r < of_int n + 1" unfolding n_def by linarith+
  then show "of_int (round_even r) - 1 / 2 \<le> r" "r \<le> of_int (round_even r) + 1 / 2"
    unfolding round_even_def n_def [symmetric] Let_def by auto
qed

lemma round_even_mono: "r \<le> s \<Longrightarrow> round_even r \<le> round_even s"
proof -
  assume rs: "r \<le> s"
  define n where "n = \<lfloor>r\<rfloor>"
  define m where "m = \<lfloor>s\<rfloor>"
  have nm: "n \<le> m" using rs by (simp add: n_def m_def floor_mono)
  have "round_even r \<in> {n, n + 1}" by (auto simp: round_even_def n_def Let_def)
  moreover have "round_even s \<in> {m, m + 1}" by (auto simp: round_even_def m_def Let_def)
  ultimately consider "round_even r \<le> round_even s" | "n = m" | "round_even r = n + 1" "round_even s = m" "n < m"
    using nm by force
  then show ?thesis
  proof cases
    case 2
    then show ?thesis using rs unfolding round_even_def n_def [symmetric] m_def [symmetric] Let_def by auto
  qed simp_all
qed

lemma round_even_of_int [simp]: "round_even (of_int n) = n"
  by (simp add: round_even_def)

text \<open>The positive value before the test for overflow.\<close>

definition rounded :: "rat \<Rightarrow> rat" where
  "rounded r = (let unit = pow_int 2 (max (magnitude 2 r) (-1022) - 52) in of_int (round_even (r / unit)) * unit)"

lemma round64_pos:
  "0 < r \<Longrightarrow> round64 r = (if rounded r > max_float then Inf False else Finite (rounded r))"
  by (simp add: round64_def rounded_def Let_def)

lemma rounded_mono:
  assumes "0 < r" "r \<le> s"
  shows "rounded r \<le> rounded s"
proof -
  define i where "i = max (magnitude 2 r) (-1022)"
  define j where "j = max (magnitude 2 s) (-1022)"
  define u where "u = pow_int 2 (i - 52)"
  define w where "w = pow_int 2 (j - 52)"
  have s0: "0 < s" using assms by simp
  have uw: "0 < u" "0 < w" by (simp_all add: u_def w_def)
  have e: "rounded r = of_int (round_even (r / u)) * u" "rounded s = of_int (round_even (s / w)) * w"
    by (simp_all add: rounded_def Let_def i_def j_def u_def w_def)
  note mr = magnitude_bounds [OF assms(1), of 2] and ms = magnitude_bounds [OF s0, of 2]
  have "magnitude 2 r \<le> magnitude 2 s"
  proof (rule ccontr)
    assume "\<not> ?thesis"
    then have "pow_int 2 (magnitude 2 s + 1) \<le> pow_int 2 (magnitude 2 r)" by (intro pow_int_mono) simp_all
    with mr ms assms(2) show False by simp
  qed
  then have ij: "i \<le> j" by (simp add: i_def j_def)
  show ?thesis
  proof (cases "i = j")
    case True
    then have "u = w" by (simp add: u_def w_def)
    moreover have "round_even (r / w) \<le> round_even (s / w)"
      using assms(2) uw by (intro round_even_mono divide_right_mono) simp_all
    ultimately show ?thesis using uw unfolding e by (simp add: mult_right_mono)
  next
    case False
    with ij have lt: "i < j" by simp
    then have js: "j = magnitude 2 s" by (auto simp: i_def j_def)
    have "r < pow_int 2 (i + 1)"
      using mr(2) pow_int_mono [of 2 "magnitude 2 r + 1" "i + 1"] by (simp add: i_def)
    moreover have "pow_int 2 (i + 1) = of_int (2 ^ 53) * u"
      using pow_int_add [of 2 53 "i - 52"] by (simp add: u_def pow_int_def [of 2 53] add.commute)
    ultimately have "r / u \<le> of_int (2 ^ 53)" using uw by (simp add: divide_le_eq)
    then have "round_even (r / u) \<le> 2 ^ 53"
      using round_even_mono [of "r / u" "of_int (2 ^ 53)"] by (simp only: round_even_of_int)
    then have "of_int (round_even (r / u)) \<le> (of_int (2 ^ 53) :: rat)" by (simp only: of_int_le_iff)
    then have "rounded r \<le> of_int (2 ^ 53) * u" using uw unfolding e by (simp add: mult_right_mono)
    also have "\<dots> = pow_int 2 (i + 1)"
      using pow_int_add [of 2 53 "i - 52"] by (simp add: u_def pow_int_def [of 2 53] add.commute)
    also have "\<dots> \<le> pow_int 2 j" using lt by (intro pow_int_mono) simp_all
    also have "pow_int 2 j = of_int (2 ^ 52) * w"
      using pow_int_add [of 2 52 "j - 52"] by (simp add: w_def pow_int_def [of 2 52])
    also have "of_int (2 ^ 52) * w \<le> rounded s"
    proof -
      have "of_int (2 ^ 52) * w \<le> s"
        using ms(1) pow_int_add [of 2 52 "j - 52"] by (simp add: js w_def pow_int_def [of 2 52])
      then have "of_int (2 ^ 52) \<le> s / w" using uw by (simp add: le_divide_eq)
      then have "2 ^ 52 \<le> round_even (s / w)"
        using round_even_mono [of "of_int (2 ^ 52)" "s / w"] by (simp only: round_even_of_int)
      then have "(of_int (2 ^ 52) :: rat) \<le> of_int (round_even (s / w))" by (simp only: of_int_le_iff)
      then show ?thesis using uw unfolding e by (simp add: mult_right_mono)
    qed
    finally show ?thesis .
  qed
qed

lemma round64_mono:
  assumes "0 < r" "r \<le> s" "round64 r = Finite a" "round64 s = Finite b"
  shows "a \<le> b"
  using assms rounded_mono [OF assms(1,2)] by (simp add: round64_pos split: if_splits)

section \<open>The shortest decimal\<close>

text \<open>A \<open>float64\<close> value: a finite one is representable.\<close>

definition is_float :: "float64 \<Rightarrow> bool" where
  "is_float x = (case x of Finite v \<Rightarrow> round64 v = Finite v | _ \<Rightarrow> True)"

lemma decimals_at_in:
  assumes "d \<in> set (decimals_at v n)" "0 < v"
  shows "0 \<le> d" "round64 d = Finite v"
proof -
  define u where "u = pow_int 10 (magnitude 10 v + 1 - n)"
  have u: "0 < u" by (simp add: u_def)
  have f: "0 \<le> \<lfloor>v / u\<rfloor>" using assms(2) u by simp
  have "d = of_int \<lfloor>v / u\<rfloor> * u \<or> d = of_int (\<lfloor>v / u\<rfloor> + 1) * u" "round64 d = Finite v"
    using assms(1) by (auto simp: decimals_at_def Let_def u_def [symmetric] split: if_splits)
  then show "0 \<le> d" "round64 d = Finite v" using f u by (auto simp del: of_int_add)
qed

lemma shortest_from_reads_back:
  assumes "0 < v" "round64 v = Finite v"
  shows "0 \<le> shortest_from v n \<and> round64 (shortest_from v n) = Finite v"
  using assms
proof (induction v n rule: shortest_from.induct)
  case (1 v n)
  show ?case
  proof (cases "17 < n")
    case True
    then show ?thesis using 1(2,3) by (subst (1 2) shortest_from.simps) simp
  next
    case False
    show ?thesis
    proof (cases "decimals_at v n")
      case Nil
      then show ?thesis using 1(1) [OF False Nil 1(2,3)] False by (subst (1 2) shortest_from.simps) simp
    next
      case (Cons d ds)
      then have "d \<in> set (decimals_at v n)" by simp
      from decimals_at_in [OF this 1(2)] show ?thesis
        using Cons False by (subst (1 2) shortest_from.simps) simp
    qed
  qed
qed

text \<open>The decimal of a value reads back as the value, so it is in the same order.\<close>

lemma shortest_decimal_le:
  assumes "is_float (Finite v)" "0 < v" "round64 r = Finite c" "0 < r" "v \<le> c"
    and "shortest_decimal (Finite c) = r"
  shows "0 < shortest_decimal (Finite v)" "shortest_decimal (Finite v) \<le> r"
proof -
  define d where "d = shortest_decimal (Finite v)"
  have d: "0 \<le> d" "round64 d = Finite v"
    using shortest_from_reads_back [OF assms(2)] assms(1,2) by (auto simp: d_def shortest_decimal_def is_float_def)
  have "d \<noteq> 0" using d(2) assms(2) by (auto simp: round64_def)
  with d(1) show "0 < shortest_decimal (Finite v)" by (simp add: d_def)
  show "shortest_decimal (Finite v) \<le> r"
  proof (rule ccontr)
    assume n: "\<not> ?thesis"
    then have "r \<le> d" by (simp add: d_def)
    then have "c \<le> v" by (rule round64_mono [OF assms(4) _ assms(3) d(2)])
    with assms(5) have "v = c" by simp
    with assms(6) n show False by simp
  qed
qed

end
