(* ===== verification/Investment_Data.thy ===== *)
theory Investment_Data
  imports Investment_Money Go_Float
begin

text \<open>
  The data of the investment module (\<open>investment/domain\<close>: \<open>data.go\<close>, \<open>account.go\<close>,
  \<open>strategy.go\<close>, \<open>order.go\<close>, \<open>execution.go\<close>, \<open>ledger.go\<close>, \<open>scoring.go\<close>,
  \<open>indicators.go\<close>, \<open>financials.go\<close>, \<open>analysis.go\<close>), with the operations that need
  nothing else: balances, the validation of policies and strategy parameters, industries.
  A Go pointer that may be nil is an option.
\<close>

section \<open>Market data\<close>

record Provenance =
  pr_Source :: string
  pr_SourceRecordID :: string
  pr_IngestedAt :: time

record TickerChange =
  tc_Ticker :: string
  tc_EffectiveAt :: time

record Instrument =
  i_Provenance :: Provenance
  i_ID :: string
  i_Ticker :: string
  i_Name :: string
  i_CIK :: string
  i_Exchange :: string
  i_SIC :: string
  i_Kind :: string
  i_Tradable :: bool
  i_TickerHistory :: "TickerChange list"

record Bar =
  b_Provenance :: Provenance
  b_InstrumentID :: string
  b_SessionDate :: time
  b_AvailableAt :: time
  b_Open :: Price
  b_High :: Price
  b_Low :: Price
  b_Close :: Price
  b_Volume :: Quantity
  b_NoOpeningTrade :: bool

record FinancialFact =
  ff_Provenance :: Provenance
  ff_InstrumentID :: string
  ff_Accession :: string
  ff_Concept :: string
  ff_Value :: string
  ff_Unit :: string
  ff_Currency :: string
  ff_PeriodStart :: time
  ff_PeriodEnd :: time
  ff_AvailableAt :: time

record CorporateAction =
  ca_Provenance :: Provenance
  ca_ID :: string
  ca_InstrumentID :: string
  ca_Kind :: string
  ca_Currency :: string
  ca_EffectiveAt :: time
  ca_AvailableAt :: time
  ca_PayAt :: time
  ca_RatioNumerator :: int
  ca_RatioDenominator :: int
  ca_Amount :: Price
  ca_CashInLieu :: "Money option"
  ca_CashInLieuUnit :: string

record NewsItem =
  n_Provenance :: Provenance
  n_ID :: string
  n_Title :: string
  n_Summary :: string
  n_URL :: string
  n_InstrumentIDs :: "string list"
  n_PublishedAt :: time
  n_AvailableAt :: time

record TradingSession =
  ts_Date :: time
  ts_OpenAt :: time
  ts_CloseAt :: time

record Calendar =
  cal_Version :: string
  cal_Source :: string
  cal_CoverageStart :: time
  cal_CoverageEnd :: time
  cal_Sessions :: "TradingSession list"
  cal_SettlementDays :: "time list"

record Snapshot =
  s_ID :: string
  s_DatasetVersion :: string
  s_Mode :: string
  s_Feed :: string
  s_AsOf :: time
  s_Instruments :: "Instrument list"
  s_Bars :: "Bar list"
  s_Facts :: "FinancialFact list"
  s_Actions :: "CorporateAction list"
  s_News :: "NewsItem list"
  s_QualityFlags :: "string list"
  s_Calendar :: Calendar

section \<open>Accounts\<close>

record Scope =
  sc_WorkspaceID :: string
  sc_OwnerUserID :: string

record Balances =
  bal_Available :: Money
  bal_Reserved :: Money
  bal_Unsettled :: Money
  bal_Dividends :: Money

definition no_balances :: Balances where
  "no_balances = \<lparr>bal_Available = 0, bal_Reserved = 0, bal_Unsettled = 0, bal_Dividends = 0\<rparr>"

definition apply_pair :: "Money \<Rightarrow> Money \<Rightarrow> Money inv_result" where
  "apply_pair a d = bindR (addMoney a d) (\<lambda>v. if v < 0 then Inl ErrInsufficientCash else Inr v)"

definition Balances_Apply :: "Balances \<Rightarrow> Balances \<Rightarrow> Balances inv_result" where
  "Balances_Apply b d =
     bindR (apply_pair (bal_Available b) (bal_Available d)) (\<lambda>available.
     bindR (apply_pair (bal_Reserved b) (bal_Reserved d)) (\<lambda>reserved.
     bindR (apply_pair (bal_Unsettled b) (bal_Unsettled d)) (\<lambda>unsettled.
     bindR (apply_pair (bal_Dividends b) (bal_Dividends d)) (\<lambda>dividends.
     Inr \<lparr>bal_Available = available, bal_Reserved = reserved, bal_Unsettled = unsettled,
          bal_Dividends = dividends\<rparr>))))"

definition Balances_Total :: "Balances \<Rightarrow> Money inv_result" where
  "Balances_Total b =
     foldR [bal_Available b, bal_Reserved b, bal_Unsettled b, bal_Dividends b] 0
       (\<lambda>m v. addMoney v m)"

record RiskPolicy =
  rp_SingleWeight :: float64
  rp_IndustryWeight :: float64
  rp_StockWeight :: float64
  rp_DrawdownPause :: float64
  rp_StopLoss :: float64
  rp_TurnoverLimit :: float64

definition DefaultRiskPolicy :: RiskPolicy where
  "DefaultRiskPolicy = \<lparr>rp_SingleWeight = round64 (1/10), rp_IndustryWeight = round64 (3/10),
     rp_StockWeight = round64 (8/10), rp_DrawdownPause = round64 (15/100),
     rp_StopLoss = round64 (1/10), rp_TurnoverLimit = round64 (2/10)\<rparr>"

definition policy_value_ok :: "float64 \<times> float64 \<Rightarrow> bool" where
  "policy_value_ok = (\<lambda>(value, limit).
     \<not> (IsNaN value \<or> IsInf value \<or> fle value (Finite 0) \<or> fless limit value))"

definition RiskPolicy_Validate :: "RiskPolicy \<Rightarrow> unit inv_result" where
  "RiskPolicy_Validate p =
     (let d = DefaultRiskPolicy in
      if \<not> list_all policy_value_ok
           [(rp_SingleWeight p, rp_SingleWeight d), (rp_IndustryWeight p, rp_IndustryWeight d),
            (rp_StockWeight p, rp_StockWeight d), (rp_DrawdownPause p, rp_DrawdownPause d),
            (rp_StopLoss p, rp_StopLoss d), (rp_TurnoverLimit p, rp_TurnoverLimit d)]
      then Inl ErrInvalidInput
      else if fless (rp_IndustryWeight p) (rp_SingleWeight p) \<or>
              fless (rp_StockWeight p) (rp_IndustryWeight p)
      then Inl ErrInvalidInput
      else Inr ())"

record AccountConfig =
  ac_StrategyVersionID :: string
  ac_UniverseVersionID :: string
  ac_Policy :: RiskPolicy
  ac_EffectiveAt :: time

record Account =
  a_DatasetVersion :: string
  a_ID :: string
  a_Name :: string
  a_Mode :: string
  a_StrategyVersionID :: string
  a_UniverseVersionID :: string
  a_Scope :: Scope
  a_Balances :: Balances
  a_InitialCash :: Money
  a_Version :: int
  a_AutomationEnabled :: bool
  a_PauseReason :: string
  a_Policy :: RiskPolicy
  a_PendingConfig :: "AccountConfig option"
  a_CreatedAt :: time

definition ValidateAccountDataset :: "Account \<Rightarrow> Snapshot \<Rightarrow> unit inv_result" where
  "ValidateAccountDataset a s =
     (if a_Mode a \<noteq> s_Mode s \<or> a_DatasetVersion a = [] \<or> a_DatasetVersion a \<noteq> s_DatasetVersion s
      then Inl ErrVersionConflict else Inr ())"

record LedgerEntry =
  le_ID :: string
  le_AccountID :: string
  le_EventKey :: string
  le_Kind :: string
  le_InstrumentID :: string
  le_Delta :: Balances
  le_QuantityDelta :: Quantity
  le_EffectiveAt :: time
  le_RecordedAt :: time

record Position =
  pos_InstrumentID :: string
  pos_Industry :: string
  pos_Quantity :: Quantity
  pos_ReservedQuantity :: Quantity
  pos_CostBasis :: Money

definition new_position :: "string \<Rightarrow> string \<Rightarrow> Position" where
  "new_position instrument industry = \<lparr>pos_InstrumentID = instrument, pos_Industry = industry,
     pos_Quantity = 0, pos_ReservedQuantity = 0, pos_CostBasis = 0\<rparr>"

record LedgerMutation =
  lm_Account :: Account
  lm_Positions :: "Position list"
  lm_Entries :: "LedgerEntry list"

section \<open>Orders and fills\<close>

abbreviation "OrderPending \<equiv> ''pending''"
abbreviation "OrderAwaitingBar \<equiv> ''awaiting_bar''"
abbreviation "OrderFilled \<equiv> ''filled''"
abbreviation "OrderPartial \<equiv> ''partially_filled_cancelled''"
abbreviation "OrderExpired \<equiv> ''expired''"
abbreviation "OrderRejected \<equiv> ''rejected''"
abbreviation "OrderCancelled \<equiv> ''cancelled''"

record Order =
  o_ID :: string
  o_AccountID :: string
  o_InstrumentID :: string
  o_Side :: string
  o_State :: string
  o_Reason :: string
  o_Origin :: string
  o_Quantity :: Quantity
  o_ReservedQuantity :: Quantity
  o_Capacity :: Quantity
  o_ReservedCash :: Money
  o_TargetOpenAt :: time
  o_ExpiresAt :: time
  o_CreatedAt :: time
  o_Version :: int

definition Terminal :: "Order \<Rightarrow> bool" where
  "Terminal ord \<longleftrightarrow> o_State ord \<noteq> OrderPending \<and> o_State ord \<noteq> OrderAwaitingBar"

definition Cancellable :: "Order \<Rightarrow> time \<Rightarrow> bool" where
  "Cancellable ord now \<longleftrightarrow> o_State ord = OrderPending \<and> now < o_TargetOpenAt ord"

record Fill =
  f_ID :: string
  f_AccountID :: string
  f_OrderID :: string
  f_InstrumentID :: string
  f_Side :: string
  f_Reason :: string
  f_Quantity :: Quantity
  f_Price :: Price
  f_Gross :: Money
  f_Fee :: Money
  f_ReservedCash :: Money
  f_ReservedQuantity :: Quantity
  f_EffectiveAt :: time
  f_RecordedAt :: time
  f_SettlesAt :: time

section \<open>Strategies, universes and evaluations\<close>

record StrategyParameters =
  sp_Weights :: "float64 list"
  sp_EntryScore :: float64
  sp_ExitScore :: float64
  sp_RebalanceBand :: float64
  sp_MaxHoldings :: int

definition DefaultStrategyParameters :: StrategyParameters where
  "DefaultStrategyParameters =
     \<lparr>sp_Weights = map round64 [3/10, 2/10, 15/100, 15/100, 2/10], sp_EntryScore = Finite 70,
      sp_ExitScore = Finite 50, sp_RebalanceBand = round64 (2/100), sp_MaxHoldings = 10\<rparr>"

definition StrategyParameters_Validate :: "StrategyParameters \<Rightarrow> unit inv_result" where
  "StrategyParameters_Validate p =
     bindR (foldR (sp_Weights p) (Finite 0) (\<lambda>w sum.
       if IsNaN w \<or> IsInf w \<or> fless w (Finite 0) \<or> fless (Finite 1) w then Inl ErrInvalidInput
       else Inr (fadd sum w))) (\<lambda>sum.
     if fless (round64 (1 / 1000000000)) (fabs (fsub sum (Finite 1)))
        \<or> IsNaN (sp_EntryScore p) \<or> IsNaN (sp_ExitScore p) \<or> IsNaN (sp_RebalanceBand p)
        \<or> fless (Finite 100) (sp_EntryScore p) \<or> fle (sp_EntryScore p) (sp_ExitScore p)
        \<or> fless (sp_ExitScore p) (Finite 0) \<or> fless (sp_RebalanceBand p) (Finite 0)
        \<or> fless (Finite 1) (sp_RebalanceBand p) \<or> sp_MaxHoldings p < 1 \<or> sp_MaxHoldings p > 10
     then Inl ErrInvalidInput else Inr ())"

record StrategyVersion =
  sv_ID :: string
  sv_StrategyID :: string
  sv_Scope :: Scope
  sv_Parameters :: StrategyParameters
  sv_CreatedAt :: time

record UniverseVersion =
  uv_ID :: string
  uv_UniverseID :: string
  uv_Name :: string
  uv_Mode :: string
  uv_Scope :: Scope
  uv_InstrumentIDs :: "string list"
  uv_EffectiveAt :: time
  uv_CreatedAt :: time
  uv_HistoricalMembershipKnown :: bool

text \<open>\<open>strconv.Atoi\<close>: an optional sign and at least one digit, in the range of \<open>int\<close>.\<close>

definition Atoi :: "string \<Rightarrow> int option" where
  "Atoi s =
     (let (sign, ds) = (case s of c # cs \<Rightarrow> if c = CHR ''-'' then (-1, cs)
                          else if c = CHR ''+'' then (1, cs) else (1, s) | [] \<Rightarrow> (1, s));
          n = sign * int (digits_val ds)
      in if ds = [] \<or> \<not> list_all is_digit ds \<or> \<not> IsInt64 n then None else Some n)"

definition industry_groups :: "(int \<times> int \<times> string) list" where
  "industry_groups =
     [(100, 999, ''agriculture''), (1000, 1499, ''mining''), (1500, 1799, ''construction''),
      (2000, 3999, ''manufacturing''), (4000, 4999, ''transport_utilities''),
      (5000, 5199, ''wholesale''), (5200, 5999, ''retail''), (6000, 6799, ''finance''),
      (7000, 8999, ''services'')]"

definition Industry :: "string \<Rightarrow> string" where
  "Industry sic =
     (case Atoi sic of
        None \<Rightarrow> ''unknown''
      | Some n \<Rightarrow>
          if length sic \<noteq> 4 then ''unknown''
          else case List.find (\<lambda>(lo, hi, name). n \<ge> lo \<and> n \<le> hi) industry_groups of
            None \<Rightarrow> ''unknown''
          | Some (lo, hi, name) \<Rightarrow> name)"

record FinancialValue =
  fv_Amount :: string
  fv_Unit :: string
  fv_Currency :: string
  fv_Reason :: string
  fv_FactRefs :: "string list"
  fv_PeriodStart :: time

record Metric =
  m_Value :: "float64 option"
  m_Reason :: string
  m_FactRefs :: "string list"

record TTMFinancials =
  tm_NetIncome :: FinancialValue
  tm_Revenue :: FinancialValue
  tm_OperatingCashFlow :: FinancialValue
  tm_CapitalExpenditure :: FinancialValue
  tm_FreeCashFlow :: FinancialValue
  tm_DilutedEPS :: FinancialValue
  tm_OpeningEquity :: FinancialValue
  tm_ClosingEquity :: FinancialValue
  tm_LatestPeriodEnd :: time

record Valuation =
  vl_PE :: Metric
  vl_PB :: Metric
  vl_MarketCap :: Metric
  vl_EarningsYield :: Metric
  vl_FreeCashFlowYield :: Metric

record Indicators =
  in_SMA20 :: Metric
  in_SMA50 :: Metric
  in_SMA200 :: Metric
  in_RSI14 :: Metric
  in_AnnualVolatility :: Metric
  in_MaxDrawdown :: Metric
  in_AverageVolume20 :: Metric
  in_AverageTurnover20 :: Metric
  in_WindowDays :: int

record FinancialMetrics =
  fm_TTM :: TTMFinancials
  fm_Valuation :: Valuation
  fm_Indicators :: Indicators
  fm_ProfitGrowth :: Metric
  fm_RevenueGrowth :: Metric
  fm_DebtRatio :: Metric
  fm_ROE :: Metric

record RiskAssessment =
  ra_Level :: string
  ra_Reasons :: "string list"
  ra_AsOf :: time

record Recommendation =
  rc_Action :: string
  rc_Potential :: string
  rc_StrategyVersionID :: string
  rc_UniverseVersionID :: string
  rc_AsOf :: time
  rc_Evidence :: "string list"
  rc_Unknowns :: "string list"

record FactorEvidence =
  fe_Group :: string
  fe_RawValues :: "float64 list"
  fe_Percentiles :: "float64 list"
  fe_Weight :: float64
  fe_Contribution :: float64
  fe_FactRefs :: "string list"

record Signal =
  sg_InstrumentID :: string
  sg_Industry :: string
  sg_Score :: float64
  sg_Rank :: int
  sg_FactorEvidence :: "FactorEvidence list"
  sg_QualityFlags :: "string list"
  sg_Metrics :: FinancialMetrics
  sg_Risk :: RiskAssessment
  sg_Recommendation :: Recommendation

record Exclusion =
  ex_InstrumentID :: string
  ex_Reason :: string

record Evaluation =
  ev_SessionDate :: time
  ev_Purpose :: string
  ev_FrozenPolicy :: RiskPolicy
  ev_OrderIDs :: "string list"
  ev_JobID :: int
  ev_ID :: string
  ev_AccountID :: string
  ev_SnapshotID :: string
  ev_StrategyVersionID :: string
  ev_UniverseVersionID :: string
  ev_State :: string
  ev_Reason :: string
  ev_AsOf :: time
  ev_Signals :: "Signal list"
  ev_Excluded :: "Exclusion list"
  ev_QualityFlags :: "string list"
  ev_DatasetVersion :: string
  ev_Mode :: string
  ev_IssuedOrders :: bool

text \<open>The zero values of a policy and of an evaluation.\<close>

definition no_policy :: RiskPolicy where
  "no_policy = \<lparr>rp_SingleWeight = Finite 0, rp_IndustryWeight = Finite 0, rp_StockWeight = Finite 0,
     rp_DrawdownPause = Finite 0, rp_StopLoss = Finite 0, rp_TurnoverLimit = Finite 0\<rparr>"

definition no_evaluation :: Evaluation where
  "no_evaluation = \<lparr>ev_SessionDate = 0, ev_Purpose = [], ev_FrozenPolicy = no_policy,
     ev_OrderIDs = [], ev_JobID = 0, ev_ID = [], ev_AccountID = [], ev_SnapshotID = [],
     ev_StrategyVersionID = [], ev_UniverseVersionID = [], ev_State = [], ev_Reason = [],
     ev_AsOf = 0, ev_Signals = [], ev_Excluded = [], ev_QualityFlags = [],
     ev_DatasetVersion = [], ev_Mode = [], ev_IssuedOrders = False\<rparr>"

text \<open>The order of signals: the higher score first, then the identifier.\<close>

definition signal_before :: "Signal \<Rightarrow> Signal \<Rightarrow> bool" where
  "signal_before x y \<longleftrightarrow>
     (if \<not> feq (sg_Score x) (sg_Score y) then fless (sg_Score y) (sg_Score x)
      else bytes_less (sg_InstrumentID x) (sg_InstrumentID y))"

record NAVPoint =
  nv_SessionDate :: time
  nv_NAV :: Money

section \<open>Laws of balances\<close>

text \<open>No part of the cash is negative, and each fits its column.\<close>

definition balances_ok :: "Balances \<Rightarrow> bool" where
  "balances_ok b \<longleftrightarrow> list_all (\<lambda>m. 0 \<le> m \<and> IsInt64 m)
     [bal_Available b, bal_Reserved b, bal_Unsettled b, bal_Dividends b]"

definition total_of :: "Balances \<Rightarrow> int" where
  "total_of b = bal_Available b + bal_Reserved b + bal_Unsettled b + bal_Dividends b"

definition add_balances :: "Balances \<Rightarrow> Balances \<Rightarrow> Balances" where
  "add_balances b d = \<lparr>bal_Available = bal_Available b + bal_Available d,
     bal_Reserved = bal_Reserved b + bal_Reserved d,
     bal_Unsettled = bal_Unsettled b + bal_Unsettled d,
     bal_Dividends = bal_Dividends b + bal_Dividends d\<rparr>"

lemma apply_pair_Inr: "apply_pair a d = Inr v \<longleftrightarrow> v = a + d \<and> IsInt64 v \<and> 0 \<le> v"
  by (auto simp: apply_pair_def bindR_Inr split: if_splits)

text \<open>Applying a change adds it, exactly when every part stays a non-negative amount.\<close>

lemma Balances_Apply_Inr:
  "Balances_Apply b d = Inr b' \<longleftrightarrow> b' = add_balances b d \<and> balances_ok b'"
  by (auto simp: Balances_Apply_def bindR_Inr apply_pair_Inr add_balances_def balances_ok_def)

lemma total_add [simp]: "total_of (add_balances b d) = total_of b + total_of d"
  by (simp add: total_of_def add_balances_def)

lemma total_nonneg: "balances_ok b \<Longrightarrow> 0 \<le> total_of b"
  by (simp add: balances_ok_def total_of_def)

lemma Balances_Total_Inr:
  assumes "balances_ok b"
  shows "Balances_Total b = Inr t \<longleftrightarrow> t = total_of b \<and> IsInt64 t"
  using assms by (auto simp: Balances_Total_def bindR_Inr balances_ok_def total_of_def IsInt64_def)

end
