(* ===== verification/Go_Time.thy ===== *)
theory Go_Time
  imports Prelude
begin

text \<open>
  What the code uses of Go's \<open>time\<close> package: dates in UTC, \<open>AddDate\<close>, and the layouts it formats
  and parses. An instant counts nanoseconds from January 1 of year 1.
\<close>

section \<open>Dates\<close>

abbreviation Day :: int where "Day \<equiv> 24 * Hour"

definition day_of :: "time \<Rightarrow> int" where
  "day_of t = t div Day"

text \<open>
  Year, month and day of a day counted from January 1, year 1, by years that begin in March.
\<close>

definition civil :: "int \<Rightarrow> int \<times> int \<times> int" where
  "civil d =
     (let z = d + 306; era = z div 146097; doe = z mod 146097;
          yoe = (doe - doe div 1460 + doe div 36524 - doe div 146096) div 365;
          doy = doe - (365 * yoe + yoe div 4 - yoe div 100);
          mp = (5 * doy + 2) div 153;
          month = (if mp < 10 then mp + 3 else mp - 9)
      in (yoe + era * 400 + (if month \<le> 2 then 1 else 0), month, doy - (153 * mp + 2) div 5 + 1))"

text \<open>The day of a date; a month or a day out of range carries over, as in \<open>time.Date\<close>.\<close>

definition days_from_civil :: "int \<Rightarrow> int \<Rightarrow> int \<Rightarrow> int" where
  "days_from_civil year month d =
     (let m0 = month - 1; y1 = year + m0 div 12; m = m0 mod 12 + 1;
          y = (if m \<le> 2 then y1 - 1 else y1); era = y div 400; yoe = y mod 400;
          mp = (if m > 2 then m - 3 else m + 9); doy = (153 * mp + 2) div 5 + d - 1;
          doe = yoe * 365 + yoe div 4 - yoe div 100 + doy
      in era * 146097 + doe - 306)"

text \<open>\<open>t.AddDate(years, months, days)\<close>.\<close>

definition AddDate :: "time \<Rightarrow> int \<Rightarrow> int \<Rightarrow> int \<Rightarrow> time" where
  "AddDate t years months days =
     (case civil (day_of t) of (y, m, d) \<Rightarrow>
        days_from_civil (y + years) (m + months) (d + days) * Day + t mod Day)"

text \<open>\<open>t.Format("2006-01-02")\<close>, for years from 0 to 9999.\<close>

definition Format_date :: "time \<Rightarrow> string" where
  "Format_date t =
     (case civil (day_of t) of (y, m, d) \<Rightarrow>
        pad_digits 4 (nat y) @ ''-'' @ pad_digits 2 (nat m) @ ''-'' @ pad_digits 2 (nat d))"

definition clock :: "time \<Rightarrow> string" where
  "clock t = (let s = (t mod Day) div Second in
     pad_digits 2 (nat (s div 3600)) @ '':'' @ pad_digits 2 (nat (s div 60 mod 60)) @ '':''
       @ pad_digits 2 (nat (s mod 60)))"

text \<open>\<open>t.Format(time.RFC3339)\<close> of an instant in UTC.\<close>

definition Format_RFC3339 :: "time \<Rightarrow> string" where
  "Format_RFC3339 t = Format_date t @ ''T'' @ clock t @ ''Z''"

text \<open>\<open>t.Format("2006-01-02 15:04")\<close> of an instant in UTC.\<close>

definition Format_minute :: "time \<Rightarrow> string" where
  "Format_minute t = Format_date t @ '' '' @ take 5 (clock t)"

text \<open>\<open>t.String()\<close> of an instant in UTC: the fraction of a second without its last zeros.\<close>

definition Time_String :: "time \<Rightarrow> string" where
  "Time_String t =
     (let f = t mod Second;
          ds = rev (dropWhile (\<lambda>c. c = CHR ''0'') (rev (pad_digits 9 (nat f))))
      in Format_date t @ '' '' @ clock t @ (if f = 0 then [] else ''.'' @ ds) @ '' +0000 UTC'')"

section \<open>Parsing\<close>

text \<open>
  \<open>time.Parse(time.RFC3339, s)\<close>: year, month and day of fixed width, an hour of one or two
  digits, minutes and seconds, a fraction after a point or a comma of which nine digits count, and
  a zone that is \<open>Z\<close> or an offset of at most 24 hours and 60 minutes. \<open>None\<close> is an error.
\<close>

definition decimal :: "string \<Rightarrow> int" where
  "decimal ds = int (digits_val ds)"

definition fixed_digits :: "nat \<Rightarrow> string \<Rightarrow> (int \<times> string) option" where
  "fixed_digits k s =
     (if length (take k s) = k \<and> list_all is_digit (take k s)
      then Some (decimal (take k s), drop k s) else None)"

definition hour_digits :: "string \<Rightarrow> (int \<times> string) option" where
  "hour_digits s = (case fixed_digits 2 s of None \<Rightarrow> fixed_digits 1 s | Some r \<Rightarrow> Some r)"

fun skip_char :: "char \<Rightarrow> string \<Rightarrow> string option" where
  "skip_char c (x # s) = (if x = c then Some s else None)"
| "skip_char c [] = None"

definition second_fraction :: "string \<Rightarrow> int \<times> string" where
  "second_fraction s =
     (case s of
        c # d # r \<Rightarrow>
          if c \<in> {CHR ''.'', CHR '',''} \<and> is_digit d
          then let ds = take 9 (takeWhile is_digit (d # r)) in
               (decimal ds * 10 ^ (9 - length ds), dropWhile is_digit (d # r))
          else (0, s)
      | _ \<Rightarrow> (0, s))"

definition zone_offset :: "string \<Rightarrow> (int \<times> string) option" where
  "zone_offset s =
     (case s of [] \<Rightarrow> None
      | c # r \<Rightarrow>
          if c = CHR ''Z'' then Some (0, r)
          else if c \<notin> {CHR ''+'', CHR ''-''} then None
          else Option.bind (fixed_digits 2 r) (\<lambda>(hr, r).
               Option.bind (skip_char CHR '':'' r) (\<lambda>r.
               Option.bind (fixed_digits 2 r) (\<lambda>(mm, r).
               if hr > 24 \<or> mm > 60 then None
               else Some ((if c = CHR ''-'' then -1 else 1) * (hr * Hour + mm * Minute), r)))))"

definition leap_year :: "int \<Rightarrow> bool" where
  "leap_year y \<longleftrightarrow> y mod 4 = 0 \<and> (y mod 100 \<noteq> 0 \<or> y mod 400 = 0)"

definition days_in :: "int \<Rightarrow> int \<Rightarrow> int" where
  "days_in m y = (if m = 2 then if leap_year y then 29 else 28
     else if m \<in> {4, 6, 9, 11} then 30 else 31)"

definition Parse_RFC3339 :: "string \<Rightarrow> time option" where
  "Parse_RFC3339 s =
     Option.bind (fixed_digits 4 s) (\<lambda>(year, s). Option.bind (skip_char CHR ''-'' s) (\<lambda>s.
     Option.bind (fixed_digits 2 s) (\<lambda>(month, s). Option.bind (skip_char CHR ''-'' s) (\<lambda>s.
     Option.bind (fixed_digits 2 s) (\<lambda>(d, s). Option.bind (skip_char CHR ''T'' s) (\<lambda>s.
     Option.bind (hour_digits s) (\<lambda>(hour, s). Option.bind (skip_char CHR '':'' s) (\<lambda>s.
     Option.bind (fixed_digits 2 s) (\<lambda>(minute, s). Option.bind (skip_char CHR '':'' s) (\<lambda>s.
     Option.bind (fixed_digits 2 s) (\<lambda>(second, s).
     case second_fraction s of (nsec, s) \<Rightarrow>
     Option.bind (zone_offset s) (\<lambda>(offset, s).
     if s = [] \<and> 1 \<le> month \<and> month \<le> 12 \<and> 1 \<le> d \<and> d \<le> days_in month year
        \<and> hour < 24 \<and> minute < 60 \<and> second < 60
     then Some (days_from_civil year month d * Day + hour * Hour + minute * Minute
                + second * Second + nsec - offset)
     else None))))))))))))"

end
