(* ===== verification/Investment_Calendar.thy ===== *)
theory Investment_Calendar
  imports Investment_Data Go_Time
begin

text \<open>
  The trading calendar (\<open>investment/domain/calendar.go\<close>, \<open>calendar_merge.go\<close>) and the dates
  it needs of Go's \<open>time\<close> package. Dates are those of UTC. The instant of midnight in New York
  comes from the zone database: \<open>new_york\<close> gives it for a date, counted in days, or
  \<open>None\<close> when the database has no such zone.
\<close>

section \<open>The calendar\<close>

definition dateUTC :: "time \<Rightarrow> time" where
  "dateUTC t = day_of t * Day"

definition covered :: "Calendar \<Rightarrow> time \<Rightarrow> bool" where
  "covered c t \<longleftrightarrow> \<not> t < cal_CoverageStart c \<and> \<not> t > cal_CoverageEnd c"

definition NextSession :: "Calendar \<Rightarrow> time \<Rightarrow> TradingSession inv_result" where
  "NextSession c after =
     (if \<not> covered c after then Inl ErrDataStale
      else case List.find (\<lambda>s. ts_OpenAt s > after)
                  (order_rows (\<lambda>s t. ts_OpenAt s \<le> ts_OpenAt t) (cal_Sessions c)) of
        None \<Rightarrow> Inl ErrDataStale
      | Some s \<Rightarrow> Inr s)"

definition NextSettlement :: "Calendar \<Rightarrow> time \<Rightarrow> time inv_result" where
  "NextSettlement c after =
     (if \<not> covered c after then Inl ErrDataStale
      else case List.find (\<lambda>d. d > dateUTC after) (order_rows (\<le>) (cal_SettlementDays c)) of
        None \<Rightarrow> Inl ErrDataStale
      | Some d \<Rightarrow> Inr d)"

definition SettlementStart :: "(int \<Rightarrow> time) option \<Rightarrow> Calendar \<Rightarrow> time \<Rightarrow> time inv_result" where
  "SettlementStart new_york c after =
     bindR (NextSettlement c after) (\<lambda>date.
     case new_york of
       None \<Rightarrow> Inl ErrDataNotConfigured
     | Some midnight \<Rightarrow> Inr (midnight (day_of date)))"

definition Calendar_Session :: "Calendar \<Rightarrow> time \<Rightarrow> TradingSession inv_result" where
  "Calendar_Session c date =
     (case List.find (\<lambda>s. Format_date (ts_Date s) = Format_date date) (cal_Sessions c) of
        None \<Rightarrow> Inl ErrDataStale
      | Some s \<Rightarrow> Inr s)"

definition no_session :: TradingSession where
  "no_session = \<lparr>ts_Date = 0, ts_OpenAt = 0, ts_CloseAt = 0\<rparr>"

definition LatestCompleted :: "Calendar \<Rightarrow> time \<Rightarrow> TradingSession inv_result" where
  "LatestCompleted c now =
     (if \<not> covered c now then Inl ErrDataStale
      else let result = fold (\<lambda>s result.
                 if \<not> ts_CloseAt s > now \<and> ts_CloseAt s > ts_CloseAt result then s else result)
                 (cal_Sessions c) no_session
           in if IsZero (ts_Date result) then Inl ErrDataStale else Inr result)"

section \<open>Go maps\<close>

text \<open>
  A map that is only looked up is a function. One that is ranged over is an association list in
  the order of first insertion: Go leaves the order open, and every such loop modelled here sorts
  what it collects or does not depend on the order.
\<close>

fun put_entry :: "'k \<Rightarrow> 'v \<Rightarrow> ('k \<times> 'v) list \<Rightarrow> ('k \<times> 'v) list" where
  "put_entry k v [] = [(k, v)]"
| "put_entry k v ((k', v') # m) = (if k = k' then (k, v) # m else (k', v') # put_entry k v m)"

lemma map_of_put [simp]: "map_of (put_entry k v m) = (map_of m)(k \<mapsto> v)"
  by (induction m) auto

lemma keys_put: "fst ` set (put_entry k v m) = insert k (fst ` set m)"
proof (induction m)
  case (Cons e m)
  then show ?case by (cases e; cases "k = fst e") (simp_all add: insert_commute)
qed simp

lemma distinct_put [simp]: "distinct (map fst m) \<Longrightarrow> distinct (map fst (put_entry k v m))"
proof (induction m)
  case (Cons e m)
  then show ?case
    using keys_put [of k v m] by (cases e; cases "k = fst e") simp_all
qed simp

lemma in_put: "(k', v') \<in> set (put_entry k v m) \<Longrightarrow> (k', v') = (k, v) \<or> (k', v') \<in> set m"
  by (induction m) (auto split: if_splits)

section \<open>Merging a refreshed calendar\<close>

definition by_day :: "(time \<Rightarrow> bool) \<Rightarrow> ('r \<Rightarrow> time) \<Rightarrow> 'r list \<Rightarrow> (string \<times> 'r) list \<Rightarrow> (string \<times> 'r) list" where
  "by_day keep date rows m =
     fold (\<lambda>r m. if keep (date r) then put_entry (Format_date (date r)) r m else m) rows m"

definition MergeCalendar :: "Calendar \<Rightarrow> Calendar \<Rightarrow> Calendar inv_result" where
  "MergeCalendar old new =
     (if IsZero (cal_CoverageStart old) then Inr new
      else if cal_CoverageStart new > cal_CoverageEnd old + 1 \<or>
              cal_CoverageStart old > cal_CoverageEnd new + 1 then Inl ErrDataStale
      else let outside = (\<lambda>d. d < cal_CoverageStart new \<or> d > cal_CoverageEnd new);
               sessions = by_day (\<lambda>_. True) ts_Date (cal_Sessions new)
                            (by_day outside ts_Date (cal_Sessions old) []);
               days = by_day (\<lambda>_. True) id (cal_SettlementDays new)
                        (by_day outside id (cal_SettlementDays old) [])
           in Inr (new
                \<lparr>cal_CoverageStart := (if cal_CoverageStart old < cal_CoverageStart new
                                      then cal_CoverageStart old else cal_CoverageStart new),
                 cal_CoverageEnd := (if cal_CoverageEnd old > cal_CoverageEnd new
                                    then cal_CoverageEnd old else cal_CoverageEnd new),
                 cal_Sessions := order_rows (\<lambda>s t. ts_Date s \<le> ts_Date t) (map snd sessions),
                 cal_SettlementDays :=
                   (if cal_SettlementDays new = [] then []
                    else order_rows (\<le>) (map snd days))\<rparr>))"

section \<open>Laws of the calendar\<close>

lemma day_of_dateUTC [simp]: "day_of (dateUTC t) = day_of t"
  by (simp add: day_of_def dateUTC_def)

lemma dateUTC_le: "dateUTC t \<le> t" "t < dateUTC t + Day"
  unfolding dateUTC_def day_of_def by presburger+

lemma NextSession_Inr:
  assumes "NextSession c after = Inr s"
  shows "s \<in> set (cal_Sessions c)" "after < ts_OpenAt s"
  using assms by (auto simp: NextSession_def split: if_splits option.splits dest: find_SomeD)

lemma order_rows_sorted:
  fixes key :: "'r \<Rightarrow> int"
  shows "sorted_wrt (\<lambda>x y. key x \<le> key y) (order_rows (\<lambda>x y. key x \<le> key y) rows)"
proof -
  have ins: "sorted_wrt (\<lambda>x y. key x \<le> key y) (insert_row (\<lambda>x y. key x \<le> key y) r xs)"
    if "sorted_wrt (\<lambda>x y. key x \<le> key y) xs" for r xs
    using that by (induction xs) auto
  show ?thesis unfolding order_rows_def by (induction rows) (simp_all add: ins)
qed

lemma find_first_sorted:
  assumes "List.find P rows = Some r" "sorted_wrt R rows" "x \<in> set rows" "P x"
  shows "x = r \<or> R r x"
  using assms by (induction rows) (auto split: if_splits)

text \<open>No session of the calendar opens between the instant and the session returned.\<close>

lemma NextSession_first:
  assumes "NextSession c after = Inr s" "s' \<in> set (cal_Sessions c)" "after < ts_OpenAt s'"
  shows "ts_OpenAt s \<le> ts_OpenAt s'"
proof -
  have f: "List.find (\<lambda>s. ts_OpenAt s > after)
      (order_rows (\<lambda>s t. ts_OpenAt s \<le> ts_OpenAt t) (cal_Sessions c)) = Some s"
    using assms(1) by (auto simp: NextSession_def split: if_splits option.splits)
  have "s' = s \<or> ts_OpenAt s \<le> ts_OpenAt s'"
    by (rule find_first_sorted [OF f order_rows_sorted]) (use assms in simp_all)
  then show ?thesis by auto
qed

lemma NextSettlement_Inr:
  assumes "NextSettlement c after = Inr d"
  shows "d \<in> set (cal_SettlementDays c)" "dateUTC after < d"
  using assms by (auto simp: NextSettlement_def split: if_splits option.splits dest: find_SomeD)

text \<open>The session is the one that closed last, among those closed by the instant.\<close>

lemma latest_fold:
  assumes "fold (\<lambda>s r. if \<not> ts_CloseAt s > now \<and> ts_CloseAt s > ts_CloseAt r then s else r) rows r0 = r"
  shows "(r = r0 \<or> r \<in> set rows \<and> ts_CloseAt r \<le> now) \<and> ts_CloseAt r0 \<le> ts_CloseAt r \<and>
    (\<forall>s \<in> set rows. ts_CloseAt s \<le> now \<longrightarrow> ts_CloseAt s \<le> ts_CloseAt r)"
  using assms
proof (induction rows arbitrary: r0)
  case (Cons s rows)
  define r1 where "r1 = (if \<not> ts_CloseAt s > now \<and> ts_CloseAt s > ts_CloseAt r0 then s else r0)"
  have "fold (\<lambda>s r. if \<not> ts_CloseAt s > now \<and> ts_CloseAt s > ts_CloseAt r then s else r) rows r1 = r"
    using Cons.prems by (simp add: r1_def)
  note ih = Cons.IH [OF this]
  show ?case using ih unfolding r1_def by (auto split: if_splits)
qed simp

lemma LatestCompleted_Inr:
  assumes "LatestCompleted c now = Inr s"
  shows "s \<in> set (cal_Sessions c)" "ts_CloseAt s \<le> now" "\<not> IsZero (ts_Date s)"
    "\<And>s'. s' \<in> set (cal_Sessions c) \<Longrightarrow> ts_CloseAt s' \<le> now \<Longrightarrow> ts_CloseAt s' \<le> ts_CloseAt s"
proof -
  have s: "fold (\<lambda>s r. if \<not> ts_CloseAt s > now \<and> ts_CloseAt s > ts_CloseAt r then s else r)
      (cal_Sessions c) no_session = s" and z: "\<not> IsZero (ts_Date s)"
    using assms by (auto simp: LatestCompleted_def Let_def split: if_splits)
  have "s \<noteq> no_session" using z by (auto simp: no_session_def IsZero_def)
  with latest_fold [OF s] z show "s \<in> set (cal_Sessions c)" "ts_CloseAt s \<le> now" "\<not> IsZero (ts_Date s)"
    "\<And>s'. s' \<in> set (cal_Sessions c) \<Longrightarrow> ts_CloseAt s' \<le> now \<Longrightarrow> ts_CloseAt s' \<le> ts_CloseAt s"
    by auto
qed

end
