(* ===== verification/Investment_Ledger.thy ===== *)
theory Investment_Ledger
  imports Investment_Calendar
begin

text \<open>
  The ledger of an account (\<open>investment/domain\<close>: \<open>ledger.go\<close>, \<open>reservation.go\<close>,
  \<open>settlement.go\<close>, \<open>corporate_actions.go\<close>): every operation that moves cash or shares and
  the entries it writes. A mutation without positions leaves them as they are, as
  \<open>replayBook.apply\<close> and the stores do.
\<close>

section \<open>Positions\<close>

definition held :: "string \<Rightarrow> Position \<Rightarrow> bool" where
  "held instrument p \<longleftrightarrow> pos_InstrumentID p = instrument"

text \<open>A loop over the positions that may return an error and updates the matching ones.\<close>

fun update_held ::
  "string \<Rightarrow> (Position \<Rightarrow> Position inv_result) \<Rightarrow> Position list \<Rightarrow> Position list inv_result" where
  "update_held i f [] = Inr []"
| "update_held i f (p # ps) =
     bindR (if held i p then f p else Inr p) (\<lambda>p'.
     bindR (update_held i f ps) (\<lambda>ps'. Inr (p' # ps')))"

definition by_instrument :: "Position \<Rightarrow> Position \<Rightarrow> bool" where
  "by_instrument p q \<longleftrightarrow> \<not> bytes_less (pos_InstrumentID q) (pos_InstrumentID p)"

definition ledger_entry :: "Account \<Rightarrow> string \<Rightarrow> string \<Rightarrow> string \<Rightarrow> Balances \<Rightarrow> time \<Rightarrow> time \<Rightarrow> LedgerEntry" where
  "ledger_entry account key kind instrument delta effective recorded =
     \<lparr>le_ID = [], le_AccountID = a_ID account, le_EventKey = key, le_Kind = kind,
      le_InstrumentID = instrument, le_Delta = delta, le_QuantityDelta = 0,
      le_EffectiveAt = effective, le_RecordedAt = recorded\<rparr>"

definition with_balances :: "Account \<Rightarrow> Balances \<Rightarrow> Account" where
  "with_balances account b = account\<lparr>a_Balances := b\<rparr>"

section \<open>Fills\<close>

definition fill_shape_ok :: "Account \<Rightarrow> Fill \<Rightarrow> bool" where
  "fill_shape_ok account fill \<longleftrightarrow>
     \<not> (f_ID fill = [] \<or> f_OrderID fill = [] \<or> f_AccountID fill \<noteq> a_ID account
        \<or> f_Quantity fill \<le> 0 \<or> f_Price fill \<le> 0 \<or> f_Fee fill \<le> 0 \<or> f_ReservedCash fill < 0
        \<or> f_ReservedQuantity fill < 0 \<or> (f_Side fill \<noteq> ''buy'' \<and> f_Side fill \<noteq> ''sell''))"

text \<open>What a purchase and a sale do to the position and to the cash.\<close>

definition fill_buy :: "Fill \<Rightarrow> Position \<Rightarrow> (Position \<times> Balances) inv_result" where
  "fill_buy fill p =
     bindR (addMoney (f_Gross fill) (f_Fee fill)) (\<lambda>cost.
     if cost > f_ReservedCash fill then Inl ErrInsufficientCash
     else bindR (addMoney (pos_Quantity p) (f_Quantity fill)) (\<lambda>qty.
     bindR (addMoney (pos_CostBasis p) cost) (\<lambda>basis.
     Inr (p\<lparr>pos_Quantity := qty, pos_CostBasis := basis\<rparr>,
          no_balances\<lparr>bal_Available := wrap64 (f_ReservedCash fill - cost),
                      bal_Reserved := wrap64 (- f_ReservedCash fill)\<rparr>))))"

definition fill_sell :: "Fill \<Rightarrow> Position \<Rightarrow> (Position \<times> Balances) inv_result" where
  "fill_sell fill p =
     (if pos_Quantity p < f_Quantity fill \<or> pos_ReservedQuantity p < f_ReservedQuantity fill
         \<or> f_ReservedQuantity fill < f_Quantity fill \<or> f_Gross fill < f_Fee fill
      then Inl ErrInsufficientCash
      else bindR (proportionalCost (pos_CostBasis p) (f_Quantity fill) (pos_Quantity p)) (\<lambda>cost.
      Inr (p\<lparr>pos_CostBasis := wrap64 (pos_CostBasis p - cost),
             pos_Quantity := wrap64 (pos_Quantity p - f_Quantity fill),
             pos_ReservedQuantity := wrap64 (pos_ReservedQuantity p - f_ReservedQuantity fill)\<rparr>,
           no_balances\<lparr>bal_Unsettled := wrap64 (f_Gross fill - f_Fee fill)\<rparr>)))"

definition fill_position :: "Account \<Rightarrow> Position list \<Rightarrow> Fill \<Rightarrow> Position \<Rightarrow> LedgerMutation inv_result" where
  "fill_position account positions fill p =
     (let i = f_InstrumentID fill; buy = (f_Side fill = ''buy'') in
      bindR (if buy then fill_buy fill p else fill_sell fill p) (\<lambda>(p', delta).
      bindR (Balances_Apply (a_Balances account) delta) (\<lambda>balances.
      Inr \<lparr>lm_Account = with_balances account balances,
           lm_Positions = order_rows by_instrument (update_where (held i) (\<lambda>_. p') positions),
           lm_Entries = [(ledger_entry account (''fill/'' @ f_OrderID fill) (f_Side fill @ ''_fill'') i
             delta (f_EffectiveAt fill) (f_RecordedAt fill))
             \<lparr>le_ID := f_ID fill,
              le_QuantityDelta := (if buy then f_Quantity fill else wrap64 (- f_Quantity fill))\<rparr>]\<rparr>)))"

definition ApplyFill :: "Account \<Rightarrow> Position list \<Rightarrow> Fill \<Rightarrow> LedgerMutation inv_result" where
  "ApplyFill account positions fill =
     (if \<not> fill_shape_ok account fill then Inl ErrInvalidInput
      else bindR (GrossValue (f_Price fill) (f_Quantity fill)) (\<lambda>gross.
      if TradeFee gross \<noteq> Inr (f_Fee fill) \<or> gross \<noteq> f_Gross fill then Inl ErrInvalidInput
      else let i = f_InstrumentID fill; matching = List.filter (held i) positions in
      if length matching > 1 then Inl ErrInvalidInput
      else if matching = [] \<and> f_Side fill \<noteq> ''buy'' then Inl ErrInsufficientCash
      else if matching = [] then fill_position account (positions @ [new_position i []]) fill (new_position i [])
      else fill_position account positions fill (hd matching)))"

section \<open>Reservations and releases\<close>

definition release_position :: "Order \<Rightarrow> Position \<Rightarrow> Position inv_result" where
  "release_position ord p =
     (if pos_ReservedQuantity p < o_ReservedQuantity ord then Inl ErrInvalidInput
      else Inr (p\<lparr>pos_ReservedQuantity := wrap64 (pos_ReservedQuantity p - o_ReservedQuantity ord)\<rparr>))"

definition release_delta :: "Position list \<Rightarrow> Order \<Rightarrow> (Position list \<times> Balances) inv_result" where
  "release_delta positions ord =
     (if o_Side ord = ''buy'' then
        Inr (positions, no_balances\<lparr>bal_Available := o_ReservedCash ord,
                                    bal_Reserved := wrap64 (- o_ReservedCash ord)\<rparr>)
      else if o_Side ord = ''sell'' then
        bindR (update_held (o_InstrumentID ord) (release_position ord) positions) (\<lambda>ps.
        if \<not> list_ex (held (o_InstrumentID ord)) positions then Inl ErrInvalidInput
        else Inr (ps, no_balances))
      else Inl ErrInvalidInput)"

definition ReleaseOrder ::
  "Account \<Rightarrow> Position list \<Rightarrow> Order \<Rightarrow> string \<Rightarrow> time \<Rightarrow> LedgerMutation inv_result" where
  "ReleaseOrder account positions ord kind now =
     (if o_AccountID ord \<noteq> a_ID account \<or> Terminal ord \<or> o_ReservedCash ord < 0
         \<or> o_ReservedQuantity ord < 0 then Inl ErrInvalidInput
      else bindR (release_delta positions ord) (\<lambda>(ps, delta).
      bindR (Balances_Apply (a_Balances account) delta) (\<lambda>balances.
      Inr \<lparr>lm_Account = with_balances account balances, lm_Positions = ps,
           lm_Entries = [ledger_entry account (''release/'' @ o_ID ord) kind (o_InstrumentID ord)
                           delta now now]\<rparr>)))"

definition reserve_shape_ok :: "Account \<Rightarrow> string list \<Rightarrow> Order \<Rightarrow> bool" where
  "reserve_shape_ok account seen ord \<longleftrightarrow>
     \<not> (o_ID ord = [] \<or> o_ID ord \<in> set seen \<or> o_AccountID ord \<noteq> a_ID account
        \<or> o_State ord \<noteq> OrderPending \<or> o_Quantity ord \<le> 0 \<or> o_Quantity ord > 1000000000
        \<or> o_Capacity ord < 0 \<or> \<not> o_TargetOpenAt ord > o_CreatedAt ord
        \<or> \<not> o_ExpiresAt ord > o_TargetOpenAt ord)"

definition reserve_position :: "Order \<Rightarrow> Position \<Rightarrow> Position inv_result" where
  "reserve_position ord p =
     (if wrap64 (pos_Quantity p - pos_ReservedQuantity p) < o_Quantity ord then Inl ErrInsufficientCash
      else Inr (p\<lparr>pos_ReservedQuantity := wrap64 (pos_ReservedQuantity p + o_Quantity ord)\<rparr>))"

definition reserve_delta :: "Position list \<Rightarrow> Order \<Rightarrow> (Position list \<times> Balances) inv_result" where
  "reserve_delta positions ord =
     (if o_Side ord = ''buy'' then
        if o_ReservedCash ord \<le> 0 \<or> o_ReservedQuantity ord \<noteq> 0 then Inl ErrInvalidInput
        else Inr (positions, no_balances\<lparr>bal_Available := wrap64 (- o_ReservedCash ord),
                                         bal_Reserved := o_ReservedCash ord\<rparr>)
      else if o_Side ord = ''sell'' then
        if o_ReservedCash ord \<noteq> 0 \<or> o_ReservedQuantity ord \<noteq> o_Quantity ord then Inl ErrInvalidInput
        else bindR (update_held (o_InstrumentID ord) (reserve_position ord) positions) (\<lambda>ps.
        if \<not> list_ex (held (o_InstrumentID ord)) positions then Inl ErrInsufficientCash
        else Inr (ps, no_balances))
      else Inl ErrInvalidInput)"

definition reserve_one :: "Order \<Rightarrow> LedgerMutation \<times> string list \<Rightarrow> (LedgerMutation \<times> string list) inv_result" where
  "reserve_one ord = (\<lambda>(m, seen).
     let account = lm_Account m in
     if \<not> reserve_shape_ok account seen ord then Inl ErrInvalidInput
     else bindR (reserve_delta (lm_Positions m) ord) (\<lambda>(ps, delta).
     bindR (Balances_Apply (a_Balances account) delta) (\<lambda>balances.
     Inr (\<lparr>lm_Account = with_balances account balances, lm_Positions = ps,
           lm_Entries = lm_Entries m @ [ledger_entry account (''reserve/'' @ o_ID ord)
             (''reserve_'' @ o_Side ord) (o_InstrumentID ord) delta (o_CreatedAt ord) (o_CreatedAt ord)]\<rparr>,
          o_ID ord # seen))))"

definition ReserveOrders :: "Account \<Rightarrow> Position list \<Rightarrow> Order list \<Rightarrow> LedgerMutation inv_result" where
  "ReserveOrders account positions orders =
     bindR (foldR orders (\<lparr>lm_Account = account, lm_Positions = positions, lm_Entries = []\<rparr>, []) reserve_one)
       (\<lambda>(m, seen). Inr m)"

section \<open>Settlement\<close>

definition settle_one ::
  "(int \<Rightarrow> time) option \<Rightarrow> Calendar \<Rightarrow> time \<Rightarrow> LedgerEntry \<Rightarrow> LedgerMutation \<times> string list
     \<Rightarrow> (LedgerMutation \<times> string list) inv_result" where
  "settle_one new_york calendar now entry = (\<lambda>(m, seen).
     let account = lm_Account m in
     if le_Kind entry \<noteq> ''sell_fill'' \<or> le_AccountID entry \<noteq> a_ID account
        \<or> bal_Unsettled (le_Delta entry) < 0 \<or> le_EventKey entry = [] \<or> le_EventKey entry \<in> set seen
     then Inl ErrInvalidInput
     else bindR (SettlementStart new_york calendar (le_EffectiveAt entry)) (\<lambda>due.
     if now < due then Inr (m, le_EventKey entry # seen)
     else let delta = no_balances\<lparr>bal_Available := bal_Unsettled (le_Delta entry),
                                  bal_Unsettled := wrap64 (- bal_Unsettled (le_Delta entry))\<rparr> in
     bindR (Balances_Apply (a_Balances account) delta) (\<lambda>balances.
     Inr (m\<lparr>lm_Account := with_balances account balances,
            lm_Entries := lm_Entries m @ [ledger_entry account (''settlement/'' @ le_EventKey entry)
              ''settlement'' (le_InstrumentID entry) delta due now]\<rparr>,
          le_EventKey entry # seen))))"

definition SettleReceivables ::
  "(int \<Rightarrow> time) option \<Rightarrow> Account \<Rightarrow> LedgerEntry list \<Rightarrow> Calendar \<Rightarrow> time \<Rightarrow> LedgerMutation inv_result" where
  "SettleReceivables new_york account entries calendar now =
     bindR (foldR entries (\<lparr>lm_Account = account, lm_Positions = [], lm_Entries = []\<rparr>, [])
              (settle_one new_york calendar now))
       (\<lambda>(m, seen). Inr m)"

section \<open>Corporate actions\<close>

text \<open>The cash paid for a fraction of a share, and the cost that leaves with it.\<close>

definition cash_in_lieu :: "CorporateAction \<Rightarrow> Money \<Rightarrow> int \<Rightarrow> int \<Rightarrow> int \<Rightarrow> (Money \<times> Money) inv_result" where
  "cash_in_lieu action basis fraction den shares =
     (case ca_CashInLieu action of
        None \<Rightarrow> Inl ErrCorporateActionIncomplete
      | Some rate \<Rightarrow>
          if rate < 0 \<or> ca_CashInLieuUnit action \<noteq> ''USD_per_post_split_share''
          then Inl ErrCorporateActionIncomplete
          else bindR (roundedRatMoney (of_int rate * (of_int fraction / of_int den))) (\<lambda>cash.
               bindR (roundedRatMoney (of_int basis * (of_int fraction / of_int shares))) (\<lambda>cost.
               Inr (cash, cost))))"

text \<open>A split of a position: the position after it, the cash in lieu and the change in shares.\<close>

definition split_position :: "CorporateAction \<Rightarrow> Position \<Rightarrow> (Position \<times> Money \<times> Quantity) inv_result" where
  "split_position action p =
     (if pos_ReservedQuantity p \<noteq> 0 \<or> pos_Quantity p < 0 \<or> pos_CostBasis p < 0 then Inl ErrInvalidInput
      else let shares = pos_Quantity p * ca_RatioNumerator action; den = ca_RatioDenominator action;
               whole = shares sdiv den; fraction = shares smod den in
      if \<not> IsInt64 whole then Inl ErrOverflow
      else bindR
        (if fraction = 0 then Inr (0, pos_CostBasis p)
         else bindR (cash_in_lieu action (pos_CostBasis p) fraction den shares) (\<lambda>(cash, cost).
              Inr (cash, wrap64 (pos_CostBasis p - cost))))
        (\<lambda>(cash, basis).
         Inr (p\<lparr>pos_CostBasis := basis, pos_Quantity := whole\<rparr>, cash, wrap64 (whole - pos_Quantity p))))"

definition apply_split :: "Position list \<Rightarrow> CorporateAction \<Rightarrow> (Position list \<times> Money \<times> Quantity) inv_result" where
  "apply_split positions action =
     (if ca_RatioNumerator action \<le> 0 \<or> ca_RatioDenominator action \<le> 0
      then Inl ErrCorporateActionIncomplete
      else case List.filter (held (ca_InstrumentID action)) positions of
        [] \<Rightarrow> Inr (positions, 0, 0)
      | p # others \<Rightarrow>
          bindR (split_position action p) (\<lambda>(p', cash, change).
          if others \<noteq> [] then Inl ErrInvalidInput
          else Inr (update_where (held (ca_InstrumentID action)) (\<lambda>_. p') positions, cash, change)))"

definition eligible_quantity :: "Position list \<Rightarrow> CorporateAction \<Rightarrow> Quantity inv_result" where
  "eligible_quantity eligibility action =
     foldR eligibility 0 (\<lambda>p qty.
       if held (ca_InstrumentID action) p
       then if pos_Quantity p < 0 then Inl ErrInvalidInput else addMoney qty (pos_Quantity p)
       else Inr qty)"

definition dividend_amount :: "Position list \<Rightarrow> CorporateAction \<Rightarrow> Money inv_result" where
  "dividend_amount eligibility action =
     (if ca_Amount action \<le> 0 \<or> IsZero (ca_PayAt action) \<or> ca_PayAt action < ca_EffectiveAt action
      then Inl ErrCorporateActionIncomplete
      else bindR (eligible_quantity eligibility action) (\<lambda>qty.
      if qty > 0 then GrossValue (ca_Amount action) qty else Inr 0))"

text \<open>The two kinds: the positions, the kind of the entry, its cash and its shares.\<close>

definition action_change ::
  "Position list \<Rightarrow> CorporateAction \<Rightarrow> Position list
     \<Rightarrow> (Position list \<times> string \<times> Balances \<times> Quantity) inv_result" where
  "action_change positions action eligibility =
     (if ca_Kind action = ''split'' then
        bindR (apply_split positions action) (\<lambda>(ps, cash, change).
        Inr (ps, ''split'', no_balances\<lparr>bal_Available := cash\<rparr>, change))
      else if ca_Kind action = ''dividend'' then
        bindR (dividend_amount eligibility action) (\<lambda>amount.
        Inr (positions, ''dividend_accrual'', no_balances\<lparr>bal_Dividends := amount\<rparr>, 0))
      else Inl ErrCorporateActionIncomplete)"

definition ApplyCorporateAction ::
  "Account \<Rightarrow> Position list \<Rightarrow> CorporateAction \<Rightarrow> Position list \<Rightarrow> LedgerMutation inv_result" where
  "ApplyCorporateAction account positions action eligibility =
     (if ca_ID action = [] \<or> ca_InstrumentID action = [] \<or> ca_Currency action \<noteq> ''USD''
         \<or> IsZero (ca_EffectiveAt action) then Inl ErrCorporateActionIncomplete
      else bindR (action_change positions action eligibility) (\<lambda>(ps, kind, delta, change).
      bindR (Balances_Apply (a_Balances account) delta) (\<lambda>balances.
      Inr \<lparr>lm_Account = with_balances account balances, lm_Positions = ps,
           lm_Entries = [(ledger_entry account (''action/'' @ ca_ID action) kind (ca_InstrumentID action)
             delta (ca_EffectiveAt action) (ca_AvailableAt action))\<lparr>le_QuantityDelta := change\<rparr>]\<rparr>)))"

definition PayDividend :: "Account \<Rightarrow> CorporateAction \<Rightarrow> LedgerEntry \<Rightarrow> time \<Rightarrow> LedgerMutation inv_result" where
  "PayDividend account action accrual now =
     (if IsZero (ca_PayAt action) \<or> now < ca_PayAt action \<or> le_AccountID accrual \<noteq> a_ID account
         \<or> le_EventKey accrual \<noteq> ''action/'' @ ca_ID action \<or> bal_Dividends (le_Delta accrual) < 0
      then Inl ErrCorporateActionIncomplete
      else let delta = no_balances\<lparr>bal_Available := bal_Dividends (le_Delta accrual),
                                   bal_Dividends := wrap64 (- bal_Dividends (le_Delta accrual))\<rparr> in
      bindR (Balances_Apply (a_Balances account) delta) (\<lambda>balances.
      Inr \<lparr>lm_Account = with_balances account balances, lm_Positions = [],
           lm_Entries = [ledger_entry account (''payment/'' @ ca_ID action) ''dividend_payment''
             (ca_InstrumentID action) delta (ca_PayAt action) now]\<rparr>))"

definition SameActionEconomics :: "CorporateAction \<Rightarrow> CorporateAction \<Rightarrow> bool" where
  "SameActionEconomics a b \<longleftrightarrow>
     ca_ID a = ca_ID b \<and> ca_InstrumentID a = ca_InstrumentID b \<and> ca_Kind a = ca_Kind b
     \<and> ca_Currency a = ca_Currency b \<and> ca_EffectiveAt a = ca_EffectiveAt b
     \<and> ca_PayAt a = ca_PayAt b \<and> ca_RatioNumerator a = ca_RatioNumerator b
     \<and> ca_RatioDenominator a = ca_RatioDenominator b \<and> ca_Amount a = ca_Amount b
     \<and> ca_CashInLieu a = ca_CashInLieu b \<and> ca_CashInLieuUnit a = ca_CashInLieuUnit b"

end
