(* ===== verification/Investment_Risk.thy ===== *)
theory Investment_Risk
  imports Investment_Ledger
begin

text \<open>
  The limits an order must respect (\<open>investment/domain/risk.go\<close>), with the slipped prices and
  capacities of \<open>execution.go\<close> they use. A Go map that is only looked up is a function; the price
  overrides, which are ranged over, are an association list.
\<close>

record PortfolioInput =
  pf_Account :: Account
  pf_Positions :: "Position list"
  pf_Orders :: "Order list"
  pf_Snapshot :: Snapshot
  pf_Evaluation :: Evaluation
  pf_Policy :: RiskPolicy
  pf_NAV :: Money
  pf_PeakNAV :: Money
  pf_SessionTurnover :: Money
  pf_Prices :: "(string \<times> Price) list"
  pf_Parameters :: "StrategyParameters option"

record OrderRiskInput =
  ri_Account :: Account
  ri_Positions :: "Position list"
  ri_Orders :: "Order list"
  ri_Snapshot :: Snapshot
  ri_Evaluation :: Evaluation
  ri_InstrumentID :: string
  ri_Side :: string
  ri_Reason :: string
  ri_ExcludeOrderID :: string
  ri_Quantity :: Quantity
  ri_Price :: Price
  ri_NAV :: Money
  ri_PeakNAV :: Money
  ri_Policy :: RiskPolicy
  ri_SessionTurnover :: Money
  ri_Automatic :: bool
  ri_ReservationBudget :: "Money option"
  ri_Prices :: "(string \<times> Price) list"
  ri_Parameters :: "StrategyParameters option"
  ri_TargetOpenAt :: time

record RiskDecision =
  rd_Allowed :: bool
  rd_ReasonCode :: string
  rd_MaxQuantity :: Quantity

record exposure =
  xp_stocks :: Money
  xp_byID :: "string \<Rightarrow> Money"
  xp_byIndustry :: "string \<Rightarrow> Money"
  xp_industries :: "string \<Rightarrow> string"

definition no_exposure :: exposure where
  "no_exposure = \<lparr>xp_stocks = 0, xp_byID = (\<lambda>_. 0), xp_byIndustry = (\<lambda>_. 0), xp_industries = (\<lambda>_. [])\<rparr>"

section \<open>Fractions of the net asset value\<close>

definition policyFraction :: "float64 \<Rightarrow> rat" where
  "policyFraction v = shortest_decimal v"

text \<open>\<open>big.Int.Quo\<close> of the numerator and the denominator.\<close>

definition truncated :: "rat \<Rightarrow> int" where
  "truncated r = (case quotient_of r of (n, d) \<Rightarrow> n sdiv d)"

definition moneyLimit :: "Money \<Rightarrow> float64 \<Rightarrow> Money" where
  "moneyLimit nav weight = wrap64 (truncated (of_int nav * policyFraction weight))"

definition drawdownReached :: "Money \<Rightarrow> Money \<Rightarrow> float64 \<Rightarrow> bool" where
  "drawdownReached nav peak threshold \<longleftrightarrow>
     \<not> peak \<le> 0 \<and> of_int nav / of_int peak \<le> 1 - policyFraction threshold"

section \<open>Prices and exposure\<close>

definition current_bar :: "Snapshot \<Rightarrow> TradingSession \<Rightarrow> Bar \<Rightarrow> bool" where
  "current_bar s latest b \<longleftrightarrow>
     \<not> b_AvailableAt b > s_AsOf s \<and> b_SessionDate b = ts_Date latest \<and> b_Close b > 0"

definition quoteBook ::
  "Snapshot \<Rightarrow> (string \<times> Price) list \<Rightarrow> ((string \<Rightarrow> Price option) \<times> (string \<Rightarrow> Instrument option)) inv_result" where
  "quoteBook s overrides =
     bindR (LatestCompleted (s_Calendar s) (s_AsOf s)) (\<lambda>latest.
     let instruments = fold (\<lambda>i m. m(i_ID i \<mapsto> i)) (s_Instruments s) (\<lambda>_. None);
         prices = fold (\<lambda>b m. if current_bar s latest b then m(b_InstrumentID b \<mapsto> b_Close b) else m)
                    (s_Bars s) (\<lambda>_. None)
     in bindR (foldR overrides prices (\<lambda>(i, p) m. if p \<le> 0 then Inl ErrInvalidInput else Inr (m(i \<mapsto> p))))
          (\<lambda>prices. Inr (prices, instruments)))"

definition add_exposure ::
  "(string \<Rightarrow> Instrument option) \<Rightarrow> string \<Rightarrow> Money \<Rightarrow> exposure \<Rightarrow> exposure inv_result" where
  "add_exposure instruments instrument v out =
     (case instruments instrument of
        None \<Rightarrow> Inl ErrDataStale
      | Some i \<Rightarrow>
          let industry = Industry (i_SIC i) in
          if industry = ''unknown'' then Inl ErrFactorUnavailable
          else bindR (addMoney (xp_stocks out) v) (\<lambda>stocks.
               bindR (addMoney (xp_byID out instrument) v) (\<lambda>of_id.
               bindR (addMoney (xp_byIndustry out industry) v) (\<lambda>of_industry.
               Inr \<lparr>xp_stocks = stocks, xp_byID = (xp_byID out)(instrument := of_id),
                    xp_byIndustry = (xp_byIndustry out)(industry := of_industry),
                    xp_industries = (xp_industries out)(instrument := industry)\<rparr>))))"

definition position_exposure ::
  "(string \<Rightarrow> Price option) \<Rightarrow> (string \<Rightarrow> Instrument option) \<Rightarrow> Position
     \<Rightarrow> exposure \<times> string list \<Rightarrow> (exposure \<times> string list) inv_result" where
  "position_exposure prices instruments pos = (\<lambda>(out, seen).
     if pos_InstrumentID pos \<in> set seen \<or> pos_Quantity pos < 0 \<or> pos_ReservedQuantity pos < 0
        \<or> pos_ReservedQuantity pos > pos_Quantity pos \<or> pos_CostBasis pos < 0
     then Inl ErrInvalidInput
     else if pos_Quantity pos = 0 then Inr (out, pos_InstrumentID pos # seen)
     else case prices (pos_InstrumentID pos) of
       None \<Rightarrow> Inl ErrDataStale
     | Some price \<Rightarrow>
         bindR (GrossValue price (pos_Quantity pos)) (\<lambda>v.
         bindR (add_exposure instruments (pos_InstrumentID pos) v out) (\<lambda>out.
         Inr (out, pos_InstrumentID pos # seen))))"

text \<open>A non-terminal order is pending or awaiting its bar, so the check of its state cannot fail.\<close>

definition order_exposure ::
  "(string \<Rightarrow> Instrument option) \<Rightarrow> string \<Rightarrow> Order \<Rightarrow> exposure \<Rightarrow> exposure inv_result" where
  "order_exposure instruments exclude ord out =
     (if o_ID ord = exclude \<or> Terminal ord then Inr out
      else if o_State ord \<noteq> OrderPending \<and> o_State ord \<noteq> OrderAwaitingBar then Inl ErrInvalidInput
      else if o_Side ord \<noteq> ''buy'' then Inr out
      else if o_ReservedCash ord < 0 then Inl ErrInvalidInput
      else add_exposure instruments (o_InstrumentID ord) (o_ReservedCash ord) out)"

definition portfolioExposure ::
  "Position list \<Rightarrow> Order list \<Rightarrow> (string \<Rightarrow> Price option) \<Rightarrow> (string \<Rightarrow> Instrument option) \<Rightarrow> string
     \<Rightarrow> exposure inv_result" where
  "portfolioExposure positions orders prices instruments exclude =
     bindR (foldR positions (no_exposure, []) (position_exposure prices instruments)) (\<lambda>(out, seen).
     foldR orders out (order_exposure instruments exclude))"

section \<open>Slipped prices and capacity\<close>

definition AdvanceOrder :: "Order \<Rightarrow> time \<Rightarrow> Order" where
  "AdvanceOrder ord now =
     (if o_State ord = OrderPending \<and> \<not> now < o_TargetOpenAt ord
      then ord\<lparr>o_State := OrderAwaitingBar\<rparr> else ord)"

definition SlippedPrice :: "Price \<Rightarrow> string \<Rightarrow> Price inv_result" where
  "SlippedPrice opening side =
     (if side = ''buy'' then scalePrice opening 10010 10000
      else if side = ''sell'' then scalePrice opening 9990 10000
      else Inl ErrInvalidInput)"

definition ReservationCost :: "Price \<Rightarrow> Quantity \<Rightarrow> Money inv_result" where
  "ReservationCost close qty = bindR (SlippedPrice close ''buy'') (\<lambda>price. purchaseCost price qty)"

definition PreviousVolumeCapacity :: "Bar list \<Rightarrow> time \<Rightarrow> Quantity inv_result" where
  "PreviousVolumeCapacity bars before =
     (let filtered = order_rows (\<lambda>a b. b_SessionDate a \<le> b_SessionDate b)
            (List.filter (\<lambda>b. b_AvailableAt b < before \<and> b_SessionDate b < dateUTC before) bars) in
      if length filtered < 20 then Inl ErrDataStale
      else bindR (foldR (drop (length filtered - 20) filtered) (0, []) (\<lambda>b (sum, seen).
             let key = Format_date (b_SessionDate b) in
             if key \<in> set seen \<or> b_Volume b < 0 then Inl ErrInvalidInput
             else Inr (sum + b_Volume b, key # seen))) (\<lambda>(sum, seen).
           checked (sum sdiv 2000)))"

section \<open>Validating an order\<close>

definition emergencySell :: "string \<Rightarrow> bool" where
  "emergencySell reason \<longleftrightarrow> reason = ''stop_loss'' \<or> reason = ''reduce_single_risk''
     \<or> reason = ''reduce_industry_risk'' \<or> reason = ''reduce_stock_risk''"

definition refused :: "string \<Rightarrow> RiskDecision" where
  "refused reason = \<lparr>rd_Allowed = False, rd_ReasonCode = reason, rd_MaxQuantity = 0\<rparr>"

text \<open>The value an open order may still trade, as counted against the session's turnover.\<close>

definition order_turnover :: "(string \<Rightarrow> Price option) \<Rightarrow> Order \<Rightarrow> Money inv_result" where
  "order_turnover prices ord =
     (if o_Side ord = ''buy'' then checked ((o_ReservedCash ord * 10000) sdiv 10001)
      else case prices (o_InstrumentID ord) of
        None \<Rightarrow> Inl ErrDataStale
      | Some price \<Rightarrow>
          bindR (SlippedPrice price ''sell'') (\<lambda>price. GrossValue price (o_Quantity ord)))"

definition turnover_left :: "OrderRiskInput \<Rightarrow> (string \<Rightarrow> Price option) \<Rightarrow> Money inv_result" where
  "turnover_left inp prices =
     bindR (foldR (ri_Orders inp)
              (wrap64 (moneyLimit (ri_NAV inp) (rp_TurnoverLimit (ri_Policy inp)) - ri_SessionTurnover inp))
              (\<lambda>ord turnover.
        if o_ID ord = ri_ExcludeOrderID inp \<or> Terminal ord
           \<or> (\<not> IsZero (ri_TargetOpenAt inp) \<and> dateUTC (o_TargetOpenAt ord) \<noteq> dateUTC (ri_TargetOpenAt inp))
        then Inr turnover
        else bindR (order_turnover prices ord) (\<lambda>gross.
             Inr (if gross > turnover then 0 else wrap64 (turnover - gross)))))
       (\<lambda>turnover. Inr (if turnover < 0 then 0 else turnover))"

text \<open>The shares that may still be sold: unreserved ones, and those the replaced order holds.\<close>

definition sellable :: "OrderRiskInput \<Rightarrow> Quantity inv_result" where
  "sellable inp =
     bindR (foldR (ri_Positions inp) 0 (\<lambda>p available.
        if pos_InstrumentID p \<noteq> ri_InstrumentID inp then Inr available
        else if pos_ReservedQuantity p < 0 \<or> pos_ReservedQuantity p > pos_Quantity p then Inl ErrInvalidInput
        else Inr (wrap64 (pos_Quantity p - pos_ReservedQuantity p)))) (\<lambda>available.
     let available =
           (if ri_ExcludeOrderID inp \<noteq> [] then
              fold (\<lambda>ord n. if o_ID ord = ri_ExcludeOrderID inp \<and> o_Side ord = ''sell'' \<and> \<not> Terminal ord
                            then wrap64 (n + o_ReservedQuantity ord) else n) (ri_Orders inp) available
            else available)
     in if available < 0 then Inl ErrInvalidInput
        else Inr (if available > 1000000000 then 1000000000 else available))"

definition sell_fits :: "OrderRiskInput \<Rightarrow> Money \<Rightarrow> Quantity \<Rightarrow> bool" where
  "sell_fits inp turnover q \<longleftrightarrow>
     emergencySell (ri_Reason inp) \<or>
     (case GrossValue (ri_Price inp) q of Inl _ \<Rightarrow> False | Inr gross \<Rightarrow> gross \<le> turnover)"

definition candidate_eligible :: "OrderRiskInput \<Rightarrow> StrategyParameters \<Rightarrow> bool" where
  "candidate_eligible inp parameters \<longleftrightarrow>
     list_ex (\<lambda>s. ev_State (ri_Evaluation inp) = ''completed'' \<and> sg_InstrumentID s = ri_InstrumentID inp
       \<and> fle (sp_EntryScore parameters) (sg_Score s) \<and> sg_Rank s \<ge> 1
       \<and> sg_Rank s \<le> sp_MaxHoldings parameters
       \<and> (ra_Level (sg_Risk s) = ''low'' \<or> ra_Level (sg_Risk s) = ''medium''))
     (ev_Signals (ri_Evaluation inp))"

definition used_parameters :: "StrategyParameters option \<Rightarrow> StrategyParameters" where
  "used_parameters p = (case p of None \<Rightarrow> DefaultStrategyParameters | Some p \<Rightarrow> p)"

record buy_room =
  br_single :: Money
  br_sector :: Money
  br_stocks :: Money
  br_turnover :: Money
  br_cash :: Money

definition buy_fits :: "buy_room \<Rightarrow> Price \<Rightarrow> Quantity \<Rightarrow> bool" where
  "buy_fits room price q \<longleftrightarrow>
     (case GrossValue price q of
        Inl _ \<Rightarrow> False
      | Inr gross \<Rightarrow>
          \<not> (gross > br_single room \<or> gross > br_sector room \<or> gross > br_stocks room
             \<or> gross > br_turnover room) \<and>
          (case purchaseCost price q of Inl _ \<Rightarrow> False | Inr cost \<Rightarrow> cost \<le> br_cash room))"

text \<open>The room each limit leaves for a purchase.\<close>

definition room_for ::
  "OrderRiskInput \<Rightarrow> (string \<Rightarrow> Price option) \<Rightarrow> (string \<Rightarrow> Instrument option) \<Rightarrow> string \<Rightarrow> Money
     \<Rightarrow> buy_room inv_result" where
  "room_for inp prices instruments industry turnover =
     bindR (portfolioExposure (ri_Positions inp) (ri_Orders inp) prices instruments (ri_ExcludeOrderID inp))
     (\<lambda>exposure.
      let cash = (case ri_ReservationBudget inp of
                    None \<Rightarrow> bal_Available (a_Balances (ri_Account inp)) | Some budget \<Rightarrow> budget) in
      if cash < 0 then Inl ErrInvalidInput
      else Inr \<lparr>br_single = wrap64 (moneyLimit (ri_NAV inp) (rp_SingleWeight (ri_Policy inp))
                              - xp_byID exposure (ri_InstrumentID inp)),
                br_sector = wrap64 (moneyLimit (ri_NAV inp) (rp_IndustryWeight (ri_Policy inp))
                              - xp_byIndustry exposure industry),
                br_stocks = wrap64 (moneyLimit (ri_NAV inp) (rp_StockWeight (ri_Policy inp)) - xp_stocks exposure),
                br_turnover = turnover, br_cash = cash\<rparr>)"

definition decide :: "OrderRiskInput \<Rightarrow> string \<Rightarrow> Quantity \<Rightarrow> RiskDecision" where
  "decide inp reason limit =
     (let allowed = (ri_Quantity inp \<le> limit) in
      \<lparr>rd_Allowed = allowed, rd_ReasonCode = (if allowed then [] else reason), rd_MaxQuantity = limit\<rparr>)"

definition decide_sell :: "OrderRiskInput \<Rightarrow> Money \<Rightarrow> RiskDecision inv_result" where
  "decide_sell inp turnover =
     bindR (sellable inp) (\<lambda>available.
     Inr (decide inp ''risk_limit_exceeded'' (maxWholeQuantity available (sell_fits inp turnover))))"

definition decide_buy ::
  "OrderRiskInput \<Rightarrow> (string \<Rightarrow> Price option) \<Rightarrow> (string \<Rightarrow> Instrument option) \<Rightarrow> string \<Rightarrow> Money
     \<Rightarrow> RiskDecision inv_result" where
  "decide_buy inp prices instruments industry turnover =
     bindR (if ri_Automatic inp then
              bindR (StrategyParameters_Validate (used_parameters (ri_Parameters inp)))
                (\<lambda>_. Inr (candidate_eligible inp (used_parameters (ri_Parameters inp))))
            else Inr True) (\<lambda>eligible.
     if \<not> eligible then Inr (refused ''automatic_candidate_ineligible'')
     else bindR (room_for inp prices instruments industry turnover) (\<lambda>room.
     let limit = maxWholeQuantity 1000000000 (buy_fits room (ri_Price inp)) in
     Inr (decide inp (if limit = 0 \<and> br_cash room \<le> 0 then ''insufficient_settled_cash''
                      else ''risk_limit_exceeded'') limit)))"

text \<open>The decision once the prices and the instruments are known.\<close>

definition decide_quoted ::
  "OrderRiskInput \<Rightarrow> (string \<Rightarrow> Price option) \<Rightarrow> (string \<Rightarrow> Instrument option) \<Rightarrow> RiskDecision inv_result" where
  "decide_quoted inp prices instruments =
     (case instruments (ri_InstrumentID inp) of
        None \<Rightarrow> Inr (refused ''instrument_ineligible'')
      | Some instrument \<Rightarrow>
          if i_Kind instrument \<noteq> ''stock'' \<or> \<not> i_Tradable instrument
          then Inr (refused ''instrument_ineligible'')
          else let industry = Industry (i_SIC instrument) in
          if industry = ''unknown'' then Inr (refused ''factor_unavailable'')
          else bindR (turnover_left inp prices) (\<lambda>turnover.
               if ri_Side inp = ''sell'' then decide_sell inp turnover
               else decide_buy inp prices instruments industry turnover))"

definition risk_input_ok :: "OrderRiskInput \<Rightarrow> bool" where
  "risk_input_ok inp \<longleftrightarrow>
     \<not> (ri_Quantity inp \<le> 0 \<or> ri_Quantity inp > 1000000000 \<or> ri_Price inp \<le> 0 \<or> ri_NAV inp \<le> 0
        \<or> ri_SessionTurnover inp < 0 \<or> (ri_Side inp \<noteq> ''buy'' \<and> ri_Side inp \<noteq> ''sell''))"

definition ValidateOrder :: "OrderRiskInput \<Rightarrow> RiskDecision inv_result" where
  "ValidateOrder inp =
     (if \<not> risk_input_ok inp then Inl ErrInvalidInput
      else bindR (RiskPolicy_Validate (ri_Policy inp)) (\<lambda>_.
      let peak = (if ri_PeakNAV inp = 0 then a_InitialCash (ri_Account inp) else ri_PeakNAV inp) in
      if peak < 0 then Inl ErrInvalidInput
      else if ri_Side inp = ''buy'' \<and> drawdownReached (ri_NAV inp) peak (rp_DrawdownPause (ri_Policy inp))
      then Inr (refused ''drawdown_pause'')
      else bindR (quoteBook (ri_Snapshot inp) (ri_Prices inp)) (\<lambda>(prices, instruments).
           decide_quoted inp (prices(ri_InstrumentID inp \<mapsto> ri_Price inp)) instruments)))"

section \<open>Net asset value\<close>

definition ComputeNAV :: "Account \<Rightarrow> Position list \<Rightarrow> Snapshot \<Rightarrow> (string \<times> Price) list \<Rightarrow> Money inv_result" where
  "ComputeNAV account positions snapshot overrides =
     bindR (Balances_Total (a_Balances account)) (\<lambda>cash.
     bindR (quoteBook snapshot overrides) (\<lambda>(prices, instruments).
     foldR positions cash (\<lambda>p sum.
       if pos_Quantity p = 0 then Inr sum
       else case prices (pos_InstrumentID p) of
         None \<Rightarrow> Inl ErrDataStale
       | Some price \<Rightarrow> bindR (GrossValue price (pos_Quantity p)) (\<lambda>value. addMoney sum value))))"

end
