(* ===== verification/Investment_Book.thy ===== *)
theory Investment_Book
  imports Investment_Ledger
begin

text \<open>
  What the ledger operations keep of an account's book: the balances are the opening cash plus
  the entries, no part of them is negative, the positions hold exactly the shares of the entries,
  and nothing reserved exceeds what is held. \<open>keeps_book\<close> is what one mutation promises;
  \<open>book_step\<close> is any operation that returns without an error, applied the way
  \<open>replayBook.apply\<close> does, and \<open>book_inv\<close> holds after any number of them.
\<close>

section \<open>The invariant\<close>

definition position_ok :: "Position \<Rightarrow> bool" where
  "position_ok p \<longleftrightarrow> 0 \<le> pos_ReservedQuantity p \<and> pos_ReservedQuantity p \<le> pos_Quantity p
     \<and> IsInt64 (pos_Quantity p) \<and> 0 \<le> pos_CostBasis p \<and> IsInt64 (pos_CostBasis p)"

definition positions_ok :: "Position list \<Rightarrow> bool" where
  "positions_ok ps \<longleftrightarrow> distinct (map pos_InstrumentID ps) \<and> list_all position_ok ps"

definition shares :: "Position list \<Rightarrow> string \<Rightarrow> int" where
  "shares ps i = (\<Sum>p\<leftarrow>List.filter (held i) ps. pos_Quantity p)"

definition entry_shares :: "LedgerEntry list \<Rightarrow> string \<Rightarrow> int" where
  "entry_shares es i = (\<Sum>e\<leftarrow>List.filter (\<lambda>e. le_InstrumentID e = i) es. le_QuantityDelta e)"

fun add_entries :: "Balances \<Rightarrow> LedgerEntry list \<Rightarrow> Balances" where
  "add_entries b [] = b"
| "add_entries b (e # es) = add_entries (add_balances b (le_Delta e)) es"

type_synonym book = "Account \<times> Position list \<times> LedgerEntry list"

definition book_inv :: "Money \<Rightarrow> book \<Rightarrow> bool" where
  "book_inv cash = (\<lambda>(account, ps, es).
     a_Balances account = add_entries (no_balances\<lparr>bal_Available := cash\<rparr>) es
     \<and> balances_ok (a_Balances account) \<and> positions_ok ps \<and> (\<forall>i. shares ps i = entry_shares es i))"

text \<open>\<open>replayBook.apply\<close>: the account, the positions when there are any, and the entries.\<close>

definition positions_after :: "Position list \<Rightarrow> LedgerMutation \<Rightarrow> Position list" where
  "positions_after ps m = (if lm_Positions m = [] then ps else lm_Positions m)"

definition apply_mutation :: "LedgerMutation \<Rightarrow> book \<Rightarrow> book" where
  "apply_mutation m = (\<lambda>(account, ps, es). (lm_Account m, positions_after ps m, es @ lm_Entries m))"

definition keeps_book :: "Account \<Rightarrow> Position list \<Rightarrow> LedgerMutation \<Rightarrow> bool" where
  "keeps_book account ps m \<longleftrightarrow>
     lm_Account m = with_balances account (add_entries (a_Balances account) (lm_Entries m))
     \<and> balances_ok (add_entries (a_Balances account) (lm_Entries m)) \<and> positions_ok (positions_after ps m)
     \<and> (\<forall>i. shares (positions_after ps m) i = shares ps i + entry_shares (lm_Entries m) i)"

lemma add_entries_append [simp]: "add_entries b (es @ fs) = add_entries (add_entries b es) fs"
  by (induction es arbitrary: b) simp_all

lemma entry_shares_append [simp]: "entry_shares (es @ fs) i = entry_shares es i + entry_shares fs i"
  by (simp add: entry_shares_def)

lemma entry_shares_Nil [simp]: "entry_shares [] i = 0"
  by (simp add: entry_shares_def)

lemma entry_shares_one [simp]:
  "entry_shares [e] i = (if le_InstrumentID e = i then le_QuantityDelta e else 0)"
  by (simp add: entry_shares_def)

lemma with_balances_simps [simp]:
  "a_Balances (with_balances a b) = b" "a_ID (with_balances a b) = a_ID a"
  "with_balances (with_balances a b) b' = with_balances a b'"
  by (simp_all add: with_balances_def)

lemma ledger_entry_simps [simp]:
  "le_Delta (ledger_entry a k kind i d t r) = d" "le_QuantityDelta (ledger_entry a k kind i d t r) = 0"
  "le_InstrumentID (ledger_entry a k kind i d t r) = i" "le_Kind (ledger_entry a k kind i d t r) = kind"
  "le_EventKey (ledger_entry a k kind i d t r) = k" "le_AccountID (ledger_entry a k kind i d t r) = a_ID a"
  by (simp_all add: ledger_entry_def)

lemma keeps_book_inv:
  assumes "book_inv cash (account, ps, es)" "keeps_book account ps m"
  shows "book_inv cash (apply_mutation m (account, ps, es))"
  using assms by (auto simp: book_inv_def keeps_book_def apply_mutation_def)

section \<open>Positions\<close>

lemma held_new_position [simp]: "held i (new_position j ind) \<longleftrightarrow> j = i"
  by (simp add: held_def new_position_def)

lemma held_update [simp]:
  "held i (p\<lparr>pos_Quantity := q\<rparr>) = held i p" "held i (p\<lparr>pos_ReservedQuantity := q\<rparr>) = held i p"
  "held i (p\<lparr>pos_CostBasis := q\<rparr>) = held i p"
  by (simp_all add: held_def)

lemma shares_Nil [simp]: "shares [] i = 0"
  by (simp add: shares_def)

lemma shares_Cons [simp]: "shares (p # ps) i = (if held i p then pos_Quantity p else 0) + shares ps i"
  by (simp add: shares_def)

lemma shares_append [simp]: "shares (ps @ qs) i = shares ps i + shares qs i"
  by (simp add: shares_def)

lemma shares_insert [simp]: "shares (insert_row le p ps) i = shares (p # ps) i"
  by (induction ps) auto

lemma shares_order [simp]: "shares (order_rows le ps) i = shares ps i"
  unfolding order_rows_def by (induction ps) simp_all

lemma positions_ok_order [simp]: "positions_ok (order_rows le ps) = positions_ok ps"
  by (simp add: positions_ok_def distinct_map_order_rows list_all_iff)

lemma positions_ok_member: "positions_ok ps \<Longrightarrow> p \<in> set ps \<Longrightarrow> position_ok p"
  by (simp add: positions_ok_def list_all_iff)

lemma shares_nonneg: "positions_ok ps \<Longrightarrow> 0 \<le> shares ps i"
  by (induction ps) (auto simp: positions_ok_def position_ok_def)

lemma shares_none: "(\<And>p. p \<in> set ps \<Longrightarrow> \<not> held i p) \<Longrightarrow> shares ps i = 0"
  by (induction ps) auto

lemma distinct_held:
  "distinct (map pos_InstrumentID (q # ps)) \<Longrightarrow> held i q \<Longrightarrow> r \<in> set ps \<Longrightarrow> \<not> held i r"
  unfolding held_def by (metis distinct.simps(2) image_eqI list.set_map list.simps(9))

text \<open>Replacing the one position of an instrument.\<close>

lemma replace_shares:
  assumes "distinct (map pos_InstrumentID ps)" "p \<in> set ps" "held i p" "held i p'"
  shows "shares (update_where (held i) (\<lambda>_. p') ps) j
    = shares ps j + (if j = i then pos_Quantity p' - pos_Quantity p else 0)"
  using assms
proof (induction ps)
  case (Cons q ps)
  have none: "update_where (held i) (\<lambda>_. p') ps = ps" if "held i q"
    using distinct_held [OF Cons.prems(1) that] by (intro update_where_none)
  show ?case
  proof (cases "held i q")
    case True
    have e: "held j x \<longleftrightarrow> j = i" if "held i x" for x using that by (auto simp: held_def)
    have "p = q"
      using Cons.prems(2,3) distinct_held [OF Cons.prems(1) True, of p] by auto
    then show ?thesis using True none [OF True] Cons.prems(4) e [OF True] e [OF Cons.prems(4)] by simp
  next
    case False
    with Cons.prems(2,3) have "p \<in> set ps" by auto
    then show ?thesis using False Cons.IH [OF _ _ Cons.prems(3,4)] Cons.prems(1) by (simp add: update_where_def)
  qed
qed simp

lemma replace_ids:
  assumes "held i p'"
  shows "map pos_InstrumentID (update_where (held i) (\<lambda>_. p') ps) = map pos_InstrumentID ps"
  using assms by (intro map_update_where) (simp add: held_def)

lemma replace_positions_ok:
  assumes "positions_ok ps" "held i p'" "position_ok p'"
  shows "positions_ok (update_where (held i) (\<lambda>_. p') ps)"
proof -
  have "position_ok q" if "q \<in> set (update_where (held i) (\<lambda>_. p') ps)" for q
    using that assms(1,3) by (auto simp: update_where_def positions_ok_def list_all_iff split: if_splits)
  then show ?thesis
    using assms(1) replace_ids [OF assms(2)] by (simp add: positions_ok_def list_all_iff)
qed

lemma new_position_ok [simp]: "position_ok (new_position i ind)"
  by (simp add: position_ok_def new_position_def IsInt64_def)

lemma positions_ok_new:
  "positions_ok ps \<Longrightarrow> (\<And>p. p \<in> set ps \<Longrightarrow> \<not> held i p) \<Longrightarrow> positions_ok (ps @ [new_position i ind])"
  by (auto simp: positions_ok_def new_position_def held_def position_ok_def IsInt64_def)

text \<open>A loop that changes the reserved part of the matching positions only.\<close>

lemma update_held_Inr:
  assumes "update_held i f ps = Inr ps'"
    and "\<And>p p'. p \<in> set ps \<Longrightarrow> held i p \<Longrightarrow> f p = Inr p' \<Longrightarrow> R p p'"
    and "\<And>p. p \<in> set ps \<Longrightarrow> \<not> held i p \<Longrightarrow> R p p"
  shows "list_all2 R ps ps'"
  using assms
proof (induction ps arbitrary: ps')
  case (Cons p ps)
  from Cons.prems(1) obtain p' qs where p': "(if held i p then f p else Inr p) = Inr p'"
    and qs: "update_held i f ps = Inr qs" "ps' = p' # qs"
    by (auto simp: bindR_Inr)
  have "R p p'" using p' Cons.prems(2,3) by (auto split: if_splits)
  moreover have "list_all2 R ps qs" using Cons.prems(2,3) by (intro Cons.IH [OF qs(1)]) auto
  ultimately show ?case using qs(2) by simp
qed simp

definition reserved_only :: "Position \<Rightarrow> Position \<Rightarrow> bool" where
  "reserved_only p p' \<longleftrightarrow> pos_InstrumentID p' = pos_InstrumentID p \<and> pos_Quantity p' = pos_Quantity p
     \<and> (position_ok p \<longrightarrow> position_ok p')"

lemma reserved_only_shares: "list_all2 reserved_only ps ps' \<Longrightarrow> shares ps' i = shares ps i"
  by (induction rule: list_all2_induct) (auto simp: reserved_only_def held_def)

lemma reserved_only_ok:
  assumes "list_all2 reserved_only ps ps'" "positions_ok ps"
  shows "positions_ok ps'"
proof -
  have "map pos_InstrumentID ps' = map pos_InstrumentID ps \<and> (list_all position_ok ps \<longrightarrow> list_all position_ok ps')"
    using assms(1) by (induction rule: list_all2_induct) (auto simp: reserved_only_def)
  then show ?thesis using assms(2) by (auto simp: positions_ok_def)
qed

lemma reserved_only_refl [simp]: "list_all2 reserved_only ps ps"
  by (intro list_all2_refl) (simp add: reserved_only_def)

section \<open>Every operation keeps the book\<close>

text \<open>Amounts of a fill are \<open>int64\<close>s.\<close>

definition int64_fill :: "Fill \<Rightarrow> bool" where
  "int64_fill f \<longleftrightarrow> IsInt64 (f_ReservedCash f) \<and> IsInt64 (f_Quantity f)"

lemma no_balances_simps [simp]:
  "bal_Available no_balances = 0" "bal_Reserved no_balances = 0"
  "bal_Unsettled no_balances = 0" "bal_Dividends no_balances = 0"
  by (simp_all add: no_balances_def)

lemma balances_okD:
  assumes "balances_ok b"
  shows "0 \<le> bal_Available b" "IsInt64 (bal_Available b)" "0 \<le> bal_Reserved b" "IsInt64 (bal_Reserved b)"
    "0 \<le> bal_Unsettled b" "IsInt64 (bal_Unsettled b)" "0 \<le> bal_Dividends b" "IsInt64 (bal_Dividends b)"
  using assms by (simp_all add: balances_ok_def)

lemma add_no_balances [simp]: "add_balances b no_balances = b"
  by (simp add: add_balances_def)

lemma nonneg_diff_int64: "IsInt64 a \<Longrightarrow> 0 \<le> b \<Longrightarrow> b \<le> a \<Longrightarrow> IsInt64 (a - b)"
  by (simp add: IsInt64_def)

lemma neg_int64: "0 \<le> a \<Longrightarrow> IsInt64 a \<Longrightarrow> IsInt64 (- a)"
  by (simp add: IsInt64_def)

lemma summand_int64: "IsInt64 (a + b) \<Longrightarrow> 0 \<le> a \<Longrightarrow> 0 \<le> b \<Longrightarrow> IsInt64 b"
  by (simp add: IsInt64_def)

lemma shares_held:
  assumes "positions_ok ps" "p \<in> set ps" "held i p"
  shows "shares ps i = pos_Quantity p"
  using assms
proof (induction ps)
  case (Cons q ps)
  show ?case
  proof (cases "p = q")
    case True
    have "shares ps i = 0"
      using Cons.prems(1,3) distinct_held [of q ps i] unfolding True positions_ok_def
      by (intro shares_none) blast
    with True Cons.prems show ?thesis by simp
  next
    case False
    then have p: "p \<in> set ps" using Cons.prems(2) by auto
    then have "\<not> held i q" using Cons.prems(1,3) distinct_held [of q ps i p] by (auto simp: positions_ok_def)
    with p Cons show ?thesis by (simp add: positions_ok_def)
  qed
qed simp

text \<open>A fill.\<close>

lemma fill_buy_Inr:
  assumes "fill_buy f p = Inr (p', d)" "position_ok p" "int64_fill f" "0 \<le> f_Gross f" "0 \<le> f_Fee f"
    "0 \<le> f_Quantity f"
  shows "held i p' = held i p" "position_ok p'" "pos_Quantity p' = pos_Quantity p + f_Quantity f"
    "f_Gross f + f_Fee f \<le> f_ReservedCash f"
    "d = no_balances\<lparr>bal_Available := f_ReservedCash f - (f_Gross f + f_Fee f),
                     bal_Reserved := - f_ReservedCash f\<rparr>"
proof -
  have h: "f_Gross f + f_Fee f \<le> f_ReservedCash f" "IsInt64 (pos_Quantity p + f_Quantity f)"
    "IsInt64 (pos_CostBasis p + (f_Gross f + f_Fee f))"
    "p' = p\<lparr>pos_Quantity := pos_Quantity p + f_Quantity f,
            pos_CostBasis := pos_CostBasis p + (f_Gross f + f_Fee f)\<rparr>"
    "d = no_balances\<lparr>bal_Available := wrap64 (f_ReservedCash f - (f_Gross f + f_Fee f)),
                     bal_Reserved := wrap64 (- f_ReservedCash f)\<rparr>"
    using assms(1) by (auto simp: fill_buy_def bindR_Inr split: if_splits)
  have "IsInt64 (f_ReservedCash f - (f_Gross f + f_Fee f))" "IsInt64 (- f_ReservedCash f)"
    using assms(3-5) h(1) by (auto simp: int64_fill_def intro: nonneg_diff_int64 neg_int64)
  then show "d = no_balances\<lparr>bal_Available := f_ReservedCash f - (f_Gross f + f_Fee f),
                     bal_Reserved := - f_ReservedCash f\<rparr>"
    using h(5) by (simp add: wrap64_id)
  show "held i p' = held i p" "position_ok p'" "pos_Quantity p' = pos_Quantity p + f_Quantity f"
    "f_Gross f + f_Fee f \<le> f_ReservedCash f"
    using h assms(2,4-6) by (auto simp: position_ok_def)
qed

lemma fill_sell_Inr:
  assumes "fill_sell f p = Inr (p', d)" "position_ok p" "0 < f_Quantity f" "0 \<le> f_Fee f" "IsInt64 (f_Gross f)"
  shows "held i p' = held i p" "position_ok p'" "pos_Quantity p' = pos_Quantity p - f_Quantity f"
    "f_Fee f \<le> f_Gross f" "d = no_balances\<lparr>bal_Unsettled := f_Gross f - f_Fee f\<rparr>"
proof -
  obtain cost where h: "f_Quantity f \<le> pos_Quantity p" "f_ReservedQuantity f \<le> pos_ReservedQuantity p"
    "f_Quantity f \<le> f_ReservedQuantity f" "f_Fee f \<le> f_Gross f"
    "proportionalCost (pos_CostBasis p) (f_Quantity f) (pos_Quantity p) = Inr cost"
    "p' = p\<lparr>pos_CostBasis := wrap64 (pos_CostBasis p - cost),
            pos_Quantity := wrap64 (pos_Quantity p - f_Quantity f),
            pos_ReservedQuantity := wrap64 (pos_ReservedQuantity p - f_ReservedQuantity f)\<rparr>"
    "d = no_balances\<lparr>bal_Unsettled := wrap64 (f_Gross f - f_Fee f)\<rparr>"
    using assms(1) by (auto simp: fill_sell_def bindR_Inr split: if_splits)
  note c = proportionalCost_range [OF h(5)]
  have r: "IsInt64 (pos_ReservedQuantity p)"
    using assms(2) by (auto simp: position_ok_def IsInt64_def)
  have w: "wrap64 (pos_CostBasis p - cost) = pos_CostBasis p - cost"
    "wrap64 (pos_Quantity p - f_Quantity f) = pos_Quantity p - f_Quantity f"
    "wrap64 (pos_ReservedQuantity p - f_ReservedQuantity f) = pos_ReservedQuantity p - f_ReservedQuantity f"
    "wrap64 (f_Gross f - f_Fee f) = f_Gross f - f_Fee f"
    using assms h(1-4) c r by (auto simp: position_ok_def intro!: wrap64_id nonneg_diff_int64)
  show "held i p' = held i p" "position_ok p'" "pos_Quantity p' = pos_Quantity p - f_Quantity f"
    "f_Fee f \<le> f_Gross f" "d = no_balances\<lparr>bal_Unsettled := f_Gross f - f_Fee f\<rparr>"
    using h(1-4,7) c w assms(2) nonneg_diff_int64 [of "pos_Quantity p" "f_Quantity f"]
      nonneg_diff_int64 [of "pos_CostBasis p" cost] assms(3)
    unfolding h(6) by (simp_all add: position_ok_def)
qed

definition fill_delta :: "Fill \<Rightarrow> Balances" where
  "fill_delta f =
     (if f_Side f = ''buy''
      then no_balances\<lparr>bal_Available := f_ReservedCash f - (f_Gross f + f_Fee f),
                       bal_Reserved := - f_ReservedCash f\<rparr>
      else no_balances\<lparr>bal_Unsettled := f_Gross f - f_Fee f\<rparr>)"

definition fill_change :: "Fill \<Rightarrow> int" where
  "fill_change f = (if f_Side f = ''buy'' then f_Quantity f else - f_Quantity f)"

lemma ApplyFill_Inr:
  assumes "ApplyFill a ps f = Inr m" "positions_ok ps" "int64_fill f"
  shows "keeps_book a ps m" "GrossValue (f_Price f) (f_Quantity f) = Inr (f_Gross f)"
    "TradeFee (f_Gross f) = Inr (f_Fee f)" "fill_shape_ok a f"
    "\<exists>e. lm_Entries m = [e] \<and> le_Delta e = fill_delta f \<and> le_QuantityDelta e = fill_change f
       \<and> le_InstrumentID e = f_InstrumentID f \<and> le_EventKey e = ''fill/'' @ f_OrderID f"
    "a_Balances (lm_Account m) = add_balances (a_Balances a) (fill_delta f)"
    "if f_Side f = ''buy'' then f_Gross f + f_Fee f \<le> f_ReservedCash f else f_Fee f \<le> f_Gross f"
proof -
  define i where "i = f_InstrumentID f"
  define ms where "ms = List.filter (held i) ps"
  define buy where "buy = (f_Side f = ''buy'')"
  define qs where "qs = (if ms = [] then ps @ [new_position i []] else ps)"
  define p where "p = (if ms = [] then new_position i [] else hd ms)"
  have shape: "fill_shape_ok a f" and gross: "GrossValue (f_Price f) (f_Quantity f) = Inr (f_Gross f)"
    and fee: "TradeFee (f_Gross f) = Inr (f_Fee f)"
    using assms(1) by (auto simp: ApplyFill_def bindR_Inr split: if_splits)
  have s0: "(if length ms > 1 then Inl ErrInvalidInput
      else if ms = [] \<and> \<not> buy then Inl ErrInsufficientCash
      else fill_position a qs f p) = Inr m"
    using assms(1) shape gross fee unfolding ApplyFill_def Let_def ms_def i_def qs_def p_def buy_def
    by (simp split: if_splits)
  then have one: "\<not> length ms > 1" "\<not> (ms = [] \<and> \<not> buy)" by (simp_all split: if_splits)
  obtain p' d b where step: "(if buy then fill_buy f p else fill_sell f p) = Inr (p', d)"
    and b: "Balances_Apply (a_Balances a) d = Inr b"
    and m: "m = \<lparr>lm_Account = with_balances a b,
           lm_Positions = order_rows by_instrument (update_where (held i) (\<lambda>_. p') qs),
           lm_Entries = [(ledger_entry a (''fill/'' @ f_OrderID f) (f_Side f @ ''_fill'') i
             d (f_EffectiveAt f) (f_RecordedAt f))
             \<lparr>le_ID := f_ID f,
              le_QuantityDelta := (if buy then f_Quantity f else wrap64 (- f_Quantity f))\<rparr>]\<rparr>"
    using s0 [unfolded if_not_P [OF one(1)] if_not_P [OF one(2)] fill_position_def Let_def,
        folded i_def buy_def]
    by (auto simp: bindR_Inr)
  have qs: "positions_ok qs" "p \<in> set qs" "held i p" "\<And>j. shares qs j = shares ps j"
  proof -
    show "positions_ok qs"
      unfolding qs_def using assms(2) by (auto intro!: positions_ok_new simp: ms_def filter_empty_conv)
    have "p \<in> set qs \<and> held i p"
    proof (cases "ms = []")
      case False
      then have "hd ms \<in> set ms" by (rule hd_in_set)
      then show ?thesis using False by (auto simp: p_def qs_def ms_def)
    qed (simp add: p_def qs_def)
    then show "p \<in> set qs" "held i p" by auto
    show "shares qs j = shares ps j" for j
      by (simp add: qs_def new_position_def)
  qed
  have pok: "position_ok p" using qs(1,2) by (rule positions_ok_member)
  note g = GrossValue_half_up(3) [OF gross]
  note fb = TradeFee_bounds(1) [OF fee]
  have q: "0 < f_Quantity f" using shape by (auto simp: fill_shape_ok_def)
  have g64: "IsInt64 (f_Gross f)" using gross by (auto simp: GrossValue_def split: if_splits)
  have p': "held i p'" "position_ok p'" "pos_Quantity p' = pos_Quantity p + fill_change f" "d = fill_delta f"
    and lim: "if buy then f_Gross f + f_Fee f \<le> f_ReservedCash f else f_Fee f \<le> f_Gross f"
  proof -
    have "held i p' \<and> position_ok p' \<and> pos_Quantity p' = pos_Quantity p + fill_change f \<and> d = fill_delta f
      \<and> (if buy then f_Gross f + f_Fee f \<le> f_ReservedCash f else f_Fee f \<le> f_Gross f)"
    proof (cases buy)
      case True
      with step have "fill_buy f p = Inr (p', d)" by simp
      from fill_buy_Inr [OF this pok assms(3) g] fb q qs(3) True show ?thesis
        by (simp add: fill_change_def fill_delta_def buy_def)
    next
      case False
      with step have "fill_sell f p = Inr (p', d)" by simp
      from fill_sell_Inr [OF this pok q _ g64] fb qs(3) False show ?thesis
        by (simp add: fill_change_def fill_delta_def buy_def)
    qed
    then show "held i p'" "position_ok p'" "pos_Quantity p' = pos_Quantity p + fill_change f" "d = fill_delta f"
      "if buy then f_Gross f + f_Fee f \<le> f_ReservedCash f else f_Fee f \<le> f_Gross f" by auto
  qed
  have bal: "b = add_balances (a_Balances a) d" "balances_ok b"
    using b by (auto simp: Balances_Apply_Inr)
  have qd: "(if buy then f_Quantity f else wrap64 (- f_Quantity f)) = fill_change f"
    using assms(3) q by (simp add: fill_change_def buy_def int64_fill_def wrap64_id neg_int64)
  have "lm_Positions m \<noteq> []" using m qs(2) by (metis LedgerMutation.select_convs(2) length_order_rows length_update_where length_0_conv list.set(1) empty_iff)
  then have pa: "positions_after ps m = order_rows by_instrument (update_where (held i) (\<lambda>_. p') qs)"
    using m by (simp add: positions_after_def)
  have dq: "distinct (map pos_InstrumentID qs)" using qs(1) by (simp add: positions_ok_def)
  have "shares (positions_after ps m) j = shares ps j + entry_shares (lm_Entries m) j" for j
    unfolding pa using qs(4) replace_shares [OF dq qs(2,3) p'(1), of j] p'(3) qd by (simp add: m)
  moreover have "positions_ok (positions_after ps m)"
    unfolding pa using replace_positions_ok [OF qs(1) p'(1,2)] by simp
  ultimately have "keeps_book a ps m"
    unfolding keeps_book_def using bal by (simp add: m)
  then show "keeps_book a ps m" .
  show "GrossValue (f_Price f) (f_Quantity f) = Inr (f_Gross f)"
    "TradeFee (f_Gross f) = Inr (f_Fee f)" "fill_shape_ok a f"
    "\<exists>e. lm_Entries m = [e] \<and> le_Delta e = fill_delta f \<and> le_QuantityDelta e = fill_change f
       \<and> le_InstrumentID e = f_InstrumentID f \<and> le_EventKey e = ''fill/'' @ f_OrderID f"
    "a_Balances (lm_Account m) = add_balances (a_Balances a) (fill_delta f)"
    "if f_Side f = ''buy'' then f_Gross f + f_Fee f \<le> f_ReservedCash f else f_Fee f \<le> f_Gross f"
    using shape gross fee bal p'(4) qd lim by (simp_all add: m i_def buy_def)
qed

text \<open>A release and a reservation.\<close>

definition release_change :: "Order \<Rightarrow> Balances" where
  "release_change ord =
     (if o_Side ord = ''buy''
      then no_balances\<lparr>bal_Available := o_ReservedCash ord, bal_Reserved := - o_ReservedCash ord\<rparr>
      else no_balances)"

definition reserve_change :: "Order \<Rightarrow> Balances" where
  "reserve_change ord =
     (if o_Side ord = ''buy''
      then no_balances\<lparr>bal_Available := - o_ReservedCash ord, bal_Reserved := o_ReservedCash ord\<rparr>
      else no_balances)"

lemma add_balances_parts:
  assumes "balances_ok (add_balances b d)" "balances_ok b"
  shows "0 \<le> bal_Available d \<Longrightarrow> IsInt64 (bal_Available d)"
    "0 \<le> bal_Reserved d \<Longrightarrow> IsInt64 (bal_Reserved d)"
    "0 \<le> bal_Unsettled d \<Longrightarrow> IsInt64 (bal_Unsettled d)"
    "0 \<le> bal_Dividends d \<Longrightarrow> IsInt64 (bal_Dividends d)"
  using assms by (auto simp: balances_ok_def add_balances_def intro: summand_int64)

lemma moved_keeps_book:
  assumes "list_all2 reserved_only ps ps'" "positions_ok ps" "balances_ok (add_balances (a_Balances a) d)"
    and "m = \<lparr>lm_Account = with_balances a (add_balances (a_Balances a) d), lm_Positions = ps',
              lm_Entries = [e]\<rparr>"
    and "le_Delta e = d" "le_QuantityDelta e = 0"
  shows "keeps_book a ps m"
proof -
  have "positions_after ps m = ps'" using assms(1,4) by (auto simp: positions_after_def)
  then show ?thesis
    using assms(2-6) reserved_only_ok [OF assms(1,2)] reserved_only_shares [OF assms(1)]
    by (simp add: keeps_book_def)
qed

lemma release_delta_Inr:
  assumes "release_delta ps ord = Inr (ps', d)" "positions_ok ps" "0 \<le> o_ReservedQuantity ord"
  shows "list_all2 reserved_only ps ps'"
proof (cases "o_Side ord = ''buy''")
  case False
  with assms(1) have u: "update_held (o_InstrumentID ord) (release_position ord) ps = Inr ps'"
    by (auto simp: release_delta_def bindR_Inr split: if_splits)
  show ?thesis
  proof (rule update_held_Inr [OF u])
    fix p p' assume p: "p \<in> set ps" and r: "release_position ord p = Inr p'"
    have ok: "position_ok p" using assms(2) p by (rule positions_ok_member)
    then have "IsInt64 (pos_ReservedQuantity p)" by (auto simp: position_ok_def IsInt64_def)
    then have "p' = p\<lparr>pos_ReservedQuantity := pos_ReservedQuantity p - o_ReservedQuantity ord\<rparr>"
      "o_ReservedQuantity ord \<le> pos_ReservedQuantity p"
      using r assms(3) by (auto simp: release_position_def wrap64_id nonneg_diff_int64 split: if_splits)
    then show "reserved_only p p'" using ok assms(3) by (auto simp: reserved_only_def position_ok_def)
  qed (simp add: reserved_only_def)
qed (use assms(1) in \<open>simp add: release_delta_def\<close>)

lemma wrap64_neg_undo:
  assumes "0 \<le> x" "IsInt64 x"
  shows "wrap64 (- x) = - x"
  using assms by (simp add: wrap64_id neg_int64)

lemma ReleaseOrder_Inr:
  assumes "ReleaseOrder a ps ord kind now = Inr m" "positions_ok ps" "balances_ok (a_Balances a)"
  shows "keeps_book a ps m"
    "\<exists>e. lm_Entries m = [e] \<and> le_Delta e = release_change ord \<and> le_QuantityDelta e = 0
       \<and> le_EventKey e = ''release/'' @ o_ID ord"
    "a_Balances (lm_Account m) = add_balances (a_Balances a) (release_change ord)"
proof -
  obtain ps' d b where r: "0 \<le> o_ReservedCash ord" "0 \<le> o_ReservedQuantity ord"
    and d: "release_delta ps ord = Inr (ps', d)" and b: "Balances_Apply (a_Balances a) d = Inr b"
    and m: "m = \<lparr>lm_Account = with_balances a b, lm_Positions = ps',
           lm_Entries = [ledger_entry a (''release/'' @ o_ID ord) kind (o_InstrumentID ord) d now now]\<rparr>"
    using assms(1) by (auto simp: ReleaseOrder_def bindR_Inr split: if_splits)
  note b' = b [unfolded Balances_Apply_Inr]
  have i64: "o_Side ord = ''buy'' \<longrightarrow> IsInt64 (o_ReservedCash ord)"
    using add_balances_parts(1) [of "a_Balances a" d] b' assms(3) d r(1)
    by (auto simp: release_delta_def)
  have dd: "d = release_change ord"
    using d i64 r(1) by (auto simp: release_delta_def release_change_def bindR_Inr wrap64_neg_undo split: if_splits)
  show "keeps_book a ps m"
    by (rule moved_keeps_book [OF release_delta_Inr [OF d assms(2) r(2)] assms(2)]) (use b' m in auto)
  show "\<exists>e. lm_Entries m = [e] \<and> le_Delta e = release_change ord \<and> le_QuantityDelta e = 0
       \<and> le_EventKey e = ''release/'' @ o_ID ord"
    "a_Balances (lm_Account m) = add_balances (a_Balances a) (release_change ord)"
    using m dd b' by simp_all
qed

lemma reserve_delta_Inr:
  assumes "reserve_delta ps ord = Inr (ps', d)" "positions_ok ps" "0 < o_Quantity ord" "IsInt64 (o_Quantity ord)"
  shows "list_all2 reserved_only ps ps'"
proof (cases "o_Side ord = ''buy''")
  case False
  with assms(1) have u: "update_held (o_InstrumentID ord) (reserve_position ord) ps = Inr ps'"
    by (auto simp: reserve_delta_def bindR_Inr split: if_splits)
  show ?thesis
  proof (rule update_held_Inr [OF u])
    fix p p' assume p: "p \<in> set ps" and r: "reserve_position ord p = Inr p'"
    have ok: "position_ok p" using assms(2) p by (rule positions_ok_member)
    then have w: "wrap64 (pos_Quantity p - pos_ReservedQuantity p) = pos_Quantity p - pos_ReservedQuantity p"
      by (intro wrap64_id nonneg_diff_int64) (auto simp: position_ok_def)
    have le: "pos_ReservedQuantity p + o_Quantity ord \<le> pos_Quantity p"
      using r w by (auto simp: reserve_position_def split: if_splits)
    then have "IsInt64 (pos_ReservedQuantity p + o_Quantity ord)"
      using ok assms(3) by (auto simp: position_ok_def IsInt64_def)
    then have "p' = p\<lparr>pos_ReservedQuantity := pos_ReservedQuantity p + o_Quantity ord\<rparr>"
      using r by (auto simp: reserve_position_def wrap64_id split: if_splits)
    then show "reserved_only p p'" using ok assms(3) le by (auto simp: reserved_only_def position_ok_def)
  qed (simp add: reserved_only_def)
qed (use assms(1) in \<open>auto simp: reserve_delta_def split: if_splits\<close>)

lemma reserve_one_Inr:
  assumes "reserve_one ord (m, seen) = Inr (m', seen')" "positions_ok (lm_Positions m)"
    "balances_ok (a_Balances (lm_Account m))"
  shows "list_all2 reserved_only (lm_Positions m) (lm_Positions m')"
    "lm_Account m' = with_balances (lm_Account m) (add_balances (a_Balances (lm_Account m)) (reserve_change ord))"
    "balances_ok (a_Balances (lm_Account m'))"
    "\<exists>e. lm_Entries m' = lm_Entries m @ [e] \<and> le_Delta e = reserve_change ord \<and> le_QuantityDelta e = 0
       \<and> le_EventKey e = ''reserve/'' @ o_ID ord"
    "seen' = o_ID ord # seen" "reserve_shape_ok (lm_Account m) seen ord"
proof -
  obtain ps' d b where sh: "reserve_shape_ok (lm_Account m) seen ord"
    and d: "reserve_delta (lm_Positions m) ord = Inr (ps', d)"
    and b: "Balances_Apply (a_Balances (lm_Account m)) d = Inr b"
    and m: "m' = \<lparr>lm_Account = with_balances (lm_Account m) b, lm_Positions = ps',
           lm_Entries = lm_Entries m @ [ledger_entry (lm_Account m) (''reserve/'' @ o_ID ord)
             (''reserve_'' @ o_Side ord) (o_InstrumentID ord) d (o_CreatedAt ord) (o_CreatedAt ord)]\<rparr>"
    and s: "seen' = o_ID ord # seen"
    using assms(1) by (auto simp: reserve_one_def Let_def bindR_Inr split: if_splits)
  note b' = b [unfolded Balances_Apply_Inr]
  have q: "0 < o_Quantity ord" "IsInt64 (o_Quantity ord)"
    using sh by (auto simp: reserve_shape_ok_def IsInt64_def)
  have rc: "o_Side ord = ''buy'' \<longrightarrow> 0 \<le> o_ReservedCash ord"
    using d by (auto simp: reserve_delta_def split: if_splits)
  have i64: "o_Side ord = ''buy'' \<longrightarrow> IsInt64 (o_ReservedCash ord)"
    using add_balances_parts(2) [of "a_Balances (lm_Account m)" d] b' assms(3) d rc
    by (auto simp: reserve_delta_def split: if_splits)
  have dd: "d = reserve_change ord"
    using d i64 rc by (auto simp: reserve_delta_def reserve_change_def bindR_Inr wrap64_neg_undo split: if_splits)
  show "list_all2 reserved_only (lm_Positions m) (lm_Positions m')"
    using reserve_delta_Inr [OF d assms(2) q] m by simp
  show "lm_Account m' = with_balances (lm_Account m) (add_balances (a_Balances (lm_Account m)) (reserve_change ord))"
    "balances_ok (a_Balances (lm_Account m'))"
    "\<exists>e. lm_Entries m' = lm_Entries m @ [e] \<and> le_Delta e = reserve_change ord \<and> le_QuantityDelta e = 0
       \<and> le_EventKey e = ''reserve/'' @ o_ID ord"
    "seen' = o_ID ord # seen" "reserve_shape_ok (lm_Account m) seen ord"
    using b' by (auto simp: m dd s sh)
qed

text \<open>What a loop over several orders or receivables keeps.\<close>

definition keeps_so_far :: "Account \<Rightarrow> Position list \<Rightarrow> LedgerMutation \<Rightarrow> bool" where
  "keeps_so_far a ps m \<longleftrightarrow>
     lm_Account m = with_balances a (add_entries (a_Balances a) (lm_Entries m))
     \<and> balances_ok (add_entries (a_Balances a) (lm_Entries m)) \<and> list_all2 reserved_only ps (lm_Positions m)
     \<and> (\<forall>i. entry_shares (lm_Entries m) i = 0)"

lemma keeps_so_far_book:
  assumes "keeps_so_far a ps m" "positions_ok ps"
  shows "keeps_book a ps m"
proof -
  have l: "list_all2 reserved_only ps (lm_Positions m)" using assms(1) by (simp add: keeps_so_far_def)
  have "positions_after ps m = lm_Positions m" using l by (auto simp: positions_after_def)
  then show ?thesis
    using assms reserved_only_ok [OF l assms(2)] reserved_only_shares [OF l]
    by (simp add: keeps_book_def keeps_so_far_def)
qed

lemma reserved_only_trans:
  "list_all2 reserved_only ps qs \<Longrightarrow> list_all2 reserved_only qs rs \<Longrightarrow> list_all2 reserved_only ps rs"
  by (rule list_all2_trans [of reserved_only reserved_only reserved_only])
    (auto simp: reserved_only_def)

lemma with_balances_same [simp]: "with_balances a (a_Balances a) = a"
  by (simp add: with_balances_def)

lemma ReserveOrders_Inr:
  assumes "ReserveOrders a ps ords = Inr m" "positions_ok ps" "balances_ok (a_Balances a)"
  shows "keeps_book a ps m"
proof -
  let ?m0 = "\<lparr>lm_Account = a, lm_Positions = ps, lm_Entries = []\<rparr>"
  obtain seen where f: "foldR ords (?m0, []) reserve_one = Inr (m, seen)"
    using assms(1) by (auto simp: ReserveOrders_def bindR_Inr)
  have "keeps_so_far a ps (fst (m, seen))"
  proof (rule foldR_inv [OF f, where P = "\<lambda>x. keeps_so_far a ps (fst x)"])
    fix ord b b' assume k: "keeps_so_far a ps (fst b)" and s: "reserve_one ord b = Inr b'"
    have s': "reserve_one ord (fst b, snd b) = Inr (fst b', snd b')" using s by simp
    have l: "list_all2 reserved_only ps (lm_Positions (fst b))" using k by (simp add: keeps_so_far_def)
    have ok: "positions_ok (lm_Positions (fst b))" using reserved_only_ok [OF l assms(2)] .
    have bo: "balances_ok (a_Balances (lm_Account (fst b)))" using k by (simp add: keeps_so_far_def)
    note r = reserve_one_Inr [OF s' ok bo]
    show "keeps_so_far a ps (fst b')"
      using k r(2,3,4) reserved_only_trans [OF l r(1)] by (auto simp: keeps_so_far_def)
  qed (use assms in \<open>simp add: keeps_so_far_def\<close>)
  then show ?thesis using keeps_so_far_book [OF _ assms(2)] by simp
qed

text \<open>Settlement and dividend payment.\<close>

definition settle_change :: "LedgerEntry \<Rightarrow> Balances" where
  "settle_change e = no_balances\<lparr>bal_Available := bal_Unsettled (le_Delta e),
                                 bal_Unsettled := - bal_Unsettled (le_Delta e)\<rparr>"

lemma settle_one_Inr:
  assumes "settle_one ny c now e (m, seen) = Inr (m', seen')" "balances_ok (a_Balances (lm_Account m))"
  shows "lm_Positions m' = lm_Positions m" "balances_ok (a_Balances (lm_Account m'))"
    "lm_Account m' = lm_Account m \<and> lm_Entries m' = lm_Entries m
     \<or> lm_Account m' = with_balances (lm_Account m) (add_balances (a_Balances (lm_Account m)) (settle_change e))
       \<and> (\<exists>e'. lm_Entries m' = lm_Entries m @ [e'] \<and> le_Delta e' = settle_change e \<and> le_QuantityDelta e' = 0
            \<and> le_EventKey e' = ''settlement/'' @ le_EventKey e)"
proof -
  obtain due where r: "0 \<le> bal_Unsettled (le_Delta e)"
    and due: "SettlementStart ny c (le_EffectiveAt e) = Inr due"
    using assms(1) by (auto simp: settle_one_def Let_def bindR_Inr split: if_splits)
  show "lm_Positions m' = lm_Positions m" "balances_ok (a_Balances (lm_Account m'))"
    "lm_Account m' = lm_Account m \<and> lm_Entries m' = lm_Entries m
     \<or> lm_Account m' = with_balances (lm_Account m) (add_balances (a_Balances (lm_Account m)) (settle_change e))
       \<and> (\<exists>e'. lm_Entries m' = lm_Entries m @ [e'] \<and> le_Delta e' = settle_change e \<and> le_QuantityDelta e' = 0
            \<and> le_EventKey e' = ''settlement/'' @ le_EventKey e)"
  proof (atomize (full), cases "now < due")
    case True
    then have "m' = m" using assms(1) due by (auto simp: settle_one_def Let_def split: if_splits)
    then show "lm_Positions m' = lm_Positions m \<and> balances_ok (a_Balances (lm_Account m')) \<and>
      (lm_Account m' = lm_Account m \<and> lm_Entries m' = lm_Entries m
     \<or> lm_Account m' = with_balances (lm_Account m) (add_balances (a_Balances (lm_Account m)) (settle_change e))
       \<and> (\<exists>e'. lm_Entries m' = lm_Entries m @ [e'] \<and> le_Delta e' = settle_change e \<and> le_QuantityDelta e' = 0
            \<and> le_EventKey e' = ''settlement/'' @ le_EventKey e))"
      using assms(2) by simp
  next
    case False
    define d where "d = no_balances\<lparr>bal_Available := bal_Unsettled (le_Delta e),
                                  bal_Unsettled := wrap64 (- bal_Unsettled (le_Delta e))\<rparr>"
    obtain b where b: "Balances_Apply (a_Balances (lm_Account m)) d = Inr b"
      and m': "m' = m\<lparr>lm_Account := with_balances (lm_Account m) b,
            lm_Entries := lm_Entries m @ [ledger_entry (lm_Account m) (''settlement/'' @ le_EventKey e)
              ''settlement'' (le_InstrumentID e) d due now]\<rparr>"
      using assms(1) due False
      by (auto simp: settle_one_def Let_def bindR_Inr d_def [symmetric] split: if_splits)
    note b' = b [unfolded Balances_Apply_Inr]
    have "IsInt64 (bal_Unsettled (le_Delta e))"
      using add_balances_parts(1) [of "a_Balances (lm_Account m)" d] b' assms(2) r by (auto simp: d_def)
    then have dd: "d = settle_change e" using r by (simp add: d_def settle_change_def wrap64_neg_undo)
    show "lm_Positions m' = lm_Positions m \<and> balances_ok (a_Balances (lm_Account m')) \<and>
      (lm_Account m' = lm_Account m \<and> lm_Entries m' = lm_Entries m
     \<or> lm_Account m' = with_balances (lm_Account m) (add_balances (a_Balances (lm_Account m)) (settle_change e))
       \<and> (\<exists>e'. lm_Entries m' = lm_Entries m @ [e'] \<and> le_Delta e' = settle_change e \<and> le_QuantityDelta e' = 0
            \<and> le_EventKey e' = ''settlement/'' @ le_EventKey e))"
      using b' by (auto simp: m' dd)
  qed
qed

lemma SettleReceivables_Inr:
  assumes "SettleReceivables ny a es c now = Inr m" "positions_ok ps" "balances_ok (a_Balances a)"
  shows "keeps_book a ps m"
proof -
  let ?m0 = "\<lparr>lm_Account = a, lm_Positions = [], lm_Entries = []\<rparr>"
  obtain seen where f: "foldR es (?m0, []) (settle_one ny c now) = Inr (m, seen)"
    using assms(1) by (auto simp: SettleReceivables_def bindR_Inr)
  have k: "keeps_so_far a [] (fst (m, seen))"
  proof (rule foldR_inv [OF f, where P = "\<lambda>x. keeps_so_far a [] (fst x)"])
    fix e b b' assume k: "keeps_so_far a [] (fst b)" and s: "settle_one ny c now e b = Inr b'"
    have s': "settle_one ny c now e (fst b, snd b) = Inr (fst b', snd b')" using s by simp
    have bo: "balances_ok (a_Balances (lm_Account (fst b)))" using k by (simp add: keeps_so_far_def)
    show "keeps_so_far a [] (fst b')"
      using k settle_one_Inr [OF s' bo] by (auto simp: keeps_so_far_def)
  qed (use assms in \<open>simp add: keeps_so_far_def\<close>)
  then have "positions_after ps m = ps" by (simp add: keeps_so_far_def positions_after_def)
  with k assms(2) show ?thesis by (simp add: keeps_so_far_def keeps_book_def)
qed

definition pay_change :: "LedgerEntry \<Rightarrow> Balances" where
  "pay_change e = no_balances\<lparr>bal_Available := bal_Dividends (le_Delta e),
                              bal_Dividends := - bal_Dividends (le_Delta e)\<rparr>"

lemma PayDividend_Inr:
  assumes "PayDividend a action e now = Inr m" "positions_ok ps" "balances_ok (a_Balances a)"
  shows "keeps_book a ps m"
    "\<exists>e'. lm_Entries m = [e'] \<and> le_Delta e' = pay_change e \<and> le_QuantityDelta e' = 0"
    "a_Balances (lm_Account m) = add_balances (a_Balances a) (pay_change e)"
proof -
  define d where "d = no_balances\<lparr>bal_Available := bal_Dividends (le_Delta e),
                                   bal_Dividends := wrap64 (- bal_Dividends (le_Delta e))\<rparr>"
  obtain b where r: "0 \<le> bal_Dividends (le_Delta e)" and b: "Balances_Apply (a_Balances a) d = Inr b"
    and m: "m = \<lparr>lm_Account = with_balances a b, lm_Positions = [],
           lm_Entries = [ledger_entry a (''payment/'' @ ca_ID action) ''dividend_payment''
             (ca_InstrumentID action) d (ca_PayAt action) now]\<rparr>"
    using assms(1) by (auto simp: PayDividend_def Let_def bindR_Inr d_def [symmetric] split: if_splits)
  note b' = b [unfolded Balances_Apply_Inr]
  have "IsInt64 (bal_Dividends (le_Delta e))"
    using add_balances_parts(1) [of "a_Balances a" d] b' assms(3) r by (auto simp: d_def)
  then have dd: "d = pay_change e" using r by (simp add: d_def pay_change_def wrap64_neg_undo)
  show "keeps_book a ps m"
    "\<exists>e'. lm_Entries m = [e'] \<and> le_Delta e' = pay_change e \<and> le_QuantityDelta e' = 0"
    "a_Balances (lm_Account m) = add_balances (a_Balances a) (pay_change e)"
    using b' assms(2) by (auto simp: m dd keeps_book_def positions_after_def)
qed

text \<open>Rounding a non-negative rational to a whole number of cents.\<close>

lemma roundedRatMoney_Inr:
  assumes "roundedRatMoney r = Inr m"
  shows "0 \<le> r" "m = \<lfloor>r + 1 / 2\<rfloor>" "IsInt64 m"
proof -
  obtain n d where q: "quotient_of r = (n, d)" by force
  then have d: "0 < d" and r: "r = of_int n / of_int d"
    by (simp_all add: quotient_of_denom_pos quotient_of_div)
  show r0: "0 \<le> r" and "IsInt64 m"
    using assms by (auto simp: roundedRatMoney_def q Let_def split: if_splits)
  then have n: "0 \<le> n" using d r by (simp add: zero_le_divide_iff)
  have m: "m = (if n mod d * 2 \<ge> d then n div d + 1 else n div d)"
    using assms r0 n d by (simp add: roundedRatMoney_def q Let_def sdiv_nonneg smod_nonneg)
  have e: "of_int n = (of_int d * of_int (n div d) + of_int (n mod d) :: rat)"
    by (metis mult_div_mod_eq of_int_add of_int_mult)
  define x where "x = (of_int (n mod d) / of_int d :: rat)"
  have rr: "r = of_int (n div d) + x"
    unfolding r e x_def using d by (simp add: field_simps)
  have b: "0 \<le> x" "x < 1" using d by (simp_all add: x_def divide_less_eq)
  show "m = \<lfloor>r + 1 / 2\<rfloor>"
  proof (cases "n mod d * 2 \<ge> d")
    case True
    then have "(of_int d :: rat) \<le> of_int (n mod d * 2)" unfolding of_int_le_iff .
    then have "1 / 2 \<le> x" using d by (simp add: x_def field_simps)
    then have "\<lfloor>r + 1 / 2\<rfloor> = n div d + 1" using b unfolding rr by (intro floor_unique) simp_all
    with True m show ?thesis by simp
  next
    case False
    then have "(of_int (n mod d * 2) :: rat) < of_int d" unfolding of_int_less_iff by simp
    then have "x < 1 / 2" using d by (simp add: x_def field_simps)
    then have "\<lfloor>r + 1 / 2\<rfloor> = n div d" using b unfolding rr by (intro floor_unique) simp_all
    with False m show ?thesis by simp
  qed
qed

lemma roundedRatMoney_range:
  assumes "roundedRatMoney r = Inr m"
  shows "0 \<le> m" "r \<le> of_int k \<Longrightarrow> m \<le> k"
proof -
  note h = roundedRatMoney_Inr [OF assms]
  show "0 \<le> m" using h(1,2) by simp
  assume "r \<le> of_int k"
  then have "\<lfloor>r + 1 / 2\<rfloor> \<le> \<lfloor>of_int k + (1 / 2 :: rat)\<rfloor>" by (intro floor_mono) simp
  moreover have "\<lfloor>of_int k + (1 / 2 :: rat)\<rfloor> = k" by (intro floor_unique) simp_all
  ultimately show "m \<le> k" using h(2) by simp
qed

lemma cash_in_lieu_range:
  assumes "cash_in_lieu action basis fraction den tot = Inr (cash, cost)"
    "0 \<le> basis" "0 \<le> fraction" "fraction \<le> tot" "0 < tot"
  shows "0 \<le> cash" "0 \<le> cost" "cost \<le> basis"
proof -
  obtain rate where c: "roundedRatMoney (of_int rate * (of_int fraction / of_int den)) = Inr cash"
      "roundedRatMoney (of_int basis * (of_int fraction / of_int tot)) = Inr cost"
    using assms(1) unfolding cash_in_lieu_def
    by (auto simp: bindR_Inr simp del: times_divide_eq_right split: option.splits if_splits)
  have "(of_int fraction :: rat) \<le> of_int tot" using assms(4) by (simp only: of_int_le_iff)
  then have "of_int fraction / of_int tot \<le> (1 :: rat)" using assms(5) by simp
  then have "of_int basis * (of_int fraction / of_int tot) \<le> (of_int basis :: rat)"
    using assms(2) by (intro mult_left_le) simp_all
  then show "0 \<le> cash" "0 \<le> cost" "cost \<le> basis"
    using roundedRatMoney_range(1) [OF c(1)] roundedRatMoney_range [OF c(2)] by auto
qed

lemma split_position_Inr:
  assumes "split_position action p = Inr (p', cash, change)" "position_ok p"
    "0 < ca_RatioNumerator action" "0 < ca_RatioDenominator action"
  shows "held i p' = held i p" "position_ok p'" "change = pos_Quantity p' - pos_Quantity p" "0 \<le> cash"
    "pos_Quantity p' = pos_Quantity p * ca_RatioNumerator action div ca_RatioDenominator action"
    "pos_CostBasis p' \<le> pos_CostBasis p"
proof -
  define tot where "tot = pos_Quantity p * ca_RatioNumerator action"
  define den where "den = ca_RatioDenominator action"
  have q0: "0 \<le> pos_Quantity p" "pos_ReservedQuantity p = 0"
    using assms(1,2) by (auto simp: position_ok_def split_position_def split: if_splits)
  have t0: "0 \<le> tot" "0 < den" using q0 assms(3,4) by (simp_all add: tot_def den_def)
  have sd: "tot sdiv den = tot div den" "tot smod den = tot mod den"
    using t0 by (simp_all add: sdiv_nonneg smod_nonneg)
  define rest where "rest = (if tot mod den = 0 then Inr (0, pos_CostBasis p)
         else bindR (cash_in_lieu action (pos_CostBasis p) (tot mod den) den tot) (\<lambda>(cash, cost).
              Inr (cash, wrap64 (pos_CostBasis p - cost))))"
  obtain basis where w: "IsInt64 (tot div den)" and cb: "rest = Inr (cash, basis)"
    and p': "p' = p\<lparr>pos_CostBasis := basis, pos_Quantity := tot div den\<rparr>"
    and ch: "change = wrap64 (tot div den - pos_Quantity p)"
    using assms(1)
    unfolding split_position_def Let_def tot_def [symmetric] den_def [symmetric] sd rest_def [symmetric]
    by (auto simp: bindR_Inr split: if_splits)
  have b: "0 \<le> basis \<and> basis \<le> pos_CostBasis p \<and> 0 \<le> cash"
  proof (cases "tot mod den = 0")
    case True
    then show ?thesis using cb assms(2) by (auto simp: rest_def position_ok_def)
  next
    case False
    then obtain c where c: "cash_in_lieu action (pos_CostBasis p) (tot mod den) den tot = Inr (cash, c)"
      "basis = wrap64 (pos_CostBasis p - c)" using cb by (auto simp: rest_def bindR_Inr)
    have t: "0 < tot" using False t0(1) by (cases "tot = 0") auto
    have "tot mod den \<le> tot" "0 \<le> tot mod den" using t0 by (simp_all add: zmod_le_nonneg_dividend)
    note r = cash_in_lieu_range [OF c(1) _ this(2,1) t]
    have "basis = pos_CostBasis p - c"
      using c(2) r assms(2) by (simp add: wrap64_id nonneg_diff_int64 position_ok_def)
    then show ?thesis using r assms(2) by (simp add: position_ok_def)
  qed
  have d0: "0 \<le> tot div den" using t0 by (simp add: pos_imp_zdiv_nonneg_iff)
  have "IsInt64 (tot div den - pos_Quantity p)"
    using w assms(2) d0 q0 by (simp add: IsInt64_def position_ok_def)
  then show "change = pos_Quantity p' - pos_Quantity p" using ch p' by (simp add: wrap64_id)
  have "IsInt64 basis" using b assms(2) by (auto simp: position_ok_def IsInt64_def)
  then show "held i p' = held i p" "position_ok p'" "0 \<le> cash"
    "pos_Quantity p' = pos_Quantity p * ca_RatioNumerator action div ca_RatioDenominator action"
    "pos_CostBasis p' \<le> pos_CostBasis p"
    using b p' w d0 q0(2) by (simp_all add: position_ok_def tot_def den_def)
qed

text \<open>A corporate action.\<close>

lemma apply_split_Inr:
  assumes "apply_split ps action = Inr (ps', cash, change)" "positions_ok ps"
  shows "positions_ok ps'" "0 \<le> cash" "ps' = [] \<longleftrightarrow> ps = []"
    "\<And>i. shares ps' i = shares ps i + (if i = ca_InstrumentID action then change else 0)"
proof -
  let ?h = "held (ca_InstrumentID action)"
  have n: "0 < ca_RatioNumerator action" "0 < ca_RatioDenominator action"
    using assms(1) by (auto simp: apply_split_def split: if_splits)
  have "positions_ok ps' \<and> 0 \<le> cash \<and> (ps' = [] \<longleftrightarrow> ps = []) \<and>
      (\<forall>i. shares ps' i = shares ps i + (if i = ca_InstrumentID action then change else 0))"
  proof (cases "List.filter ?h ps")
    case Nil
    then show ?thesis
      using assms n by (auto simp: apply_split_def)
  next
    case (Cons p others)
    from Cons have "p \<in> set (List.filter ?h ps)" by simp
    then have p: "p \<in> set ps" "?h p" by simp_all
    obtain p' where s: "split_position action p = Inr (p', cash, change)"
      and ps': "ps' = update_where ?h (\<lambda>_. p') ps"
      using assms(1) n Cons by (auto simp: apply_split_def bindR_Inr split: if_splits)
    note r = split_position_Inr [OF s positions_ok_member [OF assms(2) p(1)] n]
    have hp: "?h p'" using r(1) p(2) by simp
    have d: "distinct (map pos_InstrumentID ps)" using assms(2) by (simp add: positions_ok_def)
    have "(ps' = [] \<longleftrightarrow> ps = [])" using ps' by (metis length_0_conv length_update_where)
    then show ?thesis
      using ps' replace_positions_ok [OF assms(2) hp r(2)] replace_shares [OF d p hp] r(3,4) by auto
  qed
  then show "positions_ok ps'" "0 \<le> cash" "ps' = [] \<longleftrightarrow> ps = []"
    "\<And>i. shares ps' i = shares ps i + (if i = ca_InstrumentID action then change else 0)" by auto
qed

lemma action_change_Inr:
  assumes "action_change ps action eligible = Inr (ps', kind, d, change)" "positions_ok ps"
  shows "positions_ok ps'" "ps' = [] \<longleftrightarrow> ps = []" "0 \<le> total_of d"
    "bal_Reserved d = 0" "bal_Unsettled d = 0"
    "\<And>i. shares ps' i = shares ps i + (if i = ca_InstrumentID action then change else 0)"
proof -
  consider (spl) cash where "apply_split ps action = Inr (ps', cash, change)" "d = no_balances\<lparr>bal_Available := cash\<rparr>"
    | (div) amount where "dividend_amount eligible action = Inr amount" "ps' = ps" "change = 0"
        "d = no_balances\<lparr>bal_Dividends := amount\<rparr>"
    using assms(1) by (auto simp: action_change_def bindR_Inr split: if_splits)
  then have "positions_ok ps' \<and> (ps' = [] \<longleftrightarrow> ps = []) \<and> 0 \<le> total_of d \<and> bal_Reserved d = 0 \<and> bal_Unsettled d = 0
    \<and> (\<forall>i. shares ps' i = shares ps i + (if i = ca_InstrumentID action then change else 0))"
  proof cases
    case spl
    from apply_split_Inr [OF spl(1) assms(2)] spl(2) show ?thesis by (auto simp: total_of_def)
  next
    case div
    have "0 \<le> amount"
      using div(1) GrossValue_half_up(3) by (auto simp: dividend_amount_def bindR_Inr split: if_splits)
    then show ?thesis using div assms(2) by (auto simp: total_of_def)
  qed
  then show "positions_ok ps'" "ps' = [] \<longleftrightarrow> ps = []" "0 \<le> total_of d"
    "bal_Reserved d = 0" "bal_Unsettled d = 0"
    "\<And>i. shares ps' i = shares ps i + (if i = ca_InstrumentID action then change else 0)" by auto
qed

lemma ApplyCorporateAction_Inr:
  assumes "ApplyCorporateAction a ps action eligible = Inr m" "positions_ok ps"
  shows "keeps_book a ps m"
    "\<exists>e. lm_Entries m = [e] \<and> 0 \<le> total_of (le_Delta e) \<and> bal_Reserved (le_Delta e) = 0
       \<and> bal_Unsettled (le_Delta e) = 0 \<and> a_Balances (lm_Account m) = add_balances (a_Balances a) (le_Delta e)"
proof -
  obtain ps' kind d change b where k: "action_change ps action eligible = Inr (ps', kind, d, change)"
    and b: "Balances_Apply (a_Balances a) d = Inr b"
    and m: "m = \<lparr>lm_Account = with_balances a b, lm_Positions = ps',
           lm_Entries = [(ledger_entry a (''action/'' @ ca_ID action) kind (ca_InstrumentID action)
             d (ca_EffectiveAt action) (ca_AvailableAt action))\<lparr>le_QuantityDelta := change\<rparr>]\<rparr>"
    using assms(1) unfolding ApplyCorporateAction_def by (auto simp: bindR_Inr split: if_splits)
  note r = action_change_Inr [OF k assms(2)]
  have pa: "positions_after ps m = ps'" using r(2) by (auto simp: m positions_after_def)
  show "keeps_book a ps m"
    "\<exists>e. lm_Entries m = [e] \<and> 0 \<le> total_of (le_Delta e) \<and> bal_Reserved (le_Delta e) = 0
       \<and> bal_Unsettled (le_Delta e) = 0 \<and> a_Balances (lm_Account m) = add_balances (a_Balances a) (le_Delta e)"
    using b [unfolded Balances_Apply_Inr] r pa by (auto simp: m keeps_book_def)
qed

section \<open>Any sequence of operations\<close>

inductive book_step :: "book \<Rightarrow> book \<Rightarrow> bool" where
  fill: "ApplyFill a ps f = Inr m \<Longrightarrow> int64_fill f \<Longrightarrow> book_step (a, ps, es) (apply_mutation m (a, ps, es))"
| release: "ReleaseOrder a ps ord kind now = Inr m \<Longrightarrow> book_step (a, ps, es) (apply_mutation m (a, ps, es))"
| reserve: "ReserveOrders a ps ords = Inr m \<Longrightarrow> book_step (a, ps, es) (apply_mutation m (a, ps, es))"
| settle: "SettleReceivables ny a rs c now = Inr m \<Longrightarrow> book_step (a, ps, es) (apply_mutation m (a, ps, es))"
| action: "ApplyCorporateAction a ps act el = Inr m \<Longrightarrow> book_step (a, ps, es) (apply_mutation m (a, ps, es))"
| pay: "PayDividend a act e now = Inr m \<Longrightarrow> book_step (a, ps, es) (apply_mutation m (a, ps, es))"

inductive_cases book_stepE: "book_step (a, ps, es) b"

lemma book_step_inv:
  assumes "book_step b b'" "book_inv cash b"
  shows "book_inv cash b'"
  using assms
proof (induction rule: book_step.induct)
  case (fill a ps f m es)
  then show ?case by (intro keeps_book_inv ApplyFill_Inr(1)) (auto simp: book_inv_def)
next
  case (release a ps ord kind now m es)
  then show ?case by (intro keeps_book_inv ReleaseOrder_Inr(1)) (auto simp: book_inv_def)
next
  case (reserve a ps ords m es)
  then show ?case by (intro keeps_book_inv ReserveOrders_Inr) (auto simp: book_inv_def)
next
  case (settle ny a rs c now m es ps)
  then show ?case by (intro keeps_book_inv SettleReceivables_Inr) (auto simp: book_inv_def)
next
  case (action a ps act el m es)
  then show ?case by (intro keeps_book_inv ApplyCorporateAction_Inr(1)) (auto simp: book_inv_def)
next
  case (pay a act e now m ps es)
  then show ?case by (intro keeps_book_inv PayDividend_Inr(1)) (auto simp: book_inv_def)
qed

definition new_book :: "Money \<Rightarrow> Account \<Rightarrow> book" where
  "new_book cash account = (with_balances account (no_balances\<lparr>bal_Available := cash\<rparr>), [], [])"

lemma new_book_inv: "0 \<le> cash \<Longrightarrow> IsInt64 cash \<Longrightarrow> book_inv cash (new_book cash a)"
  by (simp add: book_inv_def new_book_def balances_ok_def positions_ok_def)
    (simp add: IsInt64_def)

lemma book_reachable_inv:
  assumes "book_step\<^sup>*\<^sup>* b b'" "book_inv cash b"
  shows "book_inv cash b'"
  using assms by (induction rule: rtranclp_induct) (auto intro: book_step_inv)

lemma total_add_entries: "total_of (add_entries b es) = total_of b + (\<Sum>e\<leftarrow>es. total_of (le_Delta e))"
  by (induction es arbitrary: b) simp_all

end
