(* ===== verification/Investment_Execution.thy ===== *)
theory Investment_Execution
  imports Investment_Risk Investment_Book
begin

text \<open>
  Matching an order at the opening of its session (\<open>investment/domain/execution.go\<close>) and the laws
  that tie the risk limits, the match and the ledger together: what a decision admits, that a fill
  stays inside the order, its capacity and its reservation, and that the ledger accepts it.
\<close>

record MatchInput =
  mi_Order :: Order
  mi_OpenPrice :: Price
  mi_AvailableCapacity :: Quantity
  mi_Portfolio :: PortfolioInput
  mi_RecordedAt :: time

record FillResult =
  fr_Fill :: "Fill option"
  fr_CancelledQuantity :: Quantity
  fr_Reason :: string

definition match_risk :: "MatchInput \<Rightarrow> Order \<Rightarrow> Price \<Rightarrow> OrderRiskInput" where
  "match_risk inp ord price =
     (let pf = mi_Portfolio inp;
          orders = (if list_ex (\<lambda>e. o_ID e = o_ID ord) (pf_Orders pf) then pf_Orders pf
                    else pf_Orders pf @ [ord])
      in \<lparr>ri_Account = pf_Account pf, ri_Positions = pf_Positions pf, ri_Orders = orders,
          ri_Snapshot = pf_Snapshot pf, ri_Evaluation = no_evaluation,
          ri_InstrumentID = o_InstrumentID ord, ri_Side = o_Side ord, ri_Reason = o_Reason ord,
          ri_ExcludeOrderID = o_ID ord, ri_Quantity = o_Quantity ord, ri_Price = price,
          ri_NAV = pf_NAV pf, ri_PeakNAV = pf_PeakNAV pf, ri_Policy = pf_Policy pf,
          ri_SessionTurnover = pf_SessionTurnover pf, ri_Automatic = False,
          ri_ReservationBudget = Some (o_ReservedCash ord), ri_Prices = pf_Prices pf,
          ri_Parameters = None, ri_TargetOpenAt = o_TargetOpenAt ord\<rparr>)"

definition match_input_ok :: "MatchInput \<Rightarrow> Order \<Rightarrow> bool" where
  "match_input_ok inp ord \<longleftrightarrow>
     \<not> (o_State ord \<noteq> OrderAwaitingBar \<or> mi_RecordedAt inp < o_TargetOpenAt ord \<or> o_Quantity ord \<le> 0
        \<or> o_Capacity ord < 0 \<or> mi_AvailableCapacity inp < 0 \<or> o_ReservedCash ord < 0
        \<or> o_ReservedQuantity ord < 0)"

definition match_quantity :: "MatchInput \<Rightarrow> Order \<Rightarrow> RiskDecision \<Rightarrow> Quantity" where
  "match_quantity inp ord risk =
     (let qty = fold (\<lambda>limit qty. if qty > limit then limit else qty)
            [rd_MaxQuantity risk, o_Capacity ord, mi_AvailableCapacity inp] (o_Quantity ord)
      in if o_Side ord = ''sell'' \<and> qty > o_ReservedQuantity ord then o_ReservedQuantity ord else qty)"

definition match_fill :: "MatchInput \<Rightarrow> Order \<Rightarrow> Quantity \<Rightarrow> Price \<Rightarrow> Money \<Rightarrow> Money \<Rightarrow> Fill" where
  "match_fill inp ord qty price gross fee =
     \<lparr>f_ID = [], f_AccountID = o_AccountID ord, f_OrderID = o_ID ord,
      f_InstrumentID = o_InstrumentID ord, f_Side = o_Side ord, f_Reason = o_Reason ord,
      f_Quantity = qty, f_Price = price, f_Gross = gross, f_Fee = fee,
      f_ReservedCash = o_ReservedCash ord, f_ReservedQuantity = o_ReservedQuantity ord,
      f_EffectiveAt = o_TargetOpenAt ord, f_RecordedAt = mi_RecordedAt inp, f_SettlesAt = 0\<rparr>"

definition MatchAtOpen :: "(int \<Rightarrow> time) option \<Rightarrow> MatchInput \<Rightarrow> FillResult inv_result" where
  "MatchAtOpen new_york inp =
     (let ord = AdvanceOrder (mi_Order inp) (mi_RecordedAt inp);
          none = (\<lambda>reason. Inr \<lparr>fr_Fill = None, fr_CancelledQuantity = o_Quantity (mi_Order inp),
                               fr_Reason = reason\<rparr>)
      in if \<not> match_input_ok inp ord then Inl ErrInvalidInput
      else bindR (SlippedPrice (mi_OpenPrice inp) (o_Side ord)) (\<lambda>price.
      bindR (ValidateOrder (match_risk inp ord price)) (\<lambda>risk.
      let qty = match_quantity inp ord risk in
      if qty \<le> 0
      then none (if rd_ReasonCode risk = [] then ''capacity_exhausted'' else rd_ReasonCode risk)
      else bindR (GrossValue price qty) (\<lambda>gross.
      bindR (TradeFee gross) (\<lambda>fee.
      if o_Side ord = ''sell'' \<and> gross < fee then none ''gross_below_fee''
      else let fill = match_fill inp ord qty price gross fee;
               cancelled = wrap64 (o_Quantity ord - qty) in
      bindR (if o_Side ord = ''sell''
             then bindR (SettlementStart new_york (s_Calendar (pf_Snapshot (mi_Portfolio inp)))
                          (o_TargetOpenAt ord)) (\<lambda>t. Inr (fill\<lparr>f_SettlesAt := t\<rparr>))
             else Inr fill) (\<lambda>fill.
      Inr \<lparr>fr_Fill = Some fill, fr_CancelledQuantity = cancelled,
           fr_Reason = (if cancelled > 0 then ''unfilled_remainder_cancelled'' else [])\<rparr>))))))"

section \<open>What a decision admits\<close>

lemma scalePrice_Inr:
  assumes "scalePrice p n d = Inr q"
  shows "0 < q" "IsInt64 q" "0 < p"
  using assms by (auto simp: scalePrice_def Let_def split: if_splits)

lemma decide_simps [simp]:
  "rd_MaxQuantity (decide inp r k) = k" "rd_Allowed (decide inp r k) = (ri_Quantity inp \<le> k)"
  "rd_ReasonCode (decide inp r k) = (if ri_Quantity inp \<le> k then [] else r)"
  by (simp_all add: decide_def Let_def)

lemma refused_simps [simp]:
  "rd_MaxQuantity (refused r) = 0" "rd_Allowed (refused r) = False" "rd_ReasonCode (refused r) = r"
  by (simp_all add: refused_def)

lemma buy_fits_down:
  assumes "buy_fits room p q" "0 < q'" "q' \<le> q"
  shows "buy_fits room p q'"
proof -
  obtain g c where g: "GrossValue p q = Inr g" and l: "g \<le> br_single room" "g \<le> br_sector room"
    "g \<le> br_stocks room" "g \<le> br_turnover room" and c: "purchaseCost p q = Inr c" "c \<le> br_cash room"
    using assms(1) by (auto simp: buy_fits_def split: sum.splits)
  obtain g' where g': "GrossValue p q' = Inr g'" "g' \<le> g" using GrossValue_mono [OF g assms(2,3)] by blast
  obtain c' where c': "purchaseCost p q' = Inr c'" "c' \<le> c" using purchaseCost_mono [OF c(1) assms(2,3)] by blast
  show ?thesis using g' c' l c(2) by (simp add: buy_fits_def)
qed

lemma sell_fits_down:
  assumes "sell_fits inp t q" "0 < q'" "q' \<le> q"
  shows "sell_fits inp t q'"
proof (cases "emergencySell (ri_Reason inp)")
  case False
  with assms(1) obtain g where g: "GrossValue (ri_Price inp) q = Inr g" "g \<le> t"
    by (auto simp: sell_fits_def split: sum.splits)
  then show ?thesis using GrossValue_mono [OF g(1) assms(2,3)] by (auto simp: sell_fits_def)
qed (simp add: sell_fits_def)

lemma sellable_range: "sellable inp = Inr n \<Longrightarrow> 0 \<le> n \<and> n \<le> 1000000000"
  by (auto simp: sellable_def bindR_Inr Let_def split: if_splits)

lemma decide_quoted_cases:
  assumes "decide_quoted inp prices instruments = Inr d"
  shows "(\<exists>reason. d = refused reason) \<or>
     (\<exists>instrument turnover.
        instruments (ri_InstrumentID inp) = Some instrument \<and> i_Kind instrument = ''stock''
        \<and> i_Tradable instrument \<and> Industry (i_SIC instrument) \<noteq> ''unknown''
        \<and> turnover_left inp prices = Inr turnover
        \<and> (if ri_Side inp = ''sell'' then decide_sell inp turnover
            else decide_buy inp prices instruments (Industry (i_SIC instrument)) turnover) = Inr d)"
proof (cases "instruments (ri_InstrumentID inp)")
  case (Some i)
  note d = assms [unfolded decide_quoted_def Some option.case Let_def]
  show ?thesis
  proof (cases "i_Kind i \<noteq> ''stock'' \<or> \<not> i_Tradable i \<or> Industry (i_SIC i) = ''unknown''")
    case False
    then show ?thesis using d Some by (auto simp: bindR_Inr)
  qed (use d in \<open>auto split: if_splits\<close>)
qed (use assms in \<open>auto simp: decide_quoted_def\<close>)

lemma ValidateOrder_cases:
  assumes "ValidateOrder inp = Inr d"
  shows "risk_input_ok inp" and "RiskPolicy_Validate (ri_Policy inp) = Inr ()" and
    "(\<exists>reason. d = refused reason) \<or>
     (\<exists>prices instruments.
        quoteBook (ri_Snapshot inp) (ri_Prices inp) = Inr (prices, instruments)
        \<and> decide_quoted inp (prices(ri_InstrumentID inp \<mapsto> ri_Price inp)) instruments = Inr d)"
  using assms unfolding ValidateOrder_def Let_def by (auto simp: bindR_Inr split: if_splits)

text \<open>
  The quantity a decision admits: no larger one fits, and it fits unless it is zero.
\<close>

lemma decide_buy_room:
  assumes "decide_buy inp prices instruments industry turnover = Inr d"
  shows "(\<exists>reason. d = refused reason) \<or>
    (\<exists>room. room_for inp prices instruments industry turnover = Inr room
       \<and> rd_MaxQuantity d = maxWholeQuantity 1000000000 (buy_fits room (ri_Price inp))
       \<and> rd_Allowed d = (ri_Quantity inp \<le> rd_MaxQuantity d))"
  using assms unfolding decide_buy_def Let_def by (auto simp: bindR_Inr split: if_splits)

lemma decide_sell_room:
  assumes "decide_sell inp turnover = Inr d"
  shows "\<exists>available. sellable inp = Inr available
    \<and> rd_MaxQuantity d = maxWholeQuantity available (sell_fits inp turnover)
    \<and> rd_Allowed d = (ri_Quantity inp \<le> rd_MaxQuantity d)"
  using assms unfolding decide_sell_def by (auto simp: bindR_Inr)

lemma ValidateOrder_range:
  assumes "ValidateOrder inp = Inr d"
  shows "0 \<le> rd_MaxQuantity d" "rd_MaxQuantity d \<le> 1000000000"
proof -
  have m: "0 \<le> maxWholeQuantity 1000000000 f \<and> maxWholeQuantity 1000000000 f \<le> 1000000000" for f
    by (rule maxWholeQuantity_range) simp
  have s: "0 \<le> maxWholeQuantity n f \<and> maxWholeQuantity n f \<le> 1000000000" if "0 \<le> n" "n \<le> 1000000000" for n f
    using maxWholeQuantity_range [OF that(1), of f] that(2) by simp
  have dq: "0 \<le> rd_MaxQuantity d \<and> rd_MaxQuantity d \<le> 1000000000"
    if "decide_quoted inp prices instruments = Inr d" for prices instruments
    using decide_quoted_cases [OF that]
  proof (elim disjE exE conjE)
    fix instrument turnover
    assume a: "(if ri_Side inp = ''sell'' then decide_sell inp turnover
            else decide_buy inp prices instruments (Industry (i_SIC instrument)) turnover) = Inr d"
    show ?thesis
    proof (cases "ri_Side inp = ''sell''")
      case True
      with a have "decide_sell inp turnover = Inr d" by simp
      from decide_sell_room [OF this] show ?thesis using s sellable_range by auto
    next
      case False
      with a have "decide_buy inp prices instruments (Industry (i_SIC instrument)) turnover = Inr d" by simp
      from decide_buy_room [OF this] show ?thesis using m by auto
    qed
  qed simp
  then have "0 \<le> rd_MaxQuantity d \<and> rd_MaxQuantity d \<le> 1000000000"
    using ValidateOrder_cases(3) [OF assms] by auto
  then show "0 \<le> rd_MaxQuantity d" "rd_MaxQuantity d \<le> 1000000000" by auto
qed

text \<open>A purchase that is admitted respects every limit; one share more would not.\<close>

lemma decide_buy_exact:
  assumes "room_for inp prices instruments industry turnover = Inr room"
    and "rd_MaxQuantity d = maxWholeQuantity 1000000000 (buy_fits room (ri_Price inp))"
    and "0 < q" "q \<le> 1000000000"
  shows "q \<le> rd_MaxQuantity d \<longleftrightarrow> buy_fits room (ri_Price inp) q"
proof
  assume q: "q \<le> rd_MaxQuantity d"
  then have "buy_fits room (ri_Price inp) (rd_MaxQuantity d)"
    using maxWholeQuantity_fits [of 1000000000 "buy_fits room (ri_Price inp)"] assms(2,3) by simp
  from buy_fits_down [OF this assms(3) q] show "buy_fits room (ri_Price inp) q" .
next
  assume "buy_fits room (ri_Price inp) q"
  then show "q \<le> rd_MaxQuantity d" unfolding assms(2)
    using assms(3,4) buy_fits_down by (intro maxWholeQuantity_greatest) blast+
qed

lemma decide_sell_exact:
  assumes "sellable inp = Inr available"
    and "rd_MaxQuantity d = maxWholeQuantity available (sell_fits inp turnover)" "0 < q"
  shows "q \<le> rd_MaxQuantity d \<longleftrightarrow> q \<le> available \<and> sell_fits inp turnover q"
proof
  have a: "0 \<le> available" using sellable_range [OF assms(1)] by simp
  assume q: "q \<le> rd_MaxQuantity d"
  have r: "rd_MaxQuantity d \<le> available" using maxWholeQuantity_range [OF a] assms(2) by simp
  have "sell_fits inp turnover (rd_MaxQuantity d)"
    using maxWholeQuantity_fits [OF a, of "sell_fits inp turnover"] assms(2,3) q by simp
  from sell_fits_down [OF this assms(3) q] q r show "q \<le> available \<and> sell_fits inp turnover q" by simp
next
  assume "q \<le> available \<and> sell_fits inp turnover q"
  then show "q \<le> rd_MaxQuantity d" unfolding assms(2)
    using assms(3) sell_fits_down by (intro maxWholeQuantity_greatest) blast+
qed

section \<open>What a match fills\<close>

lemma AdvanceOrder_simps [simp]:
  "o_ID (AdvanceOrder ord now) = o_ID ord" "o_AccountID (AdvanceOrder ord now) = o_AccountID ord"
  "o_InstrumentID (AdvanceOrder ord now) = o_InstrumentID ord" "o_Side (AdvanceOrder ord now) = o_Side ord"
  "o_Quantity (AdvanceOrder ord now) = o_Quantity ord"
  "o_ReservedQuantity (AdvanceOrder ord now) = o_ReservedQuantity ord"
  "o_Capacity (AdvanceOrder ord now) = o_Capacity ord" "o_Reason (AdvanceOrder ord now) = o_Reason ord"
  "o_ReservedCash (AdvanceOrder ord now) = o_ReservedCash ord"
  "o_TargetOpenAt (AdvanceOrder ord now) = o_TargetOpenAt ord"
  "o_ExpiresAt (AdvanceOrder ord now) = o_ExpiresAt ord" "Terminal (AdvanceOrder ord now) = Terminal ord"
  by (auto simp: AdvanceOrder_def Terminal_def)

lemma match_quantity_le:
  "match_quantity inp ord risk \<le> o_Quantity ord" "match_quantity inp ord risk \<le> rd_MaxQuantity risk"
  "match_quantity inp ord risk \<le> o_Capacity ord" "match_quantity inp ord risk \<le> mi_AvailableCapacity inp"
  "o_Side ord = ''sell'' \<Longrightarrow> match_quantity inp ord risk \<le> o_ReservedQuantity ord"
  by (auto simp: match_quantity_def Let_def)

lemma MatchAtOpen_Some:
  assumes "MatchAtOpen ny inp = Inr r" "fr_Fill r = Some f"
  defines "ord \<equiv> AdvanceOrder (mi_Order inp) (mi_RecordedAt inp)"
  shows "\<exists>price risk. match_input_ok inp ord \<and> SlippedPrice (mi_OpenPrice inp) (o_Side ord) = Inr price
      \<and> ValidateOrder (match_risk inp ord price) = Inr risk
      \<and> f_Quantity f = match_quantity inp ord risk \<and> f_Price f = price
      \<and> 0 < f_Quantity f \<and> GrossValue price (f_Quantity f) = Inr (f_Gross f)
      \<and> TradeFee (f_Gross f) = Inr (f_Fee f) \<and> (o_Side ord = ''sell'' \<longrightarrow> f_Fee f \<le> f_Gross f)
      \<and> f_OrderID f = o_ID ord \<and> f_AccountID f = o_AccountID ord \<and> f_Side f = o_Side ord
      \<and> f_InstrumentID f = o_InstrumentID ord \<and> f_ReservedCash f = o_ReservedCash ord
      \<and> f_ReservedQuantity f = o_ReservedQuantity ord
      \<and> fr_CancelledQuantity r = wrap64 (o_Quantity ord - f_Quantity f)"
proof -
  note m = assms(1) [unfolded MatchAtOpen_def ord_def [symmetric] Let_def]
  have ok: "match_input_ok inp ord" using m by (simp split: if_splits)
  obtain price where p: "SlippedPrice (mi_OpenPrice inp) (o_Side ord) = Inr price"
    using m ok by (auto simp: bindR_Inr)
  obtain risk where v: "ValidateOrder (match_risk inp ord price) = Inr risk"
    using m ok p by (auto simp: bindR_Inr)
  define qty where "qty = match_quantity inp ord risk"
  have q: "0 < qty" using m ok p v assms(2) by (auto simp: qty_def [symmetric] split: if_splits)
  obtain gross where g: "GrossValue price qty = Inr gross"
    using m ok p v q by (auto simp: qty_def [symmetric] bindR_Inr)
  obtain fee where fe: "TradeFee gross = Inr fee"
    using m ok p v q g by (auto simp: qty_def [symmetric] bindR_Inr)
  have s: "\<not> (o_Side ord = ''sell'' \<and> gross < fee)"
    using m ok p v q g fe assms(2) by (auto simp: qty_def [symmetric])
  have "bindR (if o_Side ord = ''sell''
             then bindR (SettlementStart ny (s_Calendar (pf_Snapshot (mi_Portfolio inp)))
                          (o_TargetOpenAt ord)) (\<lambda>t. Inr ((match_fill inp ord qty price gross fee)\<lparr>f_SettlesAt := t\<rparr>))
             else Inr (match_fill inp ord qty price gross fee)) (\<lambda>fill.
      Inr \<lparr>fr_Fill = Some fill, fr_CancelledQuantity = wrap64 (o_Quantity ord - qty),
           fr_Reason = (if wrap64 (o_Quantity ord - qty) > 0 then ''unfilled_remainder_cancelled'' else [])\<rparr>) = Inr r"
    using m ok p v q g fe s unfolding qty_def by simp
  then have "f = match_fill inp ord qty price gross fee
      \<or> (\<exists>t. f = (match_fill inp ord qty price gross fee)\<lparr>f_SettlesAt := t\<rparr>)"
    and "fr_CancelledQuantity r = wrap64 (o_Quantity ord - qty)"
    using assms(2) by (auto simp: bindR_Inr split: if_splits)
  then show ?thesis
    by (intro exI [of _ price] exI [of _ risk])
      (use ok p v q g fe s in \<open>auto simp: match_fill_def qty_def\<close>)
qed

end
