(* ===== verification/Investment_Limits.thy ===== *)
theory Investment_Limits
  imports Investment_Execution
begin

text \<open>
  The limits in figures: a policy that validates grants at most a tenth of the net asset value to a
  stock, three tenths to an industry, eight tenths to stocks and two tenths to a session's turnover
  (\<open>DefaultRiskPolicy\<close>, \<open>RiskPolicy.Validate\<close>, \<open>moneyLimit\<close>), and a purchase that a
  decision admits stays inside them together with what is already held.
\<close>

section \<open>Policies\<close>

definition float_policy :: "RiskPolicy \<Rightarrow> bool" where
  "float_policy p \<longleftrightarrow> list_all is_float [rp_SingleWeight p, rp_IndustryWeight p, rp_StockWeight p,
     rp_DrawdownPause p, rp_StopLoss p, rp_TurnoverLimit p]"

lemma limit_floats:
  "round64 (1 / 10) = Finite (3602879701896397 / 36028797018963968)"
  "round64 (3 / 10) = Finite (5404319552844595 / 18014398509481984)"
  "round64 (8 / 10) = Finite (3602879701896397 / 4503599627370496)"
  "round64 (15 / 100) = Finite (5404319552844595 / 36028797018963968)"
  "round64 (2 / 10) = Finite (3602879701896397 / 18014398509481984)"
  by code_simp+

lemma limit_decimals:
  "shortest_decimal (Finite (3602879701896397 / 36028797018963968)) = 1 / 10"
  "shortest_decimal (Finite (5404319552844595 / 18014398509481984)) = 3 / 10"
  "shortest_decimal (Finite (3602879701896397 / 4503599627370496)) = 8 / 10"
  "shortest_decimal (Finite (5404319552844595 / 36028797018963968)) = 15 / 100"
  "shortest_decimal (Finite (3602879701896397 / 18014398509481984)) = 2 / 10"
  by code_simp+

text \<open>A value that passes the check against a default is a positive fraction up to it.\<close>

lemma value_within:
  assumes "policy_value_ok (x, Finite c)" "is_float x"
    and "round64 r = Finite c" "0 < r" "shortest_decimal (Finite c) = r"
  shows "0 < policyFraction x \<and> policyFraction x \<le> r"
proof -
  obtain v where v: "x = Finite v" "0 < v" "v \<le> c"
    using assms(1) by (cases x) (auto simp: policy_value_ok_def IsNaN_def IsInf_def fle_def feq_def)
  have f: "is_float (Finite v)" using assms(2) v(1) by simp
  show ?thesis
    using shortest_decimal_le [OF f v(2) assms(3,4) v(3) assms(5)] by (simp add: policyFraction_def v(1))
qed

lemma policy_fractions:
  assumes "RiskPolicy_Validate p = Inr ()" "float_policy p"
  shows "0 < policyFraction (rp_SingleWeight p)" "policyFraction (rp_SingleWeight p) \<le> 1 / 10"
    "0 < policyFraction (rp_IndustryWeight p)" "policyFraction (rp_IndustryWeight p) \<le> 3 / 10"
    "0 < policyFraction (rp_StockWeight p)" "policyFraction (rp_StockWeight p) \<le> 8 / 10"
    "0 < policyFraction (rp_DrawdownPause p)" "policyFraction (rp_DrawdownPause p) \<le> 15 / 100"
    "0 < policyFraction (rp_StopLoss p)" "policyFraction (rp_StopLoss p) \<le> 1 / 10"
    "0 < policyFraction (rp_TurnoverLimit p)" "policyFraction (rp_TurnoverLimit p) \<le> 2 / 10"
proof -
  have v: "policy_value_ok (rp_SingleWeight p, round64 (1 / 10))"
    "policy_value_ok (rp_IndustryWeight p, round64 (3 / 10))"
    "policy_value_ok (rp_StockWeight p, round64 (8 / 10))"
    "policy_value_ok (rp_DrawdownPause p, round64 (15 / 100))"
    "policy_value_ok (rp_StopLoss p, round64 (1 / 10))"
    "policy_value_ok (rp_TurnoverLimit p, round64 (2 / 10))"
    using assms(1) unfolding RiskPolicy_Validate_def DefaultRiskPolicy_def Let_def
    by (auto simp only: list.pred_inject RiskPolicy.select_convs split: if_splits)
  have f: "is_float (rp_SingleWeight p)" "is_float (rp_IndustryWeight p)" "is_float (rp_StockWeight p)"
    "is_float (rp_DrawdownPause p)" "is_float (rp_StopLoss p)" "is_float (rp_TurnoverLimit p)"
    using assms(2) by (simp_all add: float_policy_def)
  show "0 < policyFraction (rp_SingleWeight p)" "policyFraction (rp_SingleWeight p) \<le> 1 / 10"
    using value_within [OF v(1) [unfolded limit_floats] f(1) limit_floats(1) _ limit_decimals(1)] by simp_all
  show "0 < policyFraction (rp_IndustryWeight p)" "policyFraction (rp_IndustryWeight p) \<le> 3 / 10"
    using value_within [OF v(2) [unfolded limit_floats] f(2) limit_floats(2) _ limit_decimals(2)] by simp_all
  show "0 < policyFraction (rp_StockWeight p)" "policyFraction (rp_StockWeight p) \<le> 8 / 10"
    using value_within [OF v(3) [unfolded limit_floats] f(3) limit_floats(3) _ limit_decimals(3)] by simp_all
  show "0 < policyFraction (rp_DrawdownPause p)" "policyFraction (rp_DrawdownPause p) \<le> 15 / 100"
    using value_within [OF v(4) [unfolded limit_floats] f(4) limit_floats(4) _ limit_decimals(4)] by simp_all
  show "0 < policyFraction (rp_StopLoss p)" "policyFraction (rp_StopLoss p) \<le> 1 / 10"
    using value_within [OF v(5) [unfolded limit_floats] f(5) limit_floats(1) _ limit_decimals(1)] by simp_all
  show "0 < policyFraction (rp_TurnoverLimit p)" "policyFraction (rp_TurnoverLimit p) \<le> 2 / 10"
    using value_within [OF v(6) [unfolded limit_floats] f(6) limit_floats(5) _ limit_decimals(5)] by simp_all
qed

section \<open>Amounts\<close>

lemma truncated_floor:
  assumes "0 \<le> r"
  shows "truncated r = \<lfloor>r\<rfloor>"
proof -
  obtain n d where q: "quotient_of r = (n, d)" by force
  then have d: "0 < d" and r: "r = of_int n / of_int d"
    by (simp_all add: quotient_of_denom_pos quotient_of_div)
  then have "0 \<le> n" using assms by (simp add: zero_le_divide_iff)
  then have "truncated r = n div d" using d by (simp add: truncated_def q sdiv_nonneg)
  then show ?thesis unfolding r by (simp add: floor_divide_of_int_eq)
qed

lemma moneyLimit_floor:
  assumes "0 \<le> nav" "IsInt64 nav" "0 < policyFraction w" "policyFraction w \<le> 1"
  shows "moneyLimit nav w = \<lfloor>of_int nav * policyFraction w\<rfloor>" "0 \<le> moneyLimit nav w" "moneyLimit nav w \<le> nav"
proof -
  have b: "0 \<le> of_int nav * policyFraction w" "of_int nav * policyFraction w \<le> of_int nav"
    using assms by (simp_all add: mult_left_le)
  then have f: "0 \<le> \<lfloor>of_int nav * policyFraction w\<rfloor>" "\<lfloor>of_int nav * policyFraction w\<rfloor> \<le> nav"
    by (simp_all add: floor_le_iff le_floor_iff)
  have "IsInt64 0" by (simp add: IsInt64_def)
  from IsInt64_between [OF this assms(2) f] have "IsInt64 \<lfloor>of_int nav * policyFraction w\<rfloor>" .
  then show e: "moneyLimit nav w = \<lfloor>of_int nav * policyFraction w\<rfloor>"
    unfolding moneyLimit_def truncated_floor [OF b(1)] by (rule wrap64_id)
  show "0 \<le> moneyLimit nav w" "moneyLimit nav w \<le> nav" using f e by simp_all
qed

section \<open>Exposure\<close>

definition exposure_ok :: "exposure \<Rightarrow> bool" where
  "exposure_ok x \<longleftrightarrow> 0 \<le> xp_stocks x \<and> IsInt64 (xp_stocks x)
     \<and> (\<forall>i. 0 \<le> xp_byID x i \<and> IsInt64 (xp_byID x i)) \<and> (\<forall>i. 0 \<le> xp_byIndustry x i \<and> IsInt64 (xp_byIndustry x i))"

lemma no_exposure_ok: "exposure_ok no_exposure"
  by (simp add: exposure_ok_def no_exposure_def IsInt64_def)

lemma add_exposure_ok:
  assumes "add_exposure ins i v x = Inr y" "exposure_ok x" "0 \<le> v"
  shows "exposure_ok y"
  using assms by (auto simp: add_exposure_def Let_def bindR_Inr exposure_ok_def split: option.splits if_splits)

lemma portfolioExposure_ok:
  assumes "portfolioExposure ps ords prices ins exclude = Inr x"
  shows "exposure_ok x"
proof -
  obtain y seen where y: "foldR ps (no_exposure, []) (position_exposure prices ins) = Inr (y, seen)"
    and x: "foldR ords y (order_exposure ins exclude) = Inr x"
    using assms by (auto simp: portfolioExposure_def bindR_Inr)
  have "exposure_ok (fst (y, seen))"
  proof (rule foldR_inv [OF y, where P = "\<lambda>b. exposure_ok (fst b)"])
    fix p b b' assume k: "exposure_ok (fst b)" and s: "position_exposure prices ins p b = Inr b'"
    have h: "b' = (fst b, pos_InstrumentID p # snd b)
      \<or> (\<exists>price v y. GrossValue price (pos_Quantity p) = Inr v
           \<and> add_exposure ins (pos_InstrumentID p) v (fst b) = Inr y \<and> fst b' = y)"
      using s by (cases b) (auto simp: position_exposure_def bindR_Inr split: if_splits option.splits)
    then show "exposure_ok (fst b')"
      using k add_exposure_ok GrossValue_half_up(3) by fastforce
  qed (simp add: no_exposure_ok)
  then have y0: "exposure_ok y" by simp
  show ?thesis
  proof (rule foldR_inv [OF x, where P = exposure_ok])
    fix ord b b' assume k: "exposure_ok b" and s: "order_exposure ins exclude ord b = Inr b'"
    then have "b' = b \<or> (0 \<le> o_ReservedCash ord \<and> add_exposure ins (o_InstrumentID ord) (o_ReservedCash ord) b = Inr b')"
      by (auto simp: order_exposure_def split: if_splits)
    then show "exposure_ok b'" using k add_exposure_ok by blast
  qed (rule y0)
qed

section \<open>A purchase inside the limits\<close>

lemma nonneg_minus_int64: "0 \<le> a \<Longrightarrow> IsInt64 a \<Longrightarrow> 0 \<le> b \<Longrightarrow> IsInt64 b \<Longrightarrow> IsInt64 (a - b)"
  by (simp add: IsInt64_def)

text \<open>
  The quantities a decision on a purchase admits are those whose value, with what is held and
  reserved already, keeps every limit, and whose cost fits the cash.
\<close>

lemma decide_buy_limits:
  assumes "decide_buy inp prices ins industry turnover = Inr d" "0 < q" "q \<le> rd_MaxQuantity d"
    and "RiskPolicy_Validate (ri_Policy inp) = Inr ()" "float_policy (ri_Policy inp)"
    and "0 \<le> ri_NAV inp" "IsInt64 (ri_NAV inp)"
  shows "\<exists>x g c. portfolioExposure (ri_Positions inp) (ri_Orders inp) prices ins (ri_ExcludeOrderID inp) = Inr x
    \<and> GrossValue (ri_Price inp) q = Inr g \<and> purchaseCost (ri_Price inp) q = Inr c
    \<and> c \<le> (case ri_ReservationBudget inp of None \<Rightarrow> bal_Available (a_Balances (ri_Account inp)) | Some b \<Rightarrow> b)
    \<and> g \<le> turnover
    \<and> xp_byID x (ri_InstrumentID inp) + g \<le> moneyLimit (ri_NAV inp) (rp_SingleWeight (ri_Policy inp))
    \<and> xp_byIndustry x industry + g \<le> moneyLimit (ri_NAV inp) (rp_IndustryWeight (ri_Policy inp))
    \<and> xp_stocks x + g \<le> moneyLimit (ri_NAV inp) (rp_StockWeight (ri_Policy inp))"
proof -
  have "\<not> (\<exists>reason. d = refused reason)" using assms(2,3) by auto
  then obtain room where room: "room_for inp prices ins industry turnover = Inr room"
    and m: "rd_MaxQuantity d = maxWholeQuantity 1000000000 (buy_fits room (ri_Price inp))"
    using decide_buy_room [OF assms(1)] by blast
  have "q \<le> 1000000000"
    using assms(3) m maxWholeQuantity_range [of 1000000000 "buy_fits room (ri_Price inp)"] by simp
  then have fits: "buy_fits room (ri_Price inp) q"
    using decide_buy_exact [OF room m assms(2)] assms(3) by simp
  obtain x where x: "portfolioExposure (ri_Positions inp) (ri_Orders inp) prices ins (ri_ExcludeOrderID inp) = Inr x"
    using room by (auto simp: room_for_def bindR_Inr)
  define cash where "cash = (case ri_ReservationBudget inp of
      None \<Rightarrow> bal_Available (a_Balances (ri_Account inp)) | Some b \<Rightarrow> b)"
  define single where "single = moneyLimit (ri_NAV inp) (rp_SingleWeight (ri_Policy inp))"
  define sector where "sector = moneyLimit (ri_NAV inp) (rp_IndustryWeight (ri_Policy inp))"
  define stocks where "stocks = moneyLimit (ri_NAV inp) (rp_StockWeight (ri_Policy inp))"
  have r: "room = \<lparr>br_single = wrap64 (single - xp_byID x (ri_InstrumentID inp)),
      br_sector = wrap64 (sector - xp_byIndustry x industry), br_stocks = wrap64 (stocks - xp_stocks x),
      br_turnover = turnover, br_cash = cash\<rparr>"
    using room x by (auto simp: room_for_def Let_def cash_def single_def sector_def stocks_def split: if_splits)
  note f = policy_fractions [OF assms(4,5)]
  have l: "0 \<le> single" "single \<le> ri_NAV inp" "0 \<le> sector" "sector \<le> ri_NAV inp" "0 \<le> stocks" "stocks \<le> ri_NAV inp"
    unfolding single_def sector_def stocks_def
    using f(1-6) by (auto intro!: moneyLimit_floor(2,3) [OF assms(6,7)])
  have i64: "IsInt64 single" "IsInt64 sector" "IsInt64 stocks"
    using l assms(7) by (auto simp: IsInt64_def)
  have xo: "exposure_ok x" using portfolioExposure_ok [OF x] .
  have w: "wrap64 (single - xp_byID x (ri_InstrumentID inp)) = single - xp_byID x (ri_InstrumentID inp)"
    "wrap64 (sector - xp_byIndustry x industry) = sector - xp_byIndustry x industry"
    "wrap64 (stocks - xp_stocks x) = stocks - xp_stocks x"
    using xo l i64 by (auto simp: exposure_ok_def intro!: wrap64_id nonneg_minus_int64)
  obtain g c where gc: "GrossValue (ri_Price inp) q = Inr g" "purchaseCost (ri_Price inp) q = Inr c"
    "g \<le> br_single room" "g \<le> br_sector room" "g \<le> br_stocks room" "g \<le> br_turnover room" "c \<le> br_cash room"
    using fits by (auto simp: buy_fits_def split: sum.splits)
  have "c \<le> cash \<and> g \<le> turnover \<and> xp_byID x (ri_InstrumentID inp) + g \<le> single
    \<and> xp_byIndustry x industry + g \<le> sector \<and> xp_stocks x + g \<le> stocks"
    using gc(3-7) w by (simp add: r)
  then show ?thesis
    using x gc(1,2) unfolding cash_def single_def sector_def stocks_def by blast
qed

lemma ValidateOrder_buy:
  assumes "ValidateOrder inp = Inr d" "ri_Side inp = ''buy''" "0 < q" "q \<le> rd_MaxQuantity d"
  obtains prices ins instrument turnover where
    "quoteBook (ri_Snapshot inp) (ri_Prices inp) = Inr (prices, ins)"
    "ins (ri_InstrumentID inp) = Some instrument" "i_Kind instrument = ''stock''" "i_Tradable instrument"
    "turnover_left inp (prices(ri_InstrumentID inp \<mapsto> ri_Price inp)) = Inr turnover"
    "decide_buy inp (prices(ri_InstrumentID inp \<mapsto> ri_Price inp)) ins (Industry (i_SIC instrument)) turnover = Inr d"
proof -
  have n: "\<not> (\<exists>reason. d = refused reason)" using assms(3,4) by auto
  then obtain prices ins where q: "quoteBook (ri_Snapshot inp) (ri_Prices inp) = Inr (prices, ins)"
    and dq: "decide_quoted inp (prices(ri_InstrumentID inp \<mapsto> ri_Price inp)) ins = Inr d"
    using ValidateOrder_cases(3) [OF assms(1)] by blast
  show ?thesis using decide_quoted_cases [OF dq] n assms(2) that [OF q] by auto
qed

lemma ValidateOrder_sell:
  assumes "ValidateOrder inp = Inr d" "ri_Side inp = ''sell''" "0 < q" "q \<le> rd_MaxQuantity d"
  shows "\<exists>available. sellable inp = Inr available \<and> q \<le> available"
proof -
  have n: "\<not> (\<exists>reason. d = refused reason)" using assms(3,4) by auto
  then obtain prices ins where q: "quoteBook (ri_Snapshot inp) (ri_Prices inp) = Inr (prices, ins)"
    and dq: "decide_quoted inp (prices(ri_InstrumentID inp \<mapsto> ri_Price inp)) ins = Inr d"
    using ValidateOrder_cases(3) [OF assms(1)] by blast
  then obtain turnover where "decide_sell inp turnover = Inr d"
    using decide_quoted_cases [OF dq] n assms(2) by auto
  from decide_sell_room [OF this] obtain available where s: "sellable inp = Inr available"
    and m: "rd_MaxQuantity d = maxWholeQuantity available (sell_fits inp turnover)" by blast
  show ?thesis using decide_sell_exact [OF s m assms(3)] assms(4) s by blast
qed

text \<open>What is left of the session's turnover never exceeds the policy's part of the net asset value.\<close>

lemma turnover_left_range:
  assumes "turnover_left inp prices = Inr t"
    and "0 \<le> moneyLimit (ri_NAV inp) (rp_TurnoverLimit (ri_Policy inp))"
    and "IsInt64 (moneyLimit (ri_NAV inp) (rp_TurnoverLimit (ri_Policy inp)))"
    and "0 \<le> ri_SessionTurnover inp" "IsInt64 (ri_SessionTurnover inp)"
    and "\<And>ord v. ord \<in> set (ri_Orders inp) \<Longrightarrow> order_turnover prices ord = Inr v \<Longrightarrow> 0 \<le> v"
  shows "0 \<le> t" "t \<le> max 0 (moneyLimit (ri_NAV inp) (rp_TurnoverLimit (ri_Policy inp)) - ri_SessionTurnover inp)"
proof -
  define start where "start = moneyLimit (ri_NAV inp) (rp_TurnoverLimit (ri_Policy inp)) - ri_SessionTurnover inp"
  have s64: "IsInt64 start" unfolding start_def by (rule nonneg_minus_int64 [OF assms(2-5)])
  then have w: "wrap64 start = start" by (rule wrap64_id)
  obtain t' where f: "foldR (ri_Orders inp) start
              (\<lambda>ord turnover.
        if o_ID ord = ri_ExcludeOrderID inp \<or> Terminal ord
           \<or> (\<not> IsZero (ri_TargetOpenAt inp) \<and> dateUTC (o_TargetOpenAt ord) \<noteq> dateUTC (ri_TargetOpenAt inp))
        then Inr turnover
        else bindR (order_turnover prices ord) (\<lambda>gross.
             Inr (if gross > turnover then 0 else wrap64 (turnover - gross)))) = Inr t'"
    and t: "t = (if t' < 0 then 0 else t')"
    using assms(1) unfolding turnover_left_def start_def [symmetric] w by (auto simp: bindR_Inr)
  have "IsInt64 t' \<and> t' \<le> max 0 start"
  proof (rule foldR_inv [OF f, where P = "\<lambda>t. IsInt64 t \<and> t \<le> max 0 start"])
    fix ord b b' assume o: "ord \<in> set (ri_Orders inp)" and b: "IsInt64 b \<and> b \<le> max 0 start"
      and s: "(if o_ID ord = ri_ExcludeOrderID inp \<or> Terminal ord
           \<or> (\<not> IsZero (ri_TargetOpenAt inp) \<and> dateUTC (o_TargetOpenAt ord) \<noteq> dateUTC (ri_TargetOpenAt inp))
        then Inr b
        else bindR (order_turnover prices ord) (\<lambda>gross.
             Inr (if gross > b then 0 else wrap64 (b - gross)))) = Inr b'"
    consider "b' = b" | "b' = 0" | gross where "order_turnover prices ord = Inr gross" "gross \<le> b" "b' = wrap64 (b - gross)"
    proof (cases "o_ID ord = ri_ExcludeOrderID inp \<or> Terminal ord
           \<or> (\<not> IsZero (ri_TargetOpenAt inp) \<and> dateUTC (o_TargetOpenAt ord) \<noteq> dateUTC (ri_TargetOpenAt inp))")
      case True
      then show ?thesis using s that(1) by (simp only: if_True sum.inject)
    next
      case False
      from s [unfolded if_not_P [OF False] bindR_Inr] obtain gross
        where g: "order_turnover prices ord = Inr gross" "(if gross > b then 0 else wrap64 (b - gross)) = b'"
        by (elim exE conjE) (simp only: sum.inject)
      show ?thesis
      proof (cases "gross > b")
        case True
        then show ?thesis using g(2) that(2) by simp
      next
        case False
        then show ?thesis using g that(3) [of gross] by simp
      qed
    qed
    then show "IsInt64 b' \<and> b' \<le> max 0 start"
    proof cases
      case (3 gross)
      have g: "0 \<le> gross" using assms(6) [OF o 3(1)] .
      then have "IsInt64 (b - gross)" using b 3(2) by (intro nonneg_diff_int64) auto
      then show ?thesis using b g 3 by (simp add: wrap64_id)
    qed (use b in \<open>simp_all add: IsInt64_def\<close>)
  qed (use s64 in simp)
  then show "0 \<le> t" "t \<le> max 0 (moneyLimit (ri_NAV inp) (rp_TurnoverLimit (ri_Policy inp)) - ri_SessionTurnover inp)"
    using t by (auto simp: start_def)
qed

section \<open>A fill the ledger accepts\<close>

text \<open>The shares and the cash an order holds, as \<open>ReserveOrders\<close> leaves them.\<close>

definition reserved_for :: "Account \<Rightarrow> Position list \<Rightarrow> Order \<Rightarrow> bool" where
  "reserved_for a ps ord \<longleftrightarrow>
     o_AccountID ord = a_ID a \<and> o_ID ord \<noteq> [] \<and>
     (if o_Side ord = ''buy'' then o_ReservedCash ord \<le> bal_Reserved (a_Balances a)
      else \<exists>p \<in> set ps. held (o_InstrumentID ord) p \<and> o_ReservedQuantity ord \<le> pos_ReservedQuantity p
         \<and> o_Quantity ord \<le> o_ReservedQuantity ord)"

text \<open>No sum the fill makes leaves the range of \<open>int64\<close>.\<close>

definition fill_room :: "Account \<Rightarrow> Position list \<Rightarrow> Fill \<Rightarrow> bool" where
  "fill_room a ps f \<longleftrightarrow>
     IsInt64 (bal_Available (a_Balances a) + f_ReservedCash f)
     \<and> IsInt64 (bal_Unsettled (a_Balances a) + f_Gross f)
     \<and> (\<forall>p \<in> set ps. IsInt64 (pos_Quantity p + f_Quantity f)
          \<and> IsInt64 (pos_CostBasis p + f_ReservedCash f))"

lemma match_risk_simps [simp]:
  "ri_Side (match_risk inp ord price) = o_Side ord" "ri_Price (match_risk inp ord price) = price"
  "ri_Quantity (match_risk inp ord price) = o_Quantity ord"
  "ri_ReservationBudget (match_risk inp ord price) = Some (o_ReservedCash ord)"
  "ri_Policy (match_risk inp ord price) = pf_Policy (mi_Portfolio inp)"
  "ri_NAV (match_risk inp ord price) = pf_NAV (mi_Portfolio inp)"
  "ri_Positions (match_risk inp ord price) = pf_Positions (mi_Portfolio inp)"
  "ri_InstrumentID (match_risk inp ord price) = o_InstrumentID ord"
  "ri_Snapshot (match_risk inp ord price) = pf_Snapshot (mi_Portfolio inp)"
  "ri_Prices (match_risk inp ord price) = pf_Prices (mi_Portfolio inp)"
  "ri_ExcludeOrderID (match_risk inp ord price) = o_ID ord"
  by (simp_all add: match_risk_def Let_def)

text \<open>The bounds of a fill.\<close>

lemma match_bounds:
  assumes "MatchAtOpen ny inp = Inr r" "fr_Fill r = Some f"
  defines "ord \<equiv> mi_Order inp"
  shows "0 < f_Quantity f" "f_Quantity f \<le> o_Quantity ord" "f_Quantity f \<le> o_Capacity ord"
    "f_Quantity f \<le> mi_AvailableCapacity inp" "o_Quantity ord \<le> 1000000000"
    "GrossValue (f_Price f) (f_Quantity f) = Inr (f_Gross f)" "TradeFee (f_Gross f) = Inr (f_Fee f)"
    "SlippedPrice (mi_OpenPrice inp) (o_Side ord) = Inr (f_Price f)"
    "f_OrderID f = o_ID ord" "f_AccountID f = o_AccountID ord" "f_Side f = o_Side ord"
    "f_InstrumentID f = o_InstrumentID ord" "f_ReservedCash f = o_ReservedCash ord"
    "f_ReservedQuantity f = o_ReservedQuantity ord"
    "0 \<le> o_ReservedCash ord" "0 \<le> o_ReservedQuantity ord" "o_Side ord = ''buy'' \<or> o_Side ord = ''sell''"
    "fr_CancelledQuantity r = o_Quantity ord - f_Quantity f"
    "o_Side ord = ''sell'' \<Longrightarrow> f_Quantity f \<le> o_ReservedQuantity ord \<and> f_Fee f \<le> f_Gross f"
    "o_Side ord = ''buy'' \<Longrightarrow> f_Gross f + f_Fee f \<le> o_ReservedCash ord"
proof -
  define adv where "adv = AdvanceOrder ord (mi_RecordedAt inp)"
  obtain price risk where h: "match_input_ok inp adv" "SlippedPrice (mi_OpenPrice inp) (o_Side adv) = Inr price"
    "ValidateOrder (match_risk inp adv price) = Inr risk" "f_Quantity f = match_quantity inp adv risk"
    "f_Price f = price" "0 < f_Quantity f" "GrossValue price (f_Quantity f) = Inr (f_Gross f)"
    "TradeFee (f_Gross f) = Inr (f_Fee f)" "o_Side adv = ''sell'' \<longrightarrow> f_Fee f \<le> f_Gross f"
    "f_OrderID f = o_ID adv" "f_AccountID f = o_AccountID adv" "f_Side f = o_Side adv"
    "f_InstrumentID f = o_InstrumentID adv" "f_ReservedCash f = o_ReservedCash adv"
    "f_ReservedQuantity f = o_ReservedQuantity adv"
    "fr_CancelledQuantity r = wrap64 (o_Quantity adv - f_Quantity f)"
    using MatchAtOpen_Some [OF assms(1,2)] unfolding adv_def ord_def by blast
  have adv: "o_Side adv = o_Side ord" "o_Quantity adv = o_Quantity ord" "o_Capacity adv = o_Capacity ord"
    "o_ID adv = o_ID ord" "o_AccountID adv = o_AccountID ord" "o_InstrumentID adv = o_InstrumentID ord"
    "o_ReservedCash adv = o_ReservedCash ord" "o_ReservedQuantity adv = o_ReservedQuantity ord"
    by (simp_all add: adv_def)
  note mq = match_quantity_le [where inp = inp and ord = adv and risk = risk, unfolded adv, folded h(4)]
  show "0 < f_Quantity f" "f_Quantity f \<le> o_Quantity ord" "f_Quantity f \<le> o_Capacity ord"
    "f_Quantity f \<le> mi_AvailableCapacity inp" using h(6) mq by simp_all
  show "GrossValue (f_Price f) (f_Quantity f) = Inr (f_Gross f)" "TradeFee (f_Gross f) = Inr (f_Fee f)"
    "SlippedPrice (mi_OpenPrice inp) (o_Side ord) = Inr (f_Price f)"
    "f_OrderID f = o_ID ord" "f_AccountID f = o_AccountID ord" "f_Side f = o_Side ord"
    "f_InstrumentID f = o_InstrumentID ord" "f_ReservedCash f = o_ReservedCash ord"
    "f_ReservedQuantity f = o_ReservedQuantity ord" using h adv by simp_all
  show "0 \<le> o_ReservedCash ord" "0 \<le> o_ReservedQuantity ord"
    using h(1) adv by (simp_all add: match_input_ok_def)
  have ok: "risk_input_ok (match_risk inp adv price)" using ValidateOrder_cases(1) [OF h(3)] .
  then show q: "o_Quantity ord \<le> 1000000000" and "o_Side ord = ''buy'' \<or> o_Side ord = ''sell''"
    using adv by (auto simp: risk_input_ok_def)
  have "IsInt64 (o_Quantity ord - f_Quantity f)" using h(6) mq(1) q by (simp add: IsInt64_def)
  then show "fr_CancelledQuantity r = o_Quantity ord - f_Quantity f" using h(16) adv by (simp add: wrap64_id)
  show "o_Side ord = ''sell'' \<Longrightarrow> f_Quantity f \<le> o_ReservedQuantity ord \<and> f_Fee f \<le> f_Gross f"
    using mq(5) h(9) adv by simp
  show "o_Side ord = ''buy'' \<Longrightarrow> f_Gross f + f_Fee f \<le> o_ReservedCash ord"
  proof -
    assume b: "o_Side ord = ''buy''"
    then have side: "ri_Side (match_risk inp adv price) = ''buy''" using adv(1) by simp
    obtain prices ins and instrument :: Instrument and turnover where
      "decide_buy (match_risk inp adv price) (prices(ri_InstrumentID (match_risk inp adv price) \<mapsto> ri_Price (match_risk inp adv price)))
         ins (Industry (i_SIC instrument)) turnover = Inr risk"
      by (rule ValidateOrder_buy [OF h(3) side h(6) mq(2)]) blast
    from decide_buy_room [OF this] obtain room where
      room: "room_for (match_risk inp adv price) (prices(ri_InstrumentID (match_risk inp adv price) \<mapsto> ri_Price (match_risk inp adv price)))
         ins (Industry (i_SIC instrument)) turnover = Inr room"
      and mx: "rd_MaxQuantity risk = maxWholeQuantity 1000000000 (buy_fits room price)"
      using h(6) mq(2) by auto
    have mx': "rd_MaxQuantity risk =
        maxWholeQuantity 1000000000 (buy_fits room (ri_Price (match_risk inp adv price)))" using mx by simp
    have "f_Quantity f \<le> 1000000000" using mq(1) q by simp
    then have "buy_fits room price (f_Quantity f)"
      using decide_buy_exact [OF room mx' h(6)] mq(2) by simp
    then obtain c where "purchaseCost price (f_Quantity f) = Inr c" "c \<le> br_cash room"
      by (auto simp: buy_fits_def split: sum.splits)
    moreover have "br_cash room = o_ReservedCash ord"
      using room adv by (auto simp: room_for_def Let_def bindR_Inr split: if_splits)
    ultimately show ?thesis using h(7,8) by (auto simp: purchaseCost_Inr)
  qed
qed

text \<open>A fill of a reserved order passes every check of the ledger.\<close>

lemma match_then_apply:
  assumes "MatchAtOpen ny inp = Inr r" "fr_Fill r = Some f" "x \<noteq> []"
    and "reserved_for a ps (mi_Order inp)" "positions_ok ps" "balances_ok (a_Balances a)" "fill_room a ps f"
    and "IsInt64 (o_ReservedCash (mi_Order inp))"
  shows "\<exists>m. ApplyFill a ps (f\<lparr>f_ID := x\<rparr>) = Inr m"
proof -
  let ?o = "mi_Order inp"
  let ?f = "f\<lparr>f_ID := x\<rparr>"
  note b = match_bounds [OF assms(1,2)]
  define i where "i = o_InstrumentID ?o"
  define ms where "ms = List.filter (held i) ps"
  define p where "p = (if ms = [] then new_position i [] else hd ms)"
  have gross0: "0 \<le> f_Gross f" using GrossValue_half_up(3) [OF b(6)] .
  have fee1: "1 \<le> f_Fee f" using TradeFee_bounds(1) [OF b(7)] .
  have price: "0 < f_Price f" using b(6) by (simp add: GrossValue_Inr)
  have shape: "fill_shape_ok a ?f"
    using assms(3,4) b(1,9-17) fee1 price by (auto simp: fill_shape_ok_def reserved_for_def)
  have one: "\<not> length ms > 1"
  proof
    assume "length ms > 1"
    then obtain p1 p2 rest where m: "ms = p1 # p2 # rest" by (cases ms; cases "tl ms") auto
    have "distinct (map pos_InstrumentID ms)"
      using assms(5) unfolding ms_def positions_ok_def by (simp add: distinct_map_filter)
    moreover have "held i p1" "held i p2" using m unfolding ms_def by (metis filter_eq_ConsD Cons_eq_filterD)+
    ultimately show False using m by (simp add: held_def)
  qed
  have pm: "ms \<noteq> [] \<Longrightarrow> p \<in> set ps \<and> held i p"
  proof -
    assume n: "ms \<noteq> []"
    then have "hd ms \<in> set ms" by (rule hd_in_set)
    then show "p \<in> set ps \<and> held i p" using n by (auto simp: p_def ms_def)
  qed
  have pos: "position_ok p"
    using pm positions_ok_member [OF assms(5)] by (cases "ms = []") (auto simp: p_def)
  have g64: "IsInt64 (f_Gross f)" using b(6) by (auto simp: GrossValue_def split: if_splits)
  note bal = balances_okD [OF assms(6)]
  have step: "\<exists>p' d. (if f_Side f = ''buy'' then fill_buy ?f p else fill_sell ?f p) = Inr (p', d) \<and> d = fill_delta ?f"
    and none: "\<not> (ms = [] \<and> f_Side f \<noteq> ''buy'')"
    and bok: "balances_ok (add_balances (a_Balances a) (fill_delta ?f))"
  proof -
    show "\<exists>p' d. (if f_Side f = ''buy'' then fill_buy ?f p else fill_sell ?f p) = Inr (p', d) \<and> d = fill_delta ?f"
    proof (cases "o_Side ?o = ''buy''")
      case True
      note c = b(20) [OF True]
      have q64: "IsInt64 (pos_Quantity p + f_Quantity f)"
      proof (cases "ms = []")
        case True
        then show ?thesis using b(1,2,5) by (simp add: p_def new_position_def IsInt64_def)
      next
        case False
        then show ?thesis using pm assms(7) by (auto simp: fill_room_def)
      qed
      have cb: "IsInt64 (pos_CostBasis p + (f_Gross f + f_Fee f))"
      proof (cases "ms = []")
        case True
        then show ?thesis using c assms(8) gross0 fee1 by (simp add: p_def new_position_def IsInt64_def)
      next
        case False
        then have "IsInt64 (pos_CostBasis p + f_ReservedCash f)" using pm assms(7) by (auto simp: fill_room_def)
        moreover have "0 \<le> pos_CostBasis p" using pos by (simp add: position_ok_def)
        ultimately show ?thesis using c gross0 fee1 b(13) by (simp add: IsInt64_def)
      qed
      have "IsInt64 (f_Gross f + f_Fee f)" using c assms(8) gross0 fee1 by (simp add: IsInt64_def)
      then have "fill_buy ?f p = Inr (p\<lparr>pos_Quantity := pos_Quantity p + f_Quantity f,
            pos_CostBasis := pos_CostBasis p + (f_Gross f + f_Fee f)\<rparr>,
          no_balances\<lparr>bal_Available := wrap64 (f_ReservedCash f - (f_Gross f + f_Fee f)),
                      bal_Reserved := wrap64 (- f_ReservedCash f)\<rparr>)"
        using c b(13) q64 cb by (simp add: fill_buy_def addMoney_def checked_def)
      moreover have "wrap64 (f_ReservedCash f - (f_Gross f + f_Fee f)) = f_ReservedCash f - (f_Gross f + f_Fee f)"
        "wrap64 (- f_ReservedCash f) = - f_ReservedCash f"
        using c b(13,15) assms(8) gross0 fee1 by (auto intro!: wrap64_id nonneg_diff_int64 neg_int64)
      ultimately show ?thesis using True b(11) by (simp add: fill_delta_def)
    next
      case False
      then have s: "o_Side ?o = ''sell''" using b(17) by simp
      obtain q where q: "q \<in> set ps" "held i q" "o_ReservedQuantity ?o \<le> pos_ReservedQuantity q"
        using assms(4) False by (auto simp: reserved_for_def i_def)
      then have "ms \<noteq> []" by (auto simp: ms_def filter_empty_conv)
      then have "p = q" using pm q(1,2) assms(5) shares_held [OF assms(5)]
        by (metis distinct_map inj_on_def held_def positions_ok_def)
      then have r: "f_ReservedQuantity f \<le> pos_ReservedQuantity p" "pos_ReservedQuantity p \<le> pos_Quantity p"
        using q(3) b(14) pos by (simp_all add: position_ok_def)
      note c = b(19) [OF s]
      have le: "f_Quantity f \<le> pos_Quantity p" "f_Quantity f \<le> f_ReservedQuantity f" using r c b(14) by simp_all
      obtain cost where cost: "proportionalCost (pos_CostBasis p) (f_Quantity f) (pos_Quantity p) = Inr cost"
        using proportionalCost_returns [of "pos_CostBasis p" "f_Quantity f" "pos_Quantity p"] pos le b(1)
        by (auto simp: position_ok_def)
      have "wrap64 (f_Gross f - f_Fee f) = f_Gross f - f_Fee f"
        using c g64 fee1 by (intro wrap64_id nonneg_diff_int64) auto
      then show ?thesis using r le c cost False b(11) by (simp add: fill_sell_def fill_delta_def)
    qed
    show "\<not> (ms = [] \<and> f_Side f \<noteq> ''buy'')"
      using assms(4) b(11) by (auto simp: reserved_for_def ms_def i_def filter_empty_conv)
    show "balances_ok (add_balances (a_Balances a) (fill_delta ?f))"
    proof (cases "o_Side ?o = ''buy''")
      case True
      have "f_ReservedCash f \<le> bal_Reserved (a_Balances a)" using assms(4) True b(13) by (simp add: reserved_for_def)
      then show ?thesis using True b(11,13,15) b(20) [OF True] bal gross0 fee1 assms(7)
        by (simp add: balances_ok_def add_balances_def fill_delta_def fill_room_def IsInt64_def)
    next
      case False
      then show ?thesis using b(11,17) b(19) bal gross0 fee1 assms(7)
        by (simp add: balances_ok_def add_balances_def fill_delta_def fill_room_def IsInt64_def)
    qed
  qed
  obtain p' where st: "(if f_Side f = ''buy'' then fill_buy ?f p else fill_sell ?f p) = Inr (p', fill_delta ?f)"
    using step by blast
  have "Balances_Apply (a_Balances a) (fill_delta ?f) = Inr (add_balances (a_Balances a) (fill_delta ?f))"
    using bok by (simp add: Balances_Apply_Inr)
  then have fp: "\<exists>m. fill_position a qs ?f p = Inr m" for qs
    using st by (simp add: fill_position_def Let_def)
  have "ApplyFill a ps ?f = (if ms = [] then fill_position a (ps @ [new_position i []]) ?f (new_position i [])
      else fill_position a ps ?f (hd ms))"
    unfolding ApplyFill_def using shape b(6,7,12) one none by (auto simp: Let_def i_def ms_def)
  then show ?thesis using fp by (auto simp: p_def split: if_splits)
qed

end
