(* ===== verification/Investment_Rebalance.thy ===== *)
theory Investment_Rebalance
  imports Investment_Limits
begin

text \<open>
  The orders a strategy plans for the next session (\<open>investment/domain/rebalance.go\<close>): sales
  that stop losses, follow exit signals or reduce risks come first, then purchases by rank with the
  cash that was available before any of them.
\<close>

record PlannedOrder =
  po_InstrumentID :: string
  po_Side :: string
  po_Reason :: string
  po_Quantity :: Quantity

record RebalancePlan =
  rp_Orders :: "PlannedOrder list"
  rp_Pause :: bool
  rp_Reasons :: "string list"

text \<open>The variables the closures and loops of \<open>BuildRebalance\<close> share.\<close>

record rebalance =
  rb_positions :: "Position list"
  rb_orders :: "PlannedOrder list"
  rb_reasons :: "string list"
  rb_turnover :: Money
  rb_cash :: Money
  rb_blocked :: "string list"
  rb_held :: "string \<Rightarrow> nat option"
  rb_holdings :: int

definition price_of :: "(string \<Rightarrow> Price option) \<Rightarrow> string \<Rightarrow> Price" where
  "price_of prices i = (case prices i of None \<Rightarrow> 0 | Some p \<Rightarrow> p)"

definition ranked_signals :: "Evaluation \<Rightarrow> Signal list" where
  "ranked_signals ev = order_rows (\<lambda>x y. \<not> signal_before y x) (ev_Signals ev)"

text \<open>What both kinds of planned order ask the risk limits.\<close>

definition planned_risk ::
  "PortfolioInput \<Rightarrow> rebalance \<Rightarrow> Account \<Rightarrow> string \<Rightarrow> string \<Rightarrow> string \<Rightarrow> Quantity \<Rightarrow> Price \<Rightarrow> OrderRiskInput" where
  "planned_risk inp rb account instrument side reason qty price =
     \<lparr>ri_Account = account, ri_Positions = rb_positions rb, ri_Orders = [],
      ri_Snapshot = pf_Snapshot inp, ri_Evaluation = no_evaluation, ri_InstrumentID = instrument,
      ri_Side = side, ri_Reason = reason, ri_ExcludeOrderID = [], ri_Quantity = qty, ri_Price = price,
      ri_NAV = pf_NAV inp, ri_PeakNAV = pf_PeakNAV inp, ri_Policy = pf_Policy inp,
      ri_SessionTurnover = rb_turnover rb, ri_Automatic = False, ri_ReservationBudget = None,
      ri_Prices = pf_Prices inp, ri_Parameters = None, ri_TargetOpenAt = 0\<rparr>"

section \<open>Sales\<close>

definition appendSell ::
  "PortfolioInput \<Rightarrow> (string \<Rightarrow> Price option) \<Rightarrow> nat \<Rightarrow> Quantity \<Rightarrow> string \<Rightarrow> rebalance \<Rightarrow> rebalance inv_result" where
  "appendSell inp prices n qty reason rb =
     (if qty \<le> 0 then Inr rb
      else let p = rb_positions rb ! n; i = pos_InstrumentID p; price = price_of prices i in
      bindR (ValidateOrder (planned_risk inp rb (pf_Account inp) i ''sell'' reason qty price)) (\<lambda>decision.
      let qty = (if qty > rd_MaxQuantity decision then rd_MaxQuantity decision else qty) in
      if qty \<le> 0 then Inr (rb\<lparr>rb_reasons := rb_reasons rb @ [''turnover_budget_exhausted'']\<rparr>)
      else bindR (GrossValue price qty) (\<lambda>gross.
      bindR (addMoney (rb_turnover rb) gross) (\<lambda>turnover.
      Inr (rb\<lparr>rb_turnover := turnover,
              rb_orders := rb_orders rb @ [\<lparr>po_InstrumentID = i, po_Side = ''sell'', po_Reason = reason,
                                           po_Quantity = qty\<rparr>],
              rb_positions := (rb_positions rb)[n := p\<lparr>pos_Quantity := wrap64 (pos_Quantity p - qty)\<rparr>],
              rb_blocked := i # rb_blocked rb\<rparr>)))))"

definition exit_position ::
  "PortfolioInput \<Rightarrow> StrategyParameters \<Rightarrow> (string \<Rightarrow> Price option) \<Rightarrow> (string \<Rightarrow> Signal option) \<Rightarrow> bool
     \<Rightarrow> nat \<Rightarrow> rebalance \<Rightarrow> rebalance inv_result" where
  "exit_position inp parameters prices signals stop n rb =
     (let p = rb_positions rb ! n; i = pos_InstrumentID p in
      if pos_Quantity p \<le> 0 then Inr rb
      else if pos_ReservedQuantity p \<noteq> 0 then Inl ErrVersionConflict
      else case prices i of
        None \<Rightarrow> Inl ErrDataStale
      | Some price \<Rightarrow>
          bindR (GrossValue price (pos_Quantity p)) (\<lambda>gross.
          let loss = (pos_CostBasis p > 0
                      \<and> drawdownReached gross (pos_CostBasis p) (rp_StopLoss (pf_Policy inp))) in
          if stop \<and> loss then appendSell inp prices n (pos_Quantity p) ''stop_loss'' rb
          else if \<not> stop \<and> i \<notin> set (rb_blocked rb) then
            case signals i of
              None \<Rightarrow> Inr rb
            | Some signal \<Rightarrow>
                if fless (sg_Score signal) (sp_ExitScore parameters)
                then appendSell inp prices n (pos_Quantity p) ''exit_signal'' rb
                else Inr rb
          else Inr rb))"

definition excess_of :: "PortfolioInput \<Rightarrow> string \<Rightarrow> string \<Rightarrow> exposure \<Rightarrow> Money" where
  "excess_of inp kind i ex =
     (if kind = ''reduce_single_risk'' then
        wrap64 (xp_byID ex i - moneyLimit (pf_NAV inp) (rp_SingleWeight (pf_Policy inp)))
      else if kind = ''reduce_industry_risk'' then
        wrap64 (xp_byIndustry ex (xp_industries ex i)
                - moneyLimit (pf_NAV inp) (rp_IndustryWeight (pf_Policy inp)))
      else if kind = ''reduce_stock_risk'' then
        wrap64 (xp_stocks ex - moneyLimit (pf_NAV inp) (rp_StockWeight (pf_Policy inp)))
      else 0)"

definition value_within_limit :: "Price \<Rightarrow> Money \<Rightarrow> Quantity \<Rightarrow> bool" where
  "value_within_limit price limit q \<longleftrightarrow>
     (case GrossValue price q of Inl _ \<Rightarrow> False | Inr v \<Rightarrow> v \<le> limit)"

definition reduce_position ::
  "PortfolioInput \<Rightarrow> (string \<Rightarrow> Price option) \<Rightarrow> (string \<Rightarrow> Instrument option) \<Rightarrow> string
     \<Rightarrow> nat \<Rightarrow> rebalance \<Rightarrow> rebalance inv_result" where
  "reduce_position inp prices instruments kind n rb =
     (let p = rb_positions rb ! n; i = pos_InstrumentID p in
      if pos_Quantity p \<le> 0 then Inr rb
      else bindR (portfolioExposure (rb_positions rb) [] prices instruments []) (\<lambda>ex.
      let excess = excess_of inp kind i ex in
      if excess \<le> 0 then Inr rb
      else let keepValue = wrap64 (xp_byID ex i - excess);
               keepValue = (if keepValue < 0 then 0 else keepValue);
               keep = maxWholeQuantity (pos_Quantity p) (value_within_limit (price_of prices i) keepValue)
           in appendSell inp prices n (wrap64 (pos_Quantity p - keep)) kind rb))"

definition plan_sales ::
  "PortfolioInput \<Rightarrow> StrategyParameters \<Rightarrow> (string \<Rightarrow> Price option) \<Rightarrow> (string \<Rightarrow> Instrument option)
     \<Rightarrow> (string \<Rightarrow> Signal option) \<Rightarrow> rebalance \<Rightarrow> rebalance inv_result" where
  "plan_sales inp parameters prices instruments signals rb =
     (let ns = [0..<length (rb_positions rb)] in
      bindR (foldR [True, False] rb (\<lambda>stop rb.
               foldR ns rb (exit_position inp parameters prices signals stop))) (\<lambda>rb.
      foldR [''reduce_single_risk'', ''reduce_industry_risk'', ''reduce_stock_risk''] rb (\<lambda>kind rb.
        foldR ns rb (reduce_position inp prices instruments kind))))"

section \<open>Purchases\<close>

text \<open>The index of each instrument, the last one where several positions have it.\<close>

definition held_index :: "Position list \<Rightarrow> string \<Rightarrow> nat option" where
  "held_index ps = fold (\<lambda>n m. m(pos_InstrumentID (ps ! n) \<mapsto> n)) [0..<length ps] (\<lambda>_. None)"

definition desired_quantity :: "Price \<Rightarrow> Money \<Rightarrow> Quantity \<Rightarrow> Quantity" where
  "desired_quantity price target current =
     wrap64 (maxWholeQuantity 1000000000 (value_within_limit price target) - current)"

definition skips :: "PortfolioInput \<Rightarrow> StrategyParameters \<Rightarrow> Signal \<Rightarrow> rebalance \<Rightarrow> bool" where
  "skips inp parameters signal rb \<longleftrightarrow>
     fless (sg_Score signal) (sp_EntryScore parameters) \<or> ra_Level (sg_Risk signal) = ''high''
     \<or> ra_Level (sg_Risk signal) = ''unknown'' \<or> sg_InstrumentID signal \<in> set (rb_blocked rb)"

definition bought ::
  "Signal \<Rightarrow> Quantity \<Rightarrow> Money \<Rightarrow> Money \<Rightarrow> rebalance \<Rightarrow> rebalance" where
  "bought signal qty cost turnover rb =
     (let i = sg_InstrumentID signal;
          ps = (if rb_held rb i = None then rb_positions rb @ [new_position i (sg_Industry signal)]
                else rb_positions rb);
          n = (case rb_held rb i of None \<Rightarrow> length (rb_positions rb) | Some n \<Rightarrow> n);
          p = ps ! n
      in rb\<lparr>rb_cash := wrap64 (rb_cash rb - cost), rb_turnover := turnover,
            rb_orders := rb_orders rb @ [\<lparr>po_InstrumentID = i, po_Side = ''buy'',
                            po_Reason = ''entry_signal'', po_Quantity = qty\<rparr>],
            rb_held := (rb_held rb)(i \<mapsto> n),
            rb_positions := ps[n := p\<lparr>pos_Quantity := wrap64 (pos_Quantity p + qty)\<rparr>],
            rb_holdings := (if pos_Quantity p = 0 then rb_holdings rb + 1 else rb_holdings rb)\<rparr>)"

definition plan_purchase ::
  "PortfolioInput \<Rightarrow> StrategyParameters \<Rightarrow> (string \<Rightarrow> Price option) \<Rightarrow> Signal \<Rightarrow> rebalance \<Rightarrow> rebalance inv_result" where
  "plan_purchase inp parameters prices signal rb =
     (let i = sg_InstrumentID signal in
      if skips inp parameters signal rb then Inr rb
      else case prices i of
        None \<Rightarrow> Inr (rb\<lparr>rb_reasons := rb_reasons rb @ [''candidate_price_missing'']\<rparr>)
      | Some price \<Rightarrow>
          let current = (case rb_held rb i of None \<Rightarrow> 0 | Some n \<Rightarrow> pos_Quantity (rb_positions rb ! n)) in
          if current = 0 \<and> rb_holdings rb \<ge> sp_MaxHoldings parameters then Inr rb
          else let target = moneyLimit (pf_NAV inp) (rp_SingleWeight (pf_Policy inp)) in
          bindR (case GrossValue price current of
                   Inl e \<Rightarrow> if current > 0 then Inl e else Inr 0 | Inr v \<Rightarrow> Inr v) (\<lambda>currentValue.
          if wrap64 (target - currentValue) < moneyLimit (pf_NAV inp) (sp_RebalanceBand parameters)
          then Inr rb
          else let desired = desired_quantity price target current in
          if desired \<le> 0 then Inr rb
          else bindR (ValidateOrder ((planned_risk inp rb
                  (with_balances (pf_Account inp) ((a_Balances (pf_Account inp))\<lparr>bal_Available := rb_cash rb\<rparr>))
                  i ''buy'' [] desired price)
                  \<lparr>ri_Evaluation := pf_Evaluation inp, ri_Automatic := True, ri_Parameters := Some parameters\<rparr>))
            (\<lambda>decision.
          let qty = (if desired > rd_MaxQuantity decision then rd_MaxQuantity decision else desired) in
          if qty \<le> 0 then Inr rb
          else bindR (GrossValue price qty) (\<lambda>gross.
          bindR (purchaseCost price qty) (\<lambda>cost.
          bindR (addMoney (rb_turnover rb) gross) (\<lambda>turnover.
          Inr (bought signal qty cost turnover rb)))))))"

definition start_purchases :: "rebalance \<Rightarrow> rebalance" where
  "start_purchases rb = rb\<lparr>rb_held := held_index (rb_positions rb),
     rb_holdings := int (length (List.filter (\<lambda>p. pos_Quantity p > 0) (rb_positions rb)))\<rparr>"

definition plan_rebalance ::
  "PortfolioInput \<Rightarrow> StrategyParameters \<Rightarrow> (string \<Rightarrow> Price option) \<Rightarrow> (string \<Rightarrow> Instrument option)
     \<Rightarrow> rebalance inv_result" where
  "plan_rebalance inp parameters prices instruments =
     (let ranked = ranked_signals (pf_Evaluation inp);
          signals = fold (\<lambda>s m. m(sg_InstrumentID s \<mapsto> s)) ranked (\<lambda>_. None)
      in bindR (plan_sales inp parameters prices instruments signals
             \<lparr>rb_positions = order_rows by_instrument (pf_Positions inp), rb_orders = [], rb_reasons = [],
              rb_turnover = pf_SessionTurnover inp,
              rb_cash = bal_Available (a_Balances (pf_Account inp)),
              rb_blocked = [], rb_held = (\<lambda>_. None), rb_holdings = 0\<rparr>) (\<lambda>rb.
         foldR ranked (start_purchases rb) (plan_purchase inp parameters prices)))"

definition no_plan :: "bool \<Rightarrow> string \<Rightarrow> RebalancePlan" where
  "no_plan pause reason = \<lparr>rp_Orders = [], rp_Pause = pause, rp_Reasons = [reason]\<rparr>"

definition BuildRebalance :: "PortfolioInput \<Rightarrow> RebalancePlan inv_result" where
  "BuildRebalance inp =
     (let parameters = used_parameters (pf_Parameters inp) in
      bindR (StrategyParameters_Validate parameters) (\<lambda>_.
      bindR (RiskPolicy_Validate (pf_Policy inp)) (\<lambda>_.
      if pf_NAV inp \<le> 0 \<or> pf_PeakNAV inp < 0 \<or> pf_SessionTurnover inp < 0 then Inl ErrInvalidInput
      else if drawdownReached (pf_NAV inp) (pf_PeakNAV inp) (rp_DrawdownPause (pf_Policy inp))
      then Inr (no_plan True ''drawdown_pause'')
      else if list_ex (\<lambda>ord. \<not> Terminal ord) (pf_Orders inp)
      then Inr (no_plan False ''unresolved_orders'')
      else bindR (quoteBook (pf_Snapshot inp) (pf_Prices inp)) (\<lambda>(prices, instruments).
      bindR (plan_rebalance inp parameters prices instruments) (\<lambda>rb.
      Inr \<lparr>rp_Orders = rb_orders rb, rp_Pause = False,
           rp_Reasons = rb_reasons rb @
             (if ev_State (pf_Evaluation inp) \<noteq> ''completed''
              then [''insufficient_quantitative_evidence''] else [])\<rparr>)))))"

section \<open>What a plan promises\<close>

lemma ValidateOrder_buy_cost:
  assumes "ValidateOrder inp = Inr d" "ri_Side inp = ''buy''" "0 < q" "q \<le> rd_MaxQuantity d"
  shows "\<exists>g c. GrossValue (ri_Price inp) q = Inr g \<and> purchaseCost (ri_Price inp) q = Inr c
    \<and> c \<le> (case ri_ReservationBudget inp of None \<Rightarrow> bal_Available (a_Balances (ri_Account inp)) | Some b \<Rightarrow> b)"
proof -
  obtain prices ins and instrument :: Instrument and turnover where
    d: "decide_buy inp (prices(ri_InstrumentID inp \<mapsto> ri_Price inp)) ins (Industry (i_SIC instrument)) turnover = Inr d"
    by (rule ValidateOrder_buy [OF assms]) blast
  from decide_buy_room [OF d] obtain room where
    room: "room_for inp (prices(ri_InstrumentID inp \<mapsto> ri_Price inp)) ins (Industry (i_SIC instrument)) turnover = Inr room"
    and mx: "rd_MaxQuantity d = maxWholeQuantity 1000000000 (buy_fits room (ri_Price inp))"
    using assms(3,4) by auto
  have "q \<le> 1000000000" using assms(4) ValidateOrder_range(2) [OF assms(1)] by simp
  then have "buy_fits room (ri_Price inp) q" using decide_buy_exact [OF room mx assms(3)] assms(4) by simp
  moreover have "br_cash room = (case ri_ReservationBudget inp of
      None \<Rightarrow> bal_Available (a_Balances (ri_Account inp)) | Some b \<Rightarrow> b)"
    using room by (auto simp: room_for_def Let_def bindR_Inr split: if_splits)
  ultimately show ?thesis by (auto simp: buy_fits_def split: sum.splits)
qed

lemma planned_risk_simps [simp]:
  "ri_Side (planned_risk inp rb a i side r q price) = side"
  "ri_Price (planned_risk inp rb a i side r q price) = price"
  "ri_Account (planned_risk inp rb a i side r q price) = a"
  "ri_Positions (planned_risk inp rb a i side r q price) = rb_positions rb"
  "ri_InstrumentID (planned_risk inp rb a i side r q price) = i"
  "ri_ReservationBudget (planned_risk inp rb a i side r q price) = None"
  "ri_ExcludeOrderID (planned_risk inp rb a i side r q price) = []"
  "ri_Quantity (planned_risk inp rb a i side r q price) = q"
  by (simp_all add: planned_risk_def)

text \<open>Only unreserved shares of the position are sellable.\<close>

lemma sellable_bound:
  assumes "sellable inp = Inr n" "ri_ExcludeOrderID inp = []" "positions_ok (ri_Positions inp)"
    "p \<in> set (ri_Positions inp)" "pos_InstrumentID p = ri_InstrumentID inp"
  shows "n \<le> pos_Quantity p - pos_ReservedQuantity p"
proof -
  let ?f = "\<lambda>p available.
        if pos_InstrumentID p \<noteq> ri_InstrumentID inp then Inr available
        else if pos_ReservedQuantity p < 0 \<or> pos_ReservedQuantity p > pos_Quantity p then Inl ErrInvalidInput
        else Inr (wrap64 (pos_Quantity p - pos_ReservedQuantity p))"
  obtain v where f: "foldR (ri_Positions inp) 0 ?f = Inr v" and n: "n = (if v > 1000000000 then 1000000000 else v)"
    using assms(1,2) by (auto simp: sellable_def bindR_Inr split: if_splits)
  have "v = 0 \<or> (\<exists>q \<in> set (ri_Positions inp). pos_InstrumentID q = ri_InstrumentID inp
      \<and> v = wrap64 (pos_Quantity q - pos_ReservedQuantity q))"
    by (rule foldR_inv [OF f, where P = "\<lambda>v. v = 0 \<or> (\<exists>q \<in> set (ri_Positions inp). pos_InstrumentID q = ri_InstrumentID inp
      \<and> v = wrap64 (pos_Quantity q - pos_ReservedQuantity q))"]) (auto split: if_splits)
  moreover have pok: "position_ok p" using assms(3,4) by (rule positions_ok_member)
  moreover have "q = p" if "q \<in> set (ri_Positions inp)" "pos_InstrumentID q = ri_InstrumentID inp" for q
    using that assms(3-5) unfolding positions_ok_def distinct_map by (metis inj_onD)
  moreover have "wrap64 (pos_Quantity p - pos_ReservedQuantity p) = pos_Quantity p - pos_ReservedQuantity p"
    using pok by (intro wrap64_id nonneg_diff_int64) (auto simp: position_ok_def)
  ultimately show ?thesis using n by (auto simp: position_ok_def)
qed

definition sold :: "PlannedOrder list \<Rightarrow> string \<Rightarrow> int" where
  "sold os i = (\<Sum>ord\<leftarrow>List.filter (\<lambda>ord. po_InstrumentID ord = i \<and> po_Side ord = ''sell'') os. po_Quantity ord)"

definition planned_cost :: "(string \<Rightarrow> Price option) \<Rightarrow> PlannedOrder \<Rightarrow> Money" where
  "planned_cost prices ord =
     (case purchaseCost (price_of prices (po_InstrumentID ord)) (po_Quantity ord) of Inl _ \<Rightarrow> 0 | Inr c \<Rightarrow> c)"

definition purchases :: "PlannedOrder list \<Rightarrow> PlannedOrder list" where
  "purchases os = List.filter (\<lambda>ord. po_Side ord = ''buy'') os"

definition planned_ok :: "PlannedOrder \<Rightarrow> bool" where
  "planned_ok ord \<longleftrightarrow> (po_Side ord = ''buy'' \<or> po_Side ord = ''sell'')
     \<and> 0 < po_Quantity ord \<and> po_Quantity ord \<le> 1000000000"

text \<open>While sales are planned, and while purchases are.\<close>

definition selling :: "Position list \<Rightarrow> Money \<Rightarrow> rebalance \<Rightarrow> bool" where
  "selling ps0 cash rb \<longleftrightarrow>
     positions_ok (rb_positions rb) \<and> length (rb_positions rb) = length ps0 \<and> rb_cash rb = cash
     \<and> list_all planned_ok (rb_orders rb) \<and> purchases (rb_orders rb) = []
     \<and> (\<forall>ord \<in> set (rb_orders rb). po_InstrumentID ord \<in> set (rb_blocked rb))
     \<and> (\<forall>i. shares ps0 i = shares (rb_positions rb) i + sold (rb_orders rb) i)"

definition buying :: "Position list \<Rightarrow> Money \<Rightarrow> (string \<Rightarrow> Price option) \<Rightarrow> rebalance \<Rightarrow> bool" where
  "buying ps0 cash prices rb \<longleftrightarrow>
     list_all planned_ok (rb_orders rb) \<and> 0 \<le> rb_cash rb
     \<and> rb_cash rb = cash - (\<Sum>ord\<leftarrow>purchases (rb_orders rb). planned_cost prices ord)
     \<and> (\<forall>ord \<in> set (rb_orders rb). (po_InstrumentID ord \<in> set (rb_blocked rb)) = (po_Side ord = ''sell''))
     \<and> (\<forall>i. sold (rb_orders rb) i \<le> shares ps0 i)
     \<and> list_all (\<lambda>ord. 0 < planned_cost prices ord) (purchases (rb_orders rb))"

lemma sold_append [simp]: "sold (os @ os') i = sold os i + sold os' i"
  by (simp add: sold_def)

lemma sold_one [simp]:
  "sold [ord] i = (if po_InstrumentID ord = i \<and> po_Side ord = ''sell'' then po_Quantity ord else 0)"
  by (simp add: sold_def)

lemma purchases_append [simp]: "purchases (os @ os') = purchases os @ purchases os'"
  by (simp add: purchases_def)

lemma list_update_held:
  assumes "positions_ok ps" "n < length ps" "pos_InstrumentID p' = pos_InstrumentID (ps ! n)" "position_ok p'"
  shows "positions_ok (ps[n := p'])"
    "shares (ps[n := p']) i = shares ps i
      + (if i = pos_InstrumentID p' then pos_Quantity p' - pos_Quantity (ps ! n) else 0)"
proof -
  have "map pos_InstrumentID (ps[n := p']) = map pos_InstrumentID ps"
    using assms(2,3) by (simp add: map_update) (metis list_update_id nth_map)
  moreover have "\<forall>q \<in> set (ps[n := p']). position_ok q"
    using assms(1,4) set_update_subset_insert [of ps n p'] by (auto simp: positions_ok_def list_all_iff)
  ultimately show "positions_ok (ps[n := p'])" using assms(1) by (simp add: positions_ok_def list_all_iff)
  have ps: "ps = take n ps @ ps ! n # drop (Suc n) ps" using assms(2) by (rule id_take_nth_drop)
  have "ps[n := p'] = take n ps @ p' # drop (Suc n) ps" using assms(2) by (rule upd_conv_take_nth_drop)
  then have "shares (ps[n := p']) i = shares (take n ps @ p' # drop (Suc n) ps) i" by simp
  moreover have "shares ps i = shares (take n ps @ ps ! n # drop (Suc n) ps) i" using ps by simp
  ultimately show "shares (ps[n := p']) i = shares ps i
      + (if i = pos_InstrumentID p' then pos_Quantity p' - pos_Quantity (ps ! n) else 0)"
    using assms(3) by (auto simp: held_def)
qed

lemma appendSell_selling:
  assumes "appendSell inp prices n qty reason rb = Inr rb'" "selling ps0 cash rb" "n < length ps0"
  shows "selling ps0 cash rb'"
proof (cases "qty \<le> 0")
  case True
  then show ?thesis using assms by (simp add: appendSell_def)
next
  case False
  define p where "p = rb_positions rb ! n"
  define i where "i = pos_InstrumentID p"
  define risk where "risk = planned_risk inp rb (pf_Account inp) i ''sell'' reason qty (price_of prices i)"
  note a = assms(1) [unfolded appendSell_def Let_def if_not_P [OF False], folded p_def, folded i_def, folded risk_def]
  obtain d where d: "ValidateOrder risk = Inr d" using a by (auto simp: bindR_Inr)
  define k where "k = (if qty > rd_MaxQuantity d then rd_MaxQuantity d else qty)"
  have len: "n < length (rb_positions rb)" and pok: "positions_ok (rb_positions rb)"
    using assms(2,3) by (simp_all add: selling_def)
  then have pin: "p \<in> set (rb_positions rb)" by (simp add: p_def)
  have po: "position_ok p" using pok pin by (rule positions_ok_member)
  show ?thesis
  proof (cases "k \<le> 0")
    case True
    then have "rb' = rb\<lparr>rb_reasons := rb_reasons rb @ [''turnover_budget_exhausted'']\<rparr>"
      using a d by (simp add: k_def)
    then show ?thesis using assms(2) by (simp add: selling_def)
  next
    case k: False
    obtain gross turnover where
      rb': "rb' = rb\<lparr>rb_turnover := turnover,
              rb_orders := rb_orders rb @ [\<lparr>po_InstrumentID = i, po_Side = ''sell'', po_Reason = reason,
                                           po_Quantity = k\<rparr>],
              rb_positions := (rb_positions rb)[n := p\<lparr>pos_Quantity := wrap64 (pos_Quantity p - k)\<rparr>],
              rb_blocked := i # rb_blocked rb\<rparr>"
      using a d k by (auto simp: k_def bindR_Inr split: if_splits)
    have km: "k \<le> rd_MaxQuantity d" by (simp add: k_def)
    have rs: "ri_Side risk = ''sell''" "ri_ExcludeOrderID risk = []" "ri_Positions risk = rb_positions rb"
      "ri_InstrumentID risk = i" by (simp_all add: risk_def)
    obtain n' where n': "sellable risk = Inr n'" "k \<le> n'"
      using ValidateOrder_sell [OF d rs(1) _ km] k by auto
    have "n' \<le> pos_Quantity p - pos_ReservedQuantity p"
      by (rule sellable_bound [OF n'(1) rs(2)]) (simp_all only: rs pok pin i_def)
    with n'(2) have kq: "k \<le> pos_Quantity p - pos_ReservedQuantity p" by simp
    have w: "wrap64 (pos_Quantity p - k) = pos_Quantity p - k"
      using po kq k by (intro wrap64_id nonneg_diff_int64) (auto simp: position_ok_def)
    have p': "position_ok (p\<lparr>pos_Quantity := pos_Quantity p - k\<rparr>)"
      using po kq k nonneg_diff_int64 [of "pos_Quantity p" k] by (auto simp: position_ok_def)
    define qs where "qs = (rb_positions rb)[n := p\<lparr>pos_Quantity := pos_Quantity p - k\<rparr>]"
    have idp: "pos_InstrumentID (p\<lparr>pos_Quantity := pos_Quantity p - k\<rparr>) = pos_InstrumentID (rb_positions rb ! n)"
      by (simp add: p_def)
    have qs: "positions_ok qs" "length qs = length (rb_positions rb)"
      using list_update_held(1) [OF pok len idp p'] by (simp_all add: qs_def)
    have sh: "shares qs j = shares (rb_positions rb) j - (if j = i then k else 0)" for j
      using list_update_held(2) [OF pok len idp p', of j] by (simp add: qs_def p_def [symmetric] i_def)
    have kr: "0 < k" "k \<le> 1000000000" using k km ValidateOrder_range(2) [OF d] by simp_all
    have rbs: "rb_positions rb' = qs" "rb_cash rb' = rb_cash rb" "rb_blocked rb' = i # rb_blocked rb"
      "rb_orders rb' = rb_orders rb @ [\<lparr>po_InstrumentID = i, po_Side = ''sell'', po_Reason = reason,
                                           po_Quantity = k\<rparr>]"
      by (simp_all add: rb' w qs_def)
    show ?thesis
      using assms(2) qs kr unfolding selling_def rbs by (simp add: sh planned_ok_def purchases_def)
  qed
qed

lemma exit_position_cases:
  assumes "exit_position inp parameters prices signals stop n rb = Inr rb'"
  shows "rb' = rb \<or> (\<exists>qty reason. appendSell inp prices n qty reason rb = Inr rb')"
proof -
  define p where "p = rb_positions rb ! n"
  note e = assms [unfolded exit_position_def Let_def, folded p_def]
  show ?thesis
  proof (cases "pos_Quantity p \<le> 0 \<or> pos_ReservedQuantity p \<noteq> 0 \<or> prices (pos_InstrumentID p) = None")
    case True
    then show ?thesis using e by (auto split: if_splits)
  next
    case False
    then obtain price where pr: "prices (pos_InstrumentID p) = Some price" by auto
    obtain gross where g: "GrossValue price (pos_Quantity p) = Inr gross"
      using e False pr by (auto simp: bindR_Inr)
    show ?thesis using e False pr g by (auto split: if_splits option.splits)
  qed
qed

lemma reduce_position_cases:
  assumes "reduce_position inp prices instruments kind n rb = Inr rb'"
  shows "rb' = rb \<or> (\<exists>qty reason. appendSell inp prices n qty reason rb = Inr rb')"
  using assms unfolding reduce_position_def Let_def by (auto simp: bindR_Inr split: if_splits)

lemma sells_fold:
  assumes "foldR [0..<length ps0] rb f = Inr rb'" "selling ps0 cash rb"
    and "\<And>n rb rb'. f n rb = Inr rb' \<Longrightarrow> rb' = rb \<or> (\<exists>qty reason. appendSell inp prices n qty reason rb = Inr rb')"
  shows "selling ps0 cash rb'"
proof (rule foldR_inv [OF assms(1), where P = "selling ps0 cash"])
  fix n b b' assume n: "n \<in> set [0..<length ps0]" and s: "selling ps0 cash b" and f: "f n b = Inr b'"
  then show "selling ps0 cash b'" using assms(3) [OF f] appendSell_selling by auto
qed (rule assms(2))

lemma plan_sales_selling:
  assumes "plan_sales inp parameters prices instruments signals rb = Inr rb'" "selling ps0 cash rb"
  shows "selling ps0 cash rb'"
proof -
  have len: "length (rb_positions rb) = length ps0" using assms(2) by (simp add: selling_def)
  obtain rb1 where
    one: "foldR [True, False] rb (\<lambda>stop rb.
        foldR [0..<length ps0] rb (exit_position inp parameters prices signals stop)) = Inr rb1"
    and two: "foldR [''reduce_single_risk'', ''reduce_industry_risk'', ''reduce_stock_risk''] rb1 (\<lambda>kind rb.
        foldR [0..<length ps0] rb (reduce_position inp prices instruments kind)) = Inr rb'"
    using assms(1) unfolding plan_sales_def Let_def len by (auto simp only: bindR_Inr)
  have s1: "selling ps0 cash rb1"
  proof (rule foldR_inv [OF one, where P = "selling ps0 cash"])
    fix stop b b' assume s: "selling ps0 cash b"
      and f: "foldR [0..<length ps0] b (exit_position inp parameters prices signals stop) = Inr b'"
    show "selling ps0 cash b'" by (rule sells_fold [OF f s]) (rule exit_position_cases)
  qed (rule assms(2))
  show ?thesis
  proof (rule foldR_inv [OF two, where P = "selling ps0 cash"])
    fix kind b b' assume s: "selling ps0 cash b"
      and f: "foldR [0..<length ps0] b (reduce_position inp prices instruments kind) = Inr b'"
    show "selling ps0 cash b'" by (rule sells_fold [OF f s]) (rule reduce_position_cases)
  qed (rule s1)
qed

lemma purchases_none: "purchases os = [] \<Longrightarrow> list_all planned_ok os \<Longrightarrow> ord \<in> set os \<Longrightarrow> po_Side ord = ''sell''"
  by (auto simp: purchases_def filter_empty_conv list_all_iff planned_ok_def)

lemma selling_buying:
  assumes "selling ps0 cash rb" "0 \<le> cash"
  shows "buying ps0 cash prices (start_purchases rb)"
proof -
  have "sold (rb_orders rb) i \<le> shares ps0 i" for i
    using assms(1) shares_nonneg [of "rb_positions rb" i] by (simp add: selling_def)
  moreover have "(po_InstrumentID ord \<in> set (rb_blocked rb)) = (po_Side ord = ''sell'')"
    if "ord \<in> set (rb_orders rb)" for ord
    using that assms(1) purchases_none [of "rb_orders rb" ord] by (simp add: selling_def)
  ultimately show ?thesis
    using assms unfolding buying_def selling_def by (simp add: start_purchases_def)
qed

lemma plan_purchase_cases:
  assumes "plan_purchase inp parameters prices signal rb = Inr rb'"
  shows "(\<exists>reasons. rb' = rb\<lparr>rb_reasons := reasons\<rparr>) \<or>
    (\<exists>price desired d qty cost turnover. prices (sg_InstrumentID signal) = Some price
       \<and> sg_InstrumentID signal \<notin> set (rb_blocked rb)
       \<and> ValidateOrder ((planned_risk inp rb
              (with_balances (pf_Account inp) ((a_Balances (pf_Account inp))\<lparr>bal_Available := rb_cash rb\<rparr>))
              (sg_InstrumentID signal) ''buy'' [] desired price)
              \<lparr>ri_Evaluation := pf_Evaluation inp, ri_Automatic := True, ri_Parameters := Some parameters\<rparr>) = Inr d
       \<and> 0 < qty \<and> qty \<le> rd_MaxQuantity d \<and> purchaseCost price qty = Inr cost
       \<and> rb' = bought signal qty cost turnover rb)"
proof -
  let ?i = "sg_InstrumentID signal"
  note e = assms [unfolded plan_purchase_def Let_def]
  define current where "current = (case rb_held rb ?i of None \<Rightarrow> 0 | Some n \<Rightarrow> pos_Quantity (rb_positions rb ! n))"
  define target where "target = moneyLimit (pf_NAV inp) (rp_SingleWeight (pf_Policy inp))"
  have same: "\<exists>reasons. rb = rb\<lparr>rb_reasons := reasons\<rparr>" by (rule exI [of _ "rb_reasons rb"]) simp
  show ?thesis
  proof (cases "skips inp parameters signal rb")
    case True
    then have "rb' = rb" using e by simp
    with same show ?thesis by blast
  next
    case ns: False
    then have nb: "?i \<notin> set (rb_blocked rb)" by (simp add: skips_def)
    show ?thesis
    proof (cases "prices ?i")
      case None
      then show ?thesis using e ns by auto
    next
      case (Some price)
      note e1 = e [unfolded if_not_P [OF ns] Some option.case, folded current_def target_def]
      show ?thesis
      proof (cases "current = 0 \<and> rb_holdings rb \<ge> sp_MaxHoldings parameters")
        case True
        then have "rb' = rb" using e1 by simp
        with same show ?thesis by blast
      next
        case nh: False
        note e2 = e1 [unfolded if_not_P [OF nh]]
        define desired where "desired = desired_quantity price target current"
        obtain cv where e3: "(if wrap64 (target - cv) < moneyLimit (pf_NAV inp) (sp_RebalanceBand parameters)
          then Inr rb
          else if desired \<le> 0 then Inr rb
          else bindR (ValidateOrder ((planned_risk inp rb
                  (with_balances (pf_Account inp) ((a_Balances (pf_Account inp))\<lparr>bal_Available := rb_cash rb\<rparr>))
                  ?i ''buy'' [] desired price)
                  \<lparr>ri_Evaluation := pf_Evaluation inp, ri_Automatic := True, ri_Parameters := Some parameters\<rparr>))
            (\<lambda>decision.
          if (if desired > rd_MaxQuantity decision then rd_MaxQuantity decision else desired) \<le> 0 then Inr rb
          else bindR (GrossValue price (if desired > rd_MaxQuantity decision then rd_MaxQuantity decision else desired)) (\<lambda>gross.
          bindR (purchaseCost price (if desired > rd_MaxQuantity decision then rd_MaxQuantity decision else desired)) (\<lambda>cost.
          bindR (addMoney (rb_turnover rb) gross) (\<lambda>turnover.
          Inr (bought signal (if desired > rd_MaxQuantity decision then rd_MaxQuantity decision else desired) cost turnover rb)))))) = Inr rb'"
          using e2 unfolding desired_def [symmetric] bindR_Inr by blast
        show ?thesis
        proof (cases "wrap64 (target - cv) < moneyLimit (pf_NAV inp) (sp_RebalanceBand parameters) \<or> desired \<le> 0")
          case True
          then have "rb' = rb" using e3 by (auto split: if_splits)
          with same show ?thesis by blast
        next
          case False
          then obtain d where d: "ValidateOrder ((planned_risk inp rb
                  (with_balances (pf_Account inp) ((a_Balances (pf_Account inp))\<lparr>bal_Available := rb_cash rb\<rparr>))
                  ?i ''buy'' [] desired price)
                  \<lparr>ri_Evaluation := pf_Evaluation inp, ri_Automatic := True, ri_Parameters := Some parameters\<rparr>) = Inr d"
            using e3 by (auto simp: bindR_Inr)
          define qty where "qty = (if desired > rd_MaxQuantity d then rd_MaxQuantity d else desired)"
          have e4: "(if qty \<le> 0 then Inr rb
            else bindR (GrossValue price qty) (\<lambda>gross. bindR (purchaseCost price qty) (\<lambda>cost.
              bindR (addMoney (rb_turnover rb) gross) (\<lambda>turnover. Inr (bought signal qty cost turnover rb))))) = Inr rb'"
            using e3 False d unfolding qty_def by simp
          show ?thesis
          proof (cases "qty \<le> 0")
            case True
            then have "rb' = rb" using e4 by simp
            with same show ?thesis by blast
          next
            case q: False
            then obtain cost turnover where "purchaseCost price qty = Inr cost" "rb' = bought signal qty cost turnover rb"
              using e4 by (auto simp: bindR_Inr)
            moreover have "qty \<le> rd_MaxQuantity d" by (simp add: qty_def)
            ultimately show ?thesis using Some nb d q by (metis not_le)
          qed
        qed
      qed
    qed
  qed
qed

lemma plan_purchase_buying:
  assumes "plan_purchase inp parameters prices signal rb = Inr rb'" "buying ps0 cash prices rb"
    and "IsInt64 cash"
  shows "buying ps0 cash prices rb'"
  using plan_purchase_cases [OF assms(1)]
proof (elim disjE exE conjE)
  fix reasons assume "rb' = rb\<lparr>rb_reasons := reasons\<rparr>"
  then show ?thesis using assms(2) by (simp add: buying_def)
next
  fix price desired d qty cost turnover
  assume p: "prices (sg_InstrumentID signal) = Some price" and nb: "sg_InstrumentID signal \<notin> set (rb_blocked rb)"
    and d: "ValidateOrder ((planned_risk inp rb
              (with_balances (pf_Account inp) ((a_Balances (pf_Account inp))\<lparr>bal_Available := rb_cash rb\<rparr>))
              (sg_InstrumentID signal) ''buy'' [] desired price)
              \<lparr>ri_Evaluation := pf_Evaluation inp, ri_Automatic := True, ri_Parameters := Some parameters\<rparr>) = Inr d"
    and q: "0 < qty" "qty \<le> rd_MaxQuantity d" and c: "purchaseCost price qty = Inr cost"
    and rb': "rb' = bought signal qty cost turnover rb"
  have "cost \<le> rb_cash rb"
    using ValidateOrder_buy_cost [OF d _ q] c by (auto simp: planned_risk_def)
  moreover note pc = purchaseCost_range [OF c]
  moreover have "0 \<le> (\<Sum>ord\<leftarrow>purchases (rb_orders rb). planned_cost prices ord)"
    by (intro sum_list_nonneg)
      (auto simp: planned_cost_def intro: less_imp_le [OF purchaseCost_range(1)] split: sum.splits)
  then have "rb_cash rb \<le> cash" using assms(2) by (simp add: buying_def)
  ultimately have w: "wrap64 (rb_cash rb - cost) = rb_cash rb - cost" "0 \<le> rb_cash rb - cost"
    using assms(3) by (auto intro!: wrap64_id simp: IsInt64_def)
  have k: "qty \<le> 1000000000" using q(2) ValidateOrder_range(2) [OF d] by simp
  have rbs: "rb_cash rb' = rb_cash rb - cost" "rb_blocked rb' = rb_blocked rb"
    "rb_orders rb' = rb_orders rb @ [\<lparr>po_InstrumentID = sg_InstrumentID signal, po_Side = ''buy'',
                            po_Reason = ''entry_signal'', po_Quantity = qty\<rparr>]"
    by (simp_all add: rb' bought_def Let_def w)
  have pl: "planned_cost prices \<lparr>po_InstrumentID = sg_InstrumentID signal, po_Side = ''buy'',
                            po_Reason = ''entry_signal'', po_Quantity = qty\<rparr> = cost"
    using p c by (simp add: planned_cost_def price_of_def)
  have pu: "purchases [\<lparr>po_InstrumentID = sg_InstrumentID signal, po_Side = ''buy'',
                            po_Reason = ''entry_signal'', po_Quantity = qty\<rparr>]
      = [\<lparr>po_InstrumentID = sg_InstrumentID signal, po_Side = ''buy'', po_Reason = ''entry_signal'', po_Quantity = qty\<rparr>]"
    by (simp add: purchases_def)
  show ?thesis
    using assms(2) q(1) k nb w(2) unfolding buying_def rbs purchases_append pu
    by (simp add: pl pc(1) planned_ok_def)
qed

lemma BuildRebalance_cases:
  assumes "BuildRebalance inp = Inr plan"
  shows "rp_Orders plan = [] \<or> (\<exists>prices instruments rb.
    quoteBook (pf_Snapshot inp) (pf_Prices inp) = Inr (prices, instruments)
    \<and> plan_rebalance inp (used_parameters (pf_Parameters inp)) prices instruments = Inr rb
    \<and> rp_Orders plan = rb_orders rb)"
  using assms unfolding BuildRebalance_def Let_def
  by (auto simp: bindR_Inr no_plan_def split: if_splits)

lemma BuildRebalance_buying:
  assumes "BuildRebalance inp = Inr plan" "rp_Orders plan \<noteq> []" "positions_ok (pf_Positions inp)"
    "0 \<le> bal_Available (a_Balances (pf_Account inp))" "IsInt64 (bal_Available (a_Balances (pf_Account inp)))"
  obtains prices instruments rb where
    "quoteBook (pf_Snapshot inp) (pf_Prices inp) = Inr (prices, instruments)"
    "buying (pf_Positions inp) (bal_Available (a_Balances (pf_Account inp))) prices rb" "rp_Orders plan = rb_orders rb"
proof -
  let ?cash = "bal_Available (a_Balances (pf_Account inp))"
  let ?ps = "order_rows by_instrument (pf_Positions inp)"
  obtain prices instruments rb where q: "quoteBook (pf_Snapshot inp) (pf_Prices inp) = Inr (prices, instruments)"
    and r: "plan_rebalance inp (used_parameters (pf_Parameters inp)) prices instruments = Inr rb"
    and o: "rp_Orders plan = rb_orders rb"
    using BuildRebalance_cases [OF assms(1)] assms(2) by blast
  define signals where "signals = fold (\<lambda>s m. m(sg_InstrumentID s \<mapsto> s)) (ranked_signals (pf_Evaluation inp)) (\<lambda>_. None)"
  define rb0 where "rb0 = \<lparr>rb_positions = ?ps, rb_orders = [], rb_reasons = [],
              rb_turnover = pf_SessionTurnover inp, rb_cash = ?cash, rb_blocked = [],
              rb_held = (\<lambda>_. None), rb_holdings = 0\<rparr>"
  obtain rb1 where s: "plan_sales inp (used_parameters (pf_Parameters inp)) prices instruments signals rb0 = Inr rb1"
    and b: "foldR (ranked_signals (pf_Evaluation inp)) (start_purchases rb1)
       (plan_purchase inp (used_parameters (pf_Parameters inp)) prices) = Inr rb"
    using r unfolding plan_rebalance_def Let_def signals_def [symmetric] rb0_def [symmetric]
    by (auto simp: bindR_Inr)
  have "selling (pf_Positions inp) ?cash rb0"
    using assms(3) by (simp add: rb0_def selling_def purchases_def sold_def)
  from plan_sales_selling [OF s this] have "selling (pf_Positions inp) ?cash rb1" .
  from selling_buying [OF this assms(4)]
  have b0: "buying (pf_Positions inp) ?cash prices (start_purchases rb1)" .
  have "buying (pf_Positions inp) ?cash prices rb"
    by (rule foldR_inv [OF b, where P = "buying (pf_Positions inp) ?cash prices", OF b0])
      (rule plan_purchase_buying [OF _ _ assms(5)])
  then show ?thesis using that q o by blast
qed

end
