(* ===== verification/Investment_Snapshot.thy ===== *)
theory Investment_Snapshot
  imports Investment_Calendar
begin

text \<open>
  What was known at an instant (\<open>investment/domain/snapshot.go\<close>): the bars, facts, actions and
  news of a snapshot that were available by then, the latest revision of each, in a fixed order;
  and bars adjusted for the splits already effective. A map is an association list in the order of
  first insertion, and the sorts are stable: where Go leaves an order open (two rows with the same
  key) this is one of the orders it may choose.
\<close>

section \<open>Selection\<close>

text \<open>\<open>for ... if skip continue; old, ok := m[key]; if !ok || newer m[key] = r\<close>.\<close>

definition latest_by ::
  "('r \<Rightarrow> bool) \<Rightarrow> ('r \<Rightarrow> string) \<Rightarrow> ('r \<Rightarrow> 'r \<Rightarrow> bool) \<Rightarrow> 'r list \<Rightarrow> (string \<times> 'r) list" where
  "latest_by known key newer rows =
     fold (\<lambda>r m. if \<not> known r then m
            else case map_of m (key r) of
              None \<Rightarrow> put_entry (key r) r m
            | Some old \<Rightarrow> if newer r old then put_entry (key r) r m else m) rows []"

definition bar_key :: "Bar \<Rightarrow> string" where
  "bar_key b = b_InstrumentID b @ ''/'' @ Format_date (b_SessionDate b)"

definition bar_newer :: "Bar \<Rightarrow> Bar \<Rightarrow> bool" where
  "bar_newer b old \<longleftrightarrow> pr_IngestedAt (b_Provenance b) > pr_IngestedAt (b_Provenance old)"

definition fact_key :: "FinancialFact \<Rightarrow> string" where
  "fact_key f = ff_InstrumentID f @ ''/'' @ ff_Concept f @ ''/'' @ Format_date (ff_PeriodStart f) @ ''/''
     @ Format_date (ff_PeriodEnd f) @ ''/'' @ ff_Unit f @ ''/'' @ ff_Currency f"

definition fact_newer :: "FinancialFact \<Rightarrow> FinancialFact \<Rightarrow> bool" where
  "fact_newer f old \<longleftrightarrow> ff_AvailableAt f > ff_AvailableAt old
     \<or> (ff_AvailableAt f = ff_AvailableAt old \<and> bytes_less (ff_Accession old) (ff_Accession f))"

text \<open>\<open>fmt.Sprint\<close> puts a space between the two times only.\<close>

definition fact_order_key :: "FinancialFact \<Rightarrow> string" where
  "fact_order_key f = ff_InstrumentID f @ ff_Concept f @ Time_String (ff_PeriodEnd f) @ '' ''
     @ Time_String (ff_PeriodStart f) @ ff_Unit f @ ff_Currency f"

definition action_newer :: "CorporateAction \<Rightarrow> CorporateAction \<Rightarrow> bool" where
  "action_newer a old \<longleftrightarrow> ca_AvailableAt a > ca_AvailableAt old
     \<or> pr_IngestedAt (ca_Provenance a) > pr_IngestedAt (ca_Provenance old)"

definition by_string :: "('r \<Rightarrow> string) \<Rightarrow> 'r \<Rightarrow> 'r \<Rightarrow> bool" where
  "by_string key x y \<longleftrightarrow> \<not> bytes_less (key y) (key x)"

definition bar_less :: "Bar \<Rightarrow> Bar \<Rightarrow> bool" where
  "bar_less a b \<longleftrightarrow>
     (if b_InstrumentID a \<noteq> b_InstrumentID b then bytes_less (b_InstrumentID a) (b_InstrumentID b)
      else b_SessionDate a < b_SessionDate b)"

definition select_facts :: "FinancialFact list \<Rightarrow> time \<Rightarrow> FinancialFact list" where
  "select_facts facts asOf =
     order_rows (by_string fact_order_key)
       (map snd (latest_by (\<lambda>f. \<not> ff_AvailableAt f > asOf) fact_key fact_newer facts))"

definition SelectSnapshot :: "Snapshot \<Rightarrow> time \<Rightarrow> Snapshot" where
  "SelectSnapshot inp asOf =
     inp\<lparr>s_AsOf := asOf,
         s_Bars := order_rows (\<lambda>a b. \<not> bar_less b a)
           (map snd (latest_by (\<lambda>b. \<not> b_AvailableAt b > asOf) bar_key bar_newer (s_Bars inp))),
         s_Facts := select_facts (s_Facts inp) asOf,
         s_Actions := order_rows (by_string ca_ID)
           (map snd (latest_by (\<lambda>a. \<not> ca_AvailableAt a > asOf) ca_ID action_newer (s_Actions inp))),
         s_News := order_rows (by_string n_ID)
           (map snd (latest_by (\<lambda>n. \<not> (n_AvailableAt n > asOf \<or> n_PublishedAt n > asOf)) n_ID
              (\<lambda>n old. n_AvailableAt n > n_AvailableAt old) (s_News inp))),
         s_Instruments := order_rows (by_string i_ID) (s_Instruments inp)\<rparr>"

section \<open>Adjusted bars\<close>

definition adjust_bar :: "CorporateAction \<Rightarrow> Bar \<Rightarrow> Bar inv_result" where
  "adjust_bar a b =
     (if b_InstrumentID b = ca_InstrumentID a \<and> b_SessionDate b < dateUTC (ca_EffectiveAt a)
      then bindR (scalePrice (b_Open b) (ca_RatioDenominator a) (ca_RatioNumerator a)) (\<lambda>open'.
           bindR (scalePrice (b_High b) (ca_RatioDenominator a) (ca_RatioNumerator a)) (\<lambda>high.
           bindR (scalePrice (b_Low b) (ca_RatioDenominator a) (ca_RatioNumerator a)) (\<lambda>low.
           bindR (scalePrice (b_Close b) (ca_RatioDenominator a) (ca_RatioNumerator a)) (\<lambda>close'.
           Inr (b\<lparr>b_Open := open', b_High := high, b_Low := low, b_Close := close'\<rparr>)))))
      else Inr b)"

definition mapR :: "('a \<Rightarrow> 'e + 'b) \<Rightarrow> 'a list \<Rightarrow> 'e + 'b list" where
  "mapR f xs = foldR xs [] (\<lambda>x ys. bindR (f x) (\<lambda>y. Inr (ys @ [y])))"

definition AdjustedBars :: "Bar list \<Rightarrow> CorporateAction list \<Rightarrow> time \<Rightarrow> Bar list inv_result" where
  "AdjustedBars bars actions asOf =
     foldR actions bars (\<lambda>a bars.
       if ca_Kind a \<noteq> ''split'' \<or> ca_EffectiveAt a > asOf \<or> ca_AvailableAt a > asOf then Inr bars
       else if ca_RatioNumerator a \<le> 0 \<or> ca_RatioDenominator a \<le> 0 then Inl ErrCorporateActionIncomplete
       else mapR (adjust_bar a) bars)"

section \<open>Laws of the selection\<close>

lemma latest_by_in:
  assumes "(k, r) \<in> set (latest_by known key newer rows)"
  shows "r \<in> set rows \<and> known r \<and> k = key r"
proof -
  have "(k, r) \<in> set (fold (\<lambda>r m. if \<not> known r then m
            else case map_of m (key r) of
              None \<Rightarrow> put_entry (key r) r m
            | Some old \<Rightarrow> if newer r old then put_entry (key r) r m else m) rows m)
      \<Longrightarrow> (k, r) \<in> set m \<or> r \<in> set rows \<and> known r \<and> k = key r" for m
  proof (induction rows arbitrary: m)
    case (Cons x rows)
    define m1 where "m1 = (if \<not> known x then m
            else case map_of m (key x) of
              None \<Rightarrow> put_entry (key x) x m
            | Some old \<Rightarrow> if newer x old then put_entry (key x) x m else m)"
    have one: "(k, r) \<in> set m1 \<Longrightarrow> (k, r) \<in> set m \<or> r = x \<and> known x \<and> k = key x"
      unfolding m1_def by (auto split: if_splits option.splits dest!: in_put)
    show ?case using Cons.IH [of m1] Cons.prems one by (auto simp: m1_def [symmetric])
  qed simp
  from this [of "[]"] assms show ?thesis by (simp add: latest_by_def)
qed

lemma latest_by_distinct: "distinct (map fst (latest_by known key newer rows))"
proof -
  have "distinct (map fst m) \<Longrightarrow> distinct (map fst (fold (\<lambda>r m. if \<not> known r then m
            else case map_of m (key r) of
              None \<Rightarrow> put_entry (key r) r m
            | Some old \<Rightarrow> if newer r old then put_entry (key r) r m else m) rows m))" for m
    by (induction rows arbitrary: m) (auto split: option.splits)
  from this [of "[]"] show ?thesis by (simp add: latest_by_def)
qed

text \<open>Nothing that was not yet available is selected.\<close>

lemma SelectSnapshot_known:
  shows "b \<in> set (s_Bars (SelectSnapshot s t)) \<Longrightarrow> b \<in> set (s_Bars s) \<and> b_AvailableAt b \<le> t"
    and "f \<in> set (s_Facts (SelectSnapshot s t)) \<Longrightarrow> f \<in> set (s_Facts s) \<and> ff_AvailableAt f \<le> t"
    and "a \<in> set (s_Actions (SelectSnapshot s t)) \<Longrightarrow> a \<in> set (s_Actions s) \<and> ca_AvailableAt a \<le> t"
    and "n \<in> set (s_News (SelectSnapshot s t)) \<Longrightarrow> n \<in> set (s_News s) \<and> n_AvailableAt n \<le> t \<and> n_PublishedAt n \<le> t"
  by (auto simp: SelectSnapshot_def select_facts_def dest!: latest_by_in)

lemma keyed_distinct:
  assumes "distinct (map fst m)" "\<And>k r. (k, r) \<in> set m \<Longrightarrow> k = key r"
  shows "distinct (map key (map snd m))"
proof -
  have "map key (map snd m) = map fst m"
    unfolding map_map by (rule map_cong [OF refl]) (use assms(2) in force)
  then show ?thesis using assms(1) by (simp only:)
qed

text \<open>At most one revision of a bar and of an action is selected.\<close>

lemma SelectSnapshot_unique:
  "distinct (map bar_key (s_Bars (SelectSnapshot s t)))" "distinct (map ca_ID (s_Actions (SelectSnapshot s t)))"
  "distinct (map fact_key (s_Facts (SelectSnapshot s t)))"
  unfolding SelectSnapshot_def select_facts_def
  by (simp_all add: distinct_map_order_rows del: map_map)
    (rule keyed_distinct [OF latest_by_distinct], drule latest_by_in, simp)+

lemma mapR_append:
  "foldR xs ys0 (\<lambda>x ys. bindR (f x) (\<lambda>y. Inr (ys @ [y]))) =
   bindR (foldR xs [] (\<lambda>x ys. bindR (f x) (\<lambda>y. Inr (ys @ [y])))) (\<lambda>ys. Inr (ys0 @ ys))"
proof (induction xs arbitrary: ys0)
  case (Cons x xs)
  show ?case
  proof (cases "f x")
    case (Inr y)
    then show ?thesis using Cons [of "ys0 @ [y]"] Cons [of "[y]"]
      by (cases "foldR xs [] (\<lambda>x ys. bindR (f x) (\<lambda>y. Inr (ys @ [y])))") simp_all
  qed simp
qed simp

lemma mapR_simps [simp]:
  "mapR f [] = Inr []" "mapR f (x # xs) = bindR (f x) (\<lambda>y. bindR (mapR f xs) (\<lambda>ys. Inr (y # ys)))"
proof -
  show "mapR f [] = Inr []" by (simp add: mapR_def)
  show "mapR f (x # xs) = bindR (f x) (\<lambda>y. bindR (mapR f xs) (\<lambda>ys. Inr (y # ys)))"
    unfolding mapR_def by (cases "f x") (simp_all add: mapR_append [of xs "[_]"])
qed

lemma mapR_all2: "mapR f xs = Inr ys \<Longrightarrow> list_all2 (\<lambda>x y. f x = Inr y) xs ys"
  by (induction xs arbitrary: ys) (auto simp: bindR_Inr)

text \<open>An adjustment keeps each bar's instrument, session and volume, and never loses a bar.\<close>

definition same_bar :: "Bar \<Rightarrow> Bar \<Rightarrow> bool" where
  "same_bar b b' \<longleftrightarrow> b_InstrumentID b' = b_InstrumentID b \<and> b_SessionDate b' = b_SessionDate b
     \<and> b_Volume b' = b_Volume b \<and> b_AvailableAt b' = b_AvailableAt b"

lemma adjust_bar_same: "adjust_bar a b = Inr b' \<Longrightarrow> same_bar b b'"
  by (auto simp: adjust_bar_def bindR_Inr same_bar_def split: if_splits)

lemma AdjustedBars_same:
  assumes "AdjustedBars bars actions asOf = Inr bars'"
  shows "list_all2 same_bar bars bars'"
proof (rule foldR_inv [OF assms [unfolded AdjustedBars_def], where P = "list_all2 same_bar bars"])
  show "list_all2 same_bar bars bars" by (intro list_all2_refl) (simp add: same_bar_def)
next
  fix a b b' assume l: "list_all2 same_bar bars b"
    and s: "(if ca_Kind a \<noteq> ''split'' \<or> ca_EffectiveAt a > asOf \<or> ca_AvailableAt a > asOf then Inr b
       else if ca_RatioNumerator a \<le> 0 \<or> ca_RatioDenominator a \<le> 0 then Inl ErrCorporateActionIncomplete
       else mapR (adjust_bar a) b) = Inr b'"
  then have "b' = b \<or> mapR (adjust_bar a) b = Inr b'" by (auto split: if_splits)
  then show "list_all2 same_bar bars b'"
  proof
    assume "mapR (adjust_bar a) b = Inr b'"
    then have "list_all2 same_bar b b'"
      by (intro list_all2_mono [OF mapR_all2]) (auto dest: adjust_bar_same)
    from list_all2_trans [OF _ l this, of same_bar] show ?thesis by (auto simp: same_bar_def)
  qed (use l in simp)
qed

end
