(* ===== verification/Investment_Factors.thy ===== *)
theory Investment_Factors
  imports Investment_Snapshot
begin

text \<open>
  Price indicators and financial metrics (\<open>investment/domain/indicators.go\<close>,
  \<open>financials.go\<close>, \<open>analysis.go\<close>). Floating-point expressions are evaluated operation by
  operation, each rounded, as on machines without fused multiply-add; amounts of filings are exact
  rationals. Where the code returns a value beside an error and a caller uses it, the result is a
  pair of the value and an optional error.
\<close>

section \<open>Metrics\<close>

definition unavailable :: "string \<Rightarrow> Metric" where
  "unavailable reason = \<lparr>m_Value = None, m_Reason = reason, m_FactRefs = []\<rparr>"

definition valueMetric :: "float64 \<Rightarrow> Metric" where
  "valueMetric v = (if IsNaN v \<or> IsInf v then unavailable ''nonfinite_value''
     else \<lparr>m_Value = Some v, m_Reason = [], m_FactRefs = []\<rparr>)"

definition float_sum :: "float64 list \<Rightarrow> float64" where
  "float_sum vs = fold (\<lambda>v sum. fadd sum v) vs (Finite 0)"

definition sampleStd :: "float64 list \<Rightarrow> float64" where
  "sampleStd values =
     (if length values < 2 then Finite 0
      else let mean = fdiv (float_sum values) (float_of_int (int (length values)));
               variance = fold (\<lambda>v s. fadd s (fmul (fsub v mean) (fsub v mean))) values (Finite 0)
           in fsqrt (fdiv variance (float_of_int (int (length values) - 1))))"

section \<open>Indicators\<close>

definition last_n :: "nat \<Rightarrow> 'a list \<Rightarrow> 'a list" where
  "last_n n xs = drop (length xs - n) xs"

definition close_dollars :: "Bar \<Rightarrow> float64" where
  "close_dollars b = fdiv (float_of_int (b_Close b)) (Finite 1000000)"

definition moving_average :: "Metric \<Rightarrow> Bar list \<Rightarrow> nat \<Rightarrow> Metric" where
  "moving_average missing bars n =
     (if length bars < n then missing
      else valueMetric (fdiv (float_sum (map close_dollars (last_n n bars))) (float_of_int (int n))))"

text \<open>The smoothed gains and losses of the relative strength index.\<close>

definition rsi_step :: "Bar list \<Rightarrow> nat \<Rightarrow> float64 \<times> float64 \<Rightarrow> float64 \<times> float64" where
  "rsi_step bars i = (\<lambda>(gain, loss).
     let change = float_of_int (wrap64 (b_Close (bars ! i) - b_Close (bars ! (i - 1))));
         g = fmax change (Finite 0); l = fmax (fneg change) (Finite 0)
     in if i \<le> 14
        then (fadd gain (fdiv g (Finite 14)), fadd loss (fdiv l (Finite 14)))
        else (fdiv (fadd (fmul gain (Finite 13)) g) (Finite 14),
              fdiv (fadd (fmul loss (Finite 13)) l) (Finite 14)))"

definition relative_strength :: "Metric \<Rightarrow> Bar list \<Rightarrow> Metric" where
  "relative_strength missing bars =
     (if length bars < 15 then missing
      else case fold (rsi_step bars) [1..<length bars] (Finite 0, Finite 0) of (gain, loss) \<Rightarrow>
        valueMetric
          (if feq loss (Finite 0) \<and> fless (Finite 0) gain then Finite 100
           else if fless (Finite 0) loss
           then fsub (Finite 100) (fdiv (Finite 100) (fadd (Finite 1) (fdiv gain loss)))
           else Finite 50))"

definition close_ratio :: "Bar \<Rightarrow> Bar \<Rightarrow> float64" where
  "close_ratio b prior = fdiv (float_of_int (b_Close b)) (float_of_int (b_Close prior))"

definition annual_volatility :: "Metric \<Rightarrow> Bar list \<Rightarrow> Metric" where
  "annual_volatility missing bars =
     (if length bars < 21 then missing
      else let returns = map (\<lambda>i. fsub (close_ratio (bars ! i) (bars ! (i - 1))) (Finite 1))
                           [length bars - 20..<length bars]
           in valueMetric (fmul (sampleStd returns) (fsqrt (Finite 252))))"

definition drawdown_step :: "Bar \<Rightarrow> float64 \<times> float64 \<Rightarrow> float64 \<times> float64" where
  "drawdown_step b = (\<lambda>(peak, drawdown).
     let v = float_of_int (b_Close b); peak = fmax peak v
     in (peak, fmax drawdown (fsub (Finite 1) (fdiv v peak))))"

definition max_drawdown :: "Bar list \<Rightarrow> Metric" where
  "max_drawdown bars =
     valueMetric (snd (fold drawdown_step (last_n 252 bars) (Finite 0, Finite 0)))"

definition average_volume :: "Metric \<Rightarrow> Bar list \<Rightarrow> (Bar \<Rightarrow> float64) \<Rightarrow> Metric" where
  "average_volume missing bars of_bar =
     (if length bars < 20 then missing
      else valueMetric (fdiv (float_sum (map of_bar (last_n 20 bars))) (Finite 20)))"

definition ComputeIndicators :: "Bar list \<Rightarrow> Indicators \<times> investment_error option" where
  "ComputeIndicators inp =
     (let missing = unavailable ''insufficient_price_history'';
          none = \<lparr>in_SMA20 = missing, in_SMA50 = missing, in_SMA200 = missing, in_RSI14 = missing,
                  in_AnnualVolatility = missing, in_MaxDrawdown = missing,
                  in_AverageVolume20 = missing, in_AverageTurnover20 = missing,
                  in_WindowDays = int (length inp)\<rparr>;
          bars = order_rows (\<lambda>a b. b_SessionDate a \<le> b_SessionDate b) inp
      in if inp = [] then (none, Some ErrFactorUnavailable)
         else if list_ex (\<lambda>b. b_Close b \<le> 0 \<or> b_Volume b < 0) bars then (none, Some ErrInvalidInput)
         else (\<lparr>in_SMA20 = moving_average missing bars 20, in_SMA50 = moving_average missing bars 50,
                in_SMA200 = moving_average missing bars 200, in_RSI14 = relative_strength missing bars,
                in_AnnualVolatility = annual_volatility missing bars, in_MaxDrawdown = max_drawdown bars,
                in_AverageVolume20 = average_volume missing bars (\<lambda>b. float_of_int (b_Volume b)),
                in_AverageTurnover20 = average_volume missing bars (\<lambda>b.
                  fdiv (fmul (float_of_int (b_Volume b)) (float_of_int (b_Close b))) (Finite 1000000)),
                in_WindowDays = int (length inp)\<rparr>, None))"

section \<open>Decimal amounts\<close>

definition no_value :: FinancialValue where
  "no_value = \<lparr>fv_Amount = [], fv_Unit = [], fv_Currency = [], fv_Reason = [], fv_FactRefs = [],
     fv_PeriodStart = 0\<rparr>"

text \<open>\<open>^-?[0-9]+(?:\.[0-9]+)?$\<close> and \<open>big.Rat.SetString\<close>.\<close>

definition decimal_rat :: "string \<Rightarrow> rat option" where
  "decimal_rat s =
     (let (sign, body) = (case s of c # cs \<Rightarrow> if c = CHR ''-'' then (-1, cs) else (1, s) | [] \<Rightarrow> (1, s))
      in case decimal_parts body of
        None \<Rightarrow> None
      | Some (whole, fraction) \<Rightarrow>
          Some (sign * of_nat (digits_val (whole @ fraction)) / of_int (10 ^ length fraction)))"

definition rat_of_value :: "FinancialValue \<Rightarrow> rat inv_result" where
  "rat_of_value v =
     (if fv_Reason v \<noteq> [] then Inl ErrFactorUnavailable
      else case decimal_rat (fv_Amount v) of None \<Rightarrow> Inl ErrFactorUnavailable | Some r \<Rightarrow> Inr r)"

text \<open>\<open>Rat.FloatString(12)\<close>: rounded to the nearest, a tie away from zero.\<close>

definition FloatString12 :: "rat \<Rightarrow> string" where
  "FloatString12 r =
     (let n = \<lfloor>\<bar>r\<bar> * 1000000000000 + 1 / 2\<rfloor> in
      (if r < 0 then ''-'' else []) @ Itoa (n div 1000000000000) @ ''.''
        @ pad_digits 12 (nat (n mod 1000000000000)))"

definition TrimRight :: "string \<Rightarrow> char \<Rightarrow> string" where
  "TrimRight s c = rev (dropWhile (\<lambda>x. x = c) (rev s))"

definition decimalRat :: "rat \<Rightarrow> string" where
  "decimalRat r =
     (if snd (quotient_of r) = 1 then Itoa (fst (quotient_of r))
      else TrimRight (TrimRight (FloatString12 r) CHR ''0'') CHR ''.'')"

definition metric_of :: "rat \<Rightarrow> string list \<Rightarrow> Metric" where
  "metric_of v refs =
     (let f = round64 v in
      if IsNaN f \<or> IsInf f then unavailable ''numeric_overflow''
      else \<lparr>m_Value = Some f, m_Reason = [], m_FactRefs = refs\<rparr>)"

definition Ratio :: "FinancialValue \<Rightarrow> FinancialValue \<Rightarrow> bool \<Rightarrow> Metric" where
  "Ratio a b positiveDenominator =
     (if fv_Currency a \<noteq> fv_Currency b \<and> fv_Currency b \<noteq> [] then unavailable ''currency_mismatch''
      else case rat_of_value a of
        Inl _ \<Rightarrow> unavailable ''factor_unavailable''
      | Inr x \<Rightarrow>
          (case rat_of_value b of
             Inl _ \<Rightarrow> unavailable ''nonpositive_denominator''
           | Inr y \<Rightarrow>
               if y = 0 \<or> (positiveDenominator \<and> y < 0) then unavailable ''nonpositive_denominator''
               else metric_of (x / y) (fv_FactRefs a @ fv_FactRefs b)))"

section \<open>Trailing twelve months\<close>

definition fact_ref :: "FinancialFact \<Rightarrow> string" where
  "fact_ref f = ff_Accession f @ ''/'' @ ff_Concept f"

definition instant_fact :: "FinancialFact list \<Rightarrow> string \<Rightarrow> time \<Rightarrow> FinancialFact option" where
  "instant_fact facts concept by_time =
     fold (\<lambda>f chosen.
       if ff_Concept f = concept \<and> \<not> ff_PeriodEnd f > by_time \<and>
          (case chosen of None \<Rightarrow> True | Some c \<Rightarrow> ff_PeriodEnd f > ff_PeriodEnd c)
       then Some f else chosen) facts None"

definition instant_value :: "FinancialFact list \<Rightarrow> string \<Rightarrow> time \<Rightarrow> FinancialValue" where
  "instant_value facts concept by_time =
     (case instant_fact facts concept by_time of
        None \<Rightarrow> no_value\<lparr>fv_Reason := ''fact_unavailable''\<rparr>
      | Some f \<Rightarrow> no_value\<lparr>fv_Amount := ff_Value f, fv_Unit := ff_Unit f, fv_Currency := ff_Currency f,
                          fv_FactRefs := [fact_ref f]\<rparr>)"

record quarter =
  q_end :: time
  q_start :: time
  q_value :: rat
  q_refs :: "string list"
  q_unit :: string
  q_currency :: string

text \<open>\<open>t.Sub(u)\<close> saturates; \<open>Hours\<close> adds the whole hours and the rest.\<close>

definition Sub :: "time \<Rightarrow> time \<Rightarrow> int" where
  "Sub t u = max (- (2 ^ 63)) (min (2 ^ 63 - 1) (t - u))"

definition Hours :: "int \<Rightarrow> float64" where
  "Hours d = fadd (float_of_int (d sdiv Hour)) (fdiv (float_of_int (d smod Hour)) (float_of_int Hour))"

definition days_between :: "time \<Rightarrow> time \<Rightarrow> float64" where
  "days_between t u = fdiv (Hours (Sub t u)) (Finite 24)"

definition ttm_before :: "FinancialFact \<Rightarrow> FinancialFact \<Rightarrow> bool" where
  "ttm_before f g \<longleftrightarrow>
     (if ff_PeriodEnd f \<noteq> ff_PeriodEnd g then ff_PeriodEnd f < ff_PeriodEnd g
      else ff_PeriodStart f > ff_PeriodStart g)"

definition predecessor_of :: "FinancialFact list \<Rightarrow> FinancialFact \<Rightarrow> FinancialFact option" where
  "predecessor_of facts f =
     fold (\<lambda>p chosen.
       if ff_PeriodStart p = ff_PeriodStart f \<and> ff_PeriodEnd p < ff_PeriodEnd f \<and>
          (case chosen of None \<Rightarrow> True | Some c \<Rightarrow> ff_PeriodEnd p > ff_PeriodEnd c)
       then Some p else chosen) facts None"

definition fact_rat :: "FinancialFact \<Rightarrow> rat inv_result" where
  "fact_rat f = rat_of_value (no_value\<lparr>fv_Amount := ff_Value f\<rparr>)"

text \<open>
  The quarter a fact reports: itself, or a longer period less the one it extends; \<open>None\<close> where the
  loop passes on.
\<close>

definition quarter_of :: "FinancialFact list \<Rightarrow> string \<Rightarrow> FinancialFact \<Rightarrow> quarter option inv_result" where
  "quarter_of facts concept f =
     (let days = fadd (days_between (ff_PeriodEnd f) (ff_PeriodStart f)) (Finite 1);
          quarter_with = (\<lambda>start value refs. \<lparr>q_end = ff_PeriodEnd f, q_start = start, q_value = value,
             q_refs = refs, q_unit = ff_Unit f, q_currency = ff_Currency f\<rparr>)
      in if IsZero (ff_PeriodStart f) then Inr None
      else if fless days (Finite 70) \<or> fless (Finite 380) days then Inr None
      else bindR (fact_rat f) (\<lambda>value.
      if \<not> fless (Finite 110) days then Inr (Some (quarter_with (ff_PeriodStart f) value [fact_ref f]))
      else case predecessor_of facts f of
        None \<Rightarrow> Inr None
      | Some p \<Rightarrow>
          let gap = days_between (ff_PeriodEnd f) (ff_PeriodEnd p) in
          if fless gap (Finite 70) \<or> fless (Finite 110) gap then Inr None
          else if ff_Unit p \<noteq> ff_Unit f \<or> ff_Currency p \<noteq> ff_Currency f then Inl ErrFactorUnavailable
          else bindR (fact_rat p) (\<lambda>prior.
          Inr (Some (quarter_with (AddDate (ff_PeriodEnd p) 0 0 1) (value - prior)
                       [fact_ref f, ff_Accession p @ ''/'' @ concept])))))"

definition quarters_of :: "FinancialFact list \<Rightarrow> string \<Rightarrow> quarter list inv_result" where
  "quarters_of facts concept =
     (let rows = order_rows (\<lambda>f g. \<not> ttm_before g f) (List.filter (\<lambda>f. ff_Concept f = concept) facts) in
      foldR rows [] (\<lambda>f qs.
        bindR (quarter_of rows concept f) (\<lambda>q.
        case q of
          None \<Rightarrow> Inr qs
        | Some q \<Rightarrow> if qs \<noteq> [] \<and> q_end (last qs) = ff_PeriodEnd f then Inr qs else Inr (qs @ [q]))))"

definition consecutive :: "quarter list \<Rightarrow> bool" where
  "consecutive qs \<longleftrightarrow>
     list_all (\<lambda>q. q_unit q = q_unit (hd qs) \<and> q_currency q = q_currency (hd qs)) qs
     \<and> list_all (\<lambda>i. q_start (qs ! i) = AddDate (q_end (qs ! (i - 1))) 0 0 1) [1..<length qs]"

definition ttmValue :: "FinancialFact list \<Rightarrow> string \<Rightarrow> (FinancialValue \<times> time) inv_result" where
  "ttmValue facts concept =
     bindR (quarters_of facts concept) (\<lambda>quarters.
     if length quarters < 4 then Inl ErrFactorUnavailable
     else let qs = last_n 4 quarters in
     if \<not> consecutive qs then Inl ErrFactorUnavailable
     else Inr (no_value\<lparr>fv_Amount := decimalRat (sum_list (map q_value qs)), fv_Unit := q_unit (hd qs),
                 fv_Currency := q_currency (hd qs), fv_FactRefs := concat (map q_refs qs),
                 fv_PeriodStart := q_start (hd qs)\<rparr>, q_end (last qs)))"

definition no_ttm :: TTMFinancials where
  "no_ttm = \<lparr>tm_NetIncome = no_value, tm_Revenue = no_value, tm_OperatingCashFlow = no_value,
     tm_CapitalExpenditure = no_value, tm_FreeCashFlow = no_value, tm_DilutedEPS = no_value,
     tm_OpeningEquity = no_value, tm_ClosingEquity = no_value, tm_LatestPeriodEnd = 0\<rparr>"

definition ttm_fields :: "(string \<times> (FinancialValue \<Rightarrow> TTMFinancials \<Rightarrow> TTMFinancials)) list" where
  "ttm_fields =
     [(''NetIncome'', \<lambda>v t. t\<lparr>tm_NetIncome := v\<rparr>), (''Revenue'', \<lambda>v t. t\<lparr>tm_Revenue := v\<rparr>),
      (''OperatingCashFlow'', \<lambda>v t. t\<lparr>tm_OperatingCashFlow := v\<rparr>),
      (''CapitalExpenditure'', \<lambda>v t. t\<lparr>tm_CapitalExpenditure := v\<rparr>)]"

text \<open>The fields in turn; an error stops the loop with the fields read so far.\<close>

fun read_fields ::
  "FinancialFact list \<Rightarrow> (string \<times> (FinancialValue \<Rightarrow> TTMFinancials \<Rightarrow> TTMFinancials)) list
     \<Rightarrow> TTMFinancials \<Rightarrow> TTMFinancials \<times> investment_error option" where
  "read_fields facts [] t = (t, None)"
| "read_fields facts ((concept, put) # others) t =
     (case ttmValue facts concept of
        Inl e \<Rightarrow> (t, Some e)
      | Inr (v, period_end) \<Rightarrow>
          if fv_Unit v \<noteq> ''USD'' \<or> fv_Currency v \<noteq> ''USD'' then (t, Some ErrFactorUnavailable)
          else if \<not> IsZero (tm_LatestPeriodEnd t) \<and> period_end \<noteq> tm_LatestPeriodEnd t
          then (t, Some ErrFactorUnavailable)
          else read_fields facts others (put v (t\<lparr>tm_LatestPeriodEnd := period_end\<rparr>)))"

text \<open>The amount of a field just read is a decimal, so reading it again cannot fail.\<close>

definition value_rat :: "FinancialValue \<Rightarrow> rat" where
  "value_rat v = (case rat_of_value v of Inl _ \<Rightarrow> 0 | Inr r \<Rightarrow> r)"

definition NormalizeTTM :: "FinancialFact list \<Rightarrow> time \<Rightarrow> TTMFinancials \<times> investment_error option" where
  "NormalizeTTM facts0 asOf =
     (let facts = select_facts facts0 asOf in
      case read_fields facts ttm_fields no_ttm of
        (t, Some e) \<Rightarrow> (t, Some e)
      | (t, None) \<Rightarrow>
          let eps = (case ttmValue facts ''DilutedEPS'' of
                       Inl _ \<Rightarrow> no_value\<lparr>fv_Reason := ''eps_unavailable''\<rparr> | Inr (v, _) \<Rightarrow> v);
              capex = \<bar>value_rat (tm_CapitalExpenditure t)\<bar>;
              ocf = value_rat (tm_OperatingCashFlow t)
          in (t\<lparr>tm_DilutedEPS := eps,
                tm_CapitalExpenditure := (tm_CapitalExpenditure t)\<lparr>fv_Amount := decimalRat capex\<rparr>,
                tm_FreeCashFlow := no_value\<lparr>fv_Amount := decimalRat (ocf - capex), fv_Unit := ''USD'',
                  fv_Currency := ''USD'',
                  fv_FactRefs := fv_FactRefs (tm_OperatingCashFlow t) @ fv_FactRefs (tm_CapitalExpenditure t)\<rparr>,
                tm_ClosingEquity := instant_value facts ''Equity'' (tm_LatestPeriodEnd t),
                tm_OpeningEquity := instant_value facts ''Equity''
                  (AddDate (fv_PeriodStart (tm_NetIncome t)) 0 0 (-1))\<rparr>, None))"

section \<open>Valuation and metrics\<close>

definition no_metric :: Metric where
  "no_metric = \<lparr>m_Value = None, m_Reason = [], m_FactRefs = []\<rparr>"

definition all_valuation :: "Metric \<Rightarrow> Valuation" where
  "all_valuation m = \<lparr>vl_PE = m, vl_PB = m, vl_MarketCap = m, vl_EarningsYield = m, vl_FreeCashFlowYield = m\<rparr>"

definition ComputeValuation :: "Price \<Rightarrow> TTMFinancials \<Rightarrow> FinancialValue \<Rightarrow> Valuation inv_result" where
  "ComputeValuation price ttm outstanding =
     (if price \<le> 0 then Inl ErrInvalidInput
      else case rat_of_value outstanding of
        Inl _ \<Rightarrow> Inl ErrFactorUnavailable
      | Inr share \<Rightarrow>
          if share \<le> 0 \<or> fv_Unit outstanding \<noteq> ''shares'' then Inl ErrFactorUnavailable
          else let p = of_int price / 1000000; cap = p * share;
                   capital = no_value\<lparr>fv_Amount := decimalRat cap, fv_Currency := ''USD'', fv_Unit := ''USD'',
                               fv_FactRefs := fv_FactRefs outstanding\<rparr>;
                   priceValue = no_value\<lparr>fv_Amount := decimalRat p, fv_Currency := ''USD'',
                                  fv_Unit := ''USD/shares''\<rparr>;
                   pe = (if fv_Unit (tm_DilutedEPS ttm) \<noteq> ''USD/shares'' \<or> fv_Currency (tm_DilutedEPS ttm) \<noteq> ''USD''
                         then unavailable ''unit_or_currency_mismatch''
                         else Ratio priceValue (tm_DilutedEPS ttm) True)
               in Inr \<lparr>vl_PE = pe, vl_PB = Ratio capital (tm_ClosingEquity ttm) True,
                       vl_MarketCap = metric_of cap (fv_FactRefs outstanding),
                       vl_EarningsYield = Ratio (tm_NetIncome ttm) capital True,
                       vl_FreeCashFlowYield = Ratio (tm_FreeCashFlow ttm) capital True\<rparr>)"

definition averageEquity :: "TTMFinancials \<Rightarrow> FinancialValue" where
  "averageEquity t =
     (case (rat_of_value (tm_OpeningEquity t), rat_of_value (tm_ClosingEquity t)) of
        (Inr a, Inr b) \<Rightarrow>
          if fv_Currency (tm_OpeningEquity t) \<noteq> fv_Currency (tm_ClosingEquity t)
          then no_value\<lparr>fv_Reason := ''equity_unavailable''\<rparr>
          else no_value\<lparr>fv_Amount := decimalRat ((a + b) / 2), fv_Currency := fv_Currency (tm_ClosingEquity t),
                 fv_Unit := fv_Unit (tm_ClosingEquity t),
                 fv_FactRefs := fv_FactRefs (tm_OpeningEquity t) @ fv_FactRefs (tm_ClosingEquity t)\<rparr>
      | _ \<Rightarrow> no_value\<lparr>fv_Reason := ''equity_unavailable''\<rparr>)"

definition growth :: "FinancialValue \<Rightarrow> FinancialValue \<Rightarrow> Metric" where
  "growth current previous =
     (let r = Ratio current previous True in
      case m_Value r of None \<Rightarrow> r | Some v \<Rightarrow> r\<lparr>m_Value := Some (fsub v (Finite 1))\<rparr>)"

text \<open>The latest date of a share count, and whether a split makes per-share figures uncertain.\<close>

definition shares_end :: "FinancialFact list \<Rightarrow> time \<Rightarrow> time" where
  "shares_end facts latest =
     fold (\<lambda>f t. if ff_Concept f = ''Shares'' \<and> \<not> ff_PeriodEnd f > latest \<and> ff_PeriodEnd f > t
                 then ff_PeriodEnd f else t) facts 0"

definition split_unverified :: "CorporateAction list \<Rightarrow> time \<Rightarrow> TTMFinancials \<Rightarrow> time \<Rightarrow> bool" where
  "split_unverified actions asOf t counted \<longleftrightarrow>
     list_ex (\<lambda>a. ca_Kind a = ''split'' \<and> \<not> ca_EffectiveAt a > asOf \<and> \<not> ca_AvailableAt a > asOf
       \<and> (\<not> ca_EffectiveAt a < fv_PeriodStart (tm_NetIncome t) \<or> counted < dateUTC (ca_EffectiveAt a))) actions"

definition ComputeFinancialMetrics ::
  "FinancialFact list \<Rightarrow> Bar list \<Rightarrow> time \<Rightarrow> CorporateAction list \<Rightarrow> FinancialMetrics \<times> investment_error option" where
  "ComputeFinancialMetrics facts bars asOf actions =
     (let (ind, e) = ComputeIndicators bars;
          m = \<lparr>fm_TTM = no_ttm, fm_Valuation = all_valuation no_metric, fm_Indicators = ind,
               fm_ProfitGrowth = no_metric, fm_RevenueGrowth = no_metric, fm_DebtRatio = no_metric,
               fm_ROE = no_metric\<rparr>
      in case e of Some e \<Rightarrow> (m, Some e)
      | None \<Rightarrow>
          let (t, e) = NormalizeTTM facts asOf; m = m\<lparr>fm_TTM := t\<rparr> in
          case e of Some e \<Rightarrow> (m, Some e)
          | None \<Rightarrow>
              let selected = select_facts facts asOf;
                  value_of = (\<lambda>concept. instant_value selected concept (tm_LatestPeriodEnd t));
                  v = ComputeValuation (b_Close (last bars)) t (value_of ''Shares'');
                  valuation = (if split_unverified actions asOf t (shares_end selected (tm_LatestPeriodEnd t))
                               then all_valuation (unavailable ''split_reporting_basis_unverified'')
                               else case v of Inl _ \<Rightarrow> all_valuation no_metric | Inr x \<Rightarrow> x);
                  prior = NormalizeTTM (List.filter (\<lambda>f. \<not> ff_PeriodEnd f > AddDate (tm_LatestPeriodEnd t) (-1) 0 0)
                            selected) asOf;
                  none = unavailable ''comparable_period_unavailable'';
                  (profit, revenue) =
                    (case prior of
                       (p, Some _) \<Rightarrow> (none, none)
                     | (p, None) \<Rightarrow> (growth (tm_NetIncome t) (tm_NetIncome p), growth (tm_Revenue t) (tm_Revenue p)))
              in (m\<lparr>fm_Valuation := valuation, fm_ROE := Ratio (tm_NetIncome t) (averageEquity t) True,
                    fm_DebtRatio := Ratio (value_of ''Debt'') (value_of ''Assets'') True,
                    fm_ProfitGrowth := profit, fm_RevenueGrowth := revenue\<rparr>,
                  case v of Inl e \<Rightarrow> Some e | Inr _ \<Rightarrow> None))"

section \<open>Risk and recommendation\<close>

definition ClassifyRisk :: "Indicators \<Rightarrow> RiskAssessment" where
  "ClassifyRisk i =
     (case (m_Value (in_AnnualVolatility i), m_Value (in_MaxDrawdown i)) of
        (Some v, Some d) \<Rightarrow>
          \<lparr>ra_Level = (if fless (round64 (6/10)) v \<or> fless (round64 (35/100)) d then ''high''
                      else if fless (round64 (3/10)) v \<or> fless (round64 (2/10)) d then ''medium'' else ''low''),
           ra_Reasons = (if fless (round64 (3/10)) v then [''annual_volatility_elevated''] else [])
             @ (if fless (round64 (2/10)) d then [''historical_drawdown_elevated''] else []),
           ra_AsOf = 0\<rparr>
      | _ \<Rightarrow> \<lparr>ra_Level = ''unknown'', ra_Reasons = [''price_risk_metrics_incomplete''], ra_AsOf = 0\<rparr>)"

definition Explain :: "float64 \<Rightarrow> FinancialMetrics \<Rightarrow> RiskAssessment \<Rightarrow> Recommendation" where
  "Explain score metrics risk =
     (let (potential, action) =
            (if fle (Finite 70) score then (''high'', ''consider_after_account_risk_checks'')
             else if fle (Finite 50) score then (''observe'', ''observe'') else (''weak'', ''observe''));
          evidence = [''relative_factor_score_not_profit_probability'', ''unvalidated_research_weights''];
          (action, evidence, unknowns) =
            (if ra_Level risk = ''high'' then (''avoid_new_automatic_buy'', evidence @ [''high_price_risk''], [])
             else if ra_Level risk = ''unknown'' then (''insufficient_evidence'', evidence, ra_Reasons risk)
             else (action, evidence, []))
      in \<lparr>rc_Action = action, rc_Potential = potential, rc_StrategyVersionID = [], rc_UniverseVersionID = [],
          rc_AsOf = 0, rc_Evidence = evidence,
          rc_Unknowns = unknowns @ (if m_Value (vl_PE (fm_Valuation metrics)) = None
                                    then [''pe_unavailable''] else [])\<rparr>)"

end
