(* ===== verification/Investment_Scoring.thy ===== *)
theory Investment_Scoring
  imports Investment_Factors
begin

text \<open>
  Ranking the instruments of a universe (\<open>investment/domain/scoring.go\<close>) and measuring a curve of
  net asset values (\<open>performance.go\<close>). \<open>math.Pow\<close> is not correctly rounded and its code is not
  part of the repository: it is the parameter \<open>pow\<close>.
\<close>

section \<open>Percentiles\<close>

text \<open>Rows of a value and its index, by value; the ends of the run of equal values from \<open>start\<close>.\<close>

definition indexed :: "float64 list \<Rightarrow> (float64 \<times> nat) list" where
  "indexed values = order_rows (\<lambda>x y. \<not> fless (fst y) (fst x)) (zip values [0..<length values])"

function rank_runs :: "(float64 \<times> nat) list \<Rightarrow> bool \<Rightarrow> nat \<Rightarrow> (nat \<times> float64) list" where
  "rank_runs rows higher start =
     (if start < length rows
      then let run = takeWhile (\<lambda>r. feq (fst r) (fst (rows ! start))) (drop (Suc start) rows);
               stop = Suc start + length run;
               score = fmul (fdiv (fdiv (float_of_int (int (start + stop) - 1)) (Finite 2))
                                  (float_of_int (int (length rows) - 1))) (Finite 100);
               score = (if higher then score else fsub (Finite 100) score)
           in map (\<lambda>r. (snd r, score)) (take (stop - start) (drop start rows)) @ rank_runs rows higher stop
      else [])"
  by pat_completeness auto
termination
  by (relation "measure (\<lambda>(rows, higher, start). length rows - start)") auto

declare rank_runs.simps [simp del]

definition RankPercentiles :: "float64 list \<Rightarrow> bool \<Rightarrow> float64 list inv_result" where
  "RankPercentiles values higherIsBetter =
     (if length values < 2 then Inl ErrInsufficientUniverse
      else if list_ex (\<lambda>v. IsNaN v \<or> IsInf v) values then Inl ErrFactorUnavailable
      else let ranks = rank_runs (indexed values) higherIsBetter 0 in
           Inr (map (\<lambda>i. case map_of ranks i of None \<Rightarrow> Finite 0 | Some s \<Rightarrow> s) [0..<length values]))"

definition WeightedScore :: "float64 list \<Rightarrow> StrategyParameters \<Rightarrow> float64" where
  "WeightedScore groups p =
     (let v = fold (\<lambda>(g, w) v. fadd v (fmul g w)) (zip groups (sp_Weights p)) (Finite 0) in
      fdiv (fround (fmul v (Finite 10))) (Finite 10))"

section \<open>Candidates\<close>

type_synonym candidate_row = "Signal \<times> float64 list"

definition excluded :: "string \<Rightarrow> string \<Rightarrow> (Exclusion + candidate_row)" where
  "excluded i reason = Inl \<lparr>ex_InstrumentID = i, ex_Reason = reason\<rparr>"

fun error_text :: "investment_error \<Rightarrow> string" where
  "error_text ErrInvalidInput = ''invalid_input''"
| "error_text ErrOverflow = ''numeric_overflow''"
| "error_text ErrNotFound = ''not_found''"
| "error_text ErrDataNotConfigured = ''data_not_configured''"
| "error_text ErrDataStale = ''data_stale''"
| "error_text ErrInsufficientUniverse = ''insufficient_universe''"
| "error_text ErrFactorUnavailable = ''factor_unavailable''"
| "error_text ErrCorporateActionIncomplete = ''corporate_action_incomplete''"
| "error_text ErrInsufficientCash = ''insufficient_settled_cash''"
| "error_text ErrRiskLimit = ''risk_limit_exceeded''"
| "error_text ErrAutomationPaused = ''automation_paused''"
| "error_text ErrVersionConflict = ''version_conflict''"
| "error_text ErrIdempotencyConflict = ''idempotency_conflict''"
| "error_text ErrOrderNotCancellable = ''order_not_cancellable''"

definition rows_of :: "('r \<Rightarrow> string) \<Rightarrow> string \<Rightarrow> 'r list \<Rightarrow> 'r list" where
  "rows_of key i rows = List.filter (\<lambda>r. key r = i) rows"

text \<open>Why an instrument is left out before its factors are computed; the last reason counts.\<close>

definition exclusion_reason :: "Instrument option \<Rightarrow> CorporateAction list \<Rightarrow> Bar list \<Rightarrow> string" where
  "exclusion_reason instrument actions bars =
     (let reason = (case instrument of
            None \<Rightarrow> ''instrument_ineligible''
          | Some i \<Rightarrow>
              if i_Kind i \<noteq> ''stock'' \<or> \<not> i_Tradable i then ''instrument_ineligible''
              else if Industry (i_SIC i) = ''unknown'' \<or> Industry (i_SIC i) = ''finance''
              then ''strategy_industry_excluded'' else []);
          reason = (if list_ex (\<lambda>a. ca_Kind a \<noteq> ''split'' \<and> ca_Kind a \<noteq> ''dividend'') actions
                    then ''corporate_action_incomplete'' else reason)
      in if length bars < 201 then ''insufficient_price_history'' else reason)"

definition present :: "Metric \<Rightarrow> float64" where
  "present m = (case m_Value m of None \<Rightarrow> Finite 0 | Some v \<Rightarrow> v)"

definition raw_factors :: "FinancialMetrics \<Rightarrow> Metric \<Rightarrow> Bar list \<Rightarrow> float64 list" where
  "raw_factors metrics ocfMargin bars =
     (let n = length bars; one = (\<lambda>x. fsub x (Finite 1)); latest = bars ! (n - 1);
          ind = fm_Indicators metrics; val = fm_Valuation metrics
      in [one (close_ratio latest (bars ! (n - 64))), one (close_ratio latest (bars ! (n - 127))),
          one (fdiv (close_dollars latest) (present (in_SMA50 ind))),
          one (fdiv (present (in_SMA50 ind)) (present (in_SMA200 ind))),
          present (in_AnnualVolatility ind), present (vl_EarningsYield val),
          present (vl_FreeCashFlowYield val), present (fm_ROE metrics), present ocfMargin])"

definition no_recommendation :: Recommendation where
  "no_recommendation = \<lparr>rc_Action = [], rc_Potential = [], rc_StrategyVersionID = [],
     rc_UniverseVersionID = [], rc_AsOf = 0, rc_Evidence = [], rc_Unknowns = []\<rparr>"

definition candidate_of :: "Snapshot \<Rightarrow> string \<Rightarrow> Exclusion + candidate_row" where
  "candidate_of s i =
     (let instrument = map_of (rev (map (\<lambda>x. (i_ID x, x)) (s_Instruments s))) i;
          raw_bars = rows_of b_InstrumentID i (s_Bars s);
          facts = rows_of ff_InstrumentID i (s_Facts s);
          actions = rows_of ca_InstrumentID i (s_Actions s);
          reason = exclusion_reason instrument actions raw_bars
      in if reason \<noteq> [] then excluded i reason
      else case AdjustedBars raw_bars actions (s_AsOf s) of
        Inl e \<Rightarrow> excluded i (error_text e)
      | Inr bars \<Rightarrow>
          (case LatestCompleted (s_Calendar s) (s_AsOf s) of
             Inl _ \<Rightarrow> excluded i ''data_stale''
           | Inr latest \<Rightarrow>
               if b_SessionDate (last bars) \<noteq> ts_Date latest then excluded i ''data_stale''
               else (case ComputeFinancialMetrics facts bars (s_AsOf s) actions of
                 (_, Some _) \<Rightarrow> excluded i ''factor_unavailable''
               | (metrics, None) \<Rightarrow>
                   let t = fm_TTM metrics; ind = fm_Indicators metrics; val = fm_Valuation metrics;
                       ocfMargin = Ratio (tm_OperatingCashFlow t) (tm_Revenue t) True
                   in if Sub (s_AsOf s) (tm_LatestPeriodEnd t) > 180 * 24 * Hour
                   then excluded i ''financial_report_stale''
                   else if list_ex (\<lambda>m. m_Value m = None)
                        [in_SMA50 ind, in_SMA200 ind, in_AnnualVolatility ind, vl_EarningsYield val,
                         vl_FreeCashFlowYield val, fm_ROE metrics, ocfMargin]
                   then excluded i ''factor_unavailable''
                   else (case rat_of_value (averageEquity t) of
                     Inl _ \<Rightarrow> excluded i ''nonpositive_equity''
                   | Inr equity \<Rightarrow>
                       if equity \<le> 0 then excluded i ''nonpositive_equity''
                       else Inr (\<lparr>sg_InstrumentID = i,
                                  sg_Industry = (case instrument of None \<Rightarrow> [] | Some x \<Rightarrow> Industry (i_SIC x)),
                                  sg_Score = Finite 0, sg_Rank = 0, sg_FactorEvidence = [],
                                  sg_QualityFlags = [''relative_score_not_probability''],
                                  sg_Metrics = metrics,
                                  sg_Risk = (ClassifyRisk ind)\<lparr>ra_AsOf := s_AsOf s\<rparr>,
                                  sg_Recommendation = no_recommendation\<rparr>,
                                raw_factors metrics ocfMargin bars)))))"

section \<open>Evaluation\<close>

definition factor_groups :: "(string \<times> nat list) list" where
  "factor_groups = [(''momentum'', [0, 1]), (''trend'', [2, 3]), (''low_volatility'', [4]),
     (''value'', [5, 6]), (''quality'', [7, 8])]"

definition group_refs :: "Snapshot \<Rightarrow> Signal \<Rightarrow> string \<Rightarrow> string list" where
  "group_refs snapshot signal name =
     (let priceRefs = [''snapshot:'' @ s_ID snapshot @ ''/bars/'' @ sg_InstrumentID signal];
          m = sg_Metrics signal
      in if name = ''value'' then priceRefs @ m_FactRefs (vl_EarningsYield (fm_Valuation m))
                                  @ m_FactRefs (vl_FreeCashFlowYield (fm_Valuation m))
         else if name = ''quality'' then m_FactRefs (fm_ROE m) @ fv_FactRefs (tm_OperatingCashFlow (fm_TTM m))
                                         @ fv_FactRefs (tm_Revenue (fm_TTM m))
         else priceRefs)"

definition group_evidence ::
  "Snapshot \<Rightarrow> Signal \<Rightarrow> float64 list \<Rightarrow> float64 list \<Rightarrow> (string \<times> nat list) \<times> float64 \<Rightarrow> FactorEvidence \<times> float64" where
  "group_evidence snapshot signal raw ranks = (\<lambda>((name, indexes), weight).
     let score = fold (\<lambda>f v. fadd v (fdiv (ranks ! f) (float_of_int (int (length indexes))))) indexes (Finite 0)
     in (\<lparr>fe_Group = name, fe_RawValues = map (\<lambda>f. raw ! f) indexes,
          fe_Percentiles = map (\<lambda>f. ranks ! f) indexes, fe_Weight = weight,
          fe_Contribution = fmul score weight, fe_FactRefs = group_refs snapshot signal name\<rparr>, score))"

definition scored_signal ::
  "Snapshot \<Rightarrow> UniverseVersion \<Rightarrow> StrategyVersion \<Rightarrow> float64 list list \<Rightarrow> nat \<Rightarrow> candidate_row \<Rightarrow> Signal" where
  "scored_signal snapshot universe strategy ranks i = (\<lambda>(signal, raw).
     let evidence = map (group_evidence snapshot signal raw (map (\<lambda>r. r ! i) ranks))
                      (zip factor_groups (sp_Weights (sv_Parameters strategy)));
         score = WeightedScore (map snd evidence) (sv_Parameters strategy)
     in signal\<lparr>sg_FactorEvidence := map fst evidence, sg_Score := score,
               sg_Recommendation := (Explain score (sg_Metrics signal) (sg_Risk signal))
                 \<lparr>rc_AsOf := s_AsOf snapshot, rc_StrategyVersionID := sv_ID strategy,
                  rc_UniverseVersionID := uv_ID universe\<rparr>\<rparr>)"

definition ranked :: "Signal list \<Rightarrow> Signal list" where
  "ranked signals =
     (let ss = order_rows (\<lambda>a b. \<not> signal_before b a) signals in
      map (\<lambda>(n, s). s\<lparr>sg_Rank := int n + 1\<rparr>) (zip [0..<length ss] ss))"

text \<open>The instruments in turn; a repeated one stops the loop with the exclusions so far.\<close>

fun candidates_of ::
  "Snapshot \<Rightarrow> string list \<Rightarrow> string list \<Rightarrow> Exclusion list \<Rightarrow> candidate_row list
     \<Rightarrow> Exclusion list \<times> candidate_row list \<times> investment_error option" where
  "candidates_of s [] seen ex cs = (ex, cs, None)"
| "candidates_of s (i # is) seen ex cs =
     (if i \<in> set seen then (ex, cs, Some ErrInvalidInput)
      else case candidate_of s i of
        Inl x \<Rightarrow> candidates_of s is (i # seen) (ex @ [x]) cs
      | Inr c \<Rightarrow> candidates_of s is (i # seen) ex (cs @ [c]))"

definition new_evaluation :: "Snapshot \<Rightarrow> UniverseVersion \<Rightarrow> StrategyVersion \<Rightarrow> Evaluation" where
  "new_evaluation snapshot universe strategy =
     no_evaluation\<lparr>ev_SnapshotID := s_ID snapshot, ev_StrategyVersionID := sv_ID strategy,
       ev_UniverseVersionID := uv_ID universe, ev_State := ''completed'', ev_AsOf := s_AsOf snapshot,
       ev_QualityFlags := s_QualityFlags snapshot\<rparr>"

definition Evaluate :: "Snapshot \<Rightarrow> UniverseVersion \<Rightarrow> StrategyVersion \<Rightarrow> Evaluation \<times> investment_error option" where
  "Evaluate snapshot universe strategy =
     (let out = new_evaluation snapshot universe strategy in
      case StrategyParameters_Validate (sv_Parameters strategy) of Inl e \<Rightarrow> (out, Some e)
      | Inr _ \<Rightarrow>
          (case candidates_of (SelectSnapshot snapshot (s_AsOf snapshot)) (uv_InstrumentIDs universe) [] [] [] of
             (ex, cs, Some e) \<Rightarrow> (out\<lparr>ev_Excluded := ex\<rparr>, Some e)
           | (ex, cs, None) \<Rightarrow>
               let out = out\<lparr>ev_Excluded := ex\<rparr> in
               if length cs < 10
               then (out\<lparr>ev_State := ''insufficient_universe'', ev_Reason := ''insufficient_universe''\<rparr>,
                     Some ErrInsufficientUniverse)
               else (case mapR (\<lambda>f. RankPercentiles (map (\<lambda>c. snd c ! f) cs) (f \<noteq> 4)) [0..<9] of
                 Inl e \<Rightarrow> (out, Some e)
               | Inr ranks \<Rightarrow>
                   (out\<lparr>ev_Signals := ranked (map (\<lambda>(i, c). scored_signal snapshot universe strategy ranks i c)
                                             (zip [0..<length cs] cs))\<rparr>, None))))"

section \<open>Performance\<close>

record Performance =
  pe_CumulativeReturn :: float64
  pe_MaxDrawdown :: float64
  pe_Turnover :: float64
  pe_AnnualReturn :: "float64 option"
  pe_Sharpe :: "float64 option"
  pe_MissingReasons :: "string list"
  pe_TradingDays :: int

text \<open>One point of the curve: the peak, the previous value, the sum, the drawdown and the returns.\<close>

definition performance_step ::
  "NAVPoint \<Rightarrow> Money \<times> Money \<times> float64 \<times> float64 \<times> float64 list
     \<Rightarrow> (Money \<times> Money \<times> float64 \<times> float64 \<times> float64 list) inv_result" where
  "performance_step p = (\<lambda>(peak, previous, sum, drawdown, returns).
     let nav = nv_NAV p in
     if nav < 0 \<or> previous \<le> 0 then Inl ErrInvalidInput
     else let peak = (if nav > peak then nav else peak);
              dd = fsub (Finite 1) (fdiv (float_of_int nav) (float_of_int peak))
          in Inr (peak, nav, fadd sum (float_of_int nav), if fless drawdown dd then dd else drawdown,
                  returns @ [fsub (fdiv (float_of_int nav) (float_of_int previous)) (Finite 1)]))"

definition annual_return :: "(float64 \<Rightarrow> float64 \<Rightarrow> float64) \<Rightarrow> Money \<Rightarrow> Money \<Rightarrow> nat \<Rightarrow> float64" where
  "annual_return pow nav initial days =
     fsub (pow (fdiv (float_of_int nav) (float_of_int initial))
               (fdiv (Finite 252) (float_of_int (int days)))) (Finite 1)"

text \<open>The ratio, or the reason there is none.\<close>

definition sharpe_ratio :: "float64 list \<Rightarrow> string + float64" where
  "sharpe_ratio returns =
     (if length returns < 60 then Inl ''sharpe_requires_60_daily_returns''
      else let mean = fdiv (float_sum returns) (float_of_int (int (length returns)));
               variance = fdiv (fold (\<lambda>v s. fadd s (fmul (fsub v mean) (fsub v mean))) returns (Finite 0))
                            (float_of_int (int (length returns) - 1))
           in if fless variance (round64 (1 / 10 ^ 24)) then Inl ''sharpe_zero_variance''
              else Inr (fmul (fdiv mean (fsqrt variance)) (fsqrt (Finite 252))))"

definition ComputePerformance ::
  "(float64 \<Rightarrow> float64 \<Rightarrow> float64) \<Rightarrow> NAVPoint list \<Rightarrow> Fill list \<Rightarrow> Money \<Rightarrow> Performance inv_result" where
  "ComputePerformance pow curve fills initial =
     (if initial \<le> 0 \<or> curve = [] then Inl ErrDataStale
      else bindR (foldR curve (initial, initial, Finite 0, Finite 0, []) performance_step)
        (\<lambda>(peak, previous, sum, drawdown, returns).
      bindR (foldR fills (Finite 0) (\<lambda>f gross.
               if f_Gross f < 0 then Inl ErrInvalidInput else Inr (fadd gross (float_of_int (f_Gross f)))))
        (\<lambda>gross.
      let long = 252 \<le> length curve;
          sharpe = sharpe_ratio returns
      in Inr \<lparr>pe_CumulativeReturn = fsub (fdiv (float_of_int previous) (float_of_int initial)) (Finite 1),
              pe_MaxDrawdown = drawdown,
              pe_Turnover = (if fless (Finite 0) sum
                             then fdiv gross (fdiv sum (float_of_int (int (length curve)))) else Finite 0),
              pe_AnnualReturn = (if long then Some (annual_return pow previous initial (length curve)) else None),
              pe_Sharpe = (case sharpe of Inl _ \<Rightarrow> None | Inr v \<Rightarrow> Some v),
              pe_MissingReasons = (if long then [] else [''annual_requires_252_trading_days''])
                @ (case sharpe of Inl reason \<Rightarrow> [reason] | Inr _ \<Rightarrow> []),
              pe_TradingDays = int (length curve)\<rparr>)))"

end
