(* ===== verification/Investment_Replay.thy ===== *)
theory Investment_Replay
  imports Investment_Rebalance Investment_Scoring
begin

text \<open>
  The backtest (\<open>investment/domain/backtest.go\<close>): a book of orders, positions and ledger entries
  replayed session by session, reconciled with settlements and corporate actions, planned with
  \<open>BuildRebalance\<close> and executed with \<open>MatchAtOpen\<close> and \<open>ApplyFill\<close>. The context is one that is
  not cancelled. \<open>new_york\<close> is midnight in New York and \<open>pow\<close> is \<open>math.Pow\<close>, as before.
\<close>

section \<open>Data\<close>

record BacktestInput =
  bi_Snapshots :: "Snapshot list"
  bi_Calendar :: Calendar
  bi_Universe :: UniverseVersion
  bi_Strategy :: StrategyVersion
  bi_InitialCash :: Money
  bi_From :: time
  bi_To :: time
  bi_BenchmarkID :: string

record ReplayEvent =
  re_Kind :: string
  re_EffectiveAt :: time
  re_RecordedAt :: time
  re_Order :: "Order option"
  re_Fill :: "Fill option"
  re_Entries :: "LedgerEntry list"

record BacktestResult =
  bt_Trace :: "ReplayEvent list"
  bt_BenchmarkTrace :: "ReplayEvent list"
  bt_Curve :: "NAVPoint list"
  bt_BenchmarkCurve :: "NAVPoint list"
  bt_Fills :: "Fill list"
  bt_BenchmarkFills :: "Fill list"
  bt_Metrics :: Performance
  bt_BenchmarkMetrics :: "Performance option"
  bt_QualityFlags :: "string list"
  bt_BenchmarkReason :: string

record replayBook =
  bk_account :: Account
  bk_positions :: "Position list"
  bk_orders :: "Order list"
  bk_ledger :: "LedgerEntry list"
  bk_fills :: "Fill list"
  bk_trace :: "ReplayEvent list"
  bk_applied :: "string \<Rightarrow> CorporateAction option"
  bk_paid :: "string list"
  bk_settled :: "string list"
  bk_peak :: Money

definition newReplayBook :: "string \<Rightarrow> Snapshot \<Rightarrow> Money \<Rightarrow> replayBook" where
  "newReplayBook name first cash =
     \<lparr>bk_account = \<lparr>a_DatasetVersion = s_DatasetVersion first, a_ID = name, a_Name = [],
        a_Mode = s_Mode first, a_StrategyVersionID = [], a_UniverseVersionID = [],
        a_Scope = \<lparr>sc_WorkspaceID = [], sc_OwnerUserID = []\<rparr>,
        a_Balances = no_balances\<lparr>bal_Available := cash\<rparr>, a_InitialCash = cash, a_Version = 0,
        a_AutomationEnabled = True, a_PauseReason = [], a_Policy = DefaultRiskPolicy,
        a_PendingConfig = None, a_CreatedAt = 0\<rparr>,
      bk_positions = [], bk_orders = [], bk_ledger = [], bk_fills = [], bk_trace = [],
      bk_applied = (\<lambda>_. None), bk_paid = [], bk_settled = [], bk_peak = cash\<rparr>"

definition entry_event :: "string \<Rightarrow> time \<Rightarrow> LedgerEntry \<Rightarrow> ReplayEvent" where
  "entry_event kind recorded l = \<lparr>re_Kind = kind, re_EffectiveAt = le_EffectiveAt l,
     re_RecordedAt = recorded, re_Order = None, re_Fill = None, re_Entries = [l]\<rparr>"

definition book_apply :: "LedgerMutation \<Rightarrow> string \<Rightarrow> time \<Rightarrow> replayBook \<Rightarrow> replayBook" where
  "book_apply m kind recorded b =
     b\<lparr>bk_account := lm_Account m,
       bk_positions := (if lm_Positions m = [] then bk_positions b else lm_Positions m),
       bk_ledger := bk_ledger b @ lm_Entries m,
       bk_trace := bk_trace b @ map (entry_event kind recorded) (lm_Entries m)\<rparr>"

section \<open>Reconciliation\<close>

definition settle_book :: "(int \<Rightarrow> time) option \<Rightarrow> Calendar \<Rightarrow> time \<Rightarrow> replayBook \<Rightarrow> replayBook inv_result" where
  "settle_book new_york calendar now b =
     (let pending = List.filter (\<lambda>l. le_Kind l = ''sell_fill'' \<and> le_EventKey l \<notin> set (bk_settled b)) (bk_ledger b) in
      bindR (SettleReceivables new_york (bk_account b) pending calendar now) (\<lambda>m.
      let b = book_apply m ''settlement'' now b in
      Inr (b\<lparr>bk_settled := map le_EventKey (List.filter (\<lambda>p.
               list_ex (\<lambda>l. le_EventKey l = ''settlement/'' @ le_EventKey p) (lm_Entries m)) pending)
             @ bk_settled b\<rparr>)))"

definition action_before :: "CorporateAction \<Rightarrow> CorporateAction \<Rightarrow> bool" where
  "action_before a b \<longleftrightarrow>
     (if ca_EffectiveAt a \<noteq> ca_EffectiveAt b then ca_EffectiveAt a < ca_EffectiveAt b
      else if ca_Kind a \<noteq> ca_Kind b then ca_Kind a = ''split''
      else bytes_less (ca_ID a) (ca_ID b))"

definition set_state :: "nat \<Rightarrow> string \<Rightarrow> replayBook \<Rightarrow> replayBook" where
  "set_state n state b = b\<lparr>bk_orders := (bk_orders b)[n := (bk_orders b ! n)\<lparr>o_State := state\<rparr>]\<rparr>"

text \<open>Releasing the \<open>n\<close>th order.\<close>

definition release_nth :: "nat \<Rightarrow> string \<Rightarrow> string \<Rightarrow> string \<Rightarrow> time \<Rightarrow> replayBook \<Rightarrow> replayBook inv_result" where
  "release_nth n kind event state now b =
     bindR (ReleaseOrder (bk_account b) (bk_positions b) (bk_orders b ! n) kind now) (\<lambda>m.
     Inr (set_state n state (book_apply m event now b)))"

definition cancel_for_split :: "CorporateAction \<Rightarrow> time \<Rightarrow> replayBook \<Rightarrow> replayBook inv_result" where
  "cancel_for_split a now b =
     foldR [0..<length (bk_orders b)] b (\<lambda>n b.
       let ord = bk_orders b ! n in
       if \<not> Terminal ord \<and> o_InstrumentID ord = ca_InstrumentID a \<and> \<not> o_TargetOpenAt ord < ca_EffectiveAt a
       then release_nth n ''split_cancel'' ''split_cancel'' OrderCancelled now b
       else Inr b)"

text \<open>The shares of each instrument before the action, from the ledger.\<close>

definition add_quantity :: "LedgerEntry \<Rightarrow> (string \<times> Quantity) list \<Rightarrow> (string \<times> Quantity) list" where
  "add_quantity l m =
     put_entry (le_InstrumentID l)
       (wrap64 ((case map_of m (le_InstrumentID l) of None \<Rightarrow> 0 | Some q \<Rightarrow> q) + le_QuantityDelta l)) m"

definition bare_position :: "string \<times> Quantity \<Rightarrow> Position" where
  "bare_position = (\<lambda>(i, q). (new_position i [])\<lparr>pos_Quantity := q\<rparr>)"

definition eligible_positions :: "LedgerEntry list \<Rightarrow> CorporateAction \<Rightarrow> Position list" where
  "eligible_positions ledger a =
     map bare_position (fold add_quantity
       (List.filter (\<lambda>l. le_EffectiveAt l < ca_EffectiveAt a
          \<or> (le_Kind l = ''split'' \<and> le_EffectiveAt l = ca_EffectiveAt a)) ledger) [])"

definition apply_new_action :: "CorporateAction \<Rightarrow> time \<Rightarrow> replayBook \<Rightarrow> replayBook inv_result" where
  "apply_new_action a now b =
     (if ca_AvailableAt a > ca_EffectiveAt a then Inl ErrCorporateActionIncomplete
      else bindR (if ca_Kind a = ''split'' then cancel_for_split a now b else Inr b) (\<lambda>b.
      bindR (ApplyCorporateAction (bk_account b) (bk_positions b) a (eligible_positions (bk_ledger b) a)) (\<lambda>m.
      let b = book_apply m ''action'' now b in
      Inr (b\<lparr>bk_applied := (bk_applied b)(ca_ID a \<mapsto> a)\<rparr>))))"

definition no_entry :: LedgerEntry where
  "no_entry = \<lparr>le_ID = [], le_AccountID = [], le_EventKey = [], le_Kind = [], le_InstrumentID = [],
     le_Delta = no_balances, le_QuantityDelta = 0, le_EffectiveAt = 0, le_RecordedAt = 0\<rparr>"

definition pay_action :: "CorporateAction \<Rightarrow> time \<Rightarrow> replayBook \<Rightarrow> replayBook inv_result" where
  "pay_action a now b =
     (if ca_Kind a = ''dividend'' \<and> ca_ID a \<notin> set (bk_paid b) \<and> \<not> now < ca_PayAt a
      then let accrual = (case List.find (\<lambda>l. le_EventKey l = ''action/'' @ ca_ID a) (bk_ledger b) of
                            None \<Rightarrow> no_entry | Some l \<Rightarrow> l) in
           bindR (PayDividend (bk_account b) a accrual now) (\<lambda>m.
           let b = book_apply m ''dividend_payment'' now b in Inr (b\<lparr>bk_paid := ca_ID a # bk_paid b\<rparr>))
      else Inr b)"

definition reconcile_action :: "time \<Rightarrow> string list \<Rightarrow> CorporateAction \<Rightarrow> replayBook \<Rightarrow> replayBook inv_result" where
  "reconcile_action now relevant a b =
     (if ca_InstrumentID a \<notin> set relevant \<or> ca_EffectiveAt a > now then Inr b
      else bindR (case bk_applied b (ca_ID a) of
                    None \<Rightarrow> apply_new_action a now b
                  | Some prior \<Rightarrow> if \<not> SameActionEconomics prior a then Inl ErrCorporateActionIncomplete else Inr b)
             (pay_action a now))"

definition reconcile ::
  "(int \<Rightarrow> time) option \<Rightarrow> Snapshot \<Rightarrow> time \<Rightarrow> string list \<Rightarrow> replayBook \<Rightarrow> replayBook inv_result" where
  "reconcile new_york snapshot now relevant b =
     bindR (settle_book new_york (s_Calendar snapshot) now b) (\<lambda>b.
     foldR (order_rows (\<lambda>x y. \<not> action_before y x) (s_Actions snapshot)) b (reconcile_action now relevant))"

section \<open>Planning\<close>

text \<open>A bisection whose test may return an error.\<close>

function bisectR :: "(Quantity \<Rightarrow> bool inv_result) \<Rightarrow> Quantity \<Rightarrow> Quantity \<Rightarrow> Quantity inv_result" where
  "bisectR fits low high =
     (if low < high
      then let mid = low + (high - low + 1) div 2 in
        (case fits mid of Inl e \<Rightarrow> Inl e
         | Inr True \<Rightarrow> bisectR fits mid high
         | Inr False \<Rightarrow> bisectR fits low (mid - 1))
      else Inr low)"
  by pat_completeness auto
termination
  by (relation "measure (\<lambda>(fits, low, high). nat (high - low))") auto

declare bisectR.simps [simp del]

definition order_id :: "TradingSession \<Rightarrow> PlannedOrder \<Rightarrow> string" where
  "order_id target p = ''replay/'' @ Format_date (ts_Date target) @ ''/'' @ po_InstrumentID p @ ''/'' @ po_Side p"

definition new_order ::
  "Account \<Rightarrow> TradingSession \<Rightarrow> TradingSession \<Rightarrow> time \<Rightarrow> PlannedOrder \<Rightarrow> Quantity \<Rightarrow> Order" where
  "new_order account target following asOf p capacity =
     \<lparr>o_ID = order_id target p, o_AccountID = a_ID account, o_InstrumentID = po_InstrumentID p,
      o_Side = po_Side p, o_State = OrderPending, o_Reason = po_Reason p, o_Origin = ''automatic'',
      o_Quantity = po_Quantity p, o_ReservedQuantity = 0, o_Capacity = capacity, o_ReservedCash = 0,
      o_TargetOpenAt = ts_OpenAt target, o_ExpiresAt = ts_CloseAt following, o_CreatedAt = asOf,
      o_Version = 1\<rparr>"

text \<open>The order with what it reserves, and the cash left; \<open>None\<close> when not even one share fits.\<close>

definition reserve_planned :: "Order \<Rightarrow> Price \<Rightarrow> Money \<Rightarrow> (Order \<times> Money) option inv_result" where
  "reserve_planned ord close cash =
     (if o_Side ord = ''buy'' then
        bindR (bisectR (\<lambda>q. bindR (ReservationCost close q) (\<lambda>cost. Inr (cost \<le> cash))) 0 (o_Quantity ord))
        (\<lambda>lo. if lo = 0 then Inr None
              else bindR (ReservationCost close lo) (\<lambda>cost.
                   Inr (Some (ord\<lparr>o_Quantity := lo, o_ReservedCash := cost\<rparr>, wrap64 (cash - cost)))))
      else Inr (Some (ord\<lparr>o_ReservedQuantity := o_Quantity ord\<rparr>, cash)))"

definition order_event :: "time \<Rightarrow> Order \<Rightarrow> ReplayEvent" where
  "order_event recorded ord = \<lparr>re_Kind = ''order'', re_EffectiveAt = o_TargetOpenAt ord,
     re_RecordedAt = recorded, re_Order = Some ord, re_Fill = None, re_Entries = []\<rparr>"

definition place_planned ::
  "Snapshot \<Rightarrow> TradingSession \<Rightarrow> TradingSession \<Rightarrow> PlannedOrder \<Rightarrow> replayBook \<times> Money
     \<Rightarrow> (replayBook \<times> Money) inv_result" where
  "place_planned s target following p = (\<lambda>(b, cash).
     let bars = rows_of b_InstrumentID (po_InstrumentID p) (s_Bars s);
         close = (if bars = [] then 0 else b_Close (last bars))
     in bindR (PreviousVolumeCapacity bars (ts_OpenAt target)) (\<lambda>capacity.
        bindR (reserve_planned (new_order (bk_account b) target following (s_AsOf s) p capacity) close cash)
        (\<lambda>r. case r of
           None \<Rightarrow> Inr (b, cash)
         | Some (ord, cash) \<Rightarrow>
             bindR (ReserveOrders (bk_account b) (bk_positions b) [ord]) (\<lambda>m.
             let b = book_apply m ''reservation'' (s_AsOf s) b in
             Inr (b\<lparr>bk_orders := bk_orders b @ [ord], bk_trace := bk_trace b @ [order_event (s_AsOf s) ord]\<rparr>,
                  cash)))))"

definition evaluate_for_plan :: "Snapshot \<Rightarrow> UniverseVersion \<Rightarrow> StrategyVersion \<Rightarrow> Evaluation inv_result" where
  "evaluate_for_plan s universe strategy =
     (case Evaluate s universe strategy of
        (ev, None) \<Rightarrow> Inr ev
      | (ev, Some e) \<Rightarrow>
          if e \<noteq> ErrInsufficientUniverse \<and> e \<noteq> ErrFactorUnavailable then Inl e
          else Inr (ev\<lparr>ev_Signals := []\<rparr>))"

definition replay_portfolio :: "replayBook \<Rightarrow> Snapshot \<Rightarrow> Evaluation \<Rightarrow> StrategyParameters option \<Rightarrow> Money \<Rightarrow> PortfolioInput" where
  "replay_portfolio b s ev parameters nav =
     \<lparr>pf_Account = bk_account b, pf_Positions = bk_positions b, pf_Orders = bk_orders b, pf_Snapshot = s,
      pf_Evaluation = ev, pf_Policy = a_Policy (bk_account b), pf_NAV = nav, pf_PeakNAV = bk_peak b,
      pf_SessionTurnover = 0, pf_Prices = [], pf_Parameters = parameters\<rparr>"

definition replay_plan :: "Snapshot \<Rightarrow> BacktestInput \<Rightarrow> TradingSession \<Rightarrow> replayBook \<Rightarrow> replayBook inv_result" where
  "replay_plan s inp target b =
     (if \<not> a_AutomationEnabled (bk_account b) then Inr b
      else if list_ex (\<lambda>ord. \<not> Terminal ord) (bk_orders b) then Inr b
      else bindR (evaluate_for_plan s (bi_Universe inp) (bi_Strategy inp)) (\<lambda>evaluation.
      bindR (ComputeNAV (bk_account b) (bk_positions b) s []) (\<lambda>nav.
      bindR (BuildRebalance (replay_portfolio b s evaluation (Some (sv_Parameters (bi_Strategy inp))) nav)) (\<lambda>plan.
      if rp_Pause plan then Inr (b\<lparr>bk_account := (bk_account b)\<lparr>a_AutomationEnabled := False\<rparr>\<rparr>)
      else bindR (NextSession (s_Calendar s) (ts_CloseAt target)) (\<lambda>following.
      bindR (foldR (rp_Orders plan) (b, bal_Available (a_Balances (bk_account b))) (place_planned s target following))
        (\<lambda>(b, cash). Inr b))))))"

section \<open>Execution\<close>

record executionDay =
  ed_prior :: Snapshot
  ed_prices :: "(string \<times> Price) list"
  ed_bars :: "string \<Rightarrow> Bar option"
  ed_used :: "string \<Rightarrow> Quantity"
  ed_turnover :: Money

definition execution_before :: "Order \<Rightarrow> Order \<Rightarrow> bool" where
  "execution_before x y \<longleftrightarrow>
     (if o_TargetOpenAt x \<noteq> o_TargetOpenAt y then o_TargetOpenAt x < o_TargetOpenAt y
      else if o_Side x \<noteq> o_Side y then o_Side x = ''sell''
      else bytes_less (o_ID x) (o_ID y))"

definition add_fill :: "Fill \<Rightarrow> executionDay \<Rightarrow> executionDay" where
  "add_fill f day = day
     \<lparr>ed_used := (ed_used day)(f_InstrumentID f := wrap64 (ed_used day (f_InstrumentID f) + f_Quantity f)),
      ed_turnover := wrap64 (ed_turnover day + f_Gross f)\<rparr>"

definition new_day :: "Snapshot \<Rightarrow> Snapshot \<Rightarrow> time \<Rightarrow> Fill list \<Rightarrow> executionDay" where
  "new_day source current at_open fills =
     (let bars = List.filter (\<lambda>v. b_SessionDate v = dateUTC at_open) (s_Bars current) in
      fold add_fill (List.filter (\<lambda>f. f_EffectiveAt f = at_open) fills)
        \<lparr>ed_prior = SelectSnapshot source (at_open - 1),
         ed_prices = fold (\<lambda>v m. if b_Open v > 0 \<and> \<not> b_NoOpeningTrade v
                                 then put_entry (b_InstrumentID v) (b_Open v) m else m) bars [],
         ed_bars = fold (\<lambda>v m. m(b_InstrumentID v \<mapsto> v)) bars (\<lambda>_. None),
         ed_used = (\<lambda>_. 0), ed_turnover = 0\<rparr>)"

definition day_capacity :: "replayBook \<Rightarrow> executionDay \<Rightarrow> Order \<Rightarrow> Quantity" where
  "day_capacity b day ord =
     (let limit = fold (\<lambda>other limit.
            if o_TargetOpenAt other = o_TargetOpenAt ord \<and> o_InstrumentID other = o_InstrumentID ord
               \<and> o_Capacity other < limit then o_Capacity other else limit) (bk_orders b) (o_Capacity ord);
          capacity = wrap64 (limit - ed_used day (o_InstrumentID ord))
      in if capacity < 0 then 0 else capacity)"

definition name_industries :: "Instrument list \<Rightarrow> Position list \<Rightarrow> Position list" where
  "name_industries instruments ps =
     map (\<lambda>p. fold (\<lambda>i p. if i_ID i = pos_InstrumentID p then p\<lparr>pos_Industry := Industry (i_SIC i)\<rparr> else p)
                instruments p) ps"

definition fill_event :: "Fill \<Rightarrow> ReplayEvent" where
  "fill_event f = \<lparr>re_Kind = ''execution'', re_EffectiveAt = f_EffectiveAt f,
     re_RecordedAt = f_RecordedAt f, re_Order = None, re_Fill = Some f, re_Entries = []\<rparr>"

definition replay_match :: "replayBook \<Rightarrow> executionDay \<Rightarrow> Order \<Rightarrow> Price \<Rightarrow> Money \<Rightarrow> time \<Rightarrow> MatchInput" where
  "replay_match b day ord opening nav now =
     \<lparr>mi_Order = ord, mi_OpenPrice = opening, mi_AvailableCapacity = day_capacity b day ord,
      mi_Portfolio = (replay_portfolio b (ed_prior day) no_evaluation None nav)
        \<lparr>pf_PeakNAV := 0, pf_SessionTurnover := ed_turnover day, pf_Prices := ed_prices day\<rparr>,
      mi_RecordedAt = now\<rparr>"

definition record_fill ::
  "Snapshot \<Rightarrow> time \<Rightarrow> nat \<Rightarrow> Fill \<Rightarrow> Quantity \<Rightarrow> replayBook \<Rightarrow> replayBook inv_result" where
  "record_fill current now n f cancelled b =
     bindR (ApplyFill (bk_account b) (bk_positions b) f) (\<lambda>m.
     let b = book_apply m ''fill'' now b;
         b = b\<lparr>bk_positions := name_industries (s_Instruments current) (bk_positions b)\<rparr>;
         b = set_state n (if cancelled > 0 then OrderPartial else OrderFilled) b
     in Inr (b\<lparr>bk_fills := bk_fills b @ [f], bk_trace := bk_trace b @ [fill_event f]\<rparr>))"

definition no_opening :: "Bar option \<Rightarrow> Order \<Rightarrow> bool" where
  "no_opening bar ord \<longleftrightarrow>
     (case bar of None \<Rightarrow> True | Some v \<Rightarrow> b_NoOpeningTrade v \<or> b_Open v \<le> 0 \<or> b_AvailableAt v > o_ExpiresAt ord)"

definition execute_on ::
  "(int \<Rightarrow> time) option \<Rightarrow> Snapshot \<Rightarrow> time \<Rightarrow> nat \<Rightarrow> Order \<Rightarrow> executionDay \<Rightarrow> replayBook
     \<Rightarrow> (replayBook \<times> executionDay) inv_result" where
  "execute_on new_york current now n ord day b =
     (let bar = ed_bars day (o_InstrumentID ord) in
      if no_opening bar ord then
        if \<not> now < o_ExpiresAt ord
        then bindR (release_nth n ''expired'' ''expiry'' OrderExpired now b) (\<lambda>b. Inr (b, day))
        else Inr (b, day)
      else bindR (ComputeNAV (bk_account b) (bk_positions b) (ed_prior day) (ed_prices day)) (\<lambda>nav.
      bindR (MatchAtOpen new_york (replay_match b day ord (case bar of None \<Rightarrow> 0 | Some v \<Rightarrow> b_Open v) nav now))
      (\<lambda>matched. case fr_Fill matched of
         None \<Rightarrow> bindR (release_nth n ''rejected'' ''rejected'' OrderRejected now b) (\<lambda>b. Inr (b, day))
       | Some f \<Rightarrow>
           let f = f\<lparr>f_ID := ''fill/'' @ o_ID ord\<rparr> in
           bindR (record_fill current now n f (fr_CancelledQuantity matched) b) (\<lambda>b.
           Inr (b, add_fill f day)))))"

definition execute_nth ::
  "(int \<Rightarrow> time) option \<Rightarrow> Snapshot \<Rightarrow> Snapshot \<Rightarrow> time \<Rightarrow> nat
     \<Rightarrow> replayBook \<times> (string \<Rightarrow> executionDay option) \<Rightarrow> (replayBook \<times> (string \<Rightarrow> executionDay option)) inv_result" where
  "execute_nth new_york source current now n = (\<lambda>(b, days).
     let ord = bk_orders b ! n in
     if Terminal ord \<or> now < o_TargetOpenAt ord then Inr (b, days)
     else let ord = AdvanceOrder ord now;
              b = b\<lparr>bk_orders := (bk_orders b)[n := ord]\<rparr>;
              key = Format_RFC3339 (o_TargetOpenAt ord);
              day = (case days key of
                       None \<Rightarrow> new_day source current (o_TargetOpenAt ord) (bk_fills b) | Some day \<Rightarrow> day)
          in bindR (execute_on new_york current now n ord day b) (\<lambda>(b, day). Inr (b, days(key \<mapsto> day))))"

definition replay_execute ::
  "(int \<Rightarrow> time) option \<Rightarrow> Snapshot \<Rightarrow> Snapshot \<Rightarrow> time \<Rightarrow> replayBook \<Rightarrow> replayBook inv_result" where
  "replay_execute new_york source current now b =
     (let b = b\<lparr>bk_orders := order_rows (\<lambda>x y. \<not> execution_before y x) (bk_orders b)\<rparr> in
      bindR (foldR [0..<length (bk_orders b)] (b, \<lambda>_. None) (execute_nth new_york source current now))
        (\<lambda>(b, days). Inr b))"

section \<open>The benchmark\<close>

definition benchmark_order :: "Account \<Rightarrow> string \<Rightarrow> Quantity \<Rightarrow> Money \<Rightarrow> Quantity \<Rightarrow> time \<Rightarrow> TradingSession \<Rightarrow> Order" where
  "benchmark_order account i qty cash capacity created session =
     \<lparr>o_ID = ''benchmark/buy'', o_AccountID = a_ID account, o_InstrumentID = i, o_Side = ''buy'',
      o_State = OrderPending, o_Reason = [], o_Origin = [], o_Quantity = qty, o_ReservedQuantity = 0,
      o_Capacity = capacity, o_ReservedCash = cash, o_TargetOpenAt = ts_OpenAt session,
      o_ExpiresAt = ts_CloseAt session + 24 * Hour, o_CreatedAt = created, o_Version = 1\<rparr>"

definition benchmark_fill :: "Order \<Rightarrow> Price \<Rightarrow> Money \<Rightarrow> Money \<Rightarrow> time \<Rightarrow> Fill" where
  "benchmark_fill ord price gross fee now =
     \<lparr>f_ID = ''benchmark/fill'', f_AccountID = o_AccountID ord, f_OrderID = o_ID ord,
      f_InstrumentID = o_InstrumentID ord, f_Side = ''buy'', f_Reason = [], f_Quantity = o_Quantity ord,
      f_Price = price, f_Gross = gross, f_Fee = fee, f_ReservedCash = o_ReservedCash ord,
      f_ReservedQuantity = 0, f_EffectiveAt = o_TargetOpenAt ord, f_RecordedAt = now, f_SettlesAt = 0\<rparr>"

definition buyBenchmark ::
  "Snapshot \<Rightarrow> Snapshot \<Rightarrow> TradingSession \<Rightarrow> time \<Rightarrow> string \<Rightarrow> replayBook \<Rightarrow> replayBook inv_result" where
  "buyBenchmark prior current session now i b =
     (case List.find (\<lambda>v. b_InstrumentID v = i \<and> b_SessionDate v = ts_Date session) (s_Bars current) of
        None \<Rightarrow> Inl ErrDataStale
      | Some bar \<Rightarrow>
          if b_Open bar \<le> 0 \<or> b_NoOpeningTrade bar then Inl ErrDataStale
          else bindR (SlippedPrice (b_Open bar) ''buy'') (\<lambda>price.
          bindR (PreviousVolumeCapacity (rows_of b_InstrumentID i (s_Bars prior)) (ts_OpenAt session)) (\<lambda>capacity.
          bindR (bisectR (\<lambda>q. bindR (purchaseCost price q) (\<lambda>cost.
                   Inr (cost \<le> bal_Available (a_Balances (bk_account b))))) 0 capacity) (\<lambda>low.
          if low = 0 then Inl ErrInsufficientCash
          else bindR (GrossValue price low) (\<lambda>gross.
          bindR (TradeFee gross) (\<lambda>fee.
          let ord = benchmark_order (bk_account b) i low (wrap64 (gross + fee)) capacity (s_AsOf prior) session in
          bindR (ReserveOrders (bk_account b) (bk_positions b) [ord]) (\<lambda>m.
          let b = book_apply m ''reservation'' (s_AsOf prior) b; f = benchmark_fill ord price gross fee now in
          bindR (ApplyFill (bk_account b) (bk_positions b) f) (\<lambda>m.
          let b = book_apply m ''fill'' now b in Inr (b\<lparr>bk_fills := bk_fills b @ [f]\<rparr>)))))))))"

section \<open>Curves\<close>

definition history_step :: "time \<Rightarrow> LedgerEntry \<Rightarrow> Balances \<times> (string \<times> Quantity) list
     \<Rightarrow> (Balances \<times> (string \<times> Quantity) list) inv_result" where
  "history_step cutoff l = (\<lambda>(balances, quantities).
     if le_EffectiveAt l > cutoff then Inr (balances, quantities)
     else bindR (Balances_Apply balances (le_Delta l)) (\<lambda>balances. Inr (balances, add_quantity l quantities)))"

definition economic_point ::
  "Snapshot \<Rightarrow> time \<Rightarrow> replayBook \<Rightarrow> TradingSession \<Rightarrow> NAVPoint inv_result" where
  "economic_point source finalAt b session =
     (let cutoff = ts_CloseAt session + 30 * Minute in
      bindR (foldR (bk_ledger b) (no_balances\<lparr>bal_Available := a_InitialCash (bk_account b)\<rparr>, []) (history_step cutoff))
      (\<lambda>(balances, quantities).
      if list_ex (\<lambda>(i, q). q < 0) quantities then Inl ErrInvalidInput
      else let positions = map bare_position (List.filter (\<lambda>(i, q). q > 0) quantities) in
      bindR (NextSession (s_Calendar source) (ts_CloseAt session)) (\<lambda>following.
      let availableThrough = (if ts_CloseAt following > finalAt then finalAt else ts_CloseAt following);
          known = SelectSnapshot source availableThrough;
          prices = fold (\<lambda>v m. if b_SessionDate v = ts_Date session \<and> b_Close v > 0
                               then put_entry (b_InstrumentID v) (b_Close v) m else m) (s_Bars known) []
      in if list_ex (\<lambda>p. price_of (map_of prices) (pos_InstrumentID p) \<le> 0) positions then Inl ErrDataStale
         else bindR (ComputeNAV (with_balances (bk_account b) balances) positions (known\<lparr>s_AsOf := cutoff\<rparr>) prices)
                (\<lambda>nav. Inr \<lparr>nv_SessionDate = ts_Date session, nv_NAV = nav\<rparr>))))"

definition economicCurve :: "Snapshot \<Rightarrow> TradingSession list \<Rightarrow> replayBook \<Rightarrow> NAVPoint list inv_result" where
  "economicCurve source sessions b =
     mapR (economic_point source (ts_CloseAt (last sessions) + 30 * Minute) b) sessions"

section \<open>The replay\<close>

definition history_incomplete :: "string list \<Rightarrow> bool" where
  "history_incomplete flags \<longleftrightarrow>
     list_ex (\<lambda>f. f = ''corporate_action_publication_time_unknown'' \<or> f = ''corporate_action_history_incomplete''
       \<or> f = ''delisting_terminal_value_missing'') flags"

definition mergedReplaySource :: "BacktestInput \<Rightarrow> Snapshot inv_result" where
  "mergedReplaySource inp =
     (case bi_Snapshots inp of
        [] \<Rightarrow> Inl ErrDataStale
      | first # _ \<Rightarrow>
          bindR (foldR (bi_Snapshots inp) (first\<lparr>s_Bars := [], s_Facts := [], s_Actions := [], s_News := []\<rparr>)
            (\<lambda>s out.
              if s_DatasetVersion s \<noteq> s_DatasetVersion out \<or> s_Mode s \<noteq> s_Mode out \<or> s_Feed s \<noteq> s_Feed out
              then Inl ErrVersionConflict
              else if history_incomplete (s_QualityFlags s) then Inl ErrCorporateActionIncomplete
              else Inr (out\<lparr>s_Bars := s_Bars out @ s_Bars s, s_Facts := s_Facts out @ s_Facts s,
                            s_Actions := s_Actions out @ s_Actions s\<rparr>)))
          (\<lambda>out. Inr (out\<lparr>s_Calendar := bi_Calendar inp\<rparr>)))"

text \<open>The benchmark's book and curve while its history is complete.\<close>

type_synonym benchmark_run = "(replayBook \<times> NAVPoint list) option"

definition benchmark_session ::
  "(int \<Rightarrow> time) option \<Rightarrow> BacktestInput \<Rightarrow> Snapshot \<Rightarrow> Snapshot \<Rightarrow> TradingSession \<Rightarrow> time \<Rightarrow> bool
     \<Rightarrow> benchmark_run \<Rightarrow> benchmark_run" where
  "benchmark_session new_york inp decision current session now first run =
     (case run of None \<Rightarrow> None
      | Some (b, curve) \<Rightarrow>
          (case bindR (reconcile new_york current (ts_OpenAt session) [bi_BenchmarkID inp] b) (\<lambda>b.
                bindR (if first then buyBenchmark decision current session now (bi_BenchmarkID inp) b else Inr b) (\<lambda>b.
                bindR (reconcile new_york current now [bi_BenchmarkID inp] b) (\<lambda>b.
                bindR (ComputeNAV (bk_account b) (bk_positions b) current []) (\<lambda>n.
                Inr (b, curve @ [\<lparr>nv_SessionDate = ts_Date session, nv_NAV = n\<rparr>]))))) of
             Inl _ \<Rightarrow> None
           | Inr r \<Rightarrow> Some r))"

definition replay_session ::
  "(int \<Rightarrow> time) option \<Rightarrow> BacktestInput \<Rightarrow> Snapshot \<Rightarrow> nat \<times> TradingSession
     \<Rightarrow> TradingSession \<times> replayBook \<times> NAVPoint list \<times> benchmark_run
     \<Rightarrow> (TradingSession \<times> replayBook \<times> NAVPoint list \<times> benchmark_run) inv_result" where
  "replay_session new_york inp source = (\<lambda>(index, session) (previous, b, curve, benchmark).
     let relevant = uv_InstrumentIDs (bi_Universe inp);
         decisionAt = ts_CloseAt previous + 30 * Minute;
         decision = SelectSnapshot source decisionAt
     in bindR (reconcile new_york decision decisionAt relevant b) (\<lambda>b.
        bindR (replay_plan decision inp session b) (\<lambda>b.
        let now = ts_CloseAt session + 30 * Minute; current = SelectSnapshot source now in
        bindR (reconcile new_york current (ts_OpenAt session) relevant b) (\<lambda>b.
        bindR (replay_execute new_york source current now b) (\<lambda>b.
        bindR (reconcile new_york current now relevant b) (\<lambda>b.
        bindR (ComputeNAV (bk_account b) (bk_positions b) current []) (\<lambda>nav.
        let b = (if nav > bk_peak b then b\<lparr>bk_peak := nav\<rparr> else b) in
        Inr (session, b, curve @ [\<lparr>nv_SessionDate = ts_Date session, nv_NAV = nav\<rparr>],
             benchmark_session new_york inp decision current session now (index = 0) benchmark))))))))"

definition replay_sessions :: "BacktestInput \<Rightarrow> TradingSession \<times> TradingSession list" where
  "replay_sessions inp =
     (let all = order_rows (\<lambda>s t. ts_OpenAt s \<le> ts_OpenAt t) (cal_Sessions (bi_Calendar inp)) in
      (fold (\<lambda>s previous. if ts_Date s < bi_From inp then s else previous) all no_session,
       List.filter (\<lambda>s. \<not> ts_Date s < bi_From inp \<and> \<not> ts_Date s > bi_To inp) all))"

definition bars_before :: "Snapshot \<Rightarrow> time \<Rightarrow> string \<Rightarrow> nat" where
  "bars_before warm from_day i =
     length (List.filter (\<lambda>b. b_InstrumentID b = i \<and> b_SessionDate b < from_day) (s_Bars warm))"

definition replay_input_ok :: "BacktestInput \<Rightarrow> bool" where
  "replay_input_ok inp \<longleftrightarrow>
     \<not> (bi_InitialCash inp \<le> 0 \<or> bi_InitialCash inp > 100000000000 \<or> bi_To inp < bi_From inp
        \<or> uv_InstrumentIDs (bi_Universe inp) = [] \<or> length (uv_InstrumentIDs (bi_Universe inp)) > 100)"

text \<open>What the checks before the first session establish: the source, the sessions and the warm-up.\<close>

definition replay_setup ::
  "BacktestInput \<Rightarrow> (Snapshot \<times> TradingSession \<times> TradingSession list \<times> Snapshot) inv_result" where
  "replay_setup inp =
     (if \<not> replay_input_ok inp then Inl ErrInvalidInput
      else bindR (StrategyParameters_Validate (sv_Parameters (bi_Strategy inp))) (\<lambda>_.
      bindR (mergedReplaySource inp) (\<lambda>source.
      let (previous, sessions) = replay_sessions inp in
      if length sessions < 20 \<or> IsZero (ts_CloseAt previous) then Inl ErrDataStale
      else let warm = SelectSnapshot source (ts_CloseAt previous + 30 * Minute) in
      if list_ex (\<lambda>i. bars_before warm (bi_From inp) i < 201) (uv_InstrumentIDs (bi_Universe inp))
      then Inl ErrDataStale
      else Inr (source, previous, sessions, warm))))"

definition replay_run ::
  "(int \<Rightarrow> time) option \<Rightarrow> BacktestInput \<Rightarrow> Snapshot \<Rightarrow> TradingSession \<Rightarrow> TradingSession list \<Rightarrow> benchmark_run
     \<Rightarrow> (replayBook \<times> benchmark_run) inv_result" where
  "replay_run new_york inp source previous sessions benchmark =
     bindR (foldR (zip [0..<length sessions] sessions)
              (previous, newReplayBook ''replay'' (hd (bi_Snapshots inp)) (bi_InitialCash inp), [], benchmark)
              (replay_session new_york inp source))
       (\<lambda>(previous, b, curve, benchmark). Inr (b, benchmark))"

definition late_confirmation :: "Fill \<Rightarrow> bool" where
  "late_confirmation f \<longleftrightarrow> dateUTC (f_RecordedAt f) > dateUTC (f_EffectiveAt f)"

text \<open>The benchmark starts when SPY has enough history.\<close>

definition benchmark_start :: "BacktestInput \<Rightarrow> Snapshot \<Rightarrow> Snapshot \<Rightarrow> benchmark_run" where
  "benchmark_start inp source warm =
     (if list_ex (\<lambda>i. i_ID i = bi_BenchmarkID inp \<and> i_Ticker i = ''SPY''
                      \<and> 201 \<le> bars_before warm (bi_From inp) (i_ID i)) (s_Instruments source)
      then Some (newReplayBook ''benchmark'' (hd (bi_Snapshots inp)) (bi_InitialCash inp), []) else None)"

text \<open>The benchmark's book, curve and performance, when it was complete to the end.\<close>

type_synonym benchmark_outcome = "(replayBook \<times> NAVPoint list \<times> Performance) option"

definition benchmark_result ::
  "(float64 \<Rightarrow> float64 \<Rightarrow> float64) \<Rightarrow> Snapshot \<Rightarrow> TradingSession list \<Rightarrow> Money \<Rightarrow> benchmark_run
     \<Rightarrow> benchmark_outcome inv_result" where
  "benchmark_result pow source sessions cash run =
     (case run of
        None \<Rightarrow> Inr None
      | Some (bench, _) \<Rightarrow>
          bindR (economicCurve source sessions bench) (\<lambda>c.
          bindR (ComputePerformance pow c (bk_fills bench) cash) (\<lambda>p.
          Inr (Some (bench, c, p)))))"

definition replay_result ::
  "Snapshot \<Rightarrow> replayBook \<Rightarrow> NAVPoint list \<Rightarrow> Performance \<Rightarrow> benchmark_outcome \<Rightarrow> BacktestResult" where
  "replay_result source b curve metrics bench =
     \<lparr>bt_Trace = bk_trace b,
      bt_BenchmarkTrace = (case bench of None \<Rightarrow> [] | Some (k, c, p) \<Rightarrow> bk_trace k),
      bt_Curve = curve,
      bt_BenchmarkCurve = (case bench of None \<Rightarrow> [] | Some (k, c, p) \<Rightarrow> c),
      bt_Fills = bk_fills b,
      bt_BenchmarkFills = (case bench of None \<Rightarrow> [] | Some (k, c, p) \<Rightarrow> bk_fills k),
      bt_Metrics = metrics,
      bt_BenchmarkMetrics = (case bench of None \<Rightarrow> None | Some (k, c, p) \<Rightarrow> Some p),
      bt_QualityFlags = [''fixed_universe_survivorship_bias'', ''cash_yield_zero'',
          ''research_interval_not_out_of_sample''] @ s_QualityFlags source
        @ (if list_ex late_confirmation (bk_fills b) then [''late_confirmation_nav_restated''] else []),
      bt_BenchmarkReason = (if bench = None then ''benchmark_history_incomplete'' else [])\<rparr>"

definition Replay ::
  "(int \<Rightarrow> time) option \<Rightarrow> (float64 \<Rightarrow> float64 \<Rightarrow> float64) \<Rightarrow> BacktestInput \<Rightarrow> BacktestResult inv_result" where
  "Replay new_york pow inp =
     bindR (replay_setup inp) (\<lambda>(source, previous, sessions, warm).
     bindR (replay_run new_york inp source previous sessions (benchmark_start inp source warm)) (\<lambda>(b, benchmark).
     bindR (economicCurve source sessions b) (\<lambda>curve.
     bindR (ComputePerformance pow curve (bk_fills b) (bi_InitialCash inp)) (\<lambda>metrics.
     bindR (benchmark_result pow source sessions (bi_InitialCash inp) benchmark) (\<lambda>bench.
     Inr (replay_result source b curve metrics bench))))))"

end
