(* ===== verification/Investment_Account_Spec.thy ===== *)
theory Investment_Account_Spec
  imports Investment_Book
begin

text \<open>
  What an account promises, without positions, orders, rounding or machine integers: its money in
  four parts and a number of shares of each instrument, changed by eight kinds of movement that
  never make a part negative. Every ledger operation of the code is a sequence of such movements on
  \<open>abs_book\<close>, what the book holds.
\<close>

section \<open>The abstract account\<close>

type_synonym holdings = "Balances \<times> (string \<Rightarrow> int)"

text \<open>
  Money and shares of one movement: cash reserved and released; shares bought for at most what was
  reserved; shares sold against an unsettled receivable, which settles; a dividend accrued and
  paid; and a split, with cash in lieu of a fraction.
\<close>

inductive movement :: "Balances \<Rightarrow> int \<Rightarrow> bool" where
  reserved: "0 \<le> x \<Longrightarrow> movement (no_balances\<lparr>bal_Available := - x, bal_Reserved := x\<rparr>) 0"
| released: "0 \<le> x \<Longrightarrow> movement (no_balances\<lparr>bal_Available := x, bal_Reserved := - x\<rparr>) 0"
| bought: "0 < c \<Longrightarrow> c \<le> x \<Longrightarrow> 0 < q
    \<Longrightarrow> movement (no_balances\<lparr>bal_Available := x - c, bal_Reserved := - x\<rparr>) q"
| sold: "0 \<le> x \<Longrightarrow> 0 < q \<Longrightarrow> movement (no_balances\<lparr>bal_Unsettled := x\<rparr>) (- q)"
| settled: "0 \<le> x \<Longrightarrow> movement (no_balances\<lparr>bal_Available := x, bal_Unsettled := - x\<rparr>) 0"
| accrued: "0 \<le> x \<Longrightarrow> movement (no_balances\<lparr>bal_Dividends := x\<rparr>) 0"
| paid: "0 \<le> x \<Longrightarrow> movement (no_balances\<lparr>bal_Available := x, bal_Dividends := - x\<rparr>) 0"
| split: "0 \<le> x \<Longrightarrow> movement (no_balances\<lparr>bal_Available := x\<rparr>) q"

inductive account_step :: "holdings \<Rightarrow> holdings \<Rightarrow> bool" where
  move: "movement d q \<Longrightarrow> balances_ok (add_balances b d) \<Longrightarrow> 0 \<le> s i + q
    \<Longrightarrow> account_step (b, s) (add_balances b d, s(i := s i + q))"

inductive_simps movement_simps: "movement d q"

definition abs_book :: "book \<Rightarrow> holdings" where
  "abs_book = (\<lambda>(a, ps, es). (a_Balances a, shares ps))"

text \<open>Money is only lost in purchases and sales and only gained by dividends and splits.\<close>

lemma movement_total:
  assumes "movement d q"
  shows "q = 0 \<Longrightarrow> 0 \<le> total_of d" "q < 0 \<Longrightarrow> 0 \<le> total_of d"
  using assms by (auto simp: total_of_def elim!: movement.cases)

lemma account_step_total:
  assumes "account_step (b, s) (b', s')" "total_of b' < total_of b"
  shows "\<exists>i. s' = s(i := s' i) \<and> s i < s' i"
  using assms
proof (cases rule: account_step.cases)
  case (move d q i)
  have "total_of d < 0" using assms(2) move(1) by (simp add: total_of_def add_balances_def)
  then have "0 < q" using movement_total [OF move(3)] by (cases "q = 0"; cases "q < 0") auto
  then show ?thesis using move(2) by (intro exI [of _ i]) auto
qed

section \<open>The ledger operations\<close>

lemma one_movement:
  assumes "keeps_book a ps m" "lm_Entries m = [e]" "movement (le_Delta e) (le_QuantityDelta e)"
  shows "account_step (abs_book (a, ps, es)) (abs_book (apply_mutation m (a, ps, es)))"
proof -
  let ?i = "le_InstrumentID e"
  have k: "a_Balances (lm_Account m) = add_balances (a_Balances a) (le_Delta e)"
    "balances_ok (add_balances (a_Balances a) (le_Delta e))" "positions_ok (positions_after ps m)"
    "shares (positions_after ps m) i = shares ps i + (if ?i = i then le_QuantityDelta e else 0)" for i
    using assms(1,2) by (simp_all add: keeps_book_def)
  have "shares (positions_after ps m) = (shares ps)(?i := shares ps ?i + le_QuantityDelta e)"
    using k(4) by (intro ext) simp
  moreover have "0 \<le> shares ps ?i + le_QuantityDelta e"
    using shares_nonneg [OF k(3), of ?i] k(4) [of ?i] by simp
  ultimately show ?thesis
    using account_step.move [OF assms(3) k(2), of "shares ps" ?i] k(1)
    by (simp add: abs_book_def apply_mutation_def)
qed

lemma fill_moves:
  assumes "ApplyFill a ps f = Inr m" "positions_ok ps" "int64_fill f"
  shows "account_step (abs_book (a, ps, es)) (abs_book (apply_mutation m (a, ps, es)))"
proof -
  note r = ApplyFill_Inr [OF assms]
  obtain e where e: "lm_Entries m = [e]" "le_Delta e = fill_delta f" "le_QuantityDelta e = fill_change f"
    using r(5) by blast
  have q: "0 < f_Quantity f" using r(4) by (simp add: fill_shape_ok_def)
  have g: "0 \<le> f_Gross f" "0 < f_Fee f" using GrossValue_half_up(3) [OF r(2)] TradeFee_bounds(1) [OF r(3)] by auto
  have "movement (fill_delta f) (fill_change f)"
  proof (cases "f_Side f = ''buy''")
    case True
    then show ?thesis
      using movement.bought [of "f_Gross f + f_Fee f" "f_ReservedCash f" "f_Quantity f"] q g r(7)
      by (simp add: fill_delta_def fill_change_def)
  next
    case False
    then show ?thesis
      using movement.sold [of "f_Gross f - f_Fee f" "f_Quantity f"] q r(7)
      by (simp add: fill_delta_def fill_change_def)
  qed
  then show ?thesis using one_movement [OF r(1) e(1)] e(2,3) by simp
qed

lemma no_movement: "movement no_balances 0"
  using movement.accrued [of 0] by (simp add: no_balances_def)

lemma release_moves:
  assumes "ReleaseOrder a ps ord kind now = Inr m" "positions_ok ps" "balances_ok (a_Balances a)"
  shows "account_step (abs_book (a, ps, es)) (abs_book (apply_mutation m (a, ps, es)))"
proof -
  note r = ReleaseOrder_Inr [OF assms]
  obtain e where e: "lm_Entries m = [e]" "le_Delta e = release_change ord" "le_QuantityDelta e = 0"
    using r(2) by blast
  have "0 \<le> o_ReservedCash ord" using assms(1) by (auto simp: ReleaseOrder_def Let_def split: if_splits)
  then have "movement (release_change ord) 0"
    using movement.released [of "o_ReservedCash ord"] no_movement by (simp add: release_change_def)
  then show ?thesis using one_movement [OF r(1) e(1)] e(2,3) by simp
qed

lemma pay_moves:
  assumes "PayDividend a action e now = Inr m" "positions_ok ps" "balances_ok (a_Balances a)"
  shows "account_step (abs_book (a, ps, es)) (abs_book (apply_mutation m (a, ps, es)))"
proof -
  note r = PayDividend_Inr [OF assms]
  obtain e' where e': "lm_Entries m = [e']" "le_Delta e' = pay_change e" "le_QuantityDelta e' = 0"
    using r(2) by blast
  have "0 \<le> bal_Dividends (le_Delta e)" using assms(1) by (auto simp: PayDividend_def split: if_splits)
  then have "movement (pay_change e) 0" unfolding pay_change_def by (rule movement.paid)
  then show ?thesis using one_movement [OF r(1) e'(1)] e'(2,3) by simp
qed

lemma action_moves:
  assumes "ApplyCorporateAction a ps action eligible = Inr m" "positions_ok ps"
  shows "account_step (abs_book (a, ps, es)) (abs_book (apply_mutation m (a, ps, es)))"
proof -
  obtain ps' kind d change b where k: "action_change ps action eligible = Inr (ps', kind, d, change)"
    and e: "lm_Entries m = [(ledger_entry a (''action/'' @ ca_ID action) kind (ca_InstrumentID action)
             d (ca_EffectiveAt action) (ca_AvailableAt action))\<lparr>le_QuantityDelta := change\<rparr>]"
    using assms(1) unfolding ApplyCorporateAction_def by (auto simp: bindR_Inr split: if_splits)
  have "movement d change"
  proof (cases "ca_Kind action = ''split''")
    case True
    then obtain cash where s: "apply_split ps action = Inr (ps', cash, change)" "d = no_balances\<lparr>bal_Available := cash\<rparr>"
      using k by (auto simp: action_change_def bindR_Inr)
    show ?thesis unfolding s(2) using apply_split_Inr(2) [OF s(1) assms(2)] by (rule movement.split)
  next
    case False
    then obtain amount where v: "dividend_amount eligible action = Inr amount" "change = 0"
      "d = no_balances\<lparr>bal_Dividends := amount\<rparr>"
      using k by (auto simp: action_change_def bindR_Inr split: if_splits)
    have "0 \<le> amount"
      using v(1) GrossValue_half_up(3) by (auto simp: dividend_amount_def bindR_Inr split: if_splits)
    then show ?thesis unfolding v(2,3) by (rule movement.accrued)
  qed
  then show ?thesis using one_movement [OF ApplyCorporateAction_Inr(1) [OF assms] e] by simp
qed

text \<open>A step that moves money only, as the loops over orders and receivables take them.\<close>

lemma money_step:
  assumes "movement d 0" "balances_ok (add_balances b d)" "\<And>i. 0 \<le> s i"
  shows "account_step (b, s) (add_balances b d, s)"
  using account_step.move [OF assms(1,2), of s undefined] assms(3) by simp

lemma reserve_moves:
  assumes "ReserveOrders a ps ords = Inr m" "positions_ok ps" "balances_ok (a_Balances a)"
  shows "account_step\<^sup>*\<^sup>* (abs_book (a, ps, es)) (abs_book (apply_mutation m (a, ps, es)))"
proof -
  let ?P = "\<lambda>x. keeps_so_far a ps (fst x)
    \<and> account_step\<^sup>*\<^sup>* (a_Balances a, shares ps) (a_Balances (lm_Account (fst x)), shares ps)"
  let ?m0 = "\<lparr>lm_Account = a, lm_Positions = ps, lm_Entries = []\<rparr>"
  obtain seen where f: "foldR ords (?m0, []) reserve_one = Inr (m, seen)"
    using assms(1) by (auto simp: ReserveOrders_def bindR_Inr)
  have "?P (m, seen)"
  proof (rule foldR_inv [OF f, where P = ?P])
    fix ord x x' assume k: "?P x" and s: "reserve_one ord x = Inr x'"
    have s': "reserve_one ord (fst x, snd x) = Inr (fst x', snd x')" using s by simp
    have l: "list_all2 reserved_only ps (lm_Positions (fst x))" using k by (simp add: keeps_so_far_def)
    have ok: "positions_ok (lm_Positions (fst x))" using reserved_only_ok [OF l assms(2)] .
    have bo: "balances_ok (a_Balances (lm_Account (fst x)))" using k by (simp add: keeps_so_far_def)
    note r = reserve_one_Inr [OF s' ok bo]
    have "o_Side ord = ''buy'' \<longrightarrow> 0 \<le> o_ReservedCash ord"
      using s by (cases x) (auto simp: reserve_one_def reserve_delta_def bindR_Inr Let_def split: if_splits)
    then have "movement (reserve_change ord) 0"
      using movement.reserved [of "o_ReservedCash ord"] no_movement by (simp add: reserve_change_def)
    then have "account_step (a_Balances (lm_Account (fst x)), shares ps) (a_Balances (lm_Account (fst x')), shares ps)"
      using money_step r(2,3) shares_nonneg [OF assms(2)] by simp
    then show "?P x'"
      using k r(2,3,4) reserved_only_trans [OF l r(1)] by (auto simp: keeps_so_far_def)
  qed (use assms in \<open>simp add: keeps_so_far_def\<close>)
  then have k: "keeps_so_far a ps m" and st: "account_step\<^sup>*\<^sup>* (a_Balances a, shares ps) (a_Balances (lm_Account m), shares ps)"
    by simp_all
  have "shares (positions_after ps m) = shares ps"
    using keeps_so_far_book [OF k assms(2)] k by (intro ext) (simp add: keeps_book_def keeps_so_far_def)
  with st show ?thesis by (simp add: abs_book_def apply_mutation_def)
qed

lemma settle_moves:
  assumes "SettleReceivables ny a rs c now = Inr m" "positions_ok ps" "balances_ok (a_Balances a)"
  shows "account_step\<^sup>*\<^sup>* (abs_book (a, ps, es)) (abs_book (apply_mutation m (a, ps, es)))"
proof -
  let ?P = "\<lambda>x. lm_Positions (fst x) = [] \<and> balances_ok (a_Balances (lm_Account (fst x)))
    \<and> account_step\<^sup>*\<^sup>* (a_Balances a, shares ps) (a_Balances (lm_Account (fst x)), shares ps)"
  let ?m0 = "\<lparr>lm_Account = a, lm_Positions = [], lm_Entries = []\<rparr>"
  obtain seen where f: "foldR rs (?m0, []) (settle_one ny c now) = Inr (m, seen)"
    using assms(1) by (auto simp: SettleReceivables_def bindR_Inr)
  have "?P (m, seen)"
  proof (rule foldR_inv [OF f, where P = ?P])
    fix e x x' assume k: "?P x" and s: "settle_one ny c now e x = Inr x'"
    have s': "settle_one ny c now e (fst x, snd x) = Inr (fst x', snd x')" using s by simp
    have bo: "balances_ok (a_Balances (lm_Account (fst x)))" using k by simp
    note r = settle_one_Inr [OF s' bo]
    have "0 \<le> bal_Unsettled (le_Delta e)"
      using s by (cases x) (auto simp: settle_one_def Let_def bindR_Inr split: if_splits)
    then have mv: "movement (settle_change e) 0" unfolding settle_change_def by (rule movement.settled)
    have "account_step\<^sup>*\<^sup>* (a_Balances (lm_Account (fst x)), shares ps) (a_Balances (lm_Account (fst x')), shares ps)"
      using r(3)
    proof
      assume "lm_Account (fst x') = with_balances (lm_Account (fst x))
          (add_balances (a_Balances (lm_Account (fst x))) (settle_change e))
        \<and> (\<exists>e'. lm_Entries (fst x') = lm_Entries (fst x) @ [e'] \<and> le_Delta e' = settle_change e \<and> le_QuantityDelta e' = 0
            \<and> le_EventKey e' = ''settlement/'' @ le_EventKey e)"
      then show ?thesis using money_step [OF mv] r(2) shares_nonneg [OF assms(2)] by auto
    qed simp
    then show "?P x'" using k r(1,2) by auto
  qed (use assms in simp)
  then show ?thesis by (simp add: abs_book_def apply_mutation_def positions_after_def)
qed

section \<open>The refinement\<close>

lemma book_step_refines:
  assumes "book_step b b'" "book_inv cash b"
  shows "account_step\<^sup>*\<^sup>* (abs_book b) (abs_book b')"
  using assms
proof (induction rule: book_step.induct)
  case (fill a ps f m es)
  then show ?case by (intro r_into_rtranclp fill_moves) (auto simp: book_inv_def)
next
  case (release a ps ord kind now m es)
  then show ?case by (intro r_into_rtranclp release_moves) (auto simp: book_inv_def)
next
  case (reserve a ps ords m es)
  then show ?case by (intro reserve_moves) (auto simp: book_inv_def)
next
  case (settle ny a rs c now m es ps)
  then show ?case by (intro settle_moves) (auto simp: book_inv_def)
next
  case (action a ps act el m es)
  then show ?case by (intro r_into_rtranclp action_moves) (auto simp: book_inv_def)
next
  case (pay a act e now m ps es)
  then show ?case by (intro r_into_rtranclp pay_moves) (auto simp: book_inv_def)
qed

lemma book_steps_refine:
  assumes "book_step\<^sup>*\<^sup>* b b'" "book_inv cash b"
  shows "account_step\<^sup>*\<^sup>* (abs_book b) (abs_book b')"
  using assms
proof (induction rule: rtranclp_induct)
  case (step b' b'')
  have "book_inv cash b'" using book_reachable_inv [OF step(1,4)] .
  from book_step_refines [OF step(2) this] step(3,4) show ?case by auto
qed simp

end
