(* ===== verification/Investment_Replay_Book.thy ===== *)
theory Investment_Replay_Book
  imports Investment_Replay Investment_Account_Spec
begin

text \<open>
  What a replay keeps of its book, session after session: the ledger explains the balances and the
  shares (\<open>book_inv\<close>), the reserved cash is what the open purchases reserve, the trace holds the
  ledger in order, and every fill was priced by \<open>GrossValue\<close> and \<open>TradeFee\<close>. \<open>replay_inv\<close> holds of a
  new book and is kept by reconciling, planning, executing and buying the benchmark, so it holds of
  the books \<open>replay_run\<close> returns and the results of \<open>Replay\<close> satisfy it.
\<close>

section \<open>The invariant\<close>

definition book_of :: "replayBook \<Rightarrow> book" where
  "book_of b = (bk_account b, bk_positions b, bk_ledger b)"

definition reserved_for_buy :: "Order \<Rightarrow> int" where
  "reserved_for_buy ord = (if \<not> Terminal ord \<and> o_Side ord = ''buy'' then o_ReservedCash ord else 0)"

definition reserved_cash :: "Order list \<Rightarrow> int" where
  "reserved_cash ords = (\<Sum>ord\<leftarrow>ords. reserved_for_buy ord)"

definition trace_entries :: "ReplayEvent list \<Rightarrow> LedgerEntry list" where
  "trace_entries trace = concat (map re_Entries trace)"

definition fill_priced :: "Fill \<Rightarrow> bool" where
  "fill_priced f \<longleftrightarrow> GrossValue (f_Price f) (f_Quantity f) = Inr (f_Gross f)
     \<and> TradeFee (f_Gross f) = Inr (f_Fee f)"

definition replay_inv :: "Money \<Rightarrow> replayBook \<Rightarrow> bool" where
  "replay_inv cash b \<longleftrightarrow>
     book_inv cash (book_of b) \<and> a_InitialCash (bk_account b) = cash
     \<and> bal_Reserved (a_Balances (bk_account b)) = reserved_cash (bk_orders b)
     \<and> list_all (\<lambda>ord. IsInt64 (o_ReservedCash ord)) (bk_orders b)
     \<and> trace_entries (bk_trace b) = bk_ledger b \<and> list_all fill_priced (bk_fills b)"

lemma replay_inv_book:
  assumes "replay_inv cash b"
  shows "positions_ok (bk_positions b)" "balances_ok (a_Balances (bk_account b))"
  using assms by (auto simp: replay_inv_def book_of_def book_inv_def)

lemma trace_entries_simps [simp]:
  "trace_entries [] = []" "trace_entries (xs @ ys) = trace_entries xs @ trace_entries ys"
  "trace_entries (map (entry_event k r) es) = es"
  "trace_entries [order_event r ord] = []" "trace_entries [fill_event f] = []"
  by (simp_all add: trace_entries_def order_event_def fill_event_def)
    (induction es; simp add: entry_event_def)

lemma reserved_cash_simps [simp]:
  "reserved_cash [] = 0" "reserved_cash (x # xs) = reserved_for_buy x + reserved_cash xs"
  "reserved_cash (xs @ ys) = reserved_cash xs + reserved_cash ys"
  by (simp_all add: reserved_cash_def)

lemma reserved_cash_update:
  "n < length xs \<Longrightarrow> reserved_cash (xs[n := y]) = reserved_cash xs - reserved_for_buy (xs ! n) + reserved_for_buy y"
  by (induction xs arbitrary: n) (auto split: nat.splits)

lemma reserved_cash_order [simp]: "reserved_cash (order_rows le xs) = reserved_cash xs"
proof -
  have "reserved_cash (insert_row le x xs) = reserved_cash (x # xs)" for x xs by (induction xs) auto
  then show ?thesis unfolding order_rows_def by (induction xs) simp_all
qed

lemma new_replay_inv:
  assumes "0 \<le> cash" "IsInt64 cash"
  shows "replay_inv cash (newReplayBook name first cash)"
proof -
  have "book_inv cash (new_book cash (bk_account (newReplayBook name first cash)))"
    using assms by (rule new_book_inv)
  then show ?thesis
    by (simp add: replay_inv_def newReplayBook_def book_of_def new_book_def with_balances_def no_balances_def)
qed

section \<open>Applying a mutation\<close>

lemma book_apply_simps [simp]:
  "bk_account (book_apply m k r b) = lm_Account m"
  "bk_positions (book_apply m k r b) = positions_after (bk_positions b) m"
  "bk_ledger (book_apply m k r b) = bk_ledger b @ lm_Entries m"
  "bk_orders (book_apply m k r b) = bk_orders b" "bk_fills (book_apply m k r b) = bk_fills b"
  "trace_entries (bk_trace (book_apply m k r b)) = trace_entries (bk_trace b) @ lm_Entries m"
  by (simp_all add: book_apply_def positions_after_def)

lemma book_apply_inv:
  assumes "replay_inv cash b" "keeps_book (bk_account b) (bk_positions b) m"
  shows "book_inv cash (book_of (book_apply m k r b)) \<and> a_InitialCash (lm_Account m) = cash"
  using keeps_book_inv [of cash "bk_account b" "bk_positions b" "bk_ledger b" m] assms
  by (simp_all add: replay_inv_def book_of_def apply_mutation_def keeps_book_def with_balances_def)

text \<open>A mutation that leaves the reserved cash alone.\<close>

lemma book_apply_replay_inv:
  assumes "replay_inv cash b" "keeps_book (bk_account b) (bk_positions b) m"
    "bal_Reserved (a_Balances (lm_Account m)) = bal_Reserved (a_Balances (bk_account b))"
  shows "replay_inv cash (book_apply m k r b)"
  using assms book_apply_inv [OF assms(1,2), of k r] by (simp add: replay_inv_def)

lemma with_balances_initial [simp]: "a_InitialCash (with_balances a x) = a_InitialCash a"
  by (simp add: with_balances_def)

lemma set_state_simps [simp]:
  "bk_account (set_state n s b) = bk_account b" "bk_positions (set_state n s b) = bk_positions b"
  "bk_ledger (set_state n s b) = bk_ledger b" "bk_fills (set_state n s b) = bk_fills b"
  "bk_trace (set_state n s b) = bk_trace b" "book_of (set_state n s b) = book_of b"
  "bk_orders (set_state n s b) = (bk_orders b)[n := (bk_orders b ! n)\<lparr>o_State := s\<rparr>]"
  by (simp_all add: set_state_def book_of_def)

text \<open>Closing the \<open>n\<close>th order frees what it reserved.\<close>

definition closed_state :: "string \<Rightarrow> bool" where
  "closed_state s \<longleftrightarrow> s \<noteq> OrderPending \<and> s \<noteq> OrderAwaitingBar"

lemma reserved_closed:
  assumes "n < length ords" "\<not> Terminal (ords ! n)" "closed_state s"
  shows "reserved_cash (ords[n := (ords ! n)\<lparr>o_State := s\<rparr>])
    = reserved_cash ords - (if o_Side (ords ! n) = ''buy'' then o_ReservedCash (ords ! n) else 0)"
  using assms by (simp add: reserved_cash_update reserved_for_buy_def Terminal_def closed_state_def)

lemma list_all_update: "list_all P xs \<Longrightarrow> P y \<Longrightarrow> list_all P (xs[n := y])"
  by (auto simp: list_all_iff dest!: set_update_subset_insert [THEN subsetD])

lemma list_all_set_state:
  assumes "list_all (\<lambda>ord. IsInt64 (o_ReservedCash ord)) ords" "n < length ords"
  shows "list_all (\<lambda>ord. IsInt64 (o_ReservedCash ord)) (ords[n := (ords ! n)\<lparr>o_State := s\<rparr>])"
  using assms by (intro list_all_update) (simp_all add: list_all_length)

lemma release_nth_inv:
  assumes "release_nth n kind event s now b = Inr b'" "replay_inv cash b" "n < length (bk_orders b)"
    and "closed_state s"
  shows "replay_inv cash b'" "length (bk_orders b') = length (bk_orders b)"
proof -
  let ?o = "bk_orders b ! n"
  obtain m where m: "ReleaseOrder (bk_account b) (bk_positions b) ?o kind now = Inr m"
    and b': "b' = set_state n s (book_apply m event now b)"
    using assms(1) by (auto simp: release_nth_def bindR_Inr)
  note r = ReleaseOrder_Inr [OF m replay_inv_book [OF assms(2)]]
  have o: "\<not> Terminal ?o" using m by (auto simp: ReleaseOrder_def Let_def split: if_splits)
  have l: "list_all (\<lambda>ord. IsInt64 (o_ReservedCash ord)) (bk_orders b)"
    and res: "bal_Reserved (a_Balances (bk_account b)) = reserved_cash (bk_orders b)"
    using assms(2) by (simp_all add: replay_inv_def)
  have "bal_Reserved (a_Balances (lm_Account m)) = reserved_cash (bk_orders b')"
    using res reserved_closed [OF assms(3) o assms(4)]
    by (simp add: r(3) b' release_change_def add_balances_def)
  then show "replay_inv cash b'"
    using assms(2) book_apply_inv [OF assms(2) r(1), of event now] list_all_set_state [OF l assms(3), of s]
    by (simp add: replay_inv_def b')
  show "length (bk_orders b') = length (bk_orders b)" by (simp add: b')
qed

section \<open>Reconciling\<close>

lemma settle_keeps_reserved:
  assumes "SettleReceivables ny a es c now = Inr m" "balances_ok (a_Balances a)"
  shows "bal_Reserved (a_Balances (lm_Account m)) = bal_Reserved (a_Balances a)"
proof -
  let ?m0 = "\<lparr>lm_Account = a, lm_Positions = [], lm_Entries = []\<rparr>"
  let ?P = "\<lambda>x. balances_ok (a_Balances (lm_Account (fst x)))
    \<and> bal_Reserved (a_Balances (lm_Account (fst x))) = bal_Reserved (a_Balances a)"
  obtain seen where f: "foldR es (?m0, []) (settle_one ny c now) = Inr (m, seen)"
    using assms(1) by (auto simp: SettleReceivables_def bindR_Inr)
  have "?P (m, seen)"
  proof (rule foldR_inv [OF f, where P = ?P])
    fix e b b' assume k: "?P b" and s: "settle_one ny c now e b = Inr b'"
    have s': "settle_one ny c now e (fst b, snd b) = Inr (fst b', snd b')" using s by simp
    show "?P b'" using settle_one_Inr [OF s' conjunct1 [OF k]] k
      by (auto simp: settle_change_def add_balances_def)
  qed (use assms(2) in simp)
  then show ?thesis by simp
qed

lemma replay_inv_marks [simp]:
  "replay_inv cash (b\<lparr>bk_settled := x\<rparr>) = replay_inv cash b"
  "replay_inv cash (b\<lparr>bk_applied := y\<rparr>) = replay_inv cash b"
  "replay_inv cash (b\<lparr>bk_paid := x\<rparr>) = replay_inv cash b"
  "replay_inv cash (b\<lparr>bk_peak := z\<rparr>) = replay_inv cash b"
  by (simp_all add: replay_inv_def book_of_def)

lemma settle_book_inv:
  assumes "settle_book ny c now b = Inr b'" "replay_inv cash b"
  shows "replay_inv cash b'"
proof -
  define es where "es = List.filter (\<lambda>l. le_Kind l = ''sell_fill'' \<and> le_EventKey l \<notin> set (bk_settled b)) (bk_ledger b)"
  obtain m x where m: "SettleReceivables ny (bk_account b) es c now = Inr m"
    and b': "b' = (book_apply m ''settlement'' now b)\<lparr>bk_settled := x\<rparr>"
    using assms(1) by (auto simp: settle_book_def Let_def bindR_Inr es_def [symmetric])
  note i = replay_inv_book [OF assms(2)]
  have "replay_inv cash (book_apply m ''settlement'' now b)"
    using settle_keeps_reserved [OF m i(2)] SettleReceivables_Inr [OF m i]
    by (intro book_apply_replay_inv [OF assms(2)])
  then show ?thesis by (simp add: b')
qed

lemma cancel_for_split_inv:
  assumes "cancel_for_split a now b = Inr b'" "replay_inv cash b"
  shows "replay_inv cash b'"
proof -
  let ?P = "\<lambda>x. replay_inv cash x \<and> length (bk_orders x) = length (bk_orders b)"
  have "?P b'"
  proof (rule foldR_inv [OF assms(1) [unfolded cancel_for_split_def], where P = ?P])
    fix n x x' assume n: "n \<in> set [0..<length (bk_orders b)]" and P: "?P x"
      and s: "(let ord = bk_orders x ! n in
       if \<not> Terminal ord \<and> o_InstrumentID ord = ca_InstrumentID a \<and> \<not> o_TargetOpenAt ord < ca_EffectiveAt a
       then release_nth n ''split_cancel'' ''split_cancel'' OrderCancelled now x else Inr x) = Inr x'"
    have "n < length (bk_orders x)" using n P by simp
    moreover have "closed_state OrderCancelled" by (simp add: closed_state_def)
    ultimately show "?P x'"
      using s P release_nth_inv [of n "''split_cancel''" "''split_cancel''" OrderCancelled now x x' cash]
      by (auto simp: Let_def split: if_splits)
  qed (use assms(2) in simp)
  then show ?thesis ..
qed

lemma apply_new_action_inv:
  assumes "apply_new_action a now b = Inr b'" "replay_inv cash b"
  shows "replay_inv cash b'"
proof -
  obtain c m x where c: "(if ca_Kind a = ''split'' then cancel_for_split a now b else Inr b) = Inr c"
    and m: "ApplyCorporateAction (bk_account c) (bk_positions c) a (eligible_positions (bk_ledger c) a) = Inr m"
    and b': "b' = (book_apply m ''action'' now c)\<lparr>bk_applied := x\<rparr>"
    using assms(1) by (auto simp: apply_new_action_def Let_def bindR_Inr split: if_splits)
  have ic: "replay_inv cash c"
    using c assms(2) cancel_for_split_inv by (auto split: if_splits)
  note r = ApplyCorporateAction_Inr [OF m replay_inv_book(1) [OF ic]]
  have "replay_inv cash (book_apply m ''action'' now c)"
    using r by (intro book_apply_replay_inv [OF ic]) (auto simp: add_balances_def)
  then show ?thesis by (simp add: b')
qed

lemma pay_action_inv:
  assumes "pay_action a now b = Inr b'" "replay_inv cash b"
  shows "replay_inv cash b'"
proof (cases "ca_Kind a = ''dividend'' \<and> ca_ID a \<notin> set (bk_paid b) \<and> \<not> now < ca_PayAt a")
  case True
  obtain e m x where m: "PayDividend (bk_account b) a e now = Inr m"
    and b': "b' = (book_apply m ''dividend_payment'' now b)\<lparr>bk_paid := x\<rparr>"
    using assms(1) unfolding pay_action_def if_P [OF True] by (auto simp: Let_def bindR_Inr)
  note r = PayDividend_Inr [OF m replay_inv_book [OF assms(2)]]
  have "replay_inv cash (book_apply m ''dividend_payment'' now b)"
    by (intro book_apply_replay_inv [OF assms(2)] r(1)) (simp add: r(3) add_balances_def pay_change_def)
  then show ?thesis by (simp add: b')
qed (use assms in \<open>simp add: pay_action_def if_not_P\<close>)

lemma reconcile_action_inv:
  assumes "reconcile_action now relevant a b = Inr b'" "replay_inv cash b"
  shows "replay_inv cash b'"
proof (cases "ca_InstrumentID a \<notin> set relevant \<or> ca_EffectiveAt a > now")
  case False
  obtain c where c: "(case bk_applied b (ca_ID a) of None \<Rightarrow> apply_new_action a now b
      | Some prior \<Rightarrow> if \<not> SameActionEconomics prior a then Inl ErrCorporateActionIncomplete else Inr b) = Inr c"
    and p: "pay_action a now c = Inr b'"
    using assms(1) unfolding reconcile_action_def if_not_P [OF False] by (auto simp: bindR_Inr)
  have "replay_inv cash c"
    using c assms(2) apply_new_action_inv by (auto split: option.splits if_splits)
  then show ?thesis by (rule pay_action_inv [OF p])
qed (use assms in \<open>simp add: reconcile_action_def\<close>)

lemma reconcile_inv:
  assumes "reconcile ny s now relevant b = Inr b'" "replay_inv cash b"
  shows "replay_inv cash b'"
proof -
  obtain c where c: "settle_book ny (s_Calendar s) now b = Inr c"
    and f: "foldR (order_rows (\<lambda>x y. \<not> action_before y x) (s_Actions s)) c (reconcile_action now relevant) = Inr b'"
    using assms(1) by (auto simp: reconcile_def bindR_Inr)
  show ?thesis
    by (rule foldR_inv [OF f, where P = "replay_inv cash"])
      (use settle_book_inv [OF c assms(2)] reconcile_action_inv in auto)
qed

section \<open>Reserving for planned orders\<close>

text \<open>One reserved order: the balances change by what it reserves, and it is open on one side.\<close>

lemma ReserveOrders_one:
  assumes "ReserveOrders a ps [ord] = Inr m" "positions_ok ps" "balances_ok (a_Balances a)"
  shows "keeps_book a ps m" "a_Balances (lm_Account m) = add_balances (a_Balances a) (reserve_change ord)"
    "o_State ord = OrderPending" "IsInt64 (o_Quantity ord)"
proof -
  obtain m' seen where f: "reserve_one ord (\<lparr>lm_Account = a, lm_Positions = ps, lm_Entries = []\<rparr>, []) = Inr (m', seen)"
    and m: "m = m'"
    using assms(1) by (auto simp: ReserveOrders_def bindR_Inr)
  note r = reserve_one_Inr [OF f]
  show "keeps_book a ps m" by (rule ReserveOrders_Inr [OF assms])
  show "a_Balances (lm_Account m) = add_balances (a_Balances a) (reserve_change ord)"
    "o_State ord = OrderPending" "IsInt64 (o_Quantity ord)"
    using r(2,6) assms(2,3) by (auto simp: m reserve_shape_ok_def IsInt64_def)
qed

lemma reserve_planned_Inr:
  assumes "reserve_planned ord close cash = Inr (Some (ord', cash'))" "o_ReservedCash ord = 0"
  shows "IsInt64 (o_ReservedCash ord')" "o_State ord' = o_State ord"
proof -
  have "IsInt64 (o_ReservedCash ord') \<and> o_State ord' = o_State ord"
  proof (cases "o_Side ord = ''buy''")
    case True
    then obtain lo cost where c: "ReservationCost close lo = Inr cost"
      and o: "ord' = ord\<lparr>o_Quantity := lo, o_ReservedCash := cost\<rparr>"
      using assms(1) unfolding reserve_planned_def if_P [OF True] by (auto simp: bindR_Inr split: if_splits)
    obtain price where "purchaseCost price lo = Inr cost" using c by (auto simp: ReservationCost_def bindR_Inr)
    then show ?thesis using o purchaseCost_range(2) by simp
  qed (use assms in \<open>auto simp: reserve_planned_def IsInt64_def\<close>)
  then show "IsInt64 (o_ReservedCash ord')" "o_State ord' = o_State ord" by simp_all
qed

lemma place_planned_inv:
  assumes "place_planned s target following p (b, cash) = Inr (b', cash')" "replay_inv c b"
  shows "replay_inv c b'"
proof -
  define bars where "bars = rows_of b_InstrumentID (po_InstrumentID p) (s_Bars s)"
  define close where "close = (if bars = [] then 0 else b_Close (last bars))"
  note step = assms(1) [unfolded place_planned_def prod.case Let_def bars_def [symmetric] close_def [symmetric]]
  obtain capacity where cap: "PreviousVolumeCapacity bars (ts_OpenAt target) = Inr capacity"
    using step by (auto simp: bindR_Inr)
  define new where "new = new_order (bk_account b) target following (s_AsOf s) p capacity"
  obtain r where r: "reserve_planned new close cash = Inr r"
    using step cap by (auto simp: bindR_Inr new_def)
  show ?thesis
  proof (cases r)
    case None
    then show ?thesis using step cap r assms(2) by (simp add: new_def)
  next
    case (Some rr)
    obtain ord left where rr: "rr = (ord, left)" by force
    obtain m where m: "ReserveOrders (bk_account b) (bk_positions b) [ord] = Inr m"
      and b': "b' = (book_apply m ''reservation'' (s_AsOf s) b)\<lparr>bk_orders := bk_orders b @ [ord],
         bk_trace := bk_trace (book_apply m ''reservation'' (s_AsOf s) b) @ [order_event (s_AsOf s) ord]\<rparr>"
      using step cap r Some rr by (auto simp: bindR_Inr new_def [symmetric])
    note k = ReserveOrders_one [OF m replay_inv_book [OF assms(2)]]
    have z: "o_ReservedCash new = 0" by (simp add: new_def new_order_def)
    note q = reserve_planned_Inr [OF r [unfolded Some rr] z]
    have "bal_Reserved (a_Balances (lm_Account m)) = reserved_cash (bk_orders b @ [ord])"
      using assms(2) k(3)
      by (simp add: k(2) replay_inv_def add_balances_def reserve_change_def reserved_for_buy_def Terminal_def)
    moreover note book_apply_inv [OF assms(2) k(1), of "''reservation''" "s_AsOf s"]
    ultimately show ?thesis using assms(2) q(1) by (simp add: replay_inv_def b' book_of_def)
  qed
qed

lemma book_inv_paused [simp]:
  "book_inv c (a\<lparr>a_AutomationEnabled := v\<rparr>, ps, es) = book_inv c (a, ps, es)"
  by (simp add: book_inv_def)

lemma replay_plan_inv:
  assumes "replay_plan s inp target b = Inr b'" "replay_inv c b"
  shows "replay_inv c b'"
proof (cases "\<not> a_AutomationEnabled (bk_account b) \<or> list_ex (\<lambda>ord. \<not> Terminal ord) (bk_orders b)")
  case False
  consider "b' = b\<lparr>bk_account := (bk_account b)\<lparr>a_AutomationEnabled := False\<rparr>\<rparr>"
    | plan :: RebalancePlan and following :: TradingSession and cash where "foldR (rp_Orders plan) (b, bal_Available (a_Balances (bk_account b)))
         (place_planned s target following) = Inr (b', cash)"
    using assms(1) False unfolding replay_plan_def by (auto simp: bindR_Inr split: if_splits)
  then show ?thesis
  proof cases
    case 1
    then show ?thesis using assms(2) by (simp add: replay_inv_def book_of_def)
  next
    case 2
    have "replay_inv c (fst (b', cash))"
    proof (rule foldR_inv [OF 2, where P = "\<lambda>x. replay_inv c (fst x)"])
      fix p x x' assume "replay_inv c (fst x)" "place_planned s target following p x = Inr x'"
      then show "replay_inv c (fst x')" by (metis place_planned_inv prod.collapse)
    qed (simp add: assms(2))
    then show ?thesis by simp
  qed
next
  case True
  then have "b' = b" using assms(1) by (auto simp: replay_plan_def split: if_splits)
  then show ?thesis using assms(2) by simp
qed

section \<open>Executing orders\<close>

text \<open>Naming the industries of the positions changes nothing else of them.\<close>

definition named :: "Instrument list \<Rightarrow> Position \<Rightarrow> Position" where
  "named is p = fold (\<lambda>i p. if i_ID i = pos_InstrumentID p then p\<lparr>pos_Industry := Industry (i_SIC i)\<rparr> else p) is p"

lemma named_same: "\<exists>x. named is p = p\<lparr>pos_Industry := x\<rparr>"
proof (induction "is" rule: rev_induct)
  case Nil
  show ?case by (rule exI [where x = "pos_Industry p"]) (simp add: named_def)
next
  case (snoc i "is")
  then obtain x where "named is p = p\<lparr>pos_Industry := x\<rparr>" by blast
  then have "named (is @ [i]) p = p\<lparr>pos_Industry := if i_ID i = pos_InstrumentID p then Industry (i_SIC i) else x\<rparr>"
    by (simp add: named_def)
  then show ?case by blast
qed

lemma named_keeps [simp]:
  "pos_InstrumentID (named is p) = pos_InstrumentID p" "pos_Quantity (named is p) = pos_Quantity p"
  "held i (named is p) = held i p" "position_ok (named is p) = position_ok p"
  using named_same [of "is" p] by (auto simp: held_def position_ok_def)

lemma name_industries_keeps:
  "positions_ok (name_industries is ps) = positions_ok ps" "shares (name_industries is ps) i = shares ps i"
proof -
  have n: "name_industries is ps = map (named is) ps" by (simp add: name_industries_def named_def)
  show "positions_ok (name_industries is ps) = positions_ok ps"
    by (simp add: n positions_ok_def list_all_iff o_def)
  show "shares (name_industries is ps) i = shares ps i"
    unfolding n by (induction ps) simp_all
qed

lemma book_inv_named [simp]: "book_inv c (a, name_industries is ps, es) = book_inv c (a, ps, es)"
  by (simp add: book_inv_def name_industries_keeps)

lemma record_fill_inv:
  assumes "record_fill current now n f cancelled b = Inr b'" "replay_inv c b" "n < length (bk_orders b)"
    and "IsInt64 (f_Quantity f)" "f_ReservedCash f = o_ReservedCash (bk_orders b ! n)"
    and "f_Side f = o_Side (bk_orders b ! n)" "\<not> Terminal (bk_orders b ! n)"
  shows "replay_inv c b'" "length (bk_orders b') = length (bk_orders b)"
proof -
  define st where "st = (if cancelled > 0 then OrderPartial else OrderFilled)"
  obtain m where m: "ApplyFill (bk_account b) (bk_positions b) f = Inr m"
    and b': "bk_account b' = lm_Account m" "bk_ledger b' = bk_ledger b @ lm_Entries m"
    "bk_positions b' = name_industries (s_Instruments current) (positions_after (bk_positions b) m)"
    "bk_orders b' = (bk_orders b)[n := (bk_orders b ! n)\<lparr>o_State := st\<rparr>]"
    "trace_entries (bk_trace b') = trace_entries (bk_trace b) @ lm_Entries m" "bk_fills b' = bk_fills b @ [f]"
    using assms(1) by (auto simp: record_fill_def bindR_Inr Let_def st_def)
  have l: "list_all (\<lambda>ord. IsInt64 (o_ReservedCash ord)) (bk_orders b)"
    and res: "bal_Reserved (a_Balances (bk_account b)) = reserved_cash (bk_orders b)"
    using assms(2) by (simp_all add: replay_inv_def)
  have "int64_fill f" using assms(3-5) l by (simp add: int64_fill_def list_all_length)
  note r = ApplyFill_Inr [OF m replay_inv_book(1) [OF assms(2)] this]
  have "closed_state st" by (simp add: st_def closed_state_def)
  then have "bal_Reserved (a_Balances (lm_Account m)) = reserved_cash (bk_orders b')"
    using res reserved_closed [OF assms(3,7)] assms(5,6)
    by (simp add: r(6) b' fill_delta_def add_balances_def)
  moreover have "book_inv c (book_of b')" "a_InitialCash (lm_Account m) = c"
    using book_apply_inv [OF assms(2) r(1), of "''fill''" now] by (simp_all add: book_of_def b' book_inv_named)
  moreover have "fill_priced f" using r(2,3) by (simp add: fill_priced_def)
  ultimately show "replay_inv c b'"
    using assms(2) list_all_set_state [OF l assms(3), of st] by (simp add: replay_inv_def b')
  show "length (bk_orders b') = length (bk_orders b)" by (simp add: b')
qed

lemma execute_on_inv:
  assumes "execute_on ny current now n ord day b = Inr (b', day')" "replay_inv c b" "n < length (bk_orders b)"
    and "ord = bk_orders b ! n" "\<not> Terminal ord"
  shows "replay_inv c b' \<and> length (bk_orders b') = length (bk_orders b)"
proof -
  define bar where "bar = ed_bars day (o_InstrumentID ord)"
  note e = assms(1) [unfolded execute_on_def bar_def [symmetric] Let_def]
  have released: "replay_inv c b' \<and> length (bk_orders b') = length (bk_orders b)"
    if "release_nth n kind event s now b = Inr b'" "closed_state s" for kind event s
    using release_nth_inv [OF that(1) assms(2,3) that(2)] by simp
  show ?thesis
  proof (cases "no_opening bar ord")
    case True
    have "b' = b \<or> release_nth n ''expired'' ''expiry'' OrderExpired now b = Inr b'"
      using e True by (auto simp: bindR_Inr split: if_splits)
    then show ?thesis using released [of "''expired''" "''expiry''" OrderExpired] assms(2)
      by (auto simp: closed_state_def)
  next
    case False
    obtain nav matched where nav: "ComputeNAV (bk_account b) (bk_positions b) (ed_prior day) (ed_prices day) = Inr nav"
      and m: "MatchAtOpen ny (replay_match b day ord (case bar of None \<Rightarrow> 0 | Some v \<Rightarrow> b_Open v) nav now) = Inr matched"
      using e False by (auto simp: bindR_Inr)
    show ?thesis
    proof (cases "fr_Fill matched")
      case None
      then have "release_nth n ''rejected'' ''rejected'' OrderRejected now b = Inr b'"
        using e False nav m by (auto simp: bindR_Inr)
      then show ?thesis using released by (simp add: closed_state_def)
    next
      case (Some f)
      define g where "g = f\<lparr>f_ID := ''fill/'' @ o_ID ord\<rparr>"
      have rf: "record_fill current now n g (fr_CancelledQuantity matched) b = Inr b'"
        using e False nav m Some by (auto simp: bindR_Inr g_def)
      note q = match_bounds [OF m Some]
      have "IsInt64 (f_Quantity g)" using q(1,2,5) by (simp add: g_def IsInt64_def)
      moreover have "f_ReservedCash g = o_ReservedCash (bk_orders b ! n)" "f_Side g = o_Side (bk_orders b ! n)"
        using q(11,13) by (simp_all add: g_def replay_match_def assms(4))
      ultimately show ?thesis using record_fill_inv [OF rf assms(2,3)] assms(4,5) by simp
    qed
  qed
qed

lemma AdvanceOrder_keeps [simp]:
  "Terminal (AdvanceOrder ord now) = Terminal ord" "o_Side (AdvanceOrder ord now) = o_Side ord"
  "o_ReservedCash (AdvanceOrder ord now) = o_ReservedCash ord"
  "reserved_for_buy (AdvanceOrder ord now) = reserved_for_buy ord"
  by (auto simp: AdvanceOrder_def Terminal_def reserved_for_buy_def)

lemma execute_nth_inv:
  assumes "execute_nth ny source current now n (b, days) = Inr (b', days')" "replay_inv c b"
    and "n < length (bk_orders b)"
  shows "replay_inv c b' \<and> length (bk_orders b') = length (bk_orders b)"
proof (cases "Terminal (bk_orders b ! n) \<or> now < o_TargetOpenAt (bk_orders b ! n)")
  case False
  define ord where "ord = AdvanceOrder (bk_orders b ! n) now"
  define x where "x = b\<lparr>bk_orders := (bk_orders b)[n := ord]\<rparr>"
  obtain day day' where e: "execute_on ny current now n ord day x = Inr (b', day')"
    using assms(1) False by (auto simp: execute_nth_def Let_def bindR_Inr ord_def x_def)
  have l: "list_all (\<lambda>ord. IsInt64 (o_ReservedCash ord)) ((bk_orders b)[n := ord])"
    using assms(2,3) by (intro list_all_update) (auto simp: replay_inv_def ord_def list_all_length)
  then have ix: "replay_inv c x"
    using assms(2,3) by (simp add: replay_inv_def x_def book_of_def reserved_cash_update ord_def)
  have len: "length (bk_orders x) = length (bk_orders b)" and nth: "ord = bk_orders x ! n"
    using assms(3) by (simp_all add: x_def)
  have "\<not> Terminal ord" using False by (simp add: ord_def)
  then show ?thesis using execute_on_inv [OF e ix _ nth] assms(3) len by simp
qed (use assms in \<open>simp add: execute_nth_def Let_def\<close>)

lemma replay_execute_inv:
  assumes "replay_execute ny source current now b = Inr b'" "replay_inv c b"
  shows "replay_inv c b'"
proof -
  define x where "x = b\<lparr>bk_orders := order_rows (\<lambda>x y. \<not> execution_before y x) (bk_orders b)\<rparr>"
  obtain days where f: "foldR [0..<length (bk_orders x)] (x, \<lambda>_. None) (execute_nth ny source current now) = Inr (b', days)"
    using assms(1) by (auto simp: replay_execute_def Let_def bindR_Inr x_def)
  let ?P = "\<lambda>y. replay_inv c (fst y) \<and> length (bk_orders (fst y)) = length (bk_orders x)"
  have "?P (b', days)"
  proof (rule foldR_inv [OF f, where P = ?P])
    show "?P (x, \<lambda>_. None)"
      using assms(2) by (simp add: x_def replay_inv_def book_of_def list_all_iff)
    fix n y y' assume n: "n \<in> set [0..<length (bk_orders x)]" and P: "?P y"
      and s: "execute_nth ny source current now n y = Inr y'"
    have "execute_nth ny source current now n (fst y, snd y) = Inr (fst y', snd y')" using s by simp
    then show "?P y'" using execute_nth_inv [of ny source current now n "fst y"] n P by fastforce
  qed
  then show ?thesis by simp
qed

section \<open>The benchmark\<close>

text \<open>A purchase that is reserved and filled at once leaves the reserved cash as it was.\<close>

lemma buyBenchmark_inv:
  assumes "buyBenchmark prior current session now i b = Inr b'" "replay_inv c b"
  shows "replay_inv c b'"
proof -
  obtain price low capacity gross fee m m' where o: "ReserveOrders (bk_account b) (bk_positions b)
       [benchmark_order (bk_account b) i low (wrap64 (gross + fee)) capacity (s_AsOf prior) session] = Inr m"
    and f: "ApplyFill (lm_Account m) (positions_after (bk_positions b) m)
       (benchmark_fill (benchmark_order (bk_account b) i low (wrap64 (gross + fee)) capacity (s_AsOf prior) session)
          price gross fee now) = Inr m'"
    and b': "b' = (book_apply m' ''fill'' now (book_apply m ''reservation'' (s_AsOf prior) b))\<lparr>bk_fills := bk_fills b @
       [benchmark_fill (benchmark_order (bk_account b) i low (wrap64 (gross + fee)) capacity (s_AsOf prior) session)
          price gross fee now]\<rparr>"
    using assms(1) unfolding buyBenchmark_def
    by (auto simp: bindR_Inr Let_def split: option.splits if_splits)
  define ord where "ord = benchmark_order (bk_account b) i low (wrap64 (gross + fee)) capacity (s_AsOf prior) session"
  define g where "g = benchmark_fill ord price gross fee now"
  define x where "x = book_apply m ''reservation'' (s_AsOf prior) b"
  note o = o [folded ord_def] and f = f [folded ord_def, folded g_def]
  have b': "b' = (book_apply m' ''fill'' now x)\<lparr>bk_fills := bk_fills b @ [g]\<rparr>"
    by (simp add: b' x_def g_def ord_def)
  have side: "o_Side ord = ''buy''" "f_Side g = ''buy''" "f_ReservedCash g = o_ReservedCash ord"
    "f_Quantity g = o_Quantity ord" "o_ReservedCash ord = wrap64 (gross + fee)"
    by (simp_all add: ord_def g_def benchmark_order_def benchmark_fill_def)
  note k = ReserveOrders_one [OF o replay_inv_book [OF assms(2)]]
  have x: "book_inv c (book_of x)" "a_InitialCash (bk_account x) = c"
    using book_apply_inv [OF assms(2) k(1)] by (simp_all add: x_def)
  have ps: "positions_ok (positions_after (bk_positions b) m)"
    using k(1) by (simp add: keeps_book_def)
  have i64: "int64_fill g"
    using k(4) side wrap64_range [of "gross + fee"] by (simp add: int64_fill_def)
  note r = ApplyFill_Inr [OF f ps i64]
  have "book_inv c (book_of (book_apply m' ''fill'' now x))"
    using keeps_book_inv [of c "bk_account x" "bk_positions x" "bk_ledger x" m'] x(1) r(1)
    by (simp add: book_of_def apply_mutation_def x_def)
  moreover have "a_InitialCash (lm_Account m') = c" using r(1) x(2) by (simp add: keeps_book_def x_def)
  moreover have "bal_Reserved (a_Balances (lm_Account m')) = bal_Reserved (a_Balances (bk_account b))"
    using side by (simp add: r(6) k(2) fill_delta_def reserve_change_def add_balances_def)
  moreover have "fill_priced g" using r(2,3) by (simp add: fill_priced_def)
  ultimately show ?thesis
    using assms(2) by (simp add: replay_inv_def b' book_of_def x_def)
qed

section \<open>The whole replay\<close>

definition benchmark_inv :: "Money \<Rightarrow> benchmark_run \<Rightarrow> bool" where
  "benchmark_inv cash run = (case run of None \<Rightarrow> True | Some (b, curve) \<Rightarrow> replay_inv cash b)"

lemma benchmark_session_inv:
  assumes "benchmark_inv c run"
  shows "benchmark_inv c (benchmark_session ny inp decision current session now first run)"
proof (cases "benchmark_session ny inp decision current session now first run")
  case (Some r)
  obtain b curve where run: "run = Some (b, curve)"
    using Some by (cases run) (auto simp: benchmark_session_def)
  obtain x y z n where x: "reconcile ny current (ts_OpenAt session) [bi_BenchmarkID inp] b = Inr x"
    and y: "(if first then buyBenchmark decision current session now (bi_BenchmarkID inp) x else Inr x) = Inr y"
    and z: "reconcile ny current now [bi_BenchmarkID inp] y = Inr z"
    and r: "r = (z, curve @ [n])"
    using Some unfolding benchmark_session_def run
    by (auto simp: bindR_Inr split: sum.splits)
  have "replay_inv c x" using reconcile_inv [OF x] assms by (simp add: benchmark_inv_def run)
  then have "replay_inv c y" using y buyBenchmark_inv by (auto split: if_splits)
  then have "replay_inv c z" by (rule reconcile_inv [OF z])
  then show ?thesis unfolding Some by (simp add: benchmark_inv_def r)
qed (simp add: benchmark_inv_def)

lemma replay_session_inv:
  assumes "replay_session ny inp source (index, session) (previous, b, curve, run) = Inr (previous', b', curve', run')"
    and "replay_inv c b" "benchmark_inv c run"
  shows "replay_inv c b'" "benchmark_inv c run'"
proof -
  define decision where "decision = SelectSnapshot source (ts_CloseAt previous + 30 * Minute)"
  define now where "now = ts_CloseAt session + 30 * Minute"
  define current where "current = SelectSnapshot source now"
  define ids where "ids = uv_InstrumentIDs (bi_Universe inp)"
  note s = assms(1) [unfolded replay_session_def prod.case Let_def decision_def [symmetric] now_def [symmetric]
    current_def [symmetric] ids_def [symmetric]]
  obtain b1 b2 b3 b4 b5 nav where b1: "reconcile ny decision (ts_CloseAt previous + 30 * Minute) ids b = Inr b1"
    and b2: "replay_plan decision inp session b1 = Inr b2"
    and b3: "reconcile ny current (ts_OpenAt session) ids b2 = Inr b3"
    and b4: "replay_execute ny source current now b3 = Inr b4"
    and b5: "reconcile ny current now ids b4 = Inr b5"
    and b': "b' = (if nav > bk_peak b5 then b5\<lparr>bk_peak := nav\<rparr> else b5)"
    and r: "run' = benchmark_session ny inp decision current session now (index = 0) run"
    using s by (auto simp: bindR_Inr)
  have "replay_inv c b5"
    using reconcile_inv [OF b5] replay_execute_inv [OF b4] reconcile_inv [OF b3] replay_plan_inv [OF b2]
      reconcile_inv [OF b1 assms(2)] by blast
  then show "replay_inv c b'" by (simp add: b')
  show "benchmark_inv c run'" using benchmark_session_inv [OF assms(3)] by (simp add: r)
qed

lemma replay_run_inv:
  assumes "replay_run ny inp source previous sessions run = Inr (b, run')"
    and "0 \<le> bi_InitialCash inp" "IsInt64 (bi_InitialCash inp)" "benchmark_inv (bi_InitialCash inp) run"
  shows "replay_inv (bi_InitialCash inp) b" "benchmark_inv (bi_InitialCash inp) run'"
proof -
  let ?P = "\<lambda>(p, b, cv, r). replay_inv (bi_InitialCash inp) b \<and> benchmark_inv (bi_InitialCash inp) r"
  obtain p curve where f: "foldR (zip [0..<length sessions] sessions)
      (previous, newReplayBook ''replay'' (hd (bi_Snapshots inp)) (bi_InitialCash inp), [], run)
      (replay_session ny inp source) = Inr (p, b, curve, run')"
    using assms(1) by (auto simp: replay_run_def bindR_Inr)
  have "?P (p, b, curve, run')"
  proof (rule foldR_inv [OF f, where P = ?P])
    fix x y y' assume P: "?P y" and s: "replay_session ny inp source x y = Inr y'"
    obtain index session p b cv r p' b' cv' r' where t: "x = (index, session)" "y = (p, b, cv, r)" "y' = (p', b', cv', r')"
      by (metis prod.collapse)
    have "replay_inv (bi_InitialCash inp) b" "benchmark_inv (bi_InitialCash inp) r" using P by (simp_all add: t)
    from replay_session_inv [OF s [unfolded t] this] show "?P y'" by (simp add: t)
  qed (use new_replay_inv assms in simp)
  then show "replay_inv (bi_InitialCash inp) b" "benchmark_inv (bi_InitialCash inp) run'" by simp_all
qed

lemma replay_setup_cash:
  assumes "replay_setup inp = Inr r"
  shows "0 < bi_InitialCash inp" "bi_InitialCash inp \<le> 100000000000"
  using assms by (auto simp: replay_setup_def replay_input_ok_def split: if_splits)

text \<open>What the trace of a result says: cash, shares and prices add up.\<close>

definition trace_adds_up :: "Money \<Rightarrow> ReplayEvent list \<Rightarrow> bool" where
  "trace_adds_up cash trace \<longleftrightarrow>
     balances_ok (add_entries (no_balances\<lparr>bal_Available := cash\<rparr>) (trace_entries trace))
     \<and> (\<forall>i. 0 \<le> entry_shares (trace_entries trace) i)"

lemma replay_inv_trace:
  assumes "replay_inv cash b"
  shows "trace_adds_up cash (bk_trace b)" "list_all fill_priced (bk_fills b)"
proof -
  have "\<forall>i. entry_shares (bk_ledger b) i = shares (bk_positions b) i"
    "a_Balances (bk_account b) = add_entries (no_balances\<lparr>bal_Available := cash\<rparr>) (bk_ledger b)"
    "trace_entries (bk_trace b) = bk_ledger b"
    using assms by (simp_all add: replay_inv_def book_inv_def book_of_def)
  then show "trace_adds_up cash (bk_trace b)"
    using replay_inv_book [OF assms] shares_nonneg by (simp add: trace_adds_up_def)
  show "list_all fill_priced (bk_fills b)" using assms by (simp add: replay_inv_def)
qed

lemma Replay_adds_up:
  assumes "Replay ny pow inp = Inr r"
  shows "trace_adds_up (bi_InitialCash inp) (bt_Trace r)" "list_all fill_priced (bt_Fills r)"
    "bt_BenchmarkReason r = [] \<longrightarrow> trace_adds_up (bi_InitialCash inp) (bt_BenchmarkTrace r)"
    "list_all fill_priced (bt_BenchmarkFills r)"
proof -
  obtain source previous sessions warm where ready: "replay_setup inp = Inr (source, previous, sessions, warm)"
    using assms by (auto simp: Replay_def bindR_Inr)
  define run where "run = benchmark_start inp source warm"
  obtain b run' curve metrics bench where go: "replay_run ny inp source previous sessions run = Inr (b, run')"
    and bench: "benchmark_result pow source sessions (bi_InitialCash inp) run' = Inr bench"
    and r: "r = replay_result source b curve metrics bench"
    using assms ready by (auto simp: Replay_def bindR_Inr run_def)
  have cash: "0 \<le> bi_InitialCash inp" "IsInt64 (bi_InitialCash inp)"
    using replay_setup_cash [OF ready] by (simp_all add: IsInt64_def)
  have "benchmark_inv (bi_InitialCash inp) run"
    using new_replay_inv [OF cash] by (simp add: run_def benchmark_start_def benchmark_inv_def)
  note inv = replay_run_inv [OF go cash this]
  show "trace_adds_up (bi_InitialCash inp) (bt_Trace r)" "list_all fill_priced (bt_Fills r)"
    using replay_inv_trace [OF inv(1)] by (simp_all add: r replay_result_def)
  show "bt_BenchmarkReason r = [] \<longrightarrow> trace_adds_up (bi_InitialCash inp) (bt_BenchmarkTrace r)"
    "list_all fill_priced (bt_BenchmarkFills r)"
    using inv(2) bench replay_inv_trace
    by (auto simp: r replay_result_def benchmark_inv_def benchmark_result_def bindR_Inr split: option.splits)
qed

end
