(* ===== verification/Investment_Knowledge.thy ===== *)
theory Investment_Knowledge
  imports Investment_Scoring
begin

text \<open>
  Decisions see only what was known. \<open>known_at\<close> drops from a snapshot every row that was not yet
  available; \<open>SelectSnapshot\<close> and \<open>Evaluate\<close> give the same on what is left, so no row published
  later can change a decision. Of the known rows of a key the selection keeps one, the one that was
  ingested last.
\<close>

section \<open>What is not known has no influence\<close>

definition known_at :: "Snapshot \<Rightarrow> time \<Rightarrow> Snapshot" where
  "known_at s t = s
     \<lparr>s_Bars := List.filter (\<lambda>b. b_AvailableAt b \<le> t) (s_Bars s),
      s_Facts := List.filter (\<lambda>f. ff_AvailableAt f \<le> t) (s_Facts s),
      s_Actions := List.filter (\<lambda>a. ca_AvailableAt a \<le> t) (s_Actions s),
      s_News := List.filter (\<lambda>n. n_AvailableAt n \<le> t \<and> n_PublishedAt n \<le> t) (s_News s)\<rparr>"

lemma fold_filter_skip:
  "(\<And>r m. \<not> P r \<Longrightarrow> f r m = m) \<Longrightarrow> fold f (List.filter P rows) m = fold f rows m"
  by (induction rows arbitrary: m) simp_all

lemma latest_by_known:
  "latest_by known key newer (List.filter known rows) = latest_by known key newer rows"
  unfolding latest_by_def by (rule fold_filter_skip) simp

lemma SelectSnapshot_local: "SelectSnapshot (known_at s t) t = SelectSnapshot s t"
proof -
  note l = latest_by_known [of "\<lambda>b. \<not> b_AvailableAt b > t" bar_key bar_newer "s_Bars s"]
    latest_by_known [of "\<lambda>f. \<not> ff_AvailableAt f > t" fact_key fact_newer "s_Facts s"]
    latest_by_known [of "\<lambda>a. \<not> ca_AvailableAt a > t" ca_ID action_newer "s_Actions s"]
    latest_by_known [of "\<lambda>n. \<not> (n_AvailableAt n > t \<or> n_PublishedAt n > t)" n_ID
      "\<lambda>n old. n_AvailableAt n > n_AvailableAt old" "s_News s"]
  show ?thesis
    using l by (simp add: SelectSnapshot_def select_facts_def known_at_def not_less)
qed

lemma known_at_simps [simp]: "s_AsOf (known_at s t) = s_AsOf s" "s_ID (known_at s t) = s_ID s"
    "s_QualityFlags (known_at s t) = s_QualityFlags s"
  by (simp_all add: known_at_def)

lemma Evaluate_local: "Evaluate (known_at s (s_AsOf s)) universe strategy = Evaluate s universe strategy"
proof -
  have refs: "group_refs (known_at s t) = group_refs s" for t
    by (intro ext) (simp add: group_refs_def)
  have scored: "scored_signal (known_at s t) = scored_signal s" for t
    unfolding scored_signal_def group_evidence_def refs known_at_simps by (rule refl)
  have new: "new_evaluation (known_at s t) = new_evaluation s" for t
    unfolding new_evaluation_def known_at_simps by (rule refl)
  show ?thesis unfolding Evaluate_def scored new known_at_simps SelectSnapshot_local by (rule refl)
qed

section \<open>The latest of the known\<close>

lemma latest_by_latest:
  fixes m :: "'r \<Rightarrow> int"
  assumes "\<And>r old. newer r old \<longleftrightarrow> m r > m old" "r \<in> set rows" "known r"
  shows "\<exists>r'. map_of (latest_by known key newer rows) (key r) = Some r' \<and> m r \<le> m r'"
proof -
  define g where "g = (\<lambda>r e. if \<not> known r then e
            else case map_of e (key r) of
              None \<Rightarrow> put_entry (key r) r e
            | Some old \<Rightarrow> if newer r old then put_entry (key r) r e else e)"
  have one: "map_of e k = Some x \<Longrightarrow> \<exists>x'. map_of (g y e) k = Some x' \<and> m x \<le> m x'" for e k x y
    using assms(1) unfolding g_def by (cases "k = key y") (auto split: option.splits intro: less_imp_le)
  have put: "known r \<Longrightarrow> \<exists>x'. map_of (g r e) (key r) = Some x' \<and> m r \<le> m x'" for e r
    using assms(1) [of r] unfolding g_def by (cases "map_of e (key r)") auto
  have keep: "map_of e k = Some x \<Longrightarrow> \<exists>x'. map_of (fold g rows e) k = Some x' \<and> m x \<le> m x'" for rows e k x
  proof (induction rows arbitrary: e x)
    case (Cons y rows)
    obtain x' where "map_of (g y e) k = Some x'" "m x \<le> m x'" using one [OF Cons.prems] by blast
    then show ?case using Cons.IH [of "g y e" x'] by (auto intro: order_trans)
  qed simp
  have "r \<in> set rows \<Longrightarrow> known r \<Longrightarrow> \<exists>x'. map_of (fold g rows e) (key r) = Some x' \<and> m r \<le> m x'" for rows e
  proof (induction rows arbitrary: e)
    case (Cons y rows)
    show ?case
    proof (cases "r = y")
      case True
      obtain x' where x': "map_of (g r e) (key r) = Some x'" "m r \<le> m x'" using put [OF Cons.prems(2)] by blast
      from keep [OF x'(1), of rows] x'(2) show ?thesis using True by (auto intro: order_trans)
    next
      case False
      then show ?thesis using Cons by simp
    qed
  qed simp
  from this [OF assms(2,3), of "[]"] show ?thesis by (simp add: latest_by_def g_def)
qed

lemma SelectSnapshot_latest_bar:
  assumes "b \<in> set (s_Bars s)" "b_AvailableAt b \<le> t"
  shows "\<exists>b' \<in> set (s_Bars (SelectSnapshot s t)). bar_key b' = bar_key b
    \<and> pr_IngestedAt (b_Provenance b) \<le> pr_IngestedAt (b_Provenance b')"
proof -
  obtain b' where m: "map_of (latest_by (\<lambda>b. \<not> b_AvailableAt b > t) bar_key bar_newer (s_Bars s)) (bar_key b) = Some b'"
    "pr_IngestedAt (b_Provenance b) \<le> pr_IngestedAt (b_Provenance b')"
    using latest_by_latest [of bar_newer "\<lambda>b. pr_IngestedAt (b_Provenance b)" b "s_Bars s" "\<lambda>b. \<not> b_AvailableAt b > t" bar_key]
      assms by (auto simp: bar_newer_def)
  from map_of_SomeD [OF m(1)] have i: "(bar_key b, b') \<in> set (latest_by (\<lambda>b. \<not> b_AvailableAt b > t) bar_key bar_newer (s_Bars s))" .
  then have "b' \<in> set (s_Bars (SelectSnapshot s t))" by (force simp: SelectSnapshot_def)
  moreover have "bar_key b' = bar_key b" using latest_by_in [OF i] by simp
  ultimately show ?thesis using m(2) by blast
qed

text \<open>
  Two revisions of an action, one available later and the other ingested later: the selection
  depends on the order in which they arrive.
\<close>

definition revision :: "time \<Rightarrow> time \<Rightarrow> CorporateAction \<Rightarrow> CorporateAction" where
  "revision available ingested a = a
     \<lparr>ca_AvailableAt := available, ca_Provenance := (ca_Provenance a)\<lparr>pr_IngestedAt := ingested\<rparr>\<rparr>"

lemma action_revision_order:
  fixes a :: CorporateAction
  assumes "x = revision 2 1 a" "y = revision 1 2 a"
  shows "s_Actions (SelectSnapshot (s\<lparr>s_Actions := [x, y]\<rparr>) 3) = [y]"
    "s_Actions (SelectSnapshot (s\<lparr>s_Actions := [y, x]\<rparr>) 3) = [x]"
  by (simp_all add: assms SelectSnapshot_def latest_by_def revision_def action_newer_def 
      order_rows_def)

end
