(* ===== verification/Investment_Exact.thy ===== *)
theory Investment_Exact
  imports Investment_Rebalance Investment_Account_Spec
begin

text \<open>
  The risk check against its specification: the bisection finds the quantity an exhaustive search
  would find, and what it admits stays within the policy's parts of the net asset value.
\<close>

section \<open>The exhaustive search\<close>

definition greatest_fitting :: "Quantity \<Rightarrow> (Quantity \<Rightarrow> bool) \<Rightarrow> Quantity" where
  "greatest_fitting limit fits = Max (insert 0 {q \<in> {1..limit}. fits q})"

lemma exact_greatest:
  assumes "0 \<le> n" "n \<le> limit" "\<And>q. 0 < q \<Longrightarrow> q \<le> limit \<Longrightarrow> q \<le> n \<longleftrightarrow> fits q"
  shows "n = greatest_fitting limit fits"
proof -
  have "q \<in> {q \<in> {1..limit}. fits q} \<longleftrightarrow> q \<in> {1..n}" for q
    using assms(3) [of q] assms(2) by (cases "1 \<le> q \<and> q \<le> limit") auto
  then have "{q \<in> {1..limit}. fits q} = {1..n}" by blast
  moreover have "Max (insert 0 {1..n}) = n" using assms(1) by (intro Max_eqI) auto
  ultimately show ?thesis by (simp add: greatest_fitting_def)
qed

definition exact_decision ::
  "OrderRiskInput \<Rightarrow> (string \<Rightarrow> Price option) \<Rightarrow> (string \<Rightarrow> Instrument option) \<Rightarrow> string \<Rightarrow> Money \<Rightarrow> Quantity \<Rightarrow> bool" where
  "exact_decision inp prices instruments industry turnover n \<longleftrightarrow>
     (if ri_Side inp = ''sell''
      then \<exists>available. sellable inp = Inr available \<and> n = greatest_fitting available (sell_fits inp turnover)
      else \<exists>room. room_for inp prices instruments industry turnover = Inr room
             \<and> n = greatest_fitting 1000000000 (buy_fits room (ri_Price inp)))"

lemma ValidateOrder_exact:
  assumes "ValidateOrder inp = Inr d" "0 < rd_MaxQuantity d"
  shows "\<exists>prices instruments instrument turnover.
    quoteBook (ri_Snapshot inp) (ri_Prices inp) = Inr (prices, instruments)
    \<and> instruments (ri_InstrumentID inp) = Some instrument
    \<and> turnover_left inp (prices(ri_InstrumentID inp \<mapsto> ri_Price inp)) = Inr turnover
    \<and> exact_decision inp (prices(ri_InstrumentID inp \<mapsto> ri_Price inp)) instruments
        (Industry (i_SIC instrument)) turnover (rd_MaxQuantity d)
    \<and> rd_Allowed d = (ri_Quantity inp \<le> rd_MaxQuantity d)"
proof -
  have n: "\<not> (\<exists>reason. d = refused reason)" using assms(2) by auto
  obtain prices ins where q: "quoteBook (ri_Snapshot inp) (ri_Prices inp) = Inr (prices, ins)"
    and dq: "decide_quoted inp (prices(ri_InstrumentID inp \<mapsto> ri_Price inp)) ins = Inr d"
    using ValidateOrder_cases(3) [OF assms(1)] n by blast
  let ?p = "prices(ri_InstrumentID inp \<mapsto> ri_Price inp)"
  obtain instrument turnover where i: "ins (ri_InstrumentID inp) = Some instrument"
    and t: "turnover_left inp ?p = Inr turnover"
    and dec: "(if ri_Side inp = ''sell'' then decide_sell inp turnover
      else decide_buy inp ?p ins (Industry (i_SIC instrument)) turnover) = Inr d"
    using decide_quoted_cases [OF dq] n by blast
  have r: "0 \<le> rd_MaxQuantity d" "rd_MaxQuantity d \<le> 1000000000" using ValidateOrder_range [OF assms(1)] .
  have "exact_decision inp ?p ins (Industry (i_SIC instrument)) turnover (rd_MaxQuantity d)
    \<and> rd_Allowed d = (ri_Quantity inp \<le> rd_MaxQuantity d)"
  proof (cases "ri_Side inp = ''sell''")
    case True
    with dec obtain available where s: "sellable inp = Inr available"
      and m: "rd_MaxQuantity d = maxWholeQuantity available (sell_fits inp turnover)"
      and a: "rd_Allowed d = (ri_Quantity inp \<le> rd_MaxQuantity d)"
      using decide_sell_room by (metis (no_types, lifting))
    have "rd_MaxQuantity d = greatest_fitting available (sell_fits inp turnover)"
      using decide_sell_exact [OF s m] r(1) assms(2) by (intro exact_greatest) auto
    then show ?thesis using s a True by (simp add: exact_decision_def)
  next
    case False
    with dec n obtain room where rm: "room_for inp ?p ins (Industry (i_SIC instrument)) turnover = Inr room"
      and m: "rd_MaxQuantity d = maxWholeQuantity 1000000000 (buy_fits room (ri_Price inp))"
      and a: "rd_Allowed d = (ri_Quantity inp \<le> rd_MaxQuantity d)"
      using decide_buy_room by (metis (no_types, lifting))
    have "rd_MaxQuantity d = greatest_fitting 1000000000 (buy_fits room (ri_Price inp))"
      using decide_buy_exact [OF rm m] r by (intro exact_greatest) auto
    then show ?thesis using rm a False by (simp add: exact_decision_def)
  qed
  then show ?thesis using q i t by blast
qed

section \<open>The limits of the policy\<close>

text \<open>What a purchase of \<open>q\<close> shares costs, and how much of each limit the portfolio then uses.\<close>

definition purchase_within ::
  "OrderRiskInput \<Rightarrow> exposure \<Rightarrow> string \<Rightarrow> Quantity \<Rightarrow> bool" where
  "purchase_within inp x industry q \<longleftrightarrow>
     (\<exists>g c. GrossValue (ri_Price inp) q = Inr g \<and> purchaseCost (ri_Price inp) q = Inr c
        \<and> c \<le> (case ri_ReservationBudget inp of None \<Rightarrow> bal_Available (a_Balances (ri_Account inp)) | Some b \<Rightarrow> b)
        \<and> 10 * (xp_byID x (ri_InstrumentID inp) + g) \<le> ri_NAV inp
        \<and> 10 * (xp_byIndustry x industry + g) \<le> 3 * ri_NAV inp
        \<and> 10 * (xp_stocks x + g) \<le> 8 * ri_NAV inp)"

lemma moneyLimit_part:
  assumes "0 \<le> nav" "IsInt64 nav" "0 < policyFraction w" "policyFraction w \<le> of_int k / 10" "k \<le> 10"
    and "v \<le> moneyLimit nav w"
  shows "10 * v \<le> k * nav"
proof -
  have "policyFraction w \<le> 1" using assms(4,5) by (simp add: order_trans)
  then have "moneyLimit nav w = \<lfloor>of_int nav * policyFraction w\<rfloor>"
    using moneyLimit_floor [OF assms(1-3)] by simp
  then have "(of_int v :: rat) \<le> of_int nav * policyFraction w"
    using assms(6) by (metis floor_less_cancel le_floor_iff)
  also have "\<dots> \<le> of_int nav * (of_int k / 10)" using assms(1,4) by (intro mult_left_mono) simp_all
  finally have "10 * (of_int v :: rat) \<le> of_int k * of_int nav" by (simp add: field_simps)
  then have "(of_int (10 * v) :: rat) \<le> of_int (k * nav)" by simp
  then show ?thesis by (simp only: of_int_le_iff)
qed

lemma ValidateOrder_within:
  assumes "ValidateOrder inp = Inr d" "ri_Side inp = ''buy''" "0 < q" "q \<le> rd_MaxQuantity d"
    and "float_policy (ri_Policy inp)" "IsInt64 (ri_NAV inp)"
  shows "\<exists>prices instruments instrument x.
    quoteBook (ri_Snapshot inp) (ri_Prices inp) = Inr (prices, instruments)
    \<and> instruments (ri_InstrumentID inp) = Some instrument \<and> i_Kind instrument = ''stock'' \<and> i_Tradable instrument
    \<and> portfolioExposure (ri_Positions inp) (ri_Orders inp) (prices(ri_InstrumentID inp \<mapsto> ri_Price inp))
        instruments (ri_ExcludeOrderID inp) = Inr x
    \<and> purchase_within inp x (Industry (i_SIC instrument)) q"
proof -
  obtain prices ins instrument turnover where v:
    "quoteBook (ri_Snapshot inp) (ri_Prices inp) = Inr (prices, ins)"
    "ins (ri_InstrumentID inp) = Some instrument" "i_Kind instrument = ''stock''" "i_Tradable instrument"
    "decide_buy inp (prices(ri_InstrumentID inp \<mapsto> ri_Price inp)) ins (Industry (i_SIC instrument)) turnover = Inr d"
    using ValidateOrder_buy [OF assms(1-4)] by metis
  have ok: "RiskPolicy_Validate (ri_Policy inp) = Inr ()" and nav: "0 \<le> ri_NAV inp"
    using ValidateOrder_cases(1,2) [OF assms(1)] by (auto simp: risk_input_ok_def)
  note pf = policy_fractions [OF ok assms(5)]
  obtain x g c where l: "portfolioExposure (ri_Positions inp) (ri_Orders inp)
        (prices(ri_InstrumentID inp \<mapsto> ri_Price inp)) ins (ri_ExcludeOrderID inp) = Inr x"
    "GrossValue (ri_Price inp) q = Inr g" "purchaseCost (ri_Price inp) q = Inr c"
    "c \<le> (case ri_ReservationBudget inp of None \<Rightarrow> bal_Available (a_Balances (ri_Account inp)) | Some b \<Rightarrow> b)"
    "xp_byID x (ri_InstrumentID inp) + g \<le> moneyLimit (ri_NAV inp) (rp_SingleWeight (ri_Policy inp))"
    "xp_byIndustry x (Industry (i_SIC instrument)) + g \<le> moneyLimit (ri_NAV inp) (rp_IndustryWeight (ri_Policy inp))"
    "xp_stocks x + g \<le> moneyLimit (ri_NAV inp) (rp_StockWeight (ri_Policy inp))"
    using decide_buy_limits [OF v(5) assms(3,4) ok assms(5) nav assms(6)] by blast
  have parts: "10 * (xp_byID x (ri_InstrumentID inp) + g) \<le> 1 * ri_NAV inp"
    "10 * (xp_byIndustry x (Industry (i_SIC instrument)) + g) \<le> 3 * ri_NAV inp"
    "10 * (xp_stocks x + g) \<le> 8 * ri_NAV inp"
    by (rule moneyLimit_part [OF nav assms(6) pf(1) _ _ l(5)], use pf(2) in simp, simp)
      (rule moneyLimit_part [OF nav assms(6) pf(3) _ _ l(6)], use pf(4) in simp, simp,
       rule moneyLimit_part [OF nav assms(6) pf(5) _ _ l(7)], use pf(6) in simp, simp)
  have "purchase_within inp x (Industry (i_SIC instrument)) q"
    unfolding purchase_within_def using l(2-4) parts by (intro exI conjI) simp_all
  then show ?thesis using v(1-4) l(1) by blast
qed

section \<open>A rebalance\<close>

lemma BuildRebalance_affordable:
  assumes "BuildRebalance inp = Inr plan" "positions_ok (pf_Positions inp)"
    and "0 \<le> bal_Available (a_Balances (pf_Account inp))" "IsInt64 (bal_Available (a_Balances (pf_Account inp)))"
  shows "\<exists>prices. list_all planned_ok (rp_Orders plan)
    \<and> list_all (\<lambda>ord. 0 < planned_cost prices ord) (purchases (rp_Orders plan))
    \<and> (\<Sum>ord\<leftarrow>purchases (rp_Orders plan). planned_cost prices ord) \<le> bal_Available (a_Balances (pf_Account inp))
    \<and> (rp_Orders plan \<noteq> [] \<longrightarrow> (\<exists>ins. quoteBook (pf_Snapshot inp) (pf_Prices inp) = Inr (prices, ins)))
    \<and> (\<forall>i. sold (rp_Orders plan) i \<le> shares (pf_Positions inp) i)
    \<and> (\<forall>x \<in> set (rp_Orders plan). \<forall>y \<in> set (rp_Orders plan).
         po_InstrumentID x = po_InstrumentID y \<longrightarrow> po_Side x = po_Side y)"
proof (cases "rp_Orders plan = []")
  case True
  then show ?thesis using assms(3) shares_nonneg [OF assms(2)] by (simp add: purchases_def sold_def)
next
  case False
  obtain prices ins rb where q: "quoteBook (pf_Snapshot inp) (pf_Prices inp) = Inr (prices, ins)"
    and b: "buying (pf_Positions inp) (bal_Available (a_Balances (pf_Account inp))) prices rb"
    and o: "rp_Orders plan = rb_orders rb"
    using BuildRebalance_buying [OF assms(1) False assms(2-4)] by metis
  have sides: "po_Side x = po_Side y" if "x \<in> set (rb_orders rb)" "y \<in> set (rb_orders rb)"
    "po_InstrumentID x = po_InstrumentID y" for x y
  proof -
    have "(po_Side x = ''sell'') = (po_Side y = ''sell'')" using b that by (simp add: buying_def) metis
    moreover have "planned_ok x" "planned_ok y" using b that by (auto simp: buying_def list_all_iff)
    ultimately show ?thesis by (auto simp: planned_ok_def)
  qed
  note b' = b [unfolded buying_def]
  have sum: "(\<Sum>ord\<leftarrow>purchases (rb_orders rb). planned_cost prices ord) \<le> bal_Available (a_Balances (pf_Account inp))"
    using b' by linarith
  show ?thesis
    unfolding o using b' q sum sides by (intro exI [of _ prices] conjI) blast+
qed

end
