(* ===== verification/Investment_Sample.thy ===== *)
theory Investment_Sample
  imports Investment_Replay_Book Investment_Knowledge Investment_Exact
begin

text \<open>
  Concrete inputs for the investment properties: one stock, a few sessions, an account with
  ten thousand dollars and orders on it, with what the code computes for them.
\<close>

section \<open>Market data\<close>

definition some_day :: "int \<Rightarrow> TradingSession" where
  "some_day n = \<lparr>ts_Date = n * Day, ts_OpenAt = n * Day + 14 * Hour, ts_CloseAt = n * Day + 21 * Hour\<rparr>"

definition some_calendar :: "int list \<Rightarrow> Calendar" where
  "some_calendar days = \<lparr>cal_Version = ''1'', cal_Source = ''exchange'', cal_CoverageStart = Day,
     cal_CoverageEnd = 100 * Day, cal_Sessions = map some_day days, cal_SettlementDays = []\<rparr>"

definition some_provenance :: Provenance where
  "some_provenance = \<lparr>pr_Source = ''vendor'', pr_SourceRecordID = ''1'', pr_IngestedAt = 1\<rparr>"

definition some_stock :: Instrument where
  "some_stock = \<lparr>i_Provenance = some_provenance, i_ID = ''spy'', i_Ticker = ''SPY'', i_Name = ''SPY'',
     i_CIK = ''1'', i_Exchange = ''X'', i_SIC = ''3571'', i_Kind = ''stock'', i_Tradable = True,
     i_TickerHistory = []\<rparr>"

text \<open>Ten dollars at the open and at the close, a million shares traded.\<close>

definition some_bar :: "int \<Rightarrow> Bar" where
  "some_bar n = \<lparr>b_Provenance = some_provenance, b_InstrumentID = ''spy'', b_SessionDate = n * Day,
     b_AvailableAt = n * Day + 21 * Hour, b_Open = 10000000, b_High = 10000000, b_Low = 10000000,
     b_Close = 10000000, b_Volume = 1000000, b_NoOpeningTrade = False\<rparr>"

definition some_snapshot :: "int list \<Rightarrow> int list \<Rightarrow> time \<Rightarrow> Snapshot" where
  "some_snapshot open_days days asOf = \<lparr>s_ID = ''s1'', s_DatasetVersion = ''1'', s_Mode = ''paper'', s_Feed = ''iex'',
     s_AsOf = asOf, s_Instruments = [some_stock], s_Bars = map some_bar days, s_Facts = [],
     s_Actions = [], s_News = [], s_QualityFlags = [], s_Calendar = some_calendar open_days\<rparr>"

section \<open>An account and its orders\<close>

text \<open>The default limits, with their binary values written out.\<close>

definition some_policy :: RiskPolicy where
  "some_policy =
     \<lparr>rp_SingleWeight = Finite (3602879701896397 / 36028797018963968),
      rp_IndustryWeight = Finite (5404319552844595 / 18014398509481984),
      rp_StockWeight = Finite (3602879701896397 / 4503599627370496),
      rp_DrawdownPause = Finite (5404319552844595 / 36028797018963968),
      rp_StopLoss = Finite (3602879701896397 / 36028797018963968),
      rp_TurnoverLimit = Finite (3602879701896397 / 18014398509481984)\<rparr>"

lemma some_policy: "DefaultRiskPolicy = some_policy"
  unfolding DefaultRiskPolicy_def some_policy_def limit_floats by (rule refl)

lemma some_policy_floats: "float_policy some_policy"
  by code_simp

definition some_account :: "Money \<Rightarrow> Account" where
  "some_account cash = \<lparr>a_DatasetVersion = ''1'', a_ID = ''a1'', a_Name = ''first'', a_Mode = ''paper'',
     a_StrategyVersionID = [], a_UniverseVersionID = [],
     a_Scope = \<lparr>sc_WorkspaceID = ''w'', sc_OwnerUserID = ''u''\<rparr>,
     a_Balances = no_balances\<lparr>bal_Available := cash\<rparr>, a_InitialCash = cash, a_Version = 1,
     a_AutomationEnabled = True, a_PauseReason = [], a_Policy = some_policy,
     a_PendingConfig = None, a_CreatedAt = 1\<rparr>"

definition some_order :: "string \<Rightarrow> Quantity \<Rightarrow> Order" where
  "some_order side n = \<lparr>o_ID = ''o1'', o_AccountID = ''a1'', o_InstrumentID = ''spy'', o_Side = side,
     o_State = OrderPending, o_Reason = ''entry_signal'', o_Origin = ''manual'', o_Quantity = n,
     o_ReservedQuantity = (if side = ''sell'' then n else 0), o_Capacity = 1000,
     o_ReservedCash = (if side = ''buy'' then 50056 else 0), o_TargetOpenAt = 21 * Day + 14 * Hour,
     o_ExpiresAt = 22 * Day + 21 * Hour, o_CreatedAt = 20 * Day + 22 * Hour, o_Version = 1\<rparr>"

definition some_portfolio :: "Account \<Rightarrow> Position list \<Rightarrow> Snapshot \<Rightarrow> PortfolioInput" where
  "some_portfolio a ps s = \<lparr>pf_Account = a, pf_Positions = ps, pf_Orders = [], pf_Snapshot = s,
     pf_Evaluation = no_evaluation, pf_Policy = some_policy, pf_NAV = 1000000,
     pf_PeakNAV = 1000000, pf_SessionTurnover = 0, pf_Prices = [], pf_Parameters = None\<rparr>"

text \<open>The account once the order has reserved its cash.\<close>

definition reserved_account :: Account where
  "reserved_account = with_balances (some_account 1000000)
     (no_balances\<lparr>bal_Available := 949944, bal_Reserved := 50056\<rparr>)"

definition some_match :: MatchInput where
  "some_match = \<lparr>mi_Order = some_order ''buy'' 50, mi_OpenPrice = 10000000, mi_AvailableCapacity = 40,
     mi_Portfolio = some_portfolio reserved_account [] (some_snapshot [20] [20] (20 * Day + 22 * Hour)),
     mi_RecordedAt = 21 * Day + 22 * Hour\<rparr>"

text \<open>Forty of the fifty shares, for 400.40 dollars and a fee of five cents.\<close>

definition some_fill :: Fill where
  "some_fill = \<lparr>f_ID = [], f_AccountID = ''a1'', f_OrderID = ''o1'', f_InstrumentID = ''spy'',
     f_Side = ''buy'', f_Reason = ''entry_signal'', f_Quantity = 40, f_Price = 10010000, f_Gross = 40040,
     f_Fee = 5, f_ReservedCash = 50056, f_ReservedQuantity = 0, f_EffectiveAt = 21 * Day + 14 * Hour,
     f_RecordedAt = 21 * Day + 22 * Hour, f_SettlesAt = 0\<rparr>"

definition entry_of_reserve :: LedgerEntry where
  "entry_of_reserve = ledger_entry reserved_account ''reserve/o1'' ''reserve_buy'' ''spy''
     (no_balances\<lparr>bal_Available := - 50056, bal_Reserved := 50056\<rparr>) (20 * Day + 22 * Hour) (20 * Day + 22 * Hour)"

lemma some_reserve:
  "ReserveOrders (some_account 1000000) [] [some_order ''buy'' 50] =
     Inr \<lparr>lm_Account = reserved_account, lm_Positions = [], lm_Entries = [entry_of_reserve]\<rparr>"
  by code_simp

lemma some_matched:
  "MatchAtOpen None some_match = Inr \<lparr>fr_Fill = Some some_fill, fr_CancelledQuantity = 10,
     fr_Reason = ''unfilled_remainder_cancelled''\<rparr>"
  by code_simp


text \<open>The risk check that the match makes.\<close>

definition some_risk :: OrderRiskInput where
  "some_risk = match_risk some_match (AdvanceOrder (mi_Order some_match) (mi_RecordedAt some_match)) 10010000"

lemma some_risk_input:
  "ri_Side some_risk = ''buy''" "ri_InstrumentID some_risk = ''spy''" "IsInt64 (ri_NAV some_risk)"
  "float_policy (ri_Policy some_risk)"
proof -
  show "ri_Side some_risk = ''buy''" "ri_InstrumentID some_risk = ''spy''" "IsInt64 (ri_NAV some_risk)"
    by (simp_all add: some_risk_def match_risk_def some_match_def some_order_def some_portfolio_def
        AdvanceOrder_def IsInt64_def)
  have "ri_Policy some_risk = some_policy"
    by (simp add: some_risk_def match_risk_def some_match_def some_portfolio_def)
  then show "float_policy (ri_Policy some_risk)" by (simp add: some_policy_floats)
qed

lemma some_decision: "\<exists>d. ValidateOrder some_risk = Inr d \<and> 40 \<le> rd_MaxQuantity d"
proof -
  obtain price d where h: "ValidateOrder (match_risk some_match
       (AdvanceOrder (mi_Order some_match) (mi_RecordedAt some_match)) price) = Inr d"
    "f_Quantity some_fill = match_quantity some_match
       (AdvanceOrder (mi_Order some_match) (mi_RecordedAt some_match)) d" "f_Price some_fill = price"
    using MatchAtOpen_Some [OF some_matched, of some_fill] by auto
  then show ?thesis
    using match_quantity_le(2) [of some_match "AdvanceOrder (mi_Order some_match) (mi_RecordedAt some_match)" d]
    by (auto simp: some_risk_def some_fill_def)
qed

lemma some_risk_quotes:
  "quoteBook (ri_Snapshot some_risk) (ri_Prices some_risk) = Inr (prices, ins) \<Longrightarrow> ins ''spy'' = Some some_stock"
  by (auto simp: quoteBook_def bindR_Inr Let_def some_risk_def match_risk_def some_match_def some_portfolio_def
      some_snapshot_def some_stock_def)

lemma some_industry: "Industry (i_SIC some_stock) = ''manufacturing''"
  by code_simp

section \<open>A rebalance\<close>

text \<open>One holding is below its stop loss and another stock is a candidate.\<close>

definition other_stock :: Instrument where
  "other_stock = some_stock\<lparr>i_ID := ''abc'', i_Ticker := ''ABC''\<rparr>"

definition some_metrics :: FinancialMetrics where
  "some_metrics = \<lparr>fm_TTM = no_ttm, fm_Valuation = all_valuation no_metric,
     fm_Indicators = \<lparr>in_SMA20 = no_metric, in_SMA50 = no_metric, in_SMA200 = no_metric, in_RSI14 = no_metric,
       in_AnnualVolatility = no_metric, in_MaxDrawdown = no_metric, in_AverageVolume20 = no_metric,
       in_AverageTurnover20 = no_metric, in_WindowDays = 252\<rparr>,
     fm_ProfitGrowth = no_metric, fm_RevenueGrowth = no_metric, fm_DebtRatio = no_metric, fm_ROE = no_metric\<rparr>"

definition some_signal :: Signal where
  "some_signal = \<lparr>sg_InstrumentID = ''spy'', sg_Industry = ''manufacturing'', sg_Score = Finite 90, sg_Rank = 1,
     sg_FactorEvidence = [], sg_QualityFlags = [], sg_Metrics = some_metrics,
     sg_Risk = \<lparr>ra_Level = ''low'', ra_Reasons = [], ra_AsOf = 0\<rparr>, sg_Recommendation = no_recommendation\<rparr>"

definition two_stocks :: Snapshot where
  "two_stocks = (some_snapshot [20] [20] (20 * Day + 22 * Hour))\<lparr>s_Instruments := [other_stock, some_stock],
     s_Bars := [(some_bar 20)\<lparr>b_InstrumentID := ''abc''\<rparr>, some_bar 20]\<rparr>"

definition lossy :: Position where
  "lossy = \<lparr>pos_InstrumentID = ''abc'', pos_Industry = ''manufacturing'', pos_Quantity = 20,
     pos_ReservedQuantity = 0, pos_CostBasis = 40000\<rparr>"

definition some_rebalance :: PortfolioInput where
  "some_rebalance = (some_portfolio (some_account 1000000) [lossy] two_stocks)
     \<lparr>pf_Evaluation := no_evaluation\<lparr>ev_State := ''completed'', ev_Signals := [some_signal]\<rparr>\<rparr>"

definition some_plan :: RebalancePlan where
  "some_plan = \<lparr>rp_Orders = [\<lparr>po_InstrumentID = ''abc'', po_Side = ''sell'', po_Reason = ''stop_loss'', po_Quantity = 20\<rparr>,
     \<lparr>po_InstrumentID = ''spy'', po_Side = ''buy'', po_Reason = ''entry_signal'', po_Quantity = 100\<rparr>],
     rp_Pause = False, rp_Reasons = []\<rparr>"

lemma some_planned: "BuildRebalance some_rebalance = Inr some_plan"
  by code_simp

section \<open>A session without trades\<close>

definition some_scope :: Scope where "some_scope = \<lparr>sc_WorkspaceID = ''w'', sc_OwnerUserID = ''u''\<rparr>"

definition some_strategy :: StrategyVersion where
  "some_strategy = \<lparr>sv_ID = ''v1'', sv_StrategyID = ''s'', sv_Scope = some_scope,
     sv_Parameters = \<lparr>sp_Weights = map Finite [1/4, 1/4, 1/4, 1/4, 0], sp_EntryScore = Finite 70,
       sp_ExitScore = Finite 50, sp_RebalanceBand = Finite (1/64), sp_MaxHoldings = 10\<rparr>, sv_CreatedAt = 1\<rparr>"

definition some_universe :: UniverseVersion where
  "some_universe = \<lparr>uv_ID = ''u1'', uv_UniverseID = ''u'', uv_Name = ''none'', uv_Mode = ''paper'',
     uv_Scope = some_scope, uv_InstrumentIDs = [], uv_EffectiveAt = 1, uv_CreatedAt = 1,
     uv_HistoricalMembershipKnown = False\<rparr>"

definition quiet :: "time \<Rightarrow> Snapshot" where "quiet asOf = some_snapshot [20, 21, 22] [] asOf"

definition some_backtest :: BacktestInput where
  "some_backtest = \<lparr>bi_Snapshots = [quiet 0], bi_Calendar = some_calendar [20, 21, 22],
     bi_Universe = some_universe, bi_Strategy = some_strategy, bi_InitialCash = 1000000,
     bi_From = 21 * Day, bi_To = 21 * Day, bi_BenchmarkID = ''spy''\<rparr>"

definition some_book :: replayBook where "some_book = newReplayBook ''replay'' (quiet 0) 1000000"

definition at20 :: time where "at20 = 20 * Day + 21 * Hour + 30 * Minute"

definition at21 :: time where "at21 = 21 * Day + 21 * Hour + 30 * Minute"

definition some_evaluation :: Evaluation where
  "some_evaluation = (new_evaluation (quiet at20) some_universe some_strategy)
     \<lparr>ev_State := ''insufficient_universe'', ev_Reason := ''insufficient_universe''\<rparr>"

lemma quiet_known: "SelectSnapshot (quiet 0) t = quiet t"
  by (simp add: SelectSnapshot_def select_facts_def latest_by_def quiet_def some_snapshot_def order_rows_def)

lemma quiet_reconcile: "reconcile None (quiet t) now ids some_book = Inr some_book"
  by (simp add: reconcile_def settle_book_def some_book_def newReplayBook_def SettleReceivables_def
      quiet_def some_snapshot_def order_rows_def book_apply_def Let_def)

lemma quiet_evaluation: "evaluate_for_plan (quiet at20) some_universe some_strategy = Inr some_evaluation"
  by code_simp

lemma quiet_nav:
  "ComputeNAV (bk_account some_book) (bk_positions some_book) (quiet at20) [] = Inr 1000000"
  "ComputeNAV (bk_account some_book) (bk_positions some_book) (quiet at21) [] = Inr 1000000"
  by code_simp+

lemma quiet_plan:
  "BuildRebalance (replay_portfolio some_book (quiet at20) some_evaluation (Some (sv_Parameters some_strategy)) 1000000)
     = Inr (no_plan False ''insufficient_quantitative_evidence'')"
  by code_simp

lemma quiet_next: "NextSession (some_calendar [20, 21, 22]) (ts_CloseAt (some_day 21)) = Inr (some_day 22)"
  by code_simp

lemma quiet_times: "ts_CloseAt (some_day 20) + 1800000000000 = at20" "ts_CloseAt (some_day 21) + 1800000000000 = at21"
  by (simp_all add: some_day_def at20_def at21_def)

lemma quiet_book: "a_AutomationEnabled (bk_account some_book)" "bk_orders some_book = []" "bk_peak some_book = 1000000"
  by (simp_all add: some_book_def newReplayBook_def)

lemma quiet_replay_plan: "replay_plan (quiet at20) some_backtest (some_day 21) some_book = Inr some_book"
proof -
  have "bi_Universe some_backtest = some_universe" "bi_Strategy some_backtest = some_strategy"
    "s_Calendar (quiet at20) = some_calendar [20, 21, 22]"
    by (simp_all add: some_backtest_def quiet_def some_snapshot_def)
  then show ?thesis
    by (simp add: replay_plan_def quiet_book quiet_evaluation quiet_nav quiet_plan quiet_next no_plan_def)
qed

lemma quiet_execute: "replay_execute None (quiet 0) s now some_book = Inr some_book"
  by (simp add: replay_execute_def order_rows_def some_book_def newReplayBook_def)

lemma some_run:
  "replay_run None some_backtest (quiet 0) (some_day 20) [some_day 21] None = Inr (some_book, None)"
proof -
  have "newReplayBook ''replay'' (hd (bi_Snapshots some_backtest)) (bi_InitialCash some_backtest) = some_book"
    by (simp add: some_book_def some_backtest_def)
  then show ?thesis
    by (simp add: replay_run_def replay_session_def Let_def quiet_times quiet_known quiet_reconcile
        quiet_replay_plan quiet_execute quiet_nav quiet_book benchmark_session_def)
qed

end
