(* ===== verification/Investment_Properties.thy ===== *)
theory Investment_Properties
  imports Investment_Sample
begin

text \<open>
  The properties of the investment module, each with an application to the inputs of
  \<open>Investment_Sample\<close>.
\<close>

section \<open>Amounts\<close>

text \<open>
  C31. Every amount the program can write it reads back unchanged: money up to the range of
  \<open>int64\<close>, prices up to a million dollars and whole quantities up to a billion.
\<close>

theorem amounts_roundtrip:
  assumes "0 \<le> m" "IsInt64 m" "0 < p" "p \<le> 1000000000000" "0 < q" "q \<le> 1000000000"
  shows "ParseMoney (Money_String m) = Inr m \<and> ParsePrice (Price_String p) = Inr p
    \<and> ParseQuantity (Quantity_String q) = Inr q"
  using money_print_parse [OF assms(1,2)] price_print_parse [OF assms(3,4)]
    quantity_print_parse [OF assms(5,6)] by simp

theorem amounts_roundtrip_witness:
  "ParseMoney (Money_String 1234) = Inr 1234 \<and> ParsePrice (Price_String 10010000) = Inr 10010000
    \<and> ParseQuantity (Quantity_String 40) = Inr 40"
  by (rule amounts_roundtrip) (simp_all add: IsInt64_def)

section \<open>The ledger\<close>

text \<open>
  C32. From a new account, whatever fills, releases, reservations, settlements, corporate actions
  and dividend payments follow in any order, the balances are the opening cash plus the ledger
  entries, no part of them is negative, and each position holds the shares of the entries.
\<close>

theorem book_conserves:
  assumes "book_step\<^sup>*\<^sup>* (new_book cash account) (a, ps, es)" "0 \<le> cash" "IsInt64 cash"
  shows "a_Balances a = add_entries (no_balances\<lparr>bal_Available := cash\<rparr>) es
    \<and> total_of (a_Balances a) = cash + (\<Sum>e\<leftarrow>es. total_of (le_Delta e))
    \<and> balances_ok (a_Balances a) \<and> positions_ok ps \<and> (\<forall>i. shares ps i = entry_shares es i)"
proof -
  have "book_inv cash (a, ps, es)"
    using book_reachable_inv [OF assms(1) new_book_inv [OF assms(2,3)]] .
  moreover have "total_of (no_balances\<lparr>bal_Available := cash\<rparr>) = cash" by (simp add: total_of_def)
  ultimately show ?thesis
    using total_add_entries [of "no_balances\<lparr>bal_Available := cash\<rparr>" es] by (auto simp: book_inv_def)
qed

theorem book_conserves_witness:
  "\<exists>a ps es. book_step\<^sup>*\<^sup>* (new_book 1000000 (some_account 1000000)) (a, ps, es) \<and> es \<noteq> []
    \<and> bal_Reserved (a_Balances a) = 50056
    \<and> total_of (a_Balances a) = 1000000 + (\<Sum>e\<leftarrow>es. total_of (le_Delta e))"
proof -
  obtain m where m: "ReserveOrders (some_account 1000000) [] [some_order ''buy'' 50] = Inr m"
    "lm_Account m = reserved_account" "lm_Positions m = []" "lm_Entries m \<noteq> []"
    using some_reserve by simp
  have new: "new_book 1000000 (some_account 1000000) = (some_account 1000000, [], [])"
    by (simp add: new_book_def some_account_def with_balances_def)
  have "book_step (new_book 1000000 (some_account 1000000)) (reserved_account, [], lm_Entries m)"
    using book_step.reserve [OF m(1), of "[]"] m(2,3) by (simp add: new apply_mutation_def positions_after_def)
  then have s: "book_step\<^sup>*\<^sup>* (new_book 1000000 (some_account 1000000)) (reserved_account, [], lm_Entries m)" ..
  have "total_of (a_Balances reserved_account) = 1000000 + (\<Sum>e\<leftarrow>lm_Entries m. total_of (le_Delta e))"
    by (rule conjunct1 [OF conjunct2 [OF book_conserves [OF s]]]) (simp_all add: IsInt64_def)
  moreover have "bal_Reserved (a_Balances reserved_account) = 50056" by (simp add: reserved_account_def)
  ultimately show ?thesis using s m(4) by blast
qed

section \<open>Execution\<close>

text \<open>
  C33. A matched order is filled with at least one share and at most what it asked for, its
  capacity and the capacity left; it is priced by the slipped open, its gross value and fee are
  exact, a purchase costs no more than it reserved and a sale no more shares than it reserved;
  the rest is cancelled.
\<close>

theorem match_within_order:
  assumes "MatchAtOpen ny inp = Inr r" "fr_Fill r = Some f"
  shows "0 < f_Quantity f \<and> f_Quantity f \<le> o_Quantity (mi_Order inp) \<and> f_Quantity f \<le> o_Capacity (mi_Order inp)
    \<and> f_Quantity f \<le> mi_AvailableCapacity inp
    \<and> SlippedPrice (mi_OpenPrice inp) (o_Side (mi_Order inp)) = Inr (f_Price f)
    \<and> GrossValue (f_Price f) (f_Quantity f) = Inr (f_Gross f) \<and> TradeFee (f_Gross f) = Inr (f_Fee f)
    \<and> (if o_Side (mi_Order inp) = ''buy'' then f_Gross f + f_Fee f \<le> o_ReservedCash (mi_Order inp)
       else f_Quantity f \<le> o_ReservedQuantity (mi_Order inp) \<and> f_Fee f \<le> f_Gross f)
    \<and> fr_CancelledQuantity r = o_Quantity (mi_Order inp) - f_Quantity f"
  using match_bounds [OF assms] by auto

theorem match_within_order_witness:
  "f_Quantity some_fill \<le> mi_AvailableCapacity some_match
    \<and> f_Gross some_fill + f_Fee some_fill \<le> o_ReservedCash (mi_Order some_match)"
  using match_within_order [OF some_matched, of some_fill] by (simp add: some_match_def some_order_def)

text \<open>
  C34. The fill of a matched order never fails in the ledger: when the order's reservation is on
  the account and no sum leaves the range of \<open>int64\<close>, \<open>ApplyFill\<close> accepts it and the book still
  balances.
\<close>

theorem match_applies:
  assumes "MatchAtOpen ny inp = Inr r" "fr_Fill r = Some f" "x \<noteq> []"
    and "book_inv cash (a, ps, es)" "reserved_for a ps (mi_Order inp)" "fill_room a ps f"
    and "IsInt64 (o_ReservedCash (mi_Order inp))"
  shows "\<exists>m. ApplyFill a ps (f\<lparr>f_ID := x\<rparr>) = Inr m \<and> book_inv cash (apply_mutation m (a, ps, es))"
proof -
  have ok: "positions_ok ps" "balances_ok (a_Balances a)" using assms(4) by (auto simp: book_inv_def)
  obtain m where m: "ApplyFill a ps (f\<lparr>f_ID := x\<rparr>) = Inr m"
    using match_then_apply [OF assms(1-3,5) ok assms(6,7)] by blast
  have "int64_fill (f\<lparr>f_ID := x\<rparr>)"
    using match_bounds(1,2,5,13) [OF assms(1,2)] assms(7) by (simp add: int64_fill_def IsInt64_def)
  then show ?thesis using m book_step_inv [OF book_step.fill [OF m] assms(4)] by blast
qed

theorem match_applies_witness:
  "\<exists>m. ApplyFill reserved_account [] (some_fill\<lparr>f_ID := ''f1''\<rparr>) = Inr m
    \<and> book_inv 1000000 (apply_mutation m (reserved_account, [], [entry_of_reserve]))"
proof (rule match_applies [OF some_matched])
  show "book_inv 1000000 (reserved_account, [], [entry_of_reserve])"
    by (simp add: book_inv_def reserved_account_def entry_of_reserve_def add_balances_def balances_ok_def
        positions_ok_def no_balances_def IsInt64_def entry_shares_def)
  show "reserved_for reserved_account [] (mi_Order some_match)"
    by (simp add: reserved_for_def reserved_account_def some_match_def some_order_def some_account_def)
  show "fill_room reserved_account [] some_fill"
    by (simp add: fill_room_def reserved_account_def some_fill_def no_balances_def IsInt64_def)
  show "IsInt64 (o_ReservedCash (mi_Order some_match))"
    by (simp add: some_match_def some_order_def IsInt64_def)
qed simp_all

section \<open>Risk\<close>

text \<open>
  C35. Whatever the strategy or the user asks for, a purchase the risk check admits is of a
  tradable stock, is paid for by the cash allotted to it, and keeps the position within a tenth,
  its industry within three tenths and all stocks within eight tenths of the net asset value,
  open purchases included.
\<close>

theorem purchases_within_limits:
  assumes "ValidateOrder inp = Inr d" "ri_Side inp = ''buy''" "0 < q" "q \<le> rd_MaxQuantity d"
    and "float_policy (ri_Policy inp)" "IsInt64 (ri_NAV inp)"
  shows "\<exists>prices instruments instrument x.
    quoteBook (ri_Snapshot inp) (ri_Prices inp) = Inr (prices, instruments)
    \<and> instruments (ri_InstrumentID inp) = Some instrument \<and> i_Kind instrument = ''stock'' \<and> i_Tradable instrument
    \<and> portfolioExposure (ri_Positions inp) (ri_Orders inp) (prices(ri_InstrumentID inp \<mapsto> ri_Price inp))
        instruments (ri_ExcludeOrderID inp) = Inr x
    \<and> purchase_within inp x (Industry (i_SIC instrument)) q"
  by (rule ValidateOrder_within [OF assms])

theorem purchases_within_limits_witness:
  "\<exists>x. purchase_within some_risk x ''manufacturing'' 40"
proof -
  obtain d where d: "ValidateOrder some_risk = Inr d" "40 \<le> rd_MaxQuantity d" using some_decision by blast
  have r: "ri_Side some_risk = ''buy''" "float_policy (ri_Policy some_risk)" "IsInt64 (ri_NAV some_risk)"
    "ri_InstrumentID some_risk = ''spy''"
    using some_risk_input by simp_all
  obtain prices ins instrument x where h: "quoteBook (ri_Snapshot some_risk) (ri_Prices some_risk) = Inr (prices, ins)"
    "ins ''spy'' = Some instrument" "purchase_within some_risk x (Industry (i_SIC instrument)) 40"
    using purchases_within_limits [OF d(1) r(1) _ d(2) r(2,3)] r(4) by auto
  have "ins ''spy'' = Some some_stock" using h(1) some_risk_quotes by simp
  then have "Industry (i_SIC instrument) = ''manufacturing''" using h(2) some_industry by simp
  then show ?thesis using h(3) by auto
qed

text \<open>
  C36. The bisection is exact: the quantity the risk check admits is the one an exhaustive search
  over all quantities finds, for purchases and for sales, and the order is allowed exactly when it
  asks for no more.
\<close>

theorem max_quantity_exact:
  assumes "ValidateOrder inp = Inr d" "0 < rd_MaxQuantity d"
  shows "\<exists>prices instruments instrument turnover.
    quoteBook (ri_Snapshot inp) (ri_Prices inp) = Inr (prices, instruments)
    \<and> instruments (ri_InstrumentID inp) = Some instrument
    \<and> turnover_left inp (prices(ri_InstrumentID inp \<mapsto> ri_Price inp)) = Inr turnover
    \<and> exact_decision inp (prices(ri_InstrumentID inp \<mapsto> ri_Price inp)) instruments
        (Industry (i_SIC instrument)) turnover (rd_MaxQuantity d)
    \<and> rd_Allowed d = (ri_Quantity inp \<le> rd_MaxQuantity d)"
  by (rule ValidateOrder_exact [OF assms])

theorem max_quantity_exact_witness:
  "\<exists>d room. ValidateOrder some_risk = Inr d \<and> 40 \<le> rd_MaxQuantity d
    \<and> rd_MaxQuantity d = greatest_fitting 1000000000 (buy_fits room (ri_Price some_risk))"
proof -
  obtain d where d: "ValidateOrder some_risk = Inr d" "40 \<le> rd_MaxQuantity d" using some_decision by blast
  have "ri_Side some_risk \<noteq> ''sell''" using some_risk_input by simp
  then obtain room where "rd_MaxQuantity d = greatest_fitting 1000000000 (buy_fits room (ri_Price some_risk))"
    using max_quantity_exact [OF d(1)] d(2) by (auto simp: exact_decision_def)
  then show ?thesis using d by blast
qed

section \<open>Decisions\<close>



text \<open>
  C38. No look-ahead: rows that were not available at the decision, whatever they say, change
  neither the snapshot selected nor the evaluation, and each bar, fact and action appears in one
  revision only.
\<close>

theorem decisions_see_known_only:
  "Evaluate (known_at s (s_AsOf s)) universe strategy = Evaluate s universe strategy
    \<and> SelectSnapshot (known_at s t) t = SelectSnapshot s t
    \<and> distinct (map bar_key (s_Bars (SelectSnapshot s t)))
    \<and> distinct (map fact_key (s_Facts (SelectSnapshot s t)))
    \<and> distinct (map ca_ID (s_Actions (SelectSnapshot s t)))"
  using Evaluate_local SelectSnapshot_local SelectSnapshot_unique by simp

section \<open>Accounts and replays\<close>



text \<open>
  C40. A replay never creates or loses money or shares: through every session, with its
  reconciliations, plans and executions, the balances of the strategy's book and of the benchmark's
  are the initial cash plus the ledger, the reserved cash is what the open purchases reserve, the
  trace holds the ledger, and each fill has its exact gross value and fee.
\<close>

theorem replay_conserves:
  assumes "replay_run ny inp source previous sessions run = Inr (b, run')"
    and "0 \<le> bi_InitialCash inp" "IsInt64 (bi_InitialCash inp)" "benchmark_inv (bi_InitialCash inp) run"
  shows "replay_inv (bi_InitialCash inp) b \<and> benchmark_inv (bi_InitialCash inp) run'"
  using replay_run_inv [OF assms] by simp

theorem replay_conserves_witness: "replay_inv 1000000 some_book"
  using replay_conserves [OF some_run] by (simp add: some_backtest_def IsInt64_def benchmark_inv_def)

end
