(* ===== verification/Go_Json.thy ===== *)
theory Go_Json
  imports Go_Float
begin

text \<open>
  What the conversation module uses of Go's \<open>encoding/json\<close>. A \<open>json.RawMessage\<close> is the value its
  text denotes, \<open>None\<close> where the text is not JSON; strings are unescaped, a number is the rational
  its literal denotes. \<open>json.Unmarshal\<close> into a variable takes the variable's value before the call,
  because \<open>null\<close> leaves it as it is; \<open>None\<close> is an error.
\<close>

datatype json =
    JNull
  | JBool bool
  | JNumber rat
  | JString string
  | JArray "json list"
  | JObject "(string \<times> json) list"

type_synonym RawMessage = "json option"

fun unmarshal_string :: "string \<Rightarrow> json \<Rightarrow> string option" where
  "unmarshal_string old (JString s) = Some s"
| "unmarshal_string old JNull = Some old"
| "unmarshal_string old _ = None"

fun unmarshal_bool :: "bool \<Rightarrow> json \<Rightarrow> bool option" where
  "unmarshal_bool old (JBool b) = Some b"
| "unmarshal_bool old JNull = Some old"
| "unmarshal_bool old _ = None"

text \<open>A literal beyond the range of \<open>float64\<close> is an error.\<close>

fun unmarshal_float :: "float64 \<Rightarrow> json \<Rightarrow> float64 option" where
  "unmarshal_float old (JNumber q) = (if IsInf (round64 q) then None else Some (round64 q))"
| "unmarshal_float old JNull = Some old"
| "unmarshal_float old _ = None"

text \<open>Into an empty \<open>[]string\<close>: a \<open>null\<close> element stays the empty string.\<close>

fun unmarshal_strings :: "json \<Rightarrow> string list option" where
  "unmarshal_strings (JArray js) =
     (if list_all (\<lambda>j. unmarshal_string [] j \<noteq> None) js
      then Some (map (\<lambda>j. the (unmarshal_string [] j)) js) else None)"
| "unmarshal_strings JNull = Some []"
| "unmarshal_strings _ = None"

text \<open>
  Into an empty \<open>map[string]json.RawMessage\<close>: the members in order, of which the last one with a
  key counts.
\<close>

fun unmarshal_object :: "json \<Rightarrow> (string \<times> json) list option" where
  "unmarshal_object (JObject kvs) = Some kvs"
| "unmarshal_object JNull = Some []"
| "unmarshal_object _ = None"

definition member :: "(string \<times> json) list \<Rightarrow> string \<Rightarrow> json option" where
  "member members key = map_of (rev members) key"

definition keys_of :: "(string \<times> json) list \<Rightarrow> string list" where
  "keys_of members = remdups (map fst members)"

lemma member_keys: "member members key = None \<longleftrightarrow> key \<notin> set (keys_of members)"
  by (simp add: member_def keys_of_def map_of_eq_None_iff)

end
