(* ===== verification/Go_Text.thy ===== *)
theory Go_Text
  imports Prelude
begin

text \<open>
  What the conversation module uses of Go's \<open>strings\<close> and \<open>unicode/utf8\<close> on byte strings:
  \<open>strings.TrimSpace\<close>, the runes of a string and literals that are not ASCII.
\<close>

text \<open>A literal by its UTF-8 bytes.\<close>

definition utf8 :: "int list \<Rightarrow> string" where
  "utf8 bs = map char_of bs"

text \<open>
  The UTF-8 encodings of the runes for which \<open>unicode.IsSpace\<close> holds: the six ASCII ones,
  U+0085, U+00A0, U+1680, U+2000 to U+200A, U+2028, U+2029, U+202F, U+205F and U+3000.
\<close>

definition space_runes :: "string list" where
  "space_runes =
     map utf8 ([[9], [10], [11], [12], [13], [32], [0xC2, 0x85], [0xC2, 0xA0], [0xE1, 0x9A, 0x80],
        [0xE2, 0x80, 0xA8], [0xE2, 0x80, 0xA9], [0xE2, 0x80, 0xAF], [0xE2, 0x81, 0x9F],
        [0xE3, 0x80, 0x80]] @ map (\<lambda>k. [0xE2, 0x80, k]) [0x80 .. 0x8A])"

text \<open>
  A UTF-8 encoding at the start of a string is its first rune, and at the end its last one, so
  trimming removes these byte sequences while there is one.
\<close>

definition starts_with :: "string \<Rightarrow> string \<Rightarrow> bool" where
  "starts_with s p \<longleftrightarrow> p \<noteq> [] \<and> take (length p) s = p"

function strip_left :: "string list \<Rightarrow> string \<Rightarrow> string" where
  "strip_left ps s =
     (case find (starts_with s) ps of None \<Rightarrow> s | Some p \<Rightarrow> strip_left ps (drop (length p) s))"
  by pat_completeness auto
termination
proof (relation "measure (\<lambda>(ps, s). length s)", simp)
  fix ps s p
  assume "find (starts_with s) ps = Some p"
  then have p: "p \<noteq> []" "take (length p) s = p" by (auto simp: find_Some_iff starts_with_def)
  then have "s \<noteq> []" by auto
  with p(1) show "((ps, drop (length p) s), ps, s) \<in> measure (\<lambda>(ps, s). length s)" by simp
qed

declare strip_left.simps [simp del]

definition TrimSpace :: "string \<Rightarrow> string" where
  "TrimSpace s =
     rev (strip_left (map rev space_runes) (rev (strip_left space_runes s)))"

text \<open>
  \<open>string([]rune(s)[:n])\<close>: a byte that starts no encoding becomes U+FFFD.
\<close>

definition rune_bytes :: "string \<Rightarrow> string" where
  "rune_bytes s =
     (if rune_width s = 1 \<and> 128 \<le> byte (hd s) then utf8 [0xEF, 0xBF, 0xBD]
      else take (rune_width s) s)"

fun first_runes :: "nat \<Rightarrow> string \<Rightarrow> string" where
  "first_runes 0 s = []"
| "first_runes (Suc n) s =
     (if s = [] then [] else rune_bytes s @ first_runes n (drop (rune_width s) s))"

definition truncate_runes :: "nat \<Rightarrow> string \<Rightarrow> string" where
  "truncate_runes n s = (if rune_count s > n then first_runes n s else s)"

lemma strip_left_shorter: "length (strip_left ps s) \<le> length s"
proof (induction ps s rule: strip_left.induct)
  case (1 ps s)
  show ?case
  proof (cases "find (starts_with s) ps")
    case None
    then show ?thesis by (simp add: strip_left.simps [of ps s])
  next
    case (Some p)
    with 1 [OF Some] show ?thesis by (simp add: strip_left.simps [of ps s])
  qed
qed

lemma TrimSpace_Nil [simp]: "TrimSpace [] = []"
  using strip_left_shorter [of space_runes "[]"]
    strip_left_shorter [of "map rev space_runes" "[]"] by (simp add: TrimSpace_def)

end
