(* ===== verification/Conversation_Domain.thy ===== *)
theory Conversation_Domain
  imports Go_Json Go_Text Go_Time
begin

text \<open>
  The Conversation aggregates and value objects (\<open>conversation/domain\<close>): sessions with their
  titles, confirmation requests, intents and proposals, and a model's turn. The package's
  \<open>Session\<close> and \<open>SessionStore\<close> are \<open>ChatSession\<close> and \<open>ChatSessionStore\<close> here: the identity
  module declares the same names.
\<close>

section \<open>Sessions\<close>

definition MaxSessionTitleRunes :: nat where
  "MaxSessionTitleRunes = 50"

definition DefaultSessionTitleRunes :: nat where
  "DefaultSessionTitleRunes = 30"

definition DefaultSessionTitleFallback :: string where
  "DefaultSessionTitleFallback = utf8 [0xE6, 0x96, 0xB0, 0xE4, 0xBC, 0x9A, 0xE8, 0xAF, 0x9D]"

record ChatSession =
  cse_ID :: string
  cse_WorkspaceID :: string
  cse_UserID :: string
  cse_Title :: string
  cse_CreatedAt :: time
  cse_UpdatedAt :: time

definition title_in_bounds :: "string \<Rightarrow> bool" where
  "title_in_bounds trimmed \<longleftrightarrow> 1 \<le> rune_count trimmed \<and> rune_count trimmed \<le> MaxSessionTitleRunes"

definition NewSession ::
    "string \<Rightarrow> string \<Rightarrow> string \<Rightarrow> string \<Rightarrow> time \<Rightarrow> conversation_error + ChatSession" where
  "NewSession i workspaceID userID title now =
     (if TrimSpace i = [] \<or> TrimSpace workspaceID = [] \<or> TrimSpace userID = []
      then Inl ErrInvalidSession
      else let trimmed = TrimSpace title in
        if \<not> title_in_bounds trimmed then Inl ErrSessionTitleInvalid
        else Inr \<lparr>cse_ID = i, cse_WorkspaceID = workspaceID, cse_UserID = userID,
                 cse_Title = trimmed, cse_CreatedAt = now, cse_UpdatedAt = now\<rparr>)"

definition Renamed :: "ChatSession \<Rightarrow> string \<Rightarrow> time \<Rightarrow> conversation_error + ChatSession" where
  "Renamed s title now =
     (let trimmed = TrimSpace title in
      if \<not> title_in_bounds trimmed then Inl ErrSessionTitleInvalid
      else Inr (s\<lparr>cse_Title := trimmed, cse_UpdatedAt := now\<rparr>))"

definition DefaultSessionTitle :: "string \<Rightarrow> string" where
  "DefaultSessionTitle text =
     (let trimmed = TrimSpace text in
      if trimmed = [] then DefaultSessionTitleFallback
      else truncate_runes DefaultSessionTitleRunes trimmed)"

section \<open>Intents and proposals\<close>

type_synonym Intent = string

definition IntentTodoCreate :: Intent where "IntentTodoCreate = ''todo.create''"
definition IntentTodoDelete :: Intent where "IntentTodoDelete = ''todo.delete''"
definition IntentTodoList :: Intent where "IntentTodoList = ''todo.list''"
definition IntentUnknown :: Intent where "IntentUnknown = ''unknown''"

record ProposalArguments =
  pa_Title :: string
  pa_Description :: "string option"
  pa_DueAtUTC :: "time option"
  pa_Timezone :: string
  pa_Keyword :: string
  pa_Status :: string
  pa_DueFrom :: "time option"
  pa_DueTo :: "time option"
  pa_NoDue :: bool

definition no_arguments :: ProposalArguments where
  "no_arguments = \<lparr>pa_Title = [], pa_Description = None, pa_DueAtUTC = None, pa_Timezone = [],
     pa_Keyword = [], pa_Status = [], pa_DueFrom = None, pa_DueTo = None, pa_NoDue = False\<rparr>"

record IntentProposal =
  ip_Intent :: Intent
  ip_Confidence :: float64
  ip_MissingFields :: "string list"
  ip_Arguments :: ProposalArguments

record ModelTurn =
  mt_Reply :: string
  mt_Proposal :: "IntentProposal option"

section \<open>Confirmations\<close>

record ConfirmationRequest =
  cfm_ID :: string
  cfm_WorkspaceID :: string
  cfm_UserID :: string
  cfm_Intent :: Intent
  cfm_TodoID :: string
  cfm_TodoVersion :: int
  cfm_CreatedAt :: time
  cfm_ExpiresAt :: time
  cfm_ConsumedAt :: "time option"

definition NewConfirmationRequest ::
    "string \<Rightarrow> string \<Rightarrow> string \<Rightarrow> Intent \<Rightarrow> string \<Rightarrow> int \<Rightarrow> time \<Rightarrow> int
     \<Rightarrow> conversation_error + ConfirmationRequest" where
  "NewConfirmationRequest i workspaceID userID intent todoID todoVersion now ttl =
     (if intent \<noteq> IntentTodoDelete then Inl ErrUnsupportedConfirmationIntent
      else Inr \<lparr>cfm_ID = i, cfm_WorkspaceID = workspaceID, cfm_UserID = userID,
        cfm_Intent = intent, cfm_TodoID = todoID, cfm_TodoVersion = todoVersion,
        cfm_CreatedAt = now, cfm_ExpiresAt = now + ttl, cfm_ConsumedAt = None\<rparr>)"

definition IsConsumed :: "ConfirmationRequest \<Rightarrow> bool" where
  "IsConsumed c \<longleftrightarrow> cfm_ConsumedAt c \<noteq> None"

definition IsExpired :: "ConfirmationRequest \<Rightarrow> time \<Rightarrow> bool" where
  "IsExpired c now \<longleftrightarrow> \<not> now < cfm_ExpiresAt c"

definition Consume :: "ConfirmationRequest \<Rightarrow> time \<Rightarrow> conversation_error + ConfirmationRequest" where
  "Consume c now =
     (if IsConsumed c then Inl ErrConfirmationConsumed
      else if IsExpired c now then Inl ErrConfirmationExpired
      else Inr (c\<lparr>cfm_ConsumedAt := Some now\<rparr>))"

section \<open>Laws\<close>

lemma NewSession_Inr:
  assumes "NewSession i ws user title now = Inr s"
  shows "s = \<lparr>cse_ID = i, cse_WorkspaceID = ws, cse_UserID = user, cse_Title = TrimSpace title,
    cse_CreatedAt = now, cse_UpdatedAt = now\<rparr>" "title_in_bounds (cse_Title s)"
  using assms by (auto simp: NewSession_def Let_def split: if_splits)

lemma Consume_Inr:
  "Consume c now = Inr c' \<longleftrightarrow>
     cfm_ConsumedAt c = None \<and> now < cfm_ExpiresAt c \<and> c' = c\<lparr>cfm_ConsumedAt := Some now\<rparr>"
  by (auto simp: Consume_def IsConsumed_def IsExpired_def)

text \<open>A confirmation can be consumed once.\<close>

lemma Consume_twice: "Consume c now = Inr c' \<Longrightarrow> Consume c' later = Inl ErrConfirmationConsumed"
  by (auto simp: Consume_Inr) (simp add: Consume_def IsConsumed_def)

end
