(* ===== verification/Conversation_Validation.thy ===== *)
theory Conversation_Validation
  imports Conversation_Domain
begin

text \<open>
  The choke point every model output passes before it can reach a todo
  (\<open>conversation/application\<close>: \<open>intentvalidation.go\<close>, \<open>turnvalidation.go\<close>, \<open>router.go\<close>). Reasons
  in error texts are not kept: \<open>errors.Is\<close> sees the wrapped sentinel. The zone database is
  \<open>zone\<close>: the offset from UTC at an instant, \<open>None\<close> for a name it does not have.
\<close>

definition MaxKeywordLength :: nat where
  "MaxKeywordLength = 100"

definition maxTitleLength :: nat where
  "maxTitleLength = 200"

text \<open>The constant 0.6 as a \<open>float64\<close>.\<close>

definition MinDispatchConfidence :: float64 where
  "MinDispatchConfidence = round64 (3 / 5)"

definition MaxReplyRunes :: nat where
  "MaxReplyRunes = 2000"

type_synonym zone_db = "string \<Rightarrow> (time \<Rightarrow> int) option"

section \<open>Arguments\<close>

text \<open>\<open>requireKeys\<close> returns an error when a key is not allowed; here, whether all are.\<close>

definition requireKeys :: "(string \<times> json) list \<Rightarrow> string list \<Rightarrow> bool" where
  "requireKeys arguments allowed \<longleftrightarrow> list_all (\<lambda>k. k \<in> set allowed) (keys_of arguments)"

text \<open>\<open>decode\<close> and the inlined lookups: an absent key leaves the variable as it was.\<close>

definition decode_with :: "('a \<Rightarrow> json \<Rightarrow> 'a option) \<Rightarrow> (string \<times> json) list \<Rightarrow> string \<Rightarrow> 'a \<Rightarrow> 'a option" where
  "decode_with unmarshal arguments key old =
     (case member arguments key of None \<Rightarrow> Some old | Some raw \<Rightarrow> unmarshal old raw)"

definition parseTime :: "(string \<times> json) list \<Rightarrow> string \<Rightarrow> time option option" where
  "parseTime arguments key =
     (case member arguments key of
        None \<Rightarrow> Some None
      | Some raw \<Rightarrow>
          Option.bind (unmarshal_string [] raw) (\<lambda>v.
          map_option Some (Parse_RFC3339 v)))"

definition runes_between :: "nat \<Rightarrow> nat \<Rightarrow> string \<Rightarrow> bool" where
  "runes_between low high s \<longleftrightarrow> low \<le> rune_count s \<and> rune_count s \<le> high"

definition create_title :: "(string \<times> json) list \<Rightarrow> string option" where
  "create_title arguments =
     (case member arguments ''title'' of
        None \<Rightarrow> Some []
      | Some raw \<Rightarrow>
          Option.bind (unmarshal_string [] raw) (\<lambda>title.
          if runes_between 1 maxTitleLength title then Some title else None))"

definition create_description :: "(string \<times> json) list \<Rightarrow> string option option" where
  "create_description arguments =
     (case member arguments ''description'' of
        None \<Rightarrow> Some None
      | Some raw \<Rightarrow> map_option Some (unmarshal_string [] raw))"

definition create_timezone :: "zone_db \<Rightarrow> (string \<times> json) list \<Rightarrow> string option" where
  "create_timezone zone arguments =
     (case member arguments ''timezoneAtInput'' of
        None \<Rightarrow> Some []
      | Some raw \<Rightarrow>
          Option.bind (unmarshal_string [] raw) (\<lambda>tz.
          if zone tz = None then None else Some tz))"

definition create_arguments :: "zone_db \<Rightarrow> (string \<times> json) list \<Rightarrow> ProposalArguments option" where
  "create_arguments zone arguments =
     (if \<not> requireKeys arguments [''title'', ''description'', ''dueAtUtc'', ''timezoneAtInput'']
      then None
      else Option.bind (create_title arguments) (\<lambda>title.
           Option.bind (create_description arguments) (\<lambda>description.
           Option.bind (parseTime arguments ''dueAtUtc'') (\<lambda>due.
           Option.bind (create_timezone zone arguments) (\<lambda>timezone.
           Some (no_arguments\<lparr>pa_Title := title, pa_Description := description,
             pa_DueAtUTC := due, pa_Timezone := timezone\<rparr>))))))"

definition delete_arguments :: "(string \<times> json) list \<Rightarrow> ProposalArguments option" where
  "delete_arguments arguments =
     (if \<not> requireKeys arguments [''keyword''] then None
      else case member arguments ''keyword'' of
        None \<Rightarrow> None
      | Some raw \<Rightarrow>
          Option.bind (unmarshal_string [] raw) (\<lambda>keyword.
          if runes_between 1 MaxKeywordLength keyword
          then Some (no_arguments\<lparr>pa_Keyword := keyword\<rparr>) else None))"

definition list_arguments :: "(string \<times> json) list \<Rightarrow> ProposalArguments option" where
  "list_arguments arguments =
     (if \<not> requireKeys arguments [''keyword'', ''status'', ''dueFrom'', ''dueTo'', ''noDue'']
      then None
      else Option.bind (decode_with unmarshal_string arguments ''keyword'' []) (\<lambda>keyword.
           if rune_count keyword > MaxKeywordLength then None
           else Option.bind (decode_with unmarshal_string arguments ''status'' []) (\<lambda>status.
           if status \<noteq> [] \<and> status \<noteq> ''pending'' \<and> status \<noteq> ''completed'' then None
           else Option.bind (parseTime arguments ''dueFrom'') (\<lambda>dueFrom.
           Option.bind (parseTime arguments ''dueTo'') (\<lambda>dueTo.
           Option.bind (decode_with unmarshal_bool arguments ''noDue'' False) (\<lambda>noDue.
           Some (no_arguments\<lparr>pa_Keyword := keyword, pa_Status := status, pa_DueFrom := dueFrom,
             pa_DueTo := dueTo, pa_NoDue := noDue\<rparr>)))))))"

definition validateArguments ::
    "zone_db \<Rightarrow> Intent \<Rightarrow> (string \<times> json) list \<Rightarrow> ProposalArguments option" where
  "validateArguments zone intent arguments =
     (if intent = IntentTodoCreate then create_arguments zone arguments
      else if intent = IntentTodoDelete then delete_arguments arguments
      else if intent = IntentTodoList then list_arguments arguments
      else Some no_arguments)"

section \<open>Proposals and turns\<close>

text \<open>Both schemas ask for exactly their keys.\<close>

definition exact_keys :: "string list \<Rightarrow> (string \<times> json) list \<Rightarrow> bool" where
  "exact_keys ks members \<longleftrightarrow>
     list_all (\<lambda>k. member members k \<noteq> None) ks \<and> length (keys_of members) = length ks"

definition known_intent :: "Intent \<Rightarrow> bool" where
  "known_intent i \<longleftrightarrow> i \<in> {IntentTodoCreate, IntentTodoDelete, IntentTodoList, IntentUnknown}"

definition field_of :: "(string \<times> json) list \<Rightarrow> string \<Rightarrow> json" where
  "field_of members key = (case member members key of Some j \<Rightarrow> j | None \<Rightarrow> JNull)"

definition proposal_of :: "zone_db \<Rightarrow> (string \<times> json) list \<Rightarrow> IntentProposal option" where
  "proposal_of zone members =
     (if unmarshal_string [] (field_of members ''schemaVersion'') \<noteq> Some ''1'' then None
      else Option.bind (unmarshal_string [] (field_of members ''intent'')) (\<lambda>intent.
      if \<not> known_intent intent then None
      else Option.bind (unmarshal_float (Finite 0) (field_of members ''confidence'')) (\<lambda>confidence.
      if fless confidence (Finite 0) \<or> fless (Finite 1) confidence then None
      else Option.bind (unmarshal_strings (field_of members ''missingFields'')) (\<lambda>missing.
      Option.bind (unmarshal_object (field_of members ''arguments'')) (\<lambda>arguments.
      if intent = IntentUnknown
      then Some \<lparr>ip_Intent = intent, ip_Confidence = confidence, ip_MissingFields = missing,
             ip_Arguments = no_arguments\<rparr>
      else map_option (\<lambda>args. \<lparr>ip_Intent = intent, ip_Confidence = confidence,
             ip_MissingFields = missing, ip_Arguments = args\<rparr>)
             (validateArguments zone intent arguments))))))"

definition ValidateProposal :: "zone_db \<Rightarrow> RawMessage \<Rightarrow> conversation_error + IntentProposal" where
  "ValidateProposal zone raw =
     (case Option.bind raw unmarshal_object of
        None \<Rightarrow> Inl ErrInvalidProposal
      | Some members \<Rightarrow>
          if \<not> exact_keys [''schemaVersion'', ''intent'', ''arguments'', ''confidence'', ''missingFields'']
                 members
          then Inl ErrInvalidProposal
          else case proposal_of zone members of
            None \<Rightarrow> Inl ErrInvalidProposal
          | Some p \<Rightarrow> Inr p)"

definition reply_ok :: "string \<Rightarrow> bool" where
  "reply_ok reply \<longleftrightarrow> rune_count reply \<le> MaxReplyRunes \<and> TrimSpace reply \<noteq> []"

definition turn_of :: "zone_db \<Rightarrow> (string \<times> json) list \<Rightarrow> ModelTurn option" where
  "turn_of zone members =
     (if unmarshal_string [] (field_of members ''schemaVersion'') \<noteq> Some ''1'' then None
      else Option.bind (unmarshal_string [] (field_of members ''reply'')) (\<lambda>reply.
      if \<not> reply_ok reply then None
      else if field_of members ''proposal'' = JNull
      then Some \<lparr>mt_Reply = reply, mt_Proposal = None\<rparr>
      else case ValidateProposal zone (Some (field_of members ''proposal'')) of
        Inl e \<Rightarrow> None
      | Inr p \<Rightarrow> Some \<lparr>mt_Reply = reply, mt_Proposal = Some p\<rparr>))"

definition ValidateModelTurn :: "zone_db \<Rightarrow> RawMessage \<Rightarrow> conversation_error + ModelTurn" where
  "ValidateModelTurn zone raw =
     (case Option.bind raw unmarshal_object of
        None \<Rightarrow> Inl ErrInvalidModelTurn
      | Some members \<Rightarrow>
          if \<not> exact_keys [''schemaVersion'', ''reply'', ''proposal''] members
          then Inl ErrInvalidModelTurn
          else case turn_of zone members of
            None \<Rightarrow> Inl ErrInvalidModelTurn
          | Some turn \<Rightarrow> Inr turn)"

text \<open>The router's registry.\<close>

definition Router_Supports :: "Intent \<Rightarrow> bool" where
  "Router_Supports i \<longleftrightarrow> i \<in> {IntentTodoCreate, IntentTodoDelete, IntentTodoList}"

section \<open>What a validated turn promises\<close>

lemmas intents = IntentTodoCreate_def IntentTodoDelete_def IntentTodoList_def IntentUnknown_def

definition proposal_ok :: "zone_db \<Rightarrow> IntentProposal \<Rightarrow> bool" where
  "proposal_ok zone p \<longleftrightarrow> known_intent (ip_Intent p)
     \<and> \<not> fless (ip_Confidence p) (Finite 0) \<and> \<not> fless (Finite 1) (ip_Confidence p)
     \<and> (ip_Intent p = IntentTodoCreate \<longrightarrow>
          rune_count (pa_Title (ip_Arguments p)) \<le> maxTitleLength
          \<and> (pa_Timezone (ip_Arguments p) = [] \<or> zone (pa_Timezone (ip_Arguments p)) \<noteq> None))
     \<and> (ip_Intent p = IntentTodoDelete \<longrightarrow>
          runes_between 1 MaxKeywordLength (pa_Keyword (ip_Arguments p)))
     \<and> (ip_Intent p = IntentTodoList \<longrightarrow>
          rune_count (pa_Keyword (ip_Arguments p)) \<le> MaxKeywordLength
          \<and> pa_Status (ip_Arguments p) \<in> {[], ''pending'', ''completed''})"

lemma create_arguments_Some:
  assumes "create_arguments zone arguments = Some a"
  shows "rune_count (pa_Title a) \<le> maxTitleLength" "pa_Timezone a = [] \<or> zone (pa_Timezone a) \<noteq> None"
proof -
  obtain t d u z where a: "create_title arguments = Some t" "create_timezone zone arguments = Some z"
      "a = no_arguments\<lparr>pa_Title := t, pa_Description := d, pa_DueAtUTC := u, pa_Timezone := z\<rparr>"
    using assms by (auto simp: create_arguments_def bind_eq_Some_conv split: if_splits)
  show "rune_count (pa_Title a) \<le> maxTitleLength"
    using a(1) by (auto simp: a(3) create_title_def bind_eq_Some_conv runes_between_def
        split: option.splits if_splits)
  show "pa_Timezone a = [] \<or> zone (pa_Timezone a) \<noteq> None"
    using a(2) by (auto simp: a(3) create_timezone_def bind_eq_Some_conv split: option.splits if_splits)
qed

lemma delete_arguments_Some:
  "delete_arguments arguments = Some a \<Longrightarrow> runes_between 1 MaxKeywordLength (pa_Keyword a)"
  by (auto simp: delete_arguments_def bind_eq_Some_conv split: option.splits if_splits)

lemma list_arguments_Some:
  assumes "list_arguments arguments = Some a"
  shows "rune_count (pa_Keyword a) \<le> MaxKeywordLength" "pa_Status a \<in> {[], ''pending'', ''completed''}"
  using assms by (auto simp: list_arguments_def bind_eq_Some_conv split: if_splits)

lemma ValidateProposal_Inr:
  assumes "ValidateProposal zone raw = Inr p"
  shows "proposal_ok zone p"
proof -
  obtain members where p: "proposal_of zone members = Some p"
    using assms by (auto simp: ValidateProposal_def split: option.splits if_splits)
  then have k: "known_intent (ip_Intent p)"
      "\<not> fless (ip_Confidence p) (Finite 0)" "\<not> fless (Finite 1) (ip_Confidence p)"
    and a: "ip_Intent p = IntentUnknown \<or>
      (\<exists>arguments. validateArguments zone (ip_Intent p) arguments = Some (ip_Arguments p))"
    by (auto simp: proposal_of_def bind_eq_Some_conv split: if_splits)
  show ?thesis
  proof (cases "ip_Intent p = IntentUnknown")
    case True
    with k show ?thesis by (simp add: proposal_ok_def intents)
  next
    case False
    with a obtain arguments where v: "validateArguments zone (ip_Intent p) arguments = Some (ip_Arguments p)"
      by blast
    have "ip_Intent p = IntentTodoCreate \<Longrightarrow> create_arguments zone arguments = Some (ip_Arguments p)"
      "ip_Intent p = IntentTodoDelete \<Longrightarrow> delete_arguments arguments = Some (ip_Arguments p)"
      "ip_Intent p = IntentTodoList \<Longrightarrow> list_arguments arguments = Some (ip_Arguments p)"
      using v by (simp_all add: validateArguments_def intents)
    with k show ?thesis unfolding proposal_ok_def
      by (meson create_arguments_Some delete_arguments_Some list_arguments_Some)
  qed
qed

lemma ValidateModelTurn_Inr:
  assumes "ValidateModelTurn zone raw = Inr turn"
  shows "reply_ok (mt_Reply turn)" "mt_Proposal turn = Some p \<Longrightarrow> proposal_ok zone p"
  using assms
  by (auto simp: ValidateModelTurn_def turn_of_def bind_eq_Some_conv ValidateProposal_Inr
      split: option.splits if_splits sum.splits)

end
