(* ===== verification/Conversation_Store.thy ===== *)
theory Conversation_Store
  imports Conversation_Domain Database
begin

text \<open>
  The Conversation ports (\<open>conversation/application/ports\<close>) and their PostgreSQL adapters
  (\<open>conversation/adapters/outbound/postgres\<close>): sessions, transcript rows, confirmation requests,
  and the reads and writes of the history import and export. The tables are lists of rows; the
  foreign key from messages to sessions cascades on delete. \<open>cdb_next\<close> is the sequence of the
  messages' \<open>bigserial\<close> key, which a failed insert and a rollback do not take back.
  The locales state what the commands rely on and are interpreted on the adapters at the end.
\<close>

section \<open>The ports\<close>

record HistoryMessage =
  hm_Role :: string
  hm_Text :: string

record MessageInput =
  mi_Text :: string
  mi_Timezone :: string
  mi_History :: "HistoryMessage list"

definition RoleUser :: string where "RoleUser = ''user''"
definition RoleAssistant :: string where "RoleAssistant = ''assistant''"

record MessageLog =
  ml_WorkspaceID :: string
  ml_UserID :: string
  ml_Role :: string
  ml_Body :: string
  ml_SessionID :: "string option"
  ml_ResolvedIntent :: "string option"
  ml_CreatedAt :: time

record MessageLogEntry =
  mle_ID :: string
  mle_SessionID :: string
  mle_Role :: string
  mle_Body :: string
  mle_ResolvedIntent :: "string option"
  mle_CreatedAt :: time

record HistorySession =
  hs_ID :: string
  hs_Title :: string
  hs_CreatedAt :: time
  hs_UpdatedAt :: time

record HistoryRecord =
  hr_ID :: string
  hr_SessionID :: "string option"
  hr_Role :: string
  hr_Body :: string
  hr_ResolvedIntent :: "string option"
  hr_Order :: int
  hr_CreatedAt :: time

record 's ConfirmationStore =
  cfs_Save :: "ConfirmationRequest \<Rightarrow> ('s, unit) op"
  cfs_Get :: "string \<Rightarrow> string \<Rightarrow> string \<Rightarrow> ('s, ConfirmationRequest) op"
  cfs_Consume :: "string \<Rightarrow> string \<Rightarrow> string \<Rightarrow> time \<Rightarrow> ('s, unit) op"

text \<open>The paged reads are interfaces of their own, which a store may not implement.\<close>

record 's MessageLogStore =
  mls_Append :: "MessageLog \<Rightarrow> ('s, unit) op"
  mls_ListBySession :: "string \<Rightarrow> string \<Rightarrow> string \<Rightarrow> int \<Rightarrow> ('s, MessageLogEntry list) op"
  mls_ListBefore ::
    "(string \<Rightarrow> string \<Rightarrow> string \<Rightarrow> string \<Rightarrow> int \<Rightarrow> ('s, MessageLogEntry list) op) option"

record 's ChatSessionStore =
  css_Create :: "ChatSession \<Rightarrow> ('s, unit) op"
  css_Get :: "string \<Rightarrow> string \<Rightarrow> string \<Rightarrow> ('s, ChatSession) op"
  css_List :: "string \<Rightarrow> string \<Rightarrow> int \<Rightarrow> ('s, ChatSession list) op"
  css_Rename :: "string \<Rightarrow> string \<Rightarrow> string \<Rightarrow> string \<Rightarrow> time \<Rightarrow> ('s, unit) op"
  css_Delete :: "string \<Rightarrow> string \<Rightarrow> string \<Rightarrow> ('s, unit) op"
  css_Touch :: "string \<Rightarrow> string \<Rightarrow> string \<Rightarrow> time \<Rightarrow> ('s, unit) op"
  css_ListPage :: "(string \<Rightarrow> string \<Rightarrow> int \<Rightarrow> int \<Rightarrow> ('s, ChatSession list) op) option"

section \<open>The tables\<close>

record message_row =
  mr_ID :: int
  mr_Log :: MessageLog

record conversation_db =
  cdb_sessions :: "ChatSession list"
  cdb_messages :: "message_row list"
  cdb_confirmations :: "ConfirmationRequest list"
  cdb_next :: int

definition confirmation_scope :: "string \<Rightarrow> string \<Rightarrow> string \<Rightarrow> ConfirmationRequest \<Rightarrow> bool" where
  "confirmation_scope ws user i c \<longleftrightarrow>
     cfm_ID c = i \<and> cfm_WorkspaceID c = ws \<and> cfm_UserID c = user"

definition session_scope :: "string \<Rightarrow> string \<Rightarrow> string \<Rightarrow> ChatSession \<Rightarrow> bool" where
  "session_scope ws user i s \<longleftrightarrow> cse_ID s = i \<and> cse_WorkspaceID s = ws \<and> cse_UserID s = user"

section \<open>Confirmations\<close>

definition pg_confirmation_Save :: "ConfirmationRequest \<Rightarrow> (conversation_db, unit) op" where
  "pg_confirmation_Save c db =
     (if cfm_ID c \<in> cfm_ID ` set (cdb_confirmations db) then (Inl unique_violation, db)
      else (Inr (), db\<lparr>cdb_confirmations := cdb_confirmations db @ [c]\<rparr>))"

definition pg_confirmation_Get ::
    "string \<Rightarrow> string \<Rightarrow> string \<Rightarrow> (conversation_db, ConfirmationRequest) op" where
  "pg_confirmation_Get ws user i db =
     (case find (confirmation_scope ws user i) (cdb_confirmations db) of
        None \<Rightarrow> (Inl (ConversationErr ErrConfirmationNotFound), db)
      | Some c \<Rightarrow> (Inr c, db))"

text \<open>
  The conditional update, then the classification of a miss. The key is unique, so the update
  affects one row or none.
\<close>

definition pg_confirmation_Consume ::
    "string \<Rightarrow> string \<Rightarrow> string \<Rightarrow> time \<Rightarrow> (conversation_db, unit) op" where
  "pg_confirmation_Consume ws user i now db =
     (let hit = (\<lambda>c. confirmation_scope ws user i c \<and> cfm_ConsumedAt c = None
                     \<and> cfm_ExpiresAt c > now) in
      if length (filter hit (cdb_confirmations db)) = 1
      then (Inr (), db\<lparr>cdb_confirmations :=
              update_where hit (\<lambda>c. c\<lparr>cfm_ConsumedAt := Some now\<rparr>) (cdb_confirmations db)\<rparr>)
      else case find (confirmation_scope ws user i) (cdb_confirmations db) of
        None \<Rightarrow> (Inl (ConversationErr ErrConfirmationNotFound), db)
      | Some c \<Rightarrow> (Inl (ConversationErr (if cfm_ConsumedAt c \<noteq> None then ErrConfirmationConsumed
                                        else ErrConfirmationExpired)), db))"

section \<open>Messages\<close>

definition session_exists :: "conversation_db \<Rightarrow> string \<Rightarrow> bool" where
  "session_exists db i \<longleftrightarrow> list_ex (\<lambda>s. cse_ID s = i) (cdb_sessions db)"

text \<open>The next key of the sequence, which ends at the greatest \<open>bigint\<close>.\<close>

definition next_key :: "(conversation_db, int) op" where
  "next_key db =
     (if cdb_next db \<ge> 2 ^ 63 then (Inl (DatabaseErr (SqlError ''2200H'')), db)
      else (Inr (cdb_next db), db\<lparr>cdb_next := cdb_next db + 1\<rparr>))"

definition insert_message :: "MessageLog \<Rightarrow> int \<Rightarrow> conversation_db \<Rightarrow> conversation_db" where
  "insert_message m i db = db\<lparr>cdb_messages := cdb_messages db @ [\<lparr>mr_ID = i, mr_Log = m\<rparr>]\<rparr>"

definition pg_message_Append :: "MessageLog \<Rightarrow> (conversation_db, unit) op" where
  "pg_message_Append m =
     bindE next_key (\<lambda>i db.
       if ml_SessionID m \<noteq> None \<and> \<not> session_exists db (the (ml_SessionID m))
       then (Inl foreign_key_violation, db) else (Inr (), insert_message m i db))"

text \<open>\<open>strconv.ParseInt(s, 10, 64)\<close>: an optional sign and digits, in range.\<close>

definition ParseInt64 :: "string \<Rightarrow> int option" where
  "ParseInt64 s =
     (let signed = s \<noteq> [] \<and> hd s \<in> {CHR ''+'', CHR ''-''};
          ds = (if signed then tl s else s);
          n = (if s \<noteq> [] \<and> hd s = CHR ''-'' then - 1 else 1) * int (digits_val ds)
      in if ds = [] \<or> \<not> list_all is_digit ds then None
         else if - (2 ^ 63) \<le> n \<and> n < 2 ^ 63 then Some n else None)"

definition in_session :: "string \<Rightarrow> string \<Rightarrow> string \<Rightarrow> message_row \<Rightarrow> bool" where
  "in_session ws user sid r \<longleftrightarrow> ml_WorkspaceID (mr_Log r) = ws \<and> ml_UserID (mr_Log r) = user
     \<and> ml_SessionID (mr_Log r) = Some sid"

definition entry_of :: "string \<Rightarrow> message_row \<Rightarrow> MessageLogEntry" where
  "entry_of sid r =
     \<lparr>mle_ID = Itoa (mr_ID r), mle_SessionID = sid, mle_Role = ml_Role (mr_Log r),
      mle_Body = ml_Body (mr_Log r), mle_ResolvedIntent = ml_ResolvedIntent (mr_Log r),
      mle_CreatedAt = ml_CreatedAt (mr_Log r)\<rparr>"

definition older_rows :: "string \<Rightarrow> string \<Rightarrow> string \<Rightarrow> int option \<Rightarrow> conversation_db \<Rightarrow> message_row list" where
  "older_rows ws user sid boundary db =
     order_rows (\<lambda>a b. mr_ID a \<ge> mr_ID b)
       (filter (\<lambda>r. in_session ws user sid r \<and> (boundary = None \<or> mr_ID r < the boundary))
          (cdb_messages db))"

definition pg_message_ListBefore ::
    "string \<Rightarrow> string \<Rightarrow> string \<Rightarrow> string \<Rightarrow> int \<Rightarrow> (conversation_db, MessageLogEntry list) op" where
  "pg_message_ListBefore ws user sid before limit db =
     (if before \<noteq> [] \<and> ParseInt64 before = None then (Inl (ExtError ''strconv.ParseInt''), db)
      else let boundary = (if before = [] then None else ParseInt64 before) in
        (Inr (rev (map (entry_of sid) (page 0 limit (older_rows ws user sid boundary db)))), db))"

definition pg_message_ListBySession ::
    "string \<Rightarrow> string \<Rightarrow> string \<Rightarrow> int \<Rightarrow> (conversation_db, MessageLogEntry list) op" where
  "pg_message_ListBySession ws user sid limit = pg_message_ListBefore ws user sid [] limit"

text \<open>\<open>ListByUser\<close> does not read the session column.\<close>

definition pg_message_ListByUser :: "string \<Rightarrow> string \<Rightarrow> (conversation_db, MessageLog list) op" where
  "pg_message_ListByUser ws user db =
     (Inr (map (\<lambda>r. (mr_Log r)\<lparr>ml_SessionID := None\<rparr>)
        (order_rows (\<lambda>a b. mr_ID a \<le> mr_ID b)
          (filter (\<lambda>r. ml_WorkspaceID (mr_Log r) = ws \<and> ml_UserID (mr_Log r) = user)
             (cdb_messages db)))), db)"

section \<open>Sessions\<close>

definition pg_chat_Create :: "ChatSession \<Rightarrow> (conversation_db, unit) op" where
  "pg_chat_Create s db =
     (if session_exists db (cse_ID s) then (Inl unique_violation, db)
      else (Inr (), db\<lparr>cdb_sessions := cdb_sessions db @ [s]\<rparr>))"

definition pg_chat_Get :: "string \<Rightarrow> string \<Rightarrow> string \<Rightarrow> (conversation_db, ChatSession) op" where
  "pg_chat_Get ws user i db =
     (case find (session_scope ws user i) (cdb_sessions db) of
        None \<Rightarrow> (Inl (ConversationErr conversation_ErrSessionNotFound), db)
      | Some s \<Rightarrow> (Inr s, db))"

definition pg_chat_ListPage ::
    "string \<Rightarrow> string \<Rightarrow> int \<Rightarrow> int \<Rightarrow> (conversation_db, ChatSession list) op" where
  "pg_chat_ListPage ws user offset limit db =
     (Inr (page offset limit
        (order_rows (\<lambda>a b. row_before cse_UpdatedAt cse_ID b a)
          (filter (\<lambda>s. cse_WorkspaceID s = ws \<and> cse_UserID s = user) (cdb_sessions db)))), db)"

definition pg_chat_List :: "string \<Rightarrow> string \<Rightarrow> int \<Rightarrow> (conversation_db, ChatSession list) op" where
  "pg_chat_List ws user limit = pg_chat_ListPage ws user 0 limit"

text \<open>\<open>scopedUpdate\<close>: not exactly one row is a scoped miss.\<close>

definition scopedUpdate ::
    "(conversation_db \<Rightarrow> conversation_db) \<Rightarrow> string \<Rightarrow> string \<Rightarrow> string \<Rightarrow> (conversation_db, unit) op" where
  "scopedUpdate statement ws user i db =
     (if length (filter (session_scope ws user i) (cdb_sessions db)) = 1 then (Inr (), statement db)
      else (Inl (ConversationErr conversation_ErrSessionNotFound), statement db))"

definition pg_chat_Rename ::
    "string \<Rightarrow> string \<Rightarrow> string \<Rightarrow> string \<Rightarrow> time \<Rightarrow> (conversation_db, unit) op" where
  "pg_chat_Rename ws user i title now =
     scopedUpdate (\<lambda>db. db\<lparr>cdb_sessions := update_where (session_scope ws user i)
        (\<lambda>s. s\<lparr>cse_Title := title, cse_UpdatedAt := now\<rparr>) (cdb_sessions db)\<rparr>) ws user i"

definition pg_chat_Delete :: "string \<Rightarrow> string \<Rightarrow> string \<Rightarrow> (conversation_db, unit) op" where
  "pg_chat_Delete ws user i =
     scopedUpdate (\<lambda>db. db\<lparr>
        cdb_sessions := filter (\<lambda>s. \<not> session_scope ws user i s) (cdb_sessions db),
        cdb_messages := filter (\<lambda>r. \<not> (\<exists>s \<in> set (cdb_sessions db). session_scope ws user i s
            \<and> ml_SessionID (mr_Log r) = Some (cse_ID s))) (cdb_messages db)\<rparr>) ws user i"

definition pg_chat_Touch ::
    "string \<Rightarrow> string \<Rightarrow> string \<Rightarrow> time \<Rightarrow> (conversation_db, unit) op" where
  "pg_chat_Touch ws user i now =
     scopedUpdate (\<lambda>db. db\<lparr>cdb_sessions := update_where (session_scope ws user i)
        (\<lambda>s. s\<lparr>cse_UpdatedAt := now\<rparr>) (cdb_sessions db)\<rparr>) ws user i"

section \<open>History\<close>

definition pg_history_ExportSessions ::
    "string \<Rightarrow> string \<Rightarrow> int \<Rightarrow> int \<Rightarrow> (conversation_db, HistorySession list) op" where
  "pg_history_ExportSessions ws user offset limit db =
     (Inr (map (\<lambda>s. \<lparr>hs_ID = cse_ID s, hs_Title = cse_Title s, hs_CreatedAt = cse_CreatedAt s,
                      hs_UpdatedAt = cse_UpdatedAt s\<rparr>)
        (page offset limit (order_rows (row_before cse_CreatedAt cse_ID)
          (filter (\<lambda>s. cse_WorkspaceID s = ws \<and> cse_UserID s = user) (cdb_sessions db))))), db)"

definition record_of :: "message_row \<Rightarrow> HistoryRecord" where
  "record_of r =
     \<lparr>hr_ID = Itoa (mr_ID r), hr_SessionID = ml_SessionID (mr_Log r), hr_Role = ml_Role (mr_Log r),
      hr_Body = ml_Body (mr_Log r), hr_ResolvedIntent = ml_ResolvedIntent (mr_Log r),
      hr_Order = mr_ID r, hr_CreatedAt = ml_CreatedAt (mr_Log r)\<rparr>"

definition pg_history_ExportMessages ::
    "string \<Rightarrow> string \<Rightarrow> int \<Rightarrow> int \<Rightarrow> (conversation_db, HistoryRecord list) op" where
  "pg_history_ExportMessages ws user offset limit db =
     (Inr (map record_of
        (page offset limit (order_rows (\<lambda>a b. mr_ID a \<le> mr_ID b)
          (filter (\<lambda>r. ml_WorkspaceID (mr_Log r) = ws \<and> ml_UserID (mr_Log r) = user)
             (cdb_messages db))))), db)"

definition pg_history_ImportSession ::
    "string \<Rightarrow> string \<Rightarrow> string \<Rightarrow> HistorySession \<Rightarrow> (conversation_db, unit) op" where
  "pg_history_ImportSession ws user i r =
     pg_chat_Create \<lparr>cse_ID = i, cse_WorkspaceID = ws, cse_UserID = user, cse_Title = hs_Title r,
       cse_CreatedAt = hs_CreatedAt r, cse_UpdatedAt = hs_UpdatedAt r\<rparr>"

text \<open>The insert selects nothing, and draws no key, when the session is not the caller's.\<close>

definition imported_message :: "string \<Rightarrow> string \<Rightarrow> HistoryRecord \<Rightarrow> MessageLog" where
  "imported_message ws user r =
     \<lparr>ml_WorkspaceID = ws, ml_UserID = user, ml_Role = hr_Role r, ml_Body = hr_Body r,
      ml_SessionID = hr_SessionID r, ml_ResolvedIntent = hr_ResolvedIntent r,
      ml_CreatedAt = hr_CreatedAt r\<rparr>"

definition pg_history_ImportMessage ::
    "string \<Rightarrow> string \<Rightarrow> HistoryRecord \<Rightarrow> (conversation_db, string) op" where
  "pg_history_ImportMessage ws user r db =
     (if hr_SessionID r \<noteq> None
         \<and> \<not> list_ex (session_scope ws user (the (hr_SessionID r))) (cdb_sessions db)
      then (Inl (ConversationErr conversation_ErrSessionNotFound), db)
      else bindE next_key (\<lambda>i db.
             (Inr (Itoa i), insert_message (imported_message ws user r) i db)) db)"

definition pg_confirmation_store :: "conversation_db ConfirmationStore" where
  "pg_confirmation_store =
     \<lparr>cfs_Save = pg_confirmation_Save, cfs_Get = pg_confirmation_Get,
      cfs_Consume = pg_confirmation_Consume\<rparr>"

definition pg_message_store :: "conversation_db MessageLogStore" where
  "pg_message_store =
     \<lparr>mls_Append = pg_message_Append, mls_ListBySession = pg_message_ListBySession,
      mls_ListBefore = Some pg_message_ListBefore\<rparr>"

definition pg_chat_store :: "conversation_db ChatSessionStore" where
  "pg_chat_store =
     \<lparr>css_Create = pg_chat_Create, css_Get = pg_chat_Get, css_List = pg_chat_List,
      css_Rename = pg_chat_Rename, css_Delete = pg_chat_Delete, css_Touch = pg_chat_Touch,
      css_ListPage = Some pg_chat_ListPage\<rparr>"

end
