(* ===== verification/Conversation_Commands.thy ===== *)
theory Conversation_Commands
  imports Conversation_Validation Conversation_Store Todo_Commands
begin

text \<open>
  The Conversation use cases (\<open>conversation/application\<close>): the transcript's texts
  (\<open>transcript.go\<close>), the message flow (\<open>command/process_message.go\<close>), confirmations, sessions,
  history import and export, and the paged reads (\<open>query\<close>). A handler is a function of the ports
  of its Go struct. \<open>UnitOfWork.Run\<close> is passed at the types of the variables its closures
  capture (\<open>chat_uow\<close>).
\<close>

section \<open>Ports and transfer objects\<close>

record 's TodoGateway =
  tg_CreateTodo :: "CreateTodoRequest \<Rightarrow> ('s, TodoView) op"
  tg_ListTodos :: "string \<Rightarrow> string \<Rightarrow> list_filters \<Rightarrow> ('s, TodoView list) op"
  tg_SearchCandidates :: "string \<Rightarrow> string \<Rightarrow> string \<Rightarrow> ('s, candidate list) op"
  tg_GetTodo :: "string \<Rightarrow> string \<Rightarrow> string \<Rightarrow> ('s, TodoView) op"
  tg_DeleteTodo :: "VersionedRequest \<Rightarrow> ('s, TodoView) op"

record 's chat_uow =
  uw_session :: "('s, string) op \<Rightarrow> ('s, string) op"
  uw_created :: "('s, TodoView \<times> string) op \<Rightarrow> ('s, TodoView \<times> string) op"
  uw_listed :: "('s, TodoView list \<times> string) op \<Rightarrow> ('s, TodoView list \<times> string) op"

record MessageResponse =
  rsp_Kind :: string
  rsp_Reply :: string
  rsp_SessionID :: string
  rsp_Todo :: "TodoView option"
  rsp_ResolvedDueAtUTC :: "time option"
  rsp_LocalEcho :: string
  rsp_TimezoneEcho :: string
  rsp_MissingFields :: "string list"
  rsp_Candidates :: "candidate list"
  rsp_ConfirmationID :: string
  rsp_ExpiresAt :: "time option"
  rsp_Todos :: "TodoView list"
  rsp_TodoID :: string

definition response :: "string \<Rightarrow> MessageResponse" where
  "response kind = \<lparr>rsp_Kind = kind, rsp_Reply = [], rsp_SessionID = [], rsp_Todo = None,
     rsp_ResolvedDueAtUTC = None, rsp_LocalEcho = [], rsp_TimezoneEcho = [],
     rsp_MissingFields = [], rsp_Candidates = [], rsp_ConfirmationID = [], rsp_ExpiresAt = None,
     rsp_Todos = [], rsp_TodoID = []\<rparr>"

definition KindTodoCreated :: string where "KindTodoCreated = ''todo_created''"
definition KindClarification :: string where "KindClarification = ''clarification''"
definition KindCandidates :: string where "KindCandidates = ''candidates''"
definition KindConfirmationRequired :: string where
  "KindConfirmationRequired = ''confirmation_required''"
definition KindTodoList :: string where "KindTodoList = ''todo_list''"
definition KindTodoDeleted :: string where "KindTodoDeleted = ''todo_deleted''"
definition KindNotFound :: string where "KindNotFound = ''not_found''"
definition KindUnsupported :: string where "KindUnsupported = ''unsupported''"
definition KindChat :: string where "KindChat = ''chat''"

record ChatSessionView =
  sv_ID :: string
  sv_Title :: string
  sv_CreatedAt :: time
  sv_UpdatedAt :: time

record SessionListView =
  slv_Sessions :: "ChatSessionView list"
  slv_HasMore :: bool
  slv_NextOffset :: "int option"

record MessageView =
  mv_ID :: string
  mv_Role :: string
  mv_Body :: string
  mv_ResolvedIntent :: "string option"
  mv_CreatedAt :: time

record SessionHistoryView =
  shv_SessionID :: string
  shv_Title :: string
  shv_Messages :: "MessageView list"
  shv_HasMore :: bool
  shv_NextBefore :: string

section \<open>The transcript's texts\<close>

definition ResolvedIntentChat :: string where "ResolvedIntentChat = ''chat''"
definition ResolvedIntentClarification :: string where
  "ResolvedIntentClarification = ''clarification''"
definition ResolvedIntentUnsupported :: string where
  "ResolvedIntentUnsupported = ''unsupported''"

definition MaxHistoryBodyRunes :: nat where
  "MaxHistoryBodyRunes = 500"

definition UnsupportedSummary :: string where
  "UnsupportedSummary = utf8 [
       0xE8, 0xBF, 0x99, 0xE4, 0xB8, 0xAA, 0xE8, 0xAF, 0xB7, 0xE6, 0xB1, 0x82, 0xE6, 0x9A,
       0x82, 0xE6, 0x97, 0xB6, 0xE4, 0xB8, 0x8D, 0xE6, 0x94, 0xAF, 0xE6, 0x8C, 0x81, 0xE3,
       0x80, 0x82]"

definition NotFoundSummary :: string where
  "NotFoundSummary = utf8 [
       0xE6, 0xB2, 0xA1, 0xE6, 0x9C, 0x89, 0xE6, 0x89, 0xBE, 0xE5, 0x88, 0xB0, 0xE5, 0x8C,
       0xB9, 0xE9, 0x85, 0x8D, 0xE7, 0x9A, 0x84, 0xE5, 0xBE, 0x85, 0xE5, 0x8A, 0x9E, 0xE3,
       0x80, 0x82]"

definition CreateSummary :: "string \<Rightarrow> string \<Rightarrow> string \<Rightarrow> time option \<Rightarrow> string" where
  "CreateSummary title localEcho timezone due =
     (if localEcho \<noteq> []
      then utf8 [
       0xE5, 0xB7, 0xB2, 0xE5, 0x88, 0x9B, 0xE5, 0xBB, 0xBA, 0xE5, 0xBE, 0x85, 0xE5, 0x8A,
       0x9E, 0xE3, 0x80, 0x8C] @ title @ utf8 [
       0xE3, 0x80, 0x8D, 0xEF, 0xBC, 0x8C, 0xE6, 0x8F, 0x90, 0xE9, 0x86, 0x92, 0xE6, 0x97,
       0xB6, 0xE9, 0x97, 0xB4, 0x20] @ localEcho @ utf8 [0xEF, 0xBC, 0x88] @ timezone
        @ utf8 [0xEF, 0xBC, 0x89, 0xE3, 0x80, 0x82]
      else case due of
        Some t \<Rightarrow> utf8 [
       0xE5, 0xB7, 0xB2, 0xE5, 0x88, 0x9B, 0xE5, 0xBB, 0xBA, 0xE5, 0xBE, 0x85, 0xE5, 0x8A,
       0x9E, 0xE3, 0x80, 0x8C] @ title @ utf8 [
       0xE3, 0x80, 0x8D, 0xEF, 0xBC, 0x8C, 0xE6, 0x8F, 0x90, 0xE9, 0x86, 0x92, 0xE6, 0x97,
       0xB6, 0xE9, 0x97, 0xB4, 0x20] @ Format_RFC3339 t @ utf8 [0xE3, 0x80, 0x82]
      | None \<Rightarrow> utf8 [
       0xE5, 0xB7, 0xB2, 0xE5, 0x88, 0x9B, 0xE5, 0xBB, 0xBA, 0xE5, 0xBE, 0x85, 0xE5, 0x8A,
       0x9E, 0xE3, 0x80, 0x8C] @ title @ utf8 [0xE3, 0x80, 0x8D, 0xE3, 0x80, 0x82])"

definition ListSummary :: "int \<Rightarrow> string" where
  "ListSummary count = utf8 [
       0xE5, 0xB7, 0xB2, 0xE5, 0x88, 0x97, 0xE5, 0x87, 0xBA, 0x20] @ Itoa count @ utf8 [
       0x20, 0xE6, 0x9D, 0xA1, 0xE5, 0xBE, 0x85, 0xE5, 0x8A, 0x9E, 0xE3, 0x80, 0x82]"

text \<open>\<open>strings.Join\<close>.\<close>

fun join :: "string \<Rightarrow> string list \<Rightarrow> string" where
  "join sep [] = []"
| "join sep [x] = x"
| "join sep (x # y # zs) = x @ sep @ join sep (y # zs)"

definition CreateSchedulingSummary :: "TodoView \<Rightarrow> string \<Rightarrow> string \<Rightarrow> time option \<Rightarrow> string" where
  "CreateSchedulingSummary todo localEcho timezone due =
     (let body = utf8 [
       0xE5, 0xB7, 0xB2, 0xE5, 0x88, 0x9B, 0xE5, 0xBB, 0xBA, 0xE5, 0xBE, 0x85, 0xE5, 0x8A,
       0x9E, 0xE3, 0x80, 0x8C] @ v_Title todo @ utf8 [0xE3, 0x80, 0x8D, 0xE3, 0x80, 0x82] in
      case due of
        None \<Rightarrow> body @ utf8 [
       0xE6, 0x9C, 0xAA, 0xE8, 0xAE, 0xBE, 0xE7, 0xBD, 0xAE, 0xE5, 0x88, 0xB0, 0xE6, 0x9C,
       0x9F, 0xE6, 0x97, 0xB6, 0xE9, 0x97, 0xB4, 0xEF, 0xBC, 0x8C, 0xE6, 0x9C, 0xAA, 0xE5,
       0xAE, 0x89, 0xE6, 0x8E, 0x92, 0xE6, 0x8F, 0x90, 0xE9, 0x86, 0x92, 0xE3, 0x80, 0x82]
      | Some t \<Rightarrow>
          let moment = (if localEcho \<noteq> [] then localEcho @ utf8 [0xEF, 0xBC, 0x88] @ timezone @ utf8 [0xEF, 0xBC, 0x89]
                        else Format_RFC3339 t);
              body = body @ utf8 [
       0xE5, 0x88, 0xB0, 0xE6, 0x9C, 0x9F, 0xE6, 0x97, 0xB6, 0xE9, 0x97, 0xB4, 0x20] @ moment @ utf8 [0xE3, 0x80, 0x82] in
          if v_ReminderScheduled todo \<noteq> Some True
          then body @ utf8 [
       0xE6, 0x9C, 0xAA, 0xE5, 0xAE, 0x89, 0xE6, 0x8E, 0x92, 0xE6, 0x8F, 0x90, 0xE9, 0x86,
       0x92, 0xEF, 0xBC, 0x9A, 0xE6, 0xB2, 0xA1, 0xE6, 0x9C, 0x89, 0xE5, 0x8F, 0xAF, 0xE7,
       0x94, 0xA8, 0xE7, 0x9A, 0x84, 0xE6, 0x8F, 0x90, 0xE9, 0x86, 0x92, 0xE6, 0xB8, 0xA0,
       0xE9, 0x81, 0x93, 0xEF, 0xBC, 0x8C, 0xE8, 0xAF, 0xB7, 0xE5, 0x85, 0x88, 0xE9, 0x85,
       0x8D, 0xE7, 0xBD, 0xAE, 0xE5, 0xB9, 0xB6, 0xE9, 0xAA, 0x8C, 0xE8, 0xAF, 0x81, 0xE6,
       0xB8, 0xA0, 0xE9, 0x81, 0x93, 0xE3, 0x80, 0x82]
          else body @ utf8 [
       0xE5, 0xB7, 0xB2, 0xE5, 0xAE, 0x89, 0xE6, 0x8E, 0x92, 0xE6, 0x8F, 0x90, 0xE9, 0x86,
       0x92, 0xEF, 0xBC, 0x88]
            @ (case v_ReminderChannels todo of None \<Rightarrow> [] | Some cs \<Rightarrow> join (utf8 [0xE3, 0x80, 0x81]) cs)
            @ utf8 [
       0xEF, 0xBC, 0x89, 0xEF, 0xBC, 0x9B, 0xE5, 0xAE, 0x9E, 0xE9, 0x99, 0x85, 0xE9, 0x80,
       0x81, 0xE8, 0xBE, 0xBE, 0xE7, 0xBB, 0x93, 0xE6, 0x9E, 0x9C, 0xE5, 0x8F, 0xAF, 0xE5,
       0x9C, 0xA8, 0xE6, 0x8F, 0x90, 0xE9, 0x86, 0x92, 0xE9, 0xA1, 0xB5, 0xE9, 0x9D, 0xA2,
       0xE6, 0x9F, 0xA5, 0xE7, 0x9C, 0x8B, 0xE3, 0x80, 0x82])"

definition due_text :: "zone_db \<Rightarrow> TodoView \<Rightarrow> string" where
  "due_text zone todo =
     (case v_DueAtUTC todo of
        None \<Rightarrow> utf8 [
       0xE6, 0x97, 0xA0, 0xE5, 0x88, 0xB0, 0xE6, 0x9C, 0x9F, 0xE6, 0x97, 0xB6, 0xE9, 0x97,
       0xB4]
      | Some t \<Rightarrow>
          (case v_TimezoneAtInput todo of
             None \<Rightarrow> Format_RFC3339 t
           | Some tz \<Rightarrow>
               (case zone tz of
                  None \<Rightarrow> Format_RFC3339 t
                | Some offset \<Rightarrow> Format_minute (t + offset t) @ utf8 [0xEF, 0xBC, 0x88] @ tz @ utf8 [0xEF, 0xBC, 0x89])))"

definition TodoListSummary :: "zone_db \<Rightarrow> TodoView list \<Rightarrow> string" where
  "TodoListSummary zone todos =
     ListSummary (int (length todos)) @ concat (map (\<lambda>todo.
        CHR 0x0A # ''- '' @ v_Title todo @ '' | '' @ v_Status todo @ '' | '' @ due_text zone todo) todos)"

definition DeletedSummary :: "string \<Rightarrow> string" where
  "DeletedSummary title = utf8 [
       0xE5, 0xB7, 0xB2, 0xE5, 0x88, 0xA0, 0xE9, 0x99, 0xA4, 0xE5, 0xBE, 0x85, 0xE5, 0x8A,
       0x9E, 0xE3, 0x80, 0x8C] @ title @ utf8 [0xE3, 0x80, 0x8D, 0xE3, 0x80, 0x82]"

definition ConfirmationSummary :: "string \<Rightarrow> string" where
  "ConfirmationSummary title = utf8 [
       0xE6, 0x89, 0xBE, 0xE5, 0x88, 0xB0, 0xE5, 0xBE, 0x85, 0xE5, 0x8A, 0x9E, 0xE3, 0x80,
       0x8C] @ title @ utf8 [
       0xE3, 0x80, 0x8D, 0xEF, 0xBC, 0x8C, 0xE8, 0xAF, 0xB7, 0xE5, 0x9C, 0xA8, 0xE7, 0x95,
       0x8C, 0xE9, 0x9D, 0xA2, 0xE4, 0xB8, 0x8A, 0xE7, 0xA1, 0xAE, 0xE8, 0xAE, 0xA4, 0xE5,
       0x88, 0xA0, 0xE9, 0x99, 0xA4, 0xE3, 0x80, 0x82]"

definition CandidatesSummary :: "int \<Rightarrow> string" where
  "CandidatesSummary count = utf8 [0xE6, 0x89, 0xBE, 0xE5, 0x88, 0xB0, 0x20] @ Itoa count @ utf8 [
       0x20, 0xE6, 0x9D, 0xA1, 0xE7, 0x9B, 0xB8, 0xE5, 0x85, 0xB3, 0xE5, 0xBE, 0x85, 0xE5,
       0x8A, 0x9E, 0xEF, 0xBC, 0x8C, 0xE8, 0xAF, 0xB7, 0xE9, 0x80, 0x89, 0xE6, 0x8B, 0xA9,
       0xE8, 0xA6, 0x81, 0xE5, 0x88, 0xA0, 0xE9, 0x99, 0xA4, 0xE7, 0x9A, 0x84, 0xE4, 0xB8,
       0x80, 0xE6, 0x9D, 0xA1, 0xE3, 0x80, 0x82]"

definition TruncateHistoryBody :: "string \<Rightarrow> string" where
  "TruncateHistoryBody body = truncate_runes MaxHistoryBodyRunes body"

definition SessionView_of :: "ChatSession \<Rightarrow> ChatSessionView" where
  "SessionView_of s = \<lparr>sv_ID = cse_ID s, sv_Title = cse_Title s, sv_CreatedAt = cse_CreatedAt s,
     sv_UpdatedAt = cse_UpdatedAt s\<rparr>"

section \<open>The message flow\<close>

definition maxSelectableCandidates :: nat where
  "maxSelectableCandidates = 10"

record 's ProcessPorts =
  pm_Model :: "MessageInput \<Rightarrow> ('s, RawMessage) op"
  pm_Todos :: "'s TodoGateway"
  pm_Confirmations :: "'s ConfirmationStore"
  pm_Sessions :: "'s ChatSessionStore"
  pm_Messages :: "'s MessageLogStore"
  pm_UoW :: "'s chat_uow"
  pm_NewConfirmationID :: "('s, string) act"
  pm_NewSessionID :: "('s, string) act"
  pm_Now :: "('s, time) act"
  pm_ConfirmationTTL :: int
  pm_HistoryTurns :: int

text \<open>The caller, the session (empty for a new one) and the message: the arguments that every step passes on.\<close>

record message_turn =
  tn_WorkspaceID :: string
  tn_UserID :: string
  tn_SessionID :: string
  tn_Text :: string
  tn_Timezone :: string

definition conversation_result :: "conversation_error + 'a \<Rightarrow> ('s, 'a) op" where
  "conversation_result r = ret (map_sum ConversationErr id r)"

definition open_session_for :: "'s ProcessPorts \<Rightarrow> message_turn \<Rightarrow> ('s, string) op" where
  "open_session_for h t =
     (if tn_SessionID t \<noteq> [] then ok (tn_SessionID t)
      else bindA (pm_NewSessionID h) (\<lambda>i. bindA (pm_Now h) (\<lambda>now.
           bindE (conversation_result (NewSession i (tn_WorkspaceID t) (tn_UserID t)
              (DefaultSessionTitle (tn_Text t)) now)) (\<lambda>session.
           bindE (css_Create (pm_Sessions h) session) (\<lambda>_. ok i)))))"

definition transcript_row ::
    "message_turn \<Rightarrow> string \<Rightarrow> string \<Rightarrow> string \<Rightarrow> string option \<Rightarrow> time \<Rightarrow> MessageLog" where
  "transcript_row t scope role body intent now =
     \<lparr>ml_WorkspaceID = tn_WorkspaceID t, ml_UserID = tn_UserID t, ml_Role = role, ml_Body = body,
      ml_SessionID = Some scope, ml_ResolvedIntent = intent, ml_CreatedAt = now\<rparr>"

definition transcribeInside ::
    "'s ProcessPorts \<Rightarrow> message_turn \<Rightarrow> string \<Rightarrow> string \<Rightarrow> ('s, string) op" where
  "transcribeInside h t resolvedIntent assistantBody =
     bindE (open_session_for h t) (\<lambda>resolved.
     bindA (pm_Now h) (\<lambda>now.
     bindE (mls_Append (pm_Messages h)
       (transcript_row t resolved RoleUser (tn_Text t) (Some resolvedIntent) now)) (\<lambda>_.
     bindE (mls_Append (pm_Messages h)
       (transcript_row t resolved RoleAssistant assistantBody None now)) (\<lambda>_.
     bindE (css_Touch (pm_Sessions h) (tn_WorkspaceID t) (tn_UserID t) resolved now) (\<lambda>_.
     ok resolved)))))"

definition persistTranscript ::
    "'s ProcessPorts \<Rightarrow> message_turn \<Rightarrow> string \<Rightarrow> string \<Rightarrow> ('s, string) op" where
  "persistTranscript h t resolvedIntent assistantBody =
     uw_session (pm_UoW h) (transcribeInside h t resolvedIntent assistantBody)"

definition clarify ::
    "'s ProcessPorts \<Rightarrow> message_turn \<Rightarrow> string list \<Rightarrow> string \<Rightarrow> ('s, MessageResponse) op" where
  "clarify h t missing reply =
     bindE (persistTranscript h t ResolvedIntentClarification
        (if reply = [] then UnsupportedSummary else reply)) (\<lambda>resolved.
     ok ((response KindClarification)\<lparr>rsp_MissingFields := missing, rsp_Reply := reply,
        rsp_SessionID := resolved\<rparr>))"

definition loadHistory :: "'s ProcessPorts \<Rightarrow> message_turn \<Rightarrow> ('s, HistoryMessage list) op" where
  "loadHistory h t =
     (if pm_HistoryTurns h \<le> 0 \<or> tn_SessionID t = [] then ok []
      else bindE (mls_ListBySession (pm_Messages h) (tn_WorkspaceID t) (tn_UserID t)
             (tn_SessionID t) (pm_HistoryTurns h)) (\<lambda>entries.
           ok (map (\<lambda>e. \<lparr>hm_Role = mle_Role e, hm_Text = TruncateHistoryBody (mle_Body e)\<rparr>) entries)))"

definition stringPointer :: "string \<Rightarrow> string option" where
  "stringPointer s = (if s = [] then None else Some s)"

definition echo_response :: "zone_db \<Rightarrow> string \<Rightarrow> time option \<Rightarrow> MessageResponse" where
  "echo_response zone echoTimezone due =
     (case due of
        None \<Rightarrow> response KindTodoCreated
      | Some t \<Rightarrow> (response KindTodoCreated)\<lparr>rsp_ResolvedDueAtUTC := Some t,
          rsp_TimezoneEcho := echoTimezone,
          rsp_LocalEcho := (case zone echoTimezone of None \<Rightarrow> []
                            | Some offset \<Rightarrow> Format_minute (t + offset t))\<rparr>)"

definition dispatchCreate ::
    "zone_db \<Rightarrow> 's ProcessPorts \<Rightarrow> message_turn \<Rightarrow> string \<Rightarrow> IntentProposal \<Rightarrow> ('s, MessageResponse) op" where
  "dispatchCreate zone h t reply p =
     (let a = ip_Arguments p in
      if pa_Title a = [] then clarify h t [''title''] reply
      else let echoTimezone = (if pa_Timezone a = [] then tn_Timezone t else pa_Timezone a);
               echoed = echo_response zone echoTimezone (pa_DueAtUTC a) in
        bindE (uw_created (pm_UoW h)
          (bindE (tg_CreateTodo (pm_Todos h)
             \<lparr>cr_WorkspaceID = tn_WorkspaceID t, cr_UserID = tn_UserID t, cr_Title = pa_Title a,
              cr_Description = pa_Description a, cr_DueAtUTC = pa_DueAtUTC a,
              cr_TimezoneAtInput = stringPointer echoTimezone\<rparr>) (\<lambda>todo.
           bindE (transcribeInside h t (ip_Intent p)
              (CreateSchedulingSummary todo (rsp_LocalEcho echoed) echoTimezone (pa_DueAtUTC a)))
             (\<lambda>resolved. ok (todo, resolved)))))
          (\<lambda>(created, resolved).
           ok (echoed\<lparr>rsp_Todo := Some created, rsp_SessionID := resolved\<rparr>)))"

definition dispatchList ::
    "zone_db \<Rightarrow> 's ProcessPorts \<Rightarrow> message_turn \<Rightarrow> IntentProposal \<Rightarrow> ('s, MessageResponse) op" where
  "dispatchList zone h t p =
     (let a = ip_Arguments p in
      bindE (uw_listed (pm_UoW h)
        (bindE (tg_ListTodos (pm_Todos h) (tn_WorkspaceID t) (tn_UserID t)
            \<lparr>lf_Keyword = pa_Keyword a, lf_Status = pa_Status a, lf_DueFrom = pa_DueFrom a,
             lf_DueTo = pa_DueTo a, lf_NoDue = pa_NoDue a, lf_CompletedSince = None\<rparr>) (\<lambda>todos.
         bindE (transcribeInside h t (ip_Intent p) (TodoListSummary zone todos)) (\<lambda>resolved.
         ok (todos, resolved)))))
        (\<lambda>(todos, resolved).
         ok ((response KindTodoList)\<lparr>rsp_Todos := todos, rsp_SessionID := resolved\<rparr>)))"

definition request_confirmation ::
    "'s ProcessPorts \<Rightarrow> message_turn \<Rightarrow> IntentProposal \<Rightarrow> candidate list \<Rightarrow> candidate
     \<Rightarrow> ('s, MessageResponse) op" where
  "request_confirmation h t p candidates c =
     bindA (pm_NewConfirmationID h) (\<lambda>i. bindA (pm_Now h) (\<lambda>now.
     bindE (conversation_result (NewConfirmationRequest i (tn_WorkspaceID t) (tn_UserID t)
        IntentTodoDelete (c_TodoID c) (c_Version c) now (pm_ConfirmationTTL h))) (\<lambda>confirmation.
     bindE (uw_session (pm_UoW h)
       (bindE (cfs_Save (pm_Confirmations h) confirmation) (\<lambda>_.
        transcribeInside h t (ip_Intent p) (ConfirmationSummary (c_Title c)))))
       (\<lambda>resolved.
        ok ((response KindConfirmationRequired)\<lparr>rsp_Candidates := candidates,
          rsp_ConfirmationID := cfm_ID confirmation,
          rsp_ExpiresAt := Some (cfm_ExpiresAt confirmation), rsp_SessionID := resolved\<rparr>)))))"

definition dispatchDelete ::
    "'s ProcessPorts \<Rightarrow> message_turn \<Rightarrow> string \<Rightarrow> IntentProposal \<Rightarrow> ('s, MessageResponse) op" where
  "dispatchDelete h t reply p =
     bindE (tg_SearchCandidates (pm_Todos h) (tn_WorkspaceID t) (tn_UserID t)
        (pa_Keyword (ip_Arguments p))) (\<lambda>candidates.
     case candidates of
       [] \<Rightarrow>
         bindE (persistTranscript h t (ip_Intent p) NotFoundSummary) (\<lambda>resolved.
         ok ((response KindNotFound)\<lparr>rsp_SessionID := resolved\<rparr>))
     | c # cs \<Rightarrow>
         if length candidates > maxSelectableCandidates then clarify h t [] reply
         else if cs = [] then request_confirmation h t p candidates c
         else bindE (persistTranscript h t (ip_Intent p)
                 (CandidatesSummary (int (length candidates)))) (\<lambda>resolved.
              ok ((response KindCandidates)\<lparr>rsp_Candidates := candidates,
                rsp_SessionID := resolved\<rparr>)))"

definition dispatch ::
    "zone_db \<Rightarrow> 's ProcessPorts \<Rightarrow> message_turn \<Rightarrow> string \<Rightarrow> IntentProposal \<Rightarrow> ('s, MessageResponse) op" where
  "dispatch zone h t reply p =
     (if ip_MissingFields p \<noteq> [] then clarify h t (ip_MissingFields p) reply
      else if fless (ip_Confidence p) MinDispatchConfidence then clarify h t [] reply
      else if ip_Intent p = IntentTodoCreate then dispatchCreate zone h t reply p
      else if ip_Intent p = IntentTodoList then dispatchList zone h t p
      else if ip_Intent p = IntentTodoDelete then dispatchDelete h t reply p
      else ok (response KindUnsupported))"

text \<open>What the flow does with the model's raw answer.\<close>

definition answer_turn ::
    "zone_db \<Rightarrow> 's ProcessPorts \<Rightarrow> message_turn \<Rightarrow> RawMessage \<Rightarrow> ('s, MessageResponse) op" where
  "answer_turn zone h t raw =
     (case ValidateModelTurn zone raw of
        Inl e \<Rightarrow>
          bindE (persistTranscript h t ResolvedIntentUnsupported UnsupportedSummary) (\<lambda>resolved.
          ok ((response KindUnsupported)\<lparr>rsp_SessionID := resolved\<rparr>))
      | Inr turn \<Rightarrow>
          (case mt_Proposal turn of
             Some p \<Rightarrow>
               if Router_Supports (ip_Intent p) then dispatch zone h t (mt_Reply turn) p
               else bindE (persistTranscript h t ResolvedIntentChat (mt_Reply turn)) (\<lambda>resolved.
                    ok ((response KindChat)\<lparr>rsp_Reply := mt_Reply turn, rsp_SessionID := resolved\<rparr>))
           | None \<Rightarrow>
               bindE (persistTranscript h t ResolvedIntentChat (mt_Reply turn)) (\<lambda>resolved.
               ok ((response KindChat)\<lparr>rsp_Reply := mt_Reply turn, rsp_SessionID := resolved\<rparr>))))"

definition ProcessMessage ::
    "zone_db \<Rightarrow> 's ProcessPorts \<Rightarrow> message_turn \<Rightarrow> ('s, MessageResponse) op" where
  "ProcessMessage zone h t =
     bindE (if tn_SessionID t = [] then ok ()
            else bindE (css_Get (pm_Sessions h) (tn_WorkspaceID t) (tn_UserID t) (tn_SessionID t))
                   (\<lambda>_. ok ())) (\<lambda>_.
     bindE (loadHistory h t) (\<lambda>history.
     bindE (pm_Model h \<lparr>mi_Text = tn_Text t, mi_Timezone = tn_Timezone t, mi_History = history\<rparr>) (\<lambda>raw.
     answer_turn zone h t raw)))"

section \<open>Confirmations\<close>

record 's ConfirmPorts =
  ca_Confirmations :: "'s ConfirmationStore"
  ca_Todos :: "'s TodoGateway"
  ca_Sessions :: "'s ChatSessionStore option"
  ca_Messages :: "'s MessageLogStore option"
  ca_UoW :: "('s, string) op \<Rightarrow> ('s, string) op"
  ca_Now :: "('s, time) act"

definition check_owner :: "'s ConfirmPorts \<Rightarrow> string \<Rightarrow> string \<Rightarrow> string \<Rightarrow> ('s, unit) op" where
  "check_owner h ws user sid =
     (if sid = [] then ok ()
      else case (ca_Sessions h, ca_Messages h) of
        (Some sessions, Some messages) \<Rightarrow> bindE (css_Get sessions ws user sid) (\<lambda>_. ok ())
      | _ \<Rightarrow> fail (ConversationErr conversation_ErrSessionNotFound))"

definition record_deleted ::
    "'s ConfirmPorts \<Rightarrow> string \<Rightarrow> string \<Rightarrow> string \<Rightarrow> string \<Rightarrow> ('s, unit) op" where
  "record_deleted h ws user sid title =
     (if sid = [] then ok ()
      else case (ca_Sessions h, ca_Messages h) of
        (Some sessions, Some messages) \<Rightarrow>
          bindA (ca_Now h) (\<lambda>now.
          bindE (mls_Append messages
            \<lparr>ml_WorkspaceID = ws, ml_UserID = user, ml_Role = RoleAssistant,
             ml_Body = DeletedSummary title, ml_SessionID = Some sid, ml_ResolvedIntent = None,
             ml_CreatedAt = now\<rparr>) (\<lambda>_.
          bindA (ca_Now h) (\<lambda>later. css_Touch sessions ws user sid later)))
      | _ \<Rightarrow> fail (ConversationErr conversation_ErrSessionNotFound))"

definition confirm_work ::
    "'s ConfirmPorts \<Rightarrow> string \<Rightarrow> string \<Rightarrow> string \<Rightarrow> string \<Rightarrow> ('s, string) op" where
  "confirm_work h ws user confirmationID sid =
     bindE (check_owner h ws user sid) (\<lambda>_.
     bindE (cfs_Get (ca_Confirmations h) ws user confirmationID) (\<lambda>confirmation.
     bindA (ca_Now h) (\<lambda>now.
     bindE (cfs_Consume (ca_Confirmations h) ws user confirmationID now) (\<lambda>_.
     bindE (tg_GetTodo (ca_Todos h) ws user (cfm_TodoID confirmation)) (\<lambda>todo.
     if v_Version todo \<noteq> cfm_TodoVersion confirmation
     then fail (ConversationErr ErrConfirmationTodoVersionStale)
     else bindE (tg_DeleteTodo (ca_Todos h)
            \<lparr>vr_WorkspaceID = ws, vr_UserID = user, vr_TodoID = cfm_TodoID confirmation,
             vr_Version = v_Version todo\<rparr>) (\<lambda>_.
          bindE (record_deleted h ws user sid (v_Title todo)) (\<lambda>_.
          ok (cfm_TodoID confirmation))))))))"

definition ConfirmActionWithSession ::
    "'s ConfirmPorts \<Rightarrow> string \<Rightarrow> string \<Rightarrow> string \<Rightarrow> string \<Rightarrow> ('s, MessageResponse) op" where
  "ConfirmActionWithSession h ws user confirmationID sid =
     bindE (ca_UoW h (confirm_work h ws user confirmationID sid)) (\<lambda>todoID.
     ok ((response KindTodoDeleted)\<lparr>rsp_TodoID := todoID, rsp_SessionID := sid\<rparr>))"

definition ConfirmAction ::
    "'s ConfirmPorts \<Rightarrow> string \<Rightarrow> string \<Rightarrow> string \<Rightarrow> ('s, MessageResponse) op" where
  "ConfirmAction h ws user confirmationID = ConfirmActionWithSession h ws user confirmationID []"

definition CreateConfirmation ::
    "'s TodoGateway \<Rightarrow> 's ConfirmationStore \<Rightarrow> ('s, string) act \<Rightarrow> ('s, time) act \<Rightarrow> int
     \<Rightarrow> string \<Rightarrow> string \<Rightarrow> string \<Rightarrow> string \<Rightarrow> ('s, ConfirmationRequest) op" where
  "CreateConfirmation todos confirmations NewID Now ttl ws user intent todoID =
     (if intent \<noteq> IntentTodoDelete then fail (ConversationErr ErrUnsupportedConfirmationIntent)
      else bindE (tg_GetTodo todos ws user todoID) (\<lambda>todo.
           bindA NewID (\<lambda>i. bindA Now (\<lambda>now.
           bindE (conversation_result
             (NewConfirmationRequest i ws user intent todoID (v_Version todo) now ttl)) (\<lambda>c.
           bindE (cfs_Save confirmations c) (\<lambda>_. ok c))))))"

section \<open>Sessions\<close>

definition CreateSession ::
    "'s ChatSessionStore \<Rightarrow> ('s, string) act \<Rightarrow> ('s, time) act \<Rightarrow> string \<Rightarrow> string \<Rightarrow> string
     \<Rightarrow> ('s, ChatSessionView) op" where
  "CreateSession sessions NewID Now ws user title =
     bindA NewID (\<lambda>i. bindA Now (\<lambda>now.
     bindE (conversation_result (NewSession i ws user
        (if TrimSpace title = [] then DefaultSessionTitleFallback else title) now)) (\<lambda>session.
     bindE (css_Create sessions session) (\<lambda>_. ok (SessionView_of session)))))"

definition RenameSession ::
    "'s ChatSessionStore \<Rightarrow> ('s, time) act \<Rightarrow> string \<Rightarrow> string \<Rightarrow> string \<Rightarrow> string
     \<Rightarrow> ('s, ChatSessionView) op" where
  "RenameSession sessions Now ws user sid title =
     bindE (css_Get sessions ws user sid) (\<lambda>session.
     bindA Now (\<lambda>now.
     bindE (conversation_result (Renamed session title now)) (\<lambda>renamed.
     bindE (css_Rename sessions ws user sid (cse_Title renamed) (cse_UpdatedAt renamed)) (\<lambda>_.
     ok (SessionView_of renamed)))))"

definition DeleteSession ::
    "'s ChatSessionStore \<Rightarrow> string \<Rightarrow> string \<Rightarrow> string \<Rightarrow> ('s, unit) op" where
  "DeleteSession sessions ws user sid = css_Delete sessions ws user sid"

section \<open>History import and export\<close>

record 's HistoryImporter =
  hi_ImportSession :: "string \<Rightarrow> string \<Rightarrow> string \<Rightarrow> HistorySession \<Rightarrow> ('s, unit) op"
  hi_ImportMessage :: "string \<Rightarrow> string \<Rightarrow> HistoryRecord \<Rightarrow> ('s, string) op"

record 's HistoryExporter =
  he_ExportSessions :: "string \<Rightarrow> string \<Rightarrow> int \<Rightarrow> int \<Rightarrow> ('s, HistorySession list) op"
  he_ExportMessages :: "string \<Rightarrow> string \<Rightarrow> int \<Rightarrow> int \<Rightarrow> ('s, HistoryRecord list) op"

definition ImportSession ::
    "'s HistoryImporter \<Rightarrow> ('s, string) act \<Rightarrow> string \<Rightarrow> string \<Rightarrow> HistorySession \<Rightarrow> ('s, string) op" where
  "ImportSession store NewID ws user r =
     bindA NewID (\<lambda>i.
     bindE (conversation_result (NewSession i ws user (hs_Title r) (hs_CreatedAt r))) (\<lambda>session.
     if IsZero (hs_CreatedAt r) \<or> IsZero (hs_UpdatedAt r)
     then fail (ConversationErr ErrInvalidSession)
     else bindE (hi_ImportSession store ws user i
            (r\<lparr>hs_ID := cse_ID session, hs_Title := cse_Title session\<rparr>)) (\<lambda>_. ok i)))"

definition ImportMessage ::
    "'s HistoryImporter \<Rightarrow> string \<Rightarrow> string \<Rightarrow> HistoryRecord \<Rightarrow> ('s, string) op" where
  "ImportMessage store ws user r =
     (if ws = [] \<or> user = [] \<or> IsZero (hr_CreatedAt r) \<or> hr_Order r < 1
         \<or> (hr_Role r \<noteq> RoleUser \<and> hr_Role r \<noteq> RoleAssistant) \<or> hr_SessionID r = Some []
      then fail (ConversationErr ErrInvalidSession)
      else hi_ImportMessage store ws user r)"

definition ExportSessions ::
    "'s HistoryExporter \<Rightarrow> string \<Rightarrow> string \<Rightarrow> int \<Rightarrow> int \<Rightarrow> ('s, HistorySession list) op" where
  "ExportSessions store ws user offset limit = he_ExportSessions store ws user offset limit"

definition ExportMessages ::
    "'s HistoryExporter \<Rightarrow> string \<Rightarrow> string \<Rightarrow> int \<Rightarrow> int \<Rightarrow> ('s, HistoryRecord list) op" where
  "ExportMessages store ws user offset limit = he_ExportMessages store ws user offset limit"

section \<open>Paged reads\<close>

definition MaxListedSessions :: int where
  "MaxListedSessions = 100"

definition MaxHistoryMessages :: int where
  "MaxHistoryMessages = 200"

text \<open>Without the paged interface the whole prefix is read and cut.\<close>

definition session_page ::
    "'s ChatSessionStore \<Rightarrow> string \<Rightarrow> string \<Rightarrow> int \<Rightarrow> ('s, ChatSession list) op" where
  "session_page sessions ws user offset =
     (case css_ListPage sessions of
        Some paged \<Rightarrow> paged ws user offset (MaxListedSessions + 1)
      | None \<Rightarrow>
          bindE (css_List sessions ws user (offset + MaxListedSessions + 1)) (\<lambda>rows.
          ok (if offset \<ge> int (length rows) then [] else drop (nat offset) rows)))"

definition ListSessionsPage ::
    "'s ChatSessionStore \<Rightarrow> string \<Rightarrow> string \<Rightarrow> int \<Rightarrow> ('s, SessionListView) op" where
  "ListSessionsPage sessions ws user offset =
     (if offset < 0 \<or> offset > 2147483647 - MaxListedSessions - 1
      then fail (ConversationErr ErrInvalidPage)
      else bindE (session_page sessions ws user offset) (\<lambda>rows.
           let hasMore = int (length rows) > MaxListedSessions;
               rows = (if hasMore then take (nat MaxListedSessions) rows else rows);
               views = map SessionView_of rows in
           ok \<lparr>slv_Sessions = views, slv_HasMore = hasMore,
               slv_NextOffset = (if hasMore then Some (offset + int (length views)) else None)\<rparr>))"

definition ListSessions ::
    "'s ChatSessionStore \<Rightarrow> string \<Rightarrow> string \<Rightarrow> ('s, SessionListView) op" where
  "ListSessions sessions ws user = ListSessionsPage sessions ws user 0"

definition valid_before :: "string \<Rightarrow> bool" where
  "valid_before before \<longleftrightarrow>
     (case ParseInt64 before of None \<Rightarrow> False | Some b \<Rightarrow> b > 0) \<and> list_all is_digit before"

definition history_entries ::
    "'s MessageLogStore \<Rightarrow> string \<Rightarrow> string \<Rightarrow> string \<Rightarrow> string \<Rightarrow> ('s, MessageLogEntry list) op" where
  "history_entries messages ws user sid before =
     (case mls_ListBefore messages of
        Some paged \<Rightarrow> paged ws user sid before (MaxHistoryMessages + 1)
      | None \<Rightarrow>
          bindE (mls_ListBySession messages ws user sid
             (if before = [] then MaxHistoryMessages + 1 else 2147483647)) (\<lambda>entries.
          ok (if before = [] then entries
              else filter (\<lambda>e. case ParseInt64 (mle_ID e) of None \<Rightarrow> False
                     | Some i \<Rightarrow> i < the (ParseInt64 before)) entries)))"

definition message_view :: "MessageLogEntry \<Rightarrow> MessageView" where
  "message_view e = \<lparr>mv_ID = mle_ID e, mv_Role = mle_Role e, mv_Body = mle_Body e,
     mv_ResolvedIntent = mle_ResolvedIntent e, mv_CreatedAt = mle_CreatedAt e\<rparr>"

definition GetHistoryPage ::
    "'s ChatSessionStore \<Rightarrow> 's MessageLogStore \<Rightarrow> string \<Rightarrow> string \<Rightarrow> string \<Rightarrow> string
     \<Rightarrow> ('s, SessionHistoryView) op" where
  "GetHistoryPage sessions messages ws user sid before =
     (if before \<noteq> [] \<and> \<not> valid_before before then fail (ConversationErr ErrInvalidPage)
      else bindE (css_Get sessions ws user sid) (\<lambda>session.
           bindE (history_entries messages ws user sid before) (\<lambda>entries.
           let hasMore = int (length entries) > MaxHistoryMessages;
               entries = (if hasMore then drop (length entries - nat MaxHistoryMessages) entries
                          else entries);
               views = map message_view entries in
           ok \<lparr>shv_SessionID = cse_ID session, shv_Title = cse_Title session,
               shv_Messages = views, shv_HasMore = hasMore,
               shv_NextBefore = (if hasMore then mv_ID (hd views) else [])\<rparr>)))"

definition GetHistory ::
    "'s ChatSessionStore \<Rightarrow> 's MessageLogStore \<Rightarrow> string \<Rightarrow> string \<Rightarrow> string
     \<Rightarrow> ('s, SessionHistoryView) op" where
  "GetHistory sessions messages ws user sid = GetHistoryPage sessions messages ws user sid []"

end
