(* ===== verification/Conversation_Composition.thy ===== *)
theory Conversation_Composition
  imports Composition Conversation_Commands
begin

text \<open>
  The conversation routes as \<open>cmd/api/wiring.go\<close> wires them (\<open>registerConversationRoutes\<close>): the
  state of the program with the conversation's tables (\<open>brain\<close>), the gateway to the todo
  handlers, and the unit of work they join. The model adapter is a parameter, an answer per call;
  so are the zone database, the confirmations' lifetime and the history window (\<open>chat_env\<close>).
\<close>

section \<open>The state\<close>

record brain =
  br_world :: world
  br_conversation :: conversation_db

record chat_env =
  ce_Model :: "nat \<Rightarrow> MessageInput \<Rightarrow> gerr + RawMessage"
  ce_zone :: zone_db
  ce_ConfirmationTTL :: int
  ce_HistoryTurns :: int

definition on_world :: "(world, 'a) op \<Rightarrow> (brain, 'a) op" where
  "on_world = zoom br_world (\<lambda>w b. b\<lparr>br_world := w\<rparr>)"

definition on_tables :: "(conversation_db, 'a) op \<Rightarrow> (brain, 'a) op" where
  "on_tables = zoom br_conversation (\<lambda>t b. b\<lparr>br_conversation := t\<rparr>)"

definition act_on_world :: "(world, 'a) act \<Rightarrow> (brain, 'a) act" where
  "act_on_world m = (\<lambda>b. case m (br_world b) of (a, w) \<Rightarrow> (a, b\<lparr>br_world := w\<rparr>))"

definition brain_Now :: "env \<Rightarrow> (brain, time) act" where
  "brain_Now env = act_on_world (world_Now env)"

definition brain_newID :: "env \<Rightarrow> (brain, string) act" where
  "brain_newID env = act_on_world (world_newID env)"

text \<open>One transaction for both: a rollback restores the conversation's tables, not their sequence.\<close>

definition brain_driver :: "env \<Rightarrow> brain tx_driver" where
  "brain_driver env =
     \<lparr>tx_Begin = on_world (tx_Begin (world_driver env)),
      tx_Commit = on_world (tx_Commit (world_driver env)),
      tx_Rollback = (\<lambda>b b'. b'
        \<lparr>br_world := tx_Rollback (world_driver env) (br_world b) (br_world b'),
         br_conversation := (br_conversation b)\<lparr>cdb_next := cdb_next (br_conversation b')\<rparr>\<rparr>)\<rparr>"

definition brain_uow :: "env \<Rightarrow> (brain, 'a) op \<Rightarrow> (brain, 'a) op" where
  "brain_uow env = JoinableUoW_Run (brain_driver env) False"

definition confirmations :: "brain ConfirmationStore" where
  "confirmations =
     \<lparr>cfs_Save = (\<lambda>c. on_tables (cfs_Save pg_confirmation_store c)),
      cfs_Get = (\<lambda>ws user i. on_tables (cfs_Get pg_confirmation_store ws user i)),
      cfs_Consume = (\<lambda>ws user i now. on_tables (cfs_Consume pg_confirmation_store ws user i now))\<rparr>"

definition message_log :: "brain MessageLogStore" where
  "message_log =
     \<lparr>mls_Append = (\<lambda>m. on_tables (mls_Append pg_message_store m)),
      mls_ListBySession = (\<lambda>ws user i l. on_tables (mls_ListBySession pg_message_store ws user i l)),
      mls_ListBefore = map_option (\<lambda>f ws user i before l. on_tables (f ws user i before l))
        (mls_ListBefore pg_message_store)\<rparr>"

definition chat_sessions :: "brain ChatSessionStore" where
  "chat_sessions =
     \<lparr>css_Create = (\<lambda>s. on_tables (css_Create pg_chat_store s)),
      css_Get = (\<lambda>ws user i. on_tables (css_Get pg_chat_store ws user i)),
      css_List = (\<lambda>ws user l. on_tables (css_List pg_chat_store ws user l)),
      css_Rename = (\<lambda>ws user i title now. on_tables (css_Rename pg_chat_store ws user i title now)),
      css_Delete = (\<lambda>ws user i. on_tables (css_Delete pg_chat_store ws user i)),
      css_Touch = (\<lambda>ws user i now. on_tables (css_Touch pg_chat_store ws user i now)),
      css_ListPage = map_option (\<lambda>f ws user k l. on_tables (f ws user k l))
        (css_ListPage pg_chat_store)\<rparr>"

definition history_store :: "brain HistoryImporter" where
  "history_store =
     \<lparr>hi_ImportSession = (\<lambda>ws user i r. on_tables (pg_history_ImportSession ws user i r)),
      hi_ImportMessage = (\<lambda>ws user r. on_tables (pg_history_ImportMessage ws user r))\<rparr>"

definition history_reader :: "brain HistoryExporter" where
  "history_reader =
     \<lparr>he_ExportSessions = (\<lambda>ws user k l. on_tables (pg_history_ExportSessions ws user k l)),
      he_ExportMessages = (\<lambda>ws user k l. on_tables (pg_history_ExportMessages ws user k l))\<rparr>"

section \<open>The gateway to the todo module\<close>

text \<open>\<open>GetTodo\<close> of the shim: an already deleted todo is not told from a missing one.\<close>

definition gateway_GetTodo ::
    "'s TodoStore \<Rightarrow> ('s, time) act \<Rightarrow> string \<Rightarrow> string \<Rightarrow> string \<Rightarrow> ('s, TodoView) op" where
  "gateway_GetTodo store Now ws owner i =
     tryE (GetTodo store Now ws owner i)
       (\<lambda>todo. if v_Status todo = ''deleted'' then fail (ConversationErr conversation_ErrTodoNotFound)
               else ok todo)
       (\<lambda>e. if e = TodoErr ErrTodoNotFound then fail (ConversationErr conversation_ErrTodoNotFound)
            else fail e)"

text \<open>
  The handlers that write run inside the conversation's unit of work, whose transaction the todo
  module's own unit of work joins.
\<close>

definition joined :: "env \<Rightarrow> (world, 'a) op \<Rightarrow> (world, 'a) op" where
  "joined env = JoinableUoW_Run (world_driver env) True"

definition joined_CreateTodo :: "env \<Rightarrow> CreateTodoRequest \<Rightarrow> (world, TodoView) op" where
  "joined_CreateTodo env = CreateTodo (todos env) (joined env) (planner env) (provider env)
     (world_newID env) (world_Now env)"

definition joined_DeleteTodo :: "env \<Rightarrow> VersionedRequest \<Rightarrow> (world, TodoView) op" where
  "joined_DeleteTodo env = DeleteTodo (todos env) (joined env) (planner env) (world_Now env)"

definition gateway :: "env \<Rightarrow> brain TodoGateway" where
  "gateway env =
     \<lparr>tg_CreateTodo = (\<lambda>r. on_world (joined_CreateTodo env r)),
      tg_ListTodos = (\<lambda>ws owner f. on_world (ListTodos (todos env) (world_Now env) ws owner f)),
      tg_SearchCandidates = (\<lambda>ws owner k. on_world (SearchCandidates (todos env) ws owner k)),
      tg_GetTodo = (\<lambda>ws owner i. on_world (gateway_GetTodo (todos env) (world_Now env) ws owner i)),
      tg_DeleteTodo = (\<lambda>r. on_world (joined_DeleteTodo env r))\<rparr>"

section \<open>The handlers as wired\<close>

definition ask_model :: "chat_env \<Rightarrow> MessageInput \<Rightarrow> (brain, RawMessage) op" where
  "ask_model cenv m = on_world (bindA (ask (\<lambda>k. ce_Model cenv k m)) ret)"

definition process_ports :: "env \<Rightarrow> chat_env \<Rightarrow> brain ProcessPorts" where
  "process_ports env cenv =
     \<lparr>pm_Model = ask_model cenv, pm_Todos = gateway env, pm_Confirmations = confirmations,
      pm_Sessions = chat_sessions, pm_Messages = message_log,
      pm_UoW = \<lparr>uw_session = brain_uow env, uw_created = brain_uow env, uw_listed = brain_uow env\<rparr>,
      pm_NewConfirmationID = brain_newID env, pm_NewSessionID = brain_newID env,
      pm_Now = brain_Now env, pm_ConfirmationTTL = ce_ConfirmationTTL cenv,
      pm_HistoryTurns = ce_HistoryTurns cenv\<rparr>"

definition api_ProcessMessage :: "env \<Rightarrow> chat_env \<Rightarrow> message_turn \<Rightarrow> (brain, MessageResponse) op" where
  "api_ProcessMessage env cenv = ProcessMessage (ce_zone cenv) (process_ports env cenv)"

definition confirm_ports :: "env \<Rightarrow> brain ConfirmPorts" where
  "confirm_ports env =
     \<lparr>ca_Confirmations = confirmations, ca_Todos = gateway env, ca_Sessions = Some chat_sessions,
      ca_Messages = Some message_log, ca_UoW = brain_uow env, ca_Now = brain_Now env\<rparr>"

definition api_ConfirmAction ::
    "env \<Rightarrow> string \<Rightarrow> string \<Rightarrow> string \<Rightarrow> string \<Rightarrow> (brain, MessageResponse) op" where
  "api_ConfirmAction env = ConfirmActionWithSession (confirm_ports env)"

definition api_CreateConfirmation ::
    "env \<Rightarrow> chat_env \<Rightarrow> string \<Rightarrow> string \<Rightarrow> string \<Rightarrow> string \<Rightarrow> (brain, ConfirmationRequest) op" where
  "api_CreateConfirmation env cenv = CreateConfirmation (gateway env) confirmations
     (brain_newID env) (brain_Now env) (ce_ConfirmationTTL cenv)"

definition api_CreateSession ::
    "env \<Rightarrow> string \<Rightarrow> string \<Rightarrow> string \<Rightarrow> (brain, ChatSessionView) op" where
  "api_CreateSession env = CreateSession chat_sessions (brain_newID env) (brain_Now env)"

definition api_RenameSession ::
    "env \<Rightarrow> string \<Rightarrow> string \<Rightarrow> string \<Rightarrow> string \<Rightarrow> (brain, ChatSessionView) op" where
  "api_RenameSession env = RenameSession chat_sessions (brain_Now env)"

definition api_DeleteSession :: "string \<Rightarrow> string \<Rightarrow> string \<Rightarrow> (brain, unit) op" where
  "api_DeleteSession = DeleteSession chat_sessions"

definition api_ListSessions :: "string \<Rightarrow> string \<Rightarrow> int \<Rightarrow> (brain, SessionListView) op" where
  "api_ListSessions = ListSessionsPage chat_sessions"

definition api_GetHistory ::
    "string \<Rightarrow> string \<Rightarrow> string \<Rightarrow> string \<Rightarrow> (brain, SessionHistoryView) op" where
  "api_GetHistory = GetHistoryPage chat_sessions message_log"

text \<open>The history handlers, which the portability module calls.\<close>

definition api_ImportSession ::
    "env \<Rightarrow> string \<Rightarrow> string \<Rightarrow> HistorySession \<Rightarrow> (brain, string) op" where
  "api_ImportSession env = ImportSession history_store (brain_newID env)"

definition api_ImportMessage :: "string \<Rightarrow> string \<Rightarrow> HistoryRecord \<Rightarrow> (brain, string) op" where
  "api_ImportMessage = ImportMessage history_store"

end
