(* ===== verification/Conversation_Laws.thy ===== *)
theory Conversation_Laws
  imports Conversation_Commands
begin

text \<open>
  The invariant of the conversation's tables, what each statement keeps of it and of the
  confirmations, and the paged reads. The locale \<open>chat_tables\<close> says that the stores a handler is
  given run the PostgreSQL adapters on a part of the state; its lemmas are what the handlers that
  only read promise.
\<close>

section \<open>The invariant of the tables\<close>

text \<open>
  Keys are unique and drawn from the sequence, a row of a session has the session's owner, and
  only deletions are ever confirmed.
\<close>

definition message_owned :: "ChatSession list \<Rightarrow> MessageLog \<Rightarrow> bool" where
  "message_owned ss m \<longleftrightarrow>
     (case ml_SessionID m of None \<Rightarrow> True
      | Some sid \<Rightarrow> \<exists>s \<in> set ss. session_scope (ml_WorkspaceID m) (ml_UserID m) sid s)"

definition conversation_inv :: "conversation_db \<Rightarrow> bool" where
  "conversation_inv db \<longleftrightarrow>
     distinct (map cse_ID (cdb_sessions db)) \<and> distinct (map cfm_ID (cdb_confirmations db))
     \<and> sorted_wrt (<) (map mr_ID (cdb_messages db))
     \<and> (\<forall>r \<in> set (cdb_messages db). 1 \<le> mr_ID r \<and> mr_ID r < cdb_next db
          \<and> message_owned (cdb_sessions db) (mr_Log r))
     \<and> (\<forall>c \<in> set (cdb_confirmations db). cfm_Intent c = IntentTodoDelete)
     \<and> 1 \<le> cdb_next db \<and> cdb_next db \<le> 2 ^ 63"

text \<open>A confirmation stays, and once it is consumed it stays as it is.\<close>

definition confirmation_evolves :: "ConfirmationRequest \<Rightarrow> ConfirmationRequest \<Rightarrow> bool" where
  "confirmation_evolves c c' \<longleftrightarrow>
     (c' = c \<or> cfm_ConsumedAt c = None \<and> (\<exists>now. c' = c\<lparr>cfm_ConsumedAt := Some now\<rparr>))"

definition confirmations_evolve :: "ConfirmationRequest list \<Rightarrow> ConfirmationRequest list \<Rightarrow> bool" where
  "confirmations_evolve cs cs' \<longleftrightarrow> (\<forall>c \<in> set cs. \<exists>c' \<in> set cs'. confirmation_evolves c c')"

definition tables_evolve :: "conversation_db \<Rightarrow> conversation_db \<Rightarrow> bool" where
  "tables_evolve db db' \<longleftrightarrow> conversation_inv db' \<and> cdb_next db \<le> cdb_next db'
     \<and> confirmations_evolve (cdb_confirmations db) (cdb_confirmations db')"

lemma confirmation_evolves_trans:
  "confirmation_evolves a b \<Longrightarrow> confirmation_evolves b c \<Longrightarrow> confirmation_evolves a c"
  by (auto simp: confirmation_evolves_def)

lemma confirmations_evolve_refl [simp]: "confirmations_evolve cs cs"
  by (auto simp: confirmations_evolve_def confirmation_evolves_def)

lemma confirmations_evolve_append [simp]: "confirmations_evolve cs (cs @ ds)"
  by (auto simp: confirmations_evolve_def confirmation_evolves_def)

lemma confirmations_evolve_trans:
  "confirmations_evolve a b \<Longrightarrow> confirmations_evolve b c \<Longrightarrow> confirmations_evolve a c"
  unfolding confirmations_evolve_def by (meson confirmation_evolves_trans)

lemma tables_evolve_refl: "conversation_inv db \<Longrightarrow> tables_evolve db db"
  by (simp add: tables_evolve_def)

lemma tables_evolve_trans: "tables_evolve a b \<Longrightarrow> tables_evolve b c \<Longrightarrow> tables_evolve a c"
  by (auto simp: tables_evolve_def intro: confirmations_evolve_trans)

lemma tables_evolve_inv: "tables_evolve a b \<Longrightarrow> conversation_inv b"
  by (simp add: tables_evolve_def)

lemma confirmations_replaced:
  assumes "conversation_inv db" "map cfm_ID cs = map cfm_ID (cdb_confirmations db)"
    "\<forall>c \<in> set cs. cfm_Intent c = IntentTodoDelete" "confirmations_evolve (cdb_confirmations db) cs"
  shows "tables_evolve db (db\<lparr>cdb_confirmations := cs\<rparr>)"
  using assms unfolding tables_evolve_def conversation_inv_def by simp

lemma sessions_replaced:
  assumes "conversation_inv db" "map cse_ID ss = map cse_ID (cdb_sessions db)"
    "\<And>m. message_owned (cdb_sessions db) m \<Longrightarrow> message_owned ss m"
  shows "tables_evolve db (db\<lparr>cdb_sessions := ss\<rparr>)"
  using assms unfolding tables_evolve_def conversation_inv_def by simp

section \<open>The statements\<close>

lemma pg_confirmation_reads:
  "pg_confirmation_Get ws user i db = (r, db') \<Longrightarrow> db' = db"
  by (auto simp: pg_confirmation_Get_def split: option.splits)

lemma pg_confirmation_Get_row:
  assumes "pg_confirmation_Get ws user i db = (Inr c, db')"
  shows "c \<in> set (cdb_confirmations db)" "confirmation_scope ws user i c"
  using assms by (auto simp: pg_confirmation_Get_def dest: find_SomeD split: option.splits)

lemma confirmation_row_unique:
  assumes "conversation_inv db" "c \<in> set (cdb_confirmations db)" "d \<in> set (cdb_confirmations db)"
    "confirmation_scope ws user i c" "confirmation_scope ws' user' i d"
  shows "c = d"
  using assms distinct_key_eq [of cfm_ID "cdb_confirmations db" c d]
  by (simp add: conversation_inv_def confirmation_scope_def)

lemma filter_key:
  "distinct (map f rows) \<Longrightarrow> c \<in> set rows \<Longrightarrow> filter (\<lambda>r. f r = f c) rows = [c]"
proof (induction rows)
  case (Cons r rows)
  have "filter (\<lambda>r. f r = f c) rows = []" if "r = c"
    using Cons.prems(1) that by (auto simp: filter_empty_conv image_iff)
  moreover have "f r \<noteq> f c" if "c \<in> set rows"
    using Cons.prems(1) that by (metis distinct.simps(2) image_eqI list.set_map list.simps(9))
  ultimately show ?case using Cons by auto
qed simp

text \<open>The conditional update does what \<open>Consume\<close> of the domain does to the caller's row.\<close>

lemma pg_confirmation_Consume_row:
  assumes inv: "conversation_inv db" and c: "c \<in> set (cdb_confirmations db)" "confirmation_scope ws user i c"
  shows "pg_confirmation_Consume ws user i now db =
    (case Consume c now of
       Inl e \<Rightarrow> (Inl (ConversationErr e), db)
     | Inr c' \<Rightarrow> (Inr (), db\<lparr>cdb_confirmations :=
         map (\<lambda>r. if cfm_ID r = i then c' else r) (cdb_confirmations db)\<rparr>))"
proof -
  let ?rows = "cdb_confirmations db"
  let ?hit = "\<lambda>r. confirmation_scope ws user i r \<and> cfm_ConsumedAt r = None \<and> cfm_ExpiresAt r > now"
  have only: "r = c" if "r \<in> set ?rows" "cfm_ID r = i" for r
    using distinct_key_eq [of cfm_ID ?rows r c] inv c that
    by (simp add: conversation_inv_def confirmation_scope_def)
  have f: "find (confirmation_scope ws user i) ?rows = Some c"
  proof (rule find_unique [where k = cfm_ID])
    show "distinct (map cfm_ID ?rows)" using inv by (simp add: conversation_inv_def)
    fix q assume "confirmation_scope ws user i q"
    with c(2) show "cfm_ID q = cfm_ID c" by (simp add: confirmation_scope_def)
  qed fact+
  show ?thesis
  proof (cases "?hit c")
    case True
    have "filter ?hit ?rows = filter (\<lambda>r. cfm_ID r = i) ?rows"
    proof (rule filter_cong [OF refl])
      fix r assume r: "r \<in> set ?rows"
      show "?hit r \<longleftrightarrow> cfm_ID r = i"
      proof
        assume "cfm_ID r = i"
        from only [OF r this] True show "?hit r" by simp
      qed (simp add: confirmation_scope_def)
    qed
    also have "\<dots> = [c]"
      using filter_key [of cfm_ID ?rows c] inv c by (simp add: conversation_inv_def confirmation_scope_def)
    finally have one: "length (filter ?hit ?rows) = 1" by simp
    have "(if ?hit r then r\<lparr>cfm_ConsumedAt := Some now\<rparr> else r)
        = (if cfm_ID r = i then c\<lparr>cfm_ConsumedAt := Some now\<rparr> else r)" if r: "r \<in> set ?rows" for r
    proof (cases "cfm_ID r = i")
      case True
      from only [OF r this] \<open>?hit c\<close> c(2) show ?thesis by (simp add: confirmation_scope_def)
    qed (simp add: confirmation_scope_def)
    then have "update_where ?hit (\<lambda>r. r\<lparr>cfm_ConsumedAt := Some now\<rparr>) ?rows
        = map (\<lambda>r. if cfm_ID r = i then c\<lparr>cfm_ConsumedAt := Some now\<rparr> else r) ?rows"
      by (simp add: update_where_def)
    with one True show ?thesis
      by (simp add: pg_confirmation_Consume_def Consume_def IsConsumed_def IsExpired_def)
  next
    case False
    have "\<not> ?hit r" if r: "r \<in> set ?rows" for r
    proof
      assume h: "?hit r"
      then have "cfm_ID r = i" by (simp add: confirmation_scope_def)
      from only [OF r this] h False show False by simp
    qed
    then have "filter ?hit ?rows = []" by (simp add: filter_empty_conv)
    then have none: "length (filter ?hit ?rows) \<noteq> 1" by simp
    have "pg_confirmation_Consume ws user i now db =
        (Inl (ConversationErr (if cfm_ConsumedAt c \<noteq> None then ErrConfirmationConsumed
                               else ErrConfirmationExpired)), db)"
      using none f by (simp add: pg_confirmation_Consume_def Let_def)
    with False c(2) show ?thesis
      by (auto simp: Consume_def IsConsumed_def IsExpired_def)
  qed
qed

lemma pg_confirmation_Save_row:
  assumes "pg_confirmation_Save c db = (r, db')"
  shows "r = Inr () \<and> cfm_ID c \<notin> cfm_ID ` set (cdb_confirmations db)
      \<and> db' = db\<lparr>cdb_confirmations := cdb_confirmations db @ [c]\<rparr>
    \<or> r = Inl unique_violation \<and> db' = db"
  using assms by (auto simp: pg_confirmation_Save_def split: if_splits)

lemma Save_evolves:
  assumes "conversation_inv db" "cfm_Intent c = IntentTodoDelete" "pg_confirmation_Save c db = (r, db')"
  shows "tables_evolve db db'"
  using pg_confirmation_Save_row [OF assms(3)] assms(1,2)
  by (auto simp: tables_evolve_def conversation_inv_def)

lemma Consume_evolves:
  assumes inv: "conversation_inv db" and run: "pg_confirmation_Consume ws user i now db = (r, db')"
  shows "tables_evolve db db'"
proof (cases "\<exists>c \<in> set (cdb_confirmations db). confirmation_scope ws user i c")
  case False
  then have "filter (\<lambda>c. confirmation_scope ws user i c \<and> cfm_ConsumedAt c = None
      \<and> cfm_ExpiresAt c > now) (cdb_confirmations db) = []"
    by (auto simp: filter_empty_conv)
  with run have "db' = db"
    by (simp add: pg_confirmation_Consume_def Let_def split: option.splits)
  with inv show ?thesis by (simp add: tables_evolve_refl)
next
  case True
  then obtain c where c: "c \<in> set (cdb_confirmations db)" "confirmation_scope ws user i c" by blast
  show ?thesis
  proof (cases "Consume c now")
    case (Inl e)
    with run pg_confirmation_Consume_row [OF inv c, of now] have "db' = db" by simp
    with inv show ?thesis by (simp add: tables_evolve_refl)
  next
    case (Inr c')
    let ?f = "\<lambda>r. if cfm_ID r = i then c' else r"
    from Inr run pg_confirmation_Consume_row [OF inv c, of now]
    have db': "db' = db\<lparr>cdb_confirmations := map ?f (cdb_confirmations db)\<rparr>" by simp
    have c': "cfm_ConsumedAt c = None" "c' = c\<lparr>cfm_ConsumedAt := Some now\<rparr>"
      using Inr by (simp_all add: Consume_Inr)
    have i: "cfm_ID c = i" using c(2) by (simp add: confirmation_scope_def)
    have each: "confirmation_evolves r (?f r) \<and> cfm_ID (?f r) = cfm_ID r
        \<and> cfm_Intent (?f r) = cfm_Intent r" if r: "r \<in> set (cdb_confirmations db)" for r
    proof (cases "cfm_ID r = i")
      case True
      have "r = c" using confirmation_row_unique [OF inv r c(1) _ c(2), of "cfm_WorkspaceID r" "cfm_UserID r"]
        True by (simp add: confirmation_scope_def)
      with c' True show ?thesis by (auto simp: confirmation_evolves_def)
    qed (simp add: confirmation_evolves_def)
    then have "map cfm_ID (map ?f (cdb_confirmations db)) = map cfm_ID (cdb_confirmations db)" by simp
    moreover have "confirmations_evolve (cdb_confirmations db) (map ?f (cdb_confirmations db))"
      unfolding confirmations_evolve_def set_map using each by blast
    moreover have "\<forall>r \<in> set (map ?f (cdb_confirmations db)). cfm_Intent r = IntentTodoDelete"
    proof
      fix q assume "q \<in> set (map ?f (cdb_confirmations db))"
      then obtain r where r: "r \<in> set (cdb_confirmations db)" "q = ?f r" by auto
      with each [OF r(1)] inv show "cfm_Intent q = IntentTodoDelete"
        unfolding r(2) conversation_inv_def by metis
    qed
    ultimately show ?thesis unfolding db' by (intro confirmations_replaced [OF inv])
  qed
qed

lemma session_existsD: "session_exists db i \<Longrightarrow> \<exists>s \<in> set (cdb_sessions db). cse_ID s = i"
  by (auto simp: session_exists_def list_ex_iff)

lemma session_unique:
  assumes "conversation_inv db" "s \<in> set (cdb_sessions db)" "t \<in> set (cdb_sessions db)" "cse_ID s = cse_ID t"
  shows "s = t"
  using assms distinct_key_eq [of cse_ID "cdb_sessions db" s t] by (simp add: conversation_inv_def)

lemma insert_evolves:
  assumes inv: "conversation_inv db" and own: "message_owned (cdb_sessions db) m"
    and run: "next_key db = (Inr i, db1)"
  shows "tables_evolve db (insert_message m i db1)"
proof -
  from run have i: "i = cdb_next db" "db1 = db\<lparr>cdb_next := cdb_next db + 1\<rparr>" "cdb_next db < 2 ^ 63"
    by (auto simp: next_key_def split: if_splits)
  with inv own show ?thesis
    by (auto simp: tables_evolve_def conversation_inv_def insert_message_def sorted_wrt_append)
qed

lemma drawn_evolves:
  assumes inv: "conversation_inv db" and run: "next_key db = (r, db1)"
  shows "tables_evolve db db1"
  using assms
  by (auto simp: tables_evolve_def conversation_inv_def next_key_def split: if_splits) force

lemma Append_evolves:
  assumes inv: "conversation_inv db" and own: "message_owned (cdb_sessions db) m"
    and run: "pg_message_Append m db = (r, db')"
  shows "tables_evolve db db' \<and> cdb_sessions db' = cdb_sessions db"
proof (cases "next_key db")
  case (Pair k db1)
  then have s: "cdb_sessions db1 = cdb_sessions db" by (auto simp: next_key_def split: if_splits)
  show ?thesis
  proof (cases k)
    case (Inl e)
    with run Pair s drawn_evolves [OF inv Pair] show ?thesis
      by (simp add: pg_message_Append_def bindE_run)
  next
    case (Inr i)
    with run Pair s drawn_evolves [OF inv Pair] insert_evolves [OF inv own, of i db1] show ?thesis
      by (auto simp: pg_message_Append_def bindE_run insert_message_def split: if_splits)
  qed
qed

lemma Create_evolves:
  assumes inv: "conversation_inv db" and run: "pg_chat_Create s db = (r, db')"
  shows "tables_evolve db db' \<and> (r = Inr () \<longrightarrow> s \<in> set (cdb_sessions db'))"
  using assms
  by (auto simp: pg_chat_Create_def tables_evolve_def conversation_inv_def session_exists_def
      list_ex_iff message_owned_def split: if_splits option.splits) (metis (no_types, lifting))+

text \<open>A statement that keeps keys and owners of the sessions.\<close>

lemma sessions_map_evolves:
  assumes inv: "conversation_inv db"
    and f: "\<And>s. cse_ID (f s) = cse_ID s \<and> cse_WorkspaceID (f s) = cse_WorkspaceID s
      \<and> cse_UserID (f s) = cse_UserID s"
  shows "tables_evolve db (db\<lparr>cdb_sessions := update_where P f (cdb_sessions db)\<rparr>)"
proof -
  let ?g = "\<lambda>s. if P s then f s else s"
  have keys: "map cse_ID (map ?g (cdb_sessions db)) = map cse_ID (cdb_sessions db)" using f by simp
  have "message_owned (map ?g (cdb_sessions db)) m" if "message_owned (cdb_sessions db) m" for m
  proof (cases "ml_SessionID m")
    case (Some sid)
    with that obtain s where s: "s \<in> set (cdb_sessions db)"
      "session_scope (ml_WorkspaceID m) (ml_UserID m) sid s" by (auto simp: message_owned_def)
    then have "session_scope (ml_WorkspaceID m) (ml_UserID m) sid (?g s)"
      using f by (simp add: session_scope_def)
    with s(1) have "\<exists>s \<in> set (map ?g (cdb_sessions db)).
        session_scope (ml_WorkspaceID m) (ml_UserID m) sid s" unfolding set_map by blast
    with Some show ?thesis by (simp add: message_owned_def)
  qed (simp add: message_owned_def)
  then show ?thesis unfolding update_where_def by (rule sessions_replaced [OF inv keys])
qed

lemma scopedUpdate_evolves:
  assumes "\<And>db. conversation_inv db \<Longrightarrow> tables_evolve db (statement db)" "conversation_inv db"
    and "scopedUpdate statement ws user i db = (r, db')"
  shows "tables_evolve db db'"
  using assms by (auto simp: scopedUpdate_def split: if_splits)

lemma Rename_evolves:
  "conversation_inv db \<Longrightarrow> pg_chat_Rename ws user i title now db = (r, db') \<Longrightarrow> tables_evolve db db'"
  unfolding pg_chat_Rename_def
  by (rule scopedUpdate_evolves [rotated]) (auto intro: sessions_map_evolves)

lemma Touch_evolves:
  "conversation_inv db \<Longrightarrow> pg_chat_Touch ws user i now db = (r, db') \<Longrightarrow> tables_evolve db db'"
  unfolding pg_chat_Touch_def
  by (rule scopedUpdate_evolves [rotated]) (auto intro: sessions_map_evolves)

text \<open>Deleting a session takes its messages with it, so that no row loses its owner.\<close>

lemma Delete_evolves:
  assumes inv: "conversation_inv db" and run: "pg_chat_Delete ws user i db = (r, db')"
  shows "tables_evolve db db'"
proof (rule scopedUpdate_evolves [OF _ inv run [unfolded pg_chat_Delete_def]])
  fix db :: conversation_db assume inv: "conversation_inv db"
  let ?ss = "filter (\<lambda>s. \<not> session_scope ws user i s) (cdb_sessions db)"
  let ?ms = "filter (\<lambda>r. \<not> (\<exists>s \<in> set (cdb_sessions db). session_scope ws user i s
            \<and> ml_SessionID (mr_Log r) = Some (cse_ID s))) (cdb_messages db)"
  have own: "message_owned ?ss (mr_Log r)" if r: "r \<in> set ?ms" for r
  proof (cases "ml_SessionID (mr_Log r)")
    case (Some sid)
    have "message_owned (cdb_sessions db) (mr_Log r)" using inv r by (simp add: conversation_inv_def)
    then obtain s where s: "s \<in> set (cdb_sessions db)"
      "session_scope (ml_WorkspaceID (mr_Log r)) (ml_UserID (mr_Log r)) sid s"
      using Some by (auto simp: message_owned_def)
    have "\<not> session_scope ws user i s"
    proof
      assume "session_scope ws user i s"
      moreover have "cse_ID s = sid" using s(2) by (simp add: session_scope_def)
      ultimately show False using r s(1) Some by auto
    qed
    with s Some show ?thesis by (auto simp: message_owned_def)
  qed (simp add: message_owned_def)
  have "sorted_wrt (<) (map mr_ID ?ms)"
    using inv by (simp add: conversation_inv_def sorted_wrt_map sorted_wrt_filter)
  moreover have "distinct (map cse_ID ?ss)"
    using inv by (simp add: conversation_inv_def distinct_map_filter)
  ultimately show "tables_evolve db (db\<lparr>cdb_sessions := ?ss, cdb_messages := ?ms\<rparr>)"
    using inv own unfolding tables_evolve_def conversation_inv_def by simp
qed

lemma ImportMessage_evolves:
  assumes inv: "conversation_inv db" and run: "pg_history_ImportMessage ws user m db = (r, db')"
  shows "tables_evolve db db'"
proof (cases "hr_SessionID m \<noteq> None
         \<and> \<not> list_ex (session_scope ws user (the (hr_SessionID m))) (cdb_sessions db)")
  case True
  with run inv show ?thesis by (simp add: pg_history_ImportMessage_def tables_evolve_refl)
next
  case False
  then have own: "message_owned (cdb_sessions db) (imported_message ws user m)"
    by (auto simp: message_owned_def imported_message_def list_ex_iff split: option.splits)
  obtain k db1 where k: "next_key db = (k, db1)" by (cases "next_key db")
  have go: "bindE next_key (\<lambda>i db. (Inr (Itoa i), insert_message (imported_message ws user m) i db)) db
      = (r, db')" using run False by (auto simp: pg_history_ImportMessage_def)
  show ?thesis
  proof (cases k)
    case (Inl e)
    with go k drawn_evolves [OF inv k] show ?thesis by (simp add: bindE_run)
  next
    case (Inr i)
    with go k insert_evolves [OF inv own, of i db1] show ?thesis by (simp add: bindE_run)
  qed
qed

section \<open>Pages of a transcript\<close>

text \<open>The rows of a session that a cursor has not passed, oldest first.\<close>

definition rows_before :: "string \<Rightarrow> string \<Rightarrow> string \<Rightarrow> string \<Rightarrow> conversation_db \<Rightarrow> message_row list" where
  "rows_before ws user sid before db =
     filter (\<lambda>r. in_session ws user sid r \<and> (before = [] \<or> mr_ID r < the (ParseInt64 before)))
       (cdb_messages db)"

definition last_rows :: "nat \<Rightarrow> 'r list \<Rightarrow> 'r list" where
  "last_rows n rows = drop (length rows - n) rows"

lemma last_rows_take: "rev (take n (rev rows)) = last_rows n rows"
  by (simp add: take_rev last_rows_def)

lemma ordered_insert: "(\<And>y. y \<in> set ys \<Longrightarrow> \<not> le x y) \<Longrightarrow> insert_row le x ys = ys @ [x]"
  by (induction ys) auto

lemma order_rows_rev:
  fixes key :: "'r \<Rightarrow> int"
  shows "sorted_wrt (<) (map key rows) \<Longrightarrow> order_rows (\<lambda>a b. key a \<ge> key b) rows = rev rows"
proof (induction rows)
  case (Cons r rows)
  then have "insert_row (\<lambda>a b. key a \<ge> key b) r (rev rows) = rev rows @ [r]"
    by (intro ordered_insert) fastforce
  with Cons show ?case by (simp add: order_rows_def)
qed (simp add: order_rows_def)

lemma ParseInt64_Itoa:
  assumes "0 \<le> i" "i < 2 ^ 63"
  shows "ParseInt64 (Itoa i) = Some i"
proof -
  have d: "list_all is_digit (nat_digits (nat i))" by (rule nat_digits_are_digits)
  then have "is_digit (hd (nat_digits (nat i)))" by (simp add: list_all_iff)
  then have "hd (nat_digits (nat i)) \<notin> {CHR ''+'', CHR ''-''}" by (auto simp: is_digit_def byte_def)
  with d assms show ?thesis by (simp add: ParseInt64_def Itoa_def)
qed

lemma valid_before_Itoa: "1 \<le> i \<Longrightarrow> i < 2 ^ 63 \<Longrightarrow> valid_before (Itoa i) \<and> Itoa i \<noteq> []"
  using ParseInt64_Itoa [of i] nat_digits_are_digits [of "nat i"]
  by (simp add: valid_before_def Itoa_def)

lemma sorted_rows_before:
  "conversation_inv db \<Longrightarrow> sorted_wrt (<) (map mr_ID (rows_before ws user sid before db))"
  by (simp add: conversation_inv_def rows_before_def sorted_wrt_map sorted_wrt_filter)

lemma pg_message_ListBefore_rows:
  assumes "conversation_inv db" "before = [] \<or> ParseInt64 before \<noteq> None"
  shows "pg_message_ListBefore ws user sid before limit db =
    (Inr (map (entry_of sid) (last_rows (nat limit) (rows_before ws user sid before db))), db)"
proof -
  have "filter (\<lambda>r. in_session ws user sid r \<and> ((if before = [] then None else ParseInt64 before) = None
        \<or> mr_ID r < the (if before = [] then None else ParseInt64 before))) (cdb_messages db)
      = rows_before ws user sid before db"
    using assms(2) by (auto simp: rows_before_def intro!: filter_cong)
  then have "older_rows ws user sid (if before = [] then None else ParseInt64 before) db
      = rev (rows_before ws user sid before db)"
    using order_rows_rev [OF sorted_rows_before [OF assms(1)]] by (simp add: older_rows_def)
  then show ?thesis
    using assms(2) by (simp add: pg_message_ListBefore_def Let_def page_def rev_map last_rows_take)
qed

text \<open>Cutting an ascending list at one of its keys.\<close>

lemma before_key:
  fixes key :: "'r \<Rightarrow> int"
  assumes "sorted_wrt (<) (map key (xs @ y # ys))"
  shows "filter (\<lambda>r. key r < key y) (xs @ y # ys) = xs"
  using assms by (auto simp: sorted_wrt_append filter_empty_conv intro!: filter_True)

lemma rows_before_split:
  assumes inv: "conversation_inv db" and n: "n < length (rows_before ws user sid before db)" "0 < n"
  shows "\<exists>i. mr_ID (hd (last_rows n (rows_before ws user sid before db))) = i \<and> 1 \<le> i \<and> i < 2 ^ 63
    \<and> rows_before ws user sid (Itoa i) db @ last_rows n (rows_before ws user sid before db)
      = rows_before ws user sid before db"
proof -
  let ?R = "rows_before ws user sid before db"
  obtain y ys where y: "last_rows n ?R = y # ys"
    using n by (cases "last_rows n ?R") (auto simp: last_rows_def)
  obtain xs where R: "?R = xs @ y # ys"
    using y append_take_drop_id [of "length ?R - n" ?R] unfolding last_rows_def by metis
  have m: "y \<in> set (cdb_messages db)" "before = [] \<or> mr_ID y < the (ParseInt64 before)"
  proof -
    have "y \<in> set ?R" unfolding R by simp
    then show "y \<in> set (cdb_messages db)" "before = [] \<or> mr_ID y < the (ParseInt64 before)"
      by (auto simp: rows_before_def)
  qed
  then have i: "1 \<le> mr_ID y" "mr_ID y < 2 ^ 63" using inv by (auto simp: conversation_inv_def)
  have "rows_before ws user sid (Itoa (mr_ID y)) db = filter (\<lambda>r. mr_ID r < mr_ID y) ?R"
    using ParseInt64_Itoa [of "mr_ID y"] valid_before_Itoa [OF i] i m(2)
    by (auto simp: rows_before_def intro!: filter_cong)
  also have "\<dots> = xs"
    using sorted_rows_before [OF inv, of ws user sid before] unfolding R by (rule before_key)
  finally show ?thesis using i y R by simp
qed

section \<open>What the reading handlers promise\<close>

text \<open>A client that reads on, page by page, at most \<open>n\<close> pages.\<close>

fun read_pages ::
    "'s ChatSessionStore \<Rightarrow> 's MessageLogStore \<Rightarrow> nat \<Rightarrow> string \<Rightarrow> string \<Rightarrow> string \<Rightarrow> string
     \<Rightarrow> ('s, MessageView list) op" where
  "read_pages sessions messages 0 ws user sid before = fail (ConversationErr ErrInvalidPage)"
| "read_pages sessions messages (Suc n) ws user sid before =
     bindE (GetHistoryPage sessions messages ws user sid before) (\<lambda>view.
     if shv_HasMore view
     then bindE (read_pages sessions messages n ws user sid (shv_NextBefore view)) (\<lambda>rest.
          ok (rest @ shv_Messages view))
     else ok (shv_Messages view))"

locale chat_tables =
  fixes tables :: "'s \<Rightarrow> conversation_db"
    and sessions :: "'s ChatSessionStore"
    and messages :: "'s MessageLogStore"
  assumes get_runs: "runs_on tables (css_Get sessions ws user sid) (pg_chat_Get ws user sid)"
    and list_runs: "\<exists>paged. css_ListPage sessions = Some paged
      \<and> (\<forall>ws user k l. runs_on tables (paged ws user k l) (pg_chat_ListPage ws user k l))"
    and before_runs: "\<exists>paged. mls_ListBefore messages = Some paged
      \<and> (\<forall>ws user sid before l. runs_on tables (paged ws user sid before l)
            (pg_message_ListBefore ws user sid before l))"
begin

text \<open>
  A page holds the newest rows its cursor has not passed; when there are more, they are exactly
  the ones the page's own cursor has not passed.
\<close>

lemma history_page:
  assumes inv: "conversation_inv (tables s)"
    and run: "GetHistoryPage sessions messages ws user sid before s = (Inr view, s')"
  shows "tables s' = tables s"
    "shv_Messages view = map (message_view \<circ> entry_of sid)
       (last_rows 200 (rows_before ws user sid before (tables s)))"
    "shv_HasMore view \<longleftrightarrow> 200 < length (rows_before ws user sid before (tables s))"
    "shv_HasMore view \<Longrightarrow> shv_NextBefore view =
       Itoa (mr_ID (hd (last_rows 200 (rows_before ws user sid before (tables s)))))"
proof -
  let ?R = "rows_before ws user sid before (tables s)"
  obtain paged where p: "mls_ListBefore messages = Some paged"
      "\<And>l. runs_on tables (paged ws user sid before l) (pg_message_ListBefore ws user sid before l)"
    using before_runs by blast
  have b: "before = [] \<or> valid_before before"
    using run by (auto simp: GetHistoryPage_def split: if_splits)
  then have pb: "before = [] \<or> ParseInt64 before \<noteq> None" by (auto simp: valid_before_def)
  obtain session entries s1 s2 where g: "css_Get sessions ws user sid s = (Inr session, s1)"
      and e: "paged ws user sid before (MaxHistoryMessages + 1) s1 = (Inr entries, s2)"
      and v: "(let hasMore = int (length entries) > MaxHistoryMessages;
               entries = (if hasMore then drop (length entries - nat MaxHistoryMessages) entries
                          else entries);
               views = map message_view entries in
           ok \<lparr>shv_SessionID = cse_ID session, shv_Title = cse_Title session,
               shv_Messages = views, shv_HasMore = hasMore,
               shv_NextBefore = (if hasMore then mv_ID (hd views) else [])\<rparr>) s2 = (Inr view, s')"
    using run b by (auto simp: GetHistoryPage_def history_entries_def p(1) bindE_Inr_iff split: if_splits)
  have t1: "tables s1 = tables s"
    using runs_onD [OF get_runs g] by (auto simp: pg_chat_Get_def split: option.splits)
  have t2: "tables s2 = tables s" and ent: "entries = map (entry_of sid) (last_rows 201 ?R)"
    using runs_onD [OF p(2) e] pg_message_ListBefore_rows [OF inv pb, of ws user sid "MaxHistoryMessages + 1"]
    by (simp_all add: t1 MaxHistoryMessages_def)
  have len: "length entries = min 201 (length ?R)" by (simp add: ent last_rows_def)
  have cut: "(if 200 < length entries then drop (length entries - 200) entries else entries)
      = map (entry_of sid) (last_rows 200 ?R)"
  proof (cases "200 < length ?R")
    case True
    then have "Suc (length ?R - 201) = length ?R - 200" by simp
    with True len show ?thesis by (simp add: ent last_rows_def drop_map)
  next
    case False
    with len show ?thesis by (simp add: ent last_rows_def)
  qed
  have view: "s' = s2" "shv_HasMore view \<longleftrightarrow> 200 < length entries"
    "shv_Messages view = map message_view (map (entry_of sid) (last_rows 200 ?R))"
    "shv_HasMore view \<Longrightarrow> shv_NextBefore view
       = mv_ID (hd (map message_view (map (entry_of sid) (last_rows 200 ?R))))"
    using v cut by (auto simp: MaxHistoryMessages_def Let_def split: if_splits)
  show "tables s' = tables s" using view(1) t2 by simp
  show "shv_Messages view = map (message_view \<circ> entry_of sid) (last_rows 200 ?R)" using view(3) by simp
  show more: "shv_HasMore view \<longleftrightarrow> 200 < length ?R" using view(2) len by auto
  assume m: "shv_HasMore view"
  with more have "last_rows 200 ?R \<noteq> []" by (auto simp: last_rows_def)
  then show "shv_NextBefore view = Itoa (mr_ID (hd (last_rows 200 ?R)))"
    using view(4) [OF m] by (simp add: hd_map message_view_def entry_of_def)
qed

text \<open>The caller's session can be read to its first row: every page leaves fewer rows.\<close>

lemma history_page_ok:
  assumes inv: "conversation_inv (tables s)" and b: "before = [] \<or> valid_before before"
    and own: "\<exists>c \<in> set (cdb_sessions (tables s)). session_scope ws user sid c"
  shows "\<exists>view s'. GetHistoryPage sessions messages ws user sid before s = (Inr view, s')"
proof -
  obtain paged where p: "mls_ListBefore messages = Some paged"
      "\<And>l. runs_on tables (paged ws user sid before l) (pg_message_ListBefore ws user sid before l)"
    using before_runs by blast
  have pb: "before = [] \<or> ParseInt64 before \<noteq> None" using b by (auto simp: valid_before_def)
  obtain r s1 where g: "css_Get sessions ws user sid s = (r, s1)" by (cases "css_Get sessions ws user sid s")
  have "find (session_scope ws user sid) (cdb_sessions (tables s)) \<noteq> None"
    using own by (auto simp: find_None_iff)
  then obtain session where r: "r = Inr session" and t: "tables s1 = tables s"
    using runs_onD [OF get_runs g] by (auto simp: pg_chat_Get_def split: option.splits)
  obtain q s2 where e: "paged ws user sid before (MaxHistoryMessages + 1) s1 = (q, s2)"
    by (cases "paged ws user sid before (MaxHistoryMessages + 1) s1")
  obtain entries where "q = Inr entries"
    using runs_onD [OF p(2) e] pg_message_ListBefore_rows [OF inv pb] by (auto simp: t)
  with g r e b show ?thesis
    by (auto simp: GetHistoryPage_def history_entries_def p(1) bindE_run Let_def)
qed

lemma read_pages_ok:
  assumes "conversation_inv (tables s)" "before = [] \<or> valid_before before"
    "\<exists>c \<in> set (cdb_sessions (tables s)). session_scope ws user sid c"
    "length (rows_before ws user sid before (tables s)) < n"
  shows "\<exists>s'. read_pages sessions messages n ws user sid before s
    = (Inr (map (message_view \<circ> entry_of sid) (rows_before ws user sid before (tables s))), s')"
  using assms
proof (induction n arbitrary: s before)
  case (Suc n)
  let ?R = "rows_before ws user sid before (tables s)"
  obtain view s1 where run: "GetHistoryPage sessions messages ws user sid before s = (Inr view, s1)"
    using history_page_ok [OF Suc.prems(1-3)] by blast
  note h = history_page [OF Suc.prems(1) run]
  show ?case
  proof (cases "shv_HasMore view")
    case False
    with h(3) have "last_rows 200 ?R = ?R" by (simp add: last_rows_def)
    with False run h(2) show ?thesis by (simp add: bindE_run)
  next
    case True
    then have big: "200 < length ?R" using h(3) by simp
    from rows_before_split [OF Suc.prems(1) this]
    obtain i where i: "mr_ID (hd (last_rows 200 ?R)) = i" "1 \<le> i" "i < 2 ^ 63"
      "rows_before ws user sid (Itoa i) (tables s) @ last_rows 200 ?R = ?R" by auto
    have "length (rows_before ws user sid (Itoa i) (tables s)) < n"
      using arg_cong [OF i(4), of length] big Suc.prems(4) by (simp add: last_rows_def)
    then obtain s' where rest: "read_pages sessions messages n ws user sid (Itoa i) s1
      = (Inr (map (message_view \<circ> entry_of sid) (rows_before ws user sid (Itoa i) (tables s))), s')"
      using Suc.IH [of s1 "Itoa i"] Suc.prems(1,3) valid_before_Itoa [OF i(2,3)] by (auto simp: h(1))
    have "map (message_view \<circ> entry_of sid) (rows_before ws user sid (Itoa i) (tables s)) @ shv_Messages view
        = map (message_view \<circ> entry_of sid) ?R"
      unfolding h(2) map_append [symmetric] i(4) ..
    with True run rest h(4) [OF True] i(1) show ?thesis by (simp add: bindE_run)
  qed
qed simp

end

end
