(* ===== verification/Conversation_Program.thy ===== *)
theory Conversation_Program
  imports Conversation_Composition Conversation_Laws Program_Run
begin

text \<open>
  The program with its conversations as a state machine (\<open>brain\<close>): the events of \<open>Program_Run\<close> and
  those of the conversation routes. Every handler keeps the invariant of the program's state and
  of the conversation's tables, and no confirmation that was consumed is ever open again.
\<close>

section \<open>What a run may do\<close>

definition brain_inv :: "env \<Rightarrow> brain \<Rightarrow> bool" where
  "brain_inv env b \<longleftrightarrow> world_inv env (br_world b) \<and> conversation_inv (br_conversation b)"

definition brain_evolves :: "env \<Rightarrow> brain \<Rightarrow> brain \<Rightarrow> bool" where
  "brain_evolves env b b' \<longleftrightarrow> evolves env (br_world b) (br_world b')
     \<and> tables_evolve (br_conversation b) (br_conversation b')"

text \<open>Evolved from a state, with something known about the sessions.\<close>

definition guarded :: "env \<Rightarrow> brain \<Rightarrow> (ChatSession list \<Rightarrow> bool) \<Rightarrow> brain \<Rightarrow> bool" where
  "guarded env b0 P b \<longleftrightarrow> brain_evolves env b0 b \<and> P (cdb_sessions (br_conversation b))"

definition anything :: "ChatSession list \<Rightarrow> bool" where
  "anything ss = True"

definition own_session :: "string \<Rightarrow> string \<Rightarrow> string \<Rightarrow> ChatSession list \<Rightarrow> bool" where
  "own_session ws user sid ss \<longleftrightarrow> (\<exists>s \<in> set ss. session_scope ws user sid s)"

lemma brain_evolves_refl: "brain_inv env b \<Longrightarrow> brain_evolves env b b"
  by (simp add: brain_evolves_def brain_inv_def evolves_refl tables_evolve_refl)

lemma brain_evolves_trans: "brain_evolves env a b \<Longrightarrow> brain_evolves env b c \<Longrightarrow> brain_evolves env a c"
  by (auto simp: brain_evolves_def intro: evolves_trans tables_evolve_trans)

lemma brain_evolves_inv: "brain_evolves env a b \<Longrightarrow> brain_inv env b"
  by (auto simp: brain_evolves_def brain_inv_def dest: evolves_inv tables_evolve_inv)

lemma guarded_weaken: "guarded env b0 P b \<Longrightarrow> guarded env b0 anything b"
  by (simp add: guarded_def anything_def)

lemma guarded_on_world: "safe env m \<Longrightarrow> keeps (guarded env b0 P) (on_world m)"
  unfolding on_world_def
  by (rule keeps_zoom) (auto simp: guarded_def brain_evolves_def safe_def dest: keepsD)

lemma guarded_on_tables:
  assumes "\<And>db r db'. conversation_inv db \<Longrightarrow> P (cdb_sessions db) \<Longrightarrow> m db = (r, db') \<Longrightarrow>
    tables_evolve db db' \<and> P (cdb_sessions db')"
  shows "keeps (guarded env b0 P) (on_tables m)"
  unfolding on_tables_def
proof (rule keeps_zoom)
  fix t r t' b
  assume g: "guarded env b0 P b" and t: "br_conversation b = t" and run: "m t = (r, t')"
  from g t have e: "evolves env (br_world b0) (br_world b)" "tables_evolve (br_conversation b0) t"
    "P (cdb_sessions t)" by (simp_all add: guarded_def brain_evolves_def)
  from assms [OF tables_evolve_inv [OF e(2)] e(3) run] have "tables_evolve t t'" "P (cdb_sessions t')"
    by blast+
  with e show "guarded env b0 P (b\<lparr>br_conversation := t'\<rparr>)"
    using tables_evolve_trans [OF e(2)] by (simp add: guarded_def brain_evolves_def)
qed

lemma evolves_cong:
  assumes "evolves env w0 w1" "wd_data w' = wd_data w1" "wd_ids w1 \<le> wd_ids w'"
  shows "evolves env w0 w'"
proof -
  have "world_inv env w'" by (rule world_inv_cong [OF assms(2,3) evolves_inv [OF assms(1)]])
  with assms show ?thesis by (auto simp: evolves_def wd_data_def)
qed

lemma evolves_tick: "evolves env w0 w1 \<Longrightarrow> evolves env w0 (w1\<lparr>wd_tick := n\<rparr>)"
  by (erule evolves_cong) (simp_all add: wd_data_def)

lemma guarded_acts:
  "keepsA (guarded env b0 P) (brain_Now env')" "keepsA (guarded env b0 P) (brain_newID env')"
  unfolding keepsA_def guarded_def brain_evolves_def brain_Now_def brain_newID_def act_on_world_def
  by (auto split: prod.splits) (erule evolves_cong; simp add: wd_data_def)+

text \<open>A unit of work: its transaction ticks, and a rollback keeps what it must.\<close>

lemma guarded_uow:
  assumes work: "\<And>b0. valid (guarded env b0 P) m (\<lambda>a. guarded env b0 (Q a)) (\<lambda>_. guarded env b0 anything)"
  shows "valid (guarded env b0 P) (brain_uow env m) (\<lambda>a. guarded env b0 (Q a)) (\<lambda>_. guarded env b0 anything)"
proof (rule validI)
  let ?tick = "\<lambda>b. b\<lparr>br_world := (br_world b)\<lparr>wd_tick := Suc (wd_tick (br_world b))\<rparr>\<rparr>"
  let ?undo = "tx_Rollback (brain_driver env)"
  have tick: "guarded env b0 R (?tick b)" if "guarded env b0 R b" for b b0 R
    using that by (simp add: guarded_def brain_evolves_def evolves_tick)
  have ids: "wd_ids (br_world b1) \<le> wd_ids (br_world b2)
      \<and> cdb_next (br_conversation b1) \<le> cdb_next (br_conversation b2)
      \<and> cdb_next (br_conversation b2) \<le> 2 ^ 63" if "brain_evolves env b1 b2" for b1 b2
    using that by (auto simp: brain_evolves_def evolves_def tables_evolve_def conversation_inv_def)
  have undone: "guarded env b0 anything (?undo b1 b2)"
    if g: "guarded env b0 P b1" and e: "brain_evolves env b1 b2" for b1 b2
  proof -
    note n = ids [OF e]
    have "evolves env (br_world b0) (tx_Rollback (world_driver env) (br_world b1) (br_world b2))"
      by (rule evolves_cong [of env "br_world b0" "br_world b1"])
        (use g n in \<open>auto simp: guarded_def brain_evolves_def world_driver_def wd_data_def\<close>)
    moreover have "tables_evolve (br_conversation b0)
        ((br_conversation b1)\<lparr>cdb_next := cdb_next (br_conversation b2)\<rparr>)"
      using g n by (auto simp: guarded_def brain_evolves_def tables_evolve_def conversation_inv_def)
    ultimately show ?thesis by (simp add: guarded_def brain_evolves_def brain_driver_def anything_def)
  qed
  have start: "tx_Begin (brain_driver env) b = (e_Begin env (wd_tick (br_world b)), ?tick b)"
    "tx_Commit (brain_driver env) b = (e_Commit env (wd_tick (br_world b)), ?tick b)" for b
    by (simp_all add: brain_driver_def on_world_def zoom_run world_driver_def)
  fix b r b'
  {
    fix a assume g: "guarded env b0 P b" and run: "brain_uow env m b = (Inr a, b')"
    obtain b2 where "m (?tick b) = (Inr a, b2)" "b' = ?tick b2"
      using run by (auto simp: brain_uow_def JoinableUoW_Run_def TxRunner_Run_def start
          split: prod.splits sum.splits)
    then show "guarded env b0 (Q a) b'" using tick valid_InrD [OF work tick [OF g]] by blast
  next
    fix e assume g: "guarded env b0 P b" and run: "brain_uow env m b = (Inl e, b')"
    have r: "guarded env (?tick b) P (?tick b)"
      using tick [OF g] brain_evolves_refl [OF brain_evolves_inv] by (auto simp: guarded_def)
    have all: "brain_evolves env (?tick b) (snd (m (?tick b)))"
    proof (cases "m (?tick b)")
      case (Pair q b2)
      then show ?thesis
        using valid_InrD [OF work r, of _ b2] valid_InlD [OF work r, of _ b2]
        by (cases q) (auto simp: guarded_def)
    qed
    have fin: "brain_evolves env (?tick b) (?tick v)" if "brain_evolves env (?tick b) v" for v
      using that by (simp add: brain_evolves_def evolves_tick)
    have "b' = ?tick b \<or> b' = ?undo (?tick b) (snd (m (?tick b)))
        \<or> b' = ?undo (?tick b) (?tick (snd (m (?tick b))))"
      using run by (auto simp: brain_uow_def JoinableUoW_Run_def TxRunner_Run_def start
          split: prod.splits sum.splits)
    then show "guarded env b0 anything b'"
      using tick [OF g] undone [OF tick [OF g] all] undone [OF tick [OF g] fin [OF all]]
      by (auto dest: guarded_weaken)
  }
qed

section \<open>The statements\<close>

named_theorems chat_wiring \<open>the wired stores unfolded\<close>

lemmas [chat_wiring] = confirmations_def message_log_def chat_sessions_def history_store_def
  pg_confirmation_store_def pg_message_store_def pg_chat_store_def

lemma own_session_map:
  assumes "\<And>s. cse_ID (f s) = cse_ID s \<and> cse_WorkspaceID (f s) = cse_WorkspaceID s
      \<and> cse_UserID (f s) = cse_UserID s" "own_session ws user sid ss"
  shows "own_session ws user sid (update_where Q f ss)"
proof -
  obtain s where s: "s \<in> set ss" "session_scope ws user sid s" using assms(2) by (auto simp: own_session_def)
  then have "session_scope ws user sid (if Q s then f s else s)" using assms(1) by (simp add: session_scope_def)
  with s(1) show ?thesis unfolding own_session_def update_where_def set_map by blast
qed

lemma keeps_guarded_reads [keeps_rules]:
  "keeps (guarded env b0 P) (css_Get chat_sessions ws user i)"
  "keeps (guarded env b0 P) (cfs_Get confirmations ws user i)"
  "keeps (guarded env b0 P) (mls_ListBySession message_log ws user i l)"
  unfolding chat_wiring ChatSessionStore.simps ConfirmationStore.simps MessageLogStore.simps
  by (rule guarded_on_tables;
      auto simp: pg_chat_Get_def pg_confirmation_Get_def pg_message_ListBySession_def
        pg_message_ListBefore_def Let_def tables_evolve_refl split: option.splits if_splits)+

lemma keeps_guarded_Save:
  "cfm_Intent c = IntentTodoDelete \<Longrightarrow> keeps (guarded env b0 P) (cfs_Save confirmations c)"
  unfolding chat_wiring ChatSessionStore.simps ConfirmationStore.simps
  by (rule guarded_on_tables) (auto dest: Save_evolves pg_confirmation_Save_row)

lemma keeps_guarded_Consume [keeps_rules]:
  "keeps (guarded env b0 P) (cfs_Consume confirmations ws user i now)"
  unfolding chat_wiring ChatSessionStore.simps ConfirmationStore.simps
proof (rule guarded_on_tables)
  fix db db' :: conversation_db and r
  assume a: "conversation_inv db" "P (cdb_sessions db)" "pg_confirmation_Consume ws user i now db = (r, db')"
  have "cdb_sessions db' = cdb_sessions db"
    using a(3) by (auto simp: pg_confirmation_Consume_def Let_def split: if_splits option.splits)
  with a Consume_evolves [OF a(1,3)] show "tables_evolve db db' \<and> P (cdb_sessions db')" by simp
qed

lemma keeps_guarded_Append:
  assumes "ml_SessionID m = None \<or> P = own_session (ml_WorkspaceID m) (ml_UserID m) (the (ml_SessionID m))"
  shows "keeps (guarded env b0 P) (mls_Append message_log m)"
  unfolding chat_wiring MessageLogStore.simps
proof (rule guarded_on_tables)
  fix db db' :: conversation_db and r
  assume a: "conversation_inv db" "P (cdb_sessions db)" "pg_message_Append m db = (r, db')"
  have "message_owned (cdb_sessions db) m"
    using assms a(2) by (auto simp: message_owned_def own_session_def split: option.splits)
  from Append_evolves [OF a(1) this a(3)] a(2) show "tables_evolve db db' \<and> P (cdb_sessions db')" by simp
qed

lemma keeps_guarded_Touch:
  assumes "P = anything \<or> P = own_session ws' user' sid'"
  shows "keeps (guarded env b0 P) (css_Touch chat_sessions ws user i now)"
  unfolding chat_wiring ChatSessionStore.simps
proof (rule guarded_on_tables)
  fix db db' :: conversation_db and r
  assume a: "conversation_inv db" "P (cdb_sessions db)" "pg_chat_Touch ws user i now db = (r, db')"
  have "cdb_sessions db' = update_where (session_scope ws user i) (\<lambda>s. s\<lparr>cse_UpdatedAt := now\<rparr>) (cdb_sessions db)"
    using a(3) by (auto simp: pg_chat_Touch_def scopedUpdate_def split: if_splits)
  then have "P (cdb_sessions db')"
    using assms a(2) by (auto simp: anything_def intro!: own_session_map)
  with Touch_evolves [OF a(1,3)] show "tables_evolve db db' \<and> P (cdb_sessions db')" by simp
qed

lemma keeps_guarded_sessions:
  "keeps (guarded env b0 anything) (css_Create chat_sessions s)"
  "keeps (guarded env b0 anything) (css_Rename chat_sessions ws user i title now)"
  "keeps (guarded env b0 anything) (css_Delete chat_sessions ws user i)"
  "keeps (guarded env b0 anything) (hi_ImportSession history_store ws user i hs)"
  "keeps (guarded env b0 anything) (hi_ImportMessage history_store ws user hr)"
  unfolding chat_wiring ChatSessionStore.simps HistoryImporter.simps pg_history_ImportSession_def
  by (rule guarded_on_tables;
      auto simp: anything_def dest: Create_evolves Rename_evolves Delete_evolves ImportMessage_evolves)+

lemma valid_Create:
  "valid (guarded env b0 P) (css_Create chat_sessions s)
     (\<lambda>_. guarded env b0 (own_session (cse_WorkspaceID s) (cse_UserID s) (cse_ID s)))
     (\<lambda>_. guarded env b0 anything)"
proof (rule validI)
  fix b a b' assume g: "guarded env b0 P b" and run: "css_Create chat_sessions s b = (Inr a, b')"
  from run obtain db' where c: "pg_chat_Create s (br_conversation b) = (Inr (), db')"
    and b': "b' = b\<lparr>br_conversation := db'\<rparr>"
    by (auto simp: chat_wiring on_tables_def zoom_split)
  have inv: "conversation_inv (br_conversation b)"
    using g by (auto simp: guarded_def brain_evolves_def dest: tables_evolve_inv)
  from Create_evolves [OF inv c] have "tables_evolve (br_conversation b) db'" "s \<in> set (cdb_sessions db')"
    by blast+
  with g b' show "guarded env b0 (own_session (cse_WorkspaceID s) (cse_UserID s) (cse_ID s)) b'"
    by (auto simp: guarded_def brain_evolves_def own_session_def session_scope_def
        intro: tables_evolve_trans)
next
  fix b e b' assume g: "guarded env b0 P b" and run: "css_Create chat_sessions s b = (Inl e, b')"
  show "guarded env b0 anything b'"
    by (rule keepsD [OF keeps_guarded_sessions(1) guarded_weaken [OF g] run])
qed

section \<open>The gateway\<close>

lemma joined_run [simp]: "joined env m = m"
  by (simp add: joined_def JoinableUoW_Run_def)

lemma safe_joined_Create:
  assumes ws: "CHR '':'' \<notin> set (cr_WorkspaceID req)"
  shows "safe env (joined_CreateTodo env req)"
proof (rule safe_of_at)
  fix w
  show "safe_at env w (joined_CreateTodo env req)"
    unfolding joined_CreateTodo_def CreateTodo_def joined_run
  proof (rule safe_bindA [OF safe_Now], rule safe_bindA [OF safe_newID],
      rule safe_bindE [OF safe_result(2)], goal_cases)
    case (1 now v1 i v2 t v3)
    have new: "New i (cr_WorkspaceID req) (cr_UserID req) (cr_Title req)
          (cr_Description req) (cr_DueAtUTC req) (cr_TimezoneAtInput req) now = Inr t"
      using 1(5) by (auto simp: domain_result_def map_sum_def split: sum.splits)
    then have t: "todo_wf t" "t_ID t = i" "t_WorkspaceID t = cr_WorkspaceID req"
      by (auto intro: New_wf simp: New_def split: if_splits option.splits)
    have i: "i \<in> issued_ids env v3" using newID_issued [OF 1(3)] evolves_issued [OF 1(6)] by blast
    show ?case by (rule safe_bindE [OF safe_create_work safe_ok]) (use t i ws in simp_all)
  qed
qed

lemma safe_joined_Delete: "safe env (joined_DeleteTodo env req)"
  unfolding joined_DeleteTodo_def DeleteTodo_def joined_run
  by (intro safe_of_at safe_bindA [OF safe_Now] safe_bindE safe_delete_work safe_ok)

lemma safe_gateway_reads:
  "safe env (ListTodos (todos env') (world_Now env'') ws owner f)"
  "safe env (SearchCandidates (todos env') ws owner k)"
  "safe env (gateway_GetTodo (todos env') (world_Now env'') ws owner i)"
proof -
  show "safe env (ListTodos (todos env') (world_Now env'') ws owner f)"
    unfolding ListTodos_def
    by (intro safe_of_at safe_bindE safe_read safe_bindA safe_Now safe_ok) (auto dest: todos_reads)
  show "safe env (SearchCandidates (todos env') ws owner k)"
    unfolding SearchCandidates_def
    by (intro safe_of_at safe_read) (auto simp: wiring zoom_run pg_todo_SearchCandidates_def)
  show "safe env (gateway_GetTodo (todos env') (world_Now env'') ws owner i)"
    unfolding gateway_GetTodo_def GetTodo_def
    by (intro safe_of_at safe_tryE safe_bindE safe_read safe_bindA safe_Now safe_ok safe_if safe_fail)
      (auto dest: todos_reads)
qed

lemma keeps_guarded_gateway [keeps_rules]:
  "CHR '':'' \<notin> set (cr_WorkspaceID req) \<Longrightarrow> keeps (guarded env b0 P) (tg_CreateTodo (gateway env) req)"
  "keeps (guarded env b0 P) (tg_ListTodos (gateway env) ws owner f)"
  "keeps (guarded env b0 P) (tg_SearchCandidates (gateway env) ws owner k)"
  "keeps (guarded env b0 P) (tg_GetTodo (gateway env) ws owner i)"
  "keeps (guarded env b0 P) (tg_DeleteTodo (gateway env) vreq)"
  unfolding gateway_def TodoGateway.simps
  by (rule guarded_on_world, (rule safe_joined_Create safe_gateway_reads safe_joined_Delete; assumption?))+

section \<open>The message flow\<close>

text \<open>What a turn has checked before it writes: its session, when it names one, is the caller's.\<close>

definition turn_guard :: "message_turn \<Rightarrow> ChatSession list \<Rightarrow> bool" where
  "turn_guard t = (if tn_SessionID t = [] then anything
     else own_session (tn_WorkspaceID t) (tn_UserID t) (tn_SessionID t))"

definition turn_valid :: "env \<Rightarrow> message_turn \<Rightarrow> (brain, 'a) op \<Rightarrow> bool" where
  "turn_valid env t m \<longleftrightarrow> (\<forall>b0. valid (guarded env b0 (turn_guard t)) m
     (\<lambda>_. guarded env b0 anything) (\<lambda>_. guarded env b0 anything))"

lemma valid_of_keeps:
  "keeps (guarded env b0 P) m \<Longrightarrow> valid (guarded env b0 P) m (\<lambda>_. guarded env b0 P) (\<lambda>_. guarded env b0 anything)"
  unfolding keeps_def by (erule valid_weaken) (auto dest: guarded_weaken)

lemma turn_valid_after:
  assumes "\<And>b0. keeps (guarded env b0 (turn_guard t)) m" "\<And>a. turn_valid env t (f a)"
  shows "turn_valid env t (bindE m f)"
  unfolding turn_valid_def
  by (intro allI valid_bindE [OF valid_of_keeps [OF assms(1)]])
    (use assms(2) in \<open>simp add: turn_valid_def\<close>)

lemma turn_valid_act:
  assumes "\<And>b0. keepsA (guarded env b0 (turn_guard t)) m" "\<And>a. turn_valid env t (f a)"
  shows "turn_valid env t (bindA m f)"
  unfolding turn_valid_def
  by (intro allI valid_bindA [where R = "\<lambda>_. guarded env _ (turn_guard t)"])
    (use assms in \<open>auto simp: turn_valid_def keepsA_def\<close>)

lemma turn_valid_fail: "turn_valid env t (fail e)"
  unfolding turn_valid_def by (intro allI validI) (auto dest: guarded_weaken)

lemma turn_valid_ok: "turn_valid env t (ok a)"
  unfolding turn_valid_def by (intro allI validI) (auto dest: guarded_weaken)

lemma turn_valid_then:
  assumes "turn_valid env t m"
  shows "turn_valid env t (bindE m (\<lambda>a. ok (f a)))"
  unfolding turn_valid_def
proof (rule allI)
  fix b0
  show "valid (guarded env b0 (turn_guard t)) (bindE m (\<lambda>a. ok (f a)))
     (\<lambda>_. guarded env b0 anything) (\<lambda>_. guarded env b0 anything)"
    by (rule valid_bindE [where R = "\<lambda>_. guarded env b0 anything"])
      (use assms in \<open>auto simp: turn_valid_def intro!: validI\<close>)
qed

lemma turn_valid_uow: "turn_valid env t m \<Longrightarrow> turn_valid env t (brain_uow env m)"
  unfolding turn_valid_def by (intro allI guarded_uow) blast

lemma process_ports_simps [simp]:
  "pm_Model (process_ports env cenv) = ask_model cenv" "pm_Todos (process_ports env cenv) = gateway env"
  "pm_Confirmations (process_ports env cenv) = confirmations"
  "pm_Sessions (process_ports env cenv) = chat_sessions" "pm_Messages (process_ports env cenv) = message_log"
  "uw_session (pm_UoW (process_ports env cenv)) = brain_uow env"
  "uw_created (pm_UoW (process_ports env cenv)) = brain_uow env"
  "uw_listed (pm_UoW (process_ports env cenv)) = brain_uow env"
  "pm_NewConfirmationID (process_ports env cenv) = brain_newID env"
  "pm_NewSessionID (process_ports env cenv) = brain_newID env" "pm_Now (process_ports env cenv) = brain_Now env"
  "pm_ConfirmationTTL (process_ports env cenv) = ce_ConfirmationTTL cenv"
  "pm_HistoryTurns (process_ports env cenv) = ce_HistoryTurns cenv"
  by (simp_all add: process_ports_def)

lemma valid_conversation_result:
  "valid P (conversation_result r) (\<lambda>a s. P s \<and> r = Inr a) (\<lambda>_. P)"
  by (auto simp: valid_def conversation_result_def map_sum_def split: sum.splits)

lemma valid_open_session:
  "valid (guarded env b0 (turn_guard t)) (open_session_for (process_ports env cenv) t)
     (\<lambda>sid. guarded env b0 (own_session (tn_WorkspaceID t) (tn_UserID t) sid))
     (\<lambda>_. guarded env b0 anything)"
proof (cases "tn_SessionID t = []")
  case False
  then show ?thesis
    by (auto simp: open_session_for_def turn_guard_def intro!: validI)
next
  case True
  have created: "valid (\<lambda>s. guarded env b0 anything s \<and> NewSession i (tn_WorkspaceID t) (tn_UserID t)
         (DefaultSessionTitle (tn_Text t)) now = Inr x)
      (bindE (css_Create chat_sessions x) (\<lambda>_. ok i))
      (\<lambda>sid. guarded env b0 (own_session (tn_WorkspaceID t) (tn_UserID t) sid))
      (\<lambda>_. guarded env b0 anything)" for i now x
  proof (rule valid_const, rule valid_bindE [OF valid_Create])
    fix u assume "NewSession i (tn_WorkspaceID t) (tn_UserID t) (DefaultSessionTitle (tn_Text t)) now = Inr x"
    from NewSession_Inr(1) [OF this]
    show "valid (guarded env b0 (own_session (cse_WorkspaceID x) (cse_UserID x) (cse_ID x))) (ok i)
      (\<lambda>sid. guarded env b0 (own_session (tn_WorkspaceID t) (tn_UserID t) sid)) (\<lambda>_. guarded env b0 anything)"
      by (auto intro!: validI)
  qed
  have acts: "guarded env b0 anything s \<Longrightarrow> guarded env b0 anything (snd (brain_Now env s))"
    "guarded env b0 anything s \<Longrightarrow> guarded env b0 anything (snd (brain_newID env s))" for s
    using guarded_acts [of env b0 anything env] by (auto simp: keepsA_def)
  show ?thesis
    unfolding open_session_for_def turn_guard_def if_P [OF True] process_ports_simps
      if_not_P [of "tn_SessionID t \<noteq> []", unfolded not_not, OF True]
    by (rule valid_bindA [where R = "\<lambda>_. guarded env b0 anything", OF acts(2)],
        assumption, rule valid_bindA [where R = "\<lambda>_. guarded env b0 anything", OF acts(1)],
        assumption, rule valid_bindE [OF valid_conversation_result created])
qed

lemma turn_valid_transcribe:
  "turn_valid env t (transcribeInside (process_ports env cenv) t intent body)"
  unfolding turn_valid_def transcribeInside_def process_ports_simps
proof (rule allI, rule valid_bindE [OF valid_open_session])
  fix b0 sid
  let ?own = "guarded env b0 (own_session (tn_WorkspaceID t) (tn_UserID t) sid)"
  have "keeps ?own (bindA (brain_Now env) (\<lambda>now.
     bindE (mls_Append message_log (transcript_row t sid RoleUser (tn_Text t) (Some intent) now)) (\<lambda>_.
     bindE (mls_Append message_log (transcript_row t sid RoleAssistant body None now)) (\<lambda>_.
     bindE (css_Touch chat_sessions (tn_WorkspaceID t) (tn_UserID t) sid now) (\<lambda>_. ok sid)))))"
    by (intro keeps_rules guarded_acts keeps_guarded_Append)
      (auto simp: transcript_row_def intro: keeps_guarded_Touch)
  then show "valid ?own (bindA (brain_Now env) (\<lambda>now.
     bindE (mls_Append message_log (transcript_row t sid RoleUser (tn_Text t) (Some intent) now)) (\<lambda>_.
     bindE (mls_Append message_log (transcript_row t sid RoleAssistant body None now)) (\<lambda>_.
     bindE (css_Touch chat_sessions (tn_WorkspaceID t) (tn_UserID t) sid now) (\<lambda>_. ok sid)))))
     (\<lambda>_. guarded env b0 anything) (\<lambda>_. guarded env b0 anything)"
    unfolding keeps_def by (rule valid_weaken) (auto dest: guarded_weaken)
qed

lemma turn_valid_persist:
  "turn_valid env t (persistTranscript (process_ports env cenv) t intent body)"
  unfolding persistTranscript_def process_ports_simps by (rule turn_valid_uow [OF turn_valid_transcribe])

lemma turn_valid_clarify: "turn_valid env t (clarify (process_ports env cenv) t missing reply)"
  unfolding clarify_def by (rule turn_valid_then [OF turn_valid_persist])

lemma turn_valid_dispatchCreate:
  assumes "CHR '':'' \<notin> set (tn_WorkspaceID t)"
  shows "turn_valid env t (dispatchCreate zone (process_ports env cenv) t reply p)"
proof (cases "pa_Title (ip_Arguments p) = []")
  case True
  then show ?thesis by (simp add: dispatchCreate_def turn_valid_clarify)
next
  case False
  then show ?thesis
    unfolding dispatchCreate_def Let_def if_not_P [OF False] process_ports_simps prod.case_eq_if
    by (intro turn_valid_then turn_valid_uow turn_valid_after keeps_guarded_gateway
        turn_valid_transcribe) (simp add: assms)
qed

lemma turn_valid_dispatchList: "turn_valid env t (dispatchList zone (process_ports env cenv) t p)"
  unfolding dispatchList_def Let_def process_ports_simps prod.case_eq_if
  by (intro turn_valid_then turn_valid_uow turn_valid_after keeps_guarded_gateway turn_valid_transcribe)

lemma turn_valid_request_confirmation:
  "turn_valid env t (request_confirmation (process_ports env cenv) t p cs c)"
proof -
  have "turn_valid env t (bindE (conversation_result (NewConfirmationRequest i (tn_WorkspaceID t)
        (tn_UserID t) IntentTodoDelete (c_TodoID c) (c_Version c) now (ce_ConfirmationTTL cenv)))
      (\<lambda>confirmation. bindE (brain_uow env (bindE (cfs_Save confirmations confirmation) (\<lambda>_.
        transcribeInside (process_ports env cenv) t (ip_Intent p) (ConfirmationSummary (c_Title c)))))
       (\<lambda>resolved.
        ok ((response KindConfirmationRequired)\<lparr>rsp_Candidates := cs,
          rsp_ConfirmationID := cfm_ID confirmation,
          rsp_ExpiresAt := Some (cfm_ExpiresAt confirmation), rsp_SessionID := resolved\<rparr>))))" for i now
    unfolding turn_valid_def
  proof (rule allI, rule valid_bindE [OF valid_weaken [OF valid_conversation_result]], assumption, assumption,
      erule guarded_weaken, rule valid_const)
    fix b0 x
    assume "NewConfirmationRequest i (tn_WorkspaceID t) (tn_UserID t) IntentTodoDelete (c_TodoID c)
        (c_Version c) now (ce_ConfirmationTTL cenv) = Inr x"
    then have "cfm_Intent x = IntentTodoDelete" by (auto simp: NewConfirmationRequest_def split: if_splits)
    then have "turn_valid env t (bindE (brain_uow env (bindE (cfs_Save confirmations x) (\<lambda>_.
        transcribeInside (process_ports env cenv) t (ip_Intent p) (ConfirmationSummary (c_Title c)))))
       (\<lambda>resolved.
        ok ((response KindConfirmationRequired)\<lparr>rsp_Candidates := cs, rsp_ConfirmationID := cfm_ID x,
          rsp_ExpiresAt := Some (cfm_ExpiresAt x), rsp_SessionID := resolved\<rparr>)))"
      by (intro turn_valid_then turn_valid_uow turn_valid_after keeps_guarded_Save turn_valid_transcribe)
    then show "valid (guarded env b0 (turn_guard t)) (bindE (brain_uow env (bindE (cfs_Save confirmations x) (\<lambda>_.
        transcribeInside (process_ports env cenv) t (ip_Intent p) (ConfirmationSummary (c_Title c)))))
       (\<lambda>resolved.
        ok ((response KindConfirmationRequired)\<lparr>rsp_Candidates := cs, rsp_ConfirmationID := cfm_ID x,
          rsp_ExpiresAt := Some (cfm_ExpiresAt x), rsp_SessionID := resolved\<rparr>)))
      (\<lambda>_. guarded env b0 anything) (\<lambda>_. guarded env b0 anything)"
      by (simp add: turn_valid_def)
  qed
  then show ?thesis
    unfolding request_confirmation_def process_ports_simps
    by (intro turn_valid_act guarded_acts)
qed

lemma turn_valid_dispatchDelete:
  "turn_valid env t (dispatchDelete (process_ports env cenv) t reply p)"
  unfolding dispatchDelete_def process_ports_simps
proof (rule turn_valid_after [OF keeps_guarded_gateway(3)])
  fix candidates :: "candidate list"
  show "turn_valid env t (case candidates of
       [] \<Rightarrow>
         bindE (persistTranscript (process_ports env cenv) t (ip_Intent p) NotFoundSummary) (\<lambda>resolved.
         ok ((response KindNotFound)\<lparr>rsp_SessionID := resolved\<rparr>))
     | c # cs \<Rightarrow>
         if length candidates > maxSelectableCandidates then clarify (process_ports env cenv) t [] reply
         else if cs = [] then request_confirmation (process_ports env cenv) t p candidates c
         else bindE (persistTranscript (process_ports env cenv) t (ip_Intent p)
                 (CandidatesSummary (int (length candidates)))) (\<lambda>resolved.
              ok ((response KindCandidates)\<lparr>rsp_Candidates := candidates,
                rsp_SessionID := resolved\<rparr>)))"
    by (cases candidates)
      (auto intro: turn_valid_then turn_valid_persist turn_valid_clarify turn_valid_request_confirmation)
qed

lemma turn_valid_answer:
  assumes "CHR '':'' \<notin> set (tn_WorkspaceID t)"
  shows "turn_valid env t (answer_turn zone (process_ports env cenv) t raw)"
proof -
  have "turn_valid env t (dispatch zone (process_ports env cenv) t reply p)" for reply p
    unfolding dispatch_def
    by (auto intro: turn_valid_clarify turn_valid_dispatchCreate [OF assms] turn_valid_dispatchList
        turn_valid_dispatchDelete turn_valid_ok)
  then show ?thesis
    unfolding answer_turn_def
    by (auto intro: turn_valid_then turn_valid_persist split: sum.splits option.splits)
qed

lemma valid_checked_session:
  "valid (guarded env b0 anything)
     (if tn_SessionID t = [] then ok ()
      else bindE (css_Get chat_sessions (tn_WorkspaceID t) (tn_UserID t) (tn_SessionID t)) (\<lambda>_. ok ()))
     (\<lambda>_. guarded env b0 (turn_guard t)) (\<lambda>_. guarded env b0 anything)"
proof (rule validI)
  fix b a b'
  assume g: "guarded env b0 anything b" and run: "(if tn_SessionID t = [] then ok ()
      else bindE (css_Get chat_sessions (tn_WorkspaceID t) (tn_UserID t) (tn_SessionID t)) (\<lambda>_. ok ())) b
      = (Inr a, b')"
  show "guarded env b0 (turn_guard t) b'"
  proof (cases "tn_SessionID t = []")
    case True
    with g run show ?thesis by (simp add: turn_guard_def)
  next
    case False
    with run obtain c where "find (session_scope (tn_WorkspaceID t) (tn_UserID t) (tn_SessionID t))
        (cdb_sessions (br_conversation b)) = Some c" "b' = b"
      by (auto simp: bindE_Inr_iff chat_wiring on_tables_def zoom_split pg_chat_Get_def split: option.splits)
    with g False show ?thesis
      by (auto simp: guarded_def turn_guard_def own_session_def dest: find_SomeD)
  qed
next
  fix b e b'
  assume g: "guarded env b0 anything b" and run: "(if tn_SessionID t = [] then ok ()
      else bindE (css_Get chat_sessions (tn_WorkspaceID t) (tn_UserID t) (tn_SessionID t)) (\<lambda>_. ok ())) b
      = (Inl e, b')"
  have "keeps (guarded env b0 anything) (if tn_SessionID t = [] then ok ()
      else bindE (css_Get chat_sessions (tn_WorkspaceID t) (tn_UserID t) (tn_SessionID t)) (\<lambda>_. ok ()))"
    by (intro keeps_rules)
  from keepsD [OF this g run] show "guarded env b0 anything b'" .
qed

lemma keeps_guarded_model: "keeps (guarded env b0 P) (ask_model cenv m)"
proof -
  have "safe_at env w (bindA (ask (\<lambda>k. ce_Model cenv k m)) ret)" for w
    by (rule safe_quiet) (auto simp: bindA_run)
  then show ?thesis unfolding ask_model_def by (intro guarded_on_world safe_of_at)
qed

lemma keeps_guarded_history: "keeps (guarded env b0 P) (loadHistory (process_ports env cenv) t)"
  unfolding loadHistory_def process_ports_simps by (intro keeps_rules)

lemma ProcessMessage_evolves:
  assumes "CHR '':'' \<notin> set (tn_WorkspaceID t)"
  shows "keeps (guarded env b0 anything) (api_ProcessMessage env cenv t)"
proof -
  have rest: "turn_valid env t (bindE (loadHistory (process_ports env cenv) t) (\<lambda>history.
     bindE (ask_model cenv \<lparr>mi_Text = tn_Text t, mi_Timezone = tn_Timezone t, mi_History = history\<rparr>)
       (\<lambda>raw. answer_turn (ce_zone cenv) (process_ports env cenv) t raw)))"
    by (intro turn_valid_after keeps_guarded_history keeps_guarded_model turn_valid_answer assms)
  show ?thesis
    unfolding keeps_def api_ProcessMessage_def ProcessMessage_def process_ports_simps
    by (rule valid_bindE [OF valid_checked_session]) (use rest in \<open>simp add: turn_valid_def\<close>)
qed

section \<open>Confirmations and sessions\<close>

lemma confirm_ports_simps [simp]:
  "ca_Confirmations (confirm_ports env) = confirmations" "ca_Todos (confirm_ports env) = gateway env"
  "ca_Sessions (confirm_ports env) = Some chat_sessions" "ca_Messages (confirm_ports env) = Some message_log"
  "ca_UoW (confirm_ports env) = brain_uow env" "ca_Now (confirm_ports env) = brain_Now env"
  by (simp_all add: confirm_ports_def)

definition asking_in :: "string \<Rightarrow> string \<Rightarrow> string \<Rightarrow> message_turn" where
  "asking_in ws user sid = \<lparr>tn_WorkspaceID = ws, tn_UserID = user, tn_SessionID = sid, tn_Text = [],
     tn_Timezone = []\<rparr>"

lemma asking_in_simps [simp]:
  "tn_WorkspaceID (asking_in ws user sid) = ws" "tn_UserID (asking_in ws user sid) = user"
  "tn_SessionID (asking_in ws user sid) = sid"
  by (simp_all add: asking_in_def)

lemma check_owner_valid:
  "valid (guarded env b0 anything) (check_owner (confirm_ports env) ws user sid)
     (\<lambda>_. guarded env b0 (turn_guard (asking_in ws user sid))) (\<lambda>_. guarded env b0 anything)"
  using valid_checked_session [of env b0 "asking_in ws user sid"]
  by (cases "sid = []") (simp_all add: check_owner_def)

lemma record_deleted_valid:
  "turn_valid env (asking_in ws user sid) (bindE (record_deleted (confirm_ports env) ws user sid title) (\<lambda>_. ok x))"
proof (cases "sid = []")
  case True
  then show ?thesis unfolding record_deleted_def if_P [OF True] by (intro turn_valid_then turn_valid_ok)
next
  case False
  then have g: "turn_guard (asking_in ws user sid) = own_session ws user sid"
    by (simp add: turn_guard_def asking_in_def)
  have "keeps (guarded env b0 (own_session ws user sid)) (record_deleted (confirm_ports env) ws user sid title)" for b0
    using False unfolding record_deleted_def
    by (auto intro!: keeps_rules guarded_acts keeps_guarded_Append keeps_guarded_Touch)
  then show ?thesis by (intro turn_valid_after turn_valid_ok) (simp add: g)
qed

lemma confirm_work_valid:
  "valid (guarded env b0 anything) (confirm_work (confirm_ports env) ws user cid sid)
     (\<lambda>_. guarded env b0 anything) (\<lambda>_. guarded env b0 anything)"
proof -
  have rest: "turn_valid env (asking_in ws user sid) (bindE (cfs_Get confirmations ws user cid) (\<lambda>confirmation.
     bindA (brain_Now env) (\<lambda>now.
     bindE (cfs_Consume confirmations ws user cid now) (\<lambda>_.
     bindE (tg_GetTodo (gateway env) ws user (cfm_TodoID confirmation)) (\<lambda>todo.
     if v_Version todo \<noteq> cfm_TodoVersion confirmation
     then fail (ConversationErr ErrConfirmationTodoVersionStale)
     else bindE (tg_DeleteTodo (gateway env)
            \<lparr>vr_WorkspaceID = ws, vr_UserID = user, vr_TodoID = cfm_TodoID confirmation,
             vr_Version = v_Version todo\<rparr>) (\<lambda>_.
          bindE (record_deleted (confirm_ports env) ws user sid (v_Title todo)) (\<lambda>_.
          ok (cfm_TodoID confirmation))))))))"
    by (intro turn_valid_after turn_valid_act keeps_rules guarded_acts)
      (auto intro!: turn_valid_fail turn_valid_after record_deleted_valid keeps_guarded_gateway)
  show ?thesis
    unfolding confirm_work_def confirm_ports_simps
    by (rule valid_bindE [OF check_owner_valid]) (use rest in \<open>simp add: turn_valid_def\<close>)
qed

lemma ConfirmAction_evolves: "keeps (guarded env b0 anything) (api_ConfirmAction env ws user cid sid)"
  unfolding api_ConfirmAction_def ConfirmActionWithSession_def confirm_ports_simps keeps_def
  by (rule valid_bindE [OF guarded_uow [OF confirm_work_valid]]) (auto intro!: validI)

lemma conversation_result_run:
  "bindE (conversation_result (Inr c)) f = f c"
  "bindE (conversation_result (Inl e)) f = fail (ConversationErr e)"
  by (auto simp: conversation_result_def bindE_run)

lemma CreateConfirmation_evolves:
  "keeps (guarded env b0 anything) (api_CreateConfirmation env cenv ws user intent todoID)"
proof (cases "intent = IntentTodoDelete")
  case False
  then show ?thesis by (simp add: api_CreateConfirmation_def CreateConfirmation_def keeps_fail)
next
  case True
  have result: "keeps (guarded env b0 anything) (bindE (conversation_result
      (NewConfirmationRequest i ws user intent todoID v now ttl)) (\<lambda>c. bindE (cfs_Save confirmations c) (\<lambda>_. ok c)))"
    for i v now ttl
  proof (cases "NewConfirmationRequest i ws user intent todoID v now ttl")
    case (Inr c)
    then have "cfm_Intent c = IntentTodoDelete" by (auto simp: NewConfirmationRequest_def split: if_splits)
    then have "keeps (guarded env b0 anything) (bindE (cfs_Save confirmations c) (\<lambda>_. ok c))"
      by (intro keeps_rules keeps_guarded_Save)
    with Inr show ?thesis by (simp add: conversation_result_run)
  qed (simp add: conversation_result_run keeps_fail)
  show ?thesis
    unfolding api_CreateConfirmation_def CreateConfirmation_def
    by (intro keeps_rules guarded_acts result)
qed

lemma session_handlers_evolve:
  "keeps (guarded env b0 anything) (api_CreateSession env ws user title)"
  "keeps (guarded env b0 anything) (api_RenameSession env ws user sid title)"
  "keeps (guarded env b0 anything) (api_DeleteSession ws user sid)"
  "keeps (guarded env b0 anything) (api_ImportSession env ws user hs)"
  "keeps (guarded env b0 anything) (api_ImportMessage ws user hr)"
  unfolding api_CreateSession_def CreateSession_def api_RenameSession_def RenameSession_def
    api_DeleteSession_def DeleteSession_def api_ImportSession_def ImportSession_def
    api_ImportMessage_def ImportMessage_def conversation_result_def
  by (intro keeps_rules guarded_acts keeps_guarded_sessions)+

section \<open>The program\<close>

text \<open>
  What the program with its conversations serves. Reads change nothing but the clock and are left
  out; \<open>ChatImportSession\<close> and \<open>ChatImportMessage\<close> are the calls of the history import.
\<close>

datatype chat_event =
    Elsewhere event
  | ChatMessage message_turn
  | ChatConfirm string string string string
  | ChatAskConfirmation string string string string
  | ChatCreateSession string string string
  | ChatRenameSession string string string string
  | ChatDeleteSession string string string
  | ChatImportSession string string HistorySession
  | ChatImportMessage string string HistoryRecord

fun serve_chat :: "env \<Rightarrow> chat_env \<Rightarrow> chat_event \<Rightarrow> brain \<Rightarrow> brain" where
  "serve_chat env cenv (Elsewhere e) b = b\<lparr>br_world := serve env e (br_world b)\<rparr>"
| "serve_chat env cenv (ChatMessage t) b = snd (api_ProcessMessage env cenv t b)"
| "serve_chat env cenv (ChatConfirm ws user cid sid) b = snd (api_ConfirmAction env ws user cid sid b)"
| "serve_chat env cenv (ChatAskConfirmation ws user intent i) b =
     snd (api_CreateConfirmation env cenv ws user intent i b)"
| "serve_chat env cenv (ChatCreateSession ws user title) b = snd (api_CreateSession env ws user title b)"
| "serve_chat env cenv (ChatRenameSession ws user sid title) b =
     snd (api_RenameSession env ws user sid title b)"
| "serve_chat env cenv (ChatDeleteSession ws user sid) b = snd (api_DeleteSession ws user sid b)"
| "serve_chat env cenv (ChatImportSession ws user hs) b = snd (api_ImportSession env ws user hs b)"
| "serve_chat env cenv (ChatImportMessage ws user hr) b = snd (api_ImportMessage ws user hr b)"

fun chat_scoped :: "chat_event \<Rightarrow> bool" where
  "chat_scoped (Elsewhere e) = well_scoped e"
| "chat_scoped (ChatMessage t) = (CHR '':'' \<notin> set (tn_WorkspaceID t))"
| "chat_scoped _ = True"

definition empty_brain :: brain where
  "empty_brain = \<lparr>br_world = empty_world, br_conversation = \<lparr>cdb_sessions = [], cdb_messages = [],
     cdb_confirmations = [], cdb_next = 1\<rparr>\<rparr>"

inductive brain_step :: "env \<Rightarrow> chat_env \<Rightarrow> brain \<Rightarrow> brain \<Rightarrow> bool" for env cenv where
  chatted: "chat_scoped e \<Longrightarrow> brain_step env cenv b (serve_chat env cenv e b)"

inductive_cases brain_stepE: "brain_step env cenv b b'"

inductive brain_reachable :: "env \<Rightarrow> chat_env \<Rightarrow> brain \<Rightarrow> bool" for env cenv where
  start: "brain_reachable env cenv empty_brain"
| step: "brain_reachable env cenv b \<Longrightarrow> brain_step env cenv b b' \<Longrightarrow> brain_reachable env cenv b'"

lemma serve_chat_evolves:
  assumes inv: "brain_inv env b" and e: "chat_scoped e"
  shows "brain_evolves env b (serve_chat env cenv e b)"
proof -
  have g: "guarded env b anything b"
    using brain_evolves_refl [OF inv] by (simp add: guarded_def anything_def)
  have run: "brain_evolves env b (snd (m b))" if "keeps (guarded env b anything) m" for m :: "(brain, 'b) op"
    using keeps_snd [OF that g] by (simp add: guarded_def)
  show ?thesis
  proof (cases e)
    case (Elsewhere w)
    with e inv serve_evolves [of env "br_world b" w] show ?thesis
      by (simp add: brain_evolves_def brain_inv_def tables_evolve_refl)
  qed (use e in \<open>simp_all add: run ProcessMessage_evolves ConfirmAction_evolves CreateConfirmation_evolves
        session_handlers_evolve\<close>)
qed

lemma brain_step_evolves:
  "brain_step env cenv b b' \<Longrightarrow> brain_inv env b \<Longrightarrow> brain_evolves env b b'"
  by (erule brain_stepE) (auto intro: serve_chat_evolves)

lemma empty_brain_inv: "brain_inv env empty_brain"
  by (simp add: empty_brain_def brain_inv_def empty_world_inv conversation_inv_def)

lemma brain_reachable_inv: "brain_reachable env cenv b \<Longrightarrow> brain_inv env b"
  by (induction rule: brain_reachable.induct)
    (auto intro: empty_brain_inv brain_step_evolves brain_evolves_inv)

lemma events_evolve_brain:
  assumes "brain_inv env b" "list_all chat_scoped es"
  shows "brain_evolves env b (fold (serve_chat env cenv) es b)"
  using assms
proof (induction es arbitrary: b)
  case Nil
  then show ?case by (simp add: brain_evolves_refl)
next
  case (Cons e es)
  have s: "brain_evolves env b (serve_chat env cenv e b)" using Cons.prems by (auto intro: serve_chat_evolves)
  have "brain_evolves env (serve_chat env cenv e b) (fold (serve_chat env cenv) es (serve_chat env cenv e b))"
    using Cons.prems by (intro Cons.IH brain_evolves_inv [OF s]) simp
  with s show ?case by (auto intro: brain_evolves_trans)
qed

end
