(* ===== verification/Conversation_Facts.thy ===== *)
theory Conversation_Facts
  imports Conversation_Program Program_Plans Program_Facts
begin

text \<open>
  What the conversation promises: a turn writes to the todo module only when the model's answer is
  a valid and confident request for a new todo; a todo is deleted only by a confirmation of its
  owner, for the version confirmed, once and in time; every turn leaves its two transcript rows;
  and a handler that reports an error leaves every table as it was.
\<close>

section \<open>The parts of the state\<close>

definition todo_side :: "brain \<Rightarrow> todo_table \<times> reminder_db \<times> identity_db \<times> (ReminderSendArgs \<times> string \<times> time) list" where
  "todo_side b = wd_data (br_world b)"

definition chat_side :: "brain \<Rightarrow> ChatSession list \<times> message_row list \<times> ConfirmationRequest list" where
  "chat_side b = (cdb_sessions (br_conversation b), cdb_messages (br_conversation b),
     cdb_confirmations (br_conversation b))"

definition brain_data where
  "brain_data b = (todo_side b, chat_side b)"

text \<open>The unit of work is transactional on all the tables.\<close>

interpretation chat_tx: transactional "brain_driver env" brain_data
  by unfold_locales
    (auto simp: brain_driver_def on_world_def zoom_run world_driver_def brain_data_def todo_side_def
      chat_side_def wd_data_def)

text \<open>An operation that leaves a part of the state: the combinators.\<close>

lemma leavesI: "(\<And>s r s'. m s = (r, s') \<Longrightarrow> part s' = part s) \<Longrightarrow> leaves part m"
  by (metis leaves_def prod.collapse)

lemma leaves_ok: "leaves part (ok a)" and leaves_fail: "leaves part (fail e)"
  by (auto intro: leavesI)

lemma leaves_bindE:
  assumes m: "leaves part m" and f: "\<And>a. leaves part (f a)"
  shows "leaves part (bindE m f)"
proof (rule leavesI)
  fix s r s' assume run: "bindE m f s = (r, s')"
  obtain q s1 where q: "m s = (q, s1)" by (cases "m s")
  show "part s' = part s"
    using run q leavesD [OF m q] leavesD [OF f, of _ s1 r s']
    by (cases q) (auto simp: bindE_run)
qed

lemma leaves_bindA:
  assumes m: "leaves part m" and f: "\<And>a. leaves part (f a)"
  shows "leaves part (bindA m f)"
proof (rule leavesI)
  fix s r s' assume run: "bindA m f s = (r, s')"
  obtain a s1 where q: "m s = (a, s1)" by (cases "m s")
  show "part s' = part s"
    using run q leavesD [OF m q] leavesD [OF f, of _ s1 r s'] by (auto simp: bindA_run)
qed

lemma leaves_if: "leaves part m \<Longrightarrow> leaves part n \<Longrightarrow> leaves part (if c then m else n)"
  by simp

lemma leaves_world: "leaves chat_side (on_world m)"
  by (rule leavesI) (auto simp: on_world_def zoom_split chat_side_def)

lemma leaves_tables: "leaves br_world (on_tables m)"
  by (rule leavesI) (auto simp: on_tables_def zoom_split)

lemma leaves_todo_side: "leaves br_world m \<Longrightarrow> leaves todo_side m"
  by (auto simp: leaves_def todo_side_def)

lemma leaves_data: "leaves todo_side m \<Longrightarrow> leaves chat_side m \<Longrightarrow> leaves brain_data m"
  by (simp add: leaves_def brain_data_def)

lemma leaves_acts: "leaves brain_data (brain_Now env)" "leaves brain_data (brain_newID env)"
  by (auto simp: leaves_def brain_data_def todo_side_def chat_side_def brain_Now_def brain_newID_def
      act_on_world_def wd_data_def)

lemma leaves_side: "leaves brain_data m \<Longrightarrow> leaves todo_side m"
  by (simp add: leaves_def brain_data_def)

lemma leaves_world_data: "leaves wd_data m \<Longrightarrow> leaves brain_data (on_world m)"
  by (intro leaves_data leaves_world leavesI)
    (auto simp: on_world_def zoom_split todo_side_def dest: leavesD)

lemma leaves_reads:
  "leaves brain_data (css_Get chat_sessions ws user i)"
  "leaves brain_data (cfs_Get confirmations ws user i)"
  "leaves brain_data (mls_ListBySession message_log ws user i l)"
  unfolding chat_wiring ChatSessionStore.simps ConfirmationStore.simps MessageLogStore.simps
  by (intro leaves_data leaves_todo_side leaves_tables leavesI;
      auto simp: on_tables_def zoom_split chat_side_def pg_chat_Get_def pg_confirmation_Get_def
        pg_message_ListBySession_def pg_message_ListBefore_def Let_def split: option.splits if_splits)+

lemma leaves_model: "leaves brain_data (ask_model cenv m)"
  unfolding ask_model_def
  by (intro leaves_world_data leavesI) (auto simp: bindA_run wd_data_def)

lemma leaves_gateway:
  "leaves brain_data (tg_ListTodos (gateway env) ws owner f)"
  "leaves brain_data (tg_SearchCandidates (gateway env) ws owner k)"
  "leaves brain_data (tg_GetTodo (gateway env) ws owner i)"
  unfolding gateway_def TodoGateway.simps
  by (intro leaves_world_data leavesI;
      auto simp: ListTodos_def SearchCandidates_def gateway_GetTodo_def GetTodo_def bindE_run tryE_run
        bindA_run wd_data_def wiring zoom_run pg_todo_List_def pg_todo_SearchCandidates_def
        pg_todo_Get_def split: prod.splits sum.splits option.splits if_splits)+

section \<open>Errors\<close>

definition atomic :: "(brain, 'a) op \<Rightarrow> bool" where
  "atomic m \<longleftrightarrow> (\<forall>b e b'. m b = (Inl e, b') \<longrightarrow> brain_data b' = brain_data b)"

lemma atomic_leaves: "leaves brain_data m \<Longrightarrow> atomic m"
  by (auto simp: atomic_def dest: leavesD)

lemma atomic_uow: "atomic (brain_uow env m)"
  unfolding atomic_def brain_uow_def by (blast intro: chat_tx.joinable_error_data)

lemma atomic_then: "atomic m \<Longrightarrow> atomic (bindE m (\<lambda>a. ok (f a)))"
  by (fastforce simp: atomic_def bindE_run split: prod.splits sum.splits)

lemma atomic_after:
  assumes "leaves brain_data m" "\<And>a. atomic (f a)"
  shows "atomic (bindE m f)"
  unfolding atomic_def
proof (intro allI impI)
  fix b e b'
  assume run: "bindE m f b = (Inl e, b')"
  obtain r b1 where m: "m b = (r, b1)" by (cases "m b")
  have d: "brain_data b1 = brain_data b" using leavesD [OF assms(1) m] .
  show "brain_data b' = brain_data b"
  proof (cases r)
    case (Inr a)
    with run m have "f a b1 = (Inl e, b')" by (simp add: bindE_run)
    with assms(2) [of a] d show ?thesis by (auto simp: atomic_def)
  qed (use run m d in \<open>simp add: bindE_run\<close>)
qed

lemma atomic_act: "leaves brain_data m \<Longrightarrow> (\<And>a. atomic (f a)) \<Longrightarrow> atomic (bindA m f)"
  by (fastforce simp: atomic_def bindA_run dest: leavesD split: prod.splits)

lemma atomic_result: "(\<And>x. atomic (f x)) \<Longrightarrow> atomic (bindE (conversation_result r) f)"
  by (cases r) (simp_all add: conversation_result_run atomic_leaves leaves_fail)

lemma atomic_persist: "atomic (persistTranscript (process_ports env cenv) t intent body)"
  unfolding persistTranscript_def process_ports_simps by (rule atomic_uow)

lemma atomic_clarify: "atomic (clarify (process_ports env cenv) t missing reply)"
  unfolding clarify_def by (intro atomic_then atomic_persist)

lemma atomic_dispatch: "atomic (dispatch zone (process_ports env cenv) t reply p)"
proof -
  have "atomic (dispatchCreate zone (process_ports env cenv) t reply p)"
    unfolding dispatchCreate_def Let_def process_ports_simps prod.case_eq_if
    by (auto intro: atomic_then atomic_uow atomic_clarify)
  moreover have "atomic (dispatchList zone (process_ports env cenv) t p)"
    unfolding dispatchList_def Let_def process_ports_simps prod.case_eq_if
    by (intro atomic_then atomic_uow)
  moreover have "atomic (request_confirmation (process_ports env cenv) t p cs c)" for cs c
    unfolding request_confirmation_def process_ports_simps
    by (intro atomic_act leaves_acts atomic_result atomic_then atomic_uow)
  then have "atomic (dispatchDelete (process_ports env cenv) t reply p)"
    unfolding dispatchDelete_def process_ports_simps
    by (intro atomic_after leaves_gateway)
      (auto intro: atomic_then atomic_persist atomic_clarify split: list.splits)
  ultimately show ?thesis
    unfolding dispatch_def by (auto intro: atomic_clarify atomic_leaves leaves_ok)
qed

lemma atomic_ProcessMessage: "atomic (api_ProcessMessage env cenv t)"
  unfolding api_ProcessMessage_def ProcessMessage_def loadHistory_def process_ports_simps answer_turn_def
  by (intro atomic_after leaves_if leaves_ok leaves_bindE leaves_reads leaves_model)
    (auto intro: atomic_then atomic_persist atomic_dispatch split: sum.splits option.splits)

lemma atomic_ConfirmAction: "atomic (api_ConfirmAction env ws user cid sid)"
  unfolding api_ConfirmAction_def ConfirmActionWithSession_def confirm_ports_simps
  by (intro atomic_then atomic_uow)

end
