(* ===== verification/Conversation_Turns.thy ===== *)
theory Conversation_Turns
  imports Conversation_Facts
begin

text \<open>
  What a turn of the message flow leaves behind, whatever the model answered: two rows of the
  transcript in a session of the caller; a confirmation only when the caller is asked for one; a
  todo only when the response says so, and then exactly the one of a valid and confident proposal.
\<close>

section \<open>Runs of the parts\<close>

lemma on_tables_Inr:
  "on_tables m b = (Inr a, b') \<longleftrightarrow>
     (\<exists>db. m (br_conversation b) = (Inr a, db) \<and> b' = b\<lparr>br_conversation := db\<rparr>)"
  by (auto simp: on_tables_def zoom_split)

lemma on_world_Inr:
  "on_world m b = (Inr a, b') \<longleftrightarrow> (\<exists>w. m (br_world b) = (Inr a, w) \<and> b' = b\<lparr>br_world := w\<rparr>)"
  by (auto simp: on_world_def zoom_split)

lemma brain_acts_run:
  "brain_Now env b = (now, b1) \<Longrightarrow> brain_data b1 = brain_data b \<and> br_conversation b1 = br_conversation b"
  "brain_newID env b = (i, b1) \<Longrightarrow> brain_data b1 = brain_data b \<and> br_conversation b1 = br_conversation b"
  by (auto simp: brain_Now_def brain_newID_def act_on_world_def brain_data_def todo_side_def
      chat_side_def wd_data_def)

lemma bindA_Inr:
  "bindA m f s = (Inr a, s') \<longleftrightarrow> (\<exists>x s1. m s = (x, s1) \<and> f x s1 = (Inr a, s'))"
  by (cases "m s") (simp add: bindA_run)

lemma conversation_result_Inr: "conversation_result r s = (Inr a, s') \<longleftrightarrow> r = Inr a \<and> s' = s"
  by (cases r) (auto simp: conversation_result_def)

lemma filter_one: "length (filter P xs) = Suc 0 \<Longrightarrow> \<exists>x \<in> set xs. P x"
  by (metis filter_False list.size(3) nat.distinct(1))

lemma brain_uow_ok:
  assumes inv: "brain_inv env b" and run: "brain_uow env m b = (Inr a, b')"
  obtains v v' where "brain_data v = brain_data b" "brain_inv env v" "m v = (Inr a, v')"
    "brain_data b' = brain_data v'"
proof -
  let ?tick = "\<lambda>b. b\<lparr>br_world := (br_world b)\<lparr>wd_tick := Suc (wd_tick (br_world b))\<rparr>\<rparr>"
  have start: "tx_Begin (brain_driver env) b = (e_Begin env (wd_tick (br_world b)), ?tick b)"
    "tx_Commit (brain_driver env) b = (e_Commit env (wd_tick (br_world b)), ?tick b)" for b
    by (simp_all add: brain_driver_def on_world_def zoom_run world_driver_def)
  obtain v' where m: "m (?tick b) = (Inr a, v')" "b' = ?tick v'"
    using run by (auto simp: brain_uow_def JoinableUoW_Run_def TxRunner_Run_def start
        split: prod.splits sum.splits)
  have d: "brain_data (?tick x) = brain_data x" for x
    by (simp add: brain_data_def todo_side_def chat_side_def wd_data_def)
  have "brain_inv env (?tick b)"
    using inv world_inv_cong [of "(br_world b)\<lparr>wd_tick := Suc (wd_tick (br_world b))\<rparr>" "br_world b" env]
    by (simp add: brain_inv_def wd_data_def)
  with m d show thesis by (intro that [of "?tick b" v']) simp_all
qed

lemma todo_side_data: "brain_data b' = brain_data b \<Longrightarrow> todo_side b' = todo_side b"
  by (simp add: brain_data_def)

lemma chat_side_data:
  assumes "brain_data b' = brain_data b"
  shows "cdb_sessions (br_conversation b') = cdb_sessions (br_conversation b)"
    "cdb_messages (br_conversation b') = cdb_messages (br_conversation b)"
    "cdb_confirmations (br_conversation b') = cdb_confirmations (br_conversation b)"
  using assms by (simp_all add: brain_data_def chat_side_def)

section \<open>The transcript\<close>

text \<open>
  Two rows at the end of the log, the message and the answer, in a session of the caller: the one
  the turn names, or one that was opened for it.
\<close>

definition transcribed :: "message_turn \<Rightarrow> string \<Rightarrow> string \<Rightarrow> string \<Rightarrow> brain \<Rightarrow> brain \<Rightarrow> bool" where
  "transcribed t sid intent body b b' \<longleftrightarrow>
     (\<exists>now i j. cdb_messages (br_conversation b') = cdb_messages (br_conversation b) @
        [\<lparr>mr_ID = i, mr_Log = transcript_row t sid RoleUser (tn_Text t) (Some intent) now\<rparr>,
         \<lparr>mr_ID = j, mr_Log = transcript_row t sid RoleAssistant body None now\<rparr>])
     \<and> own_session (tn_WorkspaceID t) (tn_UserID t) sid (cdb_sessions (br_conversation b'))
     \<and> map cse_ID (cdb_sessions (br_conversation b')) = map cse_ID (cdb_sessions (br_conversation b))
         @ (if tn_SessionID t = [] then [sid] else [])
     \<and> (tn_SessionID t \<noteq> [] \<longrightarrow> sid = tn_SessionID t)"

text \<open>The confirmations and the todo module as they were.\<close>

definition quiet :: "brain \<Rightarrow> brain \<Rightarrow> bool" where
  "quiet b b' \<longleftrightarrow> todo_side b' = todo_side b
     \<and> cdb_confirmations (br_conversation b') = cdb_confirmations (br_conversation b)"

lemma transcribed_cong:
  assumes "transcribed t sid intent body v v'" "brain_data v = brain_data b" "brain_data b' = brain_data v'"
  shows "transcribed t sid intent body b b'"
  using assms(1) chat_side_data [OF assms(2)] chat_side_data [OF assms(3)] by (simp add: transcribed_def)

lemma quiet_cong:
  assumes "quiet v v'" "brain_data v = brain_data b" "brain_data b' = brain_data v'"
  shows "quiet b b'"
  using assms(1) chat_side_data [OF assms(2)] chat_side_data [OF assms(3)] todo_side_data [OF assms(2)]
    todo_side_data [OF assms(3)] by (simp add: quiet_def)

lemma open_session_run:
  assumes "open_session_for (process_ports env cenv) t b = (Inr sid, b')"
  shows "quiet b b' \<and> cdb_messages (br_conversation b') = cdb_messages (br_conversation b)
    \<and> map cse_ID (cdb_sessions (br_conversation b')) = map cse_ID (cdb_sessions (br_conversation b))
         @ (if tn_SessionID t = [] then [sid] else [])
    \<and> (tn_SessionID t \<noteq> [] \<longrightarrow> sid = tn_SessionID t)"
proof (cases "tn_SessionID t = []")
  case False
  with assms show ?thesis by (simp add: open_session_for_def quiet_def)
next
  case True
  then obtain i b1 now b2 s where i: "brain_newID env b = (i, b1)" and n: "brain_Now env b1 = (now, b2)"
    and s: "NewSession i (tn_WorkspaceID t) (tn_UserID t) (DefaultSessionTitle (tn_Text t)) now = Inr s"
    and c: "css_Create chat_sessions s b2 = (Inr (), b')" and sid: "sid = i"
    using assms
    by (auto simp: open_session_for_def bindA_Inr bindE_Inr_iff conversation_result_Inr)
  have d: "brain_data b2 = brain_data b" using brain_acts_run(2) [OF i] brain_acts_run(1) [OF n] by simp
  have "pg_chat_Create s (br_conversation b2) = (Inr (), br_conversation b')"
    and b': "b' = b2\<lparr>br_conversation := br_conversation b'\<rparr>"
    using c by (auto simp: chat_wiring on_tables_Inr)
  then have "br_conversation b' = (br_conversation b2)\<lparr>cdb_sessions := cdb_sessions (br_conversation b2) @ [s]\<rparr>"
    by (simp add: pg_chat_Create_def split: if_splits)
  moreover have "todo_side b' = todo_side b2" by (subst b') (simp add: todo_side_def)
  ultimately show ?thesis
    using True sid NewSession_Inr(1) [OF s] chat_side_data [OF d] todo_side_data [OF d]
    by (simp add: quiet_def)
qed

lemma append_run:
  assumes "mls_Append message_log m b = (Inr (), b')"
  shows "quiet b b'" "cdb_sessions (br_conversation b') = cdb_sessions (br_conversation b)"
    "\<exists>i. cdb_messages (br_conversation b') = cdb_messages (br_conversation b) @ [\<lparr>mr_ID = i, mr_Log = m\<rparr>]"
  using assms
  by (auto simp: chat_wiring on_tables_Inr pg_message_Append_def bindE_Inr_iff next_key_def
      insert_message_def quiet_def todo_side_def split: if_splits)

lemma touch_run:
  assumes "css_Touch chat_sessions ws user sid now b = (Inr (), b')"
  shows "quiet b b'" "cdb_messages (br_conversation b') = cdb_messages (br_conversation b)"
    "map cse_ID (cdb_sessions (br_conversation b')) = map cse_ID (cdb_sessions (br_conversation b))"
    "own_session ws user sid (cdb_sessions (br_conversation b'))"
proof -
  let ?ss = "cdb_sessions (br_conversation b)"
  have own: "own_session ws user sid ?ss" and b': "b' = b\<lparr>br_conversation := (br_conversation b)
      \<lparr>cdb_sessions := update_where (session_scope ws user sid) (\<lambda>s. s\<lparr>cse_UpdatedAt := now\<rparr>) ?ss\<rparr>\<rparr>"
    using assms
    by (auto simp: chat_wiring on_tables_Inr pg_chat_Touch_def scopedUpdate_def own_session_def
        dest: filter_one split: if_splits)
  have "map cse_ID (update_where (session_scope ws user sid) (\<lambda>s. s\<lparr>cse_UpdatedAt := now\<rparr>) ?ss) = map cse_ID ?ss"
    by (simp add: update_where_def)
  moreover have "own_session ws user sid (update_where (session_scope ws user sid)
      (\<lambda>s. s\<lparr>cse_UpdatedAt := now\<rparr>) ?ss)" by (rule own_session_map [OF _ own]) simp
  ultimately show "quiet b b'" "cdb_messages (br_conversation b') = cdb_messages (br_conversation b)"
    "map cse_ID (cdb_sessions (br_conversation b')) = map cse_ID ?ss"
    "own_session ws user sid (cdb_sessions (br_conversation b'))"
    by (simp_all add: b' quiet_def todo_side_def)
qed

lemma transcribe_run:
  assumes "transcribeInside (process_ports env cenv) t intent body b = (Inr sid, b')"
  shows "transcribed t sid intent body b b' \<and> quiet b b'"
proof -
  obtain b1 now b2 b3 b4 where o: "open_session_for (process_ports env cenv) t b = (Inr sid, b1)"
    and n: "brain_Now env b1 = (now, b2)"
    and u: "mls_Append message_log (transcript_row t sid RoleUser (tn_Text t) (Some intent) now) b2 = (Inr (), b3)"
    and a: "mls_Append message_log (transcript_row t sid RoleAssistant body None now) b3 = (Inr (), b4)"
    and c: "css_Touch chat_sessions (tn_WorkspaceID t) (tn_UserID t) sid now b4 = (Inr (), b')"
    using assms unfolding transcribeInside_def process_ports_simps bindE_Inr_iff bindA_Inr
    by fastforce
  note os = open_session_run [OF o] and d = conjunct1 [OF brain_acts_run(1) [OF n]]
    and ur = append_run [OF u] and ar = append_run [OF a] and cr = touch_run [OF c]
  note nd = chat_side_data [OF d] todo_side_data [OF d]
  obtain i j where
    "cdb_messages (br_conversation b3) = cdb_messages (br_conversation b2)
       @ [\<lparr>mr_ID = i, mr_Log = transcript_row t sid RoleUser (tn_Text t) (Some intent) now\<rparr>]"
    "cdb_messages (br_conversation b4) = cdb_messages (br_conversation b3)
       @ [\<lparr>mr_ID = j, mr_Log = transcript_row t sid RoleAssistant body None now\<rparr>]"
    using ur(3) ar(3) by blast
  then have "cdb_messages (br_conversation b') = cdb_messages (br_conversation b) @
        [\<lparr>mr_ID = i, mr_Log = transcript_row t sid RoleUser (tn_Text t) (Some intent) now\<rparr>,
         \<lparr>mr_ID = j, mr_Log = transcript_row t sid RoleAssistant body None now\<rparr>]"
    using os nd cr(2) by simp
  moreover have "map cse_ID (cdb_sessions (br_conversation b')) = map cse_ID (cdb_sessions (br_conversation b))
         @ (if tn_SessionID t = [] then [sid] else [])"
    using os nd ur(2) ar(2) cr(3) by simp
  moreover have "tn_SessionID t \<noteq> [] \<longrightarrow> sid = tn_SessionID t" using os by blast
  moreover have "quiet b b'" using os nd ur(1) ar(1) cr(1) by (simp add: quiet_def)
  ultimately show ?thesis using cr(4) unfolding transcribed_def by blast
qed

lemma persist_run:
  assumes inv: "brain_inv env b"
    and run: "bindE (persistTranscript (process_ports env cenv) t intent body) (\<lambda>sid. ok (f sid)) b = (Inr rsp, b')"
  shows "\<exists>sid. rsp = f sid \<and> transcribed t sid intent body b b' \<and> quiet b b'"
proof -
  obtain sid where r: "rsp = f sid"
    and u: "brain_uow env (transcribeInside (process_ports env cenv) t intent body) b = (Inr sid, b')"
    using run by (auto simp: bindE_Inr_iff persistTranscript_def)
  obtain v v' where v: "brain_data v = brain_data b" "brain_inv env v" "brain_data b' = brain_data v'"
    and m: "transcribeInside (process_ports env cenv) t intent body v = (Inr sid, v')"
    by (rule brain_uow_ok [OF inv u])
  from transcribe_run [OF m] transcribed_cong [OF _ v(1,3)] quiet_cong [OF _ v(1,3)] r show ?thesis by blast
qed

section \<open>A todo created in a conversation\<close>

text \<open>One new todo at the end of the table, planned when it is due; nothing else in the todo module.\<close>

definition adds_todo :: "env \<Rightarrow> CreateTodoRequest \<Rightarrow> TodoView \<Rightarrow> world \<Rightarrow> world \<Rightarrow> bool" where
  "adds_todo env req view w w' \<longleftrightarrow> (\<exists>now i t chans.
     New i (cr_WorkspaceID req) (cr_UserID req) (cr_Title req) (cr_Description req) (cr_DueAtUTC req)
       (cr_TimezoneAtInput req) now = Inr t
     \<and> i \<notin> t_ID ` set (wd_todo w) \<and> wd_todo w' = wd_todo w @ [t] \<and> wd_identity w' = wd_identity w
     \<and> view = (FromDomain t now)\<lparr>v_ReminderScheduled := Some (t_DueAtUTC t \<noteq> None \<and> chans \<noteq> []),
           v_ReminderChannels := Some chans\<rparr>
     \<and> (case cr_DueAtUTC req of
          None \<Rightarrow> chans = [] \<and> wd_reminder w' = wd_reminder w \<and> wd_jobs w' = wd_jobs w
        | Some due \<Rightarrow> chans = active_kinds env (wd_identity w) (cr_WorkspaceID req) (cr_UserID req)
            \<and> planned w w' t due chans))"

lemma adds_todo_cong:
  assumes "adds_todo env req view v v'" "wd_data v = wd_data w" "wd_data w' = wd_data v'"
  shows "adds_todo env req view w w'"
proof -
  have d: "wd_todo v = wd_todo w" "wd_reminder v = wd_reminder w" "wd_identity v = wd_identity w"
    "wd_jobs v = wd_jobs w" "wd_todo w' = wd_todo v'" "wd_reminder w' = wd_reminder v'"
    "wd_identity w' = wd_identity v'" "wd_jobs w' = wd_jobs v'"
    using wd_dataD [OF assms(2)] wd_dataD [OF assms(3)] by simp_all
  show ?thesis using assms(1) unfolding adds_todo_def planned_def d .
qed

lemma identity_kept:
  assumes "create_work (todos env) (planner env) (provider env) t w = (r, w')"
  shows "wd_identity w' = wd_identity w"
proof -
  let ?I = "\<lambda>v. wd_identity v = wd_identity w"
  have "keeps ?I (ts_Insert (todos env) t)" by (rule keepsI) (auto simp: wiring zoom_split)
  moreover have "keeps ?I (rp_Plan (planner env) p)" for p
    by (rule keepsI) (use planner_frame in metis)
  moreover have "keeps ?I (channelsSnapshot (provider env) ws owner)" for ws owner
    by (rule keepsI) (auto simp: snapshot_run)
  ultimately have "keeps ?I (create_work (todos env) (planner env) (provider env) t)"
    unfolding create_work_def by (auto intro!: keeps_rules split: option.splits)
  from keepsD [OF this refl assms] show ?thesis .
qed

lemma joined_create:
  assumes inv: "world_inv env w" and ws: "CHR '':'' \<notin> set (cr_WorkspaceID req)"
    and run: "joined_CreateTodo env req w = (Inr view, w')"
  shows "adds_todo env req view w w'"
proof -
  obtain now w1 i w2 where n: "world_Now env w = (now, w1)" and i: "world_newID env w1 = (i, w2)"
    by (metis surj_pair)
  obtain t chans where new: "New i (cr_WorkspaceID req) (cr_UserID req) (cr_Title req)
        (cr_Description req) (cr_DueAtUTC req) (cr_TimezoneAtInput req) now = Inr t"
    and work: "create_work (todos env) (planner env) (provider env) t w2 = (Inr chans, w')"
    and view: "view = (FromDomain t now)\<lparr>v_ReminderScheduled := Some (t_DueAtUTC t \<noteq> None \<and> chans \<noteq> []),
           v_ReminderChannels := Some chans\<rparr>"
    using run n i
    by (auto simp: joined_CreateTodo_def CreateTodo_def joined_run bindA_run bindE_Inr_iff domain_result_Inr)
  have f: "todo_wf t" "t_ID t = i" "t_WorkspaceID t = cr_WorkspaceID req" "t_OwnerUserID t = cr_UserID req"
    "t_DueAtUTC t = cr_DueAtUTC req"
    using new New_wf [OF new] by (auto simp: New_def split: if_splits option.splits)
  have d2: "wd_data w2 = wd_data w" using n i by (auto simp: wd_data_def)
  note w2 = wd_dataD [OF d2]
  have inv2: "world_inv env w2" by (rule world_inv_cong [OF d2 _ inv]) (use n i in auto)
  have fresh: "i \<in> issued_ids env w2" "i \<notin> issued_ids env w"
    using newID_issued [OF i] n by (auto simp: issued_ids_def)
  then have notin: "i \<notin> t_ID ` set (wd_todo w)" using inv by (auto simp: world_inv_def todos_inv_def)
  have "wd_todo w' = wd_todo w2 @ [t] \<and>
    (case t_DueAtUTC t of
       None \<Rightarrow> chans = [] \<and> wd_reminder w' = wd_reminder w2 \<and> wd_jobs w' = wd_jobs w2
     | Some due \<Rightarrow> chans = active_kinds env (wd_identity w2) (t_WorkspaceID t) (t_OwnerUserID t)
         \<and> planned w2 w' t due chans)"
    by (rule create_work_plans [OF inv2 f(1) _ _ _ work]) (use fresh notin w2 ws f in simp_all)
  with new view notin w2 f identity_kept [OF work] show ?thesis
    unfolding adds_todo_def
    by (intro exI [of _ now] exI [of _ i] exI [of _ t] exI [of _ chans])
      (auto simp: planned_def split: option.splits)
qed

section \<open>The answer\<close>

text \<open>The summary that the transcript keeps for each kind of response.\<close>

definition said :: "zone_db \<Rightarrow> MessageResponse \<Rightarrow> string \<Rightarrow> string \<Rightarrow> bool" where
  "said zone rsp intent body \<longleftrightarrow>
     rsp_Kind rsp = KindUnsupported \<and> intent = ResolvedIntentUnsupported \<and> body = UnsupportedSummary
       \<and> rsp_Reply rsp = []
     \<or> rsp_Kind rsp = KindChat \<and> intent = ResolvedIntentChat \<and> body = rsp_Reply rsp \<and> reply_ok body
     \<or> rsp_Kind rsp = KindClarification \<and> intent = ResolvedIntentClarification \<and> body = rsp_Reply rsp
       \<and> reply_ok body
     \<or> rsp_Kind rsp = KindTodoCreated \<and> intent = IntentTodoCreate
       \<and> (\<exists>todo. rsp_Todo rsp = Some todo \<and> body = CreateSchedulingSummary todo (rsp_LocalEcho rsp)
            (rsp_TimezoneEcho rsp) (rsp_ResolvedDueAtUTC rsp))
     \<or> rsp_Kind rsp = KindTodoList \<and> intent = IntentTodoList \<and> body = TodoListSummary zone (rsp_Todos rsp)
     \<or> rsp_Kind rsp = KindNotFound \<and> intent = IntentTodoDelete \<and> body = NotFoundSummary
     \<or> rsp_Kind rsp = KindCandidates \<and> intent = IntentTodoDelete
       \<and> 2 \<le> length (rsp_Candidates rsp) \<and> length (rsp_Candidates rsp) \<le> maxSelectableCandidates
       \<and> body = CandidatesSummary (int (length (rsp_Candidates rsp)))
     \<or> rsp_Kind rsp = KindConfirmationRequired \<and> intent = IntentTodoDelete
       \<and> (\<exists>c. rsp_Candidates rsp = [c] \<and> body = ConfirmationSummary (c_Title c))"

definition transcript_kept :: "zone_db \<Rightarrow> message_turn \<Rightarrow> MessageResponse \<Rightarrow> brain \<Rightarrow> brain \<Rightarrow> bool" where
  "transcript_kept zone t rsp b b' \<longleftrightarrow>
     (\<exists>intent body. transcribed t (rsp_SessionID rsp) intent body b b' \<and> said zone rsp intent body)"

text \<open>A confirmation is stored only for the response that asks for it: for its one candidate.\<close>

definition confirmation_kept :: "chat_env \<Rightarrow> message_turn \<Rightarrow> MessageResponse \<Rightarrow> brain \<Rightarrow> brain \<Rightarrow> bool" where
  "confirmation_kept cenv t rsp b b' \<longleftrightarrow>
     (if rsp_Kind rsp = KindConfirmationRequired
      then \<exists>todo c now. rsp_Candidates rsp = [todo]
        \<and> c = \<lparr>cfm_ID = rsp_ConfirmationID rsp, cfm_WorkspaceID = tn_WorkspaceID t,
                cfm_UserID = tn_UserID t, cfm_Intent = IntentTodoDelete, cfm_TodoID = c_TodoID todo,
                cfm_TodoVersion = c_Version todo, cfm_CreatedAt = now,
                cfm_ExpiresAt = now + ce_ConfirmationTTL cenv, cfm_ConsumedAt = None\<rparr>
        \<and> rsp_ExpiresAt rsp = Some (cfm_ExpiresAt c)
        \<and> cdb_confirmations (br_conversation b') = cdb_confirmations (br_conversation b) @ [c]
      else cdb_confirmations (br_conversation b') = cdb_confirmations (br_conversation b))"

text \<open>
  A todo is written only for a validated, complete and confident proposal to create one, and it is
  the todo of the proposal's arguments; no turn changes or deletes a todo.
\<close>

definition create_request :: "message_turn \<Rightarrow> ProposalArguments \<Rightarrow> CreateTodoRequest" where
  "create_request t a = \<lparr>cr_WorkspaceID = tn_WorkspaceID t, cr_UserID = tn_UserID t, cr_Title = pa_Title a,
     cr_Description = pa_Description a, cr_DueAtUTC = pa_DueAtUTC a,
     cr_TimezoneAtInput = stringPointer (if pa_Timezone a = [] then tn_Timezone t else pa_Timezone a)\<rparr>"

definition may_create :: "zone_db \<Rightarrow> IntentProposal \<Rightarrow> bool" where
  "may_create zone p \<longleftrightarrow> proposal_ok zone p \<and> ip_Intent p = IntentTodoCreate \<and> ip_MissingFields p = []
     \<and> \<not> fless (ip_Confidence p) MinDispatchConfidence \<and> pa_Title (ip_Arguments p) \<noteq> []"

definition todo_kept ::
    "env \<Rightarrow> zone_db \<Rightarrow> message_turn \<Rightarrow> RawMessage \<Rightarrow> MessageResponse \<Rightarrow> brain \<Rightarrow> brain \<Rightarrow> bool" where
  "todo_kept env zone t raw rsp b b' \<longleftrightarrow>
     (if rsp_Kind rsp = KindTodoCreated
      then \<exists>turn p view. ValidateModelTurn zone raw = Inr turn \<and> mt_Proposal turn = Some p
        \<and> may_create zone p \<and> rsp_Todo rsp = Some view
        \<and> adds_todo env (create_request t (ip_Arguments p)) view (br_world b) (br_world b')
      else todo_side b' = todo_side b)"

definition outcome ::
    "env \<Rightarrow> chat_env \<Rightarrow> message_turn \<Rightarrow> RawMessage \<Rightarrow> MessageResponse \<Rightarrow> brain \<Rightarrow> brain \<Rightarrow> bool" where
  "outcome env cenv t raw rsp b b' \<longleftrightarrow> transcript_kept (ce_zone cenv) t rsp b b'
     \<and> confirmation_kept cenv t rsp b b' \<and> todo_kept env (ce_zone cenv) t raw rsp b b'"

lemmas kinds = KindTodoCreated_def KindClarification_def KindCandidates_def KindConfirmationRequired_def
  KindTodoList_def KindTodoDeleted_def KindNotFound_def KindUnsupported_def KindChat_def

lemma response_kind [simp]:
  "rsp_Kind (response k) = k" "rsp_Reply (response k) = []" "rsp_Candidates (response k) = []"
  "rsp_Todos (response k) = []" "rsp_LocalEcho (response k) = []" "rsp_TimezoneEcho (response k) = []"
  "rsp_ResolvedDueAtUTC (response k) = None"
  by (simp_all add: response_def)

lemma quiet_outcome:
  assumes "transcribed t (rsp_SessionID rsp) intent body b b'" "quiet b b'"
    "said (ce_zone cenv) rsp intent body"
    "rsp_Kind rsp \<noteq> KindTodoCreated" "rsp_Kind rsp \<noteq> KindConfirmationRequired"
  shows "outcome env cenv t raw rsp b b'"
  using assms
  by (auto simp: outcome_def transcript_kept_def confirmation_kept_def todo_kept_def quiet_def)

lemma outcome_cong:
  assumes o: "outcome env cenv t raw rsp v v'" and e: "brain_data v = brain_data b" "brain_data b' = brain_data v'"
  shows "outcome env cenv t raw rsp b b'"
  unfolding outcome_def
proof (intro conjI)
  note c = chat_side_data [OF e(1)] chat_side_data [OF e(2)] todo_side_data [OF e(1)] todo_side_data [OF e(2)]
  show "transcript_kept (ce_zone cenv) t rsp b b'"
    using o transcribed_cong [OF _ e] unfolding outcome_def transcript_kept_def by blast
  have "confirmation_kept cenv t rsp v v'" using o by (simp add: outcome_def)
  then show "confirmation_kept cenv t rsp b b'" unfolding confirmation_kept_def c .
  show "todo_kept env (ce_zone cenv) t raw rsp b b'"
    using o c adds_todo_cong [of env _ _ "br_world v" "br_world v'" "br_world b" "br_world b'"]
    unfolding outcome_def todo_kept_def todo_side_def by (auto split: if_splits)
qed

section \<open>The branches\<close>

lemma step_inv:
  assumes inv: "brain_inv env b" and m: "keeps (guarded env b anything) m" and run: "m b = (r, b1)"
  shows "brain_inv env b1"
proof -
  have "guarded env b anything b" using brain_evolves_refl [OF inv] by (simp add: guarded_def anything_def)
  from keepsD [OF m this run] show ?thesis by (auto simp: guarded_def dest: brain_evolves_inv)
qed

lemma act_inv:
  assumes "brain_inv env b" "\<And>P. keepsA (guarded env b P) m" "m b = (a, b1)"
  shows "brain_inv env b1"
proof -
  have "guarded env b anything b" using brain_evolves_refl [OF assms(1)] by (simp add: guarded_def anything_def)
  then have "guarded env b anything (snd (m b))" using assms(2) unfolding keepsA_def by blast
  with assms(3) show ?thesis by (auto simp: guarded_def intro: brain_evolves_inv)
qed

lemma acts_inv:
  "brain_inv env b \<Longrightarrow> brain_Now env' b = (now, b1) \<Longrightarrow> brain_inv env b1"
  "brain_inv env b \<Longrightarrow> brain_newID env' b = (i, b1) \<Longrightarrow> brain_inv env b1"
  by (erule (1) act_inv [OF _ guarded_acts(1)]) (erule (1) act_inv [OF _ guarded_acts(2)])

lemma reply_nonempty: "reply_ok reply \<Longrightarrow> reply \<noteq> []"
  by (auto simp: reply_ok_def)

lemma clarify_outcome:
  assumes inv: "brain_inv env b" and r: "reply_ok reply"
    and run: "clarify (process_ports env cenv) t missing reply b = (Inr rsp, b')"
  shows "outcome env cenv t raw rsp b b'"
proof -
  have body: "(if reply = [] then UnsupportedSummary else reply) = reply" using reply_nonempty [OF r] by simp
  obtain sid where "rsp = (response KindClarification)\<lparr>rsp_MissingFields := missing, rsp_Reply := reply,
        rsp_SessionID := sid\<rparr>" "transcribed t sid ResolvedIntentClarification reply b b'" "quiet b b'"
    using persist_run [OF inv run [unfolded clarify_def body]] by blast
  with r show ?thesis by (intro quiet_outcome) (auto simp: said_def kinds)
qed

lemma echo_facts:
  "rsp_Kind (echo_response zone tz due) = KindTodoCreated" "rsp_ResolvedDueAtUTC (echo_response zone tz due) = due"
  "CreateSchedulingSummary todo (rsp_LocalEcho (echo_response zone tz due)) (rsp_TimezoneEcho (echo_response zone tz due)) due
    = CreateSchedulingSummary todo (rsp_LocalEcho (echo_response zone tz due)) tz due"
  by (simp_all add: echo_response_def CreateSchedulingSummary_def split: option.splits)

lemma create_outcome:
  assumes inv: "brain_inv env b" and ws: "CHR '':'' \<notin> set (tn_WorkspaceID t)" and r: "reply_ok reply"
    and turn: "ValidateModelTurn (ce_zone cenv) raw = Inr turn" "mt_Proposal turn = Some p"
    and p: "proposal_ok (ce_zone cenv) p" "ip_Intent p = IntentTodoCreate" "ip_MissingFields p = []"
      "\<not> fless (ip_Confidence p) MinDispatchConfidence"
    and run: "dispatchCreate (ce_zone cenv) (process_ports env cenv) t reply p b = (Inr rsp, b')"
  shows "outcome env cenv t raw rsp b b'"
proof (cases "pa_Title (ip_Arguments p) = []")
  case True
  with run have "clarify (process_ports env cenv) t [''title''] reply b = (Inr rsp, b')"
    by (simp add: dispatchCreate_def)
  from clarify_outcome [OF inv r this] show ?thesis .
next
  case False
  let ?a = "ip_Arguments p"
  let ?tz = "if pa_Timezone ?a = [] then tn_Timezone t else pa_Timezone ?a"
  let ?echo = "echo_response (ce_zone cenv) ?tz (pa_DueAtUTC ?a)"
  obtain created sid where rsp: "rsp = ?echo\<lparr>rsp_Todo := Some created, rsp_SessionID := sid\<rparr>"
    and u: "brain_uow env (bindE (on_world (joined_CreateTodo env (create_request t ?a))) (\<lambda>todo.
           bindE (transcribeInside (process_ports env cenv) t (ip_Intent p)
              (CreateSchedulingSummary todo (rsp_LocalEcho ?echo) ?tz (pa_DueAtUTC ?a)))
             (\<lambda>resolved. ok (todo, resolved)))) b = (Inr (created, sid), b')"
    using run False
    by (auto simp: dispatchCreate_def Let_def gateway_def create_request_def bindE_Inr_iff cong: if_cong)
  obtain v v' where v: "brain_data v = brain_data b" "brain_inv env v" "brain_data b' = brain_data v'"
    and m: "bindE (on_world (joined_CreateTodo env (create_request t ?a))) (\<lambda>todo.
           bindE (transcribeInside (process_ports env cenv) t (ip_Intent p)
              (CreateSchedulingSummary todo (rsp_LocalEcho ?echo) ?tz (pa_DueAtUTC ?a)))
             (\<lambda>resolved. ok (todo, resolved))) v = (Inr (created, sid), v')"
    by (rule brain_uow_ok [OF inv u])
  obtain w where c: "joined_CreateTodo env (create_request t ?a) (br_world v) = (Inr created, w)"
    and tr: "transcribeInside (process_ports env cenv) t (ip_Intent p)
              (CreateSchedulingSummary created (rsp_LocalEcho ?echo) ?tz (pa_DueAtUTC ?a)) (v\<lparr>br_world := w\<rparr>)
              = (Inr sid, v')"
    using m by (auto simp: bindE_Inr_iff on_world_Inr)
  have "CHR '':'' \<notin> set (cr_WorkspaceID (create_request t ?a))" using ws by (simp add: create_request_def)
  then have add: "adds_todo env (create_request t ?a) created (br_world v) w"
    using joined_create [OF _ _ c] v(2) by (simp add: brain_inv_def)
  note s = transcribe_run [OF tr]
  have w: "wd_data (br_world v') = wd_data w" using s by (simp add: quiet_def todo_side_def)
  have "outcome env cenv t raw rsp v v'"
    unfolding outcome_def
  proof (intro conjI)
    have "transcribed t sid (ip_Intent p)
        (CreateSchedulingSummary created (rsp_LocalEcho ?echo) ?tz (pa_DueAtUTC ?a)) v v'"
      using s by (simp add: transcribed_def)
    moreover have "said (ce_zone cenv) rsp (ip_Intent p)
        (CreateSchedulingSummary created (rsp_LocalEcho ?echo) ?tz (pa_DueAtUTC ?a))"
      using p(2) echo_facts(3) [of created "ce_zone cenv" ?tz "pa_DueAtUTC ?a"]
      by (simp add: said_def rsp echo_facts(1,2))
    ultimately show "transcript_kept (ce_zone cenv) t rsp v v'"
      unfolding transcript_kept_def by (intro exI conjI) (simp_all add: rsp)
    show "confirmation_kept cenv t rsp v v'"
      using s by (simp add: confirmation_kept_def rsp echo_facts kinds quiet_def)
    have "adds_todo env (create_request t ?a) created (br_world v) (br_world v')"
      using adds_todo_cong [OF add refl w] .
    moreover have "may_create (ce_zone cenv) p" using p False by (simp add: may_create_def)
    moreover have "rsp_Kind rsp = KindTodoCreated" "rsp_Todo rsp = Some created" by (simp_all add: rsp echo_facts)
    ultimately show "todo_kept env (ce_zone cenv) t raw rsp v v'"
      using turn unfolding todo_kept_def by auto
  qed
  from outcome_cong [OF this v(1,3)] show ?thesis .
qed

lemma list_outcome:
  assumes inv: "brain_inv env b" and p: "ip_Intent p = IntentTodoList"
    and run: "dispatchList (ce_zone cenv) (process_ports env cenv) t p b = (Inr rsp, b')"
  shows "outcome env cenv t raw rsp b b'"
proof -
  let ?f = "\<lparr>lf_Keyword = pa_Keyword (ip_Arguments p), lf_Status = pa_Status (ip_Arguments p),
    lf_DueFrom = pa_DueFrom (ip_Arguments p), lf_DueTo = pa_DueTo (ip_Arguments p),
    lf_NoDue = pa_NoDue (ip_Arguments p), lf_CompletedSince = None\<rparr>"
  let ?read = "tg_ListTodos (gateway env) (tn_WorkspaceID t) (tn_UserID t) ?f"
  obtain ts sid where rsp: "rsp = (response KindTodoList)\<lparr>rsp_Todos := ts, rsp_SessionID := sid\<rparr>"
    and u: "brain_uow env (bindE ?read (\<lambda>todos.
         bindE (transcribeInside (process_ports env cenv) t (ip_Intent p)
           (TodoListSummary (ce_zone cenv) todos)) (\<lambda>resolved. ok (todos, resolved)))) b = (Inr (ts, sid), b')"
    using run by (auto simp: dispatchList_def Let_def bindE_Inr_iff)
  obtain v v' where v: "brain_data v = brain_data b" "brain_inv env v" "brain_data b' = brain_data v'"
    and m: "bindE ?read (\<lambda>todos.
         bindE (transcribeInside (process_ports env cenv) t (ip_Intent p)
           (TodoListSummary (ce_zone cenv) todos)) (\<lambda>resolved. ok (todos, resolved))) v = (Inr (ts, sid), v')"
    by (rule brain_uow_ok [OF inv u])
  obtain v1 where c: "?read v = (Inr ts, v1)"
    and tr: "transcribeInside (process_ports env cenv) t (ip_Intent p)
           (TodoListSummary (ce_zone cenv) ts) v1 = (Inr sid, v')"
    using m by (auto simp: bindE_Inr_iff)
  have v1: "brain_data v1 = brain_data b" using leavesD [OF leaves_gateway(1) c] v(1) by simp
  have "outcome env cenv t raw rsp v1 v'"
    using transcribe_run [OF tr] p by (intro quiet_outcome) (auto simp: said_def kinds rsp)
  from outcome_cong [OF this v1 v(3)] show ?thesis .
qed

lemma confirmation_outcome:
  assumes inv: "brain_inv env b" and p: "ip_Intent p = IntentTodoDelete"
    and run: "request_confirmation (process_ports env cenv) t p [c] c b = (Inr rsp, b')"
  shows "outcome env cenv t raw rsp b b'"
proof -
  obtain i b1 now b2 cfm sid where i: "brain_newID env b = (i, b1)" and n: "brain_Now env b1 = (now, b2)"
    and new: "NewConfirmationRequest i (tn_WorkspaceID t) (tn_UserID t) IntentTodoDelete (c_TodoID c)
        (c_Version c) now (ce_ConfirmationTTL cenv) = Inr cfm"
    and u: "brain_uow env (bindE (cfs_Save confirmations cfm) (\<lambda>_.
        transcribeInside (process_ports env cenv) t (ip_Intent p) (ConfirmationSummary (c_Title c)))) b2 = (Inr sid, b')"
    and rsp: "rsp = (response KindConfirmationRequired)\<lparr>rsp_Candidates := [c],
          rsp_ConfirmationID := cfm_ID cfm, rsp_ExpiresAt := Some (cfm_ExpiresAt cfm), rsp_SessionID := sid\<rparr>"
    using run
    by (auto simp: request_confirmation_def bindA_Inr bindE_Inr_iff conversation_result_Inr)
  have d: "brain_data b2 = brain_data b" using brain_acts_run(2) [OF i] brain_acts_run(1) [OF n] by simp
  have inv2: "brain_inv env b2" using acts_inv(1) [OF acts_inv(2) [OF inv i] n] .
  obtain v v' where v: "brain_data v = brain_data b2" "brain_inv env v" "brain_data b' = brain_data v'"
    and m: "bindE (cfs_Save confirmations cfm) (\<lambda>_.
        transcribeInside (process_ports env cenv) t (ip_Intent p) (ConfirmationSummary (c_Title c))) v = (Inr sid, v')"
    by (rule brain_uow_ok [OF inv2 u])
  obtain v1 where s: "cfs_Save confirmations cfm v = (Inr (), v1)"
    and tr: "transcribeInside (process_ports env cenv) t (ip_Intent p) (ConfirmationSummary (c_Title c)) v1 = (Inr sid, v')"
    using m by (auto simp: bindE_Inr_iff)
  have v1: "v1 = v\<lparr>br_conversation := (br_conversation v)
      \<lparr>cdb_confirmations := cdb_confirmations (br_conversation v) @ [cfm]\<rparr>\<rparr>"
    using s by (auto simp: chat_wiring on_tables_Inr pg_confirmation_Save_def split: if_splits)
  have cfm: "cfm = \<lparr>cfm_ID = i, cfm_WorkspaceID = tn_WorkspaceID t, cfm_UserID = tn_UserID t,
        cfm_Intent = IntentTodoDelete, cfm_TodoID = c_TodoID c, cfm_TodoVersion = c_Version c,
        cfm_CreatedAt = now, cfm_ExpiresAt = now + ce_ConfirmationTTL cenv, cfm_ConsumedAt = None\<rparr>"
    using new by (simp add: NewConfirmationRequest_def)
  note k = transcribe_run [OF tr]
  have "outcome env cenv t raw rsp v v'"
    unfolding outcome_def
  proof (intro conjI)
    have "transcribed t sid (ip_Intent p) (ConfirmationSummary (c_Title c)) v v'"
      using k by (simp add: transcribed_def v1)
    moreover have "said (ce_zone cenv) rsp (ip_Intent p) (ConfirmationSummary (c_Title c))"
      by (simp add: said_def rsp p)
    ultimately show "transcript_kept (ce_zone cenv) t rsp v v'"
      unfolding transcript_kept_def by (intro exI conjI) (simp_all add: rsp)
    have "cdb_confirmations (br_conversation v') = cdb_confirmations (br_conversation v) @ [cfm]"
      using k by (simp add: quiet_def v1)
    then show "confirmation_kept cenv t rsp v v'"
      unfolding confirmation_kept_def cfm by (simp add: rsp cfm)
    show "todo_kept env (ce_zone cenv) t raw rsp v v'"
      using k by (simp add: todo_kept_def quiet_def todo_side_def v1 rsp kinds)
  qed
  from outcome_cong [OF this _ v(3)] v(1) d show ?thesis by simp
qed

lemma delete_outcome:
  assumes inv: "brain_inv env b" and r: "reply_ok reply" and p: "ip_Intent p = IntentTodoDelete"
    and run: "dispatchDelete (process_ports env cenv) t reply p b = (Inr rsp, b')"
  shows "outcome env cenv t raw rsp b b'"
proof -
  let ?search = "tg_SearchCandidates (gateway env) (tn_WorkspaceID t) (tn_UserID t) (pa_Keyword (ip_Arguments p))"
  obtain cs b1 where s: "?search b = (Inr cs, b1)" and rest: "(case cs of
       [] \<Rightarrow>
         bindE (persistTranscript (process_ports env cenv) t (ip_Intent p) NotFoundSummary) (\<lambda>resolved.
         ok ((response KindNotFound)\<lparr>rsp_SessionID := resolved\<rparr>))
     | c # ds \<Rightarrow>
         if length cs > maxSelectableCandidates then clarify (process_ports env cenv) t [] reply
         else if ds = [] then request_confirmation (process_ports env cenv) t p cs c
         else bindE (persistTranscript (process_ports env cenv) t (ip_Intent p)
                 (CandidatesSummary (int (length cs)))) (\<lambda>resolved.
              ok ((response KindCandidates)\<lparr>rsp_Candidates := cs,
                rsp_SessionID := resolved\<rparr>))) b1 = (Inr rsp, b')"
    using run by (auto simp: dispatchDelete_def bindE_Inr_iff)
  have d: "brain_data b1 = brain_data b" using leavesD [OF leaves_gateway(2) s] .
  have i1: "brain_inv env b1" by (rule step_inv [OF inv keeps_guarded_gateway(3) s])
  have "outcome env cenv t raw rsp b1 b'"
  proof (cases cs)
    case Nil
    with rest have "bindE (persistTranscript (process_ports env cenv) t (ip_Intent p) NotFoundSummary)
        (\<lambda>sid. ok ((response KindNotFound)\<lparr>rsp_SessionID := sid\<rparr>)) b1 = (Inr rsp, b')" by simp
    from persist_run [OF i1 this] obtain sid where "rsp = (response KindNotFound)\<lparr>rsp_SessionID := sid\<rparr>"
      "transcribed t sid (ip_Intent p) NotFoundSummary b1 b'" "quiet b1 b'" by blast
    with p show ?thesis by (intro quiet_outcome) (auto simp: said_def kinds)
  next
    case (Cons c ds)
    show ?thesis
    proof (cases "length cs > maxSelectableCandidates")
      case True
      with rest Cons have "clarify (process_ports env cenv) t [] reply b1 = (Inr rsp, b')" by simp
      from clarify_outcome [OF i1 r this] show ?thesis .
    next
      case False
      show ?thesis
      proof (cases "ds = []")
        case True
        with rest Cons False have "request_confirmation (process_ports env cenv) t p [c] c b1 = (Inr rsp, b')" by simp
        from confirmation_outcome [OF i1 p this] show ?thesis .
      next
        case more: False
        with rest Cons False have "bindE (persistTranscript (process_ports env cenv) t (ip_Intent p)
             (CandidatesSummary (int (length cs)))) (\<lambda>sid.
              ok ((response KindCandidates)\<lparr>rsp_Candidates := cs, rsp_SessionID := sid\<rparr>)) b1 = (Inr rsp, b')"
          by simp
        from persist_run [OF i1 this] obtain sid
          where o: "rsp = (response KindCandidates)\<lparr>rsp_Candidates := cs, rsp_SessionID := sid\<rparr>"
          "transcribed t sid (ip_Intent p) (CandidatesSummary (int (length cs))) b1 b'" "quiet b1 b'"
          by blast
        have "2 \<le> length cs" using Cons more by (cases ds) simp_all
        with False p have "said (ce_zone cenv) rsp (ip_Intent p) (CandidatesSummary (int (length cs)))"
          by (simp add: said_def o(1))
        with o show ?thesis by (intro quiet_outcome) (auto simp: kinds)
      qed
    qed
  qed
  from outcome_cong [OF this d refl] show ?thesis .
qed

section \<open>The whole turn\<close>

lemma answer_outcome:
  assumes inv: "brain_inv env b" and ws: "CHR '':'' \<notin> set (tn_WorkspaceID t)"
    and run: "answer_turn (ce_zone cenv) (process_ports env cenv) t raw b = (Inr rsp, b')"
  shows "outcome env cenv t raw rsp b b'"
proof (cases "ValidateModelTurn (ce_zone cenv) raw")
  case (Inl e)
  with run have "bindE (persistTranscript (process_ports env cenv) t ResolvedIntentUnsupported UnsupportedSummary)
      (\<lambda>sid. ok ((response KindUnsupported)\<lparr>rsp_SessionID := sid\<rparr>)) b = (Inr rsp, b')"
    by (simp add: answer_turn_def)
  from persist_run [OF inv this] obtain sid where "rsp = (response KindUnsupported)\<lparr>rsp_SessionID := sid\<rparr>"
    "transcribed t sid ResolvedIntentUnsupported UnsupportedSummary b b'" "quiet b b'" by blast
  then show ?thesis by (intro quiet_outcome) (auto simp: said_def kinds)
next
  case (Inr turn)
  note ok = ValidateModelTurn_Inr [OF Inr]
  have chat: ?thesis if go: "bindE (persistTranscript (process_ports env cenv) t ResolvedIntentChat (mt_Reply turn))
      (\<lambda>sid. ok ((response KindChat)\<lparr>rsp_Reply := mt_Reply turn, rsp_SessionID := sid\<rparr>)) b = (Inr rsp, b')"
  proof -
    obtain sid where "rsp = (response KindChat)\<lparr>rsp_Reply := mt_Reply turn, rsp_SessionID := sid\<rparr>"
      "transcribed t sid ResolvedIntentChat (mt_Reply turn) b b'" "quiet b b'"
      using persist_run [OF inv go] by blast
    with ok(1) show ?thesis by (intro quiet_outcome) (auto simp: said_def kinds)
  qed
  show ?thesis
  proof (cases "mt_Proposal turn")
    case None
    with run Inr show ?thesis by (intro chat) (simp add: answer_turn_def)
  next
    case (Some p)
    show ?thesis
    proof (cases "Router_Supports (ip_Intent p)")
      case False
      with run Inr Some show ?thesis by (intro chat) (simp add: answer_turn_def)
    next
      case True
      with run Inr Some have go: "dispatch (ce_zone cenv) (process_ports env cenv) t (mt_Reply turn) p b = (Inr rsp, b')"
        by (simp add: answer_turn_def)
      show ?thesis
      proof (cases "ip_MissingFields p \<noteq> [] \<or> fless (ip_Confidence p) MinDispatchConfidence")
        case True
        with go obtain missing where "clarify (process_ports env cenv) t missing (mt_Reply turn) b = (Inr rsp, b')"
          by (auto simp: dispatch_def split: if_splits)
        from clarify_outcome [OF inv ok(1) this] show ?thesis .
      next
        case False
        then have m: "ip_MissingFields p = []" "\<not> fless (ip_Confidence p) MinDispatchConfidence" by simp_all
        have "ip_Intent p = IntentTodoCreate \<and> dispatchCreate (ce_zone cenv) (process_ports env cenv) t (mt_Reply turn) p b = (Inr rsp, b')
            \<or> ip_Intent p = IntentTodoList \<and> dispatchList (ce_zone cenv) (process_ports env cenv) t p b = (Inr rsp, b')
            \<or> ip_Intent p = IntentTodoDelete \<and> dispatchDelete (process_ports env cenv) t (mt_Reply turn) p b = (Inr rsp, b')"
          using go m \<open>Router_Supports (ip_Intent p)\<close>
          by (auto simp: dispatch_def Router_Supports_def intents)
        with create_outcome [OF inv ws ok(1) Inr Some ok(2) [OF Some] _ m]
          list_outcome [OF inv] delete_outcome [OF inv ok(1)]
        show ?thesis by blast
      qed
    qed
  qed
qed

text \<open>The model's answer to this message, whatever it is, decides the outcome.\<close>

lemma ProcessMessage_outcome:
  assumes inv: "brain_inv env b" and ws: "CHR '':'' \<notin> set (tn_WorkspaceID t)"
    and run: "api_ProcessMessage env cenv t b = (Inr rsp, b')"
  shows "\<exists>k history raw. ce_Model cenv k \<lparr>mi_Text = tn_Text t, mi_Timezone = tn_Timezone t,
       mi_History = history\<rparr> = Inr raw \<and> outcome env cenv t raw rsp b b'"
proof -
  let ?check = "if tn_SessionID t = [] then ok ()
            else bindE (css_Get chat_sessions (tn_WorkspaceID t) (tn_UserID t) (tn_SessionID t)) (\<lambda>_. ok ())"
  obtain u b1 history b2 raw b3 where c: "?check b = (Inr u, b1)"
    and h: "loadHistory (process_ports env cenv) t b1 = (Inr history, b2)"
    and m: "ask_model cenv \<lparr>mi_Text = tn_Text t, mi_Timezone = tn_Timezone t, mi_History = history\<rparr> b2 = (Inr raw, b3)"
    and a: "answer_turn (ce_zone cenv) (process_ports env cenv) t raw b3 = (Inr rsp, b')"
    using run unfolding api_ProcessMessage_def ProcessMessage_def process_ports_simps bindE_Inr_iff by blast
  have d1: "brain_data b1 = brain_data b"
    by (rule leavesD [where m = ?check, OF _ c]) (intro leaves_if leaves_ok leaves_bindE leaves_reads)
  have d2: "brain_data b2 = brain_data b1"
    by (rule leavesD [where m = "loadHistory (process_ports env cenv) t", OF _ h],
        unfold loadHistory_def process_ports_simps)
      (intro leaves_if leaves_ok leaves_bindE leaves_reads)
  have d3: "brain_data b3 = brain_data b2" by (rule leavesD [OF leaves_model m])
  have i1: "brain_inv env b1" by (rule step_inv [where m = ?check, OF inv _ c]) (intro keeps_rules)
  have i2: "brain_inv env b2" by (rule step_inv [OF i1 keeps_guarded_history h])
  have i3: "brain_inv env b3" by (rule step_inv [OF i2 keeps_guarded_model m])
  have "outcome env cenv t raw rsp b b'"
    using outcome_cong [OF answer_outcome [OF i3 ws a] _ refl] d1 d2 d3 by simp
  moreover have "\<exists>k. ce_Model cenv k \<lparr>mi_Text = tn_Text t, mi_Timezone = tn_Timezone t, mi_History = history\<rparr> = Inr raw"
    using m by (auto simp: ask_model_def on_world_Inr bindA_run)
  ultimately show ?thesis by blast
qed

end
