(* ===== verification/Conversation_Confirm.thy ===== *)
theory Conversation_Confirm
  imports Conversation_Turns
begin

text \<open>
  What a confirmation does: it deletes the version of the todo it was asked for, in time, for the
  user it was asked of, and once. Then the paged reads of a transcript on the wired stores, and
  the messages, which no conversation sends.
\<close>

section \<open>Confirming\<close>

definition delete_request :: "ConfirmationRequest \<Rightarrow> VersionedRequest" where
  "delete_request c = \<lparr>vr_WorkspaceID = cfm_WorkspaceID c, vr_UserID = cfm_UserID c,
     vr_TodoID = cfm_TodoID c, vr_Version = cfm_TodoVersion c\<rparr>"

lemma joined_delete:
  assumes inv: "world_inv env w" and run: "joined_DeleteTodo env req w = (Inr view, w')"
  shows "\<exists>now t t'. Delete (vr_Version req) now t = Inr t' \<and> settled w w' req t t'"
proof -
  obtain now w1 t' where n: "world_Now env w = (now, w1)" and work: "delete_work (todos env) (planner env) now req w1 = (Inr t', w')"
    using run
    by (cases "world_Now env w") (auto simp: joined_DeleteTodo_def DeleteTodo_def joined_run bindA_run bindE_Inr_iff)
  have w1: "world_inv env w1" "wd_data w1 = wd_data w" using Now_inv [OF inv n] by auto
  have inv': "world_inv env w'" by (rule run_at [OF at_of_safe [OF safe_joined_Delete] inv run])
  have e: "wd_todo w1 = wd_todo w" using wd_dataD [OF w1(2)] by blast
  have "\<exists>t. Delete (vr_Version req) now t = Inr t' \<and> settled w w' req t t'"
    by (rule settle_work [OF w1(1) inv' work [unfolded delete_work_def] e refl refl])
      (auto intro: step_delete simp: Delete_Inr)
  then show ?thesis by blast
qed

lemma settled_cong:
  assumes "settled v v' req t t'" "wd_data v = wd_data w" "wd_data w' = wd_data v'"
  shows "settled w w' req t t'"
  using assms(1) wd_dataD [OF assms(2)] wd_dataD [OF assms(3)] by (simp add: settled_def)

lemma record_deleted_run:
  assumes "record_deleted (confirm_ports env) ws user sid title b = (Inr u, b')"
  shows "quiet b b'"
proof (cases "sid = []")
  case True
  with assms show ?thesis by (simp add: record_deleted_def quiet_def)
next
  case False
  then obtain now b1 b2 later b3 where n: "brain_Now env b = (now, b1)"
    and a: "mls_Append message_log
            \<lparr>ml_WorkspaceID = ws, ml_UserID = user, ml_Role = RoleAssistant,
             ml_Body = DeletedSummary title, ml_SessionID = Some sid, ml_ResolvedIntent = None,
             ml_CreatedAt = now\<rparr> b1 = (Inr (), b2)"
    and l: "brain_Now env b2 = (later, b3)"
    and t: "css_Touch chat_sessions ws user sid later b3 = (Inr (), b')"
    using assms by (auto simp: record_deleted_def bindA_Inr bindE_Inr_iff)
  note d = brain_acts_run(1) [OF n] brain_acts_run(1) [OF l]
  show ?thesis
    using append_run(1) [OF a] touch_run(1) [OF t] d by (auto simp: quiet_def brain_data_def)
qed

lemma confirm_deletes:
  assumes inv: "brain_inv env b" and run: "api_ConfirmAction env ws user cid sid b = (Inr rsp, b')"
  shows "\<exists>c now later t t'. c \<in> set (cdb_confirmations (br_conversation b))
    \<and> confirmation_scope ws user cid c \<and> cfm_ConsumedAt c = None \<and> now < cfm_ExpiresAt c
    \<and> cdb_confirmations (br_conversation b') = map (\<lambda>r. if cfm_ID r = cid
         then c\<lparr>cfm_ConsumedAt := Some now\<rparr> else r) (cdb_confirmations (br_conversation b))
    \<and> Delete (cfm_TodoVersion c) later t = Inr t'
    \<and> settled (br_world b) (br_world b') (delete_request c) t t'
    \<and> rsp = (response KindTodoDeleted)\<lparr>rsp_TodoID := cfm_TodoID c, rsp_SessionID := sid\<rparr>"
proof -
  obtain todoID where u: "brain_uow env (confirm_work (confirm_ports env) ws user cid sid) b = (Inr todoID, b')"
    and rsp: "rsp = (response KindTodoDeleted)\<lparr>rsp_TodoID := todoID, rsp_SessionID := sid\<rparr>"
    using run by (auto simp: api_ConfirmAction_def ConfirmActionWithSession_def bindE_Inr_iff)
  obtain v v' where v: "brain_data v = brain_data b" "brain_inv env v" "brain_data b' = brain_data v'"
    and m: "confirm_work (confirm_ports env) ws user cid sid v = (Inr todoID, v')"
    by (rule brain_uow_ok [OF inv u])
  obtain x v1 c v2 now v3 y v4 todo v5 where
      o1: "check_owner (confirm_ports env) ws user sid v = (Inr x, v1)"
    and o2: "cfs_Get confirmations ws user cid v1 = (Inr c, v2)"
    and o3: "brain_Now env v2 = (now, v3)"
    and o4: "cfs_Consume confirmations ws user cid now v3 = (Inr y, v4)"
    and o5: "tg_GetTodo (gateway env) ws user (cfm_TodoID c) v4 = (Inr todo, v5)"
    and o: "(if v_Version todo \<noteq> cfm_TodoVersion c
     then fail (ConversationErr ErrConfirmationTodoVersionStale)
     else bindE (tg_DeleteTodo (gateway env)
            \<lparr>vr_WorkspaceID = ws, vr_UserID = user, vr_TodoID = cfm_TodoID c,
             vr_Version = v_Version todo\<rparr>) (\<lambda>_.
          bindE (record_deleted (confirm_ports env) ws user sid (v_Title todo)) (\<lambda>_.
          ok (cfm_TodoID c)))) v5 = (Inr todoID, v')"
    using m unfolding confirm_work_def confirm_ports_simps bindE_Inr_iff bindA_Inr by blast
  have ver: "v_Version todo = cfm_TodoVersion c" using o by (auto split: if_splits)
  obtain view v6 z where o6: "tg_DeleteTodo (gateway env)
            \<lparr>vr_WorkspaceID = ws, vr_UserID = user, vr_TodoID = cfm_TodoID c,
             vr_Version = v_Version todo\<rparr> v5 = (Inr view, v6)"
    and o7: "record_deleted (confirm_ports env) ws user sid (v_Title todo) v6 = (Inr z, v')"
    and id: "todoID = cfm_TodoID c"
    using o ver by (auto simp: bindE_Inr_iff)
  have d1: "brain_data v1 = brain_data v"
    by (rule leavesD [where m = "check_owner (confirm_ports env) ws user sid", OF _ o1],
        unfold check_owner_def confirm_ports_simps option.case prod.case)
      (intro leaves_if leaves_ok leaves_bindE leaves_reads)
  have d2: "brain_data v2 = brain_data v1" by (rule leavesD [OF leaves_reads(2) o2])
  note d3 = brain_acts_run(1) [OF o3]
  have i1: "brain_inv env v1"
    by (rule step_inv [where m = "check_owner (confirm_ports env) ws user sid", OF v(2) _ o1],
        unfold check_owner_def confirm_ports_simps option.case prod.case) (intro keeps_rules)
  have i3: "brain_inv env v3"
    by (rule acts_inv(1) [OF step_inv [OF i1 keeps_guarded_reads(2) o2] o3])
  have i4: "brain_inv env v4" by (rule step_inv [OF i3 keeps_guarded_Consume o4])
  have i5: "brain_inv env v5" by (rule step_inv [OF i4 keeps_guarded_gateway(4) o5])
  let ?cs = "cdb_confirmations (br_conversation b)"
  have same: "cdb_confirmations (br_conversation v1) = ?cs" "cdb_confirmations (br_conversation v3) = ?cs"
    using chat_side_data(3) [OF v(1)] chat_side_data(3) [OF d1] chat_side_data(3) [OF d2]
      chat_side_data(3) [OF conjunct1 [OF d3]] by simp_all
  have "pg_confirmation_Get ws user cid (br_conversation v1) = (Inr c, br_conversation v1)"
    using o2 by (auto simp: chat_wiring on_tables_Inr dest: pg_confirmation_reads)
  from pg_confirmation_Get_row [OF this] same
  have c: "c \<in> set (cdb_confirmations (br_conversation v3))" "confirmation_scope ws user cid c" by simp_all
  have inv3: "conversation_inv (br_conversation v3)" using i3 by (simp add: brain_inv_def)
  obtain db where db: "pg_confirmation_Consume ws user cid now (br_conversation v3) = (Inr (), db)"
    "v4 = v3\<lparr>br_conversation := db\<rparr>"
    using o4 by (auto simp: chat_wiring on_tables_Inr)
  obtain c' where c': "Consume c now = Inr c'" "db = (br_conversation v3)\<lparr>cdb_confirmations :=
         map (\<lambda>r. if cfm_ID r = cid then c' else r) (cdb_confirmations (br_conversation v3))\<rparr>"
    using db(1) unfolding pg_confirmation_Consume_row [OF inv3 c] by (auto split: sum.splits)
  have d5: "brain_data v5 = brain_data v4" by (rule leavesD [OF leaves_gateway(3) o5])
  have rq: "\<lparr>vr_WorkspaceID = ws, vr_UserID = user, vr_TodoID = cfm_TodoID c, vr_Version = v_Version todo\<rparr>
      = delete_request c"
    using c(2) ver by (simp add: delete_request_def confirmation_scope_def)
  obtain w6 where w6: "joined_DeleteTodo env (delete_request c) (br_world v5) = (Inr view, w6)"
    "v6 = v5\<lparr>br_world := w6\<rparr>"
    using o6 unfolding rq gateway_def TodoGateway.simps on_world_Inr by blast
  have "world_inv env (br_world v5)" using i5 by (simp add: brain_inv_def)
  from joined_delete [OF this w6(1)] obtain later t t'
    where del: "Delete (cfm_TodoVersion c) later t = Inr t'" "settled (br_world v5) w6 (delete_request c) t t'"
    by (auto simp: delete_request_def)
  note q = record_deleted_run [OF o7]
  have "wd_data (br_world v5) = wd_data (br_world b)"
    using todo_side_data [OF v(1)] todo_side_data [OF d1] todo_side_data [OF d2]
      todo_side_data [OF conjunct1 [OF d3]] todo_side_data [OF d5]
    by (simp add: todo_side_def db(2))
  moreover have "wd_data (br_world b') = wd_data w6"
    using q todo_side_data [OF v(3)] by (simp add: quiet_def todo_side_def w6(2))
  ultimately have "settled (br_world b) (br_world b') (delete_request c) t t'"
    using settled_cong [OF del(2)] by simp
  moreover have "cdb_confirmations (br_conversation b') = map (\<lambda>r. if cfm_ID r = cid
         then c\<lparr>cfm_ConsumedAt := Some now\<rparr> else r) ?cs"
    using q chat_side_data(3) [OF v(3)] chat_side_data(3) [OF d5] c' same(2)
    by (simp add: quiet_def w6(2) db(2) Consume_Inr)
  moreover have "cfm_ConsumedAt c = None" "now < cfm_ExpiresAt c" using c'(1) by (simp_all add: Consume_Inr)
  moreover have "c \<in> set ?cs" using c(1) same(2) by simp
  moreover have "rsp = (response KindTodoDeleted)\<lparr>rsp_TodoID := cfm_TodoID c, rsp_SessionID := sid\<rparr>"
    using rsp id by simp
  moreover note c(2) del(1)
  ultimately show ?thesis
    by (intro exI [of _ c] exI [of _ now] exI [of _ later] exI [of _ t] exI [of _ t'] conjI)
qed

text \<open>Once consumed, a confirmation never confirms again, whatever happens in between.\<close>

lemma confirm_once:
  assumes inv: "brain_inv env b" and run: "api_ConfirmAction env ws user cid sid b = (Inr rsp, b')"
    and es: "list_all chat_scoped es"
    and again: "api_ConfirmAction env ws' user' cid sid' (fold (serve_chat env cenv) es b') = (r, b'')"
  shows "\<exists>e. r = Inl e \<and> brain_data b'' = brain_data (fold (serve_chat env cenv) es b')"
proof -
  let ?b = "fold (serve_chat env cenv) es b'"
  have inv': "brain_inv env b'" by (rule step_inv [OF inv ConfirmAction_evolves run])
  have e: "brain_evolves env b' ?b" by (rule events_evolve_brain [OF inv' es])
  have inv'': "conversation_inv (br_conversation ?b)"
    using brain_evolves_inv [OF e] by (simp add: brain_inv_def)
  obtain c now where c: "c \<in> set (cdb_confirmations (br_conversation b))" "confirmation_scope ws user cid c"
    and cs: "cdb_confirmations (br_conversation b') = map (\<lambda>r. if cfm_ID r = cid
         then c\<lparr>cfm_ConsumedAt := Some now\<rparr> else r) (cdb_confirmations (br_conversation b))"
    using confirm_deletes [OF inv run] by blast
  have "cfm_ID c = cid" using c(2) by (simp add: confirmation_scope_def)
  then have "c\<lparr>cfm_ConsumedAt := Some now\<rparr> \<in> set (cdb_confirmations (br_conversation b'))"
    unfolding cs set_map by (intro image_eqI [where x = c] c(1)) simp
  then obtain d where d: "d \<in> set (cdb_confirmations (br_conversation ?b))"
    "confirmation_evolves (c\<lparr>cfm_ConsumedAt := Some now\<rparr>) d"
    using e by (auto simp: brain_evolves_def tables_evolve_def confirmations_evolve_def)
  then have used: "cfm_ID d = cid" "cfm_ConsumedAt d \<noteq> None"
    using \<open>cfm_ID c = cid\<close> by (auto simp: confirmation_evolves_def)
  show ?thesis
  proof (cases r)
    case (Inl x)
    with again atomic_ConfirmAction show ?thesis by (auto simp: atomic_def)
  next
    case (Inr rsp')
    obtain d' where d': "d' \<in> set (cdb_confirmations (br_conversation ?b))"
      "confirmation_scope ws' user' cid d'" "cfm_ConsumedAt d' = None"
      using confirm_deletes [OF brain_evolves_inv [OF e] again [unfolded Inr]] by blast
    have "d = d'"
      using confirmation_row_unique [OF inv'' d(1) d'(1) _ d'(2), of "cfm_WorkspaceID d" "cfm_UserID d"] used(1)
      by (simp add: confirmation_scope_def)
    with used d' show ?thesis by simp
  qed
qed

section \<open>Reading a transcript\<close>

interpretation chat_pages: chat_tables br_conversation chat_sessions message_log
  by unfold_locales
    (auto simp: chat_wiring on_tables_def runs_on_zoom pg_chat_store_def pg_message_store_def)

lemma transcript_read:
  assumes inv: "brain_inv env b" and own: "own_session ws user sid (cdb_sessions (br_conversation b))"
    and n: "length (cdb_messages (br_conversation b)) < n"
  shows "fst (read_pages chat_sessions message_log n ws user sid [] b) =
    Inr (map (message_view \<circ> entry_of sid)
      (filter (in_session ws user sid) (cdb_messages (br_conversation b))))"
proof -
  have all: "rows_before ws user sid [] (br_conversation b)
      = filter (in_session ws user sid) (cdb_messages (br_conversation b))"
    by (simp add: rows_before_def)
  have "length (rows_before ws user sid [] (br_conversation b)) < n"
    unfolding all using n length_filter_le le_less_trans by blast
  from chat_pages.read_pages_ok [OF _ _ _ this] inv own show ?thesis
    unfolding all brain_inv_def own_session_def by force
qed

section \<open>No conversation sends a message\<close>

definition sent_is :: "(string \<times> ReminderMessage) list \<Rightarrow> brain \<Rightarrow> bool" where
  "sent_is L b \<longleftrightarrow> log_is L (br_world b)"

lemma sent_parts:
  "keeps (log_is L) m \<Longrightarrow> keeps (sent_is L) (on_world m)" "keeps (sent_is L) (on_tables m')"
  unfolding on_world_def on_tables_def
  by (rule keeps_zoom; auto simp: sent_is_def dest: keepsD)+

lemma sent_acts: "keepsA (sent_is L) (brain_Now env)" "keepsA (sent_is L) (brain_newID env)"
  by (simp_all add: keepsA_def sent_is_def log_is_def brain_Now_def brain_newID_def act_on_world_def)

lemma sent_uow:
  assumes "keeps (sent_is L) m"
  shows "keeps (sent_is L) (brain_uow env m)"
proof -
  have all: "sent_is L (snd (brain_uow env m b))" if L: "sent_is L b" for b
  proof -
    let ?b = "b\<lparr>br_world := (br_world b)\<lparr>wd_tick := Suc (wd_tick (br_world b))\<rparr>\<rparr>"
    have "sent_is L (snd (m ?b))"
      by (rule keeps_snd [OF assms]) (use L in \<open>simp add: sent_is_def log_is_def\<close>)
    with L show ?thesis
      by (cases "m ?b")
        (auto simp: brain_uow_def JoinableUoW_Run_def TxRunner_Run_def brain_driver_def on_world_def
          zoom_run world_driver_def sent_is_def log_is_def split: prod.splits sum.splits)
  qed
  then show ?thesis by (intro keepsI) (metis snd_conv)
qed

lemma sent_stores:
  "keeps (sent_is L) (css_Get chat_sessions ws user i)" "keeps (sent_is L) (css_Create chat_sessions s)"
  "keeps (sent_is L) (css_Touch chat_sessions ws user i now)"
  "keeps (sent_is L) (css_Rename chat_sessions ws user i title now)"
  "keeps (sent_is L) (css_Delete chat_sessions ws user i)"
  "keeps (sent_is L) (cfs_Get confirmations ws user i)" "keeps (sent_is L) (cfs_Save confirmations c)"
  "keeps (sent_is L) (cfs_Consume confirmations ws user i now)"
  "keeps (sent_is L) (mls_Append message_log m)"
  "keeps (sent_is L) (mls_ListBySession message_log ws user i l)"
  "keeps (sent_is L) (hi_ImportSession history_store ws user i hs)"
  "keeps (sent_is L) (hi_ImportMessage history_store ws user hr)"
  unfolding chat_wiring ChatSessionStore.simps ConfirmationStore.simps MessageLogStore.simps
    HistoryImporter.simps
  by (rule sent_parts)+

lemma sent_gateway:
  "keeps (sent_is L) (tg_CreateTodo (gateway env) a)" "keeps (sent_is L) (tg_ListTodos (gateway env) ws owner f)"
  "keeps (sent_is L) (tg_SearchCandidates (gateway env) ws owner k)"
  "keeps (sent_is L) (tg_GetTodo (gateway env) ws owner i)" "keeps (sent_is L) (tg_DeleteTodo (gateway env) v)"
proof -
  have "keeps (log_is L) (joined_CreateTodo env a)" "keeps (log_is L) (joined_DeleteTodo env v)"
    unfolding joined_CreateTodo_def CreateTodo_def joined_DeleteTodo_def DeleteTodo_def joined_run
      create_work_def delete_work_def domain_result_def
    by (auto intro!: log_rules log_planner log_todos split: option.splits)
  moreover have "keeps (log_is L) (ListTodos (todos env) (world_Now env) ws owner f)"
    "keeps (log_is L) (gateway_GetTodo (todos env) (world_Now env) ws owner i)"
    unfolding ListTodos_def gateway_GetTodo_def GetTodo_def by (auto intro!: log_rules log_todos)
  moreover have "keeps (log_is L) (SearchCandidates (todos env) ws owner k)"
    by (auto simp: SearchCandidates_def wiring intro!: log_rules)
  ultimately show
    "keeps (sent_is L) (tg_CreateTodo (gateway env) a)" "keeps (sent_is L) (tg_ListTodos (gateway env) ws owner f)"
    "keeps (sent_is L) (tg_SearchCandidates (gateway env) ws owner k)"
    "keeps (sent_is L) (tg_GetTodo (gateway env) ws owner i)" "keeps (sent_is L) (tg_DeleteTodo (gateway env) v)"
    unfolding gateway_def TodoGateway.simps by (auto intro: sent_parts)
qed

lemma sent_result: "keeps (sent_is L) (conversation_result r)"
  unfolding conversation_result_def by (rule keeps_ret)

lemma sent_model: "keeps (sent_is L) (ask_model cenv m)"
  unfolding ask_model_def by (intro sent_parts keepsI) (auto simp: bindA_run log_is_def)

lemmas sent_rules = keeps_ok keeps_fail keeps_bindE keeps_bindA sent_acts sent_uow sent_stores
  sent_gateway sent_result sent_model

lemma sent_transcribe: "keeps (sent_is L) (transcribeInside (process_ports env cenv) t intent body)"
  unfolding transcribeInside_def open_session_for_def process_ports_simps
  by (auto intro!: sent_rules)

lemma sent_persist: "keeps (sent_is L) (persistTranscript (process_ports env cenv) t intent body)"
  unfolding persistTranscript_def process_ports_simps by (intro sent_uow sent_transcribe)

lemma sent_clarify: "keeps (sent_is L) (clarify (process_ports env cenv) t missing reply)"
  unfolding clarify_def by (intro keeps_bindE sent_persist keeps_ok)

lemma sent_dispatch: "keeps (sent_is L) (dispatch zone (process_ports env cenv) t reply p)"
proof -
  have "keeps (sent_is L) (dispatchCreate zone (process_ports env cenv) t reply p)"
    unfolding dispatchCreate_def Let_def process_ports_simps prod.case_eq_if
    by (auto intro!: sent_rules sent_transcribe sent_clarify)
  moreover have "keeps (sent_is L) (dispatchList zone (process_ports env cenv) t p)"
    unfolding dispatchList_def Let_def process_ports_simps prod.case_eq_if
    by (intro sent_rules sent_transcribe)
  moreover have "keeps (sent_is L) (request_confirmation (process_ports env cenv) t p cs c)" for cs c
    unfolding request_confirmation_def process_ports_simps by (intro sent_rules sent_transcribe)
  then have "keeps (sent_is L) (dispatchDelete (process_ports env cenv) t reply p)"
    unfolding dispatchDelete_def process_ports_simps
    by (intro keeps_bindE sent_gateway)
      (auto intro!: sent_rules sent_persist sent_clarify split: list.splits)
  ultimately show ?thesis
    unfolding dispatch_def by (auto intro!: sent_clarify keeps_ok)
qed

lemma sent_ProcessMessage: "keeps (sent_is L) (api_ProcessMessage env cenv t)"
  unfolding api_ProcessMessage_def ProcessMessage_def loadHistory_def process_ports_simps answer_turn_def
  by (auto intro!: sent_rules sent_persist sent_dispatch split: sum.splits option.splits)

lemma sent_ConfirmAction: "keeps (sent_is L) (api_ConfirmAction env ws user cid sid)"
  unfolding api_ConfirmAction_def ConfirmActionWithSession_def confirm_work_def check_owner_def
    record_deleted_def confirm_ports_simps option.case prod.case
  by (auto intro!: sent_rules)

lemma sent_others:
  "keeps (sent_is L) (api_CreateConfirmation env cenv ws user intent i)"
  "keeps (sent_is L) (api_CreateSession env ws user title)"
  "keeps (sent_is L) (api_RenameSession env ws user sid title)" "keeps (sent_is L) (api_DeleteSession ws user sid)"
  "keeps (sent_is L) (api_ImportSession env ws user hs)" "keeps (sent_is L) (api_ImportMessage ws user hr)"
  unfolding api_CreateConfirmation_def CreateConfirmation_def api_CreateSession_def CreateSession_def
    api_RenameSession_def RenameSession_def api_DeleteSession_def DeleteSession_def
    api_ImportSession_def ImportSession_def api_ImportMessage_def ImportMessage_def
  by (auto intro!: sent_rules)

lemma chat_sends_nothing:
  assumes "\<nexists>w. e = Elsewhere w"
  shows "wd_sent (br_world (serve_chat env cenv e b)) = wd_sent (br_world b)"
proof -
  have run: "wd_sent (br_world (snd (m b))) = wd_sent (br_world b)"
    if "\<And>L. keeps (sent_is L) m" for m :: "(brain, 'b) op"
    using keeps_snd [OF that, of "wd_sent (br_world b)" b] by (simp add: sent_is_def log_is_def)
  show ?thesis
    using assms by (cases e) (simp_all add: run sent_ProcessMessage sent_ConfirmAction sent_others)
qed

end
