(* ===== verification/Conversation_Sample.thy ===== *)
theory Conversation_Sample
  imports Conversation_Confirm Sample
begin

text \<open>
  A conversation in the sample environment: a message that the model turns into a new todo, one
  that asks to delete it, and the confirmation. The states are the ones the program reaches.
\<close>

definition sample_proposal :: "string \<Rightarrow> (string \<times> json) list \<Rightarrow> json" where
  "sample_proposal intent arguments = JObject [(''schemaVersion'', JString ''1''),
     (''reply'', JString ''ok''),
     (''proposal'', JObject [(''schemaVersion'', JString ''1''), (''intent'', JString intent),
        (''arguments'', JObject arguments), (''confidence'', JNumber 1),
        (''missingFields'', JArray [])])]"

text \<open>The sample's \<open>ILIKE\<close> is equality.\<close>

definition sample_model :: "nat \<Rightarrow> MessageInput \<Rightarrow> gerr + RawMessage" where
  "sample_model k m =
     (if mi_Text m = ''new'' then Inr (Some (sample_proposal ''todo.create'' [(''title'', JString ''pay'')]))
      else if mi_Text m = ''drop'' then Inr (Some (sample_proposal ''todo.delete'' [(''keyword'', JString ''pay'')]))
      else Inl (ExtError ''model''))"

definition sample_chat :: chat_env where
  "sample_chat = \<lparr>ce_Model = sample_model, ce_zone = (\<lambda>z. if z = ''UTC'' then Some (\<lambda>_. 0) else None),
     ce_ConfirmationTTL = 1000, ce_HistoryTurns = 4\<rparr>"

definition sample_turn :: "string \<Rightarrow> string \<Rightarrow> message_turn" where
  "sample_turn sid text = \<lparr>tn_WorkspaceID = ''1'', tn_UserID = ''2'', tn_SessionID = sid, tn_Text = text,
     tn_Timezone = ''UTC''\<rparr>"

text \<open>After the message \<open>new\<close>: a todo, a session and the two rows of the turn.\<close>

definition sample_row :: "int \<Rightarrow> string \<Rightarrow> string \<Rightarrow> string option \<Rightarrow> time \<Rightarrow> message_row" where
  "sample_row i role body intent now = \<lparr>mr_ID = i, mr_Log = \<lparr>ml_WorkspaceID = ''1'', ml_UserID = ''2'',
     ml_Role = role, ml_Body = body, ml_SessionID = Some ''1'', ml_ResolvedIntent = intent,
     ml_CreatedAt = now\<rparr>\<rparr>"

definition sample_pay :: todo where
  "sample_pay = \<lparr>t_ID = ''0'', t_WorkspaceID = ''1'', t_OwnerUserID = ''2'',
     t_Title = ''pay'', t_Description = None, t_DueAtUTC = None,
     t_TimezoneAtInput = Some ''UTC'', t_Status = StatusPending,
     t_ReminderVersion = 1, t_Version = 1, t_CreatedAt = 102,
     t_UpdatedAt = 102, t_CompletedAt = None, t_DeletedAt = None\<rparr>"

definition sample_asked :: brain where
  "sample_asked = \<lparr>br_world = empty_world\<lparr>wd_todo := [sample_pay], wd_tick := 6, wd_ids := 2\<rparr>,
     br_conversation = \<lparr>cdb_sessions =
        [\<lparr>cse_ID = ''1'', cse_WorkspaceID = ''1'', cse_UserID = ''2'',
          cse_Title = ''new'', cse_CreatedAt = 103, cse_UpdatedAt = 104\<rparr>],
       cdb_messages =
        [sample_row 1 RoleUser ''new'' (Some IntentTodoCreate) 104,
         sample_row 2 RoleAssistant (CreateSchedulingSummary (FromDomain sample_pay 102) [] [] None) None 104],
       cdb_confirmations = [], cdb_next = 3\<rparr>\<rparr>"

text \<open>After \<open>drop\<close>: the todo is found and the caller is asked to confirm; after that, it is deleted.\<close>

definition sample_confirmation :: ConfirmationRequest where
  "sample_confirmation = \<lparr>cfm_ID = ''2'', cfm_WorkspaceID = ''1'', cfm_UserID = ''2'',
     cfm_Intent = IntentTodoDelete, cfm_TodoID = ''0'', cfm_TodoVersion = 1, cfm_CreatedAt = 107,
     cfm_ExpiresAt = 1107, cfm_ConsumedAt = None\<rparr>"

definition sample_pending :: brain where
  "sample_pending = \<lparr>br_world = empty_world\<lparr>wd_todo := [sample_pay], wd_tick := 11, wd_ids := 3\<rparr>,
     br_conversation = \<lparr>cdb_sessions =
        [\<lparr>cse_ID = ''1'', cse_WorkspaceID = ''1'', cse_UserID = ''2'',
          cse_Title = ''new'', cse_CreatedAt = 103, cse_UpdatedAt = 109\<rparr>],
       cdb_messages = cdb_messages (br_conversation sample_asked) @
        [sample_row 3 RoleUser ''drop'' (Some IntentTodoDelete) 109,
         sample_row 4 RoleAssistant (ConfirmationSummary ''pay'') None 109],
       cdb_confirmations = [sample_confirmation], cdb_next = 5\<rparr>\<rparr>"

definition sample_confirmed :: brain where
  "sample_confirmed = \<lparr>br_world = empty_world
      \<lparr>wd_todo := [sample_pay\<lparr>t_Status := StatusDeleted, t_Version := 2, t_DeletedAt := Some 114\<rparr>],
       wd_tick := 19, wd_ids := 3\<rparr>,
     br_conversation = \<lparr>cdb_sessions =
        [\<lparr>cse_ID = ''1'', cse_WorkspaceID = ''1'', cse_UserID = ''2'',
          cse_Title = ''new'', cse_CreatedAt = 103, cse_UpdatedAt = 117\<rparr>],
       cdb_messages = cdb_messages (br_conversation sample_pending) @
        [sample_row 5 RoleAssistant (DeletedSummary ''pay'') None 116],
       cdb_confirmations = [sample_confirmation\<lparr>cfm_ConsumedAt := Some 112\<rparr>], cdb_next = 6\<rparr>\<rparr>"

definition ends_with :: "string \<Rightarrow> brain \<Rightarrow> (gerr + MessageResponse) \<times> brain \<Rightarrow> bool" where
  "ends_with kind b x \<longleftrightarrow> (case x of (Inr rsp, b') \<Rightarrow> rsp_Kind rsp = kind \<and> b' = b | _ \<Rightarrow> False)"

lemma ends_withD: "ends_with kind b x \<Longrightarrow> \<exists>rsp. x = (Inr rsp, b) \<and> rsp_Kind rsp = kind"
  by (auto simp: ends_with_def split: prod.splits sum.splits)

lemma sample_asked_run:
  "ends_with ''todo_created'' sample_asked
     (api_ProcessMessage sample_env sample_chat (sample_turn [] ''new'') empty_brain)"
  by code_simp

lemma sample_pending_run:
  "ends_with ''confirmation_required'' sample_pending
     (api_ProcessMessage sample_env sample_chat (sample_turn ''1'' ''drop'') sample_asked)"
  by code_simp

lemma sample_confirmed_run:
  "ends_with ''todo_deleted'' sample_confirmed
     (api_ConfirmAction sample_env ''1'' ''2'' ''2'' ''1'' sample_pending)"
  by code_simp

text \<open>A database that cannot commit.\<close>

definition sample_env_lost :: env where
  "sample_env_lost = sample_env\<lparr>e_Commit := (\<lambda>_. Inl (ExtError ''lost''))\<rparr>"

lemma sample_lost_run:
  "isl (fst (api_ConfirmAction sample_env_lost ''1'' ''2'' ''2'' ''1'' sample_pending))"
  by code_simp

section \<open>The states are reached\<close>

lemma reached_by:
  assumes "brain_reachable env cenv b" "chat_scoped e" "snd x = b'" "serve_chat env cenv e b = snd x"
  shows "brain_reachable env cenv b'"
  using brain_reachable.step [OF assms(1) chatted [OF assms(2)]] assms(3,4) by simp

lemma sample_asked_reachable: "brain_reachable sample_env sample_chat sample_asked"
  using ends_withD [OF sample_asked_run]
  by (intro reached_by [OF brain_reachable.start, of "ChatMessage (sample_turn [] ''new'')"])
    (auto simp: sample_turn_def)

lemma sample_pending_reachable: "brain_reachable sample_env sample_chat sample_pending"
  using ends_withD [OF sample_pending_run]
  by (intro reached_by [OF sample_asked_reachable, of "ChatMessage (sample_turn ''1'' ''drop'')"])
    (auto simp: sample_turn_def)

end
