(* ===== verification/Conversation_Properties.thy ===== *)
theory Conversation_Properties
  imports Conversation_Sample
begin

text \<open>The properties of the conversation module, each with a run of the sample that meets its hypotheses.\<close>

text \<open>
  C21. A message changes the todo module only when the response says that a todo was created, and
  then the model's raw answer to this very message, validated, is a proposal to create a todo
  that misses no field and is confident enough; exactly one todo is added, the one of the
  proposal's title, description, due instant and time zone, planned on the caller's usable
  channels when it is due. Whatever the model answers, no message completes, changes or deletes a
  todo, and none changes the todos, plans, deliveries or jobs when the answer is refused.
\<close>
theorem turn_creates_only_valid:
  assumes "brain_reachable env cenv b" "CHR '':'' \<notin> set (tn_WorkspaceID t)"
    and "api_ProcessMessage env cenv t b = (Inr rsp, b')"
  shows "\<exists>k history raw. ce_Model cenv k \<lparr>mi_Text = tn_Text t, mi_Timezone = tn_Timezone t,
       mi_History = history\<rparr> = Inr raw \<and> todo_kept env (ce_zone cenv) t raw rsp b b'"
  using ProcessMessage_outcome [OF brain_reachable_inv [OF assms(1)] assms(2,3)]
  unfolding outcome_def by blast

theorem turn_creates_only_valid_witness:
  "\<exists>k history raw rsp. ce_Model sample_chat k \<lparr>mi_Text = ''new'', mi_Timezone = ''UTC'', mi_History = history\<rparr> = Inr raw
     \<and> rsp_Kind rsp = KindTodoCreated
     \<and> todo_kept sample_env (ce_zone sample_chat) (sample_turn [] ''new'') raw rsp empty_brain sample_asked"
proof -
  obtain rsp where run: "api_ProcessMessage sample_env sample_chat (sample_turn [] ''new'') empty_brain = (Inr rsp, sample_asked)"
    and kind: "rsp_Kind rsp = ''todo_created''" using ends_withD [OF sample_asked_run] by blast
  have "CHR '':'' \<notin> set (tn_WorkspaceID (sample_turn [] ''new''))" by (simp add: sample_turn_def)
  from turn_creates_only_valid [OF brain_reachable.start this run] kind show ?thesis
    unfolding KindTodoCreated_def by (auto simp: sample_turn_def)
qed

text \<open>
  C22. A confirmation that succeeds was asked of this user in this workspace, was not consumed
  and had not expired, and is consumed afterwards, with no other confirmation changed. It
  deletes the todo it names, in the version it was asked for: exactly this row of the table
  changes, to the deleted one, and no planned plan or scheduled delivery of the todo is left.
\<close>
theorem confirmation_deletes_version:
  assumes "brain_reachable env cenv b" "api_ConfirmAction env ws user cid sid b = (Inr rsp, b')"
  shows "\<exists>c now later t t'. c \<in> set (cdb_confirmations (br_conversation b))
    \<and> confirmation_scope ws user cid c \<and> cfm_ConsumedAt c = None \<and> now < cfm_ExpiresAt c
    \<and> cdb_confirmations (br_conversation b') = map (\<lambda>r. if cfm_ID r = cid
         then c\<lparr>cfm_ConsumedAt := Some now\<rparr> else r) (cdb_confirmations (br_conversation b))
    \<and> Delete (cfm_TodoVersion c) later t = Inr t'
    \<and> settled (br_world b) (br_world b') (delete_request c) t t'
    \<and> rsp = (response KindTodoDeleted)\<lparr>rsp_TodoID := cfm_TodoID c, rsp_SessionID := sid\<rparr>"
  by (rule confirm_deletes [OF brain_reachable_inv [OF assms(1)] assms(2)])

theorem confirmation_deletes_version_witness:
  "\<exists>c t later t'. c \<in> set (cdb_confirmations (br_conversation sample_pending))
    \<and> Delete (cfm_TodoVersion c) later t = Inr t'
    \<and> settled (br_world sample_pending) (br_world sample_confirmed) (delete_request c) t t'"
proof -
  obtain rsp where run: "api_ConfirmAction sample_env ''1'' ''2'' ''2'' ''1'' sample_pending = (Inr rsp, sample_confirmed)"
    using ends_withD [OF sample_confirmed_run] by blast
  from confirmation_deletes_version [OF sample_pending_reachable run] show ?thesis by blast
qed

text \<open>
  C23. A confirmation confirms once: after it has succeeded, no later request with its
  identifier succeeds, from any user, with or without a session, whatever the program served in
  between; the refused request changes no table.
\<close>
theorem confirmation_used_once:
  assumes "brain_reachable env cenv b" "api_ConfirmAction env ws user cid sid b = (Inr rsp, b')"
    and "list_all chat_scoped es"
    and "api_ConfirmAction env ws' user' cid sid' (fold (serve_chat env cenv) es b') = (r, b'')"
  shows "\<exists>e. r = Inl e \<and> brain_data b'' = brain_data (fold (serve_chat env cenv) es b')"
  by (rule confirm_once [OF brain_reachable_inv [OF assms(1)] assms(2-4)])

theorem confirmation_used_once_witness:
  "\<exists>e b''. api_ConfirmAction sample_env ''1'' ''2'' ''2'' ''1''
       (serve_chat sample_env sample_chat (ChatMessage (sample_turn [] ''new'')) sample_confirmed) = (Inl e, b'')"
proof -
  obtain rsp where run: "api_ConfirmAction sample_env ''1'' ''2'' ''2'' ''1'' sample_pending = (Inr rsp, sample_confirmed)"
    using ends_withD [OF sample_confirmed_run] by blast
  let ?again = "api_ConfirmAction sample_env ''1'' ''2'' ''2'' ''1''
       (fold (serve_chat sample_env sample_chat) [ChatMessage (sample_turn [] ''new'')] sample_confirmed)"
  have "list_all chat_scoped [ChatMessage (sample_turn [] ''new'')]" by (simp add: sample_turn_def)
  from confirmation_used_once [OF sample_pending_reachable run this prod.collapse [of ?again, symmetric]]
  obtain e where "fst ?again = Inl e" by blast
  then have "?again = (Inl e, snd ?again)" by (metis prod.collapse)
  then show ?thesis unfolding fold.simps comp_apply id_apply by blast
qed

text \<open>
  C25. Every turn that is answered leaves exactly two rows at the end of the transcript, the
  message and the answer, in the session the turn names, or in one opened for it; the session is
  the caller's. The answer's text is the one its kind calls for: the model's reply only for chat
  and clarification, else a text of the program over what it stored or found. A confirmation is
  stored only for the response that asks for one, for its single candidate, in the candidate's
  version and with the configured lifetime.
\<close>
theorem turn_recorded:
  assumes "brain_reachable env cenv b" "CHR '':'' \<notin> set (tn_WorkspaceID t)"
    and "api_ProcessMessage env cenv t b = (Inr rsp, b')"
  shows "transcript_kept (ce_zone cenv) t rsp b b' \<and> confirmation_kept cenv t rsp b b'"
  using ProcessMessage_outcome [OF brain_reachable_inv [OF assms(1)] assms(2,3)]
  unfolding outcome_def by blast

theorem turn_recorded_witness:
  "\<exists>rsp. rsp_Kind rsp = KindConfirmationRequired
     \<and> transcript_kept (ce_zone sample_chat) (sample_turn ''1'' ''drop'') rsp sample_asked sample_pending
     \<and> confirmation_kept sample_chat (sample_turn ''1'' ''drop'') rsp sample_asked sample_pending"
proof -
  obtain rsp where run: "api_ProcessMessage sample_env sample_chat (sample_turn ''1'' ''drop'') sample_asked = (Inr rsp, sample_pending)"
    and kind: "rsp_Kind rsp = ''confirmation_required''" using ends_withD [OF sample_pending_run] by blast
  have "CHR '':'' \<notin> set (tn_WorkspaceID (sample_turn ''1'' ''drop''))" by (simp add: sample_turn_def)
  from turn_recorded [OF sample_asked_reachable this run] kind show ?thesis
    unfolding KindConfirmationRequired_def by blast
qed



text \<open>
  C29. The caller's session can be read to its first message: following the cursors of the
  pages, at most one more than there are messages, returns every message of the session, each
  once and in order.
\<close>
theorem transcript_read_whole:
  assumes "brain_reachable env cenv b" "own_session ws user sid (cdb_sessions (br_conversation b))"
    and "length (cdb_messages (br_conversation b)) < n"
  shows "fst (read_pages chat_sessions message_log n ws user sid [] b) =
    Inr (map (message_view \<circ> entry_of sid)
      (filter (in_session ws user sid) (cdb_messages (br_conversation b))))"
  by (rule transcript_read [OF brain_reachable_inv [OF assms(1)] assms(2,3)])

theorem transcript_read_whole_witness:
  "fst (read_pages chat_sessions message_log 5 ''1'' ''2'' ''1'' [] sample_pending) =
    Inr (map (message_view \<circ> entry_of ''1'') (cdb_messages (br_conversation sample_pending)))"
proof -
  have "own_session ''1'' ''2'' ''1'' (cdb_sessions (br_conversation sample_pending))"
    "length (cdb_messages (br_conversation sample_pending)) < 5"
    by (simp_all add: sample_pending_def sample_asked_def own_session_def session_scope_def)
  from transcript_read_whole [OF sample_pending_reachable this]
  show ?thesis by (simp add: sample_pending_def sample_asked_def sample_row_def in_session_def)
qed

text \<open>
  C30. A message or a confirmation that reports an error left every table and the job queue as
  they were, whichever statement, model call, job call or commit failed: no half of a turn is
  kept, and a confirmation is not consumed by a deletion that did not happen.
\<close>
theorem chat_atomic:
  assumes "api_ProcessMessage env cenv t b = (Inl e, b') \<or> api_ConfirmAction env ws user cid sid b = (Inl e, b')"
  shows "brain_data b' = brain_data b"
  using assms atomic_ProcessMessage atomic_ConfirmAction unfolding atomic_def by blast

theorem chat_atomic_witness:
  "\<exists>e b'. api_ConfirmAction sample_env_lost ''1'' ''2'' ''2'' ''1'' sample_pending = (Inl e, b')
     \<and> brain_data b' = brain_data sample_pending"
proof -
  obtain e b' where run: "api_ConfirmAction sample_env_lost ''1'' ''2'' ''2'' ''1'' sample_pending = (Inl e, b')"
    using runs_error [OF sample_lost_run] by blast
  have "brain_data b' = brain_data sample_pending" by (rule chat_atomic [OF disjI2 [OF run]])
  with run show ?thesis by blast
qed

end
