(* ===== verification/Spec2Isabelle.thy ===== *)
theory Spec2Isabelle
  imports Sample Investment_Properties Conversation_Properties
begin

text \<open>
  A model of the Go backend under \<open>src/backend\<close>: an API process and a worker that keep todos,
  remind their owners by mail and text message, take requests in a chat over a language model,
  sign users in, and run a paper investment account. The program is written in modules (\<open>internal/modules/<module>\<close>), each with a domain
  package, application commands and queries over ports, and adapters; the commands of \<open>cmd/\<close>
  wire them together. The theories follow that layout, one group of definitions per Go file,
  with the names of the source; \<open>record\<close>s are its structs, \<open>datatype\<close>s its enums.

  How operations are modelled. A Go function that returns a value and an error is a function to a
  sum, \<open>Inl\<close> of the sentinel error (\<open>Errors\<close>) or \<open>Inr\<close> of the value; a method with effects is
  \<open>('s, 'a) op\<close>, the same over an explicit state (\<open>Prelude\<close>), and keeps the state after an error,
  because effects before an early return stay unless a transaction rolls them back. Ports are
  records of operations. PostgreSQL tables are lists of rows in insertion order and a statement is
  a function on them, checks and unique keys included.

  Todos, reminders, identity:
  \<^item> \<open>Todo_Domain\<close>, \<open>Todo_Store\<close>, \<open>Todo_Commands\<close>: \<open>todo/domain\<close>, the adapter
    \<open>todo/adapters/outbound/postgres\<close> and \<open>todo/application\<close>.
  \<^item> \<open>Reminder_Domain\<close>, \<open>Reminder_Store\<close>, \<open>Reminder_Commands\<close>, \<open>Reminder_Send\<close>: plans and
    deliveries with their state machine, their tables, planning and revocation, and the send
    command with the River worker; \<open>Reminder_Planning\<close> holds what planning leaves in the tables.
  \<^item> \<open>Identity_Domain\<close>, \<open>Identity_Store\<close>, \<open>Identity_Commands\<close>: identifiers, challenges, channels,
    sessions, with the laws of login, channels and provisioning in \<open>Identity_Login\<close>,
    \<open>Identity_Channels\<close>, \<open>Identity_Provision\<close>.
  \<^item> \<open>Database\<close>: \<open>TxRunner\<close> and the joinable unit of work.
  \<^item> \<open>Composition\<close>, \<open>Composition_Laws\<close>: \<open>cmd/api/wiring.go\<close> and \<open>cmd/worker/main.go\<close>. \<open>world\<close> is
    the state of the whole program; the record \<open>env\<close> is what the program does not compute. Each
    locale in which a module states what it needs of another (\<open>todo_store\<close>, \<open>delivery_store\<close>,
    \<open>reminder_tables\<close>, \<open>todo_commands\<close>, \<open>transactional\<close>, the login and channel locales) is
    interpreted there on the program's own adapters.
  \<^item> \<open>Program\<close> and \<open>Program_*\<close>: the wired handlers as steps of a state machine, its invariant
    \<open>world_inv\<close>, and what follows across modules. \<open>Random_Values\<close>: codes, tokens, identifiers.
    \<open>Sample\<close>: one run of the program on which the witnesses rest.

  Conversation (\<open>conversation\<close>):
  \<^item> \<open>Conversation_Domain\<close>, \<open>Conversation_Validation\<close>: sessions, confirmations, proposals, and the
    checks every answer of the model passes (\<open>intentvalidation.go\<close>, \<open>turnvalidation.go\<close>,
    \<open>router.go\<close>).
  \<^item> \<open>Conversation_Store\<close>: the statements on confirmations, messages and sessions, with the key
    sequence; \<open>Conversation_Laws\<close>: the invariant of these tables, the refinement of the
    conditional update by \<open>Consume\<close>, and the locale \<open>chat_tables\<close> of the paged reads.
  \<^item> \<open>Conversation_Commands\<close>: the message flow, confirmations, sessions, history;
    \<open>Conversation_Composition\<close> wires it to the todo module in one unit of work. \<open>brain\<close> is the
    state of the program with these tables, \<open>chat_env\<close> what the chat is given.
  \<^item> \<open>Conversation_Program\<close>: the state machine with the chat's events. \<open>Conversation_Facts\<close>,
    \<open>Conversation_Turns\<close>, \<open>Conversation_Confirm\<close>: errors, what a turn leaves, what a confirmation
    does. \<open>Conversation_Sample\<close>, \<open>Conversation_Properties\<close>: a run and C21 to C23, C25, C26, C29,
    C30.
  \<^item> \<open>Go_Time\<close>, \<open>Go_Text\<close>, \<open>Go_Json\<close>: the parts of Go's library these modules use.

  Investment (\<open>investment/domain\<close>):
  \<^item> \<open>Investment_Money\<close>, \<open>Go_Float\<close>, \<open>Investment_Data\<close>, \<open>Investment_Calendar\<close>: exact amounts in
    \<open>int64\<close>, \<open>float64\<close>, the records, trading sessions.
  \<^item> \<open>Investment_Ledger\<close> with its invariant in \<open>Investment_Book\<close> and its specification in
    \<open>Investment_Account_Spec\<close>: fills, reservations, settlement, corporate actions.
  \<^item> \<open>Investment_Risk\<close>, \<open>Investment_Execution\<close>, \<open>Investment_Rebalance\<close>, with the limits in figures
    (\<open>Investment_Limits\<close>) and the exactness of the bisection (\<open>Investment_Exact\<close>).
  \<^item> \<open>Investment_Snapshot\<close>, \<open>Investment_Factors\<close>, \<open>Investment_Scoring\<close>: what was known, indicators,
    evaluation, performance; \<open>Investment_Knowledge\<close> shows that decisions see nothing else.
  \<^item> \<open>Investment_Replay\<close>: the backtest, and \<open>Investment_Replay_Book\<close> its books.
  \<^item> \<open>Investment_Sample\<close>, \<open>Investment_Properties\<close>: concrete inputs and C31 to C40.

  What the lemmas show. Per module: every operation keeps the well-formedness of its data and
  behaves as its branches say; the stores' statements satisfy the laws of their ports. Across
  modules (C1 to C13): the invariant of every reachable state, who may send what and when, that a
  settled todo is never reminded again, what each todo command leaves behind, and atomicity. For
  the chat: whatever the model answers, a turn creates a todo only for a valid and confident
  proposal, deletes nothing, and leaves its two transcript rows; a confirmation deletes one
  version of one todo, once; a transcript can be read to its first row; errors change no table. For
  the account (C31 to C40): conservation of money and shares, refinement of an abstract account,
  that matches and purchases stay within their limits, and that no decision looks ahead.

  Bounds. Go's \<open>int\<close> and \<open>int64\<close> are \<open>int\<close>; in the todo and reminder modules they hold versions and
  counters that are compared and incremented only, in the investment module every machine
  operation is written with its wrap-around (\<open>wrap64\<close>) or its range check (\<open>IsInt64\<close>), and
  \<open>math/big\<close> is unbounded. \<open>float64\<close> is a rational rounded to the nearest representable value,
  ties to even, without signed zeros and without fused operations. Recursion is structural or has
  a termination proof. The one bound is the number of pages a client reads (\<open>read_pages\<close>), and
  C29 shows that one more than the number of messages is enough. The money bisection (\<open>bisect\<close>) terminates because
  its interval shrinks. Go maps that the code ranges over are association lists in insertion
  order, and \<open>sort.Slice\<close> is a stable sort. A \<open>time.Time\<close> is its instant in nanoseconds; dates are
  taken in UTC.

  Parameters. \<open>env\<close> holds the clock, the random source, identifiers (pairwise different: two
  version 4 UUIDs are assumed not to collide), River, the mail and message providers, whether
  begin and commit succeed, PostgreSQL's \<open>ilike\<close> and \<open>lower\<close>, \<open>strings.ToLower\<close>, SHA-256, the
  time zone database and the configuration; \<open>chat_env\<close> holds the model's answer to each call, the
  zone database as offsets, the lifetime of confirmations and the history window. JSON text is its
  parsed value, \<open>None\<close> where it does not parse. The investment module takes midnight in New York and
  \<open>math.Pow\<close> as parameters. A rollback restores the tables and the job queue, not the clock, the
  identifiers given out, the sequence of message keys or the messages sent.

  Not modelled, and why: the HTTP, SMTP, Aliyun, model, SEC and Alpaca adapters and the configuration,
  logging, health and migration code of \<open>platform\<close> (input and output around the commands); the
  stores and commands of the investment module and the portability module (not reached yet); the
  web application and the repository tools (other languages). Concurrency is interleaving of
  whole handlers: a handler's statements run without others between them, as its row locks and
  version guards intend; the aborted state of a PostgreSQL transaction after a failed statement is
  not modelled. \<open>ImportTodo\<close> and \<open>ImportDeliveries\<close> are modelled but are not steps of the program's
  state machine, since the rows they restore carry keys of their own. The steps that create todos
  ask for a workspace identifier without a colon, which its UUID column guarantees. The replay's
  context is one that is never cancelled.
\<close>

section \<open>Properties of the whole program\<close>



text \<open>
  C2. Once a todo is completed or deleted, no later event of the program (no request, no retry
  of a job that was queued before, no duplicate run) hands a reminder about it to a provider.
\<close>

theorem settled_never_reminded:
  assumes "reachable env w" "list_all well_scoped es" "t \<in> set (wd_todo w)" "\<not> IsPending t"
  shows "\<exists>l. wd_sent (fold (serve env) es w) = wd_sent w @ l
    \<and> (\<forall>(ch, m) \<in> set l. m_TodoID m \<noteq> t_ID t)"
  by (rule settled_todo_silent [OF reachable_inv [OF assms(1)] assms(2-4)])

theorem settled_never_reminded_witness:
  "\<exists>l. wd_sent (fold (serve sample_env) [EventWork sample_job 1, EventWork sample_job 2] sample_completed)
      = wd_sent sample_completed @ l \<and> (\<forall>(ch, m) \<in> set l. m_TodoID m \<noteq> t_ID sample_done)"
proof (rule settled_never_reminded [OF sample_completed_reachable])
  show "list_all well_scoped [EventWork sample_job 1, EventWork sample_job 2]" by simp
  show "sample_done \<in> set (wd_todo sample_completed)" by (simp add: sample_completed_def)
  show "\<not> IsPending sample_done" by code_simp
qed

text \<open>
  C3. Only the worker hands messages to the notifiers, at most one per attempt, on the channel of
  its job, and each is for a pending todo whose current reminder version is the one of a live
  plan, to the address of a verified and enabled channel of the owner.
\<close>

theorem messages_justified:
  assumes "reachable env w"
  shows "wd_sent (serve env e w) = wd_sent w
    \<or> (\<exists>args n m. e = EventWork args n \<and> wd_sent (serve env e w) = wd_sent w @ [(sa_Channel args, m)]
        \<and> justified w args m)"
proof (cases "\<exists>args n. e = EventWork args n")
  case False
  then have "wd_sent (serve env e w) = wd_sent w" by (intro serve_log) blast
  then show ?thesis ..
next
  case True
  then obtain args n where e: "e = EventWork args n" by blast
  obtain r w' where run: "worker_Work env args n w = (r, w')" by (cases "worker_Work env args n w")
  from worker_message [OF reachable_inv [OF assms] run] run e show ?thesis by auto
qed

theorem messages_justified_witness:
  "wd_sent (serve sample_env (EventWork sample_job 1) sample_world) = wd_sent sample_world
    \<or> (\<exists>args n m. EventWork sample_job 1 = EventWork args n
        \<and> wd_sent (serve sample_env (EventWork sample_job 1) sample_world)
            = wd_sent sample_world @ [(sa_Channel args, m)]
        \<and> justified sample_world args m)"
  by (rule messages_justified [OF sample_reachable])

text \<open>
  C4. An attempt of the worker that reports success leaves the delivery row of the plan's version
  and channel in the state the plan, the todo and the channel call for: unchanged and silent
  when it was final, suppressed with the reason and silent when the plan is revoked, the todo is
  gone, settled or rescheduled, or the channel is unusable, and otherwise succeeded after one
  message or failed. A job whose plan does not exist changes nothing.
\<close>

theorem worker_outcome:
  assumes inv: "world_inv env w" and run: "worker_Work env args n w = (Inr (), w')"
  shows "readable w' = readable w \<and>
    (case read_plan (readable w) (sa_WorkspaceID args) (sa_PlanID args) of
       None \<Rightarrow> wd_sent w' = wd_sent w \<and> delivery_row (wd_reminder w') = delivery_row (wd_reminder w)
     | Some plan \<Rightarrow>
         (let key = IdempotencyKeyFor (sa_WorkspaceID args) (p_TodoID plan)
                (p_TodoReminderVersion plan) (sa_Channel args) in
          \<exists>d' l. delivery_row (wd_reminder w') (sa_WorkspaceID args) key = Some d'
           \<and> wd_sent w' = wd_sent w @ l
           \<and> send_outcome plan
               (read_todo (readable w) (sa_WorkspaceID args) (sa_OwnerUserID args) (p_TodoID plan))
               (read_endpoint (readable w) (sa_WorkspaceID args) (sa_OwnerUserID args) (sa_Channel args))
               (sa_Channel args) (delivery_row (wd_reminder w) (sa_WorkspaceID args) key) d' l))"
proof -
  have dinv: "delivery_table_inv (wd_reminder w)"
    using inv by (simp add: world_inv_def deliveries_inv_def)
  show ?thesis
    using send.send_success [OF dinv run [unfolded worker_Work_def SendWorker_Work_def]]
    by (simp add: Let_def cong: option.case_cong)
qed

theorem worker_outcome_witness:
  "readable sample_sent = readable sample_world \<and>
    (case read_plan (readable sample_world) (sa_WorkspaceID sample_job) (sa_PlanID sample_job) of
       None \<Rightarrow> wd_sent sample_sent = wd_sent sample_world
         \<and> delivery_row (wd_reminder sample_sent) = delivery_row (wd_reminder sample_world)
     | Some plan \<Rightarrow>
         (let key = IdempotencyKeyFor (sa_WorkspaceID sample_job) (p_TodoID plan)
                (p_TodoReminderVersion plan) (sa_Channel sample_job) in
          \<exists>d' l. delivery_row (wd_reminder sample_sent) (sa_WorkspaceID sample_job) key = Some d'
           \<and> wd_sent sample_sent = wd_sent sample_world @ l
           \<and> send_outcome plan
               (read_todo (readable sample_world) (sa_WorkspaceID sample_job)
                  (sa_OwnerUserID sample_job) (p_TodoID plan))
               (read_endpoint (readable sample_world) (sa_WorkspaceID sample_job)
                  (sa_OwnerUserID sample_job) (sa_Channel sample_job))
               (sa_Channel sample_job)
               (delivery_row (wd_reminder sample_world) (sa_WorkspaceID sample_job) key) d' l))"
  by (rule worker_outcome [OF sample_inv sample_sent_run])



text \<open>
  C6. A reminder is sent at most once per plan and channel: after an attempt that reported
  success, a later run of the same job, a duplicate of it or a stray retry, sends nothing,
  whatever the program did in between.
\<close>

theorem job_sends_once:
  assumes "reachable env w" "worker_Work env args n w = (Inr (), w1)"
    and "read_plan (readable w) (sa_WorkspaceID args) (sa_PlanID args) = Some p"
    and "list_all well_scoped es"
  shows "wd_sent (serve env (EventWork args k) (fold (serve env) es w1)) = wd_sent (fold (serve env) es w1)"
  by (rule job_done_silent [OF reachable_inv [OF assms(1)] assms(2-4)])

theorem job_sends_once_witness:
  "wd_sent (serve sample_env (EventWork sample_job 2)
      (fold (serve sample_env) [EventWork sample_job 1, EventCompleteTodo sample_req] sample_sent))
    = wd_sent (fold (serve sample_env) [EventWork sample_job 1, EventCompleteTodo sample_req] sample_sent)"
proof (rule job_sends_once [OF sample_reachable sample_sent_run])
  show "read_plan (readable sample_world) (sa_WorkspaceID sample_job) (sa_PlanID sample_job)
      = Some (hd (rdb_plans (wd_reminder sample_world)))" by code_simp
  show "list_all well_scoped [EventWork sample_job 1, EventCompleteTodo sample_req]" by simp
qed

text \<open>
  C7. A delivery that was sent, failed or suppressed keeps its outcome through every later event:
  state, reason, attempts, provider message, error and the times stay as they are.
\<close>

theorem final_delivery_kept:
  assumes "reachable env w" "list_all well_scoped es"
    and "d \<in> set (rdb_deliveries (wd_reminder w))" "IsFinal d"
  shows "\<exists>d' \<in> set (rdb_deliveries (wd_reminder (fold (serve env) es w))).
      d_ID d' = d_ID d \<and> d_IdempotencyKey d' = d_IdempotencyKey d \<and> same_outcome d d'"
  by (rule final_row_kept [OF reachable_inv [OF assms(1)] assms(2-4)])

theorem final_delivery_kept_witness:
  "\<exists>d' \<in> set (rdb_deliveries (wd_reminder (fold (serve sample_env)
        [EventCompleteTodo sample_req, EventWork sample_job 2] sample_sent))).
      d_ID d' = d_ID sample_delivery \<and> d_IdempotencyKey d' = d_IdempotencyKey sample_delivery
      \<and> same_outcome sample_delivery d'"
proof (rule final_delivery_kept [OF sample_sent_reachable])
  show "list_all well_scoped [EventCompleteTodo sample_req, EventWork sample_job 2]" by simp
  show "sample_delivery \<in> set (rdb_deliveries (wd_reminder sample_sent))" by (simp add: sample_sent_def)
  show "IsFinal sample_delivery" by code_simp
qed

text \<open>
  C8. Creating a todo appends it and, when it has a due instant, one plan of its first reminder
  version, one scheduled delivery per kind of usable channel and one job each, at that
  instant; without a due instant nothing is planned. The answer tells which channels.
\<close>

theorem create_plans_reminders:
  assumes "world_inv env w" "CHR '':'' \<notin> set (cr_WorkspaceID req)"
    and "api_CreateTodo env req w = (Inr view, w')"
  shows "\<exists>now i t chans. New i (cr_WorkspaceID req) (cr_UserID req) (cr_Title req)
        (cr_Description req) (cr_DueAtUTC req) (cr_TimezoneAtInput req) now = Inr t
    \<and> i \<notin> issued_ids env w \<and> wd_todo w' = wd_todo w @ [t]
    \<and> view = (FromDomain t now)\<lparr>v_ReminderScheduled := Some (t_DueAtUTC t \<noteq> None \<and> chans \<noteq> []),
           v_ReminderChannels := Some chans\<rparr>
    \<and> (case cr_DueAtUTC req of
         None \<Rightarrow> chans = [] \<and> wd_reminder w' = wd_reminder w \<and> wd_jobs w' = wd_jobs w
       | Some due \<Rightarrow> chans = active_kinds env (wd_identity w) (cr_WorkspaceID req) (cr_UserID req)
           \<and> planned w w' t due chans)"
  by (rule create_plans [OF assms])

theorem create_plans_reminders_witness:
  "\<exists>view. \<exists>now i t chans. New i ''1'' ''2'' ''call'' None (Some 5000) None now = Inr t
    \<and> i \<notin> issued_ids sample_env sample_verified
    \<and> wd_todo sample_world = wd_todo sample_verified @ [t]
    \<and> view = (FromDomain t now)\<lparr>v_ReminderScheduled := Some (t_DueAtUTC t \<noteq> None \<and> chans \<noteq> []),
           v_ReminderChannels := Some chans\<rparr>
    \<and> chans = active_kinds sample_env (wd_identity sample_verified) ''1'' ''2''
    \<and> planned sample_verified sample_world t 5000 chans"
proof -
  obtain view where run: "api_CreateTodo sample_env sample_create sample_verified = (Inr view, sample_world)"
    using sample_create_run by blast
  have "CHR '':'' \<notin> set (cr_WorkspaceID sample_create)" by (simp add: sample_create_def)
  from create_plans_reminders [OF sample_verified_inv this run] show ?thesis
    by (simp add: sample_create_def) blast
qed

text \<open>
  C9. Completing a todo at the version the client saw stores it completed, changes no other todo
  and leaves none of its plans planned and none of its deliveries scheduled.
\<close>

theorem complete_settles_todo:
  assumes "world_inv env w" "api_CompleteTodo env req w = (Inr view, w')"
  shows "\<exists>now t t'. Complete (vr_Version req) now t = Inr t' \<and> view = FromDomain t' now
    \<and> settled w w' req t t'"
  by (rule complete_settles [OF assms])

theorem complete_settles_todo_witness:
  "\<exists>view w'. api_CompleteTodo sample_env sample_req sample_world = (Inr view, w')
    \<and> (\<exists>now t t'. Complete (vr_Version sample_req) now t = Inr t' \<and> view = FromDomain t' now
        \<and> settled sample_world w' sample_req t t')"
proof -
  have "\<not> isl (fst (api_CompleteTodo sample_env sample_req sample_world))" by code_simp
  then obtain view w' where run: "api_CompleteTodo sample_env sample_req sample_world = (Inr view, w')"
    using runs_ok by blast
  with complete_settles_todo [OF sample_inv run] show ?thesis by blast
qed

text \<open>C10. Deleting a todo, pending or completed, does the same with the status deleted.\<close>

theorem delete_settles_todo:
  assumes "world_inv env w" "api_DeleteTodo env req w = (Inr view, w')"
  shows "\<exists>now t t'. Delete (vr_Version req) now t = Inr t' \<and> view = FromDomain t' now
    \<and> settled w w' req t t'"
  by (rule delete_settles [OF assms])

theorem delete_settles_todo_witness:
  "\<exists>view w'. api_DeleteTodo sample_env sample_req sample_world = (Inr view, w')
    \<and> (\<exists>now t t'. Delete (vr_Version sample_req) now t = Inr t' \<and> view = FromDomain t' now
        \<and> settled sample_world w' sample_req t t')"
proof -
  have "\<not> isl (fst (api_DeleteTodo sample_env sample_req sample_world))" by code_simp
  then obtain view w' where run: "api_DeleteTodo sample_env sample_req sample_world = (Inr view, w')"
    using runs_ok by blast
  with delete_settles_todo [OF sample_inv run] show ?thesis by blast
qed

text \<open>
  C11. Changing a todo keeps its reminders in step with its due instant: an unchanged instant
  leaves plans, deliveries and jobs alone; a changed one leaves nothing of the earlier reminder
  versions planned or scheduled, and a new instant is planned again for the usable channels.
\<close>

theorem update_replans_reminders:
  assumes "world_inv env w" "api_UpdateTodo env req w = (Inr view, w')"
  shows "\<exists>now t t' known chans. t \<in> set (wd_todo w) \<and> t_ID t = ur_TodoID req
     \<and> t_WorkspaceID t = ur_WorkspaceID req \<and> t_OwnerUserID t = ur_UserID req
     \<and> Update (ur_Version req) (changes_of req) now t = Inr t'
     \<and> wd_todo w' = map (\<lambda>r. if t_ID r = ur_TodoID req then t' else r) (wd_todo w)
     \<and> replanned env w w' t t' known chans
     \<and> view = (if known then (FromDomain t' now)
           \<lparr>v_ReminderScheduled := Some (t_DueAtUTC t' \<noteq> None \<and> chans \<noteq> []),
            v_ReminderChannels := Some chans\<rparr>
         else FromDomain t' now)"
  by (rule update_replans [OF assms])

theorem update_replans_reminders_witness:
  "\<exists>view w'. api_UpdateTodo sample_env sample_update sample_world = (Inr view, w')
    \<and> (\<exists>now t t' known chans. t \<in> set (wd_todo sample_world)
     \<and> Update (ur_Version sample_update) (changes_of sample_update) now t = Inr t'
     \<and> replanned sample_env sample_world w' t t' known chans)"
proof -
  have "\<not> isl (fst (api_UpdateTodo sample_env sample_update sample_world))" by code_simp
  then obtain view w' where run: "api_UpdateTodo sample_env sample_update sample_world = (Inr view, w')"
    using runs_ok by blast
  with update_replans_reminders [OF sample_inv run] show ?thesis by blast
qed

text \<open>
  C12. A todo command that reports an error left the database as it was: no half of a command
  (a todo without its plans, a revocation without the completion) is ever stored, whichever
  statement, scheduler call or commit failed.
\<close>

theorem todo_commands_atomic:
  "(isl (fst (api_CreateTodo env c w)) \<longrightarrow> wd_data (snd (api_CreateTodo env c w)) = wd_data w)
    \<and> (isl (fst (api_UpdateTodo env u w)) \<longrightarrow> wd_data (snd (api_UpdateTodo env u w)) = wd_data w)
    \<and> (isl (fst (api_CompleteTodo env v w)) \<longrightarrow> wd_data (snd (api_CompleteTodo env v w)) = wd_data w)
    \<and> (isl (fst (api_DeleteTodo env v w)) \<longrightarrow> wd_data (snd (api_DeleteTodo env v w)) = wd_data w)"
proof -
  have ids: "wd_data (snd (world_newID env s)) = wd_data s" for s by (simp add: wd_data_def)
  have "wd_data (snd (api_CreateTodo env c w)) = wd_data w" if "fst (api_CreateTodo env c w) = Inl e" for e
    using todo.create_error_data [OF ids] that unfolding api_CreateTodo_def uow_def by (metis prod.collapse)
  then have create: "isl (fst (api_CreateTodo env c w)) \<longrightarrow> wd_data (snd (api_CreateTodo env c w)) = wd_data w"
    by (auto simp: isl_def)
  have "wd_data (snd (api_UpdateTodo env u w)) = wd_data w" if "fst (api_UpdateTodo env u w) = Inl e" for e
    using todo.update_error_data that unfolding api_UpdateTodo_def uow_def by (metis prod.collapse)
  then have update: "isl (fst (api_UpdateTodo env u w)) \<longrightarrow> wd_data (snd (api_UpdateTodo env u w)) = wd_data w"
    by (auto simp: isl_def)
  have "wd_data (snd (api_CompleteTodo env v w)) = wd_data w" if "fst (api_CompleteTodo env v w) = Inl e" for e
    using todo.complete_error_data that unfolding api_CompleteTodo_def uow_def by (metis prod.collapse)
  then have complete: "isl (fst (api_CompleteTodo env v w)) \<longrightarrow> wd_data (snd (api_CompleteTodo env v w)) = wd_data w"
    by (auto simp: isl_def)
  have "wd_data (snd (api_DeleteTodo env v w)) = wd_data w" if "fst (api_DeleteTodo env v w) = Inl e" for e
    using todo.delete_error_data that unfolding api_DeleteTodo_def uow_def by (metis prod.collapse)
  then have delete: "isl (fst (api_DeleteTodo env v w)) \<longrightarrow> wd_data (snd (api_DeleteTodo env v w)) = wd_data w"
    by (auto simp: isl_def)
  from create update complete delete show ?thesis by blast
qed

theorem todo_commands_atomic_witness:
  "isl (fst (api_CompleteTodo sample_env (sample_req\<lparr>vr_Version := 2\<rparr>) sample_world))
    \<and> wd_data (snd (api_CompleteTodo sample_env (sample_req\<lparr>vr_Version := 2\<rparr>) sample_world))
        = wd_data sample_world"
proof -
  have e: "isl (fst (api_CompleteTodo sample_env (sample_req\<lparr>vr_Version := 2\<rparr>) sample_world))" by code_simp
  with todo_commands_atomic [of sample_env _ sample_world _ "sample_req\<lparr>vr_Version := 2\<rparr>"] show ?thesis
    by blast
qed



text \<open>
  C14. The idempotency key of a delivery determines its workspace, todo, reminder version and
  channel, as long as workspace and todo are identifiers without a colon: two different
  reminders never share a row.
\<close>

theorem idempotency_key_injective:
  assumes "CHR '':'' \<notin> set ws" "CHR '':'' \<notin> set ws'"
    and "CHR '':'' \<notin> set todoID" "CHR '':'' \<notin> set todoID'"
    and "IdempotencyKeyFor ws todoID rv channel = IdempotencyKeyFor ws' todoID' rv' channel'"
  shows "ws = ws' \<and> todoID = todoID' \<and> rv = rv' \<and> channel = channel'"
  by (rule IdempotencyKeyFor_inj [OF assms])

theorem idempotency_key_injective_witness:
  "IdempotencyKeyFor ''1'' ''5'' 1 ''email'' = ''1:5:1:email'' \<and> (''5'' = ''5'' \<and> (1::int) = 1)"
proof -
  have k: "IdempotencyKeyFor ''1'' ''5'' 1 ''email'' = ''1:5:1:email''" by code_simp
  have "''1'' = ''1'' \<and> ''5'' = ''5'' \<and> (1::int) = 1 \<and> ''email'' = ''email''"
    by (rule idempotency_key_injective [of "''1''" "''1''" "''5''" "''5''" 1 "''email''" 1 "''email''"]) simp_all
  with k show ?thesis by simp
qed



text \<open>
  C16. However many wrong codes are tried against a challenge, none logs in and at most four are
  answered as merely wrong: from the fifth on the challenge is closed.
\<close>

theorem login_guesses_bounded:
  assumes "validateIdentifier (e_ToLower env) i0 = Inr i"
    and "challenges_inv (wd_identity w)" "active_challenge i (wd_identity w) = Some c"
    and "lc_ConsumedAt c = None" "lc_Attempts c \<le> MaxVerifyAttempts"
    and "\<forall>code \<in> set codes. codePattern code \<and> lc_CodeHash c \<noteq> e_HashCode env code"
    and "guess (e_ToLower env) (e_HashCode env) (verify_ports env) i0 codes w = (rs, w')"
  shows "list_all isl rs
    \<and> int (length (filter (\<lambda>r. r = Inl (IdentityErr ErrInvalidCode)) rs))
        \<le> max 0 (MaxVerifyAttempts - 1 - lc_Attempts c)"
  using assms(6) by (intro verify.guess_bound [OF assms(1-5) _ assms(7)]) blast

theorem login_guesses_bounded_witness:
  "\<exists>rs w'. guess id (\<lambda>s. CHR ''#'' # s) (verify_ports sample_env) sample_login
        [''111111'', ''222222''] sample_requested = (rs, w')
    \<and> list_all isl rs \<and> int (length (filter (\<lambda>r. r = Inl (IdentityErr ErrInvalidCode)) rs)) \<le> 4"
proof -
  let ?c = "hd (idb_challenges (wd_identity sample_requested))"
  obtain rs w' where run: "guess (e_ToLower sample_env) (e_HashCode sample_env) (verify_ports sample_env)
      sample_login [''111111'', ''222222''] sample_requested = (rs, w')"
    by (cases "guess (e_ToLower sample_env) (e_HashCode sample_env) (verify_ports sample_env)
      sample_login [''111111'', ''222222''] sample_requested")
  have "challenges_inv (wd_identity sample_requested)" by code_simp
  moreover have "validateIdentifier (e_ToLower sample_env) sample_login = Inr sample_login" by code_simp
  moreover have "active_challenge sample_login (wd_identity sample_requested) = Some ?c" by code_simp
  moreover have "lc_ConsumedAt ?c = None" "lc_Attempts ?c = 0" "MaxVerifyAttempts = 5" by code_simp+
  moreover have "\<forall>code \<in> set [''111111'', ''222222'']. codePattern code \<and> lc_CodeHash ?c \<noteq> e_HashCode sample_env code"
    by code_simp
  ultimately have "list_all isl rs
    \<and> int (length (filter (\<lambda>r. r = Inl (IdentityErr ErrInvalidCode)) rs)) \<le> max 0 (5 - 1 - 0)"
    using login_guesses_bounded [of sample_env sample_login sample_login sample_requested ?c _ rs w', OF _ _ _ _ _ _ run]
    by simp
  with run show ?thesis by (simp add: sample_env_def)
qed

text \<open>
  C17. A login succeeds only with the code of the newest open challenge of that identifier,
  before it expires and with fewer than five failed tries; it consumes the challenge, opens one
  session for the user of that identifier (created when there was none), stored by the hash of
  the token that is returned, and expiring after the configured time.
\<close>

theorem login_verified:
  assumes "api_VerifyLogin env i0 code w = (Inr res, w')"
  shows "\<exists>i c now user se. validateIdentifier (e_ToLower env) i0 = Inr i
    \<and> \<not> privateBlocked (e_PrivateAdminPhone env) (e_PrivateAdminEmail env) i
    \<and> active_challenge i (wd_identity w) = Some c \<and> lc_CodeHash c = e_HashCode env code
    \<and> now < lc_ExpiresAt c \<and> lc_ConsumedAt c = None \<and> lc_Attempts c < MaxVerifyAttempts
    \<and> idb_challenges (wd_identity w') = idb_challenges
         (snd (pg_challenge_Update (c\<lparr>lc_ConsumedAt := Some now\<rparr>) (wd_identity w)))
    \<and> has_identifier i user
    \<and> (idb_users (wd_identity w') = idb_users (wd_identity w) \<and> user \<in> set (idb_users (wd_identity w))
       \<or> idb_users (wd_identity w') = idb_users (wd_identity w) @ [user]
          \<and> (\<forall>u \<in> set (idb_users (wd_identity w)). \<not> has_identifier i u))
    \<and> idb_sessions (wd_identity w') = idb_sessions (wd_identity w) @ [se]
    \<and> se_TokenHash se = e_HashCode env (vl_Token res) \<and> se_RevokedAt se = None
    \<and> se_UserID se = u_ID user \<and> se_ExpiresAt se = now + e_SessionTTL env
    \<and> pc_UserID (vl_Principal res) = u_ID user
    \<and> pc_WorkspaceID (vl_Principal res) = u_WorkspaceID user
    \<and> pc_SessionID (vl_Principal res) = se_ID se"
proof -
  have p: "vp_AdminPhone (verify_ports env) = e_PrivateAdminPhone env"
    "vp_AdminEmail (verify_ports env) = e_PrivateAdminEmail env"
    "vp_SessionTTL (verify_ports env) = e_SessionTTL env" by (simp_all add: verify_ports_def)
  from verify.verify_ok [OF assms [unfolded api_VerifyLogin_def], unfolded p] show ?thesis
  proof (elim exE conjE, goal_cases)
    case (1 i c now user se)
    then show ?case
      by (intro exI [of _ i] exI [of _ c] exI [of _ now] exI [of _ user] exI [of _ se]) auto
  qed
qed

theorem login_verified_witness:
  "\<exists>res user se. api_VerifyLogin sample_env sample_login ''000008'' sample_requested
      = (Inr res, sample_logged_in)
    \<and> idb_users (wd_identity sample_logged_in) = [user] \<and> pc_UserID (vl_Principal res) = u_ID user
    \<and> idb_sessions (wd_identity sample_logged_in) = [se] \<and> se_UserID se = u_ID user"
proof -
  have "\<not> isl (fst (api_VerifyLogin sample_env sample_login ''000008'' sample_requested))" by code_simp
  then obtain res where run: "api_VerifyLogin sample_env sample_login ''000008'' sample_requested
      = (Inr res, sample_logged_in)"
    using runs_ok sample_logged_in_step by (metis prod.sel(2) serve.simps(9))
  have none: "idb_users (wd_identity sample_requested) = []" "idb_sessions (wd_identity sample_requested) = []"
    by (simp_all add: sample_requested_def)
  have "idb_users (wd_identity sample_logged_in) \<noteq> []" by (simp add: sample_logged_in_def)
  with login_verified [OF run] run show ?thesis by (auto simp: none)
qed







text \<open>A request for a new channel that reports an error stored no channel.\<close>

theorem add_channel_atomic:
  assumes "api_AddChannel env who kind address w = (Inl e, w')"
  shows "wd_identity w' = wd_identity w"
  by (rule channel.add_channel_error [OF assms [unfolded api_AddChannel_def]])

theorem add_channel_atomic_witness:
  "\<exists>e w'. api_AddChannel sample_env sample_principal ''sms'' ''+14155552671'' sample_added = (Inl e, w')
    \<and> wd_identity w' = wd_identity sample_added"
proof -
  have "isl (fst (api_AddChannel sample_env sample_principal ''sms'' ''+14155552671'' sample_added))" by code_simp
  then obtain e w' where run: "api_AddChannel sample_env sample_principal ''sms'' ''+14155552671'' sample_added = (Inl e, w')"
    using runs_error by blast
  with add_channel_atomic [OF run] show ?thesis by blast
qed

text \<open>
  Provisioning the private administrator at a start settles it: the run at the next start
  succeeds and changes no row.
\<close>

theorem provision_idempotent:
  assumes "world_inv env w" "api_ProvisionAdmin env phone email w = (Inr (), w1)"
  shows "fst (api_ProvisionAdmin env phone email w1) = Inr ()
    \<and> wd_identity (snd (api_ProvisionAdmin env phone email w1)) = wd_identity w1"
proof (cases "api_ProvisionAdmin env phone email w1")
  case (Pair r w2)
  with user.provision_twice [OF _ assms(2) [unfolded api_ProvisionAdmin_def]
      Pair [unfolded api_ProvisionAdmin_def]] identity_tables [OF assms(1)]
  show ?thesis by simp
qed

theorem provision_idempotent_witness:
  "\<exists>w1. api_ProvisionAdmin sample_env [] ''a@b.c'' empty_world = (Inr (), w1)
    \<and> fst (api_ProvisionAdmin sample_env [] ''a@b.c'' w1) = Inr ()
    \<and> wd_identity (snd (api_ProvisionAdmin sample_env [] ''a@b.c'' w1)) = wd_identity w1"
proof -
  have "\<not> isl (fst (api_ProvisionAdmin sample_env [] ''a@b.c'' empty_world))" by code_simp
  then obtain w1 where run: "api_ProvisionAdmin sample_env [] ''a@b.c'' empty_world = (Inr (), w1)"
    using runs_ok by fastforce
  with provision_idempotent [OF empty_world_inv run] show ?thesis by blast
qed

text \<open>
  A verification code is six decimal digits and is the random number itself: no number
  below a million is lost to formatting.
\<close>

theorem codes_are_six_digits:
  assumes "newSixDigitCode env w = (Inr code, w')"
  shows "codePattern code
    \<and> (\<exists>n. e_RandInt env (wd_tick w) = Inr n \<and> int (digits_val code) = n mod 1000000)"
  using newSixDigitCode_pattern [OF assms] assms
  by (auto simp: newSixDigitCode_run six_digits_val split: sum.splits)

theorem codes_are_six_digits_witness:
  "codePattern ''000007'' \<and> (\<exists>n. e_RandInt sample_env 0 = Inr n \<and> int (digits_val ''000007'') = n mod 1000000)"
proof -
  have "fst (newSixDigitCode sample_env empty_world) = Inr ''000007''" by code_simp
  then obtain w' where run: "newSixDigitCode sample_env empty_world = (Inr ''000007'', w')"
    by (metis prod.collapse)
  from codes_are_six_digits [OF run] show ?thesis by (simp add: empty_world_def)
qed

text \<open>
  C24. An identifier made of sixteen random bytes has the form of a version 4 UUID: 36 characters,
  dashes after eight, twelve, sixteen and twenty digits, version 4, variant 8 to b, and no colon.
\<close>

theorem identifiers_are_uuids:
  assumes "length bytes = 16"
  shows "length (newID_of bytes) = 36 \<and> newID_of bytes ! 14 = CHR ''4''
    \<and> newID_of bytes ! 19 \<in> set ''89ab''
    \<and> (\<forall>i \<in> {8, 13, 18, 23}. newID_of bytes ! i = CHR ''-'') \<and> CHR '':'' \<notin> set (newID_of bytes)"
  by (rule newID_shape [OF assms])

theorem identifiers_are_uuids_witness: "length (newID_of (replicate 16 255)) = 36"
  using identifiers_are_uuids [of "replicate 16 255"] by simp

text \<open>Two session tokens are equal only when their random bytes are.\<close>

theorem tokens_keep_bytes: "EncodeToString xs = EncodeToString ys \<longleftrightarrow> xs = ys"
  using EncodeToString_eq by blast

text \<open>
  The delay before retry number \<open>attempt\<close> is half a second doubled per attempt and capped
  at sixty seconds, for every attempt number: the shift on the 64 bit duration never overflows.
\<close>

theorem retry_delay:
  "sint (NextRetryDelay attempt) = min (60 * Second) (500000000 * 2 ^ nat (max 1 attempt - 1))"
  by (rule NextRetryDelay_value)



text \<open>
  C28. Planning and sending disagree on a user with two channels of a kind: planning schedules a
  reminder because one of them is verified, but sending looks only at the older one, finds it
  unusable and suppresses the reminder. Such a state is reachable.
\<close>

theorem resolver_shadows_verified_channel:
  "\<exists>w. reachable sample_env w \<and> ''email'' \<in> set (active_kinds sample_env (wd_identity w) ''1'' ''2'')
    \<and> \<not> ce_Usable (read_endpoint (readable w) ''1'' ''2'' ''email'')"
proof (intro exI conjI)
  let ?w = "serve sample_env (EventVerifyChannel sample_principal ''5'' ''000015'')
      (serve sample_env (EventAddChannel sample_principal ''email'' ''x@y.z'') sample_added)"
  show "reachable sample_env ?w"
    by (intro reachable_served sample_added_reachable) simp_all
  show "''email'' \<in> set (active_kinds sample_env (wd_identity ?w) ''1'' ''2'')" by code_simp
  show "\<not> ce_Usable (read_endpoint (readable ?w) ''1'' ''2'' ''email'')" by code_simp
qed

text \<open>
  Listing changes nothing and shows at most the limit of todos, each one of the caller's own
  that is stored, not deleted and matches the filters.
\<close>

theorem list_shows_own_todos:
  assumes "world_inv env w" "api_ListTodos env ws owner f w = (Inr views, w')"
  shows "wd_data w' = wd_data w \<and> int (length views) \<le> MaxListLimit
    \<and> (\<exists>now. \<forall>v \<in> set views. \<exists>t \<in> set (wd_todo w). v = FromDomain t now
        \<and> t_WorkspaceID t = ws \<and> t_OwnerUserID t = owner \<and> t_Status t \<noteq> StatusDeleted
        \<and> list_match (e_ilike env) ws owner f t)"
  by (rule listed_todos [OF assms])

theorem list_shows_own_todos_witness:
  "\<exists>views w'. api_ListTodos sample_env ''1'' ''2'' sample_filters sample_world = (Inr views, w')
    \<and> (\<exists>now. \<forall>v \<in> set views. \<exists>t \<in> set (wd_todo sample_world). v = FromDomain t now)"
proof -
  have "\<not> isl (fst (api_ListTodos sample_env ''1'' ''2'' sample_filters sample_world))" by code_simp
  then obtain views w' where run: "api_ListTodos sample_env ''1'' ''2'' sample_filters sample_world = (Inr views, w')"
    using runs_ok by blast
  with list_shows_own_todos [OF sample_inv run] show ?thesis by blast
qed

text \<open>
  The lifecycle of a todo: through any sequence of domain operations it stays well formed and
  keeps its identity, its versions never go down, a deleted todo never changes again and a
  completed one never becomes pending.
\<close>

theorem todo_lifecycle:
  assumes "todo_step\<^sup>*\<^sup>* t t'" "todo_wf t"
  shows "todo_wf t' \<and> same_identity t t' \<and> t_Version t \<le> t_Version t'
    \<and> t_ReminderVersion t \<le> t_ReminderVersion t'
    \<and> (t_Status t = StatusDeleted \<longrightarrow> t' = t)
    \<and> (t_Status t = StatusCompleted \<longrightarrow> t_Status t' \<noteq> StatusPending)"
  using todo_steps_facts [OF assms(1)] assms(2) by blast

theorem todo_lifecycle_witness:
  "\<exists>t'. todo_step\<^sup>*\<^sup>* sample_done t' \<and> t_Status t' = StatusDeleted \<and> t_Version sample_done \<le> t_Version t'"
proof -
  have "\<not> isl (Delete 2 200 sample_done)" by code_simp
  then obtain t' where d: "Delete 2 200 sample_done = Inr t'" by (cases "Delete 2 200 sample_done") auto
  then have step: "todo_step\<^sup>*\<^sup>* sample_done t'" by (auto intro: step_delete)
  moreover have "todo_wf sample_done" by code_simp
  ultimately have "t_Version sample_done \<le> t_Version t'" using todo_lifecycle by blast
  with step d show ?thesis by (auto simp: Delete_Inr)
qed

end
